(* ===== verification/Go_Base.thy ===== *)
theory Go_Base
  imports Main "HOL-Library.AList"
begin

text \<open>
  The vocabulary every component shares: Go error values with their wrapping chains
  (\<open>errors.Is\<close>, \<open>errors.As\<close>, \<open>errors.Join\<close>), formatted messages kept as format string and
  arguments, results as sums with the error on the left, and the collections of simplification
  rules the component proofs use.
\<close>

named_theorems result_simps \<open>inversion of result values\<close>
named_theorems go_simps \<open>unfolding of small helper operations\<close>

section \<open>Formatted messages and errors\<close>

text \<open>
  A message is what \<^verbatim>\<open>fmt.Sprintf\<close> gets: the format string of the source and its arguments.
  Nothing in the program reads a message back, so the text itself is never computed.
\<close>

datatype farg = FS string | FI int

type_synonym message = "string \<times> farg list"

text \<open>
  The error values the modelled packages create. \<open>ErrorText\<close> is an opaque error
  (\<^verbatim>\<open>errors.New\<close>, \<^verbatim>\<open>fmt.Errorf\<close> with no \<^verbatim>\<open>%w\<close>, or an error of a package outside the
  repository), \<open>Wrap\<close> is \<^verbatim>\<open>fmt.Errorf\<close> with \<^verbatim>\<open>%w\<close>, \<open>JoinErr\<close> is \<^verbatim>\<open>errors.Join\<close>.
\<close>

datatype error =
    ErrorText message
  | Wrap message error
  | JoinErr "error list"
  | ValidationError message
  | ConflictError message
  | CapacityError message
  | NotFoundError message
  | UnavailableError message
  | ApiNotFound message
  | ApiAlreadyExists message
  | ErrNoServerlessWorkerTemplate
  | BackpressureError string int int
  | DeadlineExceeded
  | Canceled

type_synonym 'a res = "error + 'a"

abbreviation msg :: "string \<Rightarrow> message" where
  "msg s \<equiv> (s, [])"

text \<open>
  \<^verbatim>\<open>errors.Is(err, target)\<close> for a sentinel target and \<^verbatim>\<open>errors.As\<close> for one concrete type:
  both walk the tree of wrapped errors, so both are \<open>err_any\<close> at a predicate.
\<close>

fun err_any :: "(error \<Rightarrow> bool) \<Rightarrow> error \<Rightarrow> bool" where
  "err_any P (Wrap m e) = (P (Wrap m e) \<or> err_any P e)"
| "err_any P (JoinErr es) = (P (JoinErr es) \<or> list_ex (err_any P) es)"
| "err_any P e = P e"

definition errors_Is :: "error \<Rightarrow> error \<Rightarrow> bool" where
  "errors_Is e target = err_any (\<lambda>x. x = target) e"

definition is_backpressure :: "error \<Rightarrow> bool" where
  "is_backpressure e = (case e of BackpressureError _ _ _ \<Rightarrow> True | _ \<Rightarrow> False)"

definition errors_As_backpressure :: "error \<Rightarrow> bool" where
  "errors_As_backpressure e = err_any is_backpressure e"

text \<open>\<^verbatim>\<open>apierrors.IsNotFound\<close> and \<^verbatim>\<open>apierrors.IsAlreadyExists\<close> look at the status reason of an API
  error, through wrapping.\<close>

definition is_api_not_found :: "error \<Rightarrow> bool" where
  "is_api_not_found e = (case e of ApiNotFound _ \<Rightarrow> True | _ \<Rightarrow> False)"

definition is_api_already_exists :: "error \<Rightarrow> bool" where
  "is_api_already_exists e = (case e of ApiAlreadyExists _ \<Rightarrow> True | _ \<Rightarrow> False)"

definition IsNotFound :: "error \<Rightarrow> bool" where
  "IsNotFound e = err_any is_api_not_found e"

definition IsAlreadyExists :: "error \<Rightarrow> bool" where
  "IsAlreadyExists e = err_any is_api_already_exists e"

text \<open>\<^verbatim>\<open>errors.Join(errs...)\<close>: no error when there are none.\<close>

definition errors_Join :: "error list \<Rightarrow> error + unit" where
  "errors_Join es = (if es = [] then Inr () else Inl (JoinErr es))"

lemma errors_Is_simps [simp]:
  "errors_Is (Wrap m e) t \<longleftrightarrow> Wrap m e = t \<or> errors_Is e t"
  "errors_Is ErrNoServerlessWorkerTemplate t \<longleftrightarrow> ErrNoServerlessWorkerTemplate = t"
  "errors_Is (BackpressureError r p l) t \<longleftrightarrow> BackpressureError r p l = t"
  "errors_Is DeadlineExceeded t \<longleftrightarrow> DeadlineExceeded = t"
  by (simp_all add: errors_Is_def)

lemma errors_As_simps [simp]:
  "errors_As_backpressure (Wrap m e) \<longleftrightarrow> errors_As_backpressure e"
  "\<not> errors_As_backpressure ErrNoServerlessWorkerTemplate"
  "errors_As_backpressure (BackpressureError r p l)"
  "\<not> errors_As_backpressure DeadlineExceeded"
  by (simp_all add: errors_As_backpressure_def is_backpressure_def)

lemma api_reason_simps [simp]:
  "IsNotFound (ApiNotFound m)" "\<not> IsNotFound (ApiAlreadyExists m)" "\<not> IsNotFound (ErrorText m)"
  "IsAlreadyExists (ApiAlreadyExists m)" "\<not> IsAlreadyExists (ApiNotFound m)"
  "\<not> IsAlreadyExists (ErrorText m)"
  by (simp_all add: IsNotFound_def IsAlreadyExists_def is_api_not_found_def
      is_api_already_exists_def)

section \<open>Results\<close>

text \<open>Sequencing of fallible calls: \<^verbatim>\<open>x, err := f(); if err != nil { return err }; g(x)\<close>.\<close>

definition andThen :: "'a res \<Rightarrow> ('a \<Rightarrow> 'b res) \<Rightarrow> 'b res" where
  "andThen r f = (case r of Inl e \<Rightarrow> Inl e | Inr x \<Rightarrow> f x)"

definition mapErr :: "(error \<Rightarrow> error) \<Rightarrow> 'a res \<Rightarrow> 'a res" where
  "mapErr f r = (case r of Inl e \<Rightarrow> Inl (f e) | Inr x \<Rightarrow> Inr x)"

definition isOk :: "'a res \<Rightarrow> bool" where
  "isOk r = (case r of Inl _ \<Rightarrow> False | Inr _ \<Rightarrow> True)"

lemma andThen_simps [simp]:
  "andThen (Inl e) f = Inl e" "andThen (Inr x) f = f x"
  by (simp_all add: andThen_def)

lemma mapErr_simps [simp]:
  "mapErr f (Inl e) = Inl (f e)" "mapErr f (Inr x) = Inr x"
  by (simp_all add: mapErr_def)

lemma isOk_simps [simp]: "\<not> isOk (Inl e)" "isOk (Inr x)"
  by (simp_all add: isOk_def)

lemma andThen_Inr_iff [result_simps]:
  "andThen r f = Inr y \<longleftrightarrow> (\<exists>x. r = Inr x \<and> f x = Inr y)"
  by (cases r) simp_all

lemma mapErr_Inr_iff [result_simps]: "mapErr f r = Inr x \<longleftrightarrow> r = Inr x"
  by (cases r) simp_all

lemma guard_Inr_iff [result_simps]:
  "(if c then Inl e else k) = Inr r \<longleftrightarrow> \<not> c \<and> k = Inr r"
  by simp

lemma isOk_iff [result_simps]: "isOk r \<longleftrightarrow> (\<exists>x. r = Inr x)"
  by (cases r) simp_all

text \<open>A loop that stops at the first error, over a list, threading an accumulator.\<close>

fun foldRes :: "('a \<Rightarrow> 's \<Rightarrow> 's res) \<Rightarrow> 'a list \<Rightarrow> 's \<Rightarrow> 's res" where
  "foldRes f [] s = Inr s"
| "foldRes f (x # xs) s = andThen (f x s) (foldRes f xs)"

lemma foldRes_append:
  "foldRes f (xs @ ys) s = andThen (foldRes f xs s) (foldRes f ys)"
  by (induction xs arbitrary: s) (auto simp: andThen_def split: sum.splits)

lemma foldRes_invariant:
  assumes "foldRes f xs s = Inr s'" and "I s"
    and "\<And>x s s'. x \<in> set xs \<Longrightarrow> I s \<Longrightarrow> f x s = Inr s' \<Longrightarrow> I s'"
  shows "I s'"
  using assms by (induction xs arbitrary: s) (auto simp: result_simps)

text \<open>A loop that checks every element and reports the first failure.\<close>

fun checkAll :: "('a \<Rightarrow> unit res) \<Rightarrow> 'a list \<Rightarrow> unit res" where
  "checkAll f [] = Inr ()"
| "checkAll f (x # xs) = andThen (f x) (\<lambda>_. checkAll f xs)"

lemma checkAll_Inr_iff [result_simps]:
  "checkAll f xs = Inr u \<longleftrightarrow> (\<forall>x \<in> set xs. f x = Inr ())"
  by (induction xs) (auto simp: result_simps)

text \<open>A loop that maps every element and stops at the first failure.\<close>

fun mapRes :: "('a \<Rightarrow> 'b res) \<Rightarrow> 'a list \<Rightarrow> 'b list res" where
  "mapRes f [] = Inr []"
| "mapRes f (x # xs) = andThen (f x) (\<lambda>y. andThen (mapRes f xs) (\<lambda>ys. Inr (y # ys)))"

lemma mapRes_Inr_iff [result_simps]:
  "mapRes f xs = Inr ys \<longleftrightarrow> list_all2 (\<lambda>x y. f x = Inr y) xs ys"
  by (induction xs arbitrary: ys) (auto simp: result_simps list_all2_Cons1)

section \<open>Maps as association lists\<close>

text \<open>
  A Go map is an association list with distinct keys; the order of the list is the order in
  which a \<^verbatim>\<open>range\<close> loop meets the entries, which Go leaves open, so a statement about every
  list is a statement about every order. A \<^verbatim>\<open>nil\<close> map and an empty map are both the empty list.
\<close>

type_synonym 'v smap = "(string \<times> 'v) list"

definition map_put :: "string \<Rightarrow> 'v \<Rightarrow> 'v smap \<Rightarrow> 'v smap" where
  "map_put k v m = AList.update k v m"

definition map_del :: "string \<Rightarrow> 'v smap \<Rightarrow> 'v smap" where
  "map_del k m = AList.delete k m"

lemma map_of_map_put [simp]: "map_of (map_put k v m) = (map_of m)(k \<mapsto> v)"
  unfolding map_put_def by (rule update_conv')

lemma map_of_map_del [simp]: "map_of (map_del k m) = (map_of m)(k := None)"
  unfolding map_del_def by (rule delete_conv')

lemma keys_map_put [simp]: "fst ` set (map_put k v m) = insert k (fst ` set m)"
  unfolding map_put_def by (simp add: dom_update)

lemma keys_map_del [simp]: "fst ` set (map_del k m) = fst ` set m - {k}"
  by (simp add: map_del_def delete_keys flip: set_map)

lemma distinct_map_put [simp]:
  "distinct (map fst m) \<Longrightarrow> distinct (map fst (map_put k v m))"
  unfolding map_put_def by (rule distinct_update)

lemma distinct_map_del [simp]:
  "distinct (map fst m) \<Longrightarrow> distinct (map fst (map_del k m))"
  unfolding map_del_def by (rule distinct_delete)

lemma set_map_put: "set (map_put k v m) \<subseteq> insert (k, v) (set m)"
  unfolding map_put_def by (induction m) auto

lemma map_put_other: "(k', v') \<in> set m \<Longrightarrow> k' \<noteq> k \<Longrightarrow> (k', v') \<in> set (map_put k v m)"
  unfolding map_put_def by (induction m) auto

text \<open>Copying a map entry by entry into an empty one.\<close>

lemma fold_map_put_fresh:
  assumes "distinct (map fst m)" "fst ` set m \<inter> fst ` set out = {}"
  shows "fold (\<lambda>(k, v) out. map_put k v out) m out = out @ m"
  using assms
proof (induction m arbitrary: out)
  case (Cons a m)
  obtain k v where a: "a = (k, v)" by fastforce
  have "map_put k v out = out @ [(k, v)]"
    using Cons.prems a unfolding map_put_def by (induction out) auto
  with Cons.IH [of "out @ [(k, v)]"] Cons.prems a show ?case by (auto simp: image_iff)
qed simp

end
