(* ===== verification/Go_Strings.thy ===== *)
theory Go_Strings
  imports Go_Base "HOL-Library.Sublist" "HOL-Library.List_Lexorder" "HOL-Library.Char_ord"
    "HOL-Library.Product_Lexorder"
begin

text \<open>
  The part of Go's \<^verbatim>\<open>strings\<close>, \<^verbatim>\<open>strconv\<close>, \<^verbatim>\<open>path\<close> and \<^verbatim>\<open>sort\<close> packages the program uses. A Go
  string is a list of bytes; the case mapping and the white space of this theory are those of
  ASCII, which is what every identifier the program accepts consists of (the Unicode tables of
  \<^verbatim>\<open>strings.ToLower\<close> and \<^verbatim>\<open>unicode.IsSpace\<close> beyond ASCII are left out, so a byte from 128 on is
  neither changed nor trimmed). Strings are ordered bytewise, as Go's \<^verbatim>\<open><\<close> does. \<^verbatim>\<open>sort.Slice\<close>
  is \<open>sort_key\<close>, a stable sort: Go leaves the order of equal elements open, and the code
  sorts by keys that are unique or, where they are not, the statements proved do not depend on it.
\<close>

section \<open>Trimming and case\<close>

definition isSpace :: "char \<Rightarrow> bool" where
  "isSpace c = (c = CHR 0x09 \<or> c = CHR 0x0A \<or> c = CHR 0x0B \<or> c = CHR 0x0C \<or> c = CHR 0x0D \<or> c = CHR '' '')"

definition trim_right :: "(char \<Rightarrow> bool) \<Rightarrow> string \<Rightarrow> string" where
  "trim_right P s = rev (dropWhile P (rev s))"

definition trim_by :: "(char \<Rightarrow> bool) \<Rightarrow> string \<Rightarrow> string" where
  "trim_by P s = trim_right P (dropWhile P s)"

definition TrimSpace :: "string \<Rightarrow> string" where
  "TrimSpace s = trim_by isSpace s"

text \<open>\<^verbatim>\<open>strings.Trim\<close> and \<^verbatim>\<open>strings.TrimRight\<close> with a cut set of one character.\<close>

definition TrimChar :: "string \<Rightarrow> char \<Rightarrow> string" where
  "TrimChar s c = trim_by (\<lambda>x. x = c) s"

definition TrimRightChar :: "string \<Rightarrow> char \<Rightarrow> string" where
  "TrimRightChar s c = trim_right (\<lambda>x. x = c) s"

definition lower_char :: "char \<Rightarrow> char" where
  "lower_char c = (if CHR ''A'' \<le> c \<and> c \<le> CHR ''Z'' then char_of (of_char c + (32::nat)) else c)"

definition ToLower :: "string \<Rightarrow> string" where
  "ToLower s = map lower_char s"

definition HasPrefix :: "string \<Rightarrow> string \<Rightarrow> bool" where
  "HasPrefix s p = (take (length p) s = p)"

definition TrimPrefix :: "string \<Rightarrow> string \<Rightarrow> string" where
  "TrimPrefix s p = (if HasPrefix s p then drop (length p) s else s)"

definition ContainsAny :: "string \<Rightarrow> string \<Rightarrow> bool" where
  "ContainsAny s cs = list_ex (\<lambda>c. c \<in> set cs) s"

text \<open>A string with nothing left to trim.\<close>

definition trimmed_by :: "(char \<Rightarrow> bool) \<Rightarrow> string \<Rightarrow> bool" where
  "trimmed_by P s = (s = [] \<or> \<not> P (hd s) \<and> \<not> P (last s))"

definition trimmed :: "string \<Rightarrow> bool" where
  "trimmed s = trimmed_by isSpace s"

lemma hd_dropWhile_last: "dropWhile P s \<noteq> [] \<Longrightarrow> last (dropWhile P s) = last s"
  by (induction s) auto

lemma trim_right_suffix: "prefix (trim_right P s) s"
proof -
  have "s = trim_right P s @ rev (takeWhile P (rev s))"
    unfolding trim_right_def by (metis rev_append rev_rev_ident takeWhile_dropWhile_id)
  then show ?thesis by (metis prefixI)
qed

lemma hd_trim_right: "trim_right P s \<noteq> [] \<Longrightarrow> hd (trim_right P s) = hd s"
  using trim_right_suffix [of P s] by (metis hd_append2 prefixE)

lemma last_trim_right: "trim_right P s \<noteq> [] \<Longrightarrow> \<not> P (last (trim_right P s))"
  unfolding trim_right_def by (simp add: last_rev hd_dropWhile)

lemma length_trim_right: "length (trim_right P s) \<le> length s"
  unfolding trim_right_def by (metis length_dropWhile_le length_rev)

lemma length_trim_by: "length (trim_by P s) \<le> length s"
  unfolding trim_by_def
  by (rule le_trans [OF length_trim_right]) (rule length_dropWhile_le)

lemma trimmed_by_trim_by: "trimmed_by P (trim_by P s)"
proof (cases "trim_by P s = []")
  case False
  then have "dropWhile P s \<noteq> []" by (metis dropWhile.simps(1) rev.simps(1) trim_by_def trim_right_def)
  then have "\<not> P (hd (dropWhile P s))" using hd_dropWhile by blast
  with False show ?thesis
    by (simp add: trimmed_by_def trim_by_def hd_trim_right last_trim_right)
qed (simp add: trimmed_by_def)

lemma trim_by_id: "trimmed_by P s \<Longrightarrow> trim_by P s = s"
proof (cases s)
  case (Cons a t)
  assume "trimmed_by P s"
  with Cons have 1: "\<not> P a" and 2: "\<not> P (last s)" by (auto simp: trimmed_by_def)
  from 1 Cons have "dropWhile P s = s" by simp
  moreover from 2 Cons have "dropWhile P (rev s) = rev s"
    by (metis dropWhile_eq_self_iff hd_rev list.discI)
  ultimately show ?thesis by (simp add: trim_by_def trim_right_def)
qed (simp add: trim_by_def trim_right_def)

lemma trim_by_idem [simp]: "trim_by P (trim_by P s) = trim_by P s"
  by (rule trim_by_id) (rule trimmed_by_trim_by)

lemma set_trim_right: "set (trim_right P s) \<subseteq> set s"
  unfolding trim_right_def by (metis set_dropWhileD set_rev subsetI)

lemma set_trim_by: "set (trim_by P s) \<subseteq> set s"
  unfolding trim_by_def by (meson order_trans set_dropWhileD set_trim_right subsetI)

lemma TrimSpace_idem [simp]: "TrimSpace (TrimSpace s) = TrimSpace s"
  by (simp add: TrimSpace_def)

lemma trimmed_TrimSpace [simp]: "trimmed (TrimSpace s)"
  by (simp add: trimmed_def TrimSpace_def trimmed_by_trim_by)

lemma TrimSpace_id: "trimmed s \<Longrightarrow> TrimSpace s = s"
  by (simp add: trimmed_def TrimSpace_def trim_by_id)

lemma trimmed_iff: "trimmed s \<longleftrightarrow> TrimSpace s = s"
  by (metis TrimSpace_id trimmed_TrimSpace)

lemma TrimSpace_Nil [simp]: "TrimSpace [] = []"
  by (simp add: TrimSpace_def trim_by_def trim_right_def)

lemma dropWhile_map: "dropWhile P (map f s) = map f (dropWhile (P \<circ> f) s)"
  by (induction s) auto

lemma char_code_inj: "of_char a = (of_char b :: nat) \<longleftrightarrow> a = b"
  by (metis char_of_char)

lemma lower_char_code:
  "of_char (lower_char c) = (if 65 \<le> (of_char c :: nat) \<and> (of_char c :: nat) \<le> 90
     then of_char c + 32 else (of_char c :: nat))"
proof -
  have "(of_char (CHR ''A'') :: nat) = 65" "(of_char (CHR ''Z'') :: nat) = 90" by simp_all
  then have "CHR ''A'' \<le> c \<and> c \<le> CHR ''Z'' \<longleftrightarrow> 65 \<le> (of_char c :: nat) \<and> (of_char c :: nat) \<le> 90"
    by (simp add: less_eq_char_def)
  then show ?thesis by (simp add: lower_char_def of_char_of)
qed

lemma lower_char_idem [simp]: "lower_char (lower_char c) = lower_char c"
proof -
  have "(of_char (lower_char (lower_char c)) :: nat) = of_char (lower_char c)"
    by (simp add: lower_char_code)
  then show ?thesis by (simp only: char_code_inj)
qed

lemma isSpace_code: "isSpace c \<longleftrightarrow> (of_char c :: nat) \<in> {9, 10, 11, 12, 13, 32}"
proof -
  have "c = CHR 0x09 \<longleftrightarrow> (of_char c :: nat) = 9" "c = CHR 0x0A \<longleftrightarrow> (of_char c :: nat) = 10"
    "c = CHR 0x0B \<longleftrightarrow> (of_char c :: nat) = 11" "c = CHR 0x0C \<longleftrightarrow> (of_char c :: nat) = 12"
    "c = CHR 0x0D \<longleftrightarrow> (of_char c :: nat) = 13" "c = CHR '' '' \<longleftrightarrow> (of_char c :: nat) = 32"
    by (simp_all flip: char_code_inj)
  then show ?thesis by (simp add: isSpace_def)
qed

lemma isSpace_lower_char [simp]: "isSpace (lower_char c) \<longleftrightarrow> isSpace c"
  by (auto simp: isSpace_code lower_char_code)

lemma ToLower_idem [simp]: "ToLower (ToLower s) = ToLower s"
  by (simp add: ToLower_def comp_def)

lemma ToLower_eq_Nil [simp]: "ToLower s = [] \<longleftrightarrow> s = []"
  by (simp add: ToLower_def)

lemma length_ToLower [simp]: "length (ToLower s) = length s"
  by (simp add: ToLower_def)

lemma TrimSpace_ToLower: "TrimSpace (ToLower s) = ToLower (TrimSpace s)"
  by (simp add: TrimSpace_def trim_by_def trim_right_def ToLower_def dropWhile_map rev_map comp_def)

lemma ToLower_TrimSpace_idem [simp]:
  "ToLower (TrimSpace (ToLower (TrimSpace s))) = ToLower (TrimSpace s)"
  by (simp add: TrimSpace_ToLower)

lemma HasPrefix_iff: "HasPrefix s p \<longleftrightarrow> (\<exists>r. s = p @ r)"
  by (auto simp: HasPrefix_def) (metis append_take_drop_id)

lemma HasPrefix_append [simp]: "HasPrefix (p @ r) p"
  by (auto simp: HasPrefix_iff)

section \<open>Defaults\<close>

text \<open>\<^verbatim>\<open>if x == "" { x = d }\<close> and \<^verbatim>\<open>if x == 0 { x = d }\<close>.\<close>

definition or_default :: "string \<Rightarrow> string \<Rightarrow> string" where
  "or_default x d = (if x = [] then d else x)"

definition or_default_int :: "int \<Rightarrow> int \<Rightarrow> int" where
  "or_default_int x d = (if x = 0 then d else x)"

lemma or_default_nonempty [simp]: "or_default x d = [] \<longleftrightarrow> x = [] \<and> d = []"
  by (simp add: or_default_def)

lemma or_default_pred: "P x \<Longrightarrow> P d \<Longrightarrow> P (or_default x d)"
  by (simp add: or_default_def)

lemma or_default_id [simp]: "x \<noteq> [] \<Longrightarrow> or_default x d = x" "or_default [] d = d"
  by (simp_all add: or_default_def)

lemma or_default_int_id [simp]: "x \<noteq> 0 \<Longrightarrow> or_default_int x d = x" "or_default_int 0 d = d"
  by (simp_all add: or_default_int_def)

section \<open>Splitting and joining at one character\<close>

text \<open>\<^verbatim>\<open>strings.Split(s, sep)\<close> for a separator of one byte: never the empty list.\<close>

fun split_on :: "char \<Rightarrow> string \<Rightarrow> string list" where
  "split_on c [] = [[]]"
| "split_on c (x # xs) =
     (if x = c then [] # split_on c xs
      else (case split_on c xs of [] \<Rightarrow> [[x]] | w # ws \<Rightarrow> (x # w) # ws))"

fun join :: "string \<Rightarrow> string list \<Rightarrow> string" where
  "join sep [] = []"
| "join sep [w] = w"
| "join sep (w # v # ws) = w @ sep @ join sep (v # ws)"

lemma split_on_nonempty [simp]: "split_on c s \<noteq> []"
  by (induction s) (auto split: list.splits)

lemma join_split_on [simp]: "join [c] (split_on c s) = s"
proof (induction s)
  case (Cons x s)
  obtain w ws where w: "split_on c s = w # ws" by (cases "split_on c s") auto
  with Cons show ?case by (cases ws) auto
qed simp

lemma split_on_no_sep: "w \<in> set (split_on c s) \<Longrightarrow> c \<notin> set w"
  by (induction s arbitrary: w) (auto split: if_splits list.splits)

lemma split_on_append: "split_on c (u @ c # v) = split_on c u @ split_on c v"
  by (induction u) (auto split: list.splits)

lemma split_on_single: "c \<notin> set w \<Longrightarrow> split_on c w = [w]"
  by (induction w) auto

lemma split_on_join:
  assumes "ws \<noteq> []" and "\<And>w. w \<in> set ws \<Longrightarrow> c \<notin> set w"
  shows "split_on c (join [c] ws) = ws"
  using assms
proof (induction "[c]" ws rule: join.induct)
  case (3 w v ws)
  then have "split_on c (join [c] (v # ws)) = v # ws" by simp
  with 3 show ?case by (simp add: split_on_append split_on_single)
qed (simp_all add: split_on_single)

section \<open>path.Clean\<close>

text \<open>
  \<^verbatim>\<open>path.Clean\<close> by path elements: empty elements and \<open>.\<close> disappear, \<open>..\<close> removes the element
  before it, and at the root of an absolute path it disappears. The stack is kept in reverse.
\<close>

definition clean_step :: "bool \<Rightarrow> string \<Rightarrow> string list \<Rightarrow> string list" where
  "clean_step rooted w st =
     (if w = [] \<or> w = ''.'' then st
      else if w = ''..'' then
        (case st of
           [] \<Rightarrow> if rooted then [] else [''..'']
         | t # ts \<Rightarrow> if t = ''..'' then ''..'' # st else ts)
      else w # st)"

definition clean_elems :: "bool \<Rightarrow> string list \<Rightarrow> string list" where
  "clean_elems rooted ws = rev (fold (clean_step rooted) ws [])"

definition IsAbs :: "string \<Rightarrow> bool" where
  "IsAbs p = HasPrefix p ''/''"

definition Clean :: "string \<Rightarrow> string" where
  "Clean p =
     (if p = [] then ''.''
      else let body = join ''/'' (clean_elems (IsAbs p) (split_on CHR ''/'' p))
           in if IsAbs p then ''/'' @ body
              else if body = [] then ''.'' else body)"

text \<open>An element that a clean absolute path can have.\<close>

definition clean_elem :: "string \<Rightarrow> bool" where
  "clean_elem w = (w \<noteq> [] \<and> w \<noteq> ''.'' \<and> w \<noteq> ''..'' \<and> CHR ''/'' \<notin> set w)"

definition clean_abs :: "string \<Rightarrow> bool" where
  "clean_abs p = (\<exists>ws. list_all clean_elem ws \<and> p = ''/'' @ join ''/'' ws)"

lemma clean_step_elems:
  assumes "list_all clean_elem st" and "CHR ''/'' \<notin> set w"
  shows "list_all clean_elem (clean_step True w st)"
  using assms by (cases st) (auto simp: clean_step_def clean_elem_def)

lemma fold_clean_elems:
  assumes "list_all clean_elem st" and "\<And>w. w \<in> set ws \<Longrightarrow> CHR ''/'' \<notin> set w"
  shows "list_all clean_elem (fold (clean_step True) ws st)"
  using assms by (induction ws arbitrary: st) (auto simp: clean_step_elems)

lemma clean_elems_elems: "list_all clean_elem (clean_elems True (split_on CHR ''/'' p))"
  unfolding clean_elems_def list_all_rev
  by (rule fold_clean_elems) (auto dest: split_on_no_sep)

lemma fold_clean_id:
  "list_all clean_elem ws \<Longrightarrow> fold (clean_step r) ws st = rev ws @ st"
  by (induction ws arbitrary: st) (auto simp: clean_step_def clean_elem_def)

lemma clean_elems_id: "list_all clean_elem ws \<Longrightarrow> clean_elems r ws = ws"
  by (simp add: clean_elems_def fold_clean_id)

lemma clean_elems_Nil_Cons [simp]: "clean_elems r ([] # ws) = clean_elems r ws"
  by (simp add: clean_elems_def clean_step_def)

lemma split_on_clean_abs:
  assumes "list_all clean_elem ws"
  shows "split_on CHR ''/'' (''/'' @ join ''/'' ws) = [] # (if ws = [] then [[]] else ws)"
  using assms split_on_join [of ws "CHR ''/''"] by (auto simp: list_all_iff clean_elem_def)

lemma IsAbs_slash [simp]: "IsAbs (CHR ''/'' # p)"
  by (simp add: IsAbs_def HasPrefix_def)

lemma Clean_abs: "IsAbs p \<Longrightarrow> clean_abs (Clean p)"
  using clean_elems_elems [of p]
  by (auto simp: Clean_def clean_abs_def Let_def IsAbs_def HasPrefix_def)

lemma Clean_id:
  assumes "clean_abs p"
  shows "Clean p = p"
proof -
  obtain ws where ws: "list_all clean_elem ws" "p = CHR ''/'' # join ''/'' ws"
    using assms by (auto simp: clean_abs_def)
  have "clean_elems True (split_on CHR ''/'' p) = ws"
    using split_on_clean_abs [OF ws(1)] ws by (auto simp: clean_elems_id simp del: split_on.simps)
  moreover have "IsAbs p" "p \<noteq> []" using ws(2) by simp_all
  ultimately show ?thesis using ws(2) by (simp add: Clean_def)
qed

lemma clean_abs_IsAbs: "clean_abs p \<Longrightarrow> IsAbs p"
  by (auto simp: clean_abs_def)

lemma Clean_idem: "IsAbs p \<Longrightarrow> Clean (Clean p) = Clean p"
  by (rule Clean_id) (rule Clean_abs)

text \<open>A clean absolute path that textually extends \<open>d/\<close> names something below the directory \<open>d\<close>.\<close>

definition path_below :: "string \<Rightarrow> string \<Rightarrow> bool" where
  "path_below d p = (\<exists>ws. ws \<noteq> [] \<and> list_all clean_elem ws \<and> p = d @ ''/'' @ join ''/'' ws)"

lemma clean_abs_below:
  assumes "clean_abs p" and "HasPrefix p (d @ ''/'')" and "d \<noteq> []"
  shows "path_below d p"
proof -
  obtain ws where ws: "list_all clean_elem ws" "p = ''/'' @ join ''/'' ws"
    using assms(1) by (auto simp: clean_abs_def)
  obtain r where r: "p = d @ CHR ''/'' # r" using assms(2) by (auto simp: HasPrefix_iff)
  have eq: "split_on CHR ''/'' d @ split_on CHR ''/'' r = [] # (if ws = [] then [[]] else ws)"
    using split_on_clean_abs [OF ws(1)] ws(2) r split_on_append [of "CHR ''/''" d r] by metis
  obtain w ws' where d: "split_on CHR ''/'' d = w # ws'" by (cases "split_on CHR ''/'' d") auto
  have "ws' \<noteq> []"
  proof
    assume "ws' = []"
    with eq d have "split_on CHR ''/'' d = [[]]" by simp
    then have "d = []" by (metis join.simps(2) join_split_on)
    with assms(3) show False by simp
  qed
  with eq d have "set (split_on CHR ''/'' r) \<subseteq> set ws"
    by (cases ws') (auto split: if_splits simp: append_eq_Cons_conv Cons_eq_append_conv)
  with ws(1) have "list_all clean_elem (split_on CHR ''/'' r)" by (auto simp: list_all_iff)
  then show ?thesis unfolding path_below_def using r
    by (intro exI [of _ "split_on CHR ''/'' r"]) simp
qed

end
