(* ===== verification/Go_Time.thy ===== *)
theory Go_Time
  imports Go_Strings
begin

text \<open>
  Numbers and durations: \<^verbatim>\<open>strconv.FormatInt\<close>, \<^verbatim>\<open>strconv.Atoi\<close> and \<^verbatim>\<open>time.ParseDuration\<close>. A
  \<^verbatim>\<open>time.Duration\<close> is an \<open>int\<close> number of nanoseconds and the range of \<^verbatim>\<open>int64\<close> is checked where
  Go checks it. A \<^verbatim>\<open>time.Time\<close> is an \<open>int\<close> number of nanoseconds after the zero time, which
  is 0, so that \<^verbatim>\<open>IsZero\<close> is equality with 0. The fraction of a duration such as \<open>1.5s\<close> is
  computed exactly and rounded down, where the Go library multiplies \<^verbatim>\<open>float64\<close> values.
\<close>

type_synonym duration = int
type_synonym gotime = int

definition second :: duration where "second = 1000000000"
definition minute :: duration where "minute = 60 * second"

definition max_int64 :: int where "max_int64 = 9223372036854775807"

text \<open>\<^verbatim>\<open>time.Time.UnixNano\<close>: the zero time is the first of January of the year 1.\<close>

definition UnixNano :: "gotime \<Rightarrow> int" where
  "UnixNano t = t - 62135596800 * second"

text \<open>\<^verbatim>\<open>time.NewTicker\<close> panics (\<open>None\<close>) when the interval is not positive.\<close>

definition NewTicker :: "duration \<Rightarrow> duration option" where
  "NewTicker d = (if d \<le> 0 then None else Some d)"

section \<open>Integers as strings\<close>

definition digit_char :: "nat \<Rightarrow> char" where
  "digit_char d = (if d < 10 then char_of (48 + d) else char_of (87 + d))"

function nat_to_base :: "nat \<Rightarrow> nat \<Rightarrow> string" where
  "nat_to_base b n =
     (if b < 2 then [] else if n < b then [digit_char n]
      else nat_to_base b (n div b) @ [digit_char (n mod b)])"
  by pat_completeness auto
termination
  by (relation "measure snd") auto

declare nat_to_base.simps [simp del]

definition FormatInt :: "int \<Rightarrow> nat \<Rightarrow> string" where
  "FormatInt i b = (if i < 0 then ''-'' @ nat_to_base b (nat (- i)) else nat_to_base b (nat i))"

definition isDigit :: "char \<Rightarrow> bool" where
  "isDigit c = (CHR ''0'' \<le> c \<and> c \<le> CHR ''9'')"

definition digit_val :: "char \<Rightarrow> nat" where
  "digit_val c = of_char c - 48"

definition digits_val :: "string \<Rightarrow> nat" where
  "digits_val s = fold (\<lambda>c n. 10 * n + digit_val c) s 0"

text \<open>A decimal number with an optional sign.\<close>

definition parse_decimal :: "string \<Rightarrow> int option" where
  "parse_decimal s =
     (let (neg, ds) =
        (case s of [] \<Rightarrow> (False, [])
         | c # cs \<Rightarrow> if c = CHR ''-'' then (True, cs) else if c = CHR ''+'' then (False, cs) else (False, s))
      in if ds = [] \<or> \<not> list_all isDigit ds then None
         else let v = int (digits_val ds) in Some (if neg then - v else v))"

text \<open>\<^verbatim>\<open>strconv.Atoi\<close> on a 64-bit platform; \<open>None\<close> is the syntax or range error.\<close>

definition Atoi :: "string \<Rightarrow> int option" where
  "Atoi s = (case parse_decimal s of None \<Rightarrow> None
     | Some r \<Rightarrow> if - max_int64 - 1 \<le> r \<and> r \<le> max_int64 then Some r else None)"

lemma nat_to_base_nonempty: "2 \<le> b \<Longrightarrow> nat_to_base b n \<noteq> []"
  by (subst nat_to_base.simps) auto

lemma decimal_digit:
  assumes "d < 10"
  shows "isDigit (digit_char d)" "digit_val (digit_char d) = d"
  using assms by (auto simp: isDigit_def digit_val_def digit_char_def less_eq_char_def of_char_of)

lemma digits_val_snoc: "digits_val (s @ [c]) = 10 * digits_val s + digit_val c"
  by (simp add: digits_val_def)

lemma decimal_digits: "list_all isDigit (nat_to_base 10 n) \<and> digits_val (nat_to_base 10 n) = n"
proof (induction n rule: less_induct)
  case (less n)
  show ?case
  proof (cases "n < 10")
    case True
    then show ?thesis using digits_val_snoc [of "[]"]
      by (simp add: nat_to_base.simps [of 10 n] decimal_digit digits_val_def)
  next
    case False
    with less [of "n div 10"] show ?thesis
      by (simp add: nat_to_base.simps [of 10 n] decimal_digit digits_val_snoc)
  qed
qed

text \<open>A number printed in base ten parses back.\<close>

lemma parse_decimal_FormatInt: "parse_decimal (FormatInt i 10) = Some i"
proof -
  have d: "list_all isDigit (nat_to_base 10 n)" "digits_val (nat_to_base 10 n) = n" "nat_to_base 10 n \<noteq> []" for n
    using decimal_digits [of n] nat_to_base_nonempty [of 10 n] by simp_all
  show ?thesis
  proof (cases "i < 0")
    case True
    with d [of "nat (- i)"] show ?thesis by (simp add: parse_decimal_def FormatInt_def)
  next
    case False
    obtain c cs where n: "nat_to_base 10 (nat i) = c # cs" using d(3) by (meson list.exhaust)
    then have "isDigit c" using d(1) [of "nat i"] by simp
    then have "c \<noteq> CHR ''-''" "c \<noteq> CHR ''+''" by (auto simp: isDigit_def less_eq_char_def)
    with False d [of "nat i"] n show ?thesis by (simp add: parse_decimal_def FormatInt_def)
  qed
qed

section \<open>Durations\<close>

definition unit_of :: "string \<Rightarrow> int option" where
  "unit_of u =
     (if u = ''ns'' then Some 1
      else if u = ''us'' \<or> u = [CHR 0xC2, CHR 0xB5, CHR ''s''] \<or> u = [CHR 0xCE, CHR 0xBC, CHR ''s'']
        then Some 1000
      else if u = ''ms'' then Some 1000000
      else if u = ''s'' then Some second
      else if u = ''m'' then Some minute
      else if u = ''h'' then Some (60 * minute)
      else None)"

definition is_num_char :: "char \<Rightarrow> bool" where
  "is_num_char c = (c = CHR ''.'' \<or> isDigit c)"

text \<open>The fraction \<^verbatim>\<open>(\.[0-9]*)?\<close>: its digits and the rest of the string.\<close>

definition scan_fraction :: "string \<Rightarrow> string \<times> string" where
  "scan_fraction s =
     (case s of
        c # cs \<Rightarrow> if c = CHR ''.'' then (takeWhile isDigit cs, dropWhile isDigit cs) else ([], s)
      | [] \<Rightarrow> ([], s))"

definition component_value :: "string \<Rightarrow> string \<Rightarrow> int \<Rightarrow> int" where
  "component_value ip fp un =
     int (digits_val ip) * un + int (digits_val fp) * un div 10 ^ length fp"

text \<open>
  One component of a duration, digits, an optional fraction and a unit: its value in
  nanoseconds and the rest of the string; \<open>None\<close> for a syntax error or an overflow.
\<close>

definition parse_component :: "string \<Rightarrow> (int \<times> string) option" where
  "parse_component s =
     (if s = [] \<or> \<not> is_num_char (hd s) then None
      else
        let ip = takeWhile isDigit s;
            (fp, s2) = scan_fraction (dropWhile isDigit s);
            u = takeWhile (\<lambda>c. \<not> is_num_char c) s2; s3 = dropWhile (\<lambda>c. \<not> is_num_char c) s2
        in if ip = [] \<and> fp = [] then None
           else if u = [] then None
           else case unit_of u of
                  None \<Rightarrow> None
                | Some un \<Rightarrow>
                    if component_value ip fp un > max_int64 + 1 then None
                    else Some (component_value ip fp un, s3))"

lemma scan_fraction_length: "scan_fraction s = (fp, r) \<Longrightarrow> length r \<le> length s"
  by (auto simp: scan_fraction_def length_dropWhile_le le_SucI split: list.splits if_splits)

lemma unit_of_pos: "unit_of u = Some un \<Longrightarrow> 0 < un"
  by (auto simp: unit_of_def second_def minute_def split: if_splits)

lemma dropWhile_shorter: "takeWhile P s \<noteq> [] \<Longrightarrow> length (dropWhile P s) < length s"
  by (metis append_Nil length_append less_add_same_cancel2 length_greater_0_conv
      takeWhile_dropWhile_id)

lemma parse_component_Some:
  assumes "parse_component s = Some (v, r)"
  obtains s2 ip fp un where "r = dropWhile (\<lambda>c. \<not> is_num_char c) s2"
    "takeWhile (\<lambda>c. \<not> is_num_char c) s2 \<noteq> []" "length s2 \<le> length s"
    "0 < un" "v = component_value ip fp un"
proof -
  obtain fp s2 where f: "scan_fraction (dropWhile isDigit s) = (fp, s2)" by fastforce
  have "length s2 \<le> length s"
    using scan_fraction_length [OF f] length_dropWhile_le [of isDigit s] by simp
  with assms f show ?thesis
    by (auto simp: parse_component_def Let_def split: if_splits option.splits
        intro: that dest: unit_of_pos)
qed

lemma parse_component_decreases: "parse_component s = Some (v, r) \<Longrightarrow> length r < length s"
  using dropWhile_shorter less_le_trans by (metis parse_component_Some)

lemma component_value_nonneg: "0 < un \<Longrightarrow> 0 \<le> component_value ip fp un"
  unfolding component_value_def
  by (intro add_nonneg_nonneg) (simp_all add: pos_imp_zdiv_nonneg_iff)

lemma parse_component_nonneg: "parse_component s = Some (v, r) \<Longrightarrow> 0 \<le> v"
  by (erule parse_component_Some) (simp add: component_value_nonneg)

function parse_components :: "int \<Rightarrow> string \<Rightarrow> int option" where
  "parse_components d s =
     (if s = [] then Some d
      else case parse_component s of
             None \<Rightarrow> None
           | Some (v, r) \<Rightarrow> if d + v > max_int64 + 1 then None else parse_components (d + v) r)"
  by pat_completeness auto
termination
  by (relation "measure (\<lambda>(d, s). length s)") (auto dest: parse_component_decreases)

declare parse_components.simps [simp del]

definition ParseDuration :: "string \<Rightarrow> duration option" where
  "ParseDuration s =
     (let (neg, t) =
        (case s of [] \<Rightarrow> (False, [])
         | c # cs \<Rightarrow> if c = CHR ''-'' then (True, cs) else if c = CHR ''+'' then (False, cs) else (False, s))
      in if t = ''0'' then Some 0
         else if t = [] then None
         else case parse_components 0 t of
                None \<Rightarrow> None
              | Some d \<Rightarrow> if neg then Some (- d) else if d > max_int64 then None else Some d)"

text \<open>The literals the program uses as defaults.\<close>

lemma ParseDuration_defaults:
  "ParseDuration ''2s'' = Some (2 * second)"
  "ParseDuration ''10s'' = Some (10 * second)"
  "ParseDuration ''30s'' = Some (30 * second)"
  "ParseDuration ''15s'' = Some (15 * second)"
  "ParseDuration ''5s'' = Some (5 * second)"
  "ParseDuration ''2m'' = Some (120 * second)"
  "ParseDuration ''5m'' = Some (300 * second)"
  "ParseDuration ''24h'' = Some (86400 * second)"
  "ParseDuration ''72h'' = Some (259200 * second)"
  by code_simp+

lemma parse_components_bounds:
  "parse_components d s = Some r \<Longrightarrow> 0 \<le> d \<Longrightarrow> d \<le> max_int64 + 1 \<Longrightarrow> d \<le> r \<and> r \<le> max_int64 + 1"
proof (induction d s rule: parse_components.induct)
  case (1 d s)
  show ?case
  proof (cases "s = []")
    case True
    with "1.prems" show ?thesis by (simp add: parse_components.simps)
  next
    case False
    with "1.prems" obtain v r' where c: "parse_component s = Some (v, r')"
        and le: "d + v \<le> max_int64 + 1" and rec: "parse_components (d + v) r' = Some r"
      by (auto simp: parse_components.simps [of d s] split: option.splits if_splits)
    have "0 \<le> v" using c by (rule parse_component_nonneg)
    with "1.IH" [OF False c refl] le rec "1.prems" show ?thesis by simp
  qed
qed

text \<open>A parsed duration is an \<^verbatim>\<open>int64\<close>.\<close>

lemma ParseDuration_int64:
  "ParseDuration s = Some d \<Longrightarrow> - max_int64 - 1 \<le> d \<and> d \<le> max_int64"
  using parse_components_bounds [of 0]
  by (fastforce simp: ParseDuration_def Let_def max_int64_def split: list.splits if_splits option.splits)

end
