(* ===== verification/Api_Types.thy ===== *)
theory Api_Types
  imports Go_Time
begin

text \<open>
  The data model: the custom resources of \<^verbatim>\<open>api/v1alpha1\<close> (\<open>GPUUnit\<close>, \<open>GPUStorage\<close>), the
  API views of \<^verbatim>\<open>pkg/domain\<close>, their constants, and the functions of the Kubernetes libraries the
  program calls as parameters. Field names are those of the Go structs with a prefix per struct.
  \<^verbatim>\<open>int32\<close> and \<^verbatim>\<open>int64\<close> fields the code only compares are \<open>int\<close>.
\<close>

section \<open>Constants of api/v1alpha1\<close>

definition PhaseReady :: string where "PhaseReady = ''Ready''"
definition PhaseProgressing :: string where "PhaseProgressing = ''Progressing''"
definition PhaseFailed :: string where "PhaseFailed = ''Failed''"
definition ConditionReady :: string where "ConditionReady = ''Ready''"
definition LifecycleInstance :: string where "LifecycleInstance = ''instance''"
definition DefaultAccessScheme :: string where "DefaultAccessScheme = ''http''"
definition DefaultUnitSSHUsername :: string where "DefaultUnitSSHUsername = ''runtime''"
definition DefaultUnitSSHPort :: int where "DefaultUnitSSHPort = 2222"
definition DefaultUnitSSHFRPPort :: int where "DefaultUnitSSHFRPPort = 7000"
definition DefaultUnitSSHProxyPort :: int where "DefaultUnitSSHProxyPort = 1337"
definition DefaultUnitSSHImage :: string where
  "DefaultUnitSSHImage = ''lscr.io/linuxserver/openssh-server:10.2_p1-r0-ls220''"
definition DefaultUnitSSHFRPImage :: string where
  "DefaultUnitSSHFRPImage = ''docker.io/fatedier/frpc:v0.68.0''"
definition UnitDRAClaimRequestName :: string where "UnitDRAClaimRequestName = ''gpu''"
definition DefaultServerlessFrameworkSocketDir :: string where
  "DefaultServerlessFrameworkSocketDir = ''/tmp/serverless-framework''"
definition DefaultServerlessFrameworkSocketPath :: string where
  "DefaultServerlessFrameworkSocketPath = ''/tmp/serverless-framework/framework.sock''"
definition DefaultServerlessFrameworkInvokePath :: string where
  "DefaultServerlessFrameworkInvokePath = ''/invoke''"
definition DefaultServerlessFrameworkHealthPath :: string where
  "DefaultServerlessFrameworkHealthPath = ''/healthz''"
definition GPUUnitNamePrefix :: string where "GPUUnitNamePrefix = ''unit-''"
definition DefaultInstanceNamespace :: string where "DefaultInstanceNamespace = ''runtime-instance''"
definition AnnotationOperationID :: string where
  "AnnotationOperationID = ''runtime.lokiwager.io/operation-id''"
definition AnnotationRequestHash :: string where
  "AnnotationRequestHash = ''runtime.lokiwager.io/request-hash''"
definition LabelAppNameKey :: string where "LabelAppNameKey = ''app.kubernetes.io/name''"
definition LabelManagedByKey :: string where "LabelManagedByKey = ''app.kubernetes.io/managed-by''"
definition LabelUnitKey :: string where "LabelUnitKey = ''runtime.lokiwager.io/unit''"
definition LabelStorageKey :: string where "LabelStorageKey = ''runtime.lokiwager.io/storage''"
definition LabelAppNameValue :: string where "LabelAppNameValue = ''gpu-runtime-unit''"
definition LabelManagedByValue :: string where "LabelManagedByValue = ''gpu-runtime-operator''"
definition DefaultGPUStorageClassName :: string where
  "DefaultGPUStorageClassName = ''rook-ceph-block''"
definition AnnotationStorageRecoveryNonce :: string where
  "AnnotationStorageRecoveryNonce = ''runtime.lokiwager.io/storage-recovery-nonce''"

section \<open>GPUUnit\<close>

record GPUUnitEnvVar =
  env_Name :: string
  env_Value :: string

record GPUUnitPortSpec =
  port_Name :: string
  port_Port :: int
  port_Protocol :: string

record GPUUnitTemplate =
  tpl_Command :: "string list"
  tpl_Args :: "string list"
  tpl_Envs :: "GPUUnitEnvVar list"
  tpl_Ports :: "GPUUnitPortSpec list"

record GPUUnitAccess =
  acc_PrimaryPort :: string
  acc_Scheme :: string

record GPUUnitSSHSpec =
  ssh_Enabled :: bool
  ssh_Username :: string
  ssh_AuthorizedKeys :: "string list"
  ssh_Port :: int
  ssh_ServerAddr :: string
  ssh_ServerPort :: int
  ssh_ConnectHost :: string
  ssh_ConnectPort :: int
  ssh_DomainSuffix :: string
  ssh_ClientName :: string
  ssh_ClientDomain :: string
  ssh_Token :: string
  ssh_Image :: string
  ssh_FRPImage :: string

record GPUUnitServerlessFrameworkSpec =
  fw_SocketPath :: string
  fw_InvokePath :: string
  fw_HealthPath :: string

record GPUUnitServerlessSpec =
  sls_Enabled :: bool
  sls_RequestID :: string
  sls_MinAvailableCount :: int
  sls_IdleTimeoutSeconds :: int
  sls_MinRequestCount :: int
  sls_Framework :: GPUUnitServerlessFrameworkSpec

record GPUUnitStorageMount =
  mnt_Name :: string
  mnt_MountPath :: string
  mnt_ReadOnly :: bool

record GPUUnitAllocationSpec =
  alloc_DeviceClassName :: string
  alloc_ClaimName :: string
  alloc_ClaimRequestName :: string
  alloc_Count :: int
  alloc_Capacity :: "string smap"
  alloc_Selectors :: "string list"

record GPUUnitSpec =
  spec_PackageID :: string
  spec_SpecName :: string
  spec_Image :: string
  spec_CPU :: string
  spec_Memory :: string
  spec_GPU :: int
  spec_Allocation :: GPUUnitAllocationSpec
  spec_Template :: GPUUnitTemplate
  spec_Access :: GPUUnitAccess
  spec_SSH :: GPUUnitSSHSpec
  spec_Serverless :: GPUUnitServerlessSpec
  spec_StorageMounts :: "GPUUnitStorageMount list"

record GPUUnitSSHStatus =
  sshst_Phase :: string
  sshst_Username :: string
  sshst_TargetHost :: string
  sshst_ConnectHost :: string
  sshst_ConnectPort :: int
  sshst_AccessCommand :: string

record GPUUnitServerlessStatus =
  slsst_Phase :: string
  slsst_DispatchSubject :: string
  slsst_SocketPath :: string
  slsst_InvokePath :: string
  slsst_HealthPath :: string

record GPUUnitDRADeviceStatus =
  dev_Request :: string
  dev_Driver :: string
  dev_Pool :: string
  dev_Device :: string
  dev_ShareID :: string
  dev_ConsumedCapacity :: "string smap"

record GPUUnitDRAStatus =
  dra_ClaimName :: string
  dra_Allocated :: bool
  dra_Devices :: "GPUUnitDRADeviceStatus list"

record Condition =
  cond_Type :: string
  cond_Status :: string
  cond_ObservedGeneration :: int
  cond_LastTransitionTime :: gotime
  cond_Reason :: string
  cond_Message :: string

record GPUUnitStatus =
  st_ReadyReplicas :: int
  st_Phase :: string
  st_ObservedGeneration :: int
  st_LastSyncTime :: gotime
  st_ServiceName :: string
  st_AccessURL :: string
  st_SSH :: GPUUnitSSHStatus
  st_Serverless :: GPUUnitServerlessStatus
  st_DRA :: GPUUnitDRAStatus
  st_Conditions :: "Condition list"

text \<open>The object metadata the program reads and writes; the rest of \<^verbatim>\<open>metav1.ObjectMeta\<close> is the
  API server's.\<close>

record ObjectMeta =
  meta_Name :: string
  meta_Namespace :: string
  meta_Labels :: "string smap"
  meta_Annotations :: "string smap"

record GPUUnit =
  unit_Meta :: ObjectMeta
  unit_Spec :: GPUUnitSpec
  unit_Status :: GPUUnitStatus

definition zero_ssh :: GPUUnitSSHSpec where
  "zero_ssh = \<lparr>ssh_Enabled = False, ssh_Username = [], ssh_AuthorizedKeys = [], ssh_Port = 0,
     ssh_ServerAddr = [], ssh_ServerPort = 0, ssh_ConnectHost = [], ssh_ConnectPort = 0,
     ssh_DomainSuffix = [], ssh_ClientName = [], ssh_ClientDomain = [], ssh_Token = [],
     ssh_Image = [], ssh_FRPImage = []\<rparr>"

definition zero_framework :: GPUUnitServerlessFrameworkSpec where
  "zero_framework = \<lparr>fw_SocketPath = [], fw_InvokePath = [], fw_HealthPath = []\<rparr>"

definition zero_serverless :: GPUUnitServerlessSpec where
  "zero_serverless = \<lparr>sls_Enabled = False, sls_RequestID = [], sls_MinAvailableCount = 0,
     sls_IdleTimeoutSeconds = 0, sls_MinRequestCount = 0, sls_Framework = zero_framework\<rparr>"

definition zero_access :: GPUUnitAccess where
  "zero_access = \<lparr>acc_PrimaryPort = [], acc_Scheme = []\<rparr>"

definition zero_template :: GPUUnitTemplate where
  "zero_template = \<lparr>tpl_Command = [], tpl_Args = [], tpl_Envs = [], tpl_Ports = []\<rparr>"

definition zero_allocation :: GPUUnitAllocationSpec where
  "zero_allocation = \<lparr>alloc_DeviceClassName = [], alloc_ClaimName = [], alloc_ClaimRequestName = [],
     alloc_Count = 0, alloc_Capacity = [], alloc_Selectors = []\<rparr>"

definition zero_unit_status :: GPUUnitStatus where
  "zero_unit_status = \<lparr>st_ReadyReplicas = 0, st_Phase = [], st_ObservedGeneration = 0,
     st_LastSyncTime = 0, st_ServiceName = [], st_AccessURL = [],
     st_SSH = \<lparr>sshst_Phase = [], sshst_Username = [], sshst_TargetHost = [], sshst_ConnectHost = [],
       sshst_ConnectPort = 0, sshst_AccessCommand = []\<rparr>,
     st_Serverless = \<lparr>slsst_Phase = [], slsst_DispatchSubject = [], slsst_SocketPath = [],
       slsst_InvokePath = [], slsst_HealthPath = []\<rparr>,
     st_DRA = \<lparr>dra_ClaimName = [], dra_Allocated = False, dra_Devices = []\<rparr>,
     st_Conditions = []\<rparr>"

section \<open>GPUStorage\<close>

record GPUStoragePrepareSpec =
  prep_FromImage :: string
  prep_FromStorageName :: string
  prep_Command :: "string list"
  prep_Args :: "string list"

record GPUStorageAccessorSpec =
  ax_Enabled :: bool

record GPUStorageSpec =
  sspec_Size :: string
  sspec_StorageClassName :: string
  sspec_Prepare :: GPUStoragePrepareSpec
  sspec_Accessor :: GPUStorageAccessorSpec

record GPUStoragePrepareStatus =
  prepst_Phase :: string
  prepst_JobName :: string
  prepst_ObservedDigest :: string
  prepst_RecoveryPhase :: string

record GPUStorageAccessorStatus =
  axst_Phase :: string
  axst_ServiceName :: string
  axst_AccessURL :: string

record GPUStorageStatus =
  sst_ClaimName :: string
  sst_Capacity :: string
  sst_Phase :: string
  sst_Prepare :: GPUStoragePrepareStatus
  sst_Accessor :: GPUStorageAccessorStatus
  sst_ObservedGeneration :: int
  sst_LastSyncTime :: gotime
  sst_Conditions :: "Condition list"

record GPUStorage =
  stor_Meta :: ObjectMeta
  stor_Spec :: GPUStorageSpec
  stor_Status :: GPUStorageStatus

definition zero_prepare :: GPUStoragePrepareSpec where
  "zero_prepare = \<lparr>prep_FromImage = [], prep_FromStorageName = [], prep_Command = [], prep_Args = []\<rparr>"

definition zero_storage_status :: GPUStorageStatus where
  "zero_storage_status = \<lparr>sst_ClaimName = [], sst_Capacity = [], sst_Phase = [],
     sst_Prepare = \<lparr>prepst_Phase = [], prepst_JobName = [], prepst_ObservedDigest = [],
       prepst_RecoveryPhase = []\<rparr>,
     sst_Accessor = \<lparr>axst_Phase = [], axst_ServiceName = [], axst_AccessURL = []\<rparr>,
     sst_ObservedGeneration = 0, sst_LastSyncTime = 0, sst_Conditions = []\<rparr>"

section \<open>API views of pkg/domain\<close>

record GPUUnitRuntime =
  rt_Name :: string
  rt_Namespace :: string
  rt_Lifecycle :: string
  rt_PackageID :: string
  rt_SpecName :: string
  rt_Image :: string
  rt_CPU :: string
  rt_Memory :: string
  rt_GPU :: int
  rt_Allocation :: GPUUnitAllocationSpec
  rt_Template :: GPUUnitTemplate
  rt_Access :: GPUUnitAccess
  rt_SSH :: GPUUnitSSHSpec
  rt_Serverless :: GPUUnitServerlessSpec
  rt_StorageMounts :: "GPUUnitStorageMount list"
  rt_Phase :: string
  rt_ReadyReplicas :: int
  rt_ObservedGeneration :: int
  rt_LastSyncTime :: gotime
  rt_ServiceName :: string
  rt_AccessURL :: string
  rt_SSHStatus :: GPUUnitSSHStatus
  rt_ServerlessStatus :: GPUUnitServerlessStatus
  rt_DRAStatus :: GPUUnitDRAStatus
  rt_Reason :: string
  rt_Message :: string

record GPUStorageRuntime =
  srt_Name :: string
  srt_Namespace :: string
  srt_Size :: string
  srt_StorageClassName :: string
  srt_Prepare :: GPUStoragePrepareSpec
  srt_Accessor :: GPUStorageAccessorSpec
  srt_ClaimName :: string
  srt_Capacity :: string
  srt_MountedBy :: "string list"
  srt_Phase :: string
  srt_PrepareStatus :: GPUStoragePrepareStatus
  srt_AccessorStatus :: GPUStorageAccessorStatus
  srt_ObservedGeneration :: int
  srt_LastSyncTime :: gotime
  srt_Reason :: string
  srt_Message :: string

section \<open>The Kubernetes libraries as parameters\<close>

text \<open>
  \<^verbatim>\<open>k8s.io/apimachinery\<close> is not part of the repository. Its validation functions return the list
  of problems (empty when the value is valid), a condition is looked up by its type, and its quantities are an opaque type \<open>'q\<close> with the
  operations the program uses.
\<close>

record 'q k8s =
  IsDNS1123Subdomain :: "string \<Rightarrow> string list"
  IsDNS1123Label :: "string \<Rightarrow> string list"
  IsEnvVarName :: "string \<Rightarrow> string list"
  IsValidPortName :: "string \<Rightarrow> string list"
  IsQualifiedName :: "string \<Rightarrow> string list"
  IsValidLabelValue :: "string \<Rightarrow> string list"
  ParseQuantity :: "string \<Rightarrow> 'q res"
  qty_Sign :: "'q \<Rightarrow> int"
  qty_Cmp :: "'q \<Rightarrow> 'q \<Rightarrow> int"
  qty_Add :: "'q \<Rightarrow> 'q \<Rightarrow> 'q"
  qty_String :: "'q \<Rightarrow> string"
  qty_New :: "int \<Rightarrow> 'q"
  qty_Zero :: 'q
  qty_Value :: "'q \<Rightarrow> int"
  FindStatusCondition :: "Condition list \<Rightarrow> string \<Rightarrow> Condition option"
  SetStatusCondition :: "gotime \<Rightarrow> Condition \<Rightarrow> Condition list \<Rightarrow> Condition list"

text \<open>The names Kubernetes accepts as DNS labels and subdomains (RFC 1123).\<close>

definition alnum :: "char \<Rightarrow> bool" where
  "alnum c = (CHR ''a'' \<le> c \<and> c \<le> CHR ''z'' \<or> CHR ''0'' \<le> c \<and> c \<le> CHR ''9'')"

definition label_shape :: "string \<Rightarrow> bool" where
  "label_shape s = (s \<noteq> [] \<and> alnum (hd s) \<and> alnum (last s)
     \<and> list_all (\<lambda>c. alnum c \<or> c = CHR ''-'') s)"

definition dns1123_label :: "string \<Rightarrow> bool" where
  "dns1123_label s = (label_shape s \<and> length s \<le> 63)"

definition dns1123_subdomain :: "string \<Rightarrow> bool" where
  "dns1123_subdomain s = (list_all label_shape (split_on CHR ''.'' s) \<and> length s \<le> 253)"

text \<open>What the program relies on: the documented meaning of the two DNS checks.\<close>

locale k8s_names =
  fixes K :: "'q k8s"
  assumes subdomain: "IsDNS1123Subdomain K s = [] \<longleftrightarrow> dns1123_subdomain s"
    and label: "IsDNS1123Label K s = [] \<longleftrightarrow> dns1123_label s"
begin

lemma subdomain_not_empty: "IsDNS1123Subdomain K [] \<noteq> []"
  by (simp add: subdomain dns1123_subdomain_def label_shape_def)

lemma label_is_subdomain: "IsDNS1123Label K s = [] \<Longrightarrow> IsDNS1123Subdomain K s = []"
proof -
  assume "IsDNS1123Label K s = []"
  then have l: "label_shape s" "length s \<le> 63" by (auto simp: label dns1123_label_def)
  have "\<not> alnum CHR ''.''" by (simp add: alnum_def less_eq_char_def)
  with l have "CHR ''.'' \<notin> set s" by (auto simp: label_shape_def list_all_iff)
  then have "split_on CHR ''.'' s = [s]" by (rule split_on_single)
  with l show ?thesis by (simp add: subdomain dns1123_subdomain_def)
qed

end

text \<open>The documented meaning of quantities: comparison is that of a number the quantity denotes,
  addition adds, and the canonical string of a quantity parses back to an equal quantity.\<close>

locale k8s_quantities =
  fixes K :: "'q k8s" and val :: "'q \<Rightarrow> int"
  assumes cmp: "qty_Cmp K a b \<le> 0 \<longleftrightarrow> val a \<le> val b" "qty_Cmp K a b = 0 \<longleftrightarrow> val a = val b"
    and sign: "qty_Sign K a \<le> 0 \<longleftrightarrow> val a \<le> 0"
    and add: "val (qty_Add K a b) = val a + val b"
    and zero: "val (qty_Zero K) = 0"
    and roundtrip: "\<exists>b. ParseQuantity K (qty_String K a) = Inr b \<and> val b = val a"
begin

lemma cmp_less: "qty_Cmp K a b < 0 \<longleftrightarrow> val a < val b"
  using cmp [of a b] by linarith

lemma cmp_greater: "0 < qty_Cmp K a b \<longleftrightarrow> val b < val a"
  using cmp [of a b] by linarith

end

text \<open>
  The documented meaning of the condition helpers: a condition is found by its type; setting one at a time of the
  clock makes it, but for its transition time, the condition of its type and leaves the others alone.
\<close>

definition same_condition :: "Condition \<Rightarrow> Condition \<Rightarrow> bool" where
  "same_condition c d = (c\<lparr>cond_LastTransitionTime := 0\<rparr> = d\<lparr>cond_LastTransitionTime := 0\<rparr>)"

locale k8s_conditions =
  fixes K :: "'q k8s"
  assumes find_nil: "FindStatusCondition K [] t = None"
    and find_set: "\<exists>d. FindStatusCondition K (SetStatusCondition K now c cs) (cond_Type c) = Some d \<and> same_condition d c"
    and find_other: "t \<noteq> cond_Type c \<Longrightarrow> FindStatusCondition K (SetStatusCondition K now c cs) t = FindStatusCondition K cs t"

definition set_condition :: "gotime \<Rightarrow> Condition \<Rightarrow> Condition list \<Rightarrow> Condition list" where
  "set_condition now c cs =
     (let stamp = (if cond_LastTransitionTime c = 0 then now else cond_LastTransitionTime c)
      in case find (\<lambda>d. cond_Type d = cond_Type c) cs of
           None \<Rightarrow> cs @ [c\<lparr>cond_LastTransitionTime := stamp\<rparr>]
         | Some old \<Rightarrow> map (\<lambda>d. if cond_Type d = cond_Type c
             then c\<lparr>cond_LastTransitionTime := if cond_Status old = cond_Status c then cond_LastTransitionTime old else stamp\<rparr>
             else d) cs)"

text \<open>
  A concrete instance, with which the witnesses evaluate the model: the two DNS checks as RFC 1123
  states them, environment and port names that are not empty, and quantities that are decimal
  numbers.
\<close>

definition problems :: "bool \<Rightarrow> string list" where
  "problems ok = (if ok then [] else [''invalid''])"

definition ref_k8s :: "int k8s" where
  "ref_k8s = \<lparr>
     IsDNS1123Subdomain = (\<lambda>s. problems (dns1123_subdomain s)),
     IsDNS1123Label = (\<lambda>s. problems (dns1123_label s)),
     IsEnvVarName = (\<lambda>s. problems (s \<noteq> [])),
     IsValidPortName = (\<lambda>s. problems (s \<noteq> [])),
     IsQualifiedName = (\<lambda>s. problems (s \<noteq> [])),
     IsValidLabelValue = (\<lambda>s. []),
     ParseQuantity = (\<lambda>s. case parse_decimal s of None \<Rightarrow> Inl (ErrorText (msg ''quantity'')) | Some v \<Rightarrow> Inr v),
     qty_Sign = sgn, qty_Cmp = (\<lambda>a b. sgn (a - b)), qty_Add = (+),
     qty_String = (\<lambda>v. FormatInt v 10), qty_New = (\<lambda>v. v), qty_Zero = 0,
     qty_Value = (\<lambda>v. v), FindStatusCondition = (\<lambda>cs t. find (\<lambda>c. cond_Type c = t) cs),
     SetStatusCondition = set_condition\<rparr>"

interpretation ref_names: k8s_names ref_k8s
  by unfold_locales (simp_all add: ref_k8s_def problems_def)

interpretation ref_quantities: k8s_quantities ref_k8s "\<lambda>v. v"
  by unfold_locales (simp_all add: ref_k8s_def parse_decimal_FormatInt sgn_if)

lemma find_set_condition:
  "\<exists>d. find (\<lambda>d. cond_Type d = cond_Type c) (set_condition now c cs) = Some d \<and> same_condition d c"
proof (cases "find (\<lambda>d. cond_Type d = cond_Type c) cs")
  case None
  then have "find (\<lambda>d. cond_Type d = cond_Type c) (cs @ [x]) = find (\<lambda>d. cond_Type d = cond_Type c) [x]" for x
    by (induction cs) (auto split: if_splits)
  with None show ?thesis by (simp add: set_condition_def same_condition_def Let_def)
next
  case (Some old)
  let ?c = "c\<lparr>cond_LastTransitionTime := if cond_Status old = cond_Status c then cond_LastTransitionTime old
      else if cond_LastTransitionTime c = 0 then now else cond_LastTransitionTime c\<rparr>"
  from Some have "find (\<lambda>d. cond_Type d = cond_Type c) (map (\<lambda>d. if cond_Type d = cond_Type c then ?c else d) cs) = Some ?c"
    by (induction cs) (auto split: if_splits)
  with Some show ?thesis by (simp add: set_condition_def same_condition_def Let_def)
qed

lemma find_set_condition_other:
  "t \<noteq> cond_Type c \<Longrightarrow> find (\<lambda>d. cond_Type d = t) (set_condition now c cs) = find (\<lambda>d. cond_Type d = t) cs"
proof -
  assume t: "t \<noteq> cond_Type c"
  have "find (\<lambda>d. cond_Type d = t) (map (\<lambda>d. if cond_Type d = cond_Type c then c\<lparr>cond_LastTransitionTime := v\<rparr> else d) cs)
      = find (\<lambda>d. cond_Type d = t) cs" for v using t by (induction cs) auto
  moreover have "find (\<lambda>d. cond_Type d = t) (cs @ [x]) = find (\<lambda>d. cond_Type d = t) cs" if "cond_Type x \<noteq> t" for x
    using that by (induction cs) auto
  ultimately show ?thesis using t by (simp add: set_condition_def Let_def split: option.splits)
qed

interpretation ref_conditions: k8s_conditions ref_k8s
  using find_set_condition find_set_condition_other by unfold_locales (simp_all add: ref_k8s_def)

end
