(* ===== verification/Unit_Normalize.thy ===== *)
theory Unit_Normalize
  imports Api_Types
begin

text \<open>
  The normalizers of \<^verbatim>\<open>pkg/contract/gpuunit.go\<close> for the parts of a GPU unit: template, access, SSH,
  storage mounts, DRA allocation, object key. Each comes with the well-formedness predicate of its
  results, the lemma that every result is well formed, and the lemma that a well-formed value is a
  fixed point. The Kubernetes checks are the parameter \<open>K\<close>. The Go code trims the names of a
  template inside the caller's slices; the model returns the new template.
\<close>

section \<open>Names\<close>

lemma alnum_code:
  "alnum c \<longleftrightarrow> (97 \<le> (of_char c :: nat) \<and> (of_char c :: nat) \<le> 122)
     \<or> (48 \<le> (of_char c :: nat) \<and> (of_char c :: nat) \<le> 57)"
  by (simp add: alnum_def less_eq_char_def)

lemma lower_char_id: "(of_char c :: nat) < 65 \<or> 90 < (of_char c :: nat) \<Longrightarrow> lower_char c = c"
  unfolding lower_char_code char_code_inj [symmetric] by auto

lemma alnum_lower: "alnum c \<Longrightarrow> lower_char c = c"
  by (rule lower_char_id) (auto simp: alnum_code)

lemma alnum_not_space: "alnum c \<Longrightarrow> \<not> isSpace c"
  unfolding alnum_code isSpace_code by auto

lemma digit_char_alnum: "d < 36 \<Longrightarrow> alnum (digit_char d)"
  by (auto simp: alnum_code digit_char_def of_char_of)

lemma nat_to_base_alnum:
  assumes "b \<le> 36"
  shows "list_all alnum (nat_to_base b n)"
  using assms
proof (induction b n rule: nat_to_base.induct)
  case (1 b n)
  have "n mod b < 36" if "\<not> b < 2" using that "1.prems" by (metis mod_less_divisor not_less order_less_le_trans
        zero_less_numeral less_le_trans)
  with 1 show ?case by (subst nat_to_base.simps) (auto intro: digit_char_alnum)
qed

lemma alnum_trimmed: "list_all alnum s \<Longrightarrow> trimmed s"
  by (cases s rule: rev_cases) (auto simp: trimmed_def trimmed_by_def list_all_iff alnum_not_space hd_append)

lemma FormatInt_trimmed: "0 \<le> i \<Longrightarrow> b \<le> 36 \<Longrightarrow> trimmed (FormatInt i b)"
  by (simp add: FormatInt_def alnum_trimmed nat_to_base_alnum)

lemma label_shape_lower: "label_shape s \<Longrightarrow> ToLower s = s"
  unfolding ToLower_def
proof (rule map_idI)
  fix c assume "label_shape s" "c \<in> set s"
  then have "alnum c \<or> c = CHR ''-''" by (auto simp: label_shape_def list_all_iff)
  moreover have "lower_char CHR ''-'' = CHR ''-''" by code_simp
  ultimately show "lower_char c = c" using alnum_lower by metis
qed

lemma label_shape_trimmed: "label_shape s \<Longrightarrow> trimmed s"
  by (simp add: label_shape_def trimmed_def trimmed_by_def alnum_not_space)

lemma label_shape_nonempty: "label_shape s \<Longrightarrow> s \<noteq> []"
  by (simp add: label_shape_def)

lemma hd_join: "ws \<noteq> [] \<Longrightarrow> hd ws \<noteq> [] \<Longrightarrow> hd (join sep ws) = hd (hd ws)"
  by (induction sep ws rule: join.induct) auto

lemma join_Cons: "ws \<noteq> [] \<Longrightarrow> join sep (w # ws) = w @ sep @ join sep ws"
  by (cases ws) auto

lemma last_join:
  "ws \<noteq> [] \<Longrightarrow> last ws \<noteq> [] \<Longrightarrow> join sep ws \<noteq> [] \<and> last (join sep ws) = last (last ws)"
  by (induction sep ws rule: join.induct) (auto simp: last_append)

lemma join_eq_Nil_labels: "ws \<noteq> [] \<Longrightarrow> list_all label_shape ws \<Longrightarrow> join sep ws \<noteq> []"
  by (cases ws; cases "tl ws") (auto simp: label_shape_def join_Cons)

lemma subdomain_join: "s = join ''.'' (split_on CHR ''.'' s)"
  by simp

lemma ToLower_append: "ToLower (a @ b) = ToLower a @ ToLower b"
  by (simp add: ToLower_def)

lemma ToLower_join:
  "list_all label_shape ws \<Longrightarrow> ToLower (join ''.'' ws) = join ''.'' ws"
proof (induction "''.''" ws rule: join.induct)
  case (3 w v ws)
  moreover have "lower_char CHR ''.'' = CHR ''.''" by code_simp
  ultimately show ?case by (simp add: ToLower_append label_shape_lower) (simp add: ToLower_def)
qed (simp_all add: label_shape_lower)

lemma subdomain_lower: "dns1123_subdomain s \<Longrightarrow> ToLower s = s"
  using ToLower_join [of "split_on CHR ''.'' s"] by (simp add: dns1123_subdomain_def)

lemma subdomain_nonempty: "dns1123_subdomain s \<Longrightarrow> s \<noteq> []"
  by (auto simp: dns1123_subdomain_def label_shape_def)

lemma subdomain_ends:
  assumes "dns1123_subdomain s"
  shows "alnum (hd s)" "alnum (last s)"
proof -
  let ?ws = "split_on CHR ''.'' s"
  have l: "list_all label_shape ?ws" using assms by (simp add: dns1123_subdomain_def)
  have h: "label_shape (hd ?ws)" "label_shape (last ?ws)"
    using l split_on_nonempty [of "CHR ''.''" s] by (auto simp: list_all_iff)
  have "hd s = hd (hd ?ws)" "last s = last (last ?ws)"
    using hd_join [of ?ws "''.''"] last_join [of ?ws "''.''"] h label_shape_nonempty by simp_all
  with h show "alnum (hd s)" "alnum (last s)" by (simp_all add: label_shape_def)
qed

lemma subdomain_trimmed: "dns1123_subdomain s \<Longrightarrow> trimmed s"
  using subdomain_ends [of s] by (simp add: trimmed_def trimmed_by_def alnum_not_space)

lemma subdomain_normal: "dns1123_subdomain s \<Longrightarrow> ToLower (TrimSpace s) = s"
  by (simp add: subdomain_trimmed subdomain_lower TrimSpace_id)

lemma label_normal: "dns1123_label s \<Longrightarrow> ToLower (TrimSpace s) = s"
  by (simp add: dns1123_label_def label_shape_trimmed label_shape_lower TrimSpace_id)

lemma lower_trimmed_normal: "ToLower (TrimSpace s) = s \<Longrightarrow> TrimSpace s = s"
  by (metis TrimSpace_ToLower TrimSpace_idem)

lemma lower_trimmed_lower: "ToLower (TrimSpace s) = s \<Longrightarrow> ToLower s = s"
  by (metis ToLower_idem)

section \<open>Object keys and namespaces\<close>

definition NormalizeGPUUnitInstanceNamespace :: "string \<Rightarrow> string res" where
  "NormalizeGPUUnitInstanceNamespace namespace =
     (let trimmed = TrimSpace namespace
      in if trimmed = [] \<or> trimmed = DefaultInstanceNamespace then Inr DefaultInstanceNamespace
         else Inl (ValidationError (''namespace is fixed to %q for active gpu units'',
                [FS DefaultInstanceNamespace])))"

definition NormalizeGPUUnitObjectKey :: "'q k8s \<Rightarrow> string \<Rightarrow> string \<Rightarrow> (string \<times> string) res" where
  "NormalizeGPUUnitObjectKey K namespace name =
     andThen (NormalizeGPUUnitInstanceNamespace namespace) (\<lambda>ns.
       let trimmedName = ToLower (TrimSpace name)
       in if trimmedName = [] then Inl (ValidationError (msg ''name is required''))
          else if IsDNS1123Subdomain K trimmedName \<noteq> []
            then Inl (ValidationError (''name %q is invalid: %s'',
                   [FS trimmedName, FS (join '', '' (IsDNS1123Subdomain K trimmedName))]))
          else Inr (ns, trimmedName))"

lemma NormalizeGPUUnitObjectKey_Inr:
  "NormalizeGPUUnitObjectKey K namespace name = Inr (ns, n) \<longleftrightarrow>
     TrimSpace namespace \<in> {[], DefaultInstanceNamespace} \<and> ns = DefaultInstanceNamespace
     \<and> n = ToLower (TrimSpace name) \<and> n \<noteq> [] \<and> IsDNS1123Subdomain K n = []"
  by (auto simp: NormalizeGPUUnitObjectKey_def NormalizeGPUUnitInstanceNamespace_def Let_def)

section \<open>Template\<close>

definition IsZeroGPUUnitTemplate :: "GPUUnitTemplate \<Rightarrow> bool" where
  "IsZeroGPUUnitTemplate t =
     (tpl_Command t = [] \<and> tpl_Args t = [] \<and> tpl_Envs t = [] \<and> tpl_Ports t = [])"

fun normalize_envs :: "'q k8s \<Rightarrow> string list \<Rightarrow> GPUUnitEnvVar list \<Rightarrow> GPUUnitEnvVar list res" where
  "normalize_envs K seen [] = Inr []"
| "normalize_envs K seen (e # es) =
     (let name = TrimSpace (env_Name e)
      in if name = [] then Inl (ValidationError (msg ''template env name is required''))
         else if IsEnvVarName K name \<noteq> []
           then Inl (ValidationError (''template env %q is invalid: %s'',
                  [FS name, FS (join '', '' (IsEnvVarName K name))]))
         else if name \<in> set seen
           then Inl (ValidationError (''template env %q is duplicated'', [FS name]))
         else andThen (normalize_envs K (name # seen) es) (\<lambda>r. Inr (e\<lparr>env_Name := name\<rparr> # r)))"

fun normalize_ports :: "'q k8s \<Rightarrow> string list \<Rightarrow> int list \<Rightarrow> GPUUnitPortSpec list \<Rightarrow> GPUUnitPortSpec list res" where
  "normalize_ports K seenNames seenNumbers [] = Inr []"
| "normalize_ports K seenNames seenNumbers (p # ps) =
     (let name = TrimSpace (port_Name p);
          protocol = (if port_Protocol p = [] then ''TCP'' else port_Protocol p)
      in if name = [] then Inl (ValidationError (msg ''template port name is required''))
         else if IsValidPortName K name \<noteq> []
           then Inl (ValidationError (''template port name %q is invalid: %s'',
                  [FS name, FS (join '', '' (IsValidPortName K name))]))
         else if port_Port p \<le> 0 \<or> port_Port p > 65535
           then Inl (ValidationError (''template port %d is out of range'', [FI (port_Port p)]))
         else if name \<in> set seenNames
           then Inl (ValidationError (''template port name %q is duplicated'', [FS name]))
         else if port_Port p \<in> set seenNumbers
           then Inl (ValidationError (''template port %d is duplicated'', [FI (port_Port p)]))
         else andThen (normalize_ports K (name # seenNames) (port_Port p # seenNumbers) ps)
                (\<lambda>r. Inr (p\<lparr>port_Name := name, port_Protocol := protocol\<rparr> # r)))"

definition NormalizeGPUUnitTemplate :: "'q k8s \<Rightarrow> GPUUnitTemplate \<Rightarrow> GPUUnitTemplate res" where
  "NormalizeGPUUnitTemplate K t =
     andThen (normalize_envs K [] (tpl_Envs t)) (\<lambda>envs.
     andThen (normalize_ports K [] [] (tpl_Ports t)) (\<lambda>ports.
       Inr (t\<lparr>tpl_Envs := envs, tpl_Ports := ports\<rparr>)))"

definition wf_env :: "'q k8s \<Rightarrow> GPUUnitEnvVar \<Rightarrow> bool" where
  "wf_env K e = (env_Name e \<noteq> [] \<and> trimmed (env_Name e) \<and> IsEnvVarName K (env_Name e) = [])"

definition wf_port :: "'q k8s \<Rightarrow> GPUUnitPortSpec \<Rightarrow> bool" where
  "wf_port K p = (port_Name p \<noteq> [] \<and> trimmed (port_Name p) \<and> IsValidPortName K (port_Name p) = []
     \<and> 1 \<le> port_Port p \<and> port_Port p \<le> 65535 \<and> port_Protocol p \<noteq> [])"

definition wf_template :: "'q k8s \<Rightarrow> GPUUnitTemplate \<Rightarrow> bool" where
  "wf_template K t = (list_all (wf_env K) (tpl_Envs t) \<and> distinct (map env_Name (tpl_Envs t))
     \<and> list_all (wf_port K) (tpl_Ports t) \<and> distinct (map port_Name (tpl_Ports t))
     \<and> distinct (map port_Port (tpl_Ports t)))"

lemma normalize_envs_wf:
  "normalize_envs K seen es = Inr r \<Longrightarrow>
   list_all (wf_env K) r \<and> distinct (map env_Name r) \<and> set (map env_Name r) \<inter> set seen = {}"
  by (induction K seen es arbitrary: r rule: normalize_envs.induct)
    (fastforce simp: result_simps Let_def wf_env_def split: if_splits)+

lemma normalize_envs_id:
  "list_all (wf_env K) es \<Longrightarrow> distinct (map env_Name es) \<Longrightarrow> set (map env_Name es) \<inter> set seen = {}
   \<Longrightarrow> normalize_envs K seen es = Inr es"
  by (induction K seen es rule: normalize_envs.induct) (auto simp: wf_env_def TrimSpace_id)

lemma normalize_ports_wf:
  "normalize_ports K ns ms ps = Inr r \<Longrightarrow>
   list_all (wf_port K) r \<and> distinct (map port_Name r) \<and> set (map port_Name r) \<inter> set ns = {}
   \<and> distinct (map port_Port r) \<and> set (map port_Port r) \<inter> set ms = {}"
  by (induction K ns ms ps arbitrary: r rule: normalize_ports.induct)
    (fastforce simp: result_simps Let_def wf_port_def split: if_splits)+

lemma normalize_ports_id:
  "list_all (wf_port K) ps \<Longrightarrow> distinct (map port_Name ps) \<Longrightarrow> set (map port_Name ps) \<inter> set ns = {}
   \<Longrightarrow> distinct (map port_Port ps) \<Longrightarrow> set (map port_Port ps) \<inter> set ms = {}
   \<Longrightarrow> normalize_ports K ns ms ps = Inr ps"
  by (induction K ns ms ps rule: normalize_ports.induct) (auto simp: wf_port_def TrimSpace_id)

lemma NormalizeGPUUnitTemplate_wf: "NormalizeGPUUnitTemplate K t = Inr r \<Longrightarrow> wf_template K r"
  by (auto simp: NormalizeGPUUnitTemplate_def wf_template_def result_simps
      dest!: normalize_envs_wf normalize_ports_wf)

lemma NormalizeGPUUnitTemplate_id: "wf_template K t \<Longrightarrow> NormalizeGPUUnitTemplate K t = Inr t"
  by (simp add: NormalizeGPUUnitTemplate_def wf_template_def normalize_envs_id normalize_ports_id)

section \<open>Access\<close>

definition IsZeroGPUUnitAccess :: "GPUUnitAccess \<Rightarrow> bool" where
  "IsZeroGPUUnitAccess access = (TrimSpace (acc_PrimaryPort access) = [] \<and> TrimSpace (acc_Scheme access) = [])"

definition NormalizeGPUUnitAccess :: "GPUUnitAccess \<Rightarrow> GPUUnitPortSpec list \<Rightarrow> GPUUnitAccess res" where
  "NormalizeGPUUnitAccess access ports =
     (let primary = TrimSpace (acc_PrimaryPort access);
          scheme = ToLower (TrimSpace (acc_Scheme access));
          scheme = (if scheme = [] then DefaultAccessScheme else scheme);
          access = \<lparr>acc_PrimaryPort = primary, acc_Scheme = scheme\<rparr>
      in case ports of
           [] \<Rightarrow> if primary \<noteq> []
                 then Inl (ValidationError (''access.primaryPort %q requires at least one runtime port'',
                        [FS primary]))
                 else Inr access
         | p # _ \<Rightarrow>
             let primary = (if primary = [] then port_Name p else primary)
             in if list_ex (\<lambda>port. port_Name port = primary) ports
                then Inr (access\<lparr>acc_PrimaryPort := primary\<rparr>)
                else Inl (ValidationError (''access.primaryPort %q does not exist in template.ports'',
                       [FS primary])))"

definition wf_access :: "GPUUnitPortSpec list \<Rightarrow> GPUUnitAccess \<Rightarrow> bool" where
  "wf_access ports a = (acc_Scheme a \<noteq> [] \<and> ToLower (TrimSpace (acc_Scheme a)) = acc_Scheme a
     \<and> (if ports = [] then acc_PrimaryPort a = [] else acc_PrimaryPort a \<in> port_Name ` set ports))"

lemma DefaultAccessScheme_normal:
  "DefaultAccessScheme \<noteq> []" "ToLower (TrimSpace DefaultAccessScheme) = DefaultAccessScheme"
  by code_simp+

lemma NormalizeGPUUnitAccess_wf: "NormalizeGPUUnitAccess a ports = Inr r \<Longrightarrow> wf_access ports r"
  by (auto simp: NormalizeGPUUnitAccess_def wf_access_def Let_def DefaultAccessScheme_normal list_ex_iff
      split: list.splits if_splits) (metis imageI)+

lemma NormalizeGPUUnitAccess_id:
  "wf_access ports a \<Longrightarrow> list_all (wf_port K) ports \<Longrightarrow> NormalizeGPUUnitAccess a ports = Inr a"
proof (cases ports)
  case Nil
  assume "wf_access ports a"
  with Nil show ?thesis by (cases a) (simp add: NormalizeGPUUnitAccess_def wf_access_def Let_def)
next
  case (Cons p ps)
  assume a: "wf_access ports a" and k: "list_all (wf_port K) ports"
  from a Cons obtain q where q: "q \<in> set ports" "acc_PrimaryPort a = port_Name q"
    by (auto simp: wf_access_def)
  with k have "wf_port K q" by (auto simp: list_all_iff)
  with q have t: "TrimSpace (acc_PrimaryPort a) = acc_PrimaryPort a" "acc_PrimaryPort a \<noteq> []"
    by (auto simp: wf_port_def TrimSpace_id)
  from q have ex: "list_ex (\<lambda>port. port_Name port = acc_PrimaryPort a) ports" by (auto simp: list_ex_iff)
  show ?thesis using Cons a t ex
    by (cases a) (simp add: NormalizeGPUUnitAccess_def wf_access_def Let_def)
qed

section \<open>SSH\<close>

text \<open>The public keys that survive: trimmed, not empty, the first of equal ones.\<close>

fun unique_keys :: "string list \<Rightarrow> string list \<Rightarrow> string list" where
  "unique_keys seen [] = []"
| "unique_keys seen (key # ks) =
     (let trimmed = TrimSpace key
      in if trimmed = [] then unique_keys seen ks
         else if trimmed \<in> set seen then unique_keys seen ks
         else trimmed # unique_keys (trimmed # seen) ks)"

definition check_port :: "string \<times> int \<Rightarrow> unit res" where
  "check_port fv = (if snd fv < 1 \<or> snd fv > 65535
     then Inl (ValidationError (''%s must be between 1 and 65535'', [FS (fst fv)])) else Inr ())"

definition NormalizeGPUUnitSSH :: "'q k8s \<Rightarrow> string \<Rightarrow> string \<Rightarrow> GPUUnitSSHSpec \<Rightarrow> GPUUnitSSHSpec res" where
  "NormalizeGPUUnitSSH K unitName namespace ssh =
     (let username = ToLower (TrimSpace (ssh_Username ssh));
          serverAddr = TrimSpace (ssh_ServerAddr ssh);
          connectHost = TrimSpace (ssh_ConnectHost ssh);
          domainSuffix = TrimPrefix (TrimSpace (ssh_DomainSuffix ssh)) ''.'';
          clientName = ToLower (TrimSpace (ssh_ClientName ssh));
          clientDomain = ToLower (TrimSpace (ssh_ClientDomain ssh));
          token = TrimSpace (ssh_Token ssh);
          image = TrimSpace (ssh_Image ssh);
          frpImage = TrimSpace (ssh_FRPImage ssh);
          keys = unique_keys [] (ssh_AuthorizedKeys ssh)
      in if \<not> ssh_Enabled ssh then Inr zero_ssh
      else let username = or_default username DefaultUnitSSHUsername
      in if IsDNS1123Label K username \<noteq> []
        then Inl (ValidationError (''ssh.username %q is invalid: %s'',
               [FS username, FS (join '', '' (IsDNS1123Label K username))]))
      else if keys = []
        then Inl (ValidationError (msg ''ssh.authorizedKeys requires at least one public key when ssh.enabled is true''))
      else if serverAddr = []
        then Inl (ValidationError (msg ''ssh.serverAddr is required when ssh.enabled is true''))
      else let port = or_default_int (ssh_Port ssh) DefaultUnitSSHPort;
               serverPort = or_default_int (ssh_ServerPort ssh) DefaultUnitSSHFRPPort;
               connectHost = or_default connectHost serverAddr;
               connectPort = or_default_int (ssh_ConnectPort ssh) DefaultUnitSSHProxyPort;
               image = or_default image DefaultUnitSSHImage;
               frpImage = or_default frpImage DefaultUnitSSHFRPImage
      in if clientDomain = [] \<and> domainSuffix = []
        then Inl (ValidationError (msg ''ssh.domainSuffix is required when ssh.clientDomain is not set''))
      else let clientDomain = or_default clientDomain
                 (unitName @ ''.'' @ namespace @ ''.'' @ domainSuffix)
      in if clientName \<noteq> [] \<and> IsDNS1123Subdomain K clientName \<noteq> []
        then Inl (ValidationError (''ssh.clientName %q is invalid: %s'',
               [FS clientName, FS (join '', '' (IsDNS1123Subdomain K clientName))]))
      else if domainSuffix \<noteq> [] \<and> IsDNS1123Subdomain K domainSuffix \<noteq> []
        then Inl (ValidationError (''ssh.domainSuffix %q is invalid: %s'',
               [FS domainSuffix, FS (join '', '' (IsDNS1123Subdomain K domainSuffix))]))
      else if IsDNS1123Subdomain K clientDomain \<noteq> []
        then Inl (ValidationError (''ssh.clientDomain %q is invalid: %s'',
               [FS clientDomain, FS (join '', '' (IsDNS1123Subdomain K clientDomain))]))
      else andThen (checkAll check_port
             [(''ssh.port'', port), (''ssh.serverPort'', serverPort), (''ssh.connectPort'', connectPort)])
        (\<lambda>_. Inr \<lparr>ssh_Enabled = True, ssh_Username = username, ssh_AuthorizedKeys = keys,
           ssh_Port = port, ssh_ServerAddr = serverAddr, ssh_ServerPort = serverPort,
           ssh_ConnectHost = connectHost, ssh_ConnectPort = connectPort,
           ssh_DomainSuffix = domainSuffix, ssh_ClientName = clientName,
           ssh_ClientDomain = clientDomain, ssh_Token = token, ssh_Image = image,
           ssh_FRPImage = frpImage\<rparr>))"

definition wf_ssh :: "'q k8s \<Rightarrow> GPUUnitSSHSpec \<Rightarrow> bool" where
  "wf_ssh K s = (s = zero_ssh \<or>
     ssh_Enabled s \<and> IsDNS1123Label K (ssh_Username s) = [] \<and> ssh_Username s \<noteq> []
     \<and> ToLower (TrimSpace (ssh_Username s)) = ssh_Username s
     \<and> ssh_AuthorizedKeys s \<noteq> [] \<and> distinct (ssh_AuthorizedKeys s)
     \<and> list_all (\<lambda>k. k \<noteq> [] \<and> trimmed k) (ssh_AuthorizedKeys s)
     \<and> ssh_ServerAddr s \<noteq> [] \<and> trimmed (ssh_ServerAddr s)
     \<and> ssh_ConnectHost s \<noteq> [] \<and> trimmed (ssh_ConnectHost s)
     \<and> list_all (\<lambda>p. 1 \<le> p \<and> p \<le> 65535) [ssh_Port s, ssh_ServerPort s, ssh_ConnectPort s]
     \<and> (ssh_DomainSuffix s = [] \<or> IsDNS1123Subdomain K (ssh_DomainSuffix s) = [])
     \<and> (ssh_ClientName s = [] \<or> IsDNS1123Subdomain K (ssh_ClientName s) = [])
     \<and> ToLower (TrimSpace (ssh_ClientName s)) = ssh_ClientName s
     \<and> ssh_ClientDomain s \<noteq> [] \<and> IsDNS1123Subdomain K (ssh_ClientDomain s) = []
     \<and> trimmed (ssh_Token s) \<and> ssh_Image s \<noteq> [] \<and> trimmed (ssh_Image s)
     \<and> ssh_FRPImage s \<noteq> [] \<and> trimmed (ssh_FRPImage s))"

lemma unique_keys_wf:
  "list_all (\<lambda>k. k \<noteq> [] \<and> trimmed k) (unique_keys seen ks) \<and> distinct (unique_keys seen ks)
   \<and> set (unique_keys seen ks) \<inter> set seen = {}"
  by (induction seen ks rule: unique_keys.induct) (auto simp: Let_def)

lemma unique_keys_id:
  "list_all (\<lambda>k. k \<noteq> [] \<and> trimmed k) ks \<Longrightarrow> distinct ks \<Longrightarrow> set ks \<inter> set seen = {}
   \<Longrightarrow> unique_keys seen ks = ks"
  by (induction seen ks rule: unique_keys.induct) (auto simp: TrimSpace_id)

lemma check_port_iff [simp]: "check_port (f, p) = Inr u \<longleftrightarrow> 1 \<le> p \<and> p \<le> 65535"
  by (auto simp: check_port_def)

lemma ssh_defaults_normal:
  "trimmed DefaultUnitSSHImage" "trimmed DefaultUnitSSHFRPImage" "DefaultUnitSSHImage \<noteq> []"
  "DefaultUnitSSHFRPImage \<noteq> []" "DefaultUnitSSHUsername \<noteq> []"
  "ToLower (TrimSpace DefaultUnitSSHUsername) = DefaultUnitSSHUsername"
  by code_simp+

lemma NormalizeGPUUnitSSH_wf:
  assumes "NormalizeGPUUnitSSH K u ns ssh = Inr r"
  shows "wf_ssh K r"
proof (cases "ssh_Enabled ssh")
  case False
  with assms show ?thesis by (simp add: NormalizeGPUUnitSSH_def Let_def wf_ssh_def)
next
  case True
  note d = ssh_defaults_normal or_default_pred [where P = trimmed] or_default_pred [where P =
      "\<lambda>s. ToLower (TrimSpace s) = s"]
  show ?thesis using assms True unique_keys_wf [of "[]" "ssh_AuthorizedKeys ssh"]
    unfolding NormalizeGPUUnitSSH_def Let_def
    by (simp only: guard_Inr_iff andThen_Inr_iff checkAll_Inr_iff if_True if_False simp_thms)
      (clarsimp simp: wf_ssh_def d)
qed

context k8s_names
begin

lemma subdomain_suffix_normal:
  assumes "IsDNS1123Subdomain K s = []"
  shows "TrimSpace s = s" "ToLower (TrimSpace s) = s" "TrimPrefix (TrimSpace s) ''.'' = s" "s \<noteq> []"
proof -
  have d: "dns1123_subdomain s" using assms by (simp add: subdomain)
  from subdomain_normal [OF d] show n: "ToLower (TrimSpace s) = s" .
  then show t: "TrimSpace s = s" by (rule lower_trimmed_normal)
  have "alnum (hd s)" using d by (rule subdomain_ends)
  moreover have "\<not> alnum CHR ''.''" by code_simp
  moreover show "s \<noteq> []" using d by (rule subdomain_nonempty)
  ultimately have "\<not> HasPrefix s ''.''" by (cases s) (auto simp: HasPrefix_def)
  with t show "TrimPrefix (TrimSpace s) ''.'' = s" by (simp add: TrimPrefix_def)
qed

lemma ssh_id:
  assumes "wf_ssh K s"
  shows "NormalizeGPUUnitSSH K u ns s = Inr s"
proof (cases "s = zero_ssh")
  case True
  then show ?thesis by (simp add: NormalizeGPUUnitSSH_def Let_def) (simp add: zero_ssh_def)
next
  case False
  with assms have w: "ssh_Enabled s" "ssh_AuthorizedKeys s \<noteq> []"
      "ToLower (TrimSpace (ssh_Username s)) = ssh_Username s"
    by (auto simp: wf_ssh_def)
  have keys: "unique_keys [] (ssh_AuthorizedKeys s) = ssh_AuthorizedKeys s"
    using assms False by (intro unique_keys_id) (auto simp: wf_ssh_def)
  have suffix: "TrimPrefix (TrimSpace (ssh_DomainSuffix s)) ''.'' = ssh_DomainSuffix s"
    using assms False subdomain_suffix_normal(3) [of "ssh_DomainSuffix s"]
    by (cases "ssh_DomainSuffix s = []") (auto simp: wf_ssh_def TrimPrefix_def HasPrefix_def)
  have domain: "ToLower (TrimSpace (ssh_ClientDomain s)) = ssh_ClientDomain s"
    using assms False by (intro subdomain_suffix_normal(2)) (auto simp: wf_ssh_def)
  have port: "checkAll check_port [(''ssh.port'', ssh_Port s), (''ssh.serverPort'', ssh_ServerPort s),
      (''ssh.connectPort'', ssh_ConnectPort s)] = Inr ()"
    "ssh_Port s \<noteq> 0" "ssh_ServerPort s \<noteq> 0" "ssh_ConnectPort s \<noteq> 0"
    using assms False by (auto simp: wf_ssh_def result_simps)
  show ?thesis using assms False w keys suffix domain port
    unfolding NormalizeGPUUnitSSH_def wf_ssh_def Let_def
    by (simp add: TrimSpace_id del: checkAll.simps)
qed

end

end
