(* ===== verification/Unit_Mounts.thy ===== *)
theory Unit_Mounts
  imports Unit_Normalize "HOL-Library.Multiset"
begin

text \<open>
  The storage mounts and the DRA allocation of a unit (\<^verbatim>\<open>NormalizeGPUUnitStorageMounts\<close> and
  \<^verbatim>\<open>NormalizeDRAAllocation\<close> of \<^verbatim>\<open>pkg/contract/gpuunit.go\<close>), with their well-formedness predicates.
\<close>

section \<open>Storage mounts\<close>

fun mount_loop :: "'q k8s \<Rightarrow> string list \<Rightarrow> string list \<Rightarrow> GPUUnitStorageMount list
    \<Rightarrow> GPUUnitStorageMount list res" where
  "mount_loop K seenNames seenPaths [] = Inr []"
| "mount_loop K seenNames seenPaths (mount # ms) =
     (let name = ToLower (TrimSpace (mnt_Name mount))
      in if name = [] then Inl (ValidationError (msg ''storageMounts.name is required''))
      else if IsDNS1123Subdomain K name \<noteq> []
        then Inl (ValidationError (''storageMounts.name %q is invalid: %s'',
               [FS name, FS (join '', '' (IsDNS1123Subdomain K name))]))
      else if name \<in> set seenNames
        then Inl (ValidationError (''storageMounts.name %q is duplicated'', [FS name]))
      else let mountPath = TrimSpace (mnt_MountPath mount)
      in if mountPath = []
        then Inl (ValidationError (''storageMounts[%s].mountPath is required'', [FS name]))
      else if \<not> IsAbs mountPath
        then Inl (ValidationError (''storageMounts[%s].mountPath %q must be an absolute path'',
               [FS name, FS mountPath]))
      else let mountPath = Clean mountPath
      in if mountPath = ''/''
        then Inl (ValidationError (''storageMounts[%s].mountPath cannot be /'', [FS name]))
      else if mountPath \<in> set seenPaths
        then Inl (ValidationError (''storageMounts.mountPath %q is duplicated'', [FS mountPath]))
      else andThen (mount_loop K (name # seenNames) (mountPath # seenPaths) ms)
             (\<lambda>r. Inr (mount\<lparr>mnt_Name := name, mnt_MountPath := mountPath\<rparr> # r)))"

abbreviation mount_key :: "GPUUnitStorageMount \<Rightarrow> string \<times> string" where
  "mount_key m \<equiv> (mnt_Name m, mnt_MountPath m)"

definition NormalizeGPUUnitStorageMounts ::
    "'q k8s \<Rightarrow> GPUUnitStorageMount list \<Rightarrow> GPUUnitStorageMount list res" where
  "NormalizeGPUUnitStorageMounts K mounts =
     (if mounts = [] then Inr []
      else andThen (mount_loop K [] [] mounts) (\<lambda>out. Inr (sort_key mount_key out)))"

definition wf_mount :: "'q k8s \<Rightarrow> GPUUnitStorageMount \<Rightarrow> bool" where
  "wf_mount K m = (IsDNS1123Subdomain K (mnt_Name m) = [] \<and> mnt_Name m \<noteq> []
     \<and> ToLower (TrimSpace (mnt_Name m)) = mnt_Name m
     \<and> clean_abs (mnt_MountPath m) \<and> mnt_MountPath m \<noteq> ''/'')"

definition wf_mounts :: "'q k8s \<Rightarrow> GPUUnitStorageMount list \<Rightarrow> bool" where
  "wf_mounts K ms = (list_all (wf_mount K) ms \<and> distinct (map mnt_Name ms)
     \<and> distinct (map mnt_MountPath ms) \<and> sorted (map mount_key ms))"

lemma mount_loop_wf:
  "mount_loop K ns ps ms = Inr r \<Longrightarrow>
   list_all (wf_mount K) r \<and> distinct (map mnt_Name r) \<and> set (map mnt_Name r) \<inter> set ns = {}
   \<and> distinct (map mnt_MountPath r) \<and> set (map mnt_MountPath r) \<inter> set ps = {}"
proof (induction K ns ps ms arbitrary: r rule: mount_loop.induct)
  case (2 K ns ps m ms)
  let ?n = "ToLower (TrimSpace (mnt_Name m))" and ?p = "Clean (TrimSpace (mnt_MountPath m))"
  from "2.prems" obtain r' where ok: "?n \<noteq> []" "IsDNS1123Subdomain K ?n = []" "?n \<notin> set ns"
      "TrimSpace (mnt_MountPath m) \<noteq> []"
      "IsAbs (TrimSpace (mnt_MountPath m))" "?p \<noteq> ''/''" "?p \<notin> set ps"
      "mount_loop K (?n # ns) (?p # ps) ms = Inr r'"
      "r = m\<lparr>mnt_Name := ?n, mnt_MountPath := ?p\<rparr> # r'"
    by (auto simp: Let_def result_simps)
  have c: "clean_abs ?p" using ok(5) by (rule Clean_abs)
  have ih: "list_all (wf_mount K) r' \<and> distinct (map mnt_Name r') \<and> set (map mnt_Name r') \<inter> set (?n # ns) = {}
      \<and> distinct (map mnt_MountPath r') \<and> set (map mnt_MountPath r') \<inter> set (?p # ps) = {}"
    using ok by (intro "2.IH" [OF refl ok(1) _ _ refl _ _ refl]) simp_all
  have "wf_mount K (m\<lparr>mnt_Name := ?n, mnt_MountPath := ?p\<rparr>)"
    using ok c by (simp add: wf_mount_def)
  with ih ok show ?case by auto
qed simp

lemma mount_loop_id:
  "list_all (wf_mount K) ms \<Longrightarrow> list_all (\<lambda>m. trimmed (mnt_MountPath m)) ms
   \<Longrightarrow> distinct (map mnt_Name ms) \<Longrightarrow> set (map mnt_Name ms) \<inter> set ns = {}
   \<Longrightarrow> distinct (map mnt_MountPath ms) \<Longrightarrow> set (map mnt_MountPath ms) \<inter> set ps = {}
   \<Longrightarrow> mount_loop K ns ps ms = Inr ms"
proof (induction K ns ps ms rule: mount_loop.induct)
  case (2 K ns ps m ms)
  then have m: "TrimSpace (mnt_MountPath m) = mnt_MountPath m" "Clean (mnt_MountPath m) = mnt_MountPath m"
      "IsAbs (mnt_MountPath m)" "mnt_MountPath m \<noteq> []"
    by (auto simp: wf_mount_def TrimSpace_id Clean_id clean_abs_IsAbs)
      (auto simp: clean_abs_def)
  have n: "ToLower (TrimSpace (mnt_Name m)) = mnt_Name m" "IsDNS1123Subdomain K (mnt_Name m) = []"
      "mnt_Name m \<noteq> []" "mnt_MountPath m \<noteq> ''/''"
    using "2.prems"(1) by (auto simp: wf_mount_def)
  have "mount_loop K (mnt_Name m # ns) (mnt_MountPath m # ps) ms = Inr ms"
    using "2.prems" m n
      "2.IH" [OF refl _ _ _ refl _ _ refl]
    by (simp add: Let_def)
  with "2.prems" m n show ?case by (simp add: Let_def)
qed simp

lemma NormalizeGPUUnitStorageMounts_wf:
  assumes "NormalizeGPUUnitStorageMounts K ms = Inr r"
  shows "wf_mounts K r"
proof (cases "ms = []")
  case True
  with assms show ?thesis by (simp add: NormalizeGPUUnitStorageMounts_def wf_mounts_def)
next
  case False
  with assms obtain out where out: "mount_loop K [] [] ms = Inr out" "r = sort_key mount_key out"
    by (auto simp: NormalizeGPUUnitStorageMounts_def result_simps)
  note wf = mount_loop_wf [OF out(1)]
  have set: "set r = set out" using out(2) by simp
  have d: "distinct (map f r) \<longleftrightarrow> distinct (map f out)" for f :: "GPUUnitStorageMount \<Rightarrow> string"
    using out(2) by (intro mset_eq_imp_distinct_iff) simp
  have "sorted (map mount_key r)" unfolding out(2) by (rule sorted_sort_key)
  with wf set show ?thesis by (simp add: wf_mounts_def list_all_iff d)
qed

lemma NormalizeGPUUnitStorageMounts_id:
  assumes "wf_mounts K ms" "list_all (\<lambda>m. trimmed (mnt_MountPath m)) ms"
  shows "NormalizeGPUUnitStorageMounts K ms = Inr ms"
  using assms
  by (simp add: NormalizeGPUUnitStorageMounts_def wf_mounts_def mount_loop_id sorted_sort_id
      sort_key_id_if_sorted)

section \<open>DRA allocation\<close>

definition check_capacity :: "'q k8s \<Rightarrow> string \<times> string \<Rightarrow> unit res" where
  "check_capacity K kv =
     (if TrimSpace (fst kv) = [] then Inl (ValidationError (msg ''dra capacity key is required''))
      else case ParseQuantity K (snd kv) of
             Inl e \<Rightarrow> Inl (ValidationError (''dra capacity %q is invalid: %v'', [FS (fst kv)]))
           | Inr _ \<Rightarrow> Inr ())"

definition check_selector :: "string \<Rightarrow> unit res" where
  "check_selector s = (if TrimSpace s = []
     then Inl (ValidationError (msg ''dra selector expression is required'')) else Inr ())"

definition NormalizeDRAAllocation ::
    "'q k8s \<Rightarrow> string \<Rightarrow> GPUUnitAllocationSpec \<Rightarrow> GPUUnitAllocationSpec res" where
  "NormalizeDRAAllocation K unitName allocation =
     (let deviceClass = TrimSpace (alloc_DeviceClassName allocation)
      in if deviceClass = [] then Inl (ValidationError (msg ''dra deviceClassName is required''))
      else let claimName = or_default (TrimSpace (alloc_ClaimName allocation))
                 (GPUUnitNamePrefix @ unitName @ ''-gpu'');
               requestName = or_default (TrimSpace (alloc_ClaimRequestName allocation))
                 UnitDRAClaimRequestName
      in if alloc_Count allocation \<le> 0
        then Inl (ValidationError (msg ''dra count should be > 0''))
      else andThen (checkAll (check_capacity K) (alloc_Capacity allocation)) (\<lambda>_.
           andThen (checkAll check_selector (alloc_Selectors allocation)) (\<lambda>_.
             Inr (allocation\<lparr>alloc_DeviceClassName := deviceClass, alloc_ClaimName := claimName,
                    alloc_ClaimRequestName := requestName\<rparr>))))"

definition wf_allocation :: "'q k8s \<Rightarrow> GPUUnitAllocationSpec \<Rightarrow> bool" where
  "wf_allocation K a = (alloc_DeviceClassName a \<noteq> [] \<and> trimmed (alloc_DeviceClassName a)
     \<and> alloc_ClaimName a \<noteq> [] \<and> alloc_ClaimRequestName a \<noteq> [] \<and> trimmed (alloc_ClaimRequestName a)
     \<and> 0 < alloc_Count a
     \<and> list_all (\<lambda>(k, v). TrimSpace k \<noteq> [] \<and> isOk (ParseQuantity K v)) (alloc_Capacity a)
     \<and> list_all (\<lambda>s. TrimSpace s \<noteq> []) (alloc_Selectors a))"

lemma check_capacity_iff [simp]:
  "check_capacity K (k, v) = Inr u \<longleftrightarrow> TrimSpace k \<noteq> [] \<and> isOk (ParseQuantity K v)"
  by (auto simp: check_capacity_def split: sum.splits)

lemma check_selector_iff [simp]: "check_selector s = Inr u \<longleftrightarrow> TrimSpace s \<noteq> []"
  by (simp add: check_selector_def)

lemma request_name_normal:
  "UnitDRAClaimRequestName \<noteq> []" "trimmed UnitDRAClaimRequestName" "GPUUnitNamePrefix \<noteq> []"
  by code_simp+

lemma NormalizeDRAAllocation_Inr:
  "NormalizeDRAAllocation K u a = Inr r \<longleftrightarrow>
     TrimSpace (alloc_DeviceClassName a) \<noteq> [] \<and> 0 < alloc_Count a
     \<and> list_all (\<lambda>(k, v). TrimSpace k \<noteq> [] \<and> isOk (ParseQuantity K v)) (alloc_Capacity a)
     \<and> list_all (\<lambda>s. TrimSpace s \<noteq> []) (alloc_Selectors a)
     \<and> r = a\<lparr>alloc_DeviceClassName := TrimSpace (alloc_DeviceClassName a),
             alloc_ClaimName := or_default (TrimSpace (alloc_ClaimName a)) (GPUUnitNamePrefix @ u @ ''-gpu''),
             alloc_ClaimRequestName := or_default (TrimSpace (alloc_ClaimRequestName a)) UnitDRAClaimRequestName\<rparr>"
  by (auto simp: NormalizeDRAAllocation_def Let_def result_simps list_all_iff split_beta not_le)

lemma NormalizeDRAAllocation_wf:
  "NormalizeDRAAllocation K u a = Inr r \<Longrightarrow> wf_allocation K r"
  unfolding NormalizeDRAAllocation_Inr wf_allocation_def
  by (clarsimp simp: request_name_normal or_default_pred [where P = trimmed])

lemma NormalizeDRAAllocation_id:
  assumes "wf_allocation K a" and "trimmed (alloc_ClaimName a)"
  shows "NormalizeDRAAllocation K u a = Inr a"
  using assms unfolding NormalizeDRAAllocation_Inr wf_allocation_def
  by (cases a) (simp add: TrimSpace_id)

end
