(* ===== verification/Package_Catalog.thy ===== *)
theory Package_Catalog
  imports Unit_Mounts
begin

text \<open>
  \<^verbatim>\<open>pkg/contract/package_catalog.go\<close>: the packages operations staff configure, their normalization
  (the HAMi virtual GPU path included), lookup, and the expansion of a create request into the
  resources of its package. The create request itself is declared here, because the expansion
  rewrites it.
\<close>

section \<open>Data\<close>

definition RuntimePackageVirtualGPUProviderHAMi :: string where
  "RuntimePackageVirtualGPUProviderHAMi = ''hami''"
definition HAMiDRADeviceClassName :: string where
  "HAMiDRADeviceClassName = ''hami-core-gpu.project-hami.io''"
definition HAMiDRACapacityMemoryKey :: string where "HAMiDRACapacityMemoryKey = ''memory''"
definition HAMiDRACapacityCoresKey :: string where "HAMiDRACapacityCoresKey = ''cores''"

record RuntimePackageVirtualGPUSpec =
  vg_Provider :: string
  vg_Memory :: string
  vg_Cores :: int

record RuntimePackageSpec =
  pkg_ID :: string
  pkg_SpecName :: string
  pkg_CPU :: string
  pkg_Memory :: string
  pkg_GPU :: int
  pkg_VirtualGPU :: RuntimePackageVirtualGPUSpec
  pkg_Allocation :: GPUUnitAllocationSpec

type_synonym RuntimePackageCatalog = "RuntimePackageSpec list"

record CreateGPUUnitRequest =
  cr_OperationID :: string
  cr_Name :: string
  cr_PackageID :: string
  cr_SpecName :: string
  cr_Image :: string
  cr_CPU :: string
  cr_Memory :: string
  cr_GPU :: int
  cr_Allocation :: GPUUnitAllocationSpec
  cr_Template :: GPUUnitTemplate
  cr_Access :: GPUUnitAccess
  cr_SSH :: GPUUnitSSHSpec
  cr_Serverless :: GPUUnitServerlessSpec
  cr_StorageMounts :: "GPUUnitStorageMount list"

section \<open>Operations\<close>

definition cloneAllocation :: "GPUUnitAllocationSpec \<Rightarrow> GPUUnitAllocationSpec" where
  "cloneAllocation a = a\<lparr>alloc_Capacity := fold (\<lambda>(k, v) out. map_put k v out) (alloc_Capacity a) [],
     alloc_Selectors := [] @ alloc_Selectors a\<rparr>"

definition cloneRuntimePackageSpec :: "RuntimePackageSpec \<Rightarrow> RuntimePackageSpec" where
  "cloneRuntimePackageSpec p = p\<lparr>pkg_Allocation := cloneAllocation (pkg_Allocation p)\<rparr>"

definition Catalog_Clone :: "RuntimePackageCatalog \<Rightarrow> RuntimePackageCatalog" where
  "Catalog_Clone c = map cloneRuntimePackageSpec c"

definition Catalog_Lookup :: "RuntimePackageCatalog \<Rightarrow> string \<Rightarrow> RuntimePackageSpec option" where
  "Catalog_Lookup c packageID = find (\<lambda>item. pkg_ID item = ToLower (TrimSpace packageID)) c"

definition rejectPackageStringOverride :: "string \<Rightarrow> string \<Rightarrow> string \<Rightarrow> unit res" where
  "rejectPackageStringOverride field got want =
     (let got = TrimSpace got
      in if got = [] \<or> got = want then Inr ()
         else Inl (ValidationError (''%s %q conflicts with package value %q'', [FS field, FS got, FS want])))"

definition ExpandRuntimePackage ::
    "CreateGPUUnitRequest \<Rightarrow> RuntimePackageCatalog \<Rightarrow> CreateGPUUnitRequest res" where
  "ExpandRuntimePackage req catalog =
     (case Catalog_Lookup catalog (ToLower (TrimSpace (cr_PackageID req))) of
        None \<Rightarrow> Inl (ValidationError (''packageID %q is not configured'', [FS (cr_PackageID req)]))
      | Some pkg \<Rightarrow>
          andThen (rejectPackageStringOverride ''specName'' (cr_SpecName req) (pkg_SpecName pkg)) (\<lambda>_.
          andThen (rejectPackageStringOverride ''cpu'' (cr_CPU req) (pkg_CPU pkg)) (\<lambda>_.
          andThen (rejectPackageStringOverride ''memory'' (cr_Memory req) (pkg_Memory pkg)) (\<lambda>_.
            if cr_GPU req \<noteq> 0 \<and> cr_GPU req \<noteq> pkg_GPU pkg
            then Inl (ValidationError (''gpu %d conflicts with packageID %q gpu %d'',
                   [FI (cr_GPU req), FS (pkg_ID pkg), FI (pkg_GPU pkg)]))
            else Inr (req\<lparr>cr_PackageID := pkg_ID pkg, cr_SpecName := pkg_SpecName pkg,
                   cr_CPU := pkg_CPU pkg, cr_Memory := pkg_Memory pkg, cr_GPU := pkg_GPU pkg,
                   cr_Allocation := cloneAllocation (pkg_Allocation pkg)\<rparr>)))))"

definition merge_entry :: "string \<Rightarrow> string \<Rightarrow> string \<Rightarrow> string \<Rightarrow> string \<times> string
    \<Rightarrow> string smap \<Rightarrow> string smap res" where
  "merge_entry packageID key value sourceField kv cap =
     (if TrimSpace (fst kv) \<noteq> key then Inr cap
      else if TrimSpace (snd kv) \<noteq> value
        then Inl (ValidationError (''packageID %q dra capacity %q=%q conflicts with %s %q'',
               [FS packageID, FS key, FS (TrimSpace (snd kv)), FS sourceField, FS value]))
      else if fst kv \<noteq> key then Inr (map_del (fst kv) cap)
      else Inr cap)"

definition mergePackageDRACapacity ::
    "string \<Rightarrow> GPUUnitAllocationSpec \<Rightarrow> string \<Rightarrow> string \<Rightarrow> string \<Rightarrow> GPUUnitAllocationSpec res" where
  "mergePackageDRACapacity packageID allocation key value sourceField =
     andThen (foldRes (merge_entry packageID key value sourceField) (alloc_Capacity allocation)
               (alloc_Capacity allocation))
       (\<lambda>cap. Inr (allocation\<lparr>alloc_Capacity := map_put key value cap\<rparr>))"

definition normalizeRuntimePackageVirtualGPU ::
    "'q k8s \<Rightarrow> string \<Rightarrow> RuntimePackageVirtualGPUSpec \<Rightarrow> GPUUnitAllocationSpec
     \<Rightarrow> (RuntimePackageVirtualGPUSpec \<times> GPUUnitAllocationSpec) res" where
  "normalizeRuntimePackageVirtualGPU K packageID vg0 allocation =
     (let vg = vg0\<lparr>vg_Provider := ToLower (TrimSpace (vg_Provider vg0)), vg_Memory := TrimSpace (vg_Memory vg0)\<rparr>
      in if vg_Provider vg = []
        then (if vg_Memory vg \<noteq> [] \<or> vg_Cores vg \<noteq> 0
              then Inl (ValidationError (''packageID %q virtualGPU provider is required'', [FS packageID]))
              else Inr (vg, allocation))
      else if vg_Provider vg \<noteq> RuntimePackageVirtualGPUProviderHAMi
        then Inl (ValidationError (''packageID %q virtualGPU provider %q is not supported'',
               [FS packageID, FS (vg_Provider vg)]))
      else if vg_Memory vg = []
        then Inl (ValidationError (''packageID %q hami virtualGPU memory is required'', [FS packageID]))
      else case ParseQuantity K (vg_Memory vg) of
        Inl e \<Rightarrow> Inl (ValidationError (''packageID %q hami virtualGPU memory %q is invalid: %v'',
                  [FS packageID, FS (vg_Memory vg)]))
      | Inr q \<Rightarrow>
        if qty_Sign K q \<le> 0
        then Inl (ValidationError (''packageID %q hami virtualGPU memory should be > 0'', [FS packageID]))
        else if vg_Cores vg < 0 \<or> vg_Cores vg > 100
        then Inl (ValidationError (''packageID %q hami virtualGPU cores should be between 1 and 100 when configured'',
               [FS packageID]))
        else
          let a1 = allocation\<lparr>alloc_DeviceClassName :=
                 or_default (TrimSpace (alloc_DeviceClassName allocation)) HAMiDRADeviceClassName,
               alloc_Count := or_default_int (alloc_Count allocation) 1\<rparr>
          in andThen (mergePackageDRACapacity packageID a1 HAMiDRACapacityMemoryKey (vg_Memory vg) ''virtualGPU.memory'') (\<lambda>a2.
             andThen (if vg_Cores vg > 0
                      then mergePackageDRACapacity packageID a2 HAMiDRACapacityCoresKey (FormatInt (vg_Cores vg) 10) ''virtualGPU.cores''
                      else Inr a2) (\<lambda>a3.
               Inr (vg, a3))))"

definition capacity_entry :: "'q k8s \<Rightarrow> string \<Rightarrow> string \<times> string \<Rightarrow> string smap \<Rightarrow> string smap res" where
  "capacity_entry K packageID kv capacity =
     (let name = TrimSpace (fst kv); normalizedValue = TrimSpace (snd kv)
      in if name = []
         then Inl (ValidationError (''packageID %q dra capacity key is required'', [FS packageID]))
         else case ParseQuantity K normalizedValue of
                Inl e \<Rightarrow> Inl (ValidationError (''packageID %q dra capacity %q is invalid: %v'',
                          [FS packageID, FS name]))
              | Inr _ \<Rightarrow> Inr (map_put name normalizedValue capacity))"

definition selector_entry :: "string \<Rightarrow> string \<Rightarrow> string res" where
  "selector_entry packageID selector =
     (let normalized = TrimSpace selector
      in if normalized = []
         then Inl (ValidationError (''packageID %q dra selector expression is required'', [FS packageID]))
         else Inr normalized)"

definition normalizePackageDRAAllocation ::
    "'q k8s \<Rightarrow> string \<Rightarrow> GPUUnitAllocationSpec \<Rightarrow> GPUUnitAllocationSpec res" where
  "normalizePackageDRAAllocation K packageID allocation =
     (let deviceClass = TrimSpace (alloc_DeviceClassName allocation);
          claimName = TrimSpace (alloc_ClaimName allocation);
          requestName = or_default (TrimSpace (alloc_ClaimRequestName allocation)) UnitDRAClaimRequestName
      in if deviceClass = []
        then Inl (ValidationError (''packageID %q dra deviceClassName is required'', [FS packageID]))
      else if claimName \<noteq> []
        then Inl (ValidationError (''packageID %q must not configure dra claimName'', [FS packageID]))
      else if alloc_Count allocation \<le> 0
        then Inl (ValidationError (''packageID %q dra count should be > 0'', [FS packageID]))
      else andThen (foldRes (capacity_entry K packageID) (alloc_Capacity allocation) []) (\<lambda>capacity.
           andThen (mapRes (selector_entry packageID) (alloc_Selectors allocation)) (\<lambda>selectors.
             Inr (allocation\<lparr>alloc_DeviceClassName := deviceClass, alloc_ClaimName := claimName,
                    alloc_ClaimRequestName := requestName,
                    alloc_Capacity := (if capacity \<noteq> [] then capacity else alloc_Capacity allocation),
                    alloc_Selectors := selectors\<rparr>))))"

definition Package_Normalized :: "'q k8s \<Rightarrow> RuntimePackageSpec \<Rightarrow> RuntimePackageSpec res" where
  "Package_Normalized K p =
     (let ID = ToLower (TrimSpace (pkg_ID p)); specName = TrimSpace (pkg_SpecName p);
          cpu = TrimSpace (pkg_CPU p); memory = TrimSpace (pkg_Memory p)
      in if ID = [] then Inl (ValidationError (msg ''package id is required''))
      else if IsDNS1123Label K ID \<noteq> []
        then Inl (ValidationError (''packageID %q is invalid: %s'', [FS ID, FS (join ''; '' (IsDNS1123Label K ID))]))
      else if specName = [] then Inl (ValidationError (''packageID %q specName is required'', [FS ID]))
      else if cpu = [] then Inl (ValidationError (''packageID %q cpu is required'', [FS ID]))
      else if \<not> isOk (ParseQuantity K cpu)
        then Inl (ValidationError (''packageID %q cpu %q is invalid: %v'', [FS ID, FS cpu]))
      else if memory = [] then Inl (ValidationError (''packageID %q memory is required'', [FS ID]))
      else if \<not> isOk (ParseQuantity K memory)
        then Inl (ValidationError (''packageID %q memory %q is invalid: %v'', [FS ID, FS memory]))
      else if pkg_GPU p \<le> 0 then Inl (ValidationError (''packageID %q gpu should be > 0'', [FS ID]))
      else andThen (normalizeRuntimePackageVirtualGPU K ID (pkg_VirtualGPU p) (pkg_Allocation p))
             (\<lambda>(virtualGPU, allocation).
           andThen (normalizePackageDRAAllocation K ID allocation) (\<lambda>allocation.
             Inr (p\<lparr>pkg_ID := ID, pkg_SpecName := specName, pkg_CPU := cpu, pkg_Memory := memory,
                    pkg_VirtualGPU := virtualGPU, pkg_Allocation := allocation\<rparr>))))"

fun catalog_loop :: "'q k8s \<Rightarrow> string list \<Rightarrow> RuntimePackageCatalog \<Rightarrow> RuntimePackageCatalog res" where
  "catalog_loop K seen [] = Inr []"
| "catalog_loop K seen (item # c) =
     andThen (Package_Normalized K item) (\<lambda>normalized.
       if pkg_ID normalized \<in> set seen
       then Inl (ValidationError (''packageID %q is configured more than once'', [FS (pkg_ID normalized)]))
       else andThen (catalog_loop K (pkg_ID normalized # seen) c) (\<lambda>out. Inr (normalized # out)))"

definition Catalog_Normalized :: "'q k8s \<Rightarrow> RuntimePackageCatalog \<Rightarrow> RuntimePackageCatalog res" where
  "Catalog_Normalized K c = andThen (catalog_loop K [] c) (\<lambda>out. Inr (sort_key pkg_ID out))"

section \<open>Capacity entries pinned by the virtual GPU\<close>

text \<open>Every entry whose trimmed key is \<open>key\<close> has the trimmed val \<open>val\<close>, and there is one.\<close>

definition pinned :: "string \<Rightarrow> string \<Rightarrow> string smap \<Rightarrow> bool" where
  "pinned key val cap = (key \<in> TrimSpace ` fst ` set cap
     \<and> list_all (\<lambda>(k, v). TrimSpace k = key \<longrightarrow> TrimSpace v = val) cap)"

lemma merge_entries_Inr:
  "foldRes (merge_entry p key val f) es cap = Inr cap' \<Longrightarrow>
   list_all (\<lambda>(k, v). TrimSpace k = key \<longrightarrow> TrimSpace v = val) es
   \<and> cap' = filter (\<lambda>(k, v). \<not> (TrimSpace k = key \<and> k \<noteq> key \<and> k \<in> fst ` set es)) cap"
proof (induction es arbitrary: cap)
  case (Cons e es)
  obtain k v where e: "e = (k, v)" by fastforce
  from Cons.prems e obtain c1 where c1: "merge_entry p key val f (k, v) cap = Inr c1"
      and rest: "foldRes (merge_entry p key val f) es c1 = Inr cap'"
    by (auto simp: andThen_Inr_iff)
  have ok: "TrimSpace k = key \<longrightarrow> TrimSpace v = val"
    using c1 by (auto simp: merge_entry_def split: if_splits)
  have c1f: "c1 = filter (\<lambda>(k', v'). \<not> (TrimSpace k = key \<and> k \<noteq> key \<and> k' = k)) cap"
    using c1 by (auto simp: merge_entry_def map_del_def AList.delete_eq split: if_splits intro!: filter_cong)
  show ?case using Cons.IH [OF rest] ok e unfolding c1f filter_filter
    by (auto intro!: filter_cong)
qed simp

lemma merge_capacity_Inr:
  assumes "mergePackageDRACapacity p a key val f = Inr a'"
  obtains cap where "a' = a\<lparr>alloc_Capacity := map_put key val cap\<rparr>"
    "list_all (\<lambda>(k, v). TrimSpace k = key \<longrightarrow> TrimSpace v = val) cap"
    "cap = filter (\<lambda>(k, v). \<not> (TrimSpace k = key \<and> k \<noteq> key)) (alloc_Capacity a)"
proof -
  from assms obtain cap where c: "foldRes (merge_entry p key val f) (alloc_Capacity a) (alloc_Capacity a) = Inr cap"
      and a': "a' = a\<lparr>alloc_Capacity := map_put key val cap\<rparr>"
    by (auto simp: mergePackageDRACapacity_def andThen_Inr_iff)
  from merge_entries_Inr [OF c] have l: "list_all (\<lambda>(k, v). TrimSpace k = key \<longrightarrow> TrimSpace v = val) (alloc_Capacity a)"
    and f: "cap = filter (\<lambda>(k, v). \<not> (TrimSpace k = key \<and> k \<noteq> key)) (alloc_Capacity a)"
    by (auto intro!: filter_cong simp: image_iff)
  show ?thesis by (rule that [OF a' _ f]) (use l f in \<open>auto simp: list_all_iff\<close>)
qed

lemma merge_pins:
  assumes "mergePackageDRACapacity p a key val f = Inr a'" "trimmed key" "trimmed val"
  shows "pinned key val (alloc_Capacity a')"
proof -
  obtain cap where c: "a' = a\<lparr>alloc_Capacity := map_put key val cap\<rparr>"
    "list_all (\<lambda>(k, v). TrimSpace k = key \<longrightarrow> TrimSpace v = val) cap"
    using merge_capacity_Inr [OF assms(1)] by blast
  have "TrimSpace key = key" "TrimSpace val = val" using assms by (simp_all add: TrimSpace_id)
  with c show ?thesis using set_map_put [of key val cap]
    by (auto simp: pinned_def list_all_iff)
qed

lemma merge_keeps:
  assumes "mergePackageDRACapacity p a key val f = Inr a'" "pinned k1 v1 (alloc_Capacity a)"
    "trimmed key" "key \<noteq> k1"
  shows "pinned k1 v1 (alloc_Capacity a')"
proof -
  obtain cap where a': "a' = a\<lparr>alloc_Capacity := map_put key val cap\<rparr>"
    and cap: "cap = filter (\<lambda>(k, v). \<not> (TrimSpace k = key \<and> k \<noteq> key)) (alloc_Capacity a)"
    using merge_capacity_Inr [OF assms(1)] by blast
  from assms(2) obtain k v where kv: "(k, v) \<in> set (alloc_Capacity a)" "TrimSpace k = k1"
    by (auto simp: pinned_def)
  have t: "TrimSpace key = key" using assms(3) by (rule TrimSpace_id)
  with kv assms(4) have "(k, v) \<in> set (map_put key val cap)" unfolding cap
    by (intro map_put_other) auto
  with kv(2) have ex: "k1 \<in> TrimSpace ` fst ` set (map_put key val cap)"
    by (metis fst_conv imageI)
  have "list_all (\<lambda>(k, v). TrimSpace k = k1 \<longrightarrow> TrimSpace v = v1) (map_put key val cap)"
    unfolding list_all_iff
  proof safe
    fix k' v' assume "(k', v') \<in> set (map_put key val cap)" "k1 = TrimSpace k'"
    with set_map_put [of key val cap] t assms(4) have "(k', v') \<in> set (alloc_Capacity a)"
      by (auto simp: cap)
    with assms(2) \<open>k1 = TrimSpace k'\<close> show "TrimSpace v' = v1" by (auto simp: pinned_def list_all_iff)
  qed
  with ex a' show ?thesis by (simp add: pinned_def)
qed

lemma capacity_entries_pinned:
  assumes "foldRes (capacity_entry K p) es c0 = Inr cap"
    and "list_all (\<lambda>(k, v). TrimSpace k = key \<longrightarrow> TrimSpace v = val) es"
    and "key \<in> TrimSpace ` fst ` set es \<or> map_of c0 key = Some val"
  shows "map_of cap key = Some val"
  using assms
proof (induction es arbitrary: c0)
  case (Cons e es)
  obtain k v where e: "e = (k, v)" by fastforce
  from Cons.prems(1) e obtain c1 where c1: "capacity_entry K p (k, v) c0 = Inr c1"
      and rest: "foldRes (capacity_entry K p) es c1 = Inr cap"
    by (auto simp: andThen_Inr_iff)
  then have "c1 = map_put (TrimSpace k) (TrimSpace v) c0"
    by (auto simp: capacity_entry_def Let_def split: if_splits sum.splits)
  with Cons.prems e show ?case by (intro Cons.IH [OF rest]) auto
qed simp

section \<open>Well-formed packages\<close>

definition wf_package_allocation :: "'q k8s \<Rightarrow> GPUUnitAllocationSpec \<Rightarrow> bool" where
  "wf_package_allocation K a = (alloc_DeviceClassName a \<noteq> [] \<and> trimmed (alloc_DeviceClassName a)
     \<and> alloc_ClaimName a = [] \<and> alloc_ClaimRequestName a \<noteq> [] \<and> trimmed (alloc_ClaimRequestName a)
     \<and> 0 < alloc_Count a \<and> distinct (map fst (alloc_Capacity a))
     \<and> list_all (\<lambda>(k, v). k \<noteq> [] \<and> trimmed k \<and> trimmed v \<and> isOk (ParseQuantity K v)) (alloc_Capacity a)
     \<and> list_all (\<lambda>s. s \<noteq> [] \<and> trimmed s) (alloc_Selectors a))"

text \<open>The DRA capacity a package asks for says what its virtual GPU says.\<close>

definition virtual_gpu_agrees :: "RuntimePackageSpec \<Rightarrow> bool" where
  "virtual_gpu_agrees p =
     (let vg = pkg_VirtualGPU p; cap = map_of (alloc_Capacity (pkg_Allocation p))
      in vg_Provider vg = [] \<and> vg_Memory vg = [] \<and> vg_Cores vg = 0
         \<or> vg_Provider vg = RuntimePackageVirtualGPUProviderHAMi \<and> vg_Memory vg \<noteq> []
           \<and> 0 \<le> vg_Cores vg \<and> vg_Cores vg \<le> 100
           \<and> cap HAMiDRACapacityMemoryKey = Some (vg_Memory vg)
           \<and> (0 < vg_Cores vg \<longrightarrow> cap HAMiDRACapacityCoresKey = Some (FormatInt (vg_Cores vg) 10)))"

definition wf_package :: "'q k8s \<Rightarrow> RuntimePackageSpec \<Rightarrow> bool" where
  "wf_package K p = (pkg_ID p \<noteq> [] \<and> ToLower (TrimSpace (pkg_ID p)) = pkg_ID p
     \<and> IsDNS1123Label K (pkg_ID p) = [] \<and> pkg_SpecName p \<noteq> [] \<and> trimmed (pkg_SpecName p)
     \<and> pkg_CPU p \<noteq> [] \<and> trimmed (pkg_CPU p) \<and> isOk (ParseQuantity K (pkg_CPU p))
     \<and> pkg_Memory p \<noteq> [] \<and> trimmed (pkg_Memory p) \<and> isOk (ParseQuantity K (pkg_Memory p))
     \<and> 0 < pkg_GPU p \<and> wf_package_allocation K (pkg_Allocation p) \<and> virtual_gpu_agrees p)"

lemma capacity_entries_wf:
  assumes "foldRes (capacity_entry K p) es [] = Inr cap"
  shows "distinct (map fst cap)
    \<and> list_all (\<lambda>(k, v). k \<noteq> [] \<and> trimmed k \<and> trimmed v \<and> isOk (ParseQuantity K v)) cap"
proof (rule foldRes_invariant [OF assms])
  fix e s s'
  assume inv: "distinct (map fst s)
      \<and> list_all (\<lambda>(k, v). k \<noteq> [] \<and> trimmed k \<and> trimmed v \<and> isOk (ParseQuantity K v)) s"
    and step: "capacity_entry K p e s = Inr s'"
  from step have s': "s' = map_put (TrimSpace (fst e)) (TrimSpace (snd e)) s"
      "TrimSpace (fst e) \<noteq> []" "isOk (ParseQuantity K (TrimSpace (snd e)))"
    by (auto simp: capacity_entry_def Let_def split: if_splits sum.splits)
  with inv set_map_put [of "TrimSpace (fst e)" "TrimSpace (snd e)" s]
  show "distinct (map fst s')
      \<and> list_all (\<lambda>(k, v). k \<noteq> [] \<and> trimmed k \<and> trimmed v \<and> isOk (ParseQuantity K v)) s'"
    by (fastforce simp: list_all_iff)
qed simp

lemma capacity_entries_length:
  "foldRes (capacity_entry K p) es c0 = Inr cap \<Longrightarrow> es \<noteq> [] \<or> c0 \<noteq> [] \<Longrightarrow> cap \<noteq> []"
proof (induction es arbitrary: c0)
  case (Cons e es)
  from Cons.prems obtain c1 where c1: "capacity_entry K p e c0 = Inr c1"
      and rest: "foldRes (capacity_entry K p) es c1 = Inr cap"
    by (auto simp: andThen_Inr_iff)
  have "c1 \<noteq> []" using c1
    by (auto simp: capacity_entry_def Let_def map_put_def update_nonempty split: if_splits sum.splits)
  with Cons.IH [OF rest] show ?case by simp
qed simp

lemma normalizePackageDRAAllocation_wf:
  assumes "normalizePackageDRAAllocation K p a = Inr r"
  shows "wf_package_allocation K r"
    and "pinned key val (alloc_Capacity a) \<Longrightarrow> map_of (alloc_Capacity r) key = Some val"
proof -
  from assms obtain cap sel where ok: "TrimSpace (alloc_DeviceClassName a) \<noteq> []"
      "TrimSpace (alloc_ClaimName a) = []" "0 < alloc_Count a"
      and cap: "foldRes (capacity_entry K p) (alloc_Capacity a) [] = Inr cap"
      and sel: "list_all2 (\<lambda>s t. selector_entry p s = Inr t) (alloc_Selectors a) sel"
      and r: "r = a\<lparr>alloc_DeviceClassName := TrimSpace (alloc_DeviceClassName a), alloc_ClaimName := [],
          alloc_ClaimRequestName := or_default (TrimSpace (alloc_ClaimRequestName a)) UnitDRAClaimRequestName,
          alloc_Capacity := (if cap \<noteq> [] then cap else alloc_Capacity a), alloc_Selectors := sel\<rparr>"
    by (auto simp: normalizePackageDRAAllocation_def Let_def guard_Inr_iff andThen_Inr_iff mapRes_Inr_iff
        not_le split del: if_split)
  have cap_r: "alloc_Capacity r = cap"
    using r capacity_entries_length [OF cap] by (auto split: if_splits)
  have "list_all (\<lambda>s. s \<noteq> [] \<and> trimmed s) sel" using sel
    by (induction rule: list_all2_induct)
      (auto simp: selector_entry_def Let_def split: if_splits)
  with r ok cap_r capacity_entries_wf [OF cap] show "wf_package_allocation K r"
    by (simp add: wf_package_allocation_def request_name_normal or_default_pred [where P = trimmed])
  show "map_of (alloc_Capacity r) key = Some val" if "pinned key val (alloc_Capacity a)"
    using that capacity_entries_pinned [OF cap] cap_r by (auto simp: pinned_def)
qed

lemma capacity_keys:
  "trimmed HAMiDRACapacityMemoryKey" "trimmed HAMiDRACapacityCoresKey"
  "HAMiDRACapacityCoresKey \<noteq> HAMiDRACapacityMemoryKey" "RuntimePackageVirtualGPUProviderHAMi \<noteq> []"
  by code_simp+

lemma virtual_gpu_Inr:
  assumes "normalizeRuntimePackageVirtualGPU K p vg0 a = Inr (vg, a')"
  shows "vg_Provider vg = [] \<and> vg_Memory vg = [] \<and> vg_Cores vg = 0
    \<or> vg_Provider vg = RuntimePackageVirtualGPUProviderHAMi \<and> vg_Memory vg \<noteq> []
      \<and> 0 \<le> vg_Cores vg \<and> vg_Cores vg \<le> 100
      \<and> pinned HAMiDRACapacityMemoryKey (vg_Memory vg) (alloc_Capacity a')
      \<and> (0 < vg_Cores vg \<longrightarrow>
           pinned HAMiDRACapacityCoresKey (FormatInt (vg_Cores vg) 10) (alloc_Capacity a'))"
proof (cases "ToLower (TrimSpace (vg_Provider vg0)) = []")
  case True
  with assms show ?thesis
    by (auto simp: normalizeRuntimePackageVirtualGPU_def Let_def split: if_splits)
next
  case False
  define b where "b = a\<lparr>alloc_DeviceClassName :=
      or_default (TrimSpace (alloc_DeviceClassName a)) HAMiDRADeviceClassName,
      alloc_Count := or_default_int (alloc_Count a) 1\<rparr>"
  from assms False obtain a2 where ok: "vg_Provider vg = RuntimePackageVirtualGPUProviderHAMi"
      "vg_Memory vg \<noteq> []" "trimmed (vg_Memory vg)" "0 \<le> vg_Cores vg" "vg_Cores vg \<le> 100"
      and m: "mergePackageDRACapacity p b HAMiDRACapacityMemoryKey (vg_Memory vg) ''virtualGPU.memory'' = Inr a2"
      and c: "(if 0 < vg_Cores vg then mergePackageDRACapacity p a2 HAMiDRACapacityCoresKey
            (FormatInt (vg_Cores vg) 10) ''virtualGPU.cores'' else Inr a2) = Inr a'"
    by (auto simp: normalizeRuntimePackageVirtualGPU_def Let_def b_def result_simps
        split: if_splits sum.splits)
  note mem = merge_pins [OF m capacity_keys(1) ok(3)]
  show ?thesis
  proof (cases "0 < vg_Cores vg")
    case True
    with c have c': "mergePackageDRACapacity p a2 HAMiDRACapacityCoresKey
        (FormatInt (vg_Cores vg) 10) ''virtualGPU.cores'' = Inr a'" by simp
    have "trimmed (FormatInt (vg_Cores vg) 10)" using ok by (intro FormatInt_trimmed) simp_all
    with merge_pins [OF c' capacity_keys(2)] merge_keeps [OF c' mem capacity_keys(2,3)] ok
    show ?thesis by blast
  qed (use c mem ok in auto)
qed

lemma Package_Normalized_wf:
  assumes "Package_Normalized K p = Inr r"
  shows "wf_package K r"
proof -
  from assms obtain vg a a' where
      vg: "normalizeRuntimePackageVirtualGPU K (ToLower (TrimSpace (pkg_ID p))) (pkg_VirtualGPU p)
             (pkg_Allocation p) = Inr (vg, a)"
      and a': "normalizePackageDRAAllocation K (ToLower (TrimSpace (pkg_ID p))) a = Inr a'"
      and r: "r = p\<lparr>pkg_ID := ToLower (TrimSpace (pkg_ID p)), pkg_SpecName := TrimSpace (pkg_SpecName p),
          pkg_CPU := TrimSpace (pkg_CPU p), pkg_Memory := TrimSpace (pkg_Memory p),
          pkg_VirtualGPU := vg, pkg_Allocation := a'\<rparr>"
      and ok: "ToLower (TrimSpace (pkg_ID p)) \<noteq> []" "IsDNS1123Label K (ToLower (TrimSpace (pkg_ID p))) = []"
        "TrimSpace (pkg_SpecName p) \<noteq> []" "TrimSpace (pkg_CPU p) \<noteq> []" "TrimSpace (pkg_Memory p) \<noteq> []"
        "isOk (ParseQuantity K (TrimSpace (pkg_CPU p)))" "isOk (ParseQuantity K (TrimSpace (pkg_Memory p)))"
        "0 < pkg_GPU p"
    unfolding Package_Normalized_def Let_def
    by (simp only: guard_Inr_iff andThen_Inr_iff split_paired_all split_paired_Ex case_prod_conv not_le
        not_not) auto
  have "virtual_gpu_agrees r"
    using virtual_gpu_Inr [OF vg] normalizePackageDRAAllocation_wf(2) [OF a'] r
    by (auto simp: virtual_gpu_agrees_def Let_def)
  with r ok normalizePackageDRAAllocation_wf(1) [OF a'] show ?thesis by (simp add: wf_package_def)
qed

section \<open>The catalog\<close>

lemma catalog_loop_wf:
  "catalog_loop K seen c = Inr out \<Longrightarrow>
   list_all (wf_package K) out \<and> distinct (map pkg_ID out) \<and> set (map pkg_ID out) \<inter> set seen = {}
   \<and> length out = length c"
proof (induction K seen c arbitrary: out rule: catalog_loop.induct)
  case (2 K seen item c)
  from "2.prems" obtain n out' where n: "Package_Normalized K item = Inr n" "pkg_ID n \<notin> set seen"
      and rest: "catalog_loop K (pkg_ID n # seen) c = Inr out'" and out: "out = n # out'"
    by (auto simp: andThen_Inr_iff guard_Inr_iff)
  from "2.IH" [OF n(2) rest] Package_Normalized_wf [OF n(1)] n(2) out show ?case by auto
qed simp

lemma Catalog_Normalized_wf:
  assumes "Catalog_Normalized K c = Inr out"
  shows "list_all (wf_package K) out \<and> distinct (map pkg_ID out) \<and> sorted (map pkg_ID out)
    \<and> length out = length c"
proof -
  from assms obtain o1 where o1: "catalog_loop K [] c = Inr o1" "out = sort_key pkg_ID o1"
    by (auto simp: Catalog_Normalized_def andThen_Inr_iff)
  have "distinct (map pkg_ID out) \<longleftrightarrow> distinct (map pkg_ID o1)"
    unfolding o1(2) by (intro mset_eq_imp_distinct_iff) simp
  with catalog_loop_wf [OF o1(1)] o1(2) show ?thesis by (auto simp: list_all_iff)
qed

lemma Catalog_Lookup_Some:
  "Catalog_Lookup c pid = Some p \<Longrightarrow> p \<in> set c \<and> pkg_ID p = ToLower (TrimSpace pid)"
  by (auto simp: Catalog_Lookup_def find_Some_iff)

lemma Catalog_Lookup_None:
  "Catalog_Lookup c pid = None \<longleftrightarrow> ToLower (TrimSpace pid) \<notin> pkg_ID ` set c"
  by (auto simp: Catalog_Lookup_def find_None_iff image_iff)

lemma Catalog_Lookup_unique:
  assumes "distinct (map pkg_ID c)" "p \<in> set c" "pkg_ID p = ToLower (TrimSpace pid)"
  shows "Catalog_Lookup c pid = Some p"
proof -
  from assms have "Catalog_Lookup c pid \<noteq> None" by (metis Catalog_Lookup_None imageI)
  then obtain q where q: "Catalog_Lookup c pid = Some q" by auto
  from Catalog_Lookup_Some [OF q] assms have "q = p" by (auto simp: distinct_map inj_on_def)
  with q show ?thesis by simp
qed

lemma cloneAllocation_id: "distinct (map fst (alloc_Capacity a)) \<Longrightarrow> cloneAllocation a = a"
  by (simp add: cloneAllocation_def fold_map_put_fresh)

lemma wf_package_clone: "wf_package K p \<Longrightarrow> cloneAllocation (pkg_Allocation p) = pkg_Allocation p"
  by (simp add: wf_package_def wf_package_allocation_def cloneAllocation_id)

lemma rejectPackageStringOverride_Inr:
  "rejectPackageStringOverride f got want = Inr u \<longleftrightarrow> TrimSpace got = [] \<or> TrimSpace got = want"
  by (auto simp: rejectPackageStringOverride_def Let_def)

text \<open>The request after expansion: every resource field is the package's.\<close>

abbreviation expanded :: "CreateGPUUnitRequest \<Rightarrow> RuntimePackageSpec \<Rightarrow> CreateGPUUnitRequest" where
  "expanded req p \<equiv> req\<lparr>cr_PackageID := pkg_ID p, cr_SpecName := pkg_SpecName p, cr_CPU := pkg_CPU p,
     cr_Memory := pkg_Memory p, cr_GPU := pkg_GPU p, cr_Allocation := pkg_Allocation p\<rparr>"

lemma ExpandRuntimePackage_Inr:
  assumes "list_all (wf_package K) c"
  shows "ExpandRuntimePackage req c = Inr r \<longleftrightarrow>
    (\<exists>p. Catalog_Lookup c (cr_PackageID req) = Some p \<and> r = expanded req p
       \<and> (TrimSpace (cr_SpecName req) = [] \<or> TrimSpace (cr_SpecName req) = pkg_SpecName p)
       \<and> (TrimSpace (cr_CPU req) = [] \<or> TrimSpace (cr_CPU req) = pkg_CPU p)
       \<and> (TrimSpace (cr_Memory req) = [] \<or> TrimSpace (cr_Memory req) = pkg_Memory p)
       \<and> (cr_GPU req = 0 \<or> cr_GPU req = pkg_GPU p))"
proof -
  have id: "Catalog_Lookup c (ToLower (TrimSpace (cr_PackageID req))) = Catalog_Lookup c (cr_PackageID req)"
    by (simp add: Catalog_Lookup_def)
  show ?thesis
  proof (cases "Catalog_Lookup c (cr_PackageID req)")
    case (Some p)
    with assms have "cloneAllocation (pkg_Allocation p) = pkg_Allocation p"
      by (auto dest!: Catalog_Lookup_Some simp: list_all_iff wf_package_clone)
    with Some id show ?thesis
      by (auto simp: ExpandRuntimePackage_def andThen_Inr_iff rejectPackageStringOverride_Inr)
  qed (simp add: ExpandRuntimePackage_def id)
qed

text \<open>
  C14. A package catalog that is accepted is well formed: package identifiers are lower-case DNS
  labels, distinct and in order, no package is dropped, every resource quantity parses, no package
  names a claim, and where a package asks for a HAMi virtual GPU the DRA capacity it stores is the
  memory and the core share of that virtual GPU, whatever the order in which the capacity map is
  visited; and a lookup by the identifier of a package finds that package.
\<close>

theorem catalog_normalized:
  assumes "Catalog_Normalized K c = Inr out"
  shows "list_all (wf_package K) out \<and> distinct (map pkg_ID out) \<and> sorted (map pkg_ID out)
    \<and> length out = length c \<and> list_all (\<lambda>p. Catalog_Lookup out (pkg_ID p) = Some p) out"
proof -
  note wf = Catalog_Normalized_wf [OF assms]
  have "Catalog_Lookup out (pkg_ID p) = Some p" if "p \<in> set out" for p
    using wf that by (intro Catalog_Lookup_unique) (auto simp: list_all_iff wf_package_def)
  with wf show ?thesis by (simp add: list_all_iff)
qed

definition ref_package :: RuntimePackageSpec where
  "ref_package = \<lparr>pkg_ID = '' A100-Half '', pkg_SpecName = ''a100'', pkg_CPU = ''8'', pkg_Memory = ''64'',
     pkg_GPU = 1, pkg_VirtualGPU = \<lparr>vg_Provider = ''HAMi'', vg_Memory = ''40'', vg_Cores = 50\<rparr>,
     pkg_Allocation = zero_allocation\<lparr>alloc_Capacity := [('' memory'', ''40 '')]\<rparr>\<rparr>"

lemma ref_package_normalized:
  "Catalog_Normalized ref_k8s [ref_package] = Inr [\<lparr>pkg_ID = ''a100-half'', pkg_SpecName = ''a100'',
     pkg_CPU = ''8'', pkg_Memory = ''64'', pkg_GPU = 1,
     pkg_VirtualGPU = \<lparr>vg_Provider = ''hami'', vg_Memory = ''40'', vg_Cores = 50\<rparr>,
     pkg_Allocation = \<lparr>alloc_DeviceClassName = HAMiDRADeviceClassName, alloc_ClaimName = [],
       alloc_ClaimRequestName = ''gpu'', alloc_Count = 1,
       alloc_Capacity = [(''memory'', ''40''), (''cores'', ''50'')], alloc_Selectors = []\<rparr>\<rparr>]"
  by code_simp

theorem catalog_normalized_witness:
  "\<exists>out. Catalog_Normalized ref_k8s [ref_package] = Inr out \<and> list_all (wf_package ref_k8s) out"
  using catalog_normalized [OF ref_package_normalized] ref_package_normalized by blast

end
