(* ===== verification/Serverless_Subjects.thy ===== *)
theory Serverless_Subjects
  imports Go_Strings
begin

text \<open>
  \<^verbatim>\<open>pkg/serverless/subjects.go\<close>: the NATS subjects of the queue. The two regular expressions
  \<^verbatim>\<open>^[a-z0-9_-]+$\<close> and \<^verbatim>\<open>[^a-z0-9_-]+\<close> are a predicate on the characters and the replacement of
  every maximal run of other characters by one hyphen. The lemmas show that every subject the
  program builds is one token per level and falls under one of the stream's wildcard bindings, and
  when two workers share a dispatch subject.
\<close>

section \<open>Definitions\<close>

definition DefaultSubjectPrefix :: string where
  "DefaultSubjectPrefix = ''runtime.serverless''"

datatype DeadLetterSource =
    DeadLetterSourceInvocation | DeadLetterSourceDispatch | DeadLetterSourceResult
  | DeadLetterSourceMetric

fun dead_letter_source_string :: "DeadLetterSource \<Rightarrow> string" where
  "dead_letter_source_string DeadLetterSourceInvocation = ''invocation''"
| "dead_letter_source_string DeadLetterSourceDispatch = ''dispatch''"
| "dead_letter_source_string DeadLetterSourceResult = ''result''"
| "dead_letter_source_string DeadLetterSourceMetric = ''metric''"

definition token_char :: "char \<Rightarrow> bool" where
  "token_char c = (CHR ''a'' \<le> c \<and> c \<le> CHR ''z'' \<or> CHR ''0'' \<le> c \<and> c \<le> CHR ''9''
     \<or> c = CHR ''_'' \<or> c = CHR ''-'')"

text \<open>\<^verbatim>\<open>subjectTokenPattern.MatchString\<close>.\<close>

definition token_match :: "string \<Rightarrow> bool" where
  "token_match s = (s \<noteq> [] \<and> list_all token_char s)"

text \<open>\<^verbatim>\<open>invalidSubjectTokenPattern.ReplaceAllString(s, "-")\<close>: the flag says whether the previous
  character belongs to a run that has been replaced already.\<close>

fun replace_invalid :: "bool \<Rightarrow> string \<Rightarrow> string" where
  "replace_invalid inrun [] = []"
| "replace_invalid inrun (c # cs) =
     (if token_char c then c # replace_invalid False cs
      else if inrun then replace_invalid True cs
      else CHR ''-'' # replace_invalid True cs)"

definition NormalizeSubjectPrefix :: "string \<Rightarrow> string" where
  "NormalizeSubjectPrefix value =
     (let trimmed = TrimChar (TrimSpace value) CHR ''.''
      in if trimmed = [] then DefaultSubjectPrefix else trimmed)"

definition NormalizeRequestID :: "string \<Rightarrow> string res" where
  "NormalizeRequestID value =
     (let normalized = ToLower (TrimSpace value)
      in if normalized = [] then Inl (ErrorText (msg ''serverlessRequestID is required''))
         else if \<not> token_match normalized
           then Inl (ErrorText (''serverlessRequestID %q is invalid; use only lowercase letters, numbers, hyphens, or underscores'', [FS normalized]))
         else Inr normalized)"

definition normalizeDispatchToken :: "string \<Rightarrow> string" where
  "normalizeDispatchToken value =
     (let normalized = map (\<lambda>c. if c = CHR ''.'' then CHR ''-'' else c) (ToLower (TrimSpace value))
      in if normalized = [] then ''unknown''
         else if token_match normalized then normalized
         else replace_invalid False normalized)"

definition InvocationSubject :: "string \<Rightarrow> string \<Rightarrow> string" where
  "InvocationSubject pfx requestID = NormalizeSubjectPrefix pfx @ ''.invoke.'' @ requestID"

definition ResultSubject :: "string \<Rightarrow> string \<Rightarrow> string" where
  "ResultSubject pfx requestID = NormalizeSubjectPrefix pfx @ ''.result.'' @ requestID"

definition DispatchSubject :: "string \<Rightarrow> string \<Rightarrow> string \<Rightarrow> string" where
  "DispatchSubject pfx requestID workerName =
     NormalizeSubjectPrefix pfx @ ''.dispatch.'' @ normalizeDispatchToken requestID @ ''.''
       @ normalizeDispatchToken workerName"

definition MetricsSubject :: "string \<Rightarrow> string \<Rightarrow> string" where
  "MetricsSubject pfx requestID = NormalizeSubjectPrefix pfx @ ''.metrics.'' @ requestID"

definition DeadLetterSubject :: "string \<Rightarrow> DeadLetterSource \<Rightarrow> string \<Rightarrow> string" where
  "DeadLetterSubject pfx source requestID =
     NormalizeSubjectPrefix pfx @ ''.dlq.'' @ normalizeDispatchToken (dead_letter_source_string source)
       @ ''.'' @ normalizeDispatchToken requestID"

definition StreamSubjects :: "string \<Rightarrow> string list" where
  "StreamSubjects pfx =
     (let base = NormalizeSubjectPrefix pfx
      in [base @ ''.invoke.*'', base @ ''.dispatch.*.*'', base @ ''.result.*'',
          base @ ''.metrics.*'', base @ ''.dlq.*.*''])"

section \<open>The meaning of a binding\<close>

text \<open>
  NATS matches a subject against a binding token by token, the tokens being separated by dots; the
  token \<^verbatim>\<open>*\<close> matches any one token.
\<close>

definition subject_matches :: "string \<Rightarrow> string \<Rightarrow> bool" where
  "subject_matches binding subject =
     list_all2 (\<lambda>b t. t \<noteq> [] \<and> (b = ''*'' \<or> b = t)) (split_on CHR ''.'' binding) (split_on CHR ''.'' subject)"

text \<open>A prefix is usable when every one of its tokens is a non-empty one.\<close>

definition prefix_ok :: "string \<Rightarrow> bool" where
  "prefix_ok pfx = list_all (\<lambda>t. t \<noteq> []) (split_on CHR ''.'' (NormalizeSubjectPrefix pfx))"

section \<open>Tokens\<close>

lemma token_char_not_dot [simp]: "\<not> token_char CHR ''.''"
  by (simp add: token_char_def less_eq_char_def)

lemma token_char_hyphen [simp]: "token_char CHR ''-''"
  by (simp add: token_char_def)

lemma token_match_no_dot: "token_match s \<Longrightarrow> CHR ''.'' \<notin> set s"
  using token_char_not_dot by (auto simp: token_match_def list_all_iff)

lemma split_token [simp]: "token_match s \<Longrightarrow> split_on CHR ''.'' s = [s]"
  by (rule split_on_single) (rule token_match_no_dot)

lemma replace_invalid_chars: "list_all token_char (replace_invalid b s)"
  by (induction b s rule: replace_invalid.induct) simp_all

lemma replace_invalid_id: "list_all token_char s \<Longrightarrow> replace_invalid b s = s"
  by (induction s arbitrary: b) simp_all

lemma replace_invalid_nonempty: "s \<noteq> [] \<Longrightarrow> replace_invalid False s \<noteq> []"
  by (cases s) simp_all

lemma token_match_replace: "s \<noteq> [] \<Longrightarrow> token_match (replace_invalid False s)"
  by (simp add: token_match_def replace_invalid_chars replace_invalid_nonempty)

lemma token_match_unknown: "token_match ''unknown''"
  by code_simp

lemma normalizeDispatchToken_token: "token_match (normalizeDispatchToken v)"
  unfolding normalizeDispatchToken_def Let_def
  by (simp add: token_match_replace token_match_unknown del: replace_invalid.simps)

lemma NormalizeRequestID_Inr:
  "NormalizeRequestID v = Inr r \<longleftrightarrow> r = ToLower (TrimSpace v) \<and> token_match r"
  by (auto simp: NormalizeRequestID_def Let_def token_match_def)

lemma token_char_code:
  "token_char c \<longleftrightarrow> (97 \<le> (of_char c :: nat) \<and> (of_char c :: nat) \<le> 122)
     \<or> (48 \<le> (of_char c :: nat) \<and> (of_char c :: nat) \<le> 57) \<or> (of_char c :: nat) = 95 \<or> (of_char c :: nat) = 45"
proof -
  have "c = CHR ''_'' \<longleftrightarrow> (of_char c :: nat) = 95" "c = CHR ''-'' \<longleftrightarrow> (of_char c :: nat) = 45"
    by (simp_all flip: char_code_inj)
  then show ?thesis by (simp add: token_char_def less_eq_char_def)
qed

lemma lower_char_token: "token_char c \<Longrightarrow> lower_char c = c"
proof -
  assume "token_char c"
  then have "(of_char (lower_char c) :: nat) = of_char c"
    unfolding token_char_code lower_char_code by auto
  then show ?thesis by (simp only: char_code_inj)
qed

lemma token_char_not_space: "token_char c \<Longrightarrow> \<not> isSpace c"
  unfolding token_char_code isSpace_code by auto

lemma token_match_trimmed: "token_match s \<Longrightarrow> trimmed s"
  by (auto simp: token_match_def trimmed_def trimmed_by_def list_all_iff dest: token_char_not_space)

lemma token_match_lower: "token_match s \<Longrightarrow> ToLower s = s"
  unfolding ToLower_def by (rule map_idI) (simp add: token_match_def list_all_iff lower_char_token)

lemma token_normal [simp]: "token_match s \<Longrightarrow> ToLower (TrimSpace s) = s"
  by (simp add: token_match_lower token_match_trimmed TrimSpace_id)

lemma NormalizeRequestID_token: "token_match s \<Longrightarrow> NormalizeRequestID s = Inr s"
  by (simp add: NormalizeRequestID_Inr)

lemma normalizeDispatchToken_id: "token_match s \<Longrightarrow> normalizeDispatchToken s = s"
proof -
  assume s: "token_match s"
  then have "map (\<lambda>c. if c = CHR ''.'' then CHR ''-'' else c) s = s"
    using token_match_no_dot [OF s] by (intro map_idI) auto
  with s show ?thesis by (simp add: normalizeDispatchToken_def Let_def) (simp add: token_match_def)
qed

lemma NormalizeSubjectPrefix_nonempty [simp]: "NormalizeSubjectPrefix p \<noteq> []"
  by (simp add: NormalizeSubjectPrefix_def Let_def DefaultSubjectPrefix_def)

section \<open>Subjects and bindings\<close>

lemma split_two_levels:
  assumes "CHR ''.'' \<notin> set f" "CHR ''.'' \<notin> set t"
  shows "split_on CHR ''.'' (p @ CHR ''.'' # f @ CHR ''.'' # t) = split_on CHR ''.'' p @ [f, t]"
  using assms by (simp add: split_on_append split_on_single)

lemma split_three_levels:
  assumes "CHR ''.'' \<notin> set f" "CHR ''.'' \<notin> set t" "CHR ''.'' \<notin> set u"
  shows "split_on CHR ''.'' (p @ CHR ''.'' # f @ CHR ''.'' # t @ CHR ''.'' # u)
     = split_on CHR ''.'' p @ [f, t, u]"
  using assms by (simp add: split_on_append split_on_single)

lemma matches_two_levels:
  assumes "prefix_ok p" "CHR ''.'' \<notin> set f" "f \<noteq> []" "token_match t"
  shows "subject_matches (NormalizeSubjectPrefix p @ CHR ''.'' # f @ ''.*'')
    (NormalizeSubjectPrefix p @ CHR ''.'' # f @ CHR ''.'' # t)"
  using assms split_two_levels [of f "''*''" "NormalizeSubjectPrefix p"]
    split_two_levels [of f t "NormalizeSubjectPrefix p"] token_match_no_dot [of t]
  by (auto simp: subject_matches_def prefix_ok_def list_all2_append list_all2_same list_all_iff
      token_match_def)

lemma matches_three_levels:
  assumes "prefix_ok p" "CHR ''.'' \<notin> set f" "f \<noteq> []" "token_match t" "token_match u"
  shows "subject_matches (NormalizeSubjectPrefix p @ CHR ''.'' # f @ ''.*.*'')
    (NormalizeSubjectPrefix p @ CHR ''.'' # f @ CHR ''.'' # t @ CHR ''.'' # u)"
  using assms split_three_levels [of f "''*''" "''*''" "NormalizeSubjectPrefix p"]
    split_three_levels [of f t u "NormalizeSubjectPrefix p"] token_match_no_dot [of t]
    token_match_no_dot [of u]
  by (auto simp: subject_matches_def prefix_ok_def list_all2_append list_all2_same list_all_iff
      token_match_def)

lemma two_tokens_inj:
  assumes "a @ CHR ''.'' # b = c @ CHR ''.'' # (d :: string)" "CHR ''.'' \<notin> set a" "CHR ''.'' \<notin> set c"
  shows "a = c \<and> b = d"
proof -
  have "takeWhile (\<lambda>x. x \<noteq> CHR ''.'') (a @ CHR ''.'' # b) = a"
    using assms(2) by (auto simp: takeWhile_append)
  moreover have "takeWhile (\<lambda>x. x \<noteq> CHR ''.'') (c @ CHR ''.'' # d) = c"
    using assms(3) by (auto simp: takeWhile_append)
  ultimately have "a = c" using assms(1) by simp
  with assms(1) show ?thesis by simp
qed

lemma DispatchSubject_eq_iff:
  "DispatchSubject p r w = DispatchSubject p r' w' \<longleftrightarrow>
   normalizeDispatchToken r = normalizeDispatchToken r'
   \<and> normalizeDispatchToken w = normalizeDispatchToken w'"
  using two_tokens_inj [of "normalizeDispatchToken r" "normalizeDispatchToken w"
      "normalizeDispatchToken r'" "normalizeDispatchToken w'"]
    token_match_no_dot [OF normalizeDispatchToken_token]
  by (auto simp: DispatchSubject_def)

text \<open>Dots are replaced after trimming and lower casing, so a dot and a hyphen at the same place give
  the same token.\<close>

lemma map_dot_eq:
  "lower_char CHR ''.'' = CHR ''.''" "lower_char CHR ''-'' = CHR ''-''"
  by (simp_all add: lower_char_def less_eq_char_def)

lemma normalizeDispatchToken_dot:
  "normalizeDispatchToken (u @ CHR ''.'' # v) = normalizeDispatchToken (u @ CHR ''-'' # v)"
proof -
  let ?f = "\<lambda>c. if c = CHR ''.'' then CHR ''-'' else c"
  have sp: "\<not> isSpace CHR ''.''" "\<not> isSpace CHR ''-''" by (simp_all add: isSpace_def)
  have trim: "TrimSpace (x @ c # y) = dropWhile isSpace x @ c # trim_right isSpace y"
    if "\<not> isSpace c" for x c y
  proof -
    have d: "dropWhile isSpace (x @ c # y) = dropWhile isSpace x @ c # y"
      using that by (induction x) auto
    have "dropWhile isSpace (rev y @ c # z) = dropWhile isSpace (rev y) @ c # z" for z
      using that by (induction "rev y" arbitrary: y) (auto simp: dropWhile_append)
    with d show ?thesis by (simp add: TrimSpace_def trim_by_def trim_right_def)
  qed
  have "map ?f (ToLower (TrimSpace (u @ CHR ''.'' # v))) = map ?f (ToLower (TrimSpace (u @ CHR ''-'' # v)))"
    using sp by (simp add: trim ToLower_def map_dot_eq)
  then show ?thesis by (simp add: normalizeDispatchToken_def del: map_map)
qed

section \<open>Properties\<close>

text \<open>Every message the program publishes is stored by the stream: for a usable subject prefix
  and a normalized request identifier, the invocation, dispatch, result, metrics and dead-letter
  subjects each fall under one of the stream's bindings, whatever the worker name is.\<close>

theorem subjects_covered_by_stream:
  assumes "prefix_ok p" and "NormalizeRequestID raw = Inr r"
    and "s \<in> {InvocationSubject p r, DispatchSubject p r w, ResultSubject p r, MetricsSubject p r,
               DeadLetterSubject p src r}"
  shows "\<exists>b \<in> set (StreamSubjects p). subject_matches b s"
proof -
  have r: "token_match r" using assms(2) unfolding NormalizeRequestID_Inr by blast
  note two = matches_two_levels [OF assms(1) _ _ r]
  note three = matches_three_levels [OF assms(1) _ _ normalizeDispatchToken_token
      normalizeDispatchToken_token]
  show ?thesis
    using assms(3) two [of "''invoke''"] two [of "''result''"] two [of "''metrics''"]
      three [of "''dispatch''"] three [of "''dlq''"]
    by (auto simp: StreamSubjects_def Let_def InvocationSubject_def DispatchSubject_def
        ResultSubject_def MetricsSubject_def DeadLetterSubject_def)
qed

theorem subjects_covered_by_stream_witness:
  "\<exists>b \<in> set (StreamSubjects '' .team.a. '').
     subject_matches b (DispatchSubject '' .team.a. '' ''req-1'' ''Unit.7'')"
proof -
  have 1: "prefix_ok '' .team.a. ''" by code_simp
  have 2: "NormalizeRequestID '' Req-1 '' = Inr ''req-1''" by code_simp
  show ?thesis
    by (rule subjects_covered_by_stream [OF 1 2, of _ "''Unit.7''" DeadLetterSourceResult]) simp
qed

text \<open>Two workers of one request share a dispatch subject only when their names have the same
  normalized token: for worker names that are single DNS labels, distinct workers have distinct
  subjects, so that a dispatch reaches the worker it names and no other.\<close>

theorem dispatch_subject_separates_workers:
  assumes "token_match r" and "token_match w" and "token_match w'" and "w \<noteq> w'"
  shows "DispatchSubject p r w \<noteq> DispatchSubject p r w'"
  using assms by (simp add: DispatchSubject_eq_iff normalizeDispatchToken_id)

theorem dispatch_subject_separates_workers_witness:
  "DispatchSubject [] ''req-1'' ''unit-a'' \<noteq> DispatchSubject [] ''req-1'' ''unit-b''"
proof -
  have "token_match ''req-1''" "token_match ''unit-a''" "token_match ''unit-b''" by code_simp+
  then show ?thesis by (rule dispatch_subject_separates_workers) simp
qed

text \<open>A dot in a worker name breaks the separation: GPUUnit names may be DNS subdomains, and the
  units \<^verbatim>\<open>a.b\<close> and \<^verbatim>\<open>a-b\<close> of one request have the same dispatch subject, so that each of the two
  sidecars receives the invocations dispatched to the other.\<close>

theorem dispatch_subject_dot_collision:
  "DispatchSubject p r (u @ ''.'' @ v) = DispatchSubject p r (u @ ''-'' @ v)"
  by (simp add: DispatchSubject_eq_iff normalizeDispatchToken_dot)

end
