(* ===== verification/Serverless_Types.thy ===== *)
theory Serverless_Types
  imports Go_Time Serverless_Subjects "HOL-Library.Word"
begin

text \<open>
  \<^verbatim>\<open>pkg/serverless/types.go\<close> and the enumerations of \<^verbatim>\<open>reliability.go\<close>: the messages of the queue.
  The mode of an invocation arrives from the caller and stays a string; the states, failure classes
  and event types are written by the program itself and are datatypes with the constructors of the
  source (the event type keeps a case for a value this version does not know). In-flight counters
  are \<open>32 word\<close>, sequence numbers and delivery counts \<open>64 word\<close>. Payloads are raw bytes.
\<close>

type_synonym int32 = "32 word"
type_synonym uint64 = "64 word"

definition InvocationVersion :: string where "InvocationVersion = ''v1''"

type_synonym InvocationMode = string

definition InvocationModeAsync :: InvocationMode where "InvocationModeAsync = ''async''"
definition InvocationModeSync :: InvocationMode where "InvocationModeSync = ''sync''"

datatype WorkerMetricEventType =
    WorkerMetricEventRegistered
  | WorkerMetricEventHeartbeat
  | WorkerMetricEventInvocationStarted
  | WorkerMetricEventInvocationFinished
  | WorkerMetricEventInvocationFailed
  | WorkerMetricEventOther string

fun event_type_string :: "WorkerMetricEventType \<Rightarrow> string" where
  "event_type_string WorkerMetricEventRegistered = ''registered''"
| "event_type_string WorkerMetricEventHeartbeat = ''heartbeat''"
| "event_type_string WorkerMetricEventInvocationStarted = ''invocation_started''"
| "event_type_string WorkerMetricEventInvocationFinished = ''invocation_finished''"
| "event_type_string WorkerMetricEventInvocationFailed = ''invocation_failed''"
| "event_type_string (WorkerMetricEventOther s) = s"

datatype InvocationState =
    InvocationStateUnset
  | InvocationStateQueued
  | InvocationStateDispatching
  | InvocationStateRunning
  | InvocationStateSucceeded
  | InvocationStateFailed
  | InvocationStateExpired
  | InvocationStateDeadLettered

datatype InvocationFailureClass =
    InvocationFailureNone
  | InvocationFailureMalformedMessage
  | InvocationFailureNoWorkerTemplate
  | InvocationFailureActivationTimeout
  | InvocationFailureBackpressure
  | InvocationFailureDispatchError
  | InvocationFailureFrameworkError
  | InvocationFailureFrameworkTimeout
  | InvocationFailureResultStoreError
  | InvocationFailureRetryExhausted

record InvocationMessage =
  inv_Version :: string
  inv_InvocationID :: string
  inv_ServerlessRequestID :: string
  inv_Mode :: InvocationMode
  inv_State :: InvocationState
  inv_ContentType :: string
  inv_Headers :: "string smap"
  inv_Attributes :: "string smap"
  inv_Payload :: string
  inv_TimeoutSeconds :: int
  inv_ResultSubject :: string
  inv_MetricsSubject :: string
  inv_ReplySubject :: string
  inv_EnqueuedAt :: gotime

record WorkerDispatchMessage =
  dsp_Version :: string
  dsp_InvocationID :: string
  dsp_ServerlessRequestID :: string
  dsp_WorkerName :: string
  dsp_WorkerNamespace :: string
  dsp_Mode :: InvocationMode
  dsp_State :: InvocationState
  dsp_ContentType :: string
  dsp_Headers :: "string smap"
  dsp_Attributes :: "string smap"
  dsp_Payload :: string
  dsp_TimeoutSeconds :: int
  dsp_ResultSubject :: string
  dsp_MetricsSubject :: string
  dsp_ReplySubject :: string
  dsp_DispatchedAt :: gotime

record FrameworkInvocationRequest =
  freq_Version :: string
  freq_InvocationID :: string
  freq_ServerlessRequestID :: string
  freq_WorkerName :: string
  freq_WorkerNamespace :: string
  freq_Mode :: InvocationMode
  freq_State :: InvocationState
  freq_ContentType :: string
  freq_Headers :: "string smap"
  freq_Attributes :: "string smap"
  freq_Payload :: string
  freq_TimeoutSeconds :: int
  freq_DispatchedAt :: gotime

record FrameworkInvocationResponse =
  fresp_StatusCode :: int
  fresp_ContentType :: string
  fresp_Headers :: "string smap"
  fresp_Body :: string
  fresp_Error :: string

record InvocationResultMessage =
  res_Version :: string
  res_InvocationID :: string
  res_ServerlessRequestID :: string
  res_Mode :: InvocationMode
  res_State :: InvocationState
  res_FailureClass :: InvocationFailureClass
  res_ReplySubject :: string
  res_WorkerName :: string
  res_WorkerNamespace :: string
  res_StatusCode :: int
  res_ContentType :: string
  res_Headers :: "string smap"
  res_Body :: string
  res_Error :: "error option"
  res_ErrorText :: string
  res_StartedAt :: gotime
  res_CompletedAt :: gotime

record WorkerMetricMessage =
  met_Version :: string
  met_ServerlessRequestID :: string
  met_WorkerName :: string
  met_WorkerNamespace :: string
  met_InvocationID :: string
  met_EventType :: WorkerMetricEventType
  met_Inflight :: int32
  met_StatusCode :: int
  met_Error :: "error option"
  met_ReportedAt :: gotime

record PublishAck =
  ack_InvocationID :: string
  ack_ServerlessRequestID :: string
  ack_Mode :: InvocationMode
  ack_Subject :: string
  ack_ResultSubject :: string
  ack_MetricsSubject :: string
  ack_Stream :: string
  ack_Sequence :: uint64
  ack_Duplicate :: bool
  ack_AcceptedAt :: gotime

text \<open>
  The \<^verbatim>\<open>Error\<close> string of a result or a metric is \<^verbatim>\<open>err.Error()\<close> of an error value on the failure
  paths and a text the framework sent on the success path; the model keeps the error value in
  \<open>res_Error\<close> (\<open>None\<close> for none) and the framework's text in \<open>res_ErrorText\<close>.
\<close>

definition zero_result :: InvocationResultMessage where
  "zero_result = \<lparr>res_Version = [], res_InvocationID = [], res_ServerlessRequestID = [], res_Mode = [],
     res_State = InvocationStateUnset, res_FailureClass = InvocationFailureNone,
     res_ReplySubject = [], res_WorkerName = [], res_WorkerNamespace = [], res_StatusCode = 0,
     res_ContentType = [], res_Headers = [], res_Body = [], res_Error = None, res_ErrorText = [],
     res_StartedAt = 0, res_CompletedAt = 0\<rparr>"

definition NormalizeInvocationMode :: "InvocationMode \<Rightarrow> InvocationMode res" where
  "NormalizeInvocationMode mode =
     (if mode = [] then Inr InvocationModeAsync
      else if mode = InvocationModeAsync \<or> mode = InvocationModeSync then Inr mode
      else Inl (ErrorText (''invocation mode %q is invalid'', [FS mode])))"

text \<open>\<^verbatim>\<open>hex.EncodeToString\<close>: two lower-case digits per byte.\<close>

definition hex_encode :: "nat list \<Rightarrow> string" where
  "hex_encode bs = concat (map (\<lambda>b. [digit_char (b div 16), digit_char (b mod 16)]) bs)"

text \<open>\<^verbatim>\<open>NewInvocationID\<close>; the sixteen bytes the operating system delivers, or its error, are the
  argument.\<close>

definition NewInvocationID :: "nat list res \<Rightarrow> string res" where
  "NewInvocationID rnd =
     (case rnd of Inl e \<Rightarrow> Inl (Wrap (msg ''generate invocation id'') e)
      | Inr buf \<Rightarrow> Inr (''inv-'' @ hex_encode buf))"

text \<open>\<^verbatim>\<open>cloneStringMap\<close> (\<^verbatim>\<open>activator\<close>, \<^verbatim>\<open>service\<close> and \<^verbatim>\<open>workersidecar\<close> each have a copy): the entries
  are copied one by one into a fresh map.\<close>

definition cloneStringMap :: "string smap \<Rightarrow> string smap" where
  "cloneStringMap src = fold (\<lambda>(k, v) out. map_put k v out) src []"

lemma NormalizeInvocationMode_Inr:
  "NormalizeInvocationMode m = Inr m' \<longleftrightarrow>
   m' \<in> {InvocationModeAsync, InvocationModeSync} \<and> (m = m' \<or> m = [] \<and> m' = InvocationModeAsync)"
  by (auto simp: NormalizeInvocationMode_def InvocationModeAsync_def InvocationModeSync_def)

lemma cloneStringMap_id: "distinct (map fst m) \<Longrightarrow> cloneStringMap m = m"
  by (simp add: cloneStringMap_def fold_map_put_fresh)

end
