(* ===== verification/Serverless_Contract.thy ===== *)
theory Serverless_Contract
  imports Unit_Normalize Serverless_Subjects Serverless_Types
begin

text \<open>
  \<^verbatim>\<open>pkg/contract/serverless.go\<close>: normalization of an invocation submission and of the serverless
  block of a GPU unit. The bytes \<^verbatim>\<open>crypto/rand\<close> delivers for a new invocation identifier are an
  argument. The lemmas show what an accepted submission and an accepted serverless block look
  like, and that the framework socket never leaves its directory.
\<close>

section \<open>Definitions\<close>

record CreateServerlessInvocationRequest =
  sir_InvocationID :: string
  sir_ServerlessRequestID :: string
  sir_Mode :: InvocationMode
  sir_ContentType :: string
  sir_Headers :: "string smap"
  sir_Attributes :: "string smap"
  sir_Payload :: string
  sir_TimeoutSeconds :: int

text \<open>\<^verbatim>\<open>&ValidationError{Message: err.Error()}\<close>.\<close>

definition as_validation :: "error \<Rightarrow> error" where
  "as_validation e = ValidationError (case e of ErrorText m \<Rightarrow> m | Wrap m _ \<Rightarrow> m | _ \<Rightarrow> msg [])"

text \<open>The loops over headers and attributes: names and values are trimmed, an empty name is an error.\<close>

definition trim_entry :: "string \<Rightarrow> string \<times> string \<Rightarrow> string smap \<Rightarrow> string smap res" where
  "trim_entry problem kv out =
     (let trimmedKey = TrimSpace (fst kv)
      in if trimmedKey = [] then Inl (ValidationError (msg problem))
         else Inr (map_put trimmedKey (TrimSpace (snd kv)) out))"

definition NormalizeCreateServerlessInvocationRequest ::
    "nat list res \<Rightarrow> CreateServerlessInvocationRequest \<Rightarrow> CreateServerlessInvocationRequest res" where
  "NormalizeCreateServerlessInvocationRequest rnd req =
     andThen (mapErr as_validation (NormalizeRequestID (sir_ServerlessRequestID req))) (\<lambda>requestID.
     andThen (mapErr as_validation (NormalizeInvocationMode (sir_Mode req))) (\<lambda>mode.
     andThen (if TrimSpace (sir_InvocationID req) = [] then mapErr as_validation (NewInvocationID rnd)
              else Inr (TrimSpace (sir_InvocationID req))) (\<lambda>invocationID.
       if sir_TimeoutSeconds req < 0
       then Inl (ValidationError (msg ''timeoutSeconds should be >= 0''))
       else
       andThen (foldRes (trim_entry ''header name is required'') (sir_Headers req) []) (\<lambda>headers.
       andThen (foldRes (trim_entry ''attribute name is required'') (sir_Attributes req) []) (\<lambda>attributes.
         Inr \<lparr>sir_InvocationID = invocationID, sir_ServerlessRequestID = requestID, sir_Mode = mode,
           sir_ContentType = or_default (TrimSpace (sir_ContentType req)) ''application/json'',
           sir_Headers = headers, sir_Attributes = attributes, sir_Payload = sir_Payload req,
           sir_TimeoutSeconds = (if mode = InvocationModeSync
              then or_default_int (sir_TimeoutSeconds req) 30 else sir_TimeoutSeconds req)\<rparr>)))))"

definition normalizeServerlessFrameworkSocketPath :: "string \<Rightarrow> string \<Rightarrow> string" where
  "normalizeServerlessFrameworkSocketPath v fallback =
     (let trimmed = TrimSpace v
      in if trimmed = [] then fallback
         else Clean (if HasPrefix trimmed ''/'' then trimmed else ''/'' @ trimmed))"

definition normalizeServerlessFrameworkPath :: "string \<Rightarrow> string \<Rightarrow> string" where
  "normalizeServerlessFrameworkPath v fallback =
     (let trimmed = TrimSpace v
      in if trimmed = [] then fallback
         else let normalized = ''/'' @ TrimPrefix trimmed ''/''
              in if normalized = ''/'' then fallback else Clean normalized)"

definition NormalizeGPUUnitServerlessFramework ::
    "GPUUnitServerlessFrameworkSpec \<Rightarrow> GPUUnitServerlessFrameworkSpec res" where
  "NormalizeGPUUnitServerlessFramework spec =
     (let socketPath = normalizeServerlessFrameworkSocketPath (fw_SocketPath spec) DefaultServerlessFrameworkSocketPath;
          socketDir = Clean DefaultServerlessFrameworkSocketDir
      in if socketPath = socketDir \<or> \<not> HasPrefix socketPath (socketDir @ ''/'')
         then Inl (ValidationError (''serverless.framework.socketPath %q must stay under %s'',
                [FS socketPath, FS DefaultServerlessFrameworkSocketDir]))
         else Inr \<lparr>fw_SocketPath = socketPath,
           fw_InvokePath = normalizeServerlessFrameworkPath (fw_InvokePath spec) DefaultServerlessFrameworkInvokePath,
           fw_HealthPath = normalizeServerlessFrameworkPath (fw_HealthPath spec) DefaultServerlessFrameworkHealthPath\<rparr>)"

definition serverless_requested :: "GPUUnitServerlessSpec \<Rightarrow> bool" where
  "serverless_requested spec = (sls_Enabled spec \<or> TrimSpace (sls_RequestID spec) \<noteq> []
     \<or> 0 < sls_MinAvailableCount spec \<or> 0 < sls_IdleTimeoutSeconds spec \<or> 0 < sls_MinRequestCount spec)"

definition NormalizeGPUUnitServerless :: "GPUUnitServerlessSpec \<Rightarrow> GPUUnitServerlessSpec res" where
  "NormalizeGPUUnitServerless spec =
     (if \<not> serverless_requested spec then Inr zero_serverless
      else andThen (mapErr as_validation (NormalizeRequestID (sls_RequestID spec))) (\<lambda>requestID.
        if sls_MinAvailableCount spec < 0
        then Inl (ValidationError (msg ''serverless.minAvailableCount should be >= 0''))
        else if sls_IdleTimeoutSeconds spec < 0
        then Inl (ValidationError (msg ''serverless.idleTimeoutSeconds should be >= 0''))
        else if sls_MinRequestCount spec < 0
        then Inl (ValidationError (msg ''serverless.minRequestCount should be >= 0''))
        else andThen (NormalizeGPUUnitServerlessFramework (sls_Framework spec)) (\<lambda>framework.
          Inr \<lparr>sls_Enabled = True, sls_RequestID = requestID,
            sls_MinAvailableCount = sls_MinAvailableCount spec,
            sls_IdleTimeoutSeconds = or_default_int (sls_IdleTimeoutSeconds spec) 300,
            sls_MinRequestCount = sls_MinRequestCount spec, sls_Framework = framework\<rparr>)))"

section \<open>Invocation submissions\<close>

definition wf_entries :: "string smap \<Rightarrow> bool" where
  "wf_entries m = (distinct (map fst m) \<and> list_all (\<lambda>(k, v). k \<noteq> [] \<and> trimmed k \<and> trimmed v) m)"

definition wf_invocation_request :: "CreateServerlessInvocationRequest \<Rightarrow> bool" where
  "wf_invocation_request r = (sir_InvocationID r \<noteq> [] \<and> trimmed (sir_InvocationID r)
     \<and> token_match (sir_ServerlessRequestID r)
     \<and> sir_Mode r \<in> {InvocationModeAsync, InvocationModeSync}
     \<and> sir_ContentType r \<noteq> [] \<and> trimmed (sir_ContentType r)
     \<and> 0 \<le> sir_TimeoutSeconds r \<and> (sir_Mode r = InvocationModeSync \<longrightarrow> 0 < sir_TimeoutSeconds r)
     \<and> wf_entries (sir_Headers r) \<and> wf_entries (sir_Attributes r))"

lemma trim_entry_step:
  assumes "trim_entry p e s = Inr s'" "wf_entries s"
  shows "wf_entries s'"
proof -
  have "s' = map_put (TrimSpace (fst e)) (TrimSpace (snd e)) s" "TrimSpace (fst e) \<noteq> []"
    using assms(1) by (auto simp: trim_entry_def Let_def split: if_splits)
  with assms(2) set_map_put [of "TrimSpace (fst e)" "TrimSpace (snd e)" s] show ?thesis
    by (fastforce simp: wf_entries_def list_all_iff)
qed

lemma trim_entries_wf: "foldRes (trim_entry p) es [] = Inr m \<Longrightarrow> wf_entries m"
  by (erule foldRes_invariant) (auto simp: trim_entry_step, simp add: wf_entries_def)

lemma trim_entries_id:
  assumes "wf_entries m" "fst ` set m \<inter> fst ` set out = {}"
  shows "foldRes (trim_entry p) m out = Inr (out @ m)"
  using assms
proof (induction m arbitrary: out)
  case (Cons a m)
  obtain k v where a: "a = (k, v)" by fastforce
  have "map_put k v out = out @ [(k, v)]"
    using Cons.prems a fold_map_put_fresh [of "[(k, v)]" out] by simp
  with Cons a show ?case
    by (auto simp: trim_entry_def wf_entries_def TrimSpace_id image_iff)
qed simp

lemma NewInvocationID_normal:
  assumes "NewInvocationID rnd = Inr i" "\<And>bs. rnd = Inr bs \<Longrightarrow> list_all (\<lambda>b. b < 256) bs \<and> bs \<noteq> []"
  shows "i \<noteq> [] \<and> trimmed i"
proof -
  from assms obtain bs where bs: "rnd = Inr bs" "i = ''inv-'' @ hex_encode bs" "bs \<noteq> []"
      "list_all (\<lambda>b. b < 256) bs"
    by (auto simp: NewInvocationID_def split: sum.splits)
  have "list_all alnum (hex_encode bs)" using bs(4)
    by (induction bs) (auto simp: hex_encode_def intro!: digit_char_alnum)
  moreover have "hex_encode bs \<noteq> []" using bs(3) by (cases bs) (auto simp: hex_encode_def)
  ultimately have "alnum (last i)" unfolding bs(2) by (metis last_appendR last_in_set list_all_iff)
  moreover have "\<not> isSpace CHR ''i''" by code_simp
  ultimately show ?thesis using bs(2) by (simp add: trimmed_def trimmed_by_def alnum_not_space)
qed


definition sync_request :: CreateServerlessInvocationRequest where
  "sync_request = \<lparr>sir_InvocationID = [], sir_ServerlessRequestID = '' LLM-Chat '', sir_Mode = ''sync'',
     sir_ContentType = [], sir_Headers = [('' x-tenant'', ''a '')], sir_Attributes = [], sir_Payload = [],
     sir_TimeoutSeconds = 0\<rparr>"

lemma sync_request_normalized:
  "NormalizeCreateServerlessInvocationRequest (Inr (replicate 16 (171 :: nat))) sync_request = Inr
     \<lparr>sir_InvocationID = ''inv-abababababababababababababababab'', sir_ServerlessRequestID = ''llm-chat'',
      sir_Mode = ''sync'', sir_ContentType = ''application/json'', sir_Headers = [(''x-tenant'', ''a'')],
      sir_Attributes = [], sir_Payload = [], sir_TimeoutSeconds = 30\<rparr>"
  by code_simp


text \<open>Two header names that agree after trimming: which value survives is decided by the order in
  which the map is visited, and Go leaves that order open.\<close>

lemma header_collision_depends_on_order:
  "foldRes (trim_entry p) [(''a'', ''1''), ('' a'', ''2'')] [] = Inr [(''a'', ''2'')]"
  "foldRes (trim_entry p) [('' a'', ''2''), (''a'', ''1'')] [] = Inr [(''a'', ''1'')]"
proof -
  have "TrimSpace ''a'' = ''a''" "TrimSpace '' a'' = ''a''" "TrimSpace ''1'' = ''1''" "TrimSpace ''2'' = ''2''"
    by code_simp+
  then show "foldRes (trim_entry p) [(''a'', ''1''), ('' a'', ''2'')] [] = Inr [(''a'', ''2'')]"
    "foldRes (trim_entry p) [('' a'', ''2''), (''a'', ''1'')] [] = Inr [(''a'', ''1'')]"
    by (simp_all add: trim_entry_def map_put_def)
qed

section \<open>The serverless block of a unit\<close>

text \<open>A block that is switched off is the zero block; one that is switched on has a token as request
  identifier, limits in range, a socket strictly below the shared socket directory and clean
  absolute HTTP paths.\<close>

definition wf_framework :: "GPUUnitServerlessFrameworkSpec \<Rightarrow> bool" where
  "wf_framework f = (clean_abs (fw_SocketPath f)
     \<and> path_below DefaultServerlessFrameworkSocketDir (fw_SocketPath f)
     \<and> clean_abs (fw_InvokePath f) \<and> clean_abs (fw_HealthPath f))"

definition wf_serverless :: "GPUUnitServerlessSpec \<Rightarrow> bool" where
  "wf_serverless s = (s = zero_serverless \<or>
     sls_Enabled s \<and> token_match (sls_RequestID s) \<and> 0 \<le> sls_MinAvailableCount s
     \<and> 0 < sls_IdleTimeoutSeconds s \<and> 0 \<le> sls_MinRequestCount s \<and> wf_framework (sls_Framework s))"

definition trimmed_paths :: "GPUUnitServerlessFrameworkSpec \<Rightarrow> bool" where
  "trimmed_paths f = (trimmed (fw_SocketPath f)
     \<and> trimmed (fw_InvokePath f) \<and> fw_InvokePath f \<noteq> ''/''
     \<and> trimmed (fw_HealthPath f) \<and> fw_HealthPath f \<noteq> ''/'')"

lemma clean_abs_default:
  "clean_abs DefaultServerlessFrameworkInvokePath" "clean_abs DefaultServerlessFrameworkHealthPath"
  "clean_abs DefaultServerlessFrameworkSocketPath"
proof -
  have "IsAbs DefaultServerlessFrameworkInvokePath" "IsAbs DefaultServerlessFrameworkHealthPath"
    "IsAbs DefaultServerlessFrameworkSocketPath"
    "Clean DefaultServerlessFrameworkInvokePath = DefaultServerlessFrameworkInvokePath"
    "Clean DefaultServerlessFrameworkHealthPath = DefaultServerlessFrameworkHealthPath"
    "Clean DefaultServerlessFrameworkSocketPath = DefaultServerlessFrameworkSocketPath"
    by code_simp+
  then show "clean_abs DefaultServerlessFrameworkInvokePath" "clean_abs DefaultServerlessFrameworkHealthPath"
    "clean_abs DefaultServerlessFrameworkSocketPath"
    by (metis Clean_abs)+
qed

lemma socket_dir: "Clean DefaultServerlessFrameworkSocketDir = DefaultServerlessFrameworkSocketDir"
  "DefaultServerlessFrameworkSocketDir \<noteq> []"
  by code_simp+

lemma socket_path_clean:
  "clean_abs fallback \<Longrightarrow> clean_abs (normalizeServerlessFrameworkSocketPath v fallback)"
  by (auto simp: normalizeServerlessFrameworkSocketPath_def Let_def IsAbs_def HasPrefix_def intro!: Clean_abs)

lemma framework_path_clean:
  "clean_abs fallback \<Longrightarrow> clean_abs (normalizeServerlessFrameworkPath v fallback)"
  by (auto simp: normalizeServerlessFrameworkPath_def Let_def intro!: Clean_abs)

lemma NormalizeGPUUnitServerlessFramework_wf:
  assumes "NormalizeGPUUnitServerlessFramework f = Inr r"
  shows "wf_framework r"
proof -
  let ?p = "normalizeServerlessFrameworkSocketPath (fw_SocketPath f) DefaultServerlessFrameworkSocketPath"
  from assms have h: "HasPrefix ?p (DefaultServerlessFrameworkSocketDir @ ''/'')"
      and r: "r = \<lparr>fw_SocketPath = ?p,
        fw_InvokePath = normalizeServerlessFrameworkPath (fw_InvokePath f) DefaultServerlessFrameworkInvokePath,
        fw_HealthPath = normalizeServerlessFrameworkPath (fw_HealthPath f) DefaultServerlessFrameworkHealthPath\<rparr>"
    by (simp_all add: NormalizeGPUUnitServerlessFramework_def Let_def socket_dir split: if_splits)
  have c: "clean_abs ?p" by (rule socket_path_clean) (rule clean_abs_default)
  with clean_abs_below [OF c h socket_dir(2)] r show ?thesis
    by (simp add: wf_framework_def framework_path_clean clean_abs_default)
qed

lemma framework_path_id:
  assumes "clean_abs p" "trimmed p" "p \<noteq> ''/''"
  shows "normalizeServerlessFrameworkPath p fallback = p"
proof -
  obtain q where q: "p = ''/'' @ q" using assms(1) by (auto simp: clean_abs_def)
  then have "TrimPrefix p ''/'' = q" by (simp add: TrimPrefix_def HasPrefix_def)
  with q assms show ?thesis
    by (simp add: normalizeServerlessFrameworkPath_def TrimSpace_id Clean_id)
qed

lemma NormalizeGPUUnitServerlessFramework_id:
  assumes "wf_framework f" "trimmed_paths f"
  shows "NormalizeGPUUnitServerlessFramework f = Inr f"
proof -
  obtain ws where ws: "ws \<noteq> []" "fw_SocketPath f = DefaultServerlessFrameworkSocketDir @ ''/'' @ join ''/'' ws"
    using assms(1) by (auto simp: wf_framework_def path_below_def)
  have s: "normalizeServerlessFrameworkSocketPath (fw_SocketPath f) d = fw_SocketPath f" for d
    using assms clean_abs_IsAbs [of "fw_SocketPath f"] ws
    by (auto simp: normalizeServerlessFrameworkSocketPath_def wf_framework_def trimmed_paths_def
        TrimSpace_id IsAbs_def Clean_id)
  have h: "HasPrefix (fw_SocketPath f) (DefaultServerlessFrameworkSocketDir @ ''/'')"
    using ws by (auto simp: HasPrefix_iff)
  have ne: "fw_SocketPath f \<noteq> DefaultServerlessFrameworkSocketDir" using ws by simp
  show ?thesis using assms s h ne
    by (cases f) (simp add: NormalizeGPUUnitServerlessFramework_def socket_dir framework_path_id
        wf_framework_def trimmed_paths_def)
qed

lemma NormalizeGPUUnitServerless_wf:
  assumes "NormalizeGPUUnitServerless s = Inr r"
  shows "wf_serverless r"
proof (cases "serverless_requested s")
  case True
  with assms obtain rid f where ok: "token_match rid" "0 \<le> sls_MinAvailableCount s"
      "0 \<le> sls_IdleTimeoutSeconds s" "0 \<le> sls_MinRequestCount s"
      and f: "NormalizeGPUUnitServerlessFramework (sls_Framework s) = Inr f"
      and r: "r = \<lparr>sls_Enabled = True, sls_RequestID = rid,
            sls_MinAvailableCount = sls_MinAvailableCount s,
            sls_IdleTimeoutSeconds = or_default_int (sls_IdleTimeoutSeconds s) 300,
            sls_MinRequestCount = sls_MinRequestCount s, sls_Framework = f\<rparr>"
    by (auto simp: NormalizeGPUUnitServerless_def result_simps NormalizeRequestID_Inr not_less
        simp del: not_less_iff_gr_or_eq)
  with NormalizeGPUUnitServerlessFramework_wf [OF f] show ?thesis
    by (auto simp: wf_serverless_def or_default_int_def)
qed (use assms in \<open>simp add: NormalizeGPUUnitServerless_def wf_serverless_def\<close>)

lemma NormalizeGPUUnitServerless_id:
  assumes "wf_serverless s" "s = zero_serverless \<or> trimmed_paths (sls_Framework s)"
  shows "NormalizeGPUUnitServerless s = Inr s"
proof (cases "s = zero_serverless")
  case True
  then show ?thesis
    by (simp add: NormalizeGPUUnitServerless_def serverless_requested_def) (simp add: zero_serverless_def)
next
  case False
  with assms show ?thesis
    by (cases s) (simp add: NormalizeGPUUnitServerless_def serverless_requested_def wf_serverless_def
        NormalizeRequestID_token NormalizeGPUUnitServerlessFramework_id or_default_int_def)
qed

text \<open>
  The socket of an accepted serverless block lies strictly below the shared socket directory:
  whatever path was asked for, with \<open>..\<close>, doubled slashes or no leading slash, the normalized
  path is the directory, a slash, and path elements of which none is empty, \<open>.\<close> or \<open>..\<close>; and the
  limits are in range.
\<close>

theorem serverless_block_normalized:
  assumes "NormalizeGPUUnitServerless s = Inr r" "serverless_requested s"
  shows "path_below DefaultServerlessFrameworkSocketDir (fw_SocketPath (sls_Framework r))
    \<and> wf_serverless r \<and> sls_Enabled r"
proof -
  have "sls_Enabled r" using assms
    by (auto simp: NormalizeGPUUnitServerless_def result_simps)
  moreover have "\<not> sls_Enabled zero_serverless" by (simp add: zero_serverless_def)
  ultimately show ?thesis using NormalizeGPUUnitServerless_wf [OF assms(1)]
    by (auto simp: wf_serverless_def wf_framework_def)
qed

theorem serverless_block_normalized_witness:
  "\<exists>r. NormalizeGPUUnitServerless (zero_serverless\<lparr>sls_RequestID := ''llm'',
       sls_Framework := zero_framework\<lparr>fw_SocketPath := ''tmp/x/../serverless-framework//a.sock''\<rparr>\<rparr>) = Inr r
     \<and> fw_SocketPath (sls_Framework r) = ''/tmp/serverless-framework/a.sock''
     \<and> path_below DefaultServerlessFrameworkSocketDir (fw_SocketPath (sls_Framework r))"
proof -
  let ?s = "zero_serverless\<lparr>sls_RequestID := ''llm'',
       sls_Framework := zero_framework\<lparr>fw_SocketPath := ''tmp/x/../serverless-framework//a.sock''\<rparr>\<rparr>"
  let ?r = "\<lparr>sls_Enabled = True, sls_RequestID = ''llm'', sls_MinAvailableCount = 0,
    sls_IdleTimeoutSeconds = 300, sls_MinRequestCount = 0,
    sls_Framework = \<lparr>fw_SocketPath = ''/tmp/serverless-framework/a.sock'', fw_InvokePath = ''/invoke'',
      fw_HealthPath = ''/healthz''\<rparr>\<rparr>"
  have r: "NormalizeGPUUnitServerless ?s = Inr ?r" and q: "serverless_requested ?s"
    by code_simp+
  from serverless_block_normalized [OF r q] r show ?thesis by simp
qed

text \<open>A path of two slashes passes the guard that replaces the path \<open>/\<close> by the default.\<close>

lemma framework_path_double_slash: "normalizeServerlessFrameworkPath ''//'' fallback = ''/''"
proof -
  have "TrimSpace ''//'' = ''//''" "TrimPrefix ''//'' ''/'' = ''/''" "Clean ''//'' = ''/''" by code_simp+
  then show ?thesis by (simp add: normalizeServerlessFrameworkPath_def)
qed

end
