(* ===== verification/Unit_Contract.thy ===== *)
theory Unit_Contract
  imports Package_Catalog Serverless_Contract
begin

text \<open>
  Normalization of create and update requests for GPU units (\<^verbatim>\<open>pkg/contract/gpuunit.go\<close>), built from
  the normalizers of the parts. The lemmas show that an accepted request is well formed in every
  part, that a normalized request is accepted unchanged, and that a caller cannot ask for other
  resources than those of a configured package.
\<close>

section \<open>Definitions\<close>

record UpdateGPUUnitRequest =
  ur_Image :: string
  ur_Template :: GPUUnitTemplate
  ur_Access :: GPUUnitAccess
  ur_SSH :: "GPUUnitSSHSpec option"
  ur_Serverless :: "GPUUnitServerlessSpec option"
  ur_StorageMounts :: "GPUUnitStorageMount list option"

text \<open>The first part of the create normalizer: the package identifier and the expansion.\<close>

definition expand_step ::
    "RuntimePackageCatalog \<Rightarrow> CreateGPUUnitRequest \<Rightarrow> CreateGPUUnitRequest res" where
  "expand_step catalog req0 =
     (let req = req0\<lparr>cr_PackageID := ToLower (TrimSpace (cr_PackageID req0))\<rparr>
      in if cr_PackageID req \<noteq> []
            \<and> (Catalog_Lookup catalog (cr_PackageID req) \<noteq> None
               \<or> TrimSpace (alloc_DeviceClassName (cr_Allocation req)) = [])
         then ExpandRuntimePackage req catalog else Inr req)"

definition NormalizeCreateGPUUnitRequestWithCatalog ::
    "'q k8s \<Rightarrow> CreateGPUUnitRequest \<Rightarrow> RuntimePackageCatalog \<Rightarrow> CreateGPUUnitRequest res" where
  "NormalizeCreateGPUUnitRequestWithCatalog K req0 catalog =
     (if TrimSpace (cr_OperationID req0) = []
      then Inl (ValidationError (msg ''operationID is required''))
      else andThen (NormalizeGPUUnitObjectKey K [] (cr_Name req0)) (\<lambda>(_, name).
        andThen (expand_step catalog (req0\<lparr>cr_OperationID := TrimSpace (cr_OperationID req0), cr_Name := name\<rparr>)) (\<lambda>req.
        if cr_PackageID req = [] \<and> TrimSpace (alloc_DeviceClassName (cr_Allocation req)) = []
        then Inl (ValidationError (msg ''packageID is required for DRA-backed create requests''))
        else if TrimSpace (cr_SpecName req) = []
        then Inl (ValidationError (msg ''specName is required''))
        else if TrimSpace (cr_Image req) = []
        then Inl (ValidationError (msg ''image is required''))
        else if TrimSpace (cr_CPU req) \<noteq> [] \<and> \<not> isOk (ParseQuantity K (TrimSpace (cr_CPU req)))
        then Inl (ValidationError (''cpu %q is invalid: %v'', [FS (TrimSpace (cr_CPU req))]))
        else if TrimSpace (cr_Memory req) \<noteq> [] \<and> \<not> isOk (ParseQuantity K (TrimSpace (cr_Memory req)))
        then Inl (ValidationError (''memory %q is invalid: %v'', [FS (TrimSpace (cr_Memory req))]))
        else if cr_GPU req < 0
        then Inl (ValidationError (msg ''gpu should be >= 0''))
        else andThen (NormalizeDRAAllocation K name (cr_Allocation req)) (\<lambda>allocation.
        if TrimSpace (cr_CPU req) = [] \<or> TrimSpace (cr_Memory req) = [] \<or> cr_GPU req \<le> 0
        then Inl (ValidationError (msg ''cpu, memory, gpu, and dra allocation are required''))
        else andThen (NormalizeGPUUnitTemplate K (cr_Template req)) (\<lambda>template.
        andThen (NormalizeGPUUnitAccess (cr_Access req) (tpl_Ports template)) (\<lambda>access.
        andThen (NormalizeGPUUnitSSH K name DefaultInstanceNamespace (cr_SSH req)) (\<lambda>ssh.
        andThen (NormalizeGPUUnitServerless (cr_Serverless req)) (\<lambda>serverless.
        andThen (NormalizeGPUUnitStorageMounts K (cr_StorageMounts req)) (\<lambda>mounts.
          Inr (req\<lparr>cr_SpecName := TrimSpace (cr_SpecName req), cr_Image := TrimSpace (cr_Image req),
            cr_CPU := TrimSpace (cr_CPU req), cr_Memory := TrimSpace (cr_Memory req),
            cr_Allocation := allocation, cr_Template := template, cr_Access := access, cr_SSH := ssh,
            cr_Serverless := serverless, cr_StorageMounts := mounts\<rparr>))))))))))"

definition NormalizeCreateGPUUnitRequest ::
    "'q k8s \<Rightarrow> CreateGPUUnitRequest \<Rightarrow> CreateGPUUnitRequest res" where
  "NormalizeCreateGPUUnitRequest K req = NormalizeCreateGPUUnitRequestWithCatalog K req []"

text \<open>A pointer field that is \<^verbatim>\<open>nil\<close> is left alone.\<close>

definition normalize_if_set :: "('a \<Rightarrow> 'a res) \<Rightarrow> 'a option \<Rightarrow> 'a option res" where
  "normalize_if_set f v = (case v of None \<Rightarrow> Inr None | Some x \<Rightarrow> andThen (f x) (\<lambda>y. Inr (Some y)))"

definition NormalizeUpdateGPUUnitRequest ::
    "'q k8s \<Rightarrow> string \<Rightarrow> string \<Rightarrow> UpdateGPUUnitRequest \<Rightarrow> UpdateGPUUnitRequest res" where
  "NormalizeUpdateGPUUnitRequest K unitName namespace req =
     andThen (NormalizeGPUUnitTemplate K (ur_Template req)) (\<lambda>template.
     andThen (normalize_if_set (NormalizeGPUUnitSSH K unitName namespace) (ur_SSH req)) (\<lambda>ssh.
     andThen (normalize_if_set NormalizeGPUUnitServerless (ur_Serverless req)) (\<lambda>serverless.
     andThen (normalize_if_set (NormalizeGPUUnitStorageMounts K) (ur_StorageMounts req)) (\<lambda>mounts.
       Inr \<lparr>ur_Image = TrimSpace (ur_Image req), ur_Template = template,
         ur_Access = \<lparr>acc_PrimaryPort = TrimSpace (acc_PrimaryPort (ur_Access req)),
           acc_Scheme = ToLower (TrimSpace (acc_Scheme (ur_Access req)))\<rparr>,
         ur_SSH = ssh, ur_Serverless = serverless, ur_StorageMounts = mounts\<rparr>))))"

section \<open>Well-formed requests\<close>

definition wf_create :: "'q k8s \<Rightarrow> CreateGPUUnitRequest \<Rightarrow> bool" where
  "wf_create K r = (cr_OperationID r \<noteq> [] \<and> trimmed (cr_OperationID r)
     \<and> cr_Name r \<noteq> [] \<and> ToLower (TrimSpace (cr_Name r)) = cr_Name r \<and> IsDNS1123Subdomain K (cr_Name r) = []
     \<and> ToLower (TrimSpace (cr_PackageID r)) = cr_PackageID r
     \<and> cr_SpecName r \<noteq> [] \<and> trimmed (cr_SpecName r) \<and> cr_Image r \<noteq> [] \<and> trimmed (cr_Image r)
     \<and> cr_CPU r \<noteq> [] \<and> trimmed (cr_CPU r) \<and> isOk (ParseQuantity K (cr_CPU r))
     \<and> cr_Memory r \<noteq> [] \<and> trimmed (cr_Memory r) \<and> isOk (ParseQuantity K (cr_Memory r))
     \<and> 0 < cr_GPU r \<and> wf_allocation K (cr_Allocation r)
     \<and> wf_template K (cr_Template r) \<and> wf_access (tpl_Ports (cr_Template r)) (cr_Access r)
     \<and> wf_ssh K (cr_SSH r) \<and> wf_serverless (cr_Serverless r) \<and> wf_mounts K (cr_StorageMounts r))"

lemma NormalizeGPUUnitObjectKey_name:
  "NormalizeGPUUnitObjectKey K [] n = Inr (ns, m) \<longleftrightarrow>
   ns = DefaultInstanceNamespace \<and> m = ToLower (TrimSpace n) \<and> m \<noteq> [] \<and> IsDNS1123Subdomain K m = []"
  by (auto simp: NormalizeGPUUnitObjectKey_def NormalizeGPUUnitInstanceNamespace_def result_simps Let_def)

text \<open>What an accepted create request went through, part by part.\<close>

lemma create_Inr:
  assumes "NormalizeCreateGPUUnitRequestWithCatalog K q c = Inr r"
  obtains req allocation template access ssh serverless mounts where
    "TrimSpace (cr_OperationID q) \<noteq> []" "ToLower (TrimSpace (cr_Name q)) \<noteq> []"
    "IsDNS1123Subdomain K (ToLower (TrimSpace (cr_Name q))) = []"
    "expand_step c (q\<lparr>cr_OperationID := TrimSpace (cr_OperationID q),
        cr_Name := ToLower (TrimSpace (cr_Name q))\<rparr>) = Inr req"
    "cr_PackageID req \<noteq> [] \<or> TrimSpace (alloc_DeviceClassName (cr_Allocation req)) \<noteq> []"
    "TrimSpace (cr_SpecName req) \<noteq> []" "TrimSpace (cr_Image req) \<noteq> []"
    "TrimSpace (cr_CPU req) \<noteq> []" "isOk (ParseQuantity K (TrimSpace (cr_CPU req)))"
    "TrimSpace (cr_Memory req) \<noteq> []" "isOk (ParseQuantity K (TrimSpace (cr_Memory req)))"
    "0 < cr_GPU req"
    "NormalizeDRAAllocation K (ToLower (TrimSpace (cr_Name q))) (cr_Allocation req) = Inr allocation"
    "NormalizeGPUUnitTemplate K (cr_Template req) = Inr template"
    "NormalizeGPUUnitAccess (cr_Access req) (tpl_Ports template) = Inr access"
    "NormalizeGPUUnitSSH K (ToLower (TrimSpace (cr_Name q))) DefaultInstanceNamespace (cr_SSH req) = Inr ssh"
    "NormalizeGPUUnitServerless (cr_Serverless req) = Inr serverless"
    "NormalizeGPUUnitStorageMounts K (cr_StorageMounts req) = Inr mounts"
    "r = req\<lparr>cr_SpecName := TrimSpace (cr_SpecName req), cr_Image := TrimSpace (cr_Image req),
        cr_CPU := TrimSpace (cr_CPU req), cr_Memory := TrimSpace (cr_Memory req),
        cr_Allocation := allocation, cr_Template := template, cr_Access := access, cr_SSH := ssh,
        cr_Serverless := serverless, cr_StorageMounts := mounts\<rparr>"
  using assms unfolding NormalizeCreateGPUUnitRequestWithCatalog_def guard_Inr_iff andThen_Inr_iff
    split_paired_Ex case_prod_conv NormalizeGPUUnitObjectKey_name de_Morgan_disj de_Morgan_conj not_not
    not_le not_less
  apply (elim conjE exE)
  apply (rule that)
  apply (assumption | (simp only:; fail) | blast)+
  done

lemma create_intro:
  assumes "TrimSpace (cr_OperationID q) \<noteq> []" "ToLower (TrimSpace (cr_Name q)) \<noteq> []"
    "IsDNS1123Subdomain K (ToLower (TrimSpace (cr_Name q))) = []"
    "expand_step c (q\<lparr>cr_OperationID := TrimSpace (cr_OperationID q),
        cr_Name := ToLower (TrimSpace (cr_Name q))\<rparr>) = Inr req"
    "cr_PackageID req \<noteq> [] \<or> TrimSpace (alloc_DeviceClassName (cr_Allocation req)) \<noteq> []"
    "TrimSpace (cr_SpecName req) \<noteq> []" "TrimSpace (cr_Image req) \<noteq> []"
    "TrimSpace (cr_CPU req) \<noteq> []" "isOk (ParseQuantity K (TrimSpace (cr_CPU req)))"
    "TrimSpace (cr_Memory req) \<noteq> []" "isOk (ParseQuantity K (TrimSpace (cr_Memory req)))"
    "0 < cr_GPU req"
    "NormalizeDRAAllocation K (ToLower (TrimSpace (cr_Name q))) (cr_Allocation req) = Inr allocation"
    "NormalizeGPUUnitTemplate K (cr_Template req) = Inr template"
    "NormalizeGPUUnitAccess (cr_Access req) (tpl_Ports template) = Inr access"
    "NormalizeGPUUnitSSH K (ToLower (TrimSpace (cr_Name q))) DefaultInstanceNamespace (cr_SSH req) = Inr ssh"
    "NormalizeGPUUnitServerless (cr_Serverless req) = Inr serverless"
    "NormalizeGPUUnitStorageMounts K (cr_StorageMounts req) = Inr mounts"
  shows "NormalizeCreateGPUUnitRequestWithCatalog K q c = Inr
     (req\<lparr>cr_SpecName := TrimSpace (cr_SpecName req), cr_Image := TrimSpace (cr_Image req),
        cr_CPU := TrimSpace (cr_CPU req), cr_Memory := TrimSpace (cr_Memory req),
        cr_Allocation := allocation, cr_Template := template, cr_Access := access, cr_SSH := ssh,
        cr_Serverless := serverless, cr_StorageMounts := mounts\<rparr>)"
proof -
  have n: "NormalizeGPUUnitObjectKey K [] (cr_Name q) = Inr (DefaultInstanceNamespace, ToLower (TrimSpace (cr_Name q)))"
    using assms(2,3) by (simp add: NormalizeGPUUnitObjectKey_name)
  show ?thesis unfolding NormalizeCreateGPUUnitRequestWithCatalog_def
    using assms by (simp add: n)
qed

text \<open>Expansion touches the package identifier and the resource fields only.\<close>

lemma expand_step_fields:
  assumes "expand_step c q = Inr req"
  shows "cr_OperationID req = cr_OperationID q" "cr_Name req = cr_Name q"
    "cr_Image req = cr_Image q" "cr_Template req = cr_Template q"
    "cr_PackageID req = ToLower (TrimSpace (cr_PackageID q))"
  using assms
  by (auto simp: expand_step_def ExpandRuntimePackage_def Let_def andThen_Inr_iff
      split: if_splits option.splits dest!: Catalog_Lookup_Some)

lemma expand_step_cases:
  assumes "expand_step c q = Inr req" "list_all (wf_package K) c"
  obtains (package) p where "Catalog_Lookup c (cr_PackageID q) = Some p" "req = expanded q p"
    | (direct) "Catalog_Lookup c (cr_PackageID q) = None \<or> ToLower (TrimSpace (cr_PackageID q)) = []"
        "req = q\<lparr>cr_PackageID := ToLower (TrimSpace (cr_PackageID q))\<rparr>"
        "ToLower (TrimSpace (cr_PackageID q)) = [] \<or> TrimSpace (alloc_DeviceClassName (cr_Allocation q)) \<noteq> []"
proof -
  have l: "Catalog_Lookup c (ToLower (TrimSpace (cr_PackageID q))) = Catalog_Lookup c (cr_PackageID q)"
    by (simp add: Catalog_Lookup_def)
  from assms(1) show ?thesis
    by (auto simp: expand_step_def Let_def l ExpandRuntimePackage_Inr [OF assms(2)] split: if_splits
        intro: that)
qed

lemma NormalizeCreate_wf:
  assumes "NormalizeCreateGPUUnitRequestWithCatalog K q c = Inr r"
  shows "wf_create K r"
  using assms
proof (rule create_Inr)
  fix req allocation template access ssh serverless mounts
  assume e: "expand_step c (q\<lparr>cr_OperationID := TrimSpace (cr_OperationID q),
        cr_Name := ToLower (TrimSpace (cr_Name q))\<rparr>) = Inr req"
    and a: "NormalizeDRAAllocation K (ToLower (TrimSpace (cr_Name q))) (cr_Allocation req) = Inr allocation"
    and t: "NormalizeGPUUnitTemplate K (cr_Template req) = Inr template"
    and ac: "NormalizeGPUUnitAccess (cr_Access req) (tpl_Ports template) = Inr access"
    and s: "NormalizeGPUUnitSSH K (ToLower (TrimSpace (cr_Name q))) DefaultInstanceNamespace (cr_SSH req) = Inr ssh"
    and sl: "NormalizeGPUUnitServerless (cr_Serverless req) = Inr serverless"
    and m: "NormalizeGPUUnitStorageMounts K (cr_StorageMounts req) = Inr mounts"
    and ok: "TrimSpace (cr_OperationID q) \<noteq> []" "ToLower (TrimSpace (cr_Name q)) \<noteq> []"
      "IsDNS1123Subdomain K (ToLower (TrimSpace (cr_Name q))) = []"
      "TrimSpace (cr_SpecName req) \<noteq> []" "TrimSpace (cr_Image req) \<noteq> []"
      "TrimSpace (cr_CPU req) \<noteq> []" "isOk (ParseQuantity K (TrimSpace (cr_CPU req)))"
      "TrimSpace (cr_Memory req) \<noteq> []" "isOk (ParseQuantity K (TrimSpace (cr_Memory req)))"
      "0 < cr_GPU req"
    and r: "r = req\<lparr>cr_SpecName := TrimSpace (cr_SpecName req), cr_Image := TrimSpace (cr_Image req),
        cr_CPU := TrimSpace (cr_CPU req), cr_Memory := TrimSpace (cr_Memory req),
        cr_Allocation := allocation, cr_Template := template, cr_Access := access, cr_SSH := ssh,
        cr_Serverless := serverless, cr_StorageMounts := mounts\<rparr>"
  show "wf_create K r"
    using ok r NormalizeDRAAllocation_wf [OF a] NormalizeGPUUnitTemplate_wf [OF t]
      NormalizeGPUUnitAccess_wf [OF ac] NormalizeGPUUnitSSH_wf [OF s] NormalizeGPUUnitServerless_wf [OF sl]
      NormalizeGPUUnitStorageMounts_wf [OF m]
    by (simp add: wf_create_def expand_step_fields [OF e])
qed

section \<open>Idempotence\<close>

text \<open>
  Paths that trimming leaves alone. A path such as \<open>/data /\<close> is accepted and becomes \<open>/data\<close> with a
  trailing space, which a second run would trim: this is the only obstacle to idempotence.
\<close>

definition stable_paths :: "CreateGPUUnitRequest \<Rightarrow> bool" where
  "stable_paths r = (list_all (\<lambda>m. trimmed (mnt_MountPath m)) (cr_StorageMounts r)
     \<and> (cr_Serverless r = zero_serverless \<or> trimmed_paths (sls_Framework (cr_Serverless r))))"

lemma default_claim_name_trimmed: "trimmed (GPUUnitNamePrefix @ u @ ''-gpu'')"
proof -
  have "\<not> isSpace CHR ''u''" by code_simp
  then show ?thesis by (simp add: trimmed_def trimmed_by_def GPUUnitNamePrefix_def)
qed

lemma allocation_claim_trimmed: "NormalizeDRAAllocation K u a = Inr r \<Longrightarrow> trimmed (alloc_ClaimName r)"
  by (auto simp: NormalizeDRAAllocation_Inr default_claim_name_trimmed or_default_pred [where P = trimmed])

lemma create_normalized:
  assumes names: "k8s_names K" and w: "wf_create K r" and st: "stable_paths r"
    and e: "expand_step c (r\<lparr>cr_Allocation := b\<rparr>) = Inr (r\<lparr>cr_Allocation := a\<rparr>)"
    and a: "NormalizeDRAAllocation K (cr_Name r) a = Inr (cr_Allocation r)"
  shows "NormalizeCreateGPUUnitRequestWithCatalog K (r\<lparr>cr_Allocation := b\<rparr>) c = Inr r"
proof -
  have f: "TrimSpace (cr_OperationID r) = cr_OperationID r" "ToLower (TrimSpace (cr_Name r)) = cr_Name r"
      "TrimSpace (cr_SpecName r) = cr_SpecName r" "TrimSpace (cr_Image r) = cr_Image r"
      "TrimSpace (cr_CPU r) = cr_CPU r" "TrimSpace (cr_Memory r) = cr_Memory r"
    using w by (simp_all add: wf_create_def TrimSpace_id)
  have n: "TrimSpace (cr_Name r) \<noteq> []" using w f(2) ToLower_eq_Nil [of "TrimSpace (cr_Name r)"] by (simp add: wf_create_def)
  have d: "TrimSpace (alloc_DeviceClassName a) \<noteq> []" using a by (simp add: NormalizeDRAAllocation_Inr)
  have t: "NormalizeGPUUnitTemplate K (cr_Template r) = Inr (cr_Template r)"
    using w by (simp add: wf_create_def NormalizeGPUUnitTemplate_id)
  have ac: "NormalizeGPUUnitAccess (cr_Access r) (tpl_Ports (cr_Template r)) = Inr (cr_Access r)"
    using w by (intro NormalizeGPUUnitAccess_id [where K = K]) (auto simp: wf_create_def wf_template_def)
  have s: "NormalizeGPUUnitSSH K (cr_Name r) DefaultInstanceNamespace (cr_SSH r) = Inr (cr_SSH r)"
    using w by (intro k8s_names.ssh_id [OF names]) (simp add: wf_create_def)
  have sl: "NormalizeGPUUnitServerless (cr_Serverless r) = Inr (cr_Serverless r)"
    using w st by (intro NormalizeGPUUnitServerless_id) (simp_all add: wf_create_def stable_paths_def)
  have m: "NormalizeGPUUnitStorageMounts K (cr_StorageMounts r) = Inr (cr_StorageMounts r)"
    using w st by (intro NormalizeGPUUnitStorageMounts_id) (simp_all add: wf_create_def stable_paths_def)
  have "r\<lparr>cr_Allocation := b, cr_OperationID := cr_OperationID r, cr_Name := cr_Name r\<rparr> = r\<lparr>cr_Allocation := b\<rparr>"
    by (cases r) simp
  with e have e': "expand_step c (r\<lparr>cr_Allocation := b, cr_OperationID := cr_OperationID r, cr_Name := cr_Name r\<rparr>)
      = Inr (r\<lparr>cr_Allocation := a\<rparr>)" by simp
  have "NormalizeCreateGPUUnitRequestWithCatalog K (r\<lparr>cr_Allocation := b\<rparr>) c = Inr
     ((r\<lparr>cr_Allocation := a\<rparr>)\<lparr>cr_SpecName := TrimSpace (cr_SpecName r), cr_Image := TrimSpace (cr_Image r),
        cr_CPU := TrimSpace (cr_CPU r), cr_Memory := TrimSpace (cr_Memory r),
        cr_Allocation := cr_Allocation r, cr_Template := cr_Template r, cr_Access := cr_Access r,
        cr_SSH := cr_SSH r, cr_Serverless := cr_Serverless r, cr_StorageMounts := cr_StorageMounts r\<rparr>)"
    using create_intro [of "r\<lparr>cr_Allocation := b\<rparr>" K c "r\<lparr>cr_Allocation := a\<rparr>", simplified f, simplified, simplified f, OF _ _ _ e']
      w n a d t ac s sl m
    by (simp add: wf_create_def f)
  then show ?thesis by (simp add: f)
qed

lemma create_again:
  assumes names: "k8s_names K" and w: "wf_create K r" and st: "stable_paths r"
    and e: "expand_step c r = Inr (r\<lparr>cr_Allocation := a\<rparr>)"
    and a: "NormalizeDRAAllocation K (cr_Name r) a = Inr (cr_Allocation r)"
  shows "NormalizeCreateGPUUnitRequestWithCatalog K r c = Inr r"
  using create_normalized [OF names w st, of c "cr_Allocation r" a] e a by simp

lemma wf_package_fields:
  assumes "list_all (wf_package K) c" "Catalog_Lookup c pid = Some p"
  shows "p \<in> set c" "pkg_ID p = ToLower (TrimSpace pid)" "pkg_ID p \<noteq> []"
    "TrimSpace (pkg_SpecName p) = pkg_SpecName p" "TrimSpace (pkg_CPU p) = pkg_CPU p"
    "TrimSpace (pkg_Memory p) = pkg_Memory p" "wf_package_allocation K (pkg_Allocation p)"
  using assms Catalog_Lookup_Some [OF assms(2)] by (auto simp: list_all_iff wf_package_def TrimSpace_id)

lemma package_allocation_normalized:
  assumes "wf_package_allocation K a" "NormalizeDRAAllocation K u a = Inr r"
  shows "r = a\<lparr>alloc_ClaimName := GPUUnitNamePrefix @ u @ ''-gpu''\<rparr>"
  using assms by (cases a) (simp add: NormalizeDRAAllocation_Inr wf_package_allocation_def TrimSpace_id)

lemma expand_again:
  assumes wc: "list_all (wf_package K) c" and lk: "Catalog_Lookup c (cr_PackageID r) = Some p"
    and f: "cr_PackageID r = pkg_ID p" "cr_SpecName r = pkg_SpecName p" "cr_CPU r = pkg_CPU p"
      "cr_Memory r = pkg_Memory p" "cr_GPU r = pkg_GPU p"
  shows "expand_step c r = Inr (r\<lparr>cr_Allocation := pkg_Allocation p\<rparr>)"
proof -
  note pf = wf_package_fields [OF wc lk]
  have "ToLower (TrimSpace (cr_PackageID r)) = cr_PackageID r" using pf(2) f(1) by metis
  then have id: "r\<lparr>cr_PackageID := ToLower (TrimSpace (cr_PackageID r))\<rparr> = r" by simp
  have "ExpandRuntimePackage r c = Inr (expanded r p)"
    unfolding ExpandRuntimePackage_Inr [OF wc] by (intro exI [of _ p]) (simp add: lk f(2-5) pf(4-6))
  moreover have "expanded r p = r\<lparr>cr_Allocation := pkg_Allocation p\<rparr>" using f by (cases r) simp
  ultimately show ?thesis using pf(3) lk unfolding expand_step_def id Let_def f(1) [symmetric] by simp
qed

text \<open>
  C6. Every create request the contract accepts is well formed in all its parts: operation
  identifier, name, image and quantities are present, trimmed and parse; the GPU count and the
  number of devices are positive; environment and port names are valid and distinct; the primary
  port exists; an enabled SSH block is complete; the serverless socket stays in its directory;
  mount names and mount paths are distinct, absolute, clean and sorted.
\<close>

theorem create_request_well_formed:
  assumes "NormalizeCreateGPUUnitRequestWithCatalog K q c = Inr r"
  shows "wf_create K r"
  using assms by (rule NormalizeCreate_wf)


text \<open>
  A request that arrives without a device class (the API cannot set one: the field is not part
  of the JSON) gets exactly the resources of a configured package: its package exists in the
  normalized catalog, and the CPU, memory, GPU count, spec name and DRA allocation of the result are
  those of that package, the claim name derived from the unit name apart.
\<close>

theorem create_request_package_resources:
  assumes cat: "Catalog_Normalized K c0 = Inr c"
    and ok: "NormalizeCreateGPUUnitRequestWithCatalog K q c = Inr r"
    and api: "TrimSpace (alloc_DeviceClassName (cr_Allocation q)) = []"
  shows "\<exists>p. p \<in> set c \<and> pkg_ID p = cr_PackageID r \<and> cr_SpecName r = pkg_SpecName p
    \<and> cr_CPU r = pkg_CPU p \<and> cr_Memory r = pkg_Memory p \<and> cr_GPU r = pkg_GPU p
    \<and> cr_Allocation r = (pkg_Allocation p)\<lparr>alloc_ClaimName := GPUUnitNamePrefix @ cr_Name r @ ''-gpu''\<rparr>"
  using ok
proof (rule create_Inr)
  fix req allocation template access ssh serverless mounts
  let ?q = "q\<lparr>cr_OperationID := TrimSpace (cr_OperationID q), cr_Name := ToLower (TrimSpace (cr_Name q))\<rparr>"
  assume e: "expand_step c ?q = Inr req"
    and need: "cr_PackageID req \<noteq> [] \<or> TrimSpace (alloc_DeviceClassName (cr_Allocation req)) \<noteq> []"
    and a: "NormalizeDRAAllocation K (ToLower (TrimSpace (cr_Name q))) (cr_Allocation req) = Inr allocation"
    and r: "r = req\<lparr>cr_SpecName := TrimSpace (cr_SpecName req), cr_Image := TrimSpace (cr_Image req),
        cr_CPU := TrimSpace (cr_CPU req), cr_Memory := TrimSpace (cr_Memory req),
        cr_Allocation := allocation, cr_Template := template, cr_Access := access, cr_SSH := ssh,
        cr_Serverless := serverless, cr_StorageMounts := mounts\<rparr>"
  have wc: "list_all (wf_package K) c" using Catalog_Normalized_wf [OF cat] by simp
  from e wc show ?thesis
  proof (cases rule: expand_step_cases)
    case (package p)
    note pf = wf_package_fields [OF wc package(1)]
    have "allocation = (pkg_Allocation p)\<lparr>alloc_ClaimName := GPUUnitNamePrefix @ ToLower (TrimSpace (cr_Name q)) @ ''-gpu''\<rparr>"
      using a package(2) by (intro package_allocation_normalized [OF pf(7)]) simp
    with package pf r show ?thesis by (intro exI [of _ p]) simp
  next
    case direct
    with need api show ?thesis by auto
  qed
qed

definition ref_request :: CreateGPUUnitRequest where
  "ref_request = \<lparr>cr_OperationID = '' op-1 '', cr_Name = ''Demo'', cr_PackageID = ''A100-half'', cr_SpecName = [],
     cr_Image = ''img'', cr_CPU = ''8'', cr_Memory = [], cr_GPU = 0, cr_Allocation = zero_allocation,
     cr_Template = zero_template\<lparr>tpl_Ports := [\<lparr>port_Name = ''http'', port_Port = 8080, port_Protocol = []\<rparr>]\<rparr>,
     cr_Access = zero_access, cr_SSH = zero_ssh, cr_Serverless = zero_serverless,
     cr_StorageMounts = [\<lparr>mnt_Name = ''data'', mnt_MountPath = ''/data//x/..'', mnt_ReadOnly = False\<rparr>]\<rparr>"

definition ref_catalog :: RuntimePackageCatalog where
  "ref_catalog = [\<lparr>pkg_ID = ''a100-half'', pkg_SpecName = ''a100'',
     pkg_CPU = ''8'', pkg_Memory = ''64'', pkg_GPU = 1,
     pkg_VirtualGPU = \<lparr>vg_Provider = ''hami'', vg_Memory = ''40'', vg_Cores = 50\<rparr>,
     pkg_Allocation = \<lparr>alloc_DeviceClassName = HAMiDRADeviceClassName, alloc_ClaimName = [],
       alloc_ClaimRequestName = ''gpu'', alloc_Count = 1,
       alloc_Capacity = [(''memory'', ''40''), (''cores'', ''50'')], alloc_Selectors = []\<rparr>\<rparr>]"

definition ref_normalized :: CreateGPUUnitRequest where
  "ref_normalized = \<lparr>cr_OperationID = ''op-1'', cr_Name = ''demo'', cr_PackageID = ''a100-half'',
     cr_SpecName = ''a100'', cr_Image = ''img'', cr_CPU = ''8'', cr_Memory = ''64'', cr_GPU = 1,
     cr_Allocation = \<lparr>alloc_DeviceClassName = HAMiDRADeviceClassName, alloc_ClaimName = ''unit-demo-gpu'',
       alloc_ClaimRequestName = ''gpu'', alloc_Count = 1,
       alloc_Capacity = [(''memory'', ''40''), (''cores'', ''50'')], alloc_Selectors = []\<rparr>,
     cr_Template = zero_template\<lparr>tpl_Ports := [\<lparr>port_Name = ''http'', port_Port = 8080, port_Protocol = ''TCP''\<rparr>]\<rparr>,
     cr_Access = \<lparr>acc_PrimaryPort = ''http'', acc_Scheme = ''http''\<rparr>, cr_SSH = zero_ssh,
     cr_Serverless = zero_serverless,
     cr_StorageMounts = [\<lparr>mnt_Name = ''data'', mnt_MountPath = ''/data'', mnt_ReadOnly = False\<rparr>]\<rparr>"

lemma ref_catalog_normalized: "Catalog_Normalized ref_k8s [ref_package] = Inr ref_catalog"
  unfolding ref_package_normalized ref_catalog_def ..

lemma ref_request_normalized:
  "NormalizeCreateGPUUnitRequestWithCatalog ref_k8s ref_request ref_catalog = Inr ref_normalized"
  by code_simp

theorem create_request_well_formed_witness:
  "NormalizeCreateGPUUnitRequestWithCatalog ref_k8s ref_request ref_catalog = Inr ref_normalized
   \<and> wf_create ref_k8s ref_normalized"
  using create_request_well_formed [OF ref_request_normalized] ref_request_normalized by simp


theorem create_request_package_resources_witness:
  "\<exists>p. p \<in> set ref_catalog \<and> pkg_ID p = ''a100-half'' \<and> cr_GPU ref_normalized = pkg_GPU p"
proof -
  have "TrimSpace (alloc_DeviceClassName (cr_Allocation ref_request)) = []"
    "cr_PackageID ref_normalized = ''a100-half''"
    by code_simp+
  with create_request_package_resources [OF ref_catalog_normalized ref_request_normalized]
  show ?thesis by fastforce
qed

end
