(* ===== verification/Service_Client.thy ===== *)
theory Service_Client
  imports Unit_Contract
begin

text \<open>
  The Kubernetes clients the runtime service (\<^verbatim>\<open>pkg/service\<close>) is built on. controller-runtime,
  client-go and the API server are not part of the repository: a client is a record of functions on
  a world \<open>'w\<close>, and the documented behaviour the service relies on is the locale \<open>resource_store\<close>
  (one kind of object) and \<open>api_server\<close> (both kinds). An in-memory store is an instance. Also here:
  sequencing of calls that may fail, and the service record of \<^verbatim>\<open>service.go\<close>.
\<close>

section \<open>Calls\<close>

text \<open>A call reads and changes the world and returns a value or an error.\<close>

type_synonym ('w, 'a) call = "'w \<Rightarrow> 'a res \<times> 'w"

definition returnC :: "'a \<Rightarrow> ('w, 'a) call" where
  "returnC x w = (Inr x, w)"

definition failC :: "error \<Rightarrow> ('w, 'a) call" where
  "failC e w = (Inl e, w)"

definition liftC :: "'a res \<Rightarrow> ('w, 'a) call" where
  "liftC r w = (r, w)"

definition bindC :: "('w, 'a) call \<Rightarrow> ('a \<Rightarrow> ('w, 'b) call) \<Rightarrow> ('w, 'b) call" where
  "bindC m f w = (case m w of (Inl e, w') \<Rightarrow> (Inl e, w') | (Inr x, w') \<Rightarrow> f x w')"

text \<open>The error of a call becomes a value the caller looks at.\<close>

definition tryC :: "('w, 'a) call \<Rightarrow> ('w, 'a res) call" where
  "tryC m w = (case m w of (r, w') \<Rightarrow> (Inr r, w'))"

definition wrapC :: "message \<Rightarrow> ('w, 'a) call \<Rightarrow> ('w, 'a) call" where
  "wrapC m f = bindC (tryC f) (\<lambda>r. case r of Inl e \<Rightarrow> failC (Wrap m e) | Inr x \<Rightarrow> returnC x)"

fun forC :: "'x list \<Rightarrow> ('x \<Rightarrow> ('w, unit) call) \<Rightarrow> ('w, unit) call" where
  "forC [] f = returnC ()"
| "forC (x # xs) f = bindC (f x) (\<lambda>_. forC xs f)"

lemma call_simps [simp]:
  "returnC x w = (Inr x, w)" "failC e w = (Inl e, w)" "liftC r w = (r, w)"
  by (simp_all add: returnC_def failC_def liftC_def)

lemma bindC_Inr_iff [result_simps]:
  "bindC m f w = (Inr y, w') \<longleftrightarrow> (\<exists>x v. m w = (Inr x, v) \<and> f x v = (Inr y, w'))"
  by (auto simp: bindC_def split: prod.splits sum.splits)

lemma bindC_Inl_iff:
  "bindC m f w = (Inl e, w') \<longleftrightarrow> m w = (Inl e, w') \<or> (\<exists>x v. m w = (Inr x, v) \<and> f x v = (Inl e, w'))"
  by (auto simp: bindC_def split: prod.splits sum.splits)

lemma bindC_step [simp]: "m w = (Inr x, v) \<Longrightarrow> bindC m f w = f x v" "m w = (Inl e, v) \<Longrightarrow> bindC m f w = (Inl e, v)"
  by (simp_all add: bindC_def)

lemma tryC_iff [simp]: "tryC m w = (r, w') \<longleftrightarrow> (\<exists>a. m w = (a, w') \<and> r = Inr a)"
  by (auto simp: tryC_def split: prod.splits)

text \<open>A call whose error is handled.\<close>

lemma handle_Inr_iff:
  "bindC (tryC m) (case_sum f g) w = (Inr y, w') \<longleftrightarrow>
   (\<exists>x v. m w = (Inr x, v) \<and> g x v = (Inr y, w')) \<or> (\<exists>e v. m w = (Inl e, v) \<and> f e v = (Inr y, w'))"
  by (auto simp: bindC_def tryC_def split: prod.splits sum.splits)

text \<open>What a call keeps of the world.\<close>

definition keeps :: "('w \<Rightarrow> 'v) \<Rightarrow> ('w, 'a) call \<Rightarrow> bool" where
  "keeps view m = (\<forall>w. view (snd (m w)) = view w)"

lemma keepsD: "keeps view m \<Longrightarrow> m w = (r, w') \<Longrightarrow> view w' = view w"
  unfolding keeps_def by (metis snd_conv)

lemma keeps_basic [intro, simp]: "keeps view (returnC x)" "keeps view (failC e)" "keeps view (liftC r)"
  by (simp_all add: keeps_def)

lemma keeps_bindC [intro]: "keeps view m \<Longrightarrow> (\<And>x. keeps view (f x)) \<Longrightarrow> keeps view (bindC m f)"
  by (auto simp: keeps_def bindC_def split: prod.splits sum.splits) (metis snd_conv)+

lemma keeps_tryC [intro]: "keeps view m \<Longrightarrow> keeps view (tryC m)"
  by (auto simp: keeps_def tryC_def split: prod.splits) (metis snd_conv)

lemma keeps_forC [intro]: "(\<And>x. keeps view (f x)) \<Longrightarrow> keeps view (forC xs f)"
  by (induction xs) auto

lemma keeps_if [intro]: "keeps view a \<Longrightarrow> keeps view b \<Longrightarrow> keeps view (if c then a else b)"
  by simp

lemma forC_Inr:
  assumes "forC xs f w = (Inr (), w')" and "\<And>x. keeps view (f x)"
  shows "x \<in> set xs \<Longrightarrow> \<exists>v v'. f x v = (Inr (), v') \<and> view v = view w"
  using assms(1)
proof (induction xs arbitrary: w)
  case (Cons y ys)
  then obtain v where v: "f y w = (Inr (), v)" "forC ys f v = (Inr (), w')" by (auto simp: result_simps)
  show ?case
  proof (cases "x = y")
    case True
    with v show ?thesis by blast
  next
    case False
    with Cons.prems Cons.IH [OF _ v(2)] keepsD [OF assms(2) v(1)] show ?thesis by auto
  qed
qed simp

section \<open>One kind of object\<close>

record ('w, 'o) ResourceClient =
  rs_List :: "string option \<Rightarrow> ('w, 'o list) call"
  rs_Get :: "string \<Rightarrow> string \<Rightarrow> ('w, 'o) call"
  rs_Create :: "'o \<Rightarrow> ('w, unit) call"
  rs_Update :: "'o \<Rightarrow> ('w, unit) call"
  rs_Delete :: "'o \<Rightarrow> ('w, unit) call"

abbreviation obj_key :: "('o \<Rightarrow> ObjectMeta) \<Rightarrow> 'o \<Rightarrow> string \<times> string" where
  "obj_key meta ob \<equiv> (meta_Namespace (meta ob), meta_Name (meta ob))"

abbreviation in_namespace :: "('o \<Rightarrow> ObjectMeta) \<Rightarrow> string option \<Rightarrow> 'o \<Rightarrow> bool" where
  "in_namespace meta ns ob \<equiv> (case ns of None \<Rightarrow> True | Some n \<Rightarrow> meta_Namespace (meta ob) = n)"

text \<open>
  The documented behaviour of the API server for one kind of object: names are DNS subdomains and
  unique in a namespace; a listing returns the objects of the namespace; a read returns the object,
  and says \<open>NotFound\<close> only when there is none; a creation adds the object as sent and refuses a
  taken key; an update, which the server accepts only for the version that was read, replaces the
  object; a deletion removes it (the kinds here have no finalizers); an error changes nothing; and
  no call touches the objects of the other kind, the view \<open>other\<close>.
\<close>

locale resource_store =
  fixes C :: "('w, 'o) ResourceClient" and meta :: "'o \<Rightarrow> ObjectMeta"
    and objs :: "'w \<Rightarrow> 'o list" and other :: "'w \<Rightarrow> 'x"
  assumes keys: "distinct (map (obj_key meta) (objs w))"
    and names: "ob \<in> set (objs w) \<Longrightarrow> dns1123_subdomain (meta_Name (meta ob))"
    and list_ok: "rs_List C nso w = (Inr l, w') \<Longrightarrow> mset l = mset (filter (in_namespace meta nso) (objs w))"
    and get_ok: "rs_Get C ns n w = (Inr ob, w') \<Longrightarrow> ob \<in> set (objs w) \<and> obj_key meta ob = (ns, n)"
    and get_missing: "rs_Get C ns n w = (Inl e, w') \<Longrightarrow> IsNotFound e \<Longrightarrow> (ns, n) \<notin> obj_key meta ` set (objs w)"
    and create_ok: "rs_Create C ob w = (Inr (), w') \<Longrightarrow>
      obj_key meta ob \<notin> obj_key meta ` set (objs w) \<and> mset (objs w') = add_mset ob (mset (objs w))"
    and update_ok: "rs_Update C ob w = (Inr (), w') \<Longrightarrow>
      mset (objs w') = mset (map (\<lambda>old. if obj_key meta old = obj_key meta ob then ob else old) (objs w))"
    and delete_ok: "rs_Delete C ob w = (Inr (), w') \<Longrightarrow>
      mset (objs w') = mset (filter (\<lambda>old. obj_key meta old \<noteq> obj_key meta ob) (objs w))"
    and write_err: "rs_Create C ob w = (Inl e, w') \<or> rs_Update C ob w = (Inl e, w')
      \<or> rs_Delete C ob w = (Inl e, w') \<Longrightarrow> objs w' = objs w"
    and read_keeps: "keeps objs (rs_List C nso)" "keeps objs (rs_Get C ns n)"
    and other_kept: "keeps other (rs_List C nso)" "keeps other (rs_Get C ns n)" "keeps other (rs_Create C ob)"
      "keeps other (rs_Update C ob)" "keeps other (rs_Delete C ob)"
begin

lemma list_set: "rs_List C nso w = (Inr l, w') \<Longrightarrow> set l = {ob \<in> set (objs w). in_namespace meta nso ob}"
  by (drule list_ok, drule mset_eq_setD) auto

lemma key_inj: "a \<in> set (objs w) \<Longrightarrow> b \<in> set (objs w) \<Longrightarrow> obj_key meta a = obj_key meta b \<Longrightarrow> a = b"
  using keys [of w] unfolding distinct_map by (blast dest: inj_onD)

lemma name_canonical:
  "ob \<in> set (objs w) \<Longrightarrow> ToLower (TrimSpace (meta_Name (meta ob))) = meta_Name (meta ob) \<and> meta_Name (meta ob) \<noteq> []"
  using names [of ob w] subdomain_normal subdomain_nonempty by blast

lemma create_set: "rs_Create C ob w = (Inr (), w') \<Longrightarrow> set (objs w') = insert ob (set (objs w))"
  by (drule create_ok) (metis set_mset_add_mset_insert set_mset_mset)

lemma update_set:
  "rs_Update C ob w = (Inr (), w') \<Longrightarrow>
   set (objs w') = (\<lambda>old. if obj_key meta old = obj_key meta ob then ob else old) ` set (objs w)"
  by (drule update_ok, drule mset_eq_setD) simp

lemma delete_set:
  "rs_Delete C ob w = (Inr (), w') \<Longrightarrow> set (objs w') = {old \<in> set (objs w). obj_key meta old \<noteq> obj_key meta ob}"
  by (drule delete_ok, drule mset_eq_setD) auto

end

section \<open>The clients and the service\<close>

text \<open>\<^verbatim>\<open>ctrlclient.Client\<close>, for the two custom kinds.\<close>

record 'w OperatorClient =
  op_Units :: "('w, GPUUnit) ResourceClient"
  op_Storages :: "('w, GPUStorage) ResourceClient"

text \<open>A resource quota with the limits and the use its status shows.\<close>

record 'q ResourceQuota =
  rq_Name :: string
  rq_Namespace :: string
  rq_Hard :: "'q smap"
  rq_Used :: "'q smap"

record ('w, 'q) KubeClient =
  kube_ListQuotas :: "string \<Rightarrow> ('w, 'q ResourceQuota list) call"

text \<open>\<^verbatim>\<open>Service\<close>: either client may be missing. The locks serialize the operations of one process; a
  call of an operation is one step of the model.\<close>

record ('w, 'q) Service =
  svc_kube :: "('w, 'q) KubeClient option"
  svc_operator :: "'w OperatorClient option"
  svc_packageCatalog :: RuntimePackageCatalog

definition ConfigureRuntimePackages ::
    "'q k8s \<Rightarrow> RuntimePackageCatalog \<Rightarrow> ('w, 'q) Service \<Rightarrow> unit res \<times> ('w, 'q) Service" where
  "ConfigureRuntimePackages K catalog S =
     (case Catalog_Normalized K catalog of
        Inl e \<Rightarrow> (Inl e, S)
      | Inr normalized \<Rightarrow> (Inr (), S\<lparr>svc_packageCatalog := normalized\<rparr>))"

definition runtimePackageCatalog :: "('w, 'q) Service \<Rightarrow> RuntimePackageCatalog" where
  "runtimePackageCatalog S = Catalog_Clone (svc_packageCatalog S)"

locale api_server =
  units: resource_store "op_Units A" unit_Meta us ss + storages: resource_store "op_Storages A" stor_Meta ss us
  for A :: "'w OperatorClient" and us :: "'w \<Rightarrow> GPUUnit list" and ss :: "'w \<Rightarrow> GPUStorage list"

section \<open>An in-memory server\<close>

fun uniq_by :: "('a \<Rightarrow> 'k) \<Rightarrow> 'a list \<Rightarrow> 'a list" where
  "uniq_by f [] = []"
| "uniq_by f (x # xs) = x # filter (\<lambda>y. f y \<noteq> f x) (uniq_by f xs)"

lemma uniq_by_distinct: "distinct (map f (uniq_by f xs))"
  by (induction xs) (auto simp: distinct_map intro: inj_on_subset)

lemma uniq_by_id: "distinct (map f xs) \<Longrightarrow> uniq_by f xs = xs"
  by (induction xs) (auto simp: filter_id_conv image_iff)

definition valid_objs :: "('o \<Rightarrow> ObjectMeta) \<Rightarrow> 'o list \<Rightarrow> 'o list" where
  "valid_objs meta xs = uniq_by (obj_key meta) (filter (\<lambda>ob. dns1123_subdomain (meta_Name (meta ob))) xs)"

definition mem_client ::
    "('o \<Rightarrow> ObjectMeta) \<Rightarrow> ('w \<Rightarrow> 'o list) \<Rightarrow> ('o list \<Rightarrow> 'w \<Rightarrow> 'w) \<Rightarrow> ('w, 'o) ResourceClient" where
  "mem_client meta rd wr =
     (let objs = (\<lambda>w. valid_objs meta (rd w));
          has = (\<lambda>k w. k \<in> set (map (obj_key meta) (objs w)));
          missing = ApiNotFound (msg ''not found'')
      in \<lparr>rs_List = (\<lambda>ns w. (Inr (filter (in_namespace meta ns) (objs w)), w)),
          rs_Get = (\<lambda>ns n w. (case find (\<lambda>ob. obj_key meta ob = (ns, n)) (objs w) of
                      None \<Rightarrow> Inl missing | Some ob \<Rightarrow> Inr ob, w)),
          rs_Create = (\<lambda>ob w. if \<not> dns1123_subdomain (meta_Name (meta ob)) then (Inl (ErrorText (msg ''invalid'')), w)
                      else if has (obj_key meta ob) w then (Inl (ApiAlreadyExists (msg ''exists'')), w)
                      else (Inr (), wr (ob # objs w) w)),
          rs_Update = (\<lambda>ob w. if \<not> has (obj_key meta ob) w then (Inl missing, w)
                      else (Inr (), wr (map (\<lambda>old. if obj_key meta old = obj_key meta ob then ob else old) (objs w)) w)),
          rs_Delete = (\<lambda>ob w. if \<not> has (obj_key meta ob) w then (Inl missing, w)
                      else (Inr (), wr (filter (\<lambda>old. obj_key meta old \<noteq> obj_key meta ob) (objs w)) w))\<rparr>)"

lemma valid_objs_keys: "distinct (map (obj_key meta) (valid_objs meta xs))"
  by (simp add: valid_objs_def uniq_by_distinct)

lemma uniq_by_subset: "set (uniq_by f xs) \<subseteq> set xs"
  by (induction xs) auto

lemma valid_objs_names: "ob \<in> set (valid_objs meta xs) \<Longrightarrow> dns1123_subdomain (meta_Name (meta ob))"
  using uniq_by_subset [of "obj_key meta" "filter (\<lambda>ob. dns1123_subdomain (meta_Name (meta ob))) xs"]
  by (auto simp: valid_objs_def)

lemma valid_objs_id:
  "distinct (map (obj_key meta) xs) \<Longrightarrow> list_all (\<lambda>ob. dns1123_subdomain (meta_Name (meta ob))) xs \<Longrightarrow>
   valid_objs meta xs = xs"
  by (simp add: valid_objs_def filter_id_conv list_all_iff uniq_by_id)

lemma map_replace_keys: "map f (map (\<lambda>old. if f old = f ob then ob else old) xs) = map f xs"
  by (induction xs) auto

text \<open>Every such store obeys the laws.\<close>

lemma mem_store:
  fixes rd :: "'w \<Rightarrow> 'o list" and other :: "'w \<Rightarrow> 'x"
  assumes rd: "\<And>xs w. rd (wr xs w) = xs" and ot: "\<And>xs w. other (wr xs w) = other w"
  shows "resource_store (mem_client meta rd wr) meta (\<lambda>w. valid_objs meta (rd w)) other"
proof
  let ?C = "mem_client meta rd wr" and ?objs = "\<lambda>w. valid_objs meta (rd w)"
  note defs = mem_client_def Let_def
  show "distinct (map (obj_key meta) (?objs w))" for w by (rule valid_objs_keys)
  show "ob \<in> set (?objs w) \<Longrightarrow> dns1123_subdomain (meta_Name (meta ob))" for ob w by (rule valid_objs_names)
  show "rs_List ?C ns w = (Inr l, w') \<Longrightarrow> mset l = mset (filter (in_namespace meta ns) (?objs w))" for ns w l w'
    by (auto simp: defs)
  show "rs_Get ?C ns n w = (Inr ob, w') \<Longrightarrow> ob \<in> set (?objs w) \<and> obj_key meta ob = (ns, n)" for ns n w ob w'
    by (auto simp: defs find_Some_iff split: option.splits)
  show "rs_Get ?C ns n w = (Inl e, w') \<Longrightarrow> IsNotFound e \<Longrightarrow> (ns, n) \<notin> obj_key meta ` set (?objs w)" for ns n w e w'
    by (auto simp: defs find_None_iff split: option.splits)
  show "rs_Create ?C ob w = (Inr (), w') \<Longrightarrow>
      obj_key meta ob \<notin> obj_key meta ` set (?objs w) \<and> mset (?objs w') = add_mset ob (mset (?objs w))" for ob w w'
  proof -
    assume c: "rs_Create ?C ob w = (Inr (), w')"
    then have k: "dns1123_subdomain (meta_Name (meta ob))" "obj_key meta ob \<notin> obj_key meta ` set (?objs w)"
      "w' = wr (ob # ?objs w) w" by (simp_all add: defs split: if_splits)
    have "distinct (map (obj_key meta) (ob # ?objs w))" using k(2) valid_objs_keys [of meta "rd w"] by simp
    moreover have "list_all (\<lambda>ob. dns1123_subdomain (meta_Name (meta ob))) (ob # ?objs w)"
      using k(1) valid_objs_names [of _ meta "rd w"] by (simp add: list_all_iff)
    ultimately have "?objs w' = ob # ?objs w" unfolding k(3) rd by (rule valid_objs_id)
    with k(2) show ?thesis by simp
  qed
  show "rs_Update ?C ob w = (Inr (), w') \<Longrightarrow>
      mset (?objs w') = mset (map (\<lambda>old. if obj_key meta old = obj_key meta ob then ob else old) (?objs w))" for ob w w'
  proof -
    assume c: "rs_Update ?C ob w = (Inr (), w')"
    let ?l = "map (\<lambda>old. if obj_key meta old = obj_key meta ob then ob else old) (?objs w)"
    from c have k: "obj_key meta ob \<in> obj_key meta ` set (?objs w)" "w' = wr ?l w" by (simp_all add: defs split: if_splits)
    have "distinct (map (obj_key meta) ?l)" unfolding map_replace_keys [of "obj_key meta"] by (rule valid_objs_keys)
    moreover have "list_all (\<lambda>ob. dns1123_subdomain (meta_Name (meta ob))) ?l"
      using k(1) valid_objs_names [of _ meta "rd w"] by (auto simp: list_all_iff)
    ultimately have "?objs w' = ?l" unfolding k(2) rd by (rule valid_objs_id)
    then show ?thesis by (rule arg_cong)
  qed
  show "rs_Delete ?C ob w = (Inr (), w') \<Longrightarrow>
      mset (?objs w') = mset (filter (\<lambda>old. obj_key meta old \<noteq> obj_key meta ob) (?objs w))" for ob w w'
  proof -
    assume c: "rs_Delete ?C ob w = (Inr (), w')"
    let ?l = "filter (\<lambda>old. obj_key meta old \<noteq> obj_key meta ob) (?objs w)"
    from c have k: "w' = wr ?l w" by (simp add: defs split: if_splits)
    have "distinct (map (obj_key meta) ?l)"
      using valid_objs_keys [of meta "rd w"] by (rule distinct_map_filter)
    moreover have "list_all (\<lambda>ob. dns1123_subdomain (meta_Name (meta ob))) ?l"
      using valid_objs_names [of _ meta "rd w"] by (auto simp: list_all_iff)
    ultimately have "?objs w' = ?l" unfolding k rd by (rule valid_objs_id)
    then show ?thesis by (rule arg_cong)
  qed
  show "rs_Create ?C ob w = (Inl e, w') \<or> rs_Update ?C ob w = (Inl e, w') \<or> rs_Delete ?C ob w = (Inl e, w') \<Longrightarrow>
      ?objs w' = ?objs w" for ob w e w'
    by (auto simp: defs split: if_splits)
  show "keeps ?objs (rs_List ?C ns)" "keeps other (rs_List ?C ns)" for ns by (simp_all add: keeps_def defs)
  show "keeps ?objs (rs_Get ?C ns n)" "keeps other (rs_Get ?C ns n)" for ns n by (simp_all add: keeps_def defs)
  show "keeps other (rs_Create ?C ob)" "keeps other (rs_Update ?C ob)" "keeps other (rs_Delete ?C ob)" for ob
    by (simp_all add: keeps_def defs ot)
qed

record mem_world =
  mw_Units :: "GPUUnit list"
  mw_Storages :: "GPUStorage list"
  mw_Clock :: gotime

definition mem_operator :: "mem_world OperatorClient" where
  "mem_operator = \<lparr>op_Units = mem_client unit_Meta mw_Units (\<lambda>xs w. w\<lparr>mw_Units := xs\<rparr>),
     op_Storages = mem_client stor_Meta mw_Storages (\<lambda>xs w. w\<lparr>mw_Storages := xs\<rparr>)\<rparr>"

definition mem_units :: "mem_world \<Rightarrow> GPUUnit list" where
  "mem_units w = valid_objs unit_Meta (mw_Units w)"

definition mem_storages :: "mem_world \<Rightarrow> GPUStorage list" where
  "mem_storages w = valid_objs stor_Meta (mw_Storages w)"

interpretation mem: api_server mem_operator mem_units mem_storages
proof -
  have "resource_store (op_Units mem_operator) unit_Meta mem_units mem_storages"
    using mem_store [of mw_Units "\<lambda>xs w. w\<lparr>mw_Units := xs\<rparr>" mem_storages unit_Meta]
    by (simp add: mem_operator_def mem_units_def [abs_def] mem_storages_def [abs_def])
  moreover have "resource_store (op_Storages mem_operator) stor_Meta mem_storages mem_units"
    using mem_store [of mw_Storages "\<lambda>xs w. w\<lparr>mw_Storages := xs\<rparr>" mem_units stor_Meta]
    by (simp add: mem_operator_def mem_units_def [abs_def] mem_storages_def [abs_def])
  ultimately show "api_server mem_operator mem_units mem_storages" by (simp add: api_server_def)
qed

end
