(* ===== verification/Service_Units.thy ===== *)
theory Service_Units
  imports Service_Client
begin

text \<open>
  The operations of the runtime service on GPU units: \<^verbatim>\<open>unit_service.go\<close>, \<^verbatim>\<open>unit_inventory.go\<close>,
  \<^verbatim>\<open>unit_view.go\<close>, \<^verbatim>\<open>runtime_namespaces.go\<close>, the quota check of \<^verbatim>\<open>allocation.go\<close> and the storage
  mount checks of \<^verbatim>\<open>storage.go\<close>. The request hash (SHA-256 of the JSON of a request) is the argument
  \<open>hash\<close>.
\<close>

section \<open>Namespaces and views\<close>

definition resolveRuntimeInstanceNamespace :: "string \<Rightarrow> string res" where
  "resolveRuntimeInstanceNamespace namespace =
     (let trimmed = TrimSpace namespace
      in if trimmed = [] \<or> trimmed = DefaultInstanceNamespace then Inr DefaultInstanceNamespace
         else Inl (ValidationError (''namespace is fixed to %q for runtime resources'', [FS DefaultInstanceNamespace])))"

definition normalizeRuntimeResourceName :: "'q k8s \<Rightarrow> string \<Rightarrow> string res" where
  "normalizeRuntimeResourceName K name =
     (let trimmedName = ToLower (TrimSpace name)
      in if trimmedName = [] then Inl (ValidationError (msg ''name is required''))
         else if IsDNS1123Subdomain K trimmedName \<noteq> []
           then Inl (ValidationError (''name %q is invalid: %s'',
                  [FS trimmedName, FS (join '', '' (IsDNS1123Subdomain K trimmedName))]))
         else Inr trimmedName)"

definition normalizedUnitAllocation :: "GPUUnitAllocationSpec \<Rightarrow> GPUUnitAllocationSpec" where
  "normalizedUnitAllocation allocation =
     allocation\<lparr>alloc_DeviceClassName := TrimSpace (alloc_DeviceClassName allocation),
       alloc_ClaimName := TrimSpace (alloc_ClaimName allocation),
       alloc_ClaimRequestName := or_default (TrimSpace (alloc_ClaimRequestName allocation)) UnitDRAClaimRequestName\<rparr>"

definition lifecycleForUnit :: "GPUUnit \<Rightarrow> string" where
  "lifecycleForUnit u = LifecycleInstance"

definition gpuUnitRuntimeFromObject :: "'q k8s \<Rightarrow> GPUUnit \<Rightarrow> GPUUnitRuntime" where
  "gpuUnitRuntimeFromObject K u =
     (let cond = FindStatusCondition K (st_Conditions (unit_Status u)) ConditionReady;
          reason = (case cond of None \<Rightarrow> [] | Some c \<Rightarrow> cond_Reason c);
          message = (case cond of None \<Rightarrow> [] | Some c \<Rightarrow> cond_Message c)
      in \<lparr>rt_Name = meta_Name (unit_Meta u), rt_Namespace = meta_Namespace (unit_Meta u),
          rt_Lifecycle = lifecycleForUnit u, rt_PackageID = spec_PackageID (unit_Spec u),
          rt_SpecName = spec_SpecName (unit_Spec u), rt_Image = spec_Image (unit_Spec u),
          rt_CPU = spec_CPU (unit_Spec u), rt_Memory = spec_Memory (unit_Spec u), rt_GPU = spec_GPU (unit_Spec u),
          rt_Allocation = normalizedUnitAllocation (spec_Allocation (unit_Spec u)),
          rt_Template = spec_Template (unit_Spec u), rt_Access = spec_Access (unit_Spec u),
          rt_SSH = spec_SSH (unit_Spec u), rt_Serverless = spec_Serverless (unit_Spec u),
          rt_StorageMounts = [] @ spec_StorageMounts (unit_Spec u), rt_Phase = st_Phase (unit_Status u),
          rt_ReadyReplicas = st_ReadyReplicas (unit_Status u),
          rt_ObservedGeneration = st_ObservedGeneration (unit_Status u),
          rt_LastSyncTime = st_LastSyncTime (unit_Status u), rt_ServiceName = st_ServiceName (unit_Status u),
          rt_AccessURL = st_AccessURL (unit_Status u), rt_SSHStatus = st_SSH (unit_Status u),
          rt_ServerlessStatus = st_Serverless (unit_Status u), rt_DRAStatus = st_DRA (unit_Status u),
          rt_Reason = reason, rt_Message = message\<rparr>)"

section \<open>Storage mounts\<close>

definition storageIndexKey :: "string \<Rightarrow> string \<Rightarrow> string" where
  "storageIndexKey namespace name = namespace @ ''/'' @ name"

definition index_add :: "string \<times> string \<Rightarrow> string list smap \<Rightarrow> string list smap" where
  "index_add e index = map_put (fst e) ((case map_of index (fst e) of None \<Rightarrow> [] | Some l \<Rightarrow> l) @ [snd e]) index"

definition mount_entries :: "GPUUnit list \<Rightarrow> (string \<times> string) list" where
  "mount_entries units = concat (map (\<lambda>u. map (\<lambda>m. (storageIndexKey (meta_Namespace (unit_Meta u)) (mnt_Name m),
     meta_Name (unit_Meta u))) (spec_StorageMounts (unit_Spec u))) units)"

definition storageMountIndex :: "'w OperatorClient \<Rightarrow> string \<Rightarrow> ('w, string list smap) call" where
  "storageMountIndex A namespace =
     bindC (rs_List (op_Units A) (if namespace = [] then None else Some namespace)) (\<lambda>units.
       returnC (map (\<lambda>(key, l). (key, sort l)) (fold index_add (mount_entries units) [])))"

definition mountedGPUUnitsForStorage :: "'w OperatorClient \<Rightarrow> string \<Rightarrow> string \<Rightarrow> ('w, string list) call" where
  "mountedGPUUnitsForStorage A namespace storageName =
     bindC (storageMountIndex A namespace) (\<lambda>index.
       returnC ([] @ (case map_of index (storageIndexKey namespace storageName) of None \<Rightarrow> [] | Some l \<Rightarrow> l)))"

definition ensureGPUStoragesExist ::
    "'w OperatorClient \<Rightarrow> string \<Rightarrow> GPUUnitStorageMount list \<Rightarrow> ('w, unit) call" where
  "ensureGPUStoragesExist A namespace mounts =
     forC mounts (\<lambda>mount.
       bindC (tryC (rs_Get (op_Storages A) namespace (mnt_Name mount))) (\<lambda>r.
         case r of
           Inl e \<Rightarrow> if IsNotFound e
                     then failC (NotFoundError (''gpu storage %s/%s not found'', [FS namespace, FS (mnt_Name mount)]))
                     else failC e
         | Inr _ \<Rightarrow> returnC ()))"

definition ensureGPUStoragesExclusivelyMountable ::
    "'w OperatorClient \<Rightarrow> string \<Rightarrow> string \<Rightarrow> GPUUnitStorageMount list \<Rightarrow> ('w, unit) call" where
  "ensureGPUStoragesExclusivelyMountable A namespace unitName mounts =
     forC mounts (\<lambda>mount.
       bindC (mountedGPUUnitsForStorage A namespace (mnt_Name mount)) (\<lambda>mountedBy.
         case find (\<lambda>mountedUnitName. mountedUnitName \<noteq> unitName) mountedBy of
           None \<Rightarrow> returnC ()
         | Some mountedUnitName \<Rightarrow> failC (ConflictError
             (''gpu storage %s/%s is already mounted by gpu unit %s; the default RBD-backed storage path is exclusive per active runtime'',
              [FS namespace, FS (mnt_Name mount), FS mountedUnitName]))))"

section \<open>Quotas\<close>

definition ensureQuotaResourceAllows :: "'q k8s \<Rightarrow> 'q ResourceQuota \<Rightarrow> string \<Rightarrow> 'q \<Rightarrow> unit res" where
  "ensureQuotaResourceAllows K quota name requested =
     (case map_of (rq_Hard quota) name of
        None \<Rightarrow> Inr ()
      | Some hard \<Rightarrow>
          let used = (case map_of (rq_Used quota) name of None \<Rightarrow> qty_Zero K | Some q \<Rightarrow> q);
              projected = qty_Add K used requested
          in if qty_Cmp K projected hard \<le> 0 then Inr ()
             else Inl (CapacityError (''resource quota %s/%s would be exceeded for %s: used=%s requested=%s hard=%s'',
                    [FS (rq_Namespace quota), FS (rq_Name quota), FS name, FS (qty_String K used),
                     FS (qty_String K requested), FS (qty_String K hard)])))"

definition draClaimQuotaName :: string where
  "draClaimQuotaName = ''count/resourceclaims.resource.k8s.io''"

definition quota_allows :: "'q k8s \<Rightarrow> CreateGPUUnitRequest \<Rightarrow> 'q ResourceQuota \<Rightarrow> unit res" where
  "quota_allows K req quota =
     andThen (if cr_CPU req = [] then Inr ()
              else andThen (ParseQuantity K (cr_CPU req)) (ensureQuotaResourceAllows K quota ''requests.cpu'')) (\<lambda>_.
     andThen (ensureQuotaResourceAllows K quota draClaimQuotaName (qty_New K 1)) (\<lambda>_.
     if cr_Memory req = [] then Inr ()
     else andThen (ParseQuantity K (cr_Memory req)) (ensureQuotaResourceAllows K quota ''requests.memory'')))"

definition ensureResourceQuotaAllows ::
    "'q k8s \<Rightarrow> ('w, 'q) KubeClient \<Rightarrow> string \<Rightarrow> CreateGPUUnitRequest \<Rightarrow> ('w, unit) call" where
  "ensureResourceQuotaAllows K kube namespace req =
     bindC (kube_ListQuotas kube namespace) (\<lambda>quotas. liftC (checkAll (quota_allows K req) quotas))"

definition ensureDRAAllocationAvailable ::
    "'q k8s \<Rightarrow> ('w, 'q) Service \<Rightarrow> CreateGPUUnitRequest \<Rightarrow> ('w, unit) call" where
  "ensureDRAAllocationAvailable K S req =
     (case svc_kube S of None \<Rightarrow> returnC ()
      | Some kube \<Rightarrow> ensureResourceQuotaAllows K kube DefaultInstanceNamespace req)"

section \<open>Units\<close>

abbreviation no_operator :: error where
  "no_operator \<equiv> UnavailableError (msg ''operator client is not available'')"

definition annotation :: "string \<Rightarrow> GPUUnit \<Rightarrow> string" where
  "annotation k u = (case map_of (meta_Annotations (unit_Meta u)) k of None \<Rightarrow> [] | Some v \<Rightarrow> v)"

definition existing_operation ::
    "string \<Rightarrow> string \<Rightarrow> string \<Rightarrow> string \<Rightarrow> GPUUnit list \<Rightarrow> GPUUnit option res" where
  "existing_operation operationID namespace objectName requestHash items =
     (case find (\<lambda>u. annotation AnnotationOperationID u = operationID) items of
        Some u \<Rightarrow>
          if annotation AnnotationRequestHash u \<noteq> requestHash
          then Inl (ConflictError (''operation %s already exists with a different request payload'', [FS operationID]))
          else Inr (Some u)
      | None \<Rightarrow>
          (case find (\<lambda>u. meta_Namespace (unit_Meta u) = namespace \<and> meta_Name (unit_Meta u) = objectName) items of
             None \<Rightarrow> Inr None
           | Some u \<Rightarrow>
               if annotation AnnotationOperationID u = operationID \<and> annotation AnnotationRequestHash u = requestHash
               then Inr (Some u)
               else Inl (ConflictError (''gpu unit name %s/%s is already in use'', [FS namespace, FS objectName]))))"

definition findExistingGPUUnitOperation ::
    "'q k8s \<Rightarrow> 'w OperatorClient \<Rightarrow> string \<Rightarrow> string \<Rightarrow> string \<Rightarrow> string \<Rightarrow> ('w, GPUUnitRuntime option) call" where
  "findExistingGPUUnitOperation K A operationID namespace objectName requestHash =
     bindC (rs_List (op_Units A) None) (\<lambda>items.
     bindC (liftC (existing_operation operationID namespace objectName requestHash items)) (\<lambda>found.
       returnC (map_option (gpuUnitRuntimeFromObject K) found)))"

definition buildActiveUnitFromRequest :: "CreateGPUUnitRequest \<Rightarrow> string \<Rightarrow> GPUUnit" where
  "buildActiveUnitFromRequest req requestHash =
     \<lparr>unit_Meta = \<lparr>meta_Name = cr_Name req, meta_Namespace = DefaultInstanceNamespace,
        meta_Labels = [(LabelAppNameKey, LabelAppNameValue), (LabelManagedByKey, LabelManagedByValue),
          (LabelUnitKey, cr_Name req)],
        meta_Annotations = [(AnnotationOperationID, cr_OperationID req), (AnnotationRequestHash, requestHash)]\<rparr>,
      unit_Spec = \<lparr>spec_PackageID = cr_PackageID req, spec_SpecName = cr_SpecName req, spec_Image = cr_Image req,
        spec_CPU = cr_CPU req, spec_Memory = cr_Memory req, spec_GPU = cr_GPU req,
        spec_Allocation = cr_Allocation req, spec_Template = cr_Template req, spec_Access = cr_Access req,
        spec_SSH = cr_SSH req, spec_Serverless = cr_Serverless req,
        spec_StorageMounts = [] @ cr_StorageMounts req\<rparr>,
      unit_Status = zero_unit_status\<rparr>"

definition createDRAAllocatedGPUUnit ::
    "'q k8s \<Rightarrow> ('w, 'q) Service \<Rightarrow> 'w OperatorClient \<Rightarrow> CreateGPUUnitRequest \<Rightarrow> string
     \<Rightarrow> ('w, GPUUnitRuntime \<times> bool) call" where
  "createDRAAllocatedGPUUnit K S A req requestHash =
     bindC (ensureDRAAllocationAvailable K S req) (\<lambda>_.
       let active = buildActiveUnitFromRequest req requestHash
       in bindC (tryC (rs_Create (op_Units A) active)) (\<lambda>created.
            case created of
              Inr _ \<Rightarrow> returnC (gpuUnitRuntimeFromObject K active, True)
            | Inl e \<Rightarrow>
                if IsAlreadyExists e
                then bindC (tryC (rs_Get (op_Units A) DefaultInstanceNamespace (cr_Name req))) (\<lambda>r.
                  case r of
                    Inr existing \<Rightarrow>
                      if annotation AnnotationOperationID existing = cr_OperationID req
                         \<and> annotation AnnotationRequestHash existing = requestHash
                      then returnC (gpuUnitRuntimeFromObject K existing, False) else failC e
                  | Inl _ \<Rightarrow> failC e)
                else failC e))"

definition CreateGPUUnit ::
    "'q k8s \<Rightarrow> (CreateGPUUnitRequest \<Rightarrow> string res) \<Rightarrow> ('w, 'q) Service \<Rightarrow> CreateGPUUnitRequest
     \<Rightarrow> ('w, GPUUnitRuntime \<times> bool) call" where
  "CreateGPUUnit K hash S req0 =
     bindC (liftC (NormalizeCreateGPUUnitRequestWithCatalog K req0 (runtimePackageCatalog S))) (\<lambda>req.
     case svc_operator S of
       None \<Rightarrow> failC no_operator
     | Some A \<Rightarrow>
         bindC (liftC (hash req)) (\<lambda>requestHash.
         bindC (ensureGPUStoragesExist A DefaultInstanceNamespace (cr_StorageMounts req)) (\<lambda>_.
         bindC (findExistingGPUUnitOperation K A (cr_OperationID req) DefaultInstanceNamespace (cr_Name req) requestHash) (\<lambda>found.
         case found of
           Some runtimeView \<Rightarrow> returnC (runtimeView, False)
         | None \<Rightarrow>
             bindC (ensureGPUStoragesExclusivelyMountable A DefaultInstanceNamespace [] (cr_StorageMounts req)) (\<lambda>_.
               createDRAAllocatedGPUUnit K S A req requestHash)))))"

definition ListGPUUnits :: "'q k8s \<Rightarrow> ('w, 'q) Service \<Rightarrow> string \<Rightarrow> ('w, GPUUnitRuntime list) call" where
  "ListGPUUnits K S namespace =
     (case svc_operator S of
        None \<Rightarrow> failC no_operator
      | Some A \<Rightarrow>
          bindC (liftC (resolveRuntimeInstanceNamespace namespace)) (\<lambda>ns.
          bindC (rs_List (op_Units A) (Some ns)) (\<lambda>items. returnC (map (gpuUnitRuntimeFromObject K) items))))"

definition getActiveGPUUnit :: "'q k8s \<Rightarrow> 'w OperatorClient \<Rightarrow> string \<Rightarrow> string \<Rightarrow> ('w, GPUUnit) call" where
  "getActiveGPUUnit K A namespace name =
     bindC (liftC (resolveRuntimeInstanceNamespace namespace)) (\<lambda>ns.
     bindC (liftC (normalizeRuntimeResourceName K name)) (\<lambda>trimmedName.
     bindC (tryC (rs_Get (op_Units A) ns trimmedName)) (\<lambda>r.
       case r of
         Inl e \<Rightarrow> if IsNotFound e then failC (NotFoundError (''gpu unit %s/%s not found'', [FS ns, FS trimmedName]))
                   else failC e
       | Inr inst \<Rightarrow> returnC inst)))"

definition GetGPUUnit :: "'q k8s \<Rightarrow> ('w, 'q) Service \<Rightarrow> string \<Rightarrow> string \<Rightarrow> ('w, GPUUnitRuntime) call" where
  "GetGPUUnit K S namespace name =
     (case svc_operator S of
        None \<Rightarrow> failC no_operator
      | Some A \<Rightarrow> bindC (getActiveGPUUnit K A namespace name) (\<lambda>u. returnC (gpuUnitRuntimeFromObject K u)))"

text \<open>The access block of an update: a request that leaves it open falls back to the default for the
  new ports when the stored one does not fit them.\<close>

definition update_access :: "UpdateGPUUnitRequest \<Rightarrow> GPUUnitSpec \<Rightarrow> GPUUnitAccess res" where
  "update_access req next =
     (let accessInput = (if IsZeroGPUUnitAccess (ur_Access req) then spec_Access next else ur_Access req);
          ports = tpl_Ports (spec_Template next)
      in case NormalizeGPUUnitAccess accessInput ports of
           Inr access \<Rightarrow> Inr access
         | Inl e \<Rightarrow> if IsZeroGPUUnitAccess (ur_Access req) then NormalizeGPUUnitAccess zero_access ports else Inl e)"

definition update_spec :: "UpdateGPUUnitRequest \<Rightarrow> GPUUnitSpec \<Rightarrow> GPUUnitSpec res" where
  "update_spec req spec =
     (let next = (if ur_Image req \<noteq> [] then spec\<lparr>spec_Image := ur_Image req\<rparr> else spec);
          next = (if IsZeroGPUUnitTemplate (ur_Template req) then next else next\<lparr>spec_Template := ur_Template req\<rparr>)
      in andThen (update_access req next) (\<lambda>access.
           let next = next\<lparr>spec_Access := access\<rparr>;
               next = (case ur_SSH req of None \<Rightarrow> next | Some ssh \<Rightarrow> next\<lparr>spec_SSH := ssh\<rparr>);
               next = (case ur_Serverless req of None \<Rightarrow> next | Some sls \<Rightarrow> next\<lparr>spec_Serverless := sls\<rparr>)
           in Inr next))"

definition update_mounts ::
    "'w OperatorClient \<Rightarrow> GPUUnit \<Rightarrow> UpdateGPUUnitRequest \<Rightarrow> GPUUnitSpec \<Rightarrow> ('w, GPUUnitSpec) call" where
  "update_mounts A inst req next =
     (case ur_StorageMounts req of
        None \<Rightarrow> returnC next
      | Some mounts \<Rightarrow>
          bindC (ensureGPUStoragesExist A (meta_Namespace (unit_Meta inst)) mounts) (\<lambda>_.
          bindC (ensureGPUStoragesExclusivelyMountable A (meta_Namespace (unit_Meta inst))
                   (meta_Name (unit_Meta inst)) mounts) (\<lambda>_.
            returnC (next\<lparr>spec_StorageMounts := [] @ mounts\<rparr>))))"

definition UpdateGPUUnit ::
    "'q k8s \<Rightarrow> ('w, 'q) Service \<Rightarrow> string \<Rightarrow> string \<Rightarrow> UpdateGPUUnitRequest \<Rightarrow> ('w, GPUUnitRuntime) call" where
  "UpdateGPUUnit K S namespace name req0 =
     (case svc_operator S of
        None \<Rightarrow> failC no_operator
      | Some A \<Rightarrow>
          bindC (getActiveGPUUnit K A namespace name) (\<lambda>inst.
          bindC (liftC (NormalizeUpdateGPUUnitRequest K (meta_Name (unit_Meta inst))
                   (meta_Namespace (unit_Meta inst)) req0)) (\<lambda>req.
          bindC (liftC (update_spec req (unit_Spec inst))) (\<lambda>next.
          bindC (update_mounts A inst req next) (\<lambda>next.
          if unit_Spec inst = next then returnC (gpuUnitRuntimeFromObject K inst)
          else bindC (rs_Update (op_Units A) (inst\<lparr>unit_Spec := next\<rparr>)) (\<lambda>_.
                 returnC (gpuUnitRuntimeFromObject K (inst\<lparr>unit_Spec := next\<rparr>))))))))"

definition DeleteGPUUnit :: "'q k8s \<Rightarrow> ('w, 'q) Service \<Rightarrow> string \<Rightarrow> string \<Rightarrow> ('w, unit) call" where
  "DeleteGPUUnit K S namespace name =
     (case svc_operator S of
        None \<Rightarrow> failC no_operator
      | Some A \<Rightarrow> bindC (getActiveGPUUnit K A namespace name) (\<lambda>inst. rs_Delete (op_Units A) inst))"

section \<open>The mount index\<close>

definition index_lookup :: "string list smap \<Rightarrow> string \<Rightarrow> string list" where
  "index_lookup index k = (case map_of index k of None \<Rightarrow> [] | Some l \<Rightarrow> l)"

lemma index_lookup_add: "index_lookup (index_add e index) k = index_lookup index k @ (if fst e = k then [snd e] else [])"
  by (auto simp: index_lookup_def index_add_def)

lemma index_lookup_fold:
  "index_lookup (fold index_add es index) k = index_lookup index k @ map snd (filter (\<lambda>e. fst e = k) es)"
  by (induction es arbitrary: index) (simp_all add: index_lookup_add)

lemma index_lookup_sorted: "index_lookup (map (\<lambda>(key, l). (key, sort l)) index) k = sort (index_lookup index k)"
  by (induction index) (auto simp: index_lookup_def)

lemma storageIndexKey_inj [simp]: "storageIndexKey ns a = storageIndexKey ns b \<longleftrightarrow> a = b"
  by (simp add: storageIndexKey_def)

definition mounts_storage :: "string \<Rightarrow> GPUUnit \<Rightarrow> bool" where
  "mounts_storage s u = (s \<in> set (map mnt_Name (spec_StorageMounts (unit_Spec u))))"

abbreviation unit_name :: "GPUUnit \<Rightarrow> string" where "unit_name u \<equiv> meta_Name (unit_Meta u)"
abbreviation unit_ns :: "GPUUnit \<Rightarrow> string" where "unit_ns u \<equiv> meta_Namespace (unit_Meta u)"

lemma mount_entries_in:
  assumes "\<forall>u \<in> set units. unit_ns u = ns"
  shows "set (map snd (filter (\<lambda>e. fst e = storageIndexKey ns s) (mount_entries units)))
    = unit_name ` {u \<in> set units. mounts_storage s u}"
  using assms by (auto simp: mount_entries_def mounts_storage_def image_iff) blast+

lemma keeps_pair: "keeps (\<lambda>w. (f w, g w)) m \<longleftrightarrow> keeps f m \<and> keeps g m"
  by (auto simp: keeps_def)

lemma keeps_option [intro]: "keeps view a \<Longrightarrow> (\<And>x. keeps view (b x)) \<Longrightarrow> keeps view (case v of None \<Rightarrow> a | Some x \<Rightarrow> b x)"
  by (simp split: option.splits)

lemma keeps_sum [intro]:
  "(\<And>e. keeps view (a e)) \<Longrightarrow> (\<And>x. keeps view (b x)) \<Longrightarrow> keeps view (case v of Inl e \<Rightarrow> a e | Inr x \<Rightarrow> b x)"
  by (simp split: sum.splits)

section \<open>The checks against the laws of the API server\<close>

context api_server
begin

abbreviation state :: "'w \<Rightarrow> GPUUnit list \<times> GPUStorage list" where
  "state w \<equiv> (us w, ss w)"

lemma reads_keep [intro, simp]:
  "keeps state (rs_List (op_Units A) nso)" "keeps state (rs_Get (op_Units A) ns n)"
  "keeps state (rs_List (op_Storages A) nso)" "keeps state (rs_Get (op_Storages A) ns n)"
  by (simp_all add: keeps_pair units.read_keeps units.other_kept storages.read_keeps storages.other_kept)

lemma checks_keep [intro, simp]:
  "keeps state (storageMountIndex A ns)" "keeps state (mountedGPUUnitsForStorage A ns s)"
  "keeps state (ensureGPUStoragesExist A ns ms)" "keeps state (ensureGPUStoragesExclusivelyMountable A ns n ms)"
  "keeps state (findExistingGPUUnitOperation K A oid ns n h)" "keeps state (getActiveGPUUnit K A ns n)"
  by (auto simp: storageMountIndex_def mountedGPUUnitsForStorage_def ensureGPUStoragesExist_def
      ensureGPUStoragesExclusivelyMountable_def findExistingGPUUnitOperation_def getActiveGPUUnit_def
      intro!: keeps_bindC keeps_forC keeps_tryC keeps_option keeps_sum keeps_if)

lemma mountedGPUUnits_set:
  assumes "mountedGPUUnitsForStorage A ns s w = (Inr names, w')" "ns \<noteq> []"
  shows "set names = unit_name ` {u \<in> set (us w). unit_ns u = ns \<and> mounts_storage s u}"
proof -
  obtain l where l: "rs_List (op_Units A) (Some ns) w = (Inr l, w')"
      and n: "names = index_lookup (map (\<lambda>(key, l). (key, sort l)) (fold index_add (mount_entries l) [])) (storageIndexKey ns s)"
    using assms by (auto simp: mountedGPUUnitsForStorage_def storageMountIndex_def index_lookup_def result_simps)
  have sl: "set l = {u \<in> set (us w). unit_ns u = ns}" using units.list_set [OF l] by simp
  have "set names = set (map snd (filter (\<lambda>e. fst e = storageIndexKey ns s) (mount_entries l)))"
    unfolding n index_lookup_sorted index_lookup_fold by (simp add: index_lookup_def)
  also have "\<dots> = unit_name ` {u \<in> set l. mounts_storage s u}" by (rule mount_entries_in) (simp add: sl)
  finally show ?thesis by (auto simp: sl)
qed

lemma ensureGPUStoragesExist_ok:
  assumes "ensureGPUStoragesExist A ns ms w = (Inr (), w')" "m \<in> set ms"
  shows "(ns, mnt_Name m) \<in> obj_key stor_Meta ` set (ss w)"
proof -
  let ?f = "\<lambda>mount. bindC (tryC (rs_Get (op_Storages A) ns (mnt_Name mount))) (\<lambda>r.
      case r of Inl e \<Rightarrow> if IsNotFound e
          then failC (NotFoundError (''gpu storage %s/%s not found'', [FS ns, FS (mnt_Name mount)])) else failC e
      | Inr _ \<Rightarrow> returnC ())"
  have k: "keeps state (?f mount)" for mount by (auto intro!: keeps_bindC keeps_tryC keeps_sum keeps_if)
  obtain v v' where "?f m v = (Inr (), v')" "state v = state w"
    using forC_Inr [OF assms(1) [unfolded ensureGPUStoragesExist_def] k assms(2)] by blast
  then obtain s where s: "rs_Get (op_Storages A) ns (mnt_Name m) v = (Inr s, v')" "ss v = ss w"
    unfolding handle_Inr_iff by (auto split: if_splits)
  from storages.get_ok [OF s(1)] have "s \<in> set (ss w)" "(ns, mnt_Name m) = obj_key stor_Meta s"
    using s(2) by simp_all
  then show ?thesis by (rule image_eqI [rotated])
qed

lemma ensureGPUStoragesExclusivelyMountable_ok:
  assumes "ensureGPUStoragesExclusivelyMountable A ns n ms w = (Inr (), w')" "m \<in> set ms" "ns \<noteq> []"
    and "u \<in> set (us w)" "unit_ns u = ns" "mounts_storage (mnt_Name m) u"
  shows "unit_name u = n"
proof -
  let ?f = "\<lambda>mount. bindC (mountedGPUUnitsForStorage A ns (mnt_Name mount)) (\<lambda>mountedBy.
      case find (\<lambda>mountedUnitName. mountedUnitName \<noteq> n) mountedBy of None \<Rightarrow> returnC ()
      | Some mountedUnitName \<Rightarrow> failC (ConflictError
          (''gpu storage %s/%s is already mounted by gpu unit %s; the default RBD-backed storage path is exclusive per active runtime'',
           [FS ns, FS (mnt_Name mount), FS mountedUnitName])))"
  have k: "keeps state (?f mount)" for mount by (auto intro!: keeps_bindC keeps_option)
  obtain v v' where v: "?f m v = (Inr (), v')" "state v = state w"
    using forC_Inr [OF assms(1) [unfolded ensureGPUStoragesExclusivelyMountable_def] k assms(2)] by blast
  then obtain names v'' where "mountedGPUUnitsForStorage A ns (mnt_Name m) v = (Inr names, v'')"
      "find (\<lambda>x. x \<noteq> n) names = None"
    by (auto simp: result_simps split: option.splits)
  with mountedGPUUnits_set [OF _ assms(3)] v(2) assms(4-6) show ?thesis by (auto simp: find_None_iff)
qed

lemma getActiveGPUUnit_ok:
  assumes "getActiveGPUUnit K A ns n w = (Inr u, w')"
  shows "u \<in> set (us w) \<and> unit_ns u = DefaultInstanceNamespace \<and> unit_name u = ToLower (TrimSpace n)"
proof -
  obtain v where g: "rs_Get (op_Units A) DefaultInstanceNamespace (ToLower (TrimSpace n)) v = (Inr u, w')" "v = w"
    using assms unfolding getActiveGPUUnit_def bindC_Inr_iff [of "liftC r" for r] handle_Inr_iff
    by (auto simp: resolveRuntimeInstanceNamespace_def normalizeRuntimeResourceName_def Let_def split: if_splits)
  from units.get_ok [OF g(1)] g(2) show ?thesis by simp
qed

end
section \<open>What the operations do to the stored objects\<close>

text \<open>A unit that answers a request: the replay of an operation.\<close>

definition answers :: "CreateGPUUnitRequest \<Rightarrow> string \<Rightarrow> GPUUnit \<Rightarrow> bool" where
  "answers req h u = (annotation AnnotationOperationID u = cr_OperationID req \<and> annotation AnnotationRequestHash u = h)"

text \<open>The conditions under which a create request is carried out on the stored units and storages.\<close>

definition may_create :: "'q k8s \<Rightarrow> (CreateGPUUnitRequest \<Rightarrow> string res) \<Rightarrow> ('w, 'q) Service \<Rightarrow> CreateGPUUnitRequest
    \<Rightarrow> GPUUnit list \<times> GPUStorage list \<Rightarrow> CreateGPUUnitRequest \<Rightarrow> string \<Rightarrow> bool" where
  "may_create K hash S q st req h =
     (NormalizeCreateGPUUnitRequestWithCatalog K q (runtimePackageCatalog S) = Inr req \<and> hash req = Inr h
      \<and> (\<forall>m \<in> set (cr_StorageMounts req). (DefaultInstanceNamespace, mnt_Name m) \<in> obj_key stor_Meta ` set (snd st)
           \<and> \<not> (\<exists>u \<in> set (fst st). unit_ns u = DefaultInstanceNamespace \<and> mounts_storage (mnt_Name m) u))
      \<and> (\<forall>u \<in> set (fst st). annotation AnnotationOperationID u \<noteq> cr_OperationID req
           \<and> obj_key unit_Meta u \<noteq> (DefaultInstanceNamespace, cr_Name req)))"

lemma existing_operation_Some:
  "existing_operation oid ns n h items = Inr (Some u) \<Longrightarrow>
   u \<in> set items \<and> annotation AnnotationOperationID u = oid \<and> annotation AnnotationRequestHash u = h"
  by (auto simp: existing_operation_def find_Some_iff split: option.splits if_splits)

lemma existing_operation_None:
  "existing_operation oid ns n h items = Inr None \<Longrightarrow>
   \<forall>u \<in> set items. annotation AnnotationOperationID u \<noteq> oid \<and> obj_key unit_Meta u \<noteq> (ns, n)"
  by (auto simp: existing_operation_def find_None_iff split: option.splits if_splits)

text \<open>A service with a cluster behind it; reading quotas changes no object.\<close>

locale runtime_backend = api_server A us ss
  for A :: "'w OperatorClient" and us :: "'w \<Rightarrow> GPUUnit list" and ss :: "'w \<Rightarrow> GPUStorage list" +
  fixes S :: "('w, 'q) Service"
  assumes operator: "svc_operator S = Some A"
    and quotas_keep: "svc_kube S = Some kube \<Longrightarrow> keeps us (kube_ListQuotas kube ns) \<and> keeps ss (kube_ListQuotas kube ns)"
begin

lemma ensureDRAAllocationAvailable_keeps: "keeps state (ensureDRAAllocationAvailable K S req)"
  using quotas_keep
  by (auto simp: ensureDRAAllocationAvailable_def ensureResourceQuotaAllows_def keeps_pair split: option.splits
      intro!: keeps_bindC)

lemma createDRA_cases:
  assumes "createDRAAllocatedGPUUnit K S A req h w = (r, w')"
  shows "state w' = state w \<and> (\<forall>v b. r = Inr (v, b) \<longrightarrow> \<not> b \<and> (\<exists>u \<in> set (us w). answers req h u \<and> v = gpuUnitRuntimeFromObject K u))
    \<or> r = Inr (gpuUnitRuntimeFromObject K (buildActiveUnitFromRequest req h), True) \<and> ss w' = ss w
      \<and> obj_key unit_Meta (buildActiveUnitFromRequest req h) \<notin> obj_key unit_Meta ` set (us w)
      \<and> mset (us w') = add_mset (buildActiveUnitFromRequest req h) (mset (us w))"
proof -
  let ?u = "buildActiveUnitFromRequest req h"
  obtain a w1 where a: "ensureDRAAllocationAvailable K S req w = (a, w1)" by fastforce
  have s1: "state w1 = state w" by (rule keepsD [OF ensureDRAAllocationAvailable_keeps a])
  obtain c w2 where c: "rs_Create (op_Units A) ?u w1 = (c, w2)" by fastforce
  obtain g w3 where g: "rs_Get (op_Units A) DefaultInstanceNamespace (cr_Name req) w2 = (g, w3)" by fastforce
  have s3: "state w3 = state w2" by (rule keepsD [OF reads_keep(2) g])
  have o: "ss w2 = ss w1" by (rule keepsD [OF units.other_kept(3) c])
  show ?thesis
  proof (cases a)
    case (Inl e)
    with assms a s1 show ?thesis by (auto simp: createDRAAllocatedGPUUnit_def)
  next
    case (Inr x)
    show ?thesis
    proof (cases c)
      case (Inr y)
      then have "c = Inr ()" by simp
      with assms a \<open>a = Inr x\<close> c have "r = Inr (gpuUnitRuntimeFromObject K ?u, True)" "w' = w2"
        by (simp_all add: createDRAAllocatedGPUUnit_def Let_def bindC_def tryC_def)
      with units.create_ok [OF c [unfolded \<open>c = Inr ()\<close>]] s1 o show ?thesis by simp
    next
      case (Inl e)
      with c units.write_err [of ?u w1 e w2] o s1 have s2: "state w2 = state w" by simp
      from assms a \<open>a = Inr x\<close> c Inl g
      have "(r = Inl e \<and> (w' = w2 \<or> w' = w3)) \<or> (\<exists>u. g = Inr u \<and> answers req h u \<and> r = Inr (gpuUnitRuntimeFromObject K u, False) \<and> w' = w3)"
        by (auto simp: createDRAAllocatedGPUUnit_def Let_def bindC_def tryC_def answers_def split: sum.splits if_splits)
      with s2 s3 g units.get_ok [of DefaultInstanceNamespace "cr_Name req" w2 _ w3] show ?thesis by auto
    qed
  qed
qed

lemma findExisting_Some:
  assumes "findExistingGPUUnitOperation K A oid ns n h w = (Inr (Some v), w')"
  shows "\<exists>u \<in> set (us w). annotation AnnotationOperationID u = oid \<and> annotation AnnotationRequestHash u = h
    \<and> v = gpuUnitRuntimeFromObject K u"
proof -
  obtain items u where i: "rs_List (op_Units A) None w = (Inr items, w')"
      "existing_operation oid ns n h items = Inr (Some u)" "v = gpuUnitRuntimeFromObject K u"
    using assms by (auto simp: findExistingGPUUnitOperation_def result_simps)
  from units.list_set [OF i(1)] existing_operation_Some [OF i(2)] i(3) show ?thesis by auto
qed

lemma findExisting_None:
  assumes "findExistingGPUUnitOperation K A oid ns n h w = (Inr None, w')"
  shows "\<forall>u \<in> set (us w). annotation AnnotationOperationID u \<noteq> oid \<and> obj_key unit_Meta u \<noteq> (ns, n)"
proof -
  obtain items where i: "rs_List (op_Units A) None w = (Inr items, w')"
      "existing_operation oid ns n h items = Inr None"
    using assms by (auto simp: findExistingGPUUnitOperation_def result_simps)
  from units.list_set [OF i(1)] existing_operation_None [OF i(2)] show ?thesis by auto
qed

lemma CreateGPUUnit_cases:
  assumes "CreateGPUUnit K hash S q w = (r, w')"
  shows "state w' = state w \<and> (\<forall>v b. r = Inr (v, b) \<longrightarrow> \<not> b \<and> (\<exists>req h. \<exists>u \<in> set (us w).
        NormalizeCreateGPUUnitRequestWithCatalog K q (runtimePackageCatalog S) = Inr req \<and> hash req = Inr h
        \<and> answers req h u \<and> v = gpuUnitRuntimeFromObject K u))
    \<or> (\<exists>req h. may_create K hash S q (state w) req h
        \<and> r = Inr (gpuUnitRuntimeFromObject K (buildActiveUnitFromRequest req h), True) \<and> ss w' = ss w
        \<and> mset (us w') = add_mset (buildActiveUnitFromRequest req h) (mset (us w)))"
proof (cases "\<exists>req h. NormalizeCreateGPUUnitRequestWithCatalog K q (runtimePackageCatalog S) = Inr req \<and> hash req = Inr h")
  case False
  then have "w' = w \<and> (\<exists>e. r = Inl e)"
    using assms operator
    by (cases "NormalizeCreateGPUUnitRequestWithCatalog K q (runtimePackageCatalog S)"; cases "hash (projr (NormalizeCreateGPUUnitRequestWithCatalog K q (runtimePackageCatalog S)))")
      (auto simp: CreateGPUUnit_def bindC_def)
  then show ?thesis by auto
next
  case True
  then obtain req h where n: "NormalizeCreateGPUUnitRequestWithCatalog K q (runtimePackageCatalog S) = Inr req" "hash req = Inr h"
    by blast
  let ?ns = DefaultInstanceNamespace and ?ms = "cr_StorageMounts req"
  have ns: "?ns \<noteq> []" by (simp add: DefaultInstanceNamespace_def)
  obtain e1 w1 where e: "ensureGPUStoragesExist A ?ns ?ms w = (e1, w1)" by fastforce
  obtain f w2 where f: "findExistingGPUUnitOperation K A (cr_OperationID req) ?ns (cr_Name req) h w1 = (f, w2)" by fastforce
  obtain x w3 where x: "ensureGPUStoragesExclusivelyMountable A ?ns [] ?ms w2 = (x, w3)" by fastforce
  have s1: "state w1 = state w" by (rule keepsD [OF checks_keep(3) e])
  have s2: "state w2 = state w" using keepsD [OF checks_keep(5) f] s1 by simp
  have s3: "state w3 = state w" using keepsD [OF checks_keep(4) x] s2 by simp
  show ?thesis
  proof (cases e1)
    case (Inl err)
    with assms n e operator s1 show ?thesis by (auto simp: CreateGPUUnit_def bindC_def)
  next
    case e1: (Inr y)
    show ?thesis
    proof (cases f)
      case (Inl err)
      with assms n e e1 f operator s2 show ?thesis by (auto simp: CreateGPUUnit_def bindC_def)
    next
      case ff: (Inr found)
      show ?thesis
      proof (cases found)
        case (Some v)
        with assms n e e1 f ff operator have "r = Inr (v, False)" "w' = w2" by (auto simp: CreateGPUUnit_def bindC_def)
        with findExisting_Some [OF f [unfolded ff Some]] s1 s2 n show ?thesis by (auto simp: answers_def)
      next
        case None
        show ?thesis
        proof (cases x)
          case (Inl err)
          with assms n e e1 f ff None x operator s3 show ?thesis by (auto simp: CreateGPUUnit_def bindC_def)
        next
          case xx: (Inr z)
          with assms n e e1 f ff None x operator have c: "createDRAAllocatedGPUUnit K S A req h w3 = (r, w')"
            by (auto simp: CreateGPUUnit_def bindC_def)
          have e2: "ensureGPUStoragesExist A ?ns ?ms w = (Inr (), w1)"
            and x2: "ensureGPUStoragesExclusivelyMountable A ?ns [] ?ms w2 = (Inr (), w3)"
            using e e1 x xx by simp_all
          have ne: "unit_name u \<noteq> []" if "u \<in> set (us w)" for u using units.name_canonical [OF that] by simp
          have "may_create K hash S q (state w) req h"
            unfolding may_create_def
            using n ensureGPUStoragesExist_ok [OF e2] findExisting_None [OF f [unfolded ff None]] s1 s2
              ensureGPUStoragesExclusivelyMountable_ok [OF x2 _ ns] ne by auto
          with createDRA_cases [OF c] s3 n show ?thesis by auto
        qed
      qed
    qed
  qed
qed

end
section \<open>Updates and deletions\<close>

lemma update_spec_mounts:
  "update_spec req spec = Inr next \<Longrightarrow> spec_StorageMounts next = spec_StorageMounts spec"
  by (auto simp: update_spec_def Let_def result_simps split: option.splits if_splits)

text \<open>A unit whose new mounts all exist and are mounted by no other unit.\<close>

definition mounts_free :: "GPUUnit list \<times> GPUStorage list \<Rightarrow> GPUUnit \<Rightarrow> bool" where
  "mounts_free st u = (\<forall>m \<in> set (spec_StorageMounts (unit_Spec u)).
     (DefaultInstanceNamespace, mnt_Name m) \<in> obj_key stor_Meta ` set (snd st)
     \<and> (\<forall>v \<in> set (fst st). unit_ns v = DefaultInstanceNamespace \<and> mounts_storage (mnt_Name m) v
          \<longrightarrow> unit_name v = unit_name u))"

abbreviation replace_unit :: "GPUUnit \<Rightarrow> GPUUnit \<Rightarrow> GPUUnit" where
  "replace_unit u old \<equiv> (if obj_key unit_Meta old = obj_key unit_Meta u then u else old)"

context runtime_backend
begin

lemma update_mounts_keeps: "keeps state (update_mounts A inst req next)"
  by (auto simp: update_mounts_def intro!: keeps_option keeps_bindC)

lemma update_mounts_ok:
  assumes "update_mounts A inst req next w = (Inr spec, w')" "unit_ns inst = DefaultInstanceNamespace"
  shows "spec_StorageMounts spec = spec_StorageMounts next \<or> mounts_free (state w) (inst\<lparr>unit_Spec := spec\<rparr>)"
proof (cases "ur_StorageMounts req")
  case None
  with assms show ?thesis by (simp add: update_mounts_def)
next
  case (Some ms)
  let ?ns = DefaultInstanceNamespace
  obtain w1 where w1: "ensureGPUStoragesExist A ?ns ms w = (Inr (), w1)"
      "ensureGPUStoragesExclusivelyMountable A ?ns (unit_name inst) ms w1 = (Inr (), w')"
      "spec = next\<lparr>spec_StorageMounts := [] @ ms\<rparr>"
    using assms Some by (auto simp: update_mounts_def result_simps)
  have "state w1 = state w" by (rule keepsD [OF checks_keep(3) w1(1)])
  moreover have "?ns \<noteq> []" by (simp add: DefaultInstanceNamespace_def)
  ultimately have "mounts_free (state w) (inst\<lparr>unit_Spec := spec\<rparr>)"
    using ensureGPUStoragesExist_ok [OF w1(1)] ensureGPUStoragesExclusivelyMountable_ok [OF w1(2)] w1(3)
    by (simp add: mounts_free_def)
  then show ?thesis ..
qed

lemma UpdateGPUUnit_cases:
  assumes "UpdateGPUUnit K S ns n req0 w = (r, w')"
  shows "state w' = state w \<or> (\<exists>inst u. inst \<in> set (us w) \<and> unit_Meta u = unit_Meta inst
      \<and> unit_ns u = DefaultInstanceNamespace \<and> ss w' = ss w \<and> mset (us w') = mset (map (replace_unit u) (us w))
      \<and> (spec_StorageMounts (unit_Spec u) = spec_StorageMounts (unit_Spec inst) \<or> mounts_free (state w) u))"
proof -
  obtain g w1 where g: "getActiveGPUUnit K A ns n w = (g, w1)" by fastforce
  have s1: "state w1 = state w" by (rule keepsD [OF checks_keep(6) g])
  show ?thesis
  proof (cases g)
    case (Inl e)
    with assms g s1 operator show ?thesis by (simp add: UpdateGPUUnit_def)
  next
    case (Inr inst)
    have i: "inst \<in> set (us w)" "unit_ns inst = DefaultInstanceNamespace"
      using getActiveGPUUnit_ok [OF g [unfolded Inr]] by simp_all
    let ?norm = "NormalizeUpdateGPUUnitRequest K (unit_name inst) (unit_ns inst) req0"
    show ?thesis
    proof (cases "\<exists>req next. ?norm = Inr req \<and> update_spec req (unit_Spec inst) = Inr next")
      case False
      then have "w' = w1"
        using assms g Inr operator
        by (cases ?norm; cases "update_spec (projr ?norm) (unit_Spec inst)") (auto simp: UpdateGPUUnit_def bindC_def)
      with s1 show ?thesis by simp
    next
      case True
      then obtain req "next" where n: "?norm = Inr req" "update_spec req (unit_Spec inst) = Inr next" by blast
      obtain m w2 where m: "update_mounts A inst req next w1 = (m, w2)" by fastforce
      have s2: "state w2 = state w" using keepsD [OF update_mounts_keeps m] s1 by simp
      show ?thesis
      proof (cases m)
        case (Inl e)
        with assms g \<open>g = Inr inst\<close> n m s2 operator show ?thesis by (auto simp: UpdateGPUUnit_def bindC_def)
      next
        case mm: (Inr spec)
        let ?u = "inst\<lparr>unit_Spec := spec\<rparr>"
        obtain c w3 where c: "rs_Update (op_Units A) ?u w2 = (c, w3)" by fastforce
        have w': "w' = w2 \<or> w' = w3"
          using assms g \<open>g = Inr inst\<close> n m mm c operator
          by (cases c) (auto simp: UpdateGPUUnit_def bindC_def split: if_splits)
        show ?thesis
        proof (cases c)
          case (Inl e)
          with c units.write_err [of ?u w2 e w3] keepsD [OF units.other_kept(4) c] s2 w' show ?thesis by auto
        next
          case (Inr x)
          have o: "ss w3 = ss w" using keepsD [OF units.other_kept(4) c] s2 by simp
          have "mset (us w3) = mset (map (replace_unit ?u) (us w))"
            using units.update_ok [of ?u w2 w3] c Inr s2 by simp
          moreover have "spec_StorageMounts spec = spec_StorageMounts (unit_Spec inst) \<or> mounts_free (state w) ?u"
            using update_mounts_ok [OF m [unfolded mm] i(2)] update_spec_mounts [OF n(2)] s1 by simp
          ultimately have e: "inst \<in> set (us w) \<and> unit_Meta ?u = unit_Meta inst \<and> unit_ns ?u = DefaultInstanceNamespace
              \<and> ss w3 = ss w \<and> mset (us w3) = mset (map (replace_unit ?u) (us w))
              \<and> (spec_StorageMounts (unit_Spec ?u) = spec_StorageMounts (unit_Spec inst) \<or> mounts_free (state w) ?u)"
            using i o by simp
          from w' show ?thesis
          proof
            assume "w' = w2"
            with s2 show ?thesis by simp
          next
            assume "w' = w3"
            with e show ?thesis by blast
          qed
        qed
      qed
    qed
  qed
qed

lemma DeleteGPUUnit_cases:
  assumes "DeleteGPUUnit K S ns n w = (r, w')"
  shows "ss w' = ss w \<and> (case r of Inl _ \<Rightarrow> us w' = us w
    | Inr _ \<Rightarrow> mset (us w') = mset (filter (\<lambda>u. obj_key unit_Meta u \<noteq> (DefaultInstanceNamespace, ToLower (TrimSpace n))) (us w)))"
proof -
  obtain g w1 where g: "getActiveGPUUnit K A ns n w = (g, w1)" by fastforce
  have s1: "state w1 = state w" by (rule keepsD [OF checks_keep(6) g])
  show ?thesis
  proof (cases g)
    case (Inl e)
    with assms g s1 operator show ?thesis by (auto simp: DeleteGPUUnit_def)
  next
    case (Inr inst)
    from getActiveGPUUnit_ok [OF g [unfolded Inr]]
    have k: "obj_key unit_Meta inst = (DefaultInstanceNamespace, ToLower (TrimSpace n))" by simp
    from assms g Inr operator have d: "rs_Delete (op_Units A) inst w1 = (r, w')" by (simp add: DeleteGPUUnit_def)
    have o: "ss w' = ss w" using keepsD [OF units.other_kept(5) d] s1 by simp
    show ?thesis
    proof (cases r)
      case (Inl e)
      with d units.write_err [of inst w1 e w'] s1 o show ?thesis by simp
    next
      case (Inr x)
      with d units.delete_ok [of inst w1 w'] s1 o k show ?thesis by simp
    qed
  qed
qed

lemma ListGPUUnits_ok:
  assumes "ListGPUUnits K S [] w = (r, w')"
  shows "state w' = state w \<and> (\<forall>l. r = Inr l \<longrightarrow>
    mset l = mset (map (gpuUnitRuntimeFromObject K) (filter (\<lambda>u. unit_ns u = DefaultInstanceNamespace) (us w))))"
proof -
  obtain l v where l: "rs_List (op_Units A) (Some DefaultInstanceNamespace) w = (l, v)" by fastforce
  have s: "state v = state w" by (rule keepsD [OF reads_keep(1) l])
  have ns: "resolveRuntimeInstanceNamespace [] = Inr DefaultInstanceNamespace"
    by (simp add: resolveRuntimeInstanceNamespace_def)
  have "w' = v" "r = map_sum (\<lambda>e. e) (map (gpuUnitRuntimeFromObject K)) l"
    using assms l ns operator by (cases l; simp add: ListGPUUnits_def bindC_def)+
  moreover have "mset k = mset (filter (\<lambda>u. unit_ns u = DefaultInstanceNamespace) (us w))" if "l = Inr k" for k
    using units.list_ok [OF l [unfolded that]] by simp
  ultimately show ?thesis using s by (cases l) auto
qed

end

end
