(* ===== verification/Service_Storage.thy ===== *)
theory Service_Storage
  imports Service_Units
begin

text \<open>
  The operations of the runtime service on persistent storages: \<^verbatim>\<open>pkg/service/storage.go\<close> and the
  normalizers of \<^verbatim>\<open>storage_contract.go\<close>. The formatted time that \<^verbatim>\<open>RecoverGPUStorage\<close> writes into an
  annotation is the argument \<open>nonce\<close>.
\<close>

section \<open>Requests\<close>

record CreateGPUStorageRequest =
  csr_Name :: string
  csr_Size :: string
  csr_StorageClassName :: string
  csr_Prepare :: GPUStoragePrepareSpec
  csr_Accessor :: GPUStorageAccessorSpec

record UpdateGPUStorageRequest =
  usr_Size :: string
  usr_Accessor :: "GPUStorageAccessorSpec option"

definition normalizeGPUStorageName :: "'q k8s \<Rightarrow> string \<Rightarrow> string res" where
  "normalizeGPUStorageName K name0 =
     (let name = ToLower (TrimSpace name0)
      in if name = [] then Inl (ValidationError (msg ''name is required''))
         else if IsDNS1123Subdomain K name \<noteq> []
           then Inl (ValidationError (''name %q is invalid: %s'', [FS name, FS (join '', '' (IsDNS1123Subdomain K name))]))
         else Inr name)"

definition normalizeGPUStorageSize :: "'q k8s \<Rightarrow> string \<Rightarrow> (string \<times> 'q) res" where
  "normalizeGPUStorageSize K size0 =
     (let size = TrimSpace size0
      in if size = [] then Inl (ValidationError (msg ''size is required''))
         else case ParseQuantity K size of
                Inl _ \<Rightarrow> Inl (ValidationError (''size %q is invalid: %v'', [FS size]))
              | Inr qty \<Rightarrow> Inr (qty_String K qty, qty))"

definition normalizeGPUStorageClassName :: "'q k8s \<Rightarrow> string \<Rightarrow> string res" where
  "normalizeGPUStorageClassName K name0 =
     (let name = or_default (TrimSpace name0) DefaultGPUStorageClassName
      in if IsDNS1123Subdomain K name \<noteq> []
         then Inl (ValidationError (''storageClassName %q is invalid: %s'', [FS name, FS (join '', '' (IsDNS1123Subdomain K name))]))
         else Inr name)"

text \<open>The two loops over the command and its arguments.\<close>

definition trim_parts :: "string list \<Rightarrow> string list" where
  "trim_parts parts = filter (\<lambda>p. p \<noteq> []) (map TrimSpace parts)"

definition normalizeGPUStoragePrepare :: "'q k8s \<Rightarrow> GPUStoragePrepareSpec \<Rightarrow> GPUStoragePrepareSpec res" where
  "normalizeGPUStoragePrepare K prepare0 =
     (let prepare = \<lparr>prep_FromImage = TrimSpace (prep_FromImage prepare0),
            prep_FromStorageName = ToLower (TrimSpace (prep_FromStorageName prepare0)),
            prep_Command = trim_parts (prep_Command prepare0), prep_Args = trim_parts (prep_Args prepare0)\<rparr>;
          parts = prep_Command prepare \<noteq> [] \<or> prep_Args prepare \<noteq> []
      in if prep_FromImage prepare \<noteq> [] \<and> prep_FromStorageName prepare \<noteq> []
         then Inl (ValidationError (msg ''prepare.fromImage and prepare.fromStorageName are mutually exclusive''))
         else andThen
           (if prep_FromStorageName prepare = [] then Inr ()
            else if IsDNS1123Subdomain K (prep_FromStorageName prepare) \<noteq> []
              then Inl (ValidationError (''prepare.fromStorageName %q is invalid: %s'', [FS (prep_FromStorageName prepare),
                     FS (join '', '' (IsDNS1123Subdomain K (prep_FromStorageName prepare)))]))
            else if parts
              then Inl (ValidationError (msg ''prepare.command and prepare.args are not supported when prepare.fromStorageName is set''))
            else Inr ()) (\<lambda>_.
           if prep_FromImage prepare = []
           then if parts then Inl (ValidationError (msg ''prepare.command and prepare.args require prepare.fromImage''))
                else Inr prepare
           else if \<not> parts
             then Inl (ValidationError (msg ''prepare.command or prepare.args is required when prepare.fromImage is set''))
           else Inr prepare))"

definition isZeroGPUStoragePrepare :: "GPUStoragePrepareSpec \<Rightarrow> bool" where
  "isZeroGPUStoragePrepare prepare =
     (prep_FromImage prepare = [] \<and> prep_FromStorageName prepare = [] \<and> prep_Command prepare = [] \<and> prep_Args prepare = [])"

definition normalizeGPUStorageAccessor :: "GPUStorageAccessorSpec \<Rightarrow> GPUStorageAccessorSpec" where
  "normalizeGPUStorageAccessor accessor = accessor"

definition normalizeCreateGPUStorageRequest :: "'q k8s \<Rightarrow> CreateGPUStorageRequest \<Rightarrow> CreateGPUStorageRequest res" where
  "normalizeCreateGPUStorageRequest K req =
     andThen (normalizeGPUStorageName K (csr_Name req)) (\<lambda>name.
     andThen (normalizeGPUStorageSize K (csr_Size req)) (\<lambda>(size, _).
     andThen (normalizeGPUStorageClassName K (csr_StorageClassName req)) (\<lambda>className.
     andThen (normalizeGPUStoragePrepare K (csr_Prepare req)) (\<lambda>prepare.
       Inr \<lparr>csr_Name = name, csr_Size = size, csr_StorageClassName = className, csr_Prepare = prepare,
         csr_Accessor = normalizeGPUStorageAccessor (csr_Accessor req)\<rparr>))))"

definition normalizeUpdateGPUStorageRequest ::
    "'q k8s \<Rightarrow> UpdateGPUStorageRequest \<Rightarrow> (UpdateGPUStorageRequest \<times> 'q) res" where
  "normalizeUpdateGPUStorageRequest K req =
     andThen (normalizeGPUStorageSize K (usr_Size req)) (\<lambda>(size, qty).
       Inr (req\<lparr>usr_Size := size, usr_Accessor := map_option normalizeGPUStorageAccessor (usr_Accessor req)\<rparr>, qty))"

section \<open>Views\<close>

definition effectiveGPUStorageClassName :: "string \<Rightarrow> string" where
  "effectiveGPUStorageClassName raw = (if raw = [] then DefaultGPUStorageClassName else raw)"

definition gpuStorageRuntimeFromObject :: "'q k8s \<Rightarrow> GPUStorage \<Rightarrow> string list \<Rightarrow> GPUStorageRuntime" where
  "gpuStorageRuntimeFromObject K s mountedBy =
     (let cond = FindStatusCondition K (sst_Conditions (stor_Status s)) ConditionReady;
          reason = (case cond of None \<Rightarrow> [] | Some c \<Rightarrow> cond_Reason c);
          message = (case cond of None \<Rightarrow> [] | Some c \<Rightarrow> cond_Message c)
      in \<lparr>srt_Name = meta_Name (stor_Meta s), srt_Namespace = meta_Namespace (stor_Meta s),
          srt_Size = sspec_Size (stor_Spec s),
          srt_StorageClassName = effectiveGPUStorageClassName (sspec_StorageClassName (stor_Spec s)),
          srt_Prepare = sspec_Prepare (stor_Spec s), srt_Accessor = sspec_Accessor (stor_Spec s),
          srt_ClaimName = sst_ClaimName (stor_Status s), srt_Capacity = sst_Capacity (stor_Status s),
          srt_MountedBy = sort ([] @ mountedBy), srt_Phase = sst_Phase (stor_Status s),
          srt_PrepareStatus = sst_Prepare (stor_Status s), srt_AccessorStatus = sst_Accessor (stor_Status s),
          srt_ObservedGeneration = sst_ObservedGeneration (stor_Status s),
          srt_LastSyncTime = sst_LastSyncTime (stor_Status s), srt_Reason = reason, srt_Message = message\<rparr>)"

definition storageRuntimeFromObject ::
    "'q k8s \<Rightarrow> 'w OperatorClient \<Rightarrow> GPUStorage \<Rightarrow> string list smap option \<Rightarrow> ('w, GPUStorageRuntime) call" where
  "storageRuntimeFromObject K A s mountedBy0 =
     bindC (case mountedBy0 of
              None \<Rightarrow> storageMountIndex A (meta_Namespace (stor_Meta s))
            | Some index \<Rightarrow> returnC index) (\<lambda>mountedBy.
       returnC (gpuStorageRuntimeFromObject K s
         (index_lookup mountedBy (storageIndexKey (meta_Namespace (stor_Meta s)) (meta_Name (stor_Meta s))))))"

section \<open>Operations\<close>

definition getGPUStorageObject :: "'q k8s \<Rightarrow> 'w OperatorClient \<Rightarrow> string \<Rightarrow> string \<Rightarrow> ('w, GPUStorage) call" where
  "getGPUStorageObject K A namespace name =
     bindC (liftC (resolveRuntimeInstanceNamespace namespace)) (\<lambda>ns.
     bindC (liftC (normalizeRuntimeResourceName K name)) (\<lambda>trimmedName.
     bindC (tryC (rs_Get (op_Storages A) ns trimmedName)) (\<lambda>r.
       case r of
         Inl e \<Rightarrow> if IsNotFound e then failC (NotFoundError (''gpu storage %s/%s not found'', [FS ns, FS trimmedName]))
                   else failC e
       | Inr s \<Rightarrow> returnC s)))"

definition ensureGPUStoragePrepareSourcesExist ::
    "'w OperatorClient \<Rightarrow> string \<Rightarrow> string \<Rightarrow> GPUStoragePrepareSpec \<Rightarrow> ('w, unit) call" where
  "ensureGPUStoragePrepareSourcesExist A namespace storageName prepare =
     (if prep_FromStorageName prepare = [] then returnC ()
      else if prep_FromStorageName prepare = storageName
        then failC (ValidationError (msg ''prepare.fromStorageName cannot point to the same storage object''))
      else bindC (tryC (rs_Get (op_Storages A) namespace (prep_FromStorageName prepare))) (\<lambda>r.
        case r of
          Inl e \<Rightarrow> if IsNotFound e
                    then failC (NotFoundError (''gpu storage %s/%s not found'', [FS namespace, FS (prep_FromStorageName prepare)]))
                    else failC e
        | Inr _ \<Rightarrow> returnC ()))"

definition build_storage :: "CreateGPUStorageRequest \<Rightarrow> GPUStorage" where
  "build_storage req =
     \<lparr>stor_Meta = \<lparr>meta_Name = csr_Name req, meta_Namespace = DefaultInstanceNamespace,
        meta_Labels = [(LabelAppNameKey, LabelAppNameValue), (LabelManagedByKey, LabelManagedByValue),
          (LabelStorageKey, csr_Name req)], meta_Annotations = []\<rparr>,
      stor_Spec = \<lparr>sspec_Size = csr_Size req, sspec_StorageClassName = csr_StorageClassName req,
        sspec_Prepare = csr_Prepare req, sspec_Accessor = csr_Accessor req\<rparr>,
      stor_Status = zero_storage_status\<rparr>"

abbreviation storage_exists :: "string \<Rightarrow> error" where
  "storage_exists name \<equiv> ConflictError (''gpu storage %s/%s already exists'', [FS DefaultInstanceNamespace, FS name])"

definition CreateGPUStorage ::
    "'q k8s \<Rightarrow> ('w, 'q) Service \<Rightarrow> CreateGPUStorageRequest \<Rightarrow> ('w, GPUStorageRuntime) call" where
  "CreateGPUStorage K S req0 =
     (case svc_operator S of
        None \<Rightarrow> failC no_operator
      | Some A \<Rightarrow>
          bindC (liftC (normalizeCreateGPUStorageRequest K req0)) (\<lambda>req.
          bindC (ensureGPUStoragePrepareSourcesExist A DefaultInstanceNamespace (csr_Name req) (csr_Prepare req)) (\<lambda>_.
          bindC (tryC (rs_Get (op_Storages A) DefaultInstanceNamespace (csr_Name req))) (\<lambda>r.
          case r of
            Inr _ \<Rightarrow> failC (storage_exists (csr_Name req))
          | Inl e \<Rightarrow>
              if \<not> IsNotFound e then failC e
              else
                let storage = build_storage req
                in bindC (tryC (rs_Create (op_Storages A) storage)) (\<lambda>c.
                     case c of
                       Inl e \<Rightarrow> if IsAlreadyExists e then failC (storage_exists (csr_Name req)) else failC e
                     | Inr _ \<Rightarrow> storageRuntimeFromObject K A storage None)))))"

definition ListGPUStorages :: "'q k8s \<Rightarrow> ('w, 'q) Service \<Rightarrow> string \<Rightarrow> ('w, GPUStorageRuntime list) call" where
  "ListGPUStorages K S namespace =
     (case svc_operator S of
        None \<Rightarrow> failC no_operator
      | Some A \<Rightarrow>
          bindC (liftC (resolveRuntimeInstanceNamespace namespace)) (\<lambda>ns.
          bindC (rs_List (op_Storages A) (Some ns)) (\<lambda>items.
          bindC (storageMountIndex A ns) (\<lambda>mountedBy.
            returnC (map (\<lambda>s. gpuStorageRuntimeFromObject K s
              (index_lookup mountedBy (storageIndexKey (meta_Namespace (stor_Meta s)) (meta_Name (stor_Meta s))))) items)))))"

text \<open>The answer of most operations: the storage with the units that mount it now.\<close>

definition storage_answer :: "'q k8s \<Rightarrow> 'w OperatorClient \<Rightarrow> GPUStorage \<Rightarrow> ('w, GPUStorageRuntime) call" where
  "storage_answer K A s =
     bindC (storageMountIndex A (meta_Namespace (stor_Meta s))) (\<lambda>mountedBy.
       storageRuntimeFromObject K A s (Some mountedBy))"

definition GetGPUStorage :: "'q k8s \<Rightarrow> ('w, 'q) Service \<Rightarrow> string \<Rightarrow> string \<Rightarrow> ('w, GPUStorageRuntime) call" where
  "GetGPUStorage K S namespace name =
     (case svc_operator S of
        None \<Rightarrow> failC no_operator
      | Some A \<Rightarrow> bindC (getGPUStorageObject K A namespace name) (storage_answer K A))"

definition applyGPUStorageAccessorSpec :: "GPUStorage \<Rightarrow> GPUStorageAccessorSpec option \<Rightarrow> GPUStorage \<times> bool" where
  "applyGPUStorageAccessorSpec s accessor =
     (case accessor of
        None \<Rightarrow> (s, False)
      | Some a \<Rightarrow> if sspec_Accessor (stor_Spec s) = a then (s, False)
                   else (s\<lparr>stor_Spec := (stor_Spec s)\<lparr>sspec_Accessor := a\<rparr>\<rparr>, True))"

definition UpdateGPUStorage ::
    "'q k8s \<Rightarrow> ('w, 'q) Service \<Rightarrow> string \<Rightarrow> string \<Rightarrow> UpdateGPUStorageRequest \<Rightarrow> ('w, GPUStorageRuntime) call" where
  "UpdateGPUStorage K S namespace name req0 =
     (case svc_operator S of
        None \<Rightarrow> failC no_operator
      | Some A \<Rightarrow>
          bindC (liftC (normalizeUpdateGPUStorageRequest K req0)) (\<lambda>(req, nextQty).
          bindC (getGPUStorageObject K A namespace name) (\<lambda>s0.
          bindC (liftC (ParseQuantity K (sspec_Size (stor_Spec s0)))) (\<lambda>currentQty.
          let (s, accessorChanged) = applyGPUStorageAccessorSpec s0 (usr_Accessor req)
          in if qty_Cmp K nextQty currentQty < 0
             then failC (ValidationError (''size %q cannot be smaller than current size %q'',
                    [FS (usr_Size req), FS (sspec_Size (stor_Spec s))]))
             else if qty_Cmp K nextQty currentQty = 0
             then bindC (if accessorChanged then rs_Update (op_Storages A) s else returnC ()) (\<lambda>_. storage_answer K A s)
             else let s = s\<lparr>stor_Spec := (stor_Spec s)\<lparr>sspec_Size := qty_String K nextQty\<rparr>\<rparr>
                  in bindC (rs_Update (op_Storages A) s) (\<lambda>_. storage_answer K A s)))))"

definition RecoverGPUStorage ::
    "'q k8s \<Rightarrow> ('w, 'q) Service \<Rightarrow> string \<Rightarrow> string \<Rightarrow> string \<Rightarrow> ('w, GPUStorageRuntime) call" where
  "RecoverGPUStorage K S nonce namespace name =
     (case svc_operator S of
        None \<Rightarrow> failC no_operator
      | Some A \<Rightarrow>
          bindC (getGPUStorageObject K A namespace name) (\<lambda>s0.
          if isZeroGPUStoragePrepare (sspec_Prepare (stor_Spec s0))
          then failC (ValidationError (''gpu storage %s/%s has no prepare workflow to recover'',
                 [FS (meta_Namespace (stor_Meta s0)), FS (meta_Name (stor_Meta s0))]))
          else let s = s0\<lparr>stor_Meta := (stor_Meta s0)\<lparr>meta_Annotations :=
                     map_put AnnotationStorageRecoveryNonce nonce (meta_Annotations (stor_Meta s0))\<rparr>\<rparr>
               in bindC (rs_Update (op_Storages A) s) (\<lambda>_. storage_answer K A s)))"

definition DeleteGPUStorage :: "'q k8s \<Rightarrow> ('w, 'q) Service \<Rightarrow> string \<Rightarrow> string \<Rightarrow> ('w, unit) call" where
  "DeleteGPUStorage K S namespace name =
     (case svc_operator S of
        None \<Rightarrow> failC no_operator
      | Some A \<Rightarrow>
          bindC (getGPUStorageObject K A namespace name) (\<lambda>s.
          bindC (mountedGPUUnitsForStorage A (meta_Namespace (stor_Meta s)) (meta_Name (stor_Meta s))) (\<lambda>mountedBy.
          if mountedBy \<noteq> []
          then failC (ConflictError (''gpu storage %s/%s is still mounted by gpu units: %s'',
                 [FS (meta_Namespace (stor_Meta s)), FS (meta_Name (stor_Meta s)), FS (join '', '' mountedBy)]))
          else rs_Delete (op_Storages A) s)))"

section \<open>What the operations do to the stored objects\<close>

abbreviation stor_key :: "GPUStorage \<Rightarrow> string \<times> string" where
  "stor_key s \<equiv> obj_key stor_Meta s"

abbreviation replace_storage :: "GPUStorage \<Rightarrow> GPUStorage \<Rightarrow> GPUStorage" where
  "replace_storage s old \<equiv> (if stor_key old = stor_key s then s else old)"

lemma applyGPUStorageAccessorSpec_fields:
  assumes "applyGPUStorageAccessorSpec s a = (s', c)"
  shows "stor_Meta s' = stor_Meta s" "sspec_Size (stor_Spec s') = sspec_Size (stor_Spec s)"
    "sspec_Prepare (stor_Spec s') = sspec_Prepare (stor_Spec s)" "\<not> c \<Longrightarrow> s' = s"
  using assms by (auto simp: applyGPUStorageAccessorSpec_def split: option.splits if_splits)

context runtime_backend
begin

lemma storage_reads_keep [intro, simp]:
  "keeps state (getGPUStorageObject K A ns n)" "keeps state (ensureGPUStoragePrepareSourcesExist A ns n p)"
  "keeps state (storageRuntimeFromObject K A s idx)" "keeps state (storage_answer K A s)"
  by (auto simp: getGPUStorageObject_def ensureGPUStoragePrepareSourcesExist_def storageRuntimeFromObject_def
      storage_answer_def intro!: keeps_bindC keeps_tryC keeps_option keeps_sum keeps_if)

lemma getGPUStorageObject_ok:
  assumes "getGPUStorageObject K A ns n w = (Inr s, w')"
  shows "s \<in> set (ss w) \<and> stor_key s = (DefaultInstanceNamespace, ToLower (TrimSpace n))"
proof -
  obtain v where g: "rs_Get (op_Storages A) DefaultInstanceNamespace (ToLower (TrimSpace n)) v = (Inr s, w')" "v = w"
    using assms unfolding getGPUStorageObject_def bindC_Inr_iff [of "liftC r" for r] handle_Inr_iff
    by (auto simp: resolveRuntimeInstanceNamespace_def normalizeRuntimeResourceName_def Let_def split: if_splits)
  from storages.get_ok [OF g(1)] g(2) show ?thesis by simp
qed

text \<open>A write of one storage followed by the answer: either nothing was written or the storage was
  replaced; the units stay.\<close>

lemma storage_write_cases:
  assumes "bindC (rs_Update (op_Storages A) s) (\<lambda>_. storage_answer K A s) w = (r, w')"
  shows "us w' = us w \<and> (ss w' = ss w \<and> (\<exists>e. r = Inl e) \<or> mset (ss w') = mset (map (replace_storage s) (ss w)))"
proof -
  obtain c v where c: "rs_Update (op_Storages A) s w = (c, v)" by fastforce
  have u: "us v = us w" by (rule keepsD [OF storages.other_kept(4) c])
  show ?thesis
  proof (cases c)
    case (Inl e)
    with assms c u storages.write_err [of s w e v] show ?thesis by auto
  next
    case (Inr x)
    with assms c have "storage_answer K A s v = (r, w')" by simp
    then have "state w' = state v" by (rule keepsD [OF storage_reads_keep(4)])
    moreover have "mset (ss v) = mset (map (replace_storage s) (ss w))"
      using storages.update_ok [of s w v] c Inr by simp
    ultimately show ?thesis using u by simp
  qed
qed

lemma CreateGPUStorage_cases:
  assumes "CreateGPUStorage K S q w = (r, w')"
  shows "us w' = us w \<and> (ss w' = ss w \<and> (\<exists>e. r = Inl e) \<or> (\<exists>req. normalizeCreateGPUStorageRequest K q = Inr req
      \<and> stor_key (build_storage req) \<notin> stor_key ` set (ss w) \<and> mset (ss w') = add_mset (build_storage req) (mset (ss w))))"
proof (cases "normalizeCreateGPUStorageRequest K q")
  case (Inl e)
  with assms operator show ?thesis by (auto simp: CreateGPUStorage_def)
next
  case n: (Inr req)
  let ?s = "build_storage req"
  obtain p w1 where p: "ensureGPUStoragePrepareSourcesExist A DefaultInstanceNamespace (csr_Name req) (csr_Prepare req) w = (p, w1)"
    by fastforce
  have s1: "state w1 = state w" by (rule keepsD [OF storage_reads_keep(2) p])
  obtain g w2 where g: "rs_Get (op_Storages A) DefaultInstanceNamespace (csr_Name req) w1 = (g, w2)" by fastforce
  have s2: "state w2 = state w" using keepsD [OF reads_keep(4) g] s1 by simp
  obtain c w3 where c: "rs_Create (op_Storages A) ?s w2 = (c, w3)" by fastforce
  have u3: "us w3 = us w" using keepsD [OF storages.other_kept(3) c] s2 by simp
  show ?thesis
  proof (cases "(\<exists>e. p = Inl e) \<or> (\<exists>s. g = Inr s) \<or> (\<exists>e. g = Inl e \<and> \<not> IsNotFound e)")
    case True
    with assms n p g operator have "(w' = w1 \<or> w' = w2) \<and> (\<exists>e. r = Inl e)"
      by (auto simp: CreateGPUStorage_def bindC_def tryC_def split: sum.splits prod.splits if_splits)
    with s1 s2 show ?thesis by auto
  next
    case False
    then obtain x e where pg: "p = Inr x" "g = Inl e" "IsNotFound e" by (cases p; cases g) auto
    show ?thesis
    proof (cases c)
      case (Inl e')
      with assms n p g pg c operator have "w' = w3 \<and> (\<exists>e. r = Inl e)"
        by (auto simp: CreateGPUStorage_def bindC_def tryC_def Let_def split: if_splits)
      moreover have "ss w3 = ss w" using storages.write_err [of ?s w2 e' w3] c Inl s2 by simp
      ultimately show ?thesis using u3 by auto
    next
      case (Inr y)
      with assms n p g pg c operator have "storageRuntimeFromObject K A ?s None w3 = (r, w')"
        by (auto simp: CreateGPUStorage_def bindC_def tryC_def Let_def)
      then have "state w' = state w3" by (rule keepsD [OF storage_reads_keep(3)])
      with storages.create_ok [of ?s w2 w3] c Inr s2 u3 n show ?thesis by auto
    qed
  qed
qed

lemma UpdateGPUStorage_cases:
  assumes "UpdateGPUStorage K S ns n q w = (r, w')"
  shows "us w' = us w \<and> (ss w' = ss w \<or> (\<exists>s0 s. s0 \<in> set (ss w) \<and> stor_Meta s = stor_Meta s0
      \<and> sspec_Prepare (stor_Spec s) = sspec_Prepare (stor_Spec s0)
      \<and> mset (ss w') = mset (map (replace_storage s) (ss w))
      \<and> (sspec_Size (stor_Spec s) = sspec_Size (stor_Spec s0)
         \<or> (\<exists>old new. ParseQuantity K (sspec_Size (stor_Spec s0)) = Inr old \<and> sspec_Size (stor_Spec s) = qty_String K new
              \<and> 0 < qty_Cmp K new old))))"
proof (cases "normalizeUpdateGPUStorageRequest K q")
  case (Inl e)
  with assms operator show ?thesis by (auto simp: UpdateGPUStorage_def)
next
  case (Inr rq)
  obtain req new where n: "normalizeUpdateGPUStorageRequest K q = Inr (req, new)" using Inr by (cases rq) simp
  obtain g w1 where g: "getGPUStorageObject K A ns n w = (g, w1)" by fastforce
  have s1: "state w1 = state w" by (rule keepsD [OF storage_reads_keep(1) g])
  show ?thesis
  proof (cases "\<exists>s0 old. g = Inr s0 \<and> ParseQuantity K (sspec_Size (stor_Spec s0)) = Inr old \<and> \<not> qty_Cmp K new old < 0")
    case False
    with assms n g operator have "w' = w1"
      by (cases g; cases "ParseQuantity K (sspec_Size (stor_Spec (projr g)))")
        (auto simp: UpdateGPUStorage_def bindC_def Let_def split: prod.splits)
    with s1 show ?thesis by simp
  next
    case True
    then obtain s0 old where o: "g = Inr s0" "ParseQuantity K (sspec_Size (stor_Spec s0)) = Inr old" "\<not> qty_Cmp K new old < 0"
      by blast
    obtain s c where a: "applyGPUStorageAccessorSpec s0 (usr_Accessor req) = (s, c)" by fastforce
    let ?s = "s\<lparr>stor_Spec := (stor_Spec s)\<lparr>sspec_Size := qty_String K new\<rparr>\<rparr>"
    note f = applyGPUStorageAccessorSpec_fields [OF a]
    have m: "s0 \<in> set (ss w)" using getGPUStorageObject_ok [OF g [unfolded o(1)]] by simp
    consider (same) "qty_Cmp K new old = 0" "\<not> c" "storage_answer K A s w1 = (r, w')"
      | (accessor) "qty_Cmp K new old = 0" "bindC (rs_Update (op_Storages A) s) (\<lambda>_. storage_answer K A s) w1 = (r, w')"
      | (grow) "0 < qty_Cmp K new old" "bindC (rs_Update (op_Storages A) ?s) (\<lambda>_. storage_answer K A ?s) w1 = (r, w')"
      using assms n g o a operator
      by (cases "qty_Cmp K new old = 0"; cases c) (auto simp: UpdateGPUStorage_def bindC_def Let_def)
    then show ?thesis
    proof cases
      case same
      from keepsD [OF storage_reads_keep(4) same(3)] s1 show ?thesis by simp
    next
      case accessor
      from storage_write_cases [OF accessor(2)] s1 m f show ?thesis by auto
    next
      case grow
      from storage_write_cases [OF grow(2)] s1
      have "us w' = us w \<and> (ss w' = ss w \<or> mset (ss w') = mset (map (replace_storage ?s) (ss w)))" by auto
      moreover have "stor_Meta ?s = stor_Meta s0 \<and> sspec_Prepare (stor_Spec ?s) = sspec_Prepare (stor_Spec s0)
          \<and> sspec_Size (stor_Spec ?s) = qty_String K new" using f by simp
      ultimately show ?thesis using m o(2) grow(1) by blast
    qed
  qed
qed

lemma RecoverGPUStorage_cases:
  assumes "RecoverGPUStorage K S nonce ns n w = (r, w')"
  shows "us w' = us w \<and> (ss w' = ss w \<or> (\<exists>s0 s. s0 \<in> set (ss w) \<and> stor_key s = stor_key s0 \<and> stor_Spec s = stor_Spec s0
      \<and> mset (ss w') = mset (map (replace_storage s) (ss w))))"
proof -
  obtain g w1 where g: "getGPUStorageObject K A ns n w = (g, w1)" by fastforce
  have s1: "state w1 = state w" by (rule keepsD [OF storage_reads_keep(1) g])
  show ?thesis
  proof (cases "\<exists>s0. g = Inr s0 \<and> \<not> isZeroGPUStoragePrepare (sspec_Prepare (stor_Spec s0))")
    case False
    with assms g operator have "w' = w1" by (cases g) (auto simp: RecoverGPUStorage_def bindC_def)
    with s1 show ?thesis by simp
  next
    case True
    then obtain s0 where o: "g = Inr s0" "\<not> isZeroGPUStoragePrepare (sspec_Prepare (stor_Spec s0))" by blast
    let ?s = "s0\<lparr>stor_Meta := (stor_Meta s0)\<lparr>meta_Annotations :=
        map_put AnnotationStorageRecoveryNonce nonce (meta_Annotations (stor_Meta s0))\<rparr>\<rparr>"
    have m: "s0 \<in> set (ss w)" using getGPUStorageObject_ok [OF g [unfolded o(1)]] by simp
    have "bindC (rs_Update (op_Storages A) ?s) (\<lambda>_. storage_answer K A ?s) w1 = (r, w')"
      using assms g o operator by (simp add: RecoverGPUStorage_def Let_def)
    from storage_write_cases [OF this] s1
    have "us w' = us w \<and> (ss w' = ss w \<or> mset (ss w') = mset (map (replace_storage ?s) (ss w)))" by auto
    moreover have "stor_key ?s = stor_key s0 \<and> stor_Spec ?s = stor_Spec s0" by simp
    ultimately show ?thesis using m by blast
  qed
qed

lemma DeleteGPUStorage_cases:
  assumes "DeleteGPUStorage K S ns n w = (r, w')"
  shows "us w' = us w \<and> (case r of Inl _ \<Rightarrow> ss w' = ss w
    | Inr _ \<Rightarrow> \<not> (\<exists>u \<in> set (us w). unit_ns u = DefaultInstanceNamespace \<and> mounts_storage (ToLower (TrimSpace n)) u)
        \<and> mset (ss w') = mset (filter (\<lambda>s. stor_key s \<noteq> (DefaultInstanceNamespace, ToLower (TrimSpace n))) (ss w)))"
proof -
  obtain g w1 where g: "getGPUStorageObject K A ns n w = (g, w1)" by fastforce
  have s1: "state w1 = state w" by (rule keepsD [OF storage_reads_keep(1) g])
  show ?thesis
  proof (cases g)
    case (Inl e)
    with assms g s1 operator show ?thesis by (auto simp: DeleteGPUStorage_def)
  next
    case (Inr s)
    have k: "stor_key s = (DefaultInstanceNamespace, ToLower (TrimSpace n))"
      using getGPUStorageObject_ok [OF g [unfolded Inr]] by simp
    let ?ns = DefaultInstanceNamespace and ?n = "ToLower (TrimSpace n)"
    obtain m w2 where m: "mountedGPUUnitsForStorage A ?ns ?n w1 = (m, w2)" by fastforce
    have s2: "state w2 = state w" using keepsD [OF checks_keep(2) m] s1 by simp
    show ?thesis
    proof (cases "m = Inr []")
      case False
      with assms g Inr m k operator have "w' = w2 \<and> (\<exists>e. r = Inl e)"
        by (cases m) (auto simp: DeleteGPUStorage_def bindC_def)
      with s2 show ?thesis by auto
    next
      case True
      with assms g Inr m k operator have d: "rs_Delete (op_Storages A) s w2 = (r, w')"
        by (simp add: DeleteGPUStorage_def)
      have u: "us w' = us w" using keepsD [OF storages.other_kept(5) d] s2 by simp
      have "{} = unit_name ` {u \<in> set (us w1). unit_ns u = ?ns \<and> mounts_storage ?n u}"
        using mountedGPUUnits_set [OF m [unfolded True]] by (simp add: DefaultInstanceNamespace_def)
      then have none: "\<not> (\<exists>u \<in> set (us w). unit_ns u = ?ns \<and> mounts_storage ?n u)" using s1 by auto
      show ?thesis
      proof (cases r)
        case (Inl e)
        with d storages.write_err [of s w2 e w'] s2 u show ?thesis by simp
      next
        case (Inr x)
        with d storages.delete_ok [of s w2 w'] s2 u none k show ?thesis by simp
      qed
    qed
  qed
qed

end

end
