(* ===== verification/Activator_Names.thy ===== *)
theory Activator_Names
  imports Unit_Contract
begin

text \<open>
  The worker names of the activator (\<^verbatim>\<open>pkg/activator/service.go\<close> and \<^verbatim>\<open>lifecycle.go\<close>): the stem
  derived from a serverless request, the name derived from an invocation or from the time of a
  prewarm, the recognition of such names, and the create request built from a template unit. The
  lemmas show that every generated name is a DNS label and is recognised, and how long two prewarm
  names stay equal. The loop over the characters of a name meets one character per byte; a
  character outside ASCII would give one hyphen per byte here and one per character in Go.
\<close>

section \<open>Definitions\<close>

definition sanitizeWorkerNameToken :: "string \<Rightarrow> string" where
  "sanitizeWorkerNameToken v =
     TrimChar (map (\<lambda>c. if CHR ''a'' \<le> c \<and> c \<le> CHR ''z'' then c
                        else if CHR ''0'' \<le> c \<and> c \<le> CHR ''9'' then c else CHR ''-'')
                (ToLower (TrimSpace v))) CHR ''-''"

definition generatedWorkerStem :: "string \<Rightarrow> string" where
  "generatedWorkerStem requestID =
     (let base = or_default (sanitizeWorkerNameToken requestID) ''serverless'';
          pfx = ''unit-'' @ base
      in if length pfx > 47 then TrimRightChar (take 47 pfx) CHR ''-'' else pfx)"

definition generatedWorkerName :: "string \<Rightarrow> string \<Rightarrow> string" where
  "generatedWorkerName requestID invocationID =
     (let suffix = or_default (sanitizeWorkerNameToken
            (TrimPrefix (ToLower (TrimSpace invocationID)) ''inv-'')) ''worker'';
          suffix = (if length suffix > 8 then TrimChar (take 8 suffix) CHR ''-'' else suffix);
          suffix = or_default suffix ''worker''
      in generatedWorkerStem requestID @ ''-worker-'' @ suffix)"

definition isActivatorManagedWorker :: "GPUUnitRuntime \<Rightarrow> bool" where
  "isActivatorManagedWorker u =
     (if sls_RequestID (rt_Serverless u) = [] then False
      else HasPrefix (rt_Name u) (generatedWorkerStem (sls_RequestID (rt_Serverless u)) @ ''-worker-''))"

definition prewarmSourceID :: "gotime \<Rightarrow> string" where
  "prewarmSourceID now = ''warm-'' @ FormatInt (UnixNano now) 36"

definition buildCreateRequest :: "GPUUnitRuntime \<Rightarrow> string \<Rightarrow> CreateGPUUnitRequest" where
  "buildCreateRequest template invocationID =
     (let allocation = (rt_Allocation template)\<lparr>alloc_ClaimName := []\<rparr>;
          workerName = generatedWorkerName (sls_RequestID (rt_Serverless template)) invocationID
      in \<lparr>cr_OperationID = ''activate-'' @ invocationID, cr_Name = workerName,
          cr_PackageID = rt_PackageID template, cr_SpecName = rt_SpecName template,
          cr_Image = rt_Image template, cr_CPU = rt_CPU template, cr_Memory = rt_Memory template,
          cr_GPU = rt_GPU template, cr_Allocation = allocation, cr_Template = rt_Template template,
          cr_Access = rt_Access template, cr_SSH = rt_SSH template,
          cr_Serverless = rt_Serverless template,
          cr_StorageMounts = [] @ rt_StorageMounts template\<rparr>)"

section \<open>Shape of generated names\<close>

abbreviation name_char :: "char \<Rightarrow> bool" where
  "name_char c \<equiv> alnum c \<or> c = CHR ''-''"

lemma trim_hyphens_shape:
  assumes "list_all name_char s" "TrimChar s CHR ''-'' \<noteq> []"
  shows "label_shape (TrimChar s CHR ''-'')"
proof -
  let ?t = "TrimChar s CHR ''-''"
  have sub: "set ?t \<subseteq> set s" unfolding TrimChar_def by (rule set_trim_by)
  have "trimmed_by (\<lambda>x. x = CHR ''-'') ?t" unfolding TrimChar_def by (rule trimmed_by_trim_by)
  with assms(2) have "hd ?t \<noteq> CHR ''-''" "last ?t \<noteq> CHR ''-''" by (simp_all add: trimmed_by_def)
  moreover have all: "list_all name_char ?t" using assms(1) sub by (auto simp: list_all_iff)
  ultimately show ?thesis using assms(2) by (auto simp: label_shape_def list_all_iff)
qed

lemma sanitize_shape:
  "sanitizeWorkerNameToken v \<noteq> [] \<Longrightarrow> label_shape (sanitizeWorkerNameToken v)"
  unfolding sanitizeWorkerNameToken_def
  by (rule trim_hyphens_shape) (auto simp: list_all_iff alnum_def)

lemma label_shape_append:
  "label_shape a \<Longrightarrow> list_all name_char m \<Longrightarrow> label_shape b \<Longrightarrow> label_shape (a @ m @ b)"
  by (auto simp: label_shape_def)

lemma label_shape_words:
  "label_shape ''serverless''" "label_shape ''worker''" "label_shape ''unit''"
  "list_all name_char ''-worker-''" "list_all name_char ''-''"
  by code_simp+

lemma unit_prefix_shape: "label_shape b \<Longrightarrow> label_shape (''unit-'' @ b)"
  using label_shape_append [of "''unit''" "''-''" b] label_shape_words by simp

lemma trim_right_shape:
  assumes "label_shape s" "0 < n"
  shows "label_shape (TrimRightChar (take n s) CHR ''-'')"
proof -
  let ?t = "TrimRightChar (take n s) CHR ''-''"
  obtain c r where s: "s = c # r" "alnum c" using assms(1) by (cases s) (auto simp: label_shape_def)
  have "\<not> alnum CHR ''-''" by code_simp
  with s(2) have "c \<noteq> CHR ''-''" by blast
  moreover have "c \<in> set (take n s)" using s(1) assms(2) by (cases n) simp_all
  ultimately have ne: "?t \<noteq> []"
    unfolding TrimRightChar_def trim_right_def by (auto simp: dropWhile_eq_Nil_conv)
  have "hd ?t = hd (take n s)" using ne unfolding TrimRightChar_def by (rule hd_trim_right)
  with s assms(2) have "hd ?t = c" by (cases n) simp_all
  moreover have "last ?t \<noteq> CHR ''-''" using ne unfolding TrimRightChar_def
    by (rule last_trim_right)
  moreover have "set ?t \<subseteq> set s" unfolding TrimRightChar_def
    by (meson order_trans set_take_subset set_trim_right)
  then have "list_all name_char ?t" using assms(1) by (auto simp: label_shape_def list_all_iff)
  ultimately show ?thesis using ne s(2) by (auto simp: label_shape_def list_all_iff)
qed

lemma stem_cases:
  obtains p where "label_shape p"
    "generatedWorkerStem r = (if length p > 47 then TrimRightChar (take 47 p) CHR ''-'' else p)"
proof -
  have "label_shape (or_default (sanitizeWorkerNameToken r) ''serverless'')"
    using sanitize_shape [of r] label_shape_words(1)
    by (cases "sanitizeWorkerNameToken r = []") auto
  then have "label_shape (''unit-'' @ or_default (sanitizeWorkerNameToken r) ''serverless'')"
    by (rule unit_prefix_shape)
  then show ?thesis by (rule that) (simp only: generatedWorkerStem_def Let_def)
qed

lemma stem_shape: "label_shape (generatedWorkerStem r)"
  by (rule stem_cases [of r]) (simp add: trim_right_shape)

lemma stem_length: "length (generatedWorkerStem r) \<le> 47"
proof (rule stem_cases [of r])
  fix p assume "generatedWorkerStem r = (if length p > 47 then TrimRightChar (take 47 p) CHR ''-'' else p)"
  then show ?thesis using length_trim_right [of "\<lambda>x. x = CHR ''-''" "take 47 p"]
    by (auto simp: TrimRightChar_def)
qed

lemma suffix_shape:
  "\<exists>s. generatedWorkerName r i = generatedWorkerStem r @ ''-worker-'' @ s \<and> label_shape s \<and> length s \<le> 8"
proof -
  define s where "s = or_default (sanitizeWorkerNameToken
      (TrimPrefix (ToLower (TrimSpace i)) ''inv-'')) ''worker''"
  define t where "t = (if length s > 8 then TrimChar (take 8 s) CHR ''-'' else s)"
  have s: "label_shape s" unfolding s_def
    using sanitize_shape label_shape_words(2) by (simp add: or_default_def)
  have t: "t \<noteq> [] \<Longrightarrow> label_shape t"
  proof (cases "length s > 8")
    case True
    assume "t \<noteq> []"
    moreover have "list_all name_char (take 8 s)"
      using s by (auto simp: label_shape_def list_all_iff dest: in_set_takeD)
    ultimately show ?thesis using True unfolding t_def by (simp add: trim_hyphens_shape)
  qed (use s in \<open>simp add: t_def\<close>)
  have l: "length t \<le> 8" unfolding t_def TrimChar_def
    using length_trim_by [of "\<lambda>x. x = CHR ''-''" "take 8 s"] by simp
  have "generatedWorkerName r i = generatedWorkerStem r @ ''-worker-'' @ or_default t ''worker''"
    by (simp add: generatedWorkerName_def s_def t_def Let_def)
  moreover have "label_shape (or_default t ''worker'')" using t label_shape_words(2)
    by (cases "t = []") auto
  moreover have "length (or_default t ''worker'') \<le> 8" using l by (simp add: or_default_def)
  ultimately show ?thesis by blast
qed

lemma generated_name_label: "dns1123_label (generatedWorkerName r i)"
proof -
  obtain s where s: "generatedWorkerName r i = generatedWorkerStem r @ ''-worker-'' @ s"
      "label_shape s" "length s \<le> 8"
    using suffix_shape by blast
  have "label_shape (generatedWorkerStem r @ ''-worker-'' @ s)"
    by (intro label_shape_append stem_shape s(2) label_shape_words)
  moreover have "length (generatedWorkerStem r @ ''-worker-'' @ s) \<le> 63"
    using stem_length [of r] s(3) by simp
  ultimately show ?thesis unfolding s(1) by (simp add: dns1123_label_def)
qed

lemma generated_name_managed:
  assumes "rt_Name u = generatedWorkerName (sls_RequestID (rt_Serverless u)) i"
    "sls_RequestID (rt_Serverless u) \<noteq> []"
  shows "isActivatorManagedWorker u"
proof -
  obtain s where "generatedWorkerName (sls_RequestID (rt_Serverless u)) i
      = (generatedWorkerStem (sls_RequestID (rt_Serverless u)) @ ''-worker-'') @ s"
    using suffix_shape [of "sls_RequestID (rt_Serverless u)" i] by auto
  with assms show ?thesis unfolding isActivatorManagedWorker_def by (simp only: HasPrefix_append if_False)
qed

section \<open>Prewarm names\<close>

lemma nat_to_base_length:
  assumes "2 \<le> b" "b ^ d \<le> n" "n < b ^ Suc d"
  shows "length (nat_to_base b n) = Suc d"
  using assms
proof (induction d arbitrary: n)
  case (Suc d)
  have "b ^ d \<le> n div b" "n div b < b ^ Suc d"
    using Suc.prems by (simp_all add: less_eq_div_iff_mult_less_eq div_less_iff_less_mult mult.commute)
  from Suc.IH [OF \<open>2 \<le> b\<close> this] have "length (nat_to_base b (n div b)) = Suc d" .
  moreover have "b \<le> n" using Suc.prems(1,2)
    by (metis One_nat_def le_trans less_eq_Suc_le not_less_eq_eq numeral_2_eq_2 one_le_power power_Suc
        mult_le_mono2 mult.right_neutral le_Suc_eq)
  ultimately show ?case using Suc.prems(1) by (subst nat_to_base.simps) simp
qed (subst nat_to_base.simps, simp)

lemma nat_to_base_prefix:
  assumes "2 \<le> b" "b ^ k \<le> n"
  shows "\<exists>r. nat_to_base b n = nat_to_base b (n div b ^ k) @ r"
  using assms(2)
proof (induction k arbitrary: n)
  case (Suc k)
  have le: "b ^ k \<le> n div b" using Suc.prems assms(1)
    by (simp add: less_eq_div_iff_mult_less_eq mult.commute)
  have "b \<le> n" using Suc.prems assms(1)
    by (metis dual_order.trans le_add1 mult_le_mono2 mult.right_neutral one_le_power power_Suc add_leD1
        nat_1_add_1)
  then have "nat_to_base b n = nat_to_base b (n div b) @ [digit_char (n mod b)]"
    using assms(1) by (subst nat_to_base.simps) simp
  moreover obtain r where "nat_to_base b (n div b) = nat_to_base b (n div b div b ^ k) @ r"
    using Suc.IH [OF le] by blast
  ultimately show ?case by (simp add: div_mult2_eq)
qed simp

text \<open>The digits of a number determine it.\<close>

definition base_digit :: "char \<Rightarrow> nat" where
  "base_digit c = (if of_char c < (58 :: nat) then of_char c - 48 else of_char c - 87)"

lemma base_digit_char: "d < 36 \<Longrightarrow> base_digit (digit_char d) = d"
  by (auto simp: base_digit_def digit_char_def of_char_of)

lemma nat_to_base_value:
  assumes "2 \<le> b" "b \<le> 36"
  shows "fold (\<lambda>c n. b * n + base_digit c) (nat_to_base b n) 0 = n"
  using assms
proof (induction b n rule: nat_to_base.induct)
  case (1 b n)
  have d: "n mod b < 36" using "1.prems" mod_less_divisor [of b n] by linarith
  show ?case
  proof (cases "n < b")
    case True
    with "1.prems" show ?thesis by (subst nat_to_base.simps) (simp add: base_digit_char)
  next
    case False
    with "1.prems" "1.IH" d show ?thesis
      by (subst nat_to_base.simps) (simp add: base_digit_char)
  qed
qed

lemma nat_to_base_inj: "2 \<le> b \<Longrightarrow> b \<le> 36 \<Longrightarrow> nat_to_base b m = nat_to_base b n \<Longrightarrow> m = n"
  by (metis nat_to_base_value)

lemma TrimChar_label: "label_shape s \<Longrightarrow> TrimChar s CHR ''-'' = s"
proof -
  assume s: "label_shape s"
  moreover have "\<not> alnum CHR ''-''" by code_simp
  ultimately have "hd s \<noteq> CHR ''-''" "last s \<noteq> CHR ''-''" unfolding label_shape_def by metis+
  then show ?thesis unfolding TrimChar_def by (intro trim_by_id) (simp add: trimmed_by_def)
qed

lemma sanitize_label: "label_shape s \<Longrightarrow> sanitizeWorkerNameToken s = s"
proof -
  assume s: "label_shape s"
  have "map (\<lambda>c. if CHR ''a'' \<le> c \<and> c \<le> CHR ''z'' then c
      else if CHR ''0'' \<le> c \<and> c \<le> CHR ''9'' then c else CHR ''-'') s = s"
    using s by (intro map_idI) (auto simp: label_shape_def list_all_iff alnum_def)
  then show ?thesis unfolding sanitizeWorkerNameToken_def
    using s by (simp add: label_shape_trimmed label_shape_lower TrimSpace_id TrimChar_label)
qed

lemma alnum_label: "list_all alnum s \<Longrightarrow> s \<noteq> [] \<Longrightarrow> label_shape s"
  by (auto simp: label_shape_def list_all_iff)

text \<open>From 1974 to 2120 the nanoseconds since the epoch have twelve digits to base 36, of which the
  name keeps the first three.\<close>

lemma prewarm_suffix:
  assumes "36 ^ 11 \<le> UnixNano t" "UnixNano t < 36 ^ 12"
  shows "generatedWorkerName r (prewarmSourceID t)
    = generatedWorkerStem r @ ''-worker-'' @ ''warm-'' @ nat_to_base 36 (nat (UnixNano t) div 36 ^ 9)"
proof -
  define n where "n = nat (UnixNano t)"
  have n: "36 ^ 11 \<le> n" "n < 36 ^ 12" using assms unfolding n_def by (simp_all add: nat_le_iff le_nat_iff nat_less_iff)
  define h where "h = nat_to_base 36 (n div 36 ^ 9)"
  have hl: "length h = 3" unfolding h_def
    using nat_to_base_length [of 36 2 "n div 36 ^ 9"] n by (simp add: numeral_3_eq_3)
  obtain rest where rest: "nat_to_base 36 n = h @ rest"
    using nat_to_base_prefix [of 36 9 n] n(1) unfolding h_def by auto
  have len: "length (h @ rest) = 12"
    using nat_to_base_length [of 36 11 n] n rest by simp
  have al: "list_all alnum (h @ rest)" using nat_to_base_alnum [of 36 n] rest by simp
  have hne: "h \<noteq> []" using hl by auto
  have w: "label_shape ''warm''" by code_simp
  have l: "label_shape (''warm'' @ ''-'' @ (h @ rest))" "label_shape (''warm'' @ ''-'' @ h)"
    using al hne by (intro label_shape_append w label_shape_words alnum_label; simp)+
  have src: "prewarmSourceID t = ''warm'' @ ''-'' @ (h @ rest)"
    using assms rest by (simp add: prewarmSourceID_def FormatInt_def n_def)
  have "TrimPrefix (ToLower (TrimSpace (prewarmSourceID t))) ''inv-'' = prewarmSourceID t"
    using l(1) unfolding src
    by (simp only: label_shape_trimmed label_shape_lower TrimSpace_id) (simp add: TrimPrefix_def HasPrefix_def)
  then have id: "sanitizeWorkerNameToken (TrimPrefix (ToLower (TrimSpace (prewarmSourceID t))) ''inv-'')
      = ''warm'' @ ''-'' @ (h @ rest)"
    using sanitize_label [OF l(1)] src by simp
  have "take 8 (''warm'' @ ''-'' @ (h @ rest)) = ''warm'' @ ''-'' @ h" using hl by simp
  with TrimChar_label [OF l(2)] show ?thesis
    unfolding generatedWorkerName_def id Let_def n_def [symmetric] h_def [symmetric]
    using len by simp
qed

text \<open>
  Every name the activator generates for a worker is a DNS label of at most 63 characters,
  whatever the request and invocation identifiers are, and a unit of that request that carries the
  name is recognised as a worker of the activator; so the name can be used for the pod and its
  service, and the idle cleanup finds the worker again.
\<close>

theorem generated_worker_name:
  "dns1123_label (generatedWorkerName r i)
   \<and> (r \<noteq> [] \<longrightarrow> isActivatorManagedWorker
        (u\<lparr>rt_Name := generatedWorkerName r i, rt_Serverless := (rt_Serverless u)\<lparr>sls_RequestID := r\<rparr>\<rparr>))"
  using generated_name_label generated_name_managed by simp

theorem generated_worker_name_witness:
  "generatedWorkerName ''llm_chat'' ''inv-0123456789'' = ''unit-llm-chat-worker-01234567''
   \<and> dns1123_label ''unit-llm-chat-worker-01234567''"
proof -
  have e: "generatedWorkerName ''llm_chat'' ''inv-0123456789'' = ''unit-llm-chat-worker-01234567''"
    by code_simp
  with generated_worker_name [of "''llm_chat''" "''inv-0123456789''"] show ?thesis by simp
qed

text \<open>
  Two prewarm workers of one request get the same name when their creation times fall into one
  period of $36^9$ nanoseconds (about 28 hours), because the name keeps eight characters of the
  source identifier: the prefix \<open>warm-\<close> and the three leading digits of the time. In particular the
  workers one reconciliation creates, whose times differ by nanoseconds, all have one name, and
  only their operation identifiers differ.
\<close>

theorem prewarm_names_collide:
  assumes "36 ^ 11 \<le> UnixNano t1" "UnixNano t1 < 36 ^ 12" "36 ^ 11 \<le> UnixNano t2" "UnixNano t2 < 36 ^ 12"
    and "UnixNano t1 div 36 ^ 9 = UnixNano t2 div 36 ^ 9" and "t1 \<noteq> t2"
  shows "cr_Name (buildCreateRequest u (prewarmSourceID t1)) = cr_Name (buildCreateRequest u (prewarmSourceID t2))
    \<and> cr_OperationID (buildCreateRequest u (prewarmSourceID t1)) \<noteq> cr_OperationID (buildCreateRequest u (prewarmSourceID t2))"
proof -
  have nn: "0 \<le> UnixNano t1" "0 \<le> UnixNano t2" using assms(1,3) by simp_all
  have "nat (UnixNano t div 36 ^ 9) = nat (UnixNano t) div 36 ^ 9" if "0 \<le> UnixNano t" for t
    using that by (simp add: nat_div_distrib)
  with nn assms(5) have "nat (UnixNano t1) div 36 ^ 9 = nat (UnixNano t2) div 36 ^ 9" by metis
  then have name: "generatedWorkerName r (prewarmSourceID t1) = generatedWorkerName r (prewarmSourceID t2)" for r
    unfolding prewarm_suffix [OF assms(1,2)] prewarm_suffix [OF assms(3,4)] by simp
  have src: "prewarmSourceID t = ''warm-'' @ nat_to_base 36 (nat (UnixNano t))" if "0 \<le> UnixNano t" for t
    using that by (simp add: prewarmSourceID_def FormatInt_def)
  have "prewarmSourceID t1 \<noteq> prewarmSourceID t2"
  proof
    assume "prewarmSourceID t1 = prewarmSourceID t2"
    then have "nat_to_base 36 (nat (UnixNano t1)) = nat_to_base 36 (nat (UnixNano t2))"
      unfolding src [OF nn(1)] src [OF nn(2)] by simp
    then have "nat (UnixNano t1) = nat (UnixNano t2)" by (rule nat_to_base_inj [rotated 2]) simp_all
    with nn assms(6) show False by (simp add: UnixNano_def)
  qed
  with name show ?thesis by (simp add: buildCreateRequest_def Let_def)
qed

text \<open>A unit of a serverless request, for the witnesses.\<close>

definition sample_unit :: "string \<Rightarrow> string \<Rightarrow> int \<Rightarrow> GPUUnitRuntime" where
  "sample_unit name phase minAvailable = \<lparr>rt_Name = name, rt_Namespace = DefaultInstanceNamespace,
     rt_Lifecycle = LifecycleInstance, rt_PackageID = ''a100-half'', rt_SpecName = ''a100'', rt_Image = ''img'',
     rt_CPU = ''8'', rt_Memory = ''64'', rt_GPU = 1, rt_Allocation = zero_allocation, rt_Template = zero_template,
     rt_Access = zero_access, rt_SSH = zero_ssh,
     rt_Serverless = \<lparr>sls_Enabled = True, sls_RequestID = ''llm'', sls_MinAvailableCount = minAvailable,
       sls_IdleTimeoutSeconds = 300, sls_MinRequestCount = 0, sls_Framework = zero_framework\<rparr>,
     rt_StorageMounts = [], rt_Phase = phase, rt_ReadyReplicas = 1, rt_ObservedGeneration = 1,
     rt_LastSyncTime = 0, rt_ServiceName = [], rt_AccessURL = ''http://x'',
     rt_SSHStatus = st_SSH zero_unit_status, rt_ServerlessStatus = st_Serverless zero_unit_status,
     rt_DRAStatus = st_DRA zero_unit_status, rt_Reason = [], rt_Message = []\<rparr>"

theorem prewarm_names_collide_witness:
  "cr_Name (buildCreateRequest (sample_unit ''llm'' PhaseReady 2) (prewarmSourceID (63900000000 * second)))
     = cr_Name (buildCreateRequest (sample_unit ''llm'' PhaseReady 2) (prewarmSourceID (63900000000 * second + 1)))"
  using prewarm_names_collide [of "63900000000 * second" "63900000000 * second + 1"
      "sample_unit ''llm'' PhaseReady 2"]
  by (simp add: UnixNano_def second_def)

end
