(* ===== verification/Activator_Registry.thy ===== *)
theory Activator_Registry
  imports Activator_Names
begin

text \<open>
  \<^verbatim>\<open>pkg/activator/registry.go\<close>: the table of ready workers. The contract of such a table is the
  locale \<open>worker_pool\<close>, with the workers it holds per request as its abstraction; the registry is
  its instance. The mutex of the registry makes every operation atomic, so the operations are
  functions on the table.
\<close>

section \<open>Definitions\<close>

record Worker =
  w_Name :: string
  w_Namespace :: string
  w_RequestID :: string

type_synonym WorkerRegistry = "Worker smap"

definition NewWorkerRegistry :: WorkerRegistry where
  "NewWorkerRegistry = []"

definition workerFromUnit :: "GPUUnitRuntime \<Rightarrow> Worker" where
  "workerFromUnit u = \<lparr>w_Name = rt_Name u, w_Namespace = rt_Namespace u,
     w_RequestID = sls_RequestID (rt_Serverless u)\<rparr>"

definition workerKey :: "string \<Rightarrow> string \<Rightarrow> string" where
  "workerKey namespace name = namespace @ ''/'' @ name"

definition isReadyWorkerUnit :: "GPUUnitRuntime \<Rightarrow> string \<Rightarrow> bool" where
  "isReadyWorkerUnit u requestID =
     (sls_Enabled (rt_Serverless u) \<and> sls_RequestID (rt_Serverless u) = requestID
      \<and> rt_Phase u = PhaseReady \<and> TrimSpace (rt_AccessURL u) \<noteq> [])"

definition sync_step :: "string \<Rightarrow> GPUUnitRuntime \<Rightarrow> string list \<times> WorkerRegistry
    \<Rightarrow> string list \<times> WorkerRegistry" where
  "sync_step requestID u st =
     (if \<not> isReadyWorkerUnit u requestID then st
      else let worker = workerFromUnit u; key = workerKey (w_Namespace worker) (w_Name worker)
           in (key # fst st, map_put key worker (snd st)))"

definition Registry_Sync :: "string \<Rightarrow> GPUUnitRuntime list \<Rightarrow> WorkerRegistry \<Rightarrow> WorkerRegistry" where
  "Registry_Sync requestID units entries =
     (let (keep, entries) = fold (sync_step requestID) units ([], entries)
      in filter (\<lambda>(key, worker). w_RequestID worker \<noteq> requestID \<or> key \<in> set keep) entries)"

definition Registry_Pick :: "string \<Rightarrow> WorkerRegistry \<Rightarrow> Worker option" where
  "Registry_Pick requestID entries =
     (case sort (map fst (filter (\<lambda>(key, worker). w_RequestID worker = requestID) entries)) of
        [] \<Rightarrow> None
      | key # _ \<Rightarrow> map_of entries key)"

section \<open>The contract of a worker pool\<close>

text \<open>
  What a client of the pool relies on: the workers the pool holds for a request after a
  synchronisation are the ready units of that request, workers of other requests stay (unless a
  unit moved to the request under the same key), and a pick returns a worker of the request exactly
  when there is one.
\<close>

abbreviation unit_key :: "GPUUnitRuntime \<Rightarrow> string" where
  "unit_key u \<equiv> workerKey (rt_Namespace u) (rt_Name u)"

abbreviation worker_key :: "Worker \<Rightarrow> string" where
  "worker_key w \<equiv> workerKey (w_Namespace w) (w_Name w)"

locale worker_pool =
  fixes new :: "'r"
    and sync :: "string \<Rightarrow> GPUUnitRuntime list \<Rightarrow> 'r \<Rightarrow> 'r"
    and pick :: "string \<Rightarrow> 'r \<Rightarrow> Worker option"
    and workers :: "'r \<Rightarrow> string \<Rightarrow> Worker set"
    and invar :: "'r \<Rightarrow> bool"
  assumes new_invar: "invar new" and new_workers: "workers new q = {}"
    and sync_invar: "invar r \<Longrightarrow> distinct (map unit_key us) \<Longrightarrow> invar (sync q us r)"
    and sync_workers: "invar r \<Longrightarrow> distinct (map unit_key us) \<Longrightarrow>
      workers (sync q us r) q = workerFromUnit ` {u \<in> set us. isReadyWorkerUnit u q}"
    and sync_other: "invar r \<Longrightarrow> distinct (map unit_key us) \<Longrightarrow> p \<noteq> q \<Longrightarrow>
      workers (sync q us r) p
        = {w \<in> workers r p. worker_key w \<notin> unit_key ` {u \<in> set us. isReadyWorkerUnit u q}}"
    and pick_member: "invar r \<Longrightarrow> pick q r = Some w \<Longrightarrow> w \<in> workers r q"
    and pick_least: "invar r \<Longrightarrow> pick q r = Some w \<Longrightarrow> v \<in> workers r q \<Longrightarrow> worker_key w \<le> worker_key v"
    and pick_none: "invar r \<Longrightarrow> pick q r = None \<longleftrightarrow> workers r q = {}"
begin

lemma pick_after_sync:
  assumes "invar r" "distinct (map unit_key us)"
  shows "pick q (sync q us r) = None \<longleftrightarrow> \<not> (\<exists>u \<in> set us. isReadyWorkerUnit u q)"
    and "pick q (sync q us r) = Some w \<Longrightarrow>
      \<exists>u \<in> set us. isReadyWorkerUnit u q \<and> w = workerFromUnit u
        \<and> (\<forall>v \<in> set us. isReadyWorkerUnit v q \<longrightarrow> unit_key u \<le> unit_key v)"
proof -
  have i: "invar (sync q us r)" using assms by (rule sync_invar)
  note ws = sync_workers [OF assms, of q]
  show "pick q (sync q us r) = None \<longleftrightarrow> \<not> (\<exists>u \<in> set us. isReadyWorkerUnit u q)"
    unfolding pick_none [OF i] ws by auto
  assume p: "pick q (sync q us r) = Some w"
  obtain u where u: "u \<in> set us" "isReadyWorkerUnit u q" "w = workerFromUnit u"
    using pick_member [OF i p] ws by auto
  have "unit_key u \<le> unit_key v" if "v \<in> set us" "isReadyWorkerUnit v q" for v
    using pick_least [OF i p, of "workerFromUnit v"] that u ws by (auto simp: workerFromUnit_def)
  with u show "\<exists>u \<in> set us. isReadyWorkerUnit u q \<and> w = workerFromUnit u
        \<and> (\<forall>v \<in> set us. isReadyWorkerUnit v q \<longrightarrow> unit_key u \<le> unit_key v)" by blast
qed

lemma sync_idem:
  assumes "invar r" "distinct (map unit_key us)"
  shows "workers (sync q us (sync q us r)) p = workers (sync q us r) p"
  using assms sync_invar sync_workers sync_other by (cases "p = q") simp_all

end

section \<open>The registry is a worker pool\<close>

definition registry_invar :: "WorkerRegistry \<Rightarrow> bool" where
  "registry_invar r = (distinct (map fst r) \<and> list_all (\<lambda>(k, w). k = worker_key w) r)"

definition registry_workers :: "WorkerRegistry \<Rightarrow> string \<Rightarrow> Worker set" where
  "registry_workers r q = {w \<in> snd ` set r. w_RequestID w = q}"

lemma unit_key_worker [simp]: "worker_key (workerFromUnit u) = unit_key u"
  by (simp add: workerFromUnit_def)

lemma registry_workers_iff:
  "registry_invar r \<Longrightarrow> w \<in> registry_workers r q \<longleftrightarrow> map_of r (worker_key w) = Some w \<and> w_RequestID w = q"
  by (force simp: registry_workers_def registry_invar_def list_all_iff map_of_eq_Some_iff image_iff)

lemma sync_steps:
  assumes "distinct (map unit_key us)" "fold (sync_step q) us (keep, es) = (keep', es')" "registry_invar es"
  shows "set keep' = set keep \<union> unit_key ` {u \<in> set us. isReadyWorkerUnit u q} \<and> registry_invar es'
    \<and> map_of es' = map_of es ++ map_of (map (\<lambda>u. (unit_key u, workerFromUnit u)) (filter (\<lambda>u. isReadyWorkerUnit u q) us))"
  using assms
proof (induction us arbitrary: keep es)
  case (Cons u us)
  show ?case
  proof (cases "isReadyWorkerUnit u q")
    case True
    let ?es = "map_put (unit_key u) (workerFromUnit u) es"
    have st: "sync_step q u (keep, es) = (unit_key u # keep, ?es)"
      using True by (simp add: sync_step_def Let_def workerFromUnit_def)
    have inv: "registry_invar ?es" using Cons.prems(3) set_map_put [of "unit_key u" "workerFromUnit u" es]
      by (fastforce simp: registry_invar_def list_all_iff)
    have "fold (sync_step q) us (unit_key u # keep, ?es) = (keep', es')" using Cons.prems(2) st by simp
    note ih = Cons.IH [OF _ this inv]
    have "unit_key u \<notin> dom (map_of (map (\<lambda>u. (unit_key u, workerFromUnit u)) (filter (\<lambda>u. isReadyWorkerUnit u q) us)))"
      using Cons.prems(1) by (auto simp: dom_map_of_conv_image_fst image_image)
    with ih Cons.prems(1) True show ?thesis by (auto simp: map_add_def split: option.splits)
  next
    case False
    with Cons show ?thesis by (auto simp: sync_step_def)
  qed
qed simp

lemma registry_invar_filter: "registry_invar es \<Longrightarrow> registry_invar (filter P es)"
  by (auto simp: registry_invar_def list_all_iff distinct_map_filter)

lemma map_of_ready_Some:
  assumes "distinct (map unit_key us)"
  shows "map_of (map (\<lambda>u. (unit_key u, workerFromUnit u)) (filter (\<lambda>u. isReadyWorkerUnit u q) us)) k = Some w
    \<longleftrightarrow> (\<exists>u \<in> set us. isReadyWorkerUnit u q \<and> k = unit_key u \<and> w = workerFromUnit u)"
proof -
  have "distinct (map fst (map (\<lambda>u. (unit_key u, workerFromUnit u)) (filter (\<lambda>u. isReadyWorkerUnit u q) us)))"
    using assms by (simp add: comp_def distinct_map_filter)
  from map_of_eq_Some_iff [OF this, of k w] show ?thesis by auto
qed

lemma map_of_filter_entries:
  "distinct (map fst es) \<Longrightarrow> map_of (filter P es) k = Some w \<longleftrightarrow> map_of es k = Some w \<and> P (k, w)"
  by (auto simp: map_of_eq_Some_iff distinct_map_filter)

lemma Registry_Sync_lookup:
  assumes "registry_invar r" "distinct (map unit_key us)"
  shows "registry_invar (Registry_Sync q us r)"
    and "map_of (Registry_Sync q us r) k = Some w \<longleftrightarrow>
      (\<exists>u \<in> set us. isReadyWorkerUnit u q \<and> k = unit_key u \<and> w = workerFromUnit u)
      \<or> map_of r k = Some w \<and> w_RequestID w \<noteq> q \<and> k \<notin> unit_key ` {u \<in> set us. isReadyWorkerUnit u q}"
proof -
  obtain keep es where f: "fold (sync_step q) us ([], r) = (keep, es)" by fastforce
  note st = sync_steps [OF assms(2) f assms(1)]
  have S: "Registry_Sync q us r = filter (\<lambda>(key, worker). w_RequestID worker \<noteq> q \<or> key \<in> set keep) es"
    by (simp add: Registry_Sync_def f)
  show "registry_invar (Registry_Sync q us r)" unfolding S using st by (intro registry_invar_filter) simp
  have d: "distinct (map fst es)" using st by (simp add: registry_invar_def)
  have m: "map_of es k = Some w \<longleftrightarrow>
      (\<exists>u \<in> set us. isReadyWorkerUnit u q \<and> k = unit_key u \<and> w = workerFromUnit u)
      \<or> map_of r k = Some w \<and> k \<notin> unit_key ` {u \<in> set us. isReadyWorkerUnit u q}"
  proof -
    have "map_of (map (\<lambda>u. (unit_key u, workerFromUnit u)) (filter (\<lambda>u. isReadyWorkerUnit u q) us)) k = None
        \<longleftrightarrow> k \<notin> unit_key ` {u \<in> set us. isReadyWorkerUnit u q}"
      by (auto simp: map_of_eq_None_iff image_image)
    with st map_of_ready_Some [OF assms(2), of q k w] show ?thesis by (auto simp: map_add_Some_iff)
  qed
  show "map_of (Registry_Sync q us r) k = Some w \<longleftrightarrow>
      (\<exists>u \<in> set us. isReadyWorkerUnit u q \<and> k = unit_key u \<and> w = workerFromUnit u)
      \<or> map_of r k = Some w \<and> w_RequestID w \<noteq> q \<and> k \<notin> unit_key ` {u \<in> set us. isReadyWorkerUnit u q}"
    unfolding S map_of_filter_entries [OF d] m using st by auto
qed

lemma Registry_Pick_cases:
  assumes "registry_invar r"
  shows "Registry_Pick q r = None \<longleftrightarrow> registry_workers r q = {}"
    and "Registry_Pick q r = Some w \<Longrightarrow> w \<in> registry_workers r q
      \<and> (\<forall>v \<in> registry_workers r q. worker_key w \<le> worker_key v)"
proof -
  define es where "es = filter (\<lambda>(key, worker). w_RequestID worker = q) r"
  have d: "distinct (map fst r)" using assms by (simp add: registry_invar_def)
  have es: "registry_workers r q = snd ` set es" by (auto simp: registry_workers_def es_def)
  have key: "k = worker_key v \<and> map_of r k = Some v" if "(k, v) \<in> set es" for k v
    using that assms d by (auto simp: registry_invar_def list_all_iff es_def)
  have P: "Registry_Pick q r = (case sort (map fst es) of [] \<Rightarrow> None | k # _ \<Rightarrow> map_of r k)"
    by (simp add: Registry_Pick_def es_def)
  have "Registry_Pick q r = None \<longleftrightarrow> es = []"
  proof (cases "sort (map fst es)")
    case Nil
    then have "es = []" by (metis length_0_conv length_map length_sort)
    with P show ?thesis by simp
  next
    case (Cons k ks)
    then have "k \<in> fst ` set es" by (metis list.set_intros(1) set_map set_sort)
    then obtain v where "(k, v) \<in> set es" by auto
    with key P Cons show ?thesis by auto
  qed
  with es show "Registry_Pick q r = None \<longleftrightarrow> registry_workers r q = {}" by simp
  assume s: "Registry_Pick q r = Some w"
  with P obtain k ks where c: "sort (map fst es) = k # ks" "map_of r k = Some w" by (auto split: list.splits)
  have set: "set (k # ks) = fst ` set es" using c(1) by (metis set_map set_sort)
  then have "k \<in> fst ` set es" by (metis list.set_intros(1))
  then obtain v where v: "(k, v) \<in> set es" by auto
  with key [OF v] c(2) have w: "w = v" "k = worker_key w" by auto
  have "k \<le> worker_key u" if "u \<in> registry_workers r q" for u
  proof -
    from that es obtain k' where k': "(k', u) \<in> set es" by auto
    have "k' \<in> set (k # ks)" using k' set by force
    moreover have "sorted (k # ks)" using c(1) by (metis sorted_sort)
    ultimately show ?thesis using key [OF k'] by auto
  qed
  with w v es show "w \<in> registry_workers r q
      \<and> (\<forall>v \<in> registry_workers r q. worker_key w \<le> worker_key v)"
    by force
qed

interpretation registry: worker_pool NewWorkerRegistry Registry_Sync Registry_Pick registry_workers registry_invar
proof
  show "registry_invar NewWorkerRegistry" "registry_workers NewWorkerRegistry q = {}" for q
    by (simp_all add: registry_invar_def registry_workers_def NewWorkerRegistry_def)
next
  fix r :: WorkerRegistry and us :: "GPUUnitRuntime list" and q p :: string
  assume a: "registry_invar r" "distinct (map unit_key us)"
  show i: "registry_invar (Registry_Sync q us r)" using a by (rule Registry_Sync_lookup)
  show "registry_workers (Registry_Sync q us r) q = workerFromUnit ` {u \<in> set us. isReadyWorkerUnit u q}"
    unfolding set_eq_iff registry_workers_iff [OF i] Registry_Sync_lookup(2) [OF a]
    by (auto simp: isReadyWorkerUnit_def workerFromUnit_def)
  show "registry_workers (Registry_Sync q us r) p
      = {w \<in> registry_workers r p. worker_key w \<notin> unit_key ` {u \<in> set us. isReadyWorkerUnit u q}}"
    if "p \<noteq> q"
    using that
    unfolding set_eq_iff registry_workers_iff [OF i] Registry_Sync_lookup(2) [OF a] mem_Collect_eq
      registry_workers_iff [OF a(1)]
    by (auto simp: isReadyWorkerUnit_def workerFromUnit_def)
qed (use Registry_Pick_cases in blast)+

text \<open>
  C24. After the registry has been synchronised with the units of a request, a pick for the request
  succeeds exactly when one of these units is ready, and the worker it returns is such a unit, the
  one with the least key; whatever the registry held for the request before is gone.
\<close>

theorem registry_pick_after_sync:
  assumes "registry_invar r" "distinct (map unit_key us)"
  shows "(case Registry_Pick q (Registry_Sync q us r) of
      None \<Rightarrow> \<not> list_ex (\<lambda>u. isReadyWorkerUnit u q) us
    | Some w \<Rightarrow> list_ex (\<lambda>u. isReadyWorkerUnit u q \<and> w = workerFromUnit u
        \<and> list_all (\<lambda>v. isReadyWorkerUnit v q \<longrightarrow> unit_key u \<le> unit_key v) us) us)"
  using registry.pick_after_sync [OF assms]
  by (auto simp: list_ex_iff list_all_iff split: option.splits)

theorem registry_pick_after_sync_witness:
  "Registry_Pick ''llm'' (Registry_Sync ''llm'' [sample_unit ''b'' PhaseReady 1, sample_unit ''a'' PhaseProgressing 1] NewWorkerRegistry)
     \<noteq> None"
proof -
  let ?us = "[sample_unit ''b'' PhaseReady 1, sample_unit ''a'' PhaseProgressing 1]"
  have "registry_invar NewWorkerRegistry" "distinct (map unit_key ?us)"
    "list_ex (\<lambda>u. isReadyWorkerUnit u ''llm'') ?us"
    by code_simp+
  with registry_pick_after_sync [of NewWorkerRegistry ?us "''llm''"] show ?thesis
    by (auto split: option.splits)
qed

end
