(* ===== verification/Activator_Lifecycle.thy ===== *)
theory Activator_Lifecycle
  imports Activator_Registry
begin

text \<open>
  \<^verbatim>\<open>pkg/activator/lifecycle.go\<close>: the table of worker states fed by metrics, and the reconciliation
  that prewarms workers up to the minimum and deletes idle ones. The runtime the activator drives
  (\<^verbatim>\<open>RuntimeControl\<close>, implemented by \<^verbatim>\<open>pkg/service\<close>) is a record of functions on a world \<open>'w\<close> that
  also carries the clock and the passing of time; its laws are the locale \<open>runtime_store\<close>.
\<close>

section \<open>The runtime the activator drives\<close>

record 'w RuntimeControl =
  rc_List :: "string \<Rightarrow> 'w \<Rightarrow> GPUUnitRuntime list res \<times> 'w"
  rc_Create :: "CreateGPUUnitRequest \<Rightarrow> 'w \<Rightarrow> (GPUUnitRuntime \<times> bool) res \<times> 'w"
  rc_Get :: "string \<Rightarrow> string \<Rightarrow> 'w \<Rightarrow> GPUUnitRuntime res \<times> 'w"
  rc_Delete :: "string \<Rightarrow> string \<Rightarrow> 'w \<Rightarrow> unit res \<times> 'w"
  rc_Now :: "'w \<Rightarrow> gotime"
  rc_Wait :: "duration \<Rightarrow> 'w \<Rightarrow> 'w"

abbreviation unit_id :: "GPUUnitRuntime \<Rightarrow> string \<times> string" where
  "unit_id u \<equiv> (rt_Namespace u, rt_Name u)"

text \<open>The identity of a unit as the runtime stores it: the fixed namespace and a trimmed, lower-case
  name.\<close>

definition canonical_id :: "string \<times> string \<Rightarrow> bool" where
  "canonical_id i = (fst i = DefaultInstanceNamespace \<and> ToLower (TrimSpace (snd i)) = snd i)"

text \<open>
  What the activator relies on: identities are canonical and unique, a listing shows the units there are, a deletion that succeeds
  removes at most the units with one identity, which is the given one when that is canonical, one
  that fails removes nothing, and a creation leaves the units there are alone.
\<close>

locale runtime_store =
  fixes R :: "'w RuntimeControl" and units :: "'w \<Rightarrow> GPUUnitRuntime list"
  assumes ids: "distinct (map unit_id (units w))"
    and canonical: "u \<in> set (units w) \<Longrightarrow> canonical_id (unit_id u)"
    and list_ok: "rc_List R [] w = (Inr us, w') \<Longrightarrow> mset us = mset (units w) \<and> units w' = units w"
    and list_err: "rc_List R [] w = (Inl e, w') \<Longrightarrow> units w' = units w"
    and delete_ok: "rc_Delete R ns n w = (Inr (), w') \<Longrightarrow>
      \<exists>i. mset (units w') = mset (filter (\<lambda>u. unit_id u \<noteq> i) (units w)) \<and> (canonical_id (ns, n) \<longrightarrow> i = (ns, n))"
    and delete_err: "rc_Delete R ns n w = (Inl e, w') \<Longrightarrow> units w' = units w"
    and create_keeps: "rc_Create R req w = (r, w') \<Longrightarrow> mset (units w) \<subseteq># mset (units w')"

section \<open>Worker states\<close>

record WorkerState =
  ws_RequestID :: string
  ws_WorkerName :: string
  ws_WorkerNamespace :: string
  ws_LastEvent :: WorkerMetricEventType
  ws_LastSeen :: gotime
  ws_LastActivity :: gotime
  ws_Inflight :: int32

definition zero_worker_state :: WorkerState where
  "zero_worker_state = \<lparr>ws_RequestID = [], ws_WorkerName = [], ws_WorkerNamespace = [],
     ws_LastEvent = WorkerMetricEventOther [], ws_LastSeen = 0, ws_LastActivity = 0, ws_Inflight = 0\<rparr>"

text \<open>The manager: the registry it shares with the service and its table of states.\<close>

record LifecycleManager =
  lm_registry :: WorkerRegistry
  lm_workers :: "WorkerState smap"

definition NewLifecycleManager :: "WorkerRegistry \<Rightarrow> LifecycleManager" where
  "NewLifecycleManager registry = \<lparr>lm_registry = registry, lm_workers = []\<rparr>"

definition workerStateKey :: "string \<Rightarrow> string \<Rightarrow> string" where
  "workerStateKey namespace name = or_default namespace DefaultInstanceNamespace @ ''/'' @ name"

text \<open>The new state of a worker from its old one.\<close>

definition observe_state :: "gotime \<Rightarrow> WorkerMetricMessage \<Rightarrow> WorkerState \<Rightarrow> WorkerState" where
  "observe_state reportedAt metric old =
     (let st = old\<lparr>ws_RequestID := met_ServerlessRequestID metric,
                 ws_WorkerName := met_WorkerName metric,
                 ws_WorkerNamespace := met_WorkerNamespace metric,
                 ws_LastEvent := met_EventType metric,
                 ws_LastSeen := reportedAt,
                 ws_Inflight := met_Inflight metric\<rparr>
      in case met_EventType metric of
           WorkerMetricEventRegistered \<Rightarrow>
             if ws_LastActivity st = 0 then st\<lparr>ws_LastActivity := reportedAt\<rparr> else st
         | WorkerMetricEventInvocationStarted \<Rightarrow> st\<lparr>ws_LastActivity := reportedAt\<rparr>
         | WorkerMetricEventInvocationFinished \<Rightarrow> st\<lparr>ws_LastActivity := reportedAt\<rparr>
         | WorkerMetricEventInvocationFailed \<Rightarrow> st\<lparr>ws_LastActivity := reportedAt\<rparr>
         | _ \<Rightarrow> st)"

definition ObserveMetric ::
    "gotime \<Rightarrow> WorkerMetricMessage \<Rightarrow> WorkerState smap \<Rightarrow> WorkerState smap" where
  "ObserveMetric now metric workers =
     (if met_ServerlessRequestID metric = [] \<or> met_WorkerName metric = [] then workers
      else
        let reportedAt = (if met_ReportedAt metric = 0 then now else met_ReportedAt metric);
            key = workerStateKey (met_WorkerNamespace metric) (met_WorkerName metric);
            old = (case map_of workers key of None \<Rightarrow> zero_worker_state | Some st \<Rightarrow> st)
        in map_put key (observe_state reportedAt metric old) workers)"

definition Snapshot :: "WorkerState smap \<Rightarrow> WorkerState smap" where
  "Snapshot workers = fold (\<lambda>(k, v) out. map_put k v out) workers []"

definition workerState :: "WorkerState smap \<Rightarrow> string \<Rightarrow> string \<Rightarrow> WorkerState option" where
  "workerState workers namespace name = map_of workers (workerStateKey namespace name)"

section \<open>Reconciliation\<close>

text \<open>\<^verbatim>\<open>templateUnit\<close>; its callers have checked that there is a unit.\<close>

definition templateUnit :: "GPUUnitRuntime list \<Rightarrow> GPUUnitRuntime" where
  "templateUnit units =
     (case find (\<lambda>u. \<not> isActivatorManagedWorker u) units of Some u \<Rightarrow> u | None \<Rightarrow> hd units)"

fun group_add :: "GPUUnitRuntime \<Rightarrow> GPUUnitRuntime list smap \<Rightarrow> GPUUnitRuntime list smap" where
  "group_add u groups =
     (let q = sls_RequestID (rt_Serverless u)
      in if \<not> sls_Enabled (rt_Serverless u) \<or> q = [] then groups
         else map_put q ((case map_of groups q of None \<Rightarrow> [] | Some us \<Rightarrow> us) @ [u]) groups)"

definition groupServerlessUnits :: "GPUUnitRuntime list \<Rightarrow> GPUUnitRuntime list smap" where
  "groupServerlessUnits units =
     map (\<lambda>(q, us). (q, sort_key rt_Name us)) (fold group_add units [])"

fun prewarm_loop :: "'w RuntimeControl \<Rightarrow> string \<Rightarrow> GPUUnitRuntime \<Rightarrow> nat \<Rightarrow> nat \<Rightarrow> 'w \<Rightarrow> error list \<times> 'w" where
  "prewarm_loop R requestID template i 0 w = ([], w)"
| "prewarm_loop R requestID template i (Suc missing) w =
     (let sourceID = prewarmSourceID (rc_Now R w + int i);
          req = buildCreateRequest template sourceID;
          (r, w) = rc_Create R req w;
          (errs, w) = prewarm_loop R requestID template (Suc i) missing w
      in (case r of
            Inl e \<Rightarrow> (Wrap (''prewarm worker for serverlessRequestID %s: %w'', [FS requestID]) e # errs, w)
          | Inr _ \<Rightarrow> (errs, w)))"

definition ensureMinAvailable ::
    "'w RuntimeControl \<Rightarrow> string \<Rightarrow> GPUUnitRuntime list \<Rightarrow> 'w \<Rightarrow> unit res \<times> 'w" where
  "ensureMinAvailable R requestID units w =
     (if units = [] then (Inr (), w)
      else
        let template = templateUnit units;
            minAvailable = sls_MinAvailableCount (rt_Serverless template)
        in if minAvailable \<le> 0 then (Inr (), w)
           else
             let available = int (length (filter (\<lambda>u. rt_Phase u = PhaseReady \<or> rt_Phase u = PhaseProgressing) units));
                 missing = minAvailable - available
             in if missing \<le> 0 then (Inr (), w)
                else let (errs, w) = prewarm_loop R requestID template 0 (nat missing) w
                     in (errors_Join errs, w))"

type_synonym idleWorkerCandidate = "GPUUnitRuntime \<times> gotime"

definition idle_candidate ::
    "WorkerState smap \<Rightarrow> gotime \<Rightarrow> duration \<Rightarrow> GPUUnitRuntime \<Rightarrow> idleWorkerCandidate option" where
  "idle_candidate workers now idleTimeout u =
     (if \<not> isActivatorManagedWorker u then None
      else case workerState workers (rt_Namespace u) (rt_Name u) of
             None \<Rightarrow> None
           | Some st \<Rightarrow>
               if ws_Inflight st \<noteq> 0 then None
               else let idleSince = (if ws_LastActivity st = 0 then ws_LastSeen st else ws_LastActivity st)
                    in if idleSince = 0 \<or> now - idleSince < idleTimeout then None
                       else Some (u, idleSince))"

text \<open>The workers one run deletes, in order: the longest idle first, and never more than the ready
  workers above the minimum.\<close>

definition idle_deletions ::
    "WorkerState smap \<Rightarrow> gotime \<Rightarrow> string \<Rightarrow> GPUUnitRuntime list \<Rightarrow> idleWorkerCandidate list" where
  "idle_deletions workers now requestID units =
     (if units = [] then []
      else
        let template = templateUnit units;
            idleTimeoutSeconds = sls_IdleTimeoutSeconds (rt_Serverless template)
        in if idleTimeoutSeconds \<le> 0 then []
           else
             let minAvailable = sls_MinAvailableCount (rt_Serverless template);
                 readyUnits = filter (\<lambda>u. isReadyWorkerUnit u requestID) units
             in if int (length readyUnits) \<le> minAvailable then []
                else
                  let candidates = sort_key snd (List.map_filter
                        (idle_candidate workers now (idleTimeoutSeconds * second)) readyUnits);
                      deletions = int (length readyUnits) - minAvailable;
                      deletions = (if deletions > int (length candidates) then int (length candidates) else deletions)
                  in take (nat deletions) candidates)"

fun delete_loop :: "'w RuntimeControl \<Rightarrow> idleWorkerCandidate list \<Rightarrow> 'w \<Rightarrow> error list \<times> 'w" where
  "delete_loop R [] w = ([], w)"
| "delete_loop R ((u, idleSince) # cs) w =
     (let (r, w) = rc_Delete R (rt_Namespace u) (rt_Name u) w;
          (errs, w) = delete_loop R cs w
      in (case r of
            Inl e \<Rightarrow> (Wrap (''delete idle worker %s/%s: %w'', [FS (rt_Namespace u), FS (rt_Name u)]) e # errs, w)
          | Inr _ \<Rightarrow> (errs, w)))"

definition deleteIdleWorkers ::
    "'w RuntimeControl \<Rightarrow> WorkerState smap \<Rightarrow> string \<Rightarrow> GPUUnitRuntime list \<Rightarrow> 'w \<Rightarrow> unit res \<times> 'w" where
  "deleteIdleWorkers R workers requestID units w =
     (let (errs, w) = delete_loop R (idle_deletions workers (rc_Now R w) requestID units) w
      in (errors_Join errs, w))"

text \<open>\<^verbatim>\<open>Reconcile\<close>: the order in which the groups are visited is that of a Go map, given by the argument
  \<open>visit\<close>.\<close>

fun reconcile_groups :: "'w RuntimeControl \<Rightarrow> (string \<times> GPUUnitRuntime list) list \<Rightarrow> LifecycleManager \<Rightarrow> 'w
    \<Rightarrow> error list \<times> LifecycleManager \<times> 'w" where
  "reconcile_groups R [] m w = ([], m, w)"
| "reconcile_groups R ((requestID, us) # gs) m w =
     (let m = m\<lparr>lm_registry := Registry_Sync requestID us (lm_registry m)\<rparr>;
          (r1, w) = ensureMinAvailable R requestID us w;
          (r2, w) = deleteIdleWorkers R (lm_workers m) requestID us w;
          (errs, m, w) = reconcile_groups R gs m w
      in ((case r1 of Inl e \<Rightarrow> [e] | Inr _ \<Rightarrow> []) @ (case r2 of Inl e \<Rightarrow> [e] | Inr _ \<Rightarrow> []) @ errs, m, w))"

definition Reconcile ::
    "(GPUUnitRuntime list smap \<Rightarrow> GPUUnitRuntime list smap) \<Rightarrow> 'w RuntimeControl \<Rightarrow> LifecycleManager \<Rightarrow> 'w
     \<Rightarrow> unit res \<times> LifecycleManager \<times> 'w" where
  "Reconcile visit R m w =
     (case rc_List R [] w of
        (Inl e, w) \<Rightarrow> (Inl e, m, w)
      | (Inr units, w) \<Rightarrow>
          let (errs, m, w) = reconcile_groups R (visit (groupServerlessUnits units)) m w
          in (errors_Join errs, m, w))"

section \<open>Idle deletions\<close>

abbreviation ready_count :: "string \<Rightarrow> GPUUnitRuntime list \<Rightarrow> nat" where
  "ready_count q us \<equiv> length (filter (\<lambda>u. isReadyWorkerUnit u q) us)"

abbreviation min_available :: "GPUUnitRuntime list \<Rightarrow> int" where
  "min_available us \<equiv> sls_MinAvailableCount (rt_Serverless (templateUnit us))"

abbreviation idle_timeout :: "GPUUnitRuntime list \<Rightarrow> duration" where
  "idle_timeout us \<equiv> sls_IdleTimeoutSeconds (rt_Serverless (templateUnit us)) * second"

text \<open>A worker the table shows as idle: nothing in flight and no activity for the timeout.\<close>

definition idle_for :: "WorkerState smap \<Rightarrow> gotime \<Rightarrow> duration \<Rightarrow> GPUUnitRuntime \<Rightarrow> bool" where
  "idle_for workers now timeout u =
     (case workerState workers (rt_Namespace u) (rt_Name u) of
        None \<Rightarrow> False
      | Some st \<Rightarrow> ws_Inflight st = 0
          \<and> timeout \<le> now - (if ws_LastActivity st = 0 then ws_LastSeen st else ws_LastActivity st))"

lemma idle_candidate_Some:
  "idle_candidate workers now timeout u = Some (v, t) \<Longrightarrow>
   v = u \<and> isActivatorManagedWorker u \<and> idle_for workers now timeout u"
  by (auto simp: idle_candidate_def idle_for_def Let_def split: if_splits option.splits)

lemma idle_candidates_length:
  "length (List.map_filter (idle_candidate workers now t) us) \<le> length us"
  by (induction us) (auto simp: List.map_filter_simps split: option.splits)

lemma idle_deletions_bound:
  "length (idle_deletions workers now q us) \<le> nat (int (ready_count q us) - min_available us)"
  by (auto simp: idle_deletions_def Let_def)

lemma idle_deletions_member:
  assumes "(u, t) \<in> set (idle_deletions workers now q us)"
  shows "u \<in> set us \<and> isReadyWorkerUnit u q \<and> isActivatorManagedWorker u
    \<and> idle_for workers now (idle_timeout us) u"
proof -
  from assms have "(u, t) \<in> set (List.map_filter (idle_candidate workers now (idle_timeout us))
      (filter (\<lambda>u. isReadyWorkerUnit u q) us))"
    by (auto simp: idle_deletions_def Let_def dest!: in_set_takeD split: if_splits)
  then obtain x where "x \<in> set us" "isReadyWorkerUnit x q"
      "idle_candidate workers now (idle_timeout us) x = Some (u, t)"
    by (auto simp: List.map_filter_def)
  with idle_candidate_Some show ?thesis by blast
qed

text \<open>The longest idle candidates go first: what is kept has been idle for no longer.\<close>

lemma take_sorted_least:
  assumes "x \<in> set (take n (sort_key f xs))" "y \<in> set xs" "y \<notin> set (take n (sort_key f xs))"
  shows "f x \<le> f y"
proof -
  have "y \<in> set (drop n (sort_key f xs))"
    using assms(2,3) by (metis Un_iff append_take_drop_id set_append set_sort)
  moreover have "sorted (map f (take n (sort_key f xs) @ drop n (sort_key f xs)))"
    unfolding append_take_drop_id by (rule sorted_sort_key)
  ultimately show ?thesis using assms(1) unfolding map_append sorted_append by auto
qed

section \<open>Deletion against a runtime\<close>

lemma filter_key_less:
  fixes f :: "'a \<Rightarrow> 'b"
  assumes "distinct (map f us)"
  shows "length (filter P us) \<le> Suc (length (filter P (filter (\<lambda>u. f u \<noteq> i) us)))"
  using assms
proof (induction us)
  case (Cons v us)
  show ?case
  proof (cases "f v = i")
    case True
    have "\<forall>u \<in> set us. f u \<noteq> i" using Cons.prems True by (auto simp: image_iff)
    then have "filter (\<lambda>u. f u \<noteq> i) us = us" by (simp add: filter_id_conv)
    with True show ?thesis by simp
  next
    case False
    with Cons show ?thesis by simp
  qed
qed simp

context runtime_store
begin

lemma ready_count_mset: "mset us = mset vs \<Longrightarrow> ready_count q us = ready_count q vs"
  by (metis mset_filter size_mset)

lemma ready_count_mono: "mset us \<subseteq># mset vs \<Longrightarrow> ready_count q us \<le> ready_count q vs"
  by (metis multiset_filter_mono mset_filter size_mset size_mset_mono)

lemma delete_one:
  assumes "rc_Delete R ns n w = (r, w')"
  shows "ready_count q (units w) \<le> Suc (ready_count q (units w'))"
proof (cases r)
  case (Inl e)
  with assms delete_err show ?thesis by fastforce
next
  case (Inr x)
  with assms obtain i where d: "mset (units w') = mset (filter (\<lambda>u. unit_id u \<noteq> i) (units w))"
    using delete_ok [of ns n w w'] by auto
  show ?thesis using filter_key_less [OF ids, of "\<lambda>u. isReadyWorkerUnit u q" w i]
      ready_count_mset [OF d, of q] by simp
qed

lemma delete_loop_count:
  "delete_loop R cs w = (errs, w') \<Longrightarrow> ready_count q (units w) \<le> ready_count q (units w') + length cs"
proof (induction cs arbitrary: w errs)
  case (Cons c cs)
  obtain u t where c: "c = (u, t)" by fastforce
  obtain r w1 where d: "rc_Delete R (rt_Namespace u) (rt_Name u) w = (r, w1)" by fastforce
  obtain es w2 where l: "delete_loop R cs w1 = (es, w2)" by fastforce
  have "w' = w2" using Cons.prems c d l by (auto split: sum.splits)
  with l have "delete_loop R cs w1 = (es, w')" by simp
  from delete_one [OF d, of q] Cons.IH [OF this] show ?case by simp
qed simp

lemma delete_loop_only:
  assumes "delete_loop R cs w = (errs, w')" and "list_all (\<lambda>c. canonical_id (unit_id (fst c))) cs"
  shows "v \<in> set (units w) \<Longrightarrow> unit_id v \<notin> (unit_id \<circ> fst) ` set cs \<Longrightarrow> v \<in> set (units w')"
  using assms
proof (induction cs arbitrary: w errs)
  case (Cons c cs)
  obtain u t where c: "c = (u, t)" by fastforce
  obtain r w1 where d: "rc_Delete R (rt_Namespace u) (rt_Name u) w = (r, w1)" by fastforce
  obtain es w2 where l: "delete_loop R cs w1 = (es, w2)" by fastforce
  have can: "canonical_id (unit_id u)" "list_all (\<lambda>c. canonical_id (unit_id (fst c))) cs"
    using Cons.prems(4) c by simp_all
  have w': "w' = w2" using Cons.prems(3) c d l by (auto split: sum.splits)
  have "v \<in> set (units w1)"
  proof (cases r)
    case (Inl e)
    with d delete_err Cons.prems(1) show ?thesis by fastforce
  next
    case (Inr x)
    with d can(1) have "mset (units w1) = mset (filter (\<lambda>v. unit_id v \<noteq> unit_id u) (units w))"
      using delete_ok [of "rt_Namespace u" "rt_Name u" w w1] by auto
    then have "set (units w1) = set (filter (\<lambda>v. unit_id v \<noteq> unit_id u) (units w))" by (rule mset_eq_setD)
    with Cons.prems(1,2) c show ?thesis by auto
  qed
  moreover have "delete_loop R cs w1 = (es, w')" using l w' by simp
  ultimately show ?case using Cons.IH Cons.prems(2) can(2) by simp
qed simp

lemma prewarm_loop_keeps:
  "prewarm_loop R q t i n w = (errs, w') \<Longrightarrow> mset (units w) \<subseteq># mset (units w')"
proof (induction n arbitrary: i w errs)
  case (Suc n)
  obtain r w1 where c: "rc_Create R (buildCreateRequest t (prewarmSourceID (rc_Now R w + int i))) w = (r, w1)"
    by fastforce
  obtain es w2 where l: "prewarm_loop R q t (Suc i) n w1 = (es, w2)" by fastforce
  have "w' = w2" using Suc.prems c l by (auto split: sum.splits)
  with l have "prewarm_loop R q t (Suc i) n w1 = (es, w')" by simp
  from create_keeps [OF c] Suc.IH [OF this] show ?case using subset_mset.order_trans by blast
qed simp

lemma ensureMinAvailable_keeps:
  "ensureMinAvailable R q us w = (r, w') \<Longrightarrow> mset (units w) \<subseteq># mset (units w')"
  by (auto simp: ensureMinAvailable_def Let_def dest!: prewarm_loop_keeps split: if_splits prod.splits)

text \<open>The ready workers of a request after the idle cleanup, when the cleanup was told about all its
  units.\<close>

lemma deleteIdleWorkers_min:
  assumes "deleteIdleWorkers R workers q us w = (r, w')"
    and "ready_count q us \<le> ready_count q (units w)"
  shows "int (ready_count q (units w')) \<ge> min (int (ready_count q us)) (min_available us)"
proof -
  let ?cs = "idle_deletions workers (rc_Now R w) q us"
  obtain errs where l: "delete_loop R ?cs w = (errs, w')"
    using assms(1) by (auto simp: deleteIdleWorkers_def split: prod.splits)
  have "int (ready_count q (units w)) \<le> int (ready_count q (units w')) + int (length ?cs)"
    using delete_loop_count [OF l, of q] by linarith
  moreover have "int (length ?cs) \<le> max 0 (int (ready_count q us) - min_available us)"
    using idle_deletions_bound [of workers "rc_Now R w" q us] by linarith
  ultimately show ?thesis using assms(2) by linarith
qed

end

section \<open>Grouping\<close>

abbreviation serverless_of :: "string \<Rightarrow> GPUUnitRuntime \<Rightarrow> bool" where
  "serverless_of q u \<equiv> sls_Enabled (rt_Serverless u) \<and> sls_RequestID (rt_Serverless u) = q"

lemma group_fold:
  "map_of (fold group_add us groups) q =
     (if q \<noteq> [] \<and> filter (serverless_of q) us \<noteq> []
      then Some ((case map_of groups q of None \<Rightarrow> [] | Some vs \<Rightarrow> vs) @ filter (serverless_of q) us)
      else map_of groups q)"
proof (induction us arbitrary: groups)
  case (Cons u us)
  show ?case
  proof (cases "sls_Enabled (rt_Serverless u) \<and> sls_RequestID (rt_Serverless u) = q \<and> q \<noteq> []")
    case True
    then have "map_of (group_add u groups) q = Some ((case map_of groups q of None \<Rightarrow> [] | Some vs \<Rightarrow> vs) @ [u])"
      by simp
    with True show ?thesis by (simp add: Cons.IH del: group_add.simps)
  next
    case False
    then have "map_of (group_add u groups) q = map_of groups q" by (auto simp: Let_def)
    with False show ?thesis by (auto simp add: Cons.IH simp del: group_add.simps)
  qed
qed simp

lemma map_of_map_entries: "map_of (map (\<lambda>(k, v). (k, f v)) m) k = map_option f (map_of m k)"
  by (induction m) auto

lemma group_keys_distinct: "distinct (map fst groups) \<Longrightarrow> distinct (map fst (fold group_add us groups))"
  by (induction us arbitrary: groups) (auto simp: Let_def)

lemma serverless_group_lookup:
  "map_of (groupServerlessUnits us) q =
     (if q = [] \<or> filter (serverless_of q) us = [] then None
      else Some (sort_key rt_Name (filter (serverless_of q) us)))"
  by (simp add: groupServerlessUnits_def map_of_map_entries group_fold)

lemma serverless_group_keys: "distinct (map fst (groupServerlessUnits us))"
proof -
  have "map fst (groupServerlessUnits us) = map fst (fold group_add us [])"
    by (simp add: groupServerlessUnits_def case_prod_beta comp_def)
  then show ?thesis by (simp add: group_keys_distinct)
qed

text \<open>
  Reconciliation looks at every serverless unit in exactly one group: the group of a request
  holds precisely the enabled units of that request, in the order of their names, a request without
  units has no group, and no request has two.
\<close>

theorem serverless_groups:
  "map_of (groupServerlessUnits us) q =
     (if q = [] \<or> filter (serverless_of q) us = [] then None
      else Some (sort_key rt_Name (filter (serverless_of q) us)))
   \<and> distinct (map fst (groupServerlessUnits us))"
  by (simp add: serverless_group_lookup serverless_group_keys)

section \<open>Metrics\<close>

lemma observe_state_fields:
  "ws_Inflight (observe_state at m old) = met_Inflight m"
  "ws_LastSeen (observe_state at m old) = at"
  "ws_LastActivity (observe_state at m old) =
     (if met_EventType m \<in> {WorkerMetricEventInvocationStarted, WorkerMetricEventInvocationFinished,
           WorkerMetricEventInvocationFailed}
         \<or> met_EventType m = WorkerMetricEventRegistered \<and> ws_LastActivity old = 0
      then at else ws_LastActivity old)"
  by (cases "met_EventType m"; simp add: observe_state_def Let_def)+

text \<open>
  A metric changes the state of its own worker only, and in that state: the in-flight count and
  the time last seen are those of the metric (or the time of arrival when it has none); a start, a
  finish or a failure of an invocation counts as activity, the registration does so only when
  nothing is known yet, and a heartbeat never does.
\<close>

theorem observe_metric_effect:
  assumes "met_ServerlessRequestID m \<noteq> []" "met_WorkerName m \<noteq> []"
  shows "\<exists>st. map_of (ObserveMetric now m workers) = (map_of workers)(workerStateKey (met_WorkerNamespace m) (met_WorkerName m) \<mapsto> st)
    \<and> ws_Inflight st = met_Inflight m
    \<and> ws_LastSeen st = (if met_ReportedAt m = 0 then now else met_ReportedAt m)
    \<and> ws_LastActivity st =
        (let old = (case map_of workers (workerStateKey (met_WorkerNamespace m) (met_WorkerName m)) of
                      None \<Rightarrow> 0 | Some s \<Rightarrow> ws_LastActivity s)
         in if met_EventType m \<in> {WorkerMetricEventInvocationStarted, WorkerMetricEventInvocationFinished,
               WorkerMetricEventInvocationFailed} \<or> met_EventType m = WorkerMetricEventRegistered \<and> old = 0
            then ws_LastSeen st else old)"
proof -
  let ?old = "case map_of workers (workerStateKey (met_WorkerNamespace m) (met_WorkerName m)) of
      None \<Rightarrow> zero_worker_state | Some s \<Rightarrow> s"
  have "ws_LastActivity ?old = (case map_of workers (workerStateKey (met_WorkerNamespace m) (met_WorkerName m)) of
      None \<Rightarrow> 0 | Some s \<Rightarrow> ws_LastActivity s)"
    by (simp add: zero_worker_state_def split: option.splits)
  with assms show ?thesis
    by (intro exI [of _ "observe_state (if met_ReportedAt m = 0 then now else met_ReportedAt m) m ?old"])
      (simp add: ObserveMetric_def observe_state_fields Let_def)
qed

definition heartbeat :: WorkerMetricMessage where
  "heartbeat = \<lparr>met_Version = InvocationVersion, met_ServerlessRequestID = ''llm'', met_WorkerName = ''w'',
     met_WorkerNamespace = [], met_InvocationID = [], met_EventType = WorkerMetricEventHeartbeat,
     met_Inflight = 0, met_StatusCode = 0, met_Error = None, met_ReportedAt = 5\<rparr>"

theorem observe_metric_effect_witness:
  "\<exists>st. map_of (ObserveMetric 9 heartbeat []) = [''runtime-instance/w'' \<mapsto> st] \<and> ws_LastSeen st = 5"
proof -
  have k: "workerStateKey (met_WorkerNamespace heartbeat) (met_WorkerName heartbeat) = ''runtime-instance/w''"
    by code_simp
  have "met_ServerlessRequestID heartbeat \<noteq> []" "met_WorkerName heartbeat \<noteq> []" "met_ReportedAt heartbeat = 5"
    by (simp_all add: heartbeat_def)
  with observe_metric_effect [of heartbeat 9 "[]"] k show ?thesis by auto
qed

text \<open>
  The idle cleanup of a request deletes only ready workers of that request which the activator
  itself created, which have nothing in flight and have shown no activity for the idle timeout of
  the template, and at most as many as there are ready workers above the minimum of the template.
\<close>

theorem idle_deletions_safe:
  "list_all (\<lambda>(u, t). u \<in> set us \<and> isReadyWorkerUnit u q \<and> isActivatorManagedWorker u
       \<and> idle_for workers now (idle_timeout us) u) (idle_deletions workers now q us)
   \<and> int (length (idle_deletions workers now q us)) \<le> max 0 (int (ready_count q us) - min_available us)"
proof -
  have "int (length (idle_deletions workers now q us)) \<le> max 0 (int (ready_count q us) - min_available us)"
    using idle_deletions_bound [of workers now q us] by linarith
  then show ?thesis using idle_deletions_member by (fastforce simp: list_all_iff)
qed

end
