(* ===== verification/Serverless_Retry.thy ===== *)
theory Serverless_Retry
  imports Serverless_Types
begin

text \<open>
  \<^verbatim>\<open>pkg/serverless/reliability.go\<close>: the retry policy of a durable consumer, its normalization, its
  backoff table and the delay after a failed delivery. \<^verbatim>\<open>MaxDeliver\<close> is a Go \<^verbatim>\<open>int\<close> the code only
  compares; the delivery count is a \<open>64 word\<close>, and its conversion to a signed index and the
  possible out-of-range access are written out, with \<open>None\<close> for the panic.
\<close>

section \<open>Definitions\<close>

definition DefaultRetryMaxDeliver :: int where "DefaultRetryMaxDeliver = 5"

definition defaultRetryBackoff :: "string list" where
  "defaultRetryBackoff = [''2s'', ''10s'', ''30s'']"

record RetryPolicy =
  rp_MaxDeliver :: int
  rp_Backoff :: "string list"

record ConsumerOptions =
  co_AckWait :: duration
  co_Retry :: RetryPolicy
  co_DeadLetterSource :: DeadLetterSource

definition DefaultRetryPolicy :: RetryPolicy where
  "DefaultRetryPolicy = \<lparr>rp_MaxDeliver = DefaultRetryMaxDeliver, rp_Backoff = defaultRetryBackoff\<rparr>"

definition SplitRetryBackoff :: "string \<Rightarrow> string list" where
  "SplitRetryBackoff value = filter (\<lambda>t. t \<noteq> []) (map TrimSpace (split_on CHR '','' value))"

definition RetryPolicyFromEnv :: "string \<Rightarrow> string \<Rightarrow> RetryPolicy" where
  "RetryPolicyFromEnv maxDeliverValue backoffValue =
     (let policy = \<lparr>rp_MaxDeliver = 0, rp_Backoff = []\<rparr>;
          policy = (case Atoi (TrimSpace maxDeliverValue) of
                      Some parsed \<Rightarrow> policy\<lparr>rp_MaxDeliver := parsed\<rparr> | None \<Rightarrow> policy);
          values = SplitRetryBackoff backoffValue
      in if values \<noteq> [] then policy\<lparr>rp_Backoff := values\<rparr> else policy)"

definition check_backoff :: "string \<Rightarrow> unit res" where
  "check_backoff value =
     (case ParseDuration (TrimSpace value) of
        None \<Rightarrow> Inl (ErrorText (''parse retry backoff %q: %w'', [FS value]))
      | Some d \<Rightarrow> if d \<le> 0 then Inl (ErrorText (''retry backoff %q must be > 0'', [FS value]))
                  else Inr ())"

definition RetryPolicy_Normalized :: "RetryPolicy \<Rightarrow> RetryPolicy res" where
  "RetryPolicy_Normalized p =
     (let policy = (if rp_MaxDeliver p \<le> 0 then p\<lparr>rp_MaxDeliver := DefaultRetryMaxDeliver\<rparr> else p);
          policy = (if rp_Backoff policy = [] then policy\<lparr>rp_Backoff := defaultRetryBackoff\<rparr> else policy)
      in if int (length (rp_Backoff policy)) > rp_MaxDeliver policy
         then Inl (ErrorText (''retry backoff entries (%d) must be <= maxDeliver (%d)'',
                [FI (int (length (rp_Backoff policy))), FI (rp_MaxDeliver policy)]))
         else andThen (checkAll check_backoff (rp_Backoff policy)) (\<lambda>_. Inr policy))"

text \<open>The duration a string that may not parse stands for: \<^verbatim>\<open>d, _ := time.ParseDuration(v)\<close>.\<close>

definition duration_or_zero :: "string \<Rightarrow> duration" where
  "duration_or_zero v = (case ParseDuration v of None \<Rightarrow> 0 | Some d \<Rightarrow> d)"

definition BackoffDurations :: "RetryPolicy \<Rightarrow> duration list" where
  "BackoffDurations p =
     filter (\<lambda>d. d > 0) (map (\<lambda>value. duration_or_zero (TrimSpace value)) (rp_Backoff p))"

definition DelayForDelivery :: "RetryPolicy \<Rightarrow> uint64 \<Rightarrow> duration option" where
  "DelayForDelivery p delivery =
     (let delays = BackoffDurations p
      in if delays = [] then Some 0
         else if delivery = 0 then Some (delays ! 0)
         else let index = sint (delivery - 1);
                  index = (if index \<ge> int (length delays) then int (length delays) - 1 else index)
              in if index < 0 then None else Some (delays ! nat index))"

definition ConsumerOptions_Normalized :: "ConsumerOptions \<Rightarrow> duration \<Rightarrow> ConsumerOptions res" where
  "ConsumerOptions_Normalized opts defaultAckWait =
     (let opts = (if co_AckWait opts \<le> 0 then opts\<lparr>co_AckWait := defaultAckWait\<rparr> else opts);
          opts = (if co_AckWait opts \<le> 0 then opts\<lparr>co_AckWait := 30 * second\<rparr> else opts)
      in andThen (RetryPolicy_Normalized (co_Retry opts)) (\<lambda>retry. Inr (opts\<lparr>co_Retry := retry\<rparr>)))"

section \<open>Normalized policies\<close>

definition backoff_ok :: "string \<Rightarrow> bool" where
  "backoff_ok value = (case ParseDuration (TrimSpace value) of None \<Rightarrow> False | Some d \<Rightarrow> d > 0)"

definition wf_policy :: "RetryPolicy \<Rightarrow> bool" where
  "wf_policy p = (1 \<le> rp_MaxDeliver p \<and> rp_Backoff p \<noteq> []
     \<and> int (length (rp_Backoff p)) \<le> rp_MaxDeliver p \<and> list_all backoff_ok (rp_Backoff p))"

lemma check_backoff_iff [simp]: "check_backoff v = Inr u \<longleftrightarrow> backoff_ok v"
  by (auto simp: check_backoff_def backoff_ok_def split: option.splits)

lemma default_backoff_ok: "list_all backoff_ok defaultRetryBackoff"
  by code_simp

text \<open>The policy after defaulting, before it is checked.\<close>

definition defaulted :: "RetryPolicy \<Rightarrow> RetryPolicy" where
  "defaulted p =
     \<lparr>rp_MaxDeliver = (if rp_MaxDeliver p \<le> 0 then DefaultRetryMaxDeliver else rp_MaxDeliver p),
      rp_Backoff = (if rp_Backoff p = [] then defaultRetryBackoff else rp_Backoff p)\<rparr>"

lemma RetryPolicy_Normalized_Inr:
  "RetryPolicy_Normalized p = Inr q \<longleftrightarrow> q = defaulted p \<and> wf_policy (defaulted p)"
proof -
  have "(let policy = (if rp_MaxDeliver p \<le> 0 then p\<lparr>rp_MaxDeliver := DefaultRetryMaxDeliver\<rparr> else p)
      in if rp_Backoff policy = [] then policy\<lparr>rp_Backoff := defaultRetryBackoff\<rparr> else policy)
    = defaulted p"
    by (cases p) (simp add: defaulted_def)
  then have "RetryPolicy_Normalized p = Inr q \<longleftrightarrow> q = defaulted p
    \<and> int (length (rp_Backoff (defaulted p))) \<le> rp_MaxDeliver (defaulted p)
    \<and> list_all backoff_ok (rp_Backoff (defaulted p))"
    unfolding RetryPolicy_Normalized_def Let_def
    by (auto simp: result_simps list_all_iff not_less)
  moreover have "1 \<le> rp_MaxDeliver (defaulted p)" "rp_Backoff (defaulted p) \<noteq> []"
    by (auto simp: defaulted_def DefaultRetryMaxDeliver_def defaultRetryBackoff_def)
  ultimately show ?thesis by (auto simp: wf_policy_def)
qed

lemma defaulted_id: "wf_policy p \<Longrightarrow> defaulted p = p"
  by (cases p) (simp add: wf_policy_def defaulted_def)

lemma BackoffDurations_wf:
  assumes "wf_policy p"
  shows "BackoffDurations p = map (\<lambda>v. duration_or_zero (TrimSpace v)) (rp_Backoff p)"
    and "d \<in> set (BackoffDurations p) \<Longrightarrow> 0 < d"
  using assms
  by (auto simp: BackoffDurations_def wf_policy_def backoff_ok_def duration_or_zero_def list_all_iff
      intro!: filter_True split: option.splits)

lemma sint_small:
  assumes "unat (d :: uint64) < 2 ^ 63"
  shows "sint d = int (unat d)"
proof -
  have "int (unat d) < int (2 ^ 63)" using assms by (simp only: of_nat_less_iff)
  then have "int (unat d) < 2 ^ 63" by (simp only: of_nat_power of_nat_numeral)
  then have "uint d < 2 ^ 63" by (simp only: uint_nat)
  moreover have "0 \<le> uint d" by (rule uint_ge_0)
  ultimately have "signed_take_bit 63 (uint d) = uint d"
    by (intro signed_take_bit_int_eq_self) linarith+
  then have "sint d = uint d" by (simp only: sint_uint) simp
  then show ?thesis by (simp only: uint_nat)
qed

lemma sint_pred:
  assumes "d \<noteq> 0" "unat (d :: uint64) \<le> 2 ^ 63"
  shows "sint (d - 1) = int (unat d) - 1"
proof -
  have u: "unat (d - 1) = unat d - 1" using assms(1) by (rule unat_minus_one)
  have p: "0 < unat d" using assms(1) by (simp add: unat_gt_0)
  with u assms(2) have "unat (d - 1) < 2 ^ 63" by simp
  with u p show ?thesis by (simp add: sint_small of_nat_diff Suc_leI)
qed

lemma DelayForDelivery_wf:
  assumes wf: "wf_policy q" and "1 \<le> unat n" and "unat n \<le> 2 ^ 63"
  shows "\<exists>d. DelayForDelivery q n = Some d \<and> 0 < d
    \<and> d = BackoffDurations q ! (min (unat n) (length (BackoffDurations q)) - 1)"
proof -
  let ?ds = "BackoffDurations q" and ?k = "min (unat n) (length (BackoffDurations q)) - 1"
  from wf have ne: "?ds \<noteq> []" by (simp add: BackoffDurations_wf(1)) (simp add: wf_policy_def)
  have n0: "n \<noteq> 0" using assms(2) by auto
  obtain m where m: "unat n = Suc m" using assms(2) by (cases "unat n") auto
  then have idx: "sint (n - 1) = int m" using sint_pred [OF n0 assms(3)] by simp
  have "DelayForDelivery q n = Some (?ds ! ?k)"
  proof (cases "m < length ?ds")
    case True
    with m have "?k = m" by simp
    with True ne n0 idx show ?thesis by (simp add: DelayForDelivery_def Let_def)
  next
    case False
    with m have "?k = length ?ds - 1" by simp
    with False ne n0 idx show ?thesis
      by (simp add: DelayForDelivery_def Let_def nat_diff_distrib Suc_leI)
  qed
  moreover have "?k < length ?ds" using ne assms(2) by (cases ?ds) auto
  then have "0 < ?ds ! ?k" using BackoffDurations_wf(2) [OF wf] nth_mem by blast
  ultimately show ?thesis by blast
qed

section \<open>Properties\<close>

text \<open>A retry policy that normalization accepts is well formed: at least one delivery, a
  non-empty backoff table of positive durations that is no longer than the number of deliveries.
  Normalizing it again changes nothing.\<close>

theorem retry_policy_normalized:
  assumes "RetryPolicy_Normalized p = Inr q"
  shows "wf_policy q \<and> length (BackoffDurations q) = length (rp_Backoff q)
    \<and> RetryPolicy_Normalized q = Inr q"
  using assms by (auto simp: RetryPolicy_Normalized_Inr defaulted_id BackoffDurations_wf(1))

theorem retry_policy_normalized_witness:
  "wf_policy DefaultRetryPolicy \<and> length (BackoffDurations DefaultRetryPolicy) = 3
    \<and> RetryPolicy_Normalized DefaultRetryPolicy = Inr DefaultRetryPolicy"
proof -
  have "RetryPolicy_Normalized DefaultRetryPolicy = Inr DefaultRetryPolicy" by code_simp
  from retry_policy_normalized [OF this] show ?thesis
    by (simp add: DefaultRetryPolicy_def defaultRetryBackoff_def)
qed

text \<open>After delivery number \<open>n\<close> of a message fails, a consumer with a normalized policy waits
  for the \<open>n\<close>-th entry of the backoff table, or its last entry once the table is exhausted: for
  every delivery count up to \<open>2^63\<close> the delay exists (no index is out of range) and is positive.\<close>

theorem delay_for_delivery:
  assumes "RetryPolicy_Normalized p = Inr q" and "1 \<le> unat n" and "unat n \<le> 2 ^ 63"
  shows "\<exists>d. DelayForDelivery q n = Some d \<and> 0 < d
    \<and> d = BackoffDurations q ! (min (unat n) (length (BackoffDurations q)) - 1)"
  using assms by (intro DelayForDelivery_wf) (simp_all add: RetryPolicy_Normalized_Inr)

theorem delay_for_delivery_witness:
  "DelayForDelivery DefaultRetryPolicy 4 = Some (30 * second)"
proof -
  have ok: "RetryPolicy_Normalized DefaultRetryPolicy = Inr DefaultRetryPolicy" by code_simp
  have ds: "BackoffDurations DefaultRetryPolicy = [2 * second, 10 * second, 30 * second]" by code_simp
  show ?thesis using delay_for_delivery [OF ok, of 4] by (simp add: ds)
qed

text \<open>A policy that sets a delivery limit of one or two and leaves the backoff table out is
  rejected: the table defaults to three entries before its length is compared with the limit, so
  \<^verbatim>\<open>maxDeliver: 2\<close> alone is not a configuration the program starts with.\<close>

theorem retry_policy_small_limit_rejected:
  assumes "1 \<le> m" and "m \<le> 2"
  shows "RetryPolicy_Normalized \<lparr>rp_MaxDeliver = m, rp_Backoff = []\<rparr>
    = Inl (ErrorText (''retry backoff entries (%d) must be <= maxDeliver (%d)'', [FI 3, FI m]))"
  using assms by (simp add: RetryPolicy_Normalized_def defaultRetryBackoff_def)

theorem retry_policy_small_limit_rejected_witness:
  "\<not> isOk (RetryPolicy_Normalized \<lparr>rp_MaxDeliver = 2, rp_Backoff = []\<rparr>)"
  using retry_policy_small_limit_rejected [of 2] by simp

end
