(* ===== verification/Serverless_Config.thy ===== *)
theory Serverless_Config
  imports Serverless_Retry Api_Types
begin

text \<open>
  \<^verbatim>\<open>pkg/serverless/config.go\<close>, \<^verbatim>\<open>worker_config.go\<close> and \<^verbatim>\<open>pkg/secureconfig\<close>: the configuration of the
  queue. The file system is a function from paths to contents; the certificate functions of
  \<^verbatim>\<open>crypto/tls\<close> and \<^verbatim>\<open>crypto/x509\<close> are the record \<open>cert_lib\<close>. The lemmas show that an accepted
  credential block leads to at most one way to authenticate, and what an accepted configuration
  guarantees. The URL helpers at the end of \<^verbatim>\<open>config.go\<close> are not modelled.
\<close>

section \<open>secureconfig\<close>

record TLSConfig =
  tls_Enabled :: bool
  tls_CAFile :: string
  tls_CertFile :: string
  tls_KeyFile :: string
  tls_ServerName :: string
  tls_InsecureSkipVerify :: bool

definition EnabledByConfig :: "TLSConfig \<Rightarrow> bool" where
  "EnabledByConfig c = (tls_Enabled c \<or> TrimSpace (tls_CAFile c) \<noteq> [] \<or> TrimSpace (tls_CertFile c) \<noteq> []
     \<or> TrimSpace (tls_KeyFile c) \<noteq> [] \<or> TrimSpace (tls_ServerName c) \<noteq> [] \<or> tls_InsecureSkipVerify c)"

definition TLSConfig_Normalized :: "TLSConfig \<Rightarrow> TLSConfig" where
  "TLSConfig_Normalized c0 =
     (let c = c0\<lparr>tls_CAFile := TrimSpace (tls_CAFile c0), tls_CertFile := TrimSpace (tls_CertFile c0),
            tls_KeyFile := TrimSpace (tls_KeyFile c0), tls_ServerName := TrimSpace (tls_ServerName c0)\<rparr>
      in if EnabledByConfig c then c\<lparr>tls_Enabled := True\<rparr> else c)"

type_synonym file_system = "string \<Rightarrow> string res"

record 'c cert_lib =
  valid_PEM :: "string \<Rightarrow> bool"
  LoadX509KeyPair :: "string \<Rightarrow> string \<Rightarrow> 'c res"

record 'c ClientTLS =
  ctls_ServerName :: string
  ctls_InsecureSkipVerify :: bool
  ctls_RootCAs :: "string option"
  ctls_Certificates :: "'c list"

definition BuildClientTLSConfig ::
    "'c cert_lib \<Rightarrow> file_system \<Rightarrow> TLSConfig \<Rightarrow> 'c ClientTLS option res" where
  "BuildClientTLSConfig L fs c =
     (let cfg = TLSConfig_Normalized c
      in if \<not> tls_Enabled cfg then Inr None
      else if (tls_CertFile cfg = []) \<noteq> (tls_KeyFile cfg = [])
        then Inl (ErrorText (msg ''tls certFile and keyFile must be configured together''))
      else
        andThen (if tls_CAFile cfg \<noteq> [] then
                   (case fs (tls_CAFile cfg) of
                      Inl e \<Rightarrow> Inl (Wrap (''read tls caFile %s: %w'', [FS (tls_CAFile cfg)]) e)
                    | Inr pem \<Rightarrow> if valid_PEM L pem then Inr (Some pem)
                        else Inl (ErrorText (''tls caFile %s does not contain a valid PEM certificate'', [FS (tls_CAFile cfg)])))
                 else Inr None) (\<lambda>roots.
        andThen (if tls_CertFile cfg \<noteq> [] then
                   (case LoadX509KeyPair L (tls_CertFile cfg) (tls_KeyFile cfg) of
                      Inl e \<Rightarrow> Inl (Wrap (msg ''load tls client certificate: %w'') e)
                    | Inr cert \<Rightarrow> Inr [cert])
                 else Inr []) (\<lambda>certs.
          Inr (Some \<lparr>ctls_ServerName = tls_ServerName cfg,
            ctls_InsecureSkipVerify = tls_InsecureSkipVerify cfg,
            ctls_RootCAs = roots, ctls_Certificates = certs\<rparr>))))"

definition ReadSecretFile :: "file_system \<Rightarrow> string \<Rightarrow> string res" where
  "ReadSecretFile fs path0 =
     (let path = TrimSpace path0
      in if path = [] then Inr []
         else case fs path of
                Inl e \<Rightarrow> Inl (Wrap (''read secret file %s: %w'', [FS path]) e)
              | Inr content \<Rightarrow> Inr (TrimSpace content))"

section \<open>Credentials\<close>

record NATSAuthConfig =
  auth_Token :: string
  auth_TokenFile :: string
  auth_Username :: string
  auth_UsernameFile :: string
  auth_Password :: string
  auth_PasswordFile :: string
  auth_CredentialsFile :: string

definition zero_auth :: NATSAuthConfig where
  "zero_auth = \<lparr>auth_Token = [], auth_TokenFile = [], auth_Username = [], auth_UsernameFile = [],
     auth_Password = [], auth_PasswordFile = [], auth_CredentialsFile = []\<rparr>"

definition Auth_Normalized :: "NATSAuthConfig \<Rightarrow> NATSAuthConfig res" where
  "Auth_Normalized a =
     (let token = TrimSpace (auth_Token a); tokenFile = TrimSpace (auth_TokenFile a);
          username = TrimSpace (auth_Username a); usernameFile = TrimSpace (auth_UsernameFile a);
          password = TrimSpace (auth_Password a); passwordFile = TrimSpace (auth_PasswordFile a);
          credentialsFile = TrimSpace (auth_CredentialsFile a)
      in if credentialsFile \<noteq> [] \<and> (token \<noteq> [] \<or> tokenFile \<noteq> [] \<or> username \<noteq> [] \<or> usernameFile \<noteq> []
            \<or> password \<noteq> [] \<or> passwordFile \<noteq> [])
        then Inl (ErrorText (msg ''credentialsFile cannot be combined with token or username/password auth''))
      else if token \<noteq> [] \<and> tokenFile \<noteq> []
        then Inl (ErrorText (msg ''token and tokenFile are mutually exclusive''))
      else if username \<noteq> [] \<and> usernameFile \<noteq> []
        then Inl (ErrorText (msg ''username and usernameFile are mutually exclusive''))
      else if password \<noteq> [] \<and> passwordFile \<noteq> []
        then Inl (ErrorText (msg ''password and passwordFile are mutually exclusive''))
      else if (username \<noteq> [] \<or> usernameFile \<noteq> []) \<noteq> (password \<noteq> [] \<or> passwordFile \<noteq> [])
        then Inl (ErrorText (msg ''username and password must be configured together''))
      else if (token \<noteq> [] \<or> tokenFile \<noteq> [])
            \<and> (username \<noteq> [] \<or> usernameFile \<noteq> [] \<or> password \<noteq> [] \<or> passwordFile \<noteq> [])
        then Inl (ErrorText (msg ''token auth cannot be combined with username/password auth''))
      else Inr \<lparr>auth_Token = token, auth_TokenFile = tokenFile, auth_Username = username,
             auth_UsernameFile = usernameFile, auth_Password = password, auth_PasswordFile = passwordFile,
             auth_CredentialsFile = credentialsFile\<rparr>)"

definition ResolvedToken :: "file_system \<Rightarrow> NATSAuthConfig \<Rightarrow> string res" where
  "ResolvedToken fs a = (if auth_Token a \<noteq> [] then Inr (auth_Token a) else ReadSecretFile fs (auth_TokenFile a))"

definition ResolvedUserInfo :: "file_system \<Rightarrow> NATSAuthConfig \<Rightarrow> (string \<times> string) res" where
  "ResolvedUserInfo fs a =
     andThen (if auth_Username a = [] then ReadSecretFile fs (auth_UsernameFile a) else Inr (auth_Username a)) (\<lambda>username.
     andThen (if auth_Password a = [] then ReadSecretFile fs (auth_PasswordFile a) else Inr (auth_Password a)) (\<lambda>password.
       Inr (username, password)))"

section \<open>Network policy target\<close>

record NATSNetworkPolicyTarget =
  npt_Namespace :: string
  npt_PodLabels :: "string smap"

definition label_entry :: "'q k8s \<Rightarrow> string smap \<Rightarrow> string \<Rightarrow> string smap \<Rightarrow> string smap res" where
  "label_entry K labels key out =
     (let trimmedKey = TrimSpace key;
          trimmedValue = TrimSpace (case map_of labels key of Some v \<Rightarrow> v | None \<Rightarrow> [])
      in if trimmedKey = [] then Inl (ErrorText (msg ''podLabels contains an empty key''))
      else if IsQualifiedName K trimmedKey \<noteq> []
        then Inl (ErrorText (''podLabels key %q is invalid: %s'', [FS trimmedKey, FS (join '', '' (IsQualifiedName K trimmedKey))]))
      else if IsValidLabelValue K trimmedValue \<noteq> []
        then Inl (ErrorText (''podLabels[%q] value %q is invalid: %s'',
               [FS trimmedKey, FS trimmedValue, FS (join '', '' (IsValidLabelValue K trimmedValue))]))
      else Inr (map_put trimmedKey trimmedValue out))"

definition Target_Normalized :: "'q k8s \<Rightarrow> NATSNetworkPolicyTarget \<Rightarrow> NATSNetworkPolicyTarget res" where
  "Target_Normalized K t =
     (let namespace = TrimSpace (npt_Namespace t)
      in if namespace \<noteq> [] \<and> IsDNS1123Label K namespace \<noteq> []
         then Inl (ErrorText (''namespace %q is invalid: %s'', [FS namespace, FS (join '', '' (IsDNS1123Label K namespace))]))
         else if npt_PodLabels t = [] then Inr \<lparr>npt_Namespace = namespace, npt_PodLabels = []\<rparr>
         else andThen (foldRes (label_entry K (npt_PodLabels t)) (sort (map fst (npt_PodLabels t))) [])
                (\<lambda>labels. Inr \<lparr>npt_Namespace = namespace, npt_PodLabels = labels\<rparr>))"

section \<open>NATSConfig\<close>

definition DefaultStreamName :: string where "DefaultStreamName = ''RUNTIME_SERVERLESS''"
definition DefaultStreamMaxAge :: string where "DefaultStreamMaxAge = ''72h''"
definition DefaultConnectTimeout :: string where "DefaultConnectTimeout = ''5s''"
definition DefaultDuplicatesWindow :: string where "DefaultDuplicatesWindow = ''24h''"

record NATSConfig =
  nats_URL :: string
  nats_SubjectPrefix :: string
  nats_StreamName :: string
  nats_StreamReplicas :: int
  nats_StreamMaxAge :: string
  nats_ConnectTimeout :: string
  nats_DuplicatesWindow :: string
  nats_Auth :: NATSAuthConfig
  nats_TLS :: TLSConfig
  nats_NetworkPolicyTarget :: NATSNetworkPolicyTarget

definition zero_tls :: TLSConfig where
  "zero_tls = \<lparr>tls_Enabled = False, tls_CAFile = [], tls_CertFile = [], tls_KeyFile = [], tls_ServerName = [],
     tls_InsecureSkipVerify = False\<rparr>"

definition DefaultNATSConfig :: NATSConfig where
  "DefaultNATSConfig = \<lparr>nats_URL = [], nats_SubjectPrefix = DefaultSubjectPrefix,
     nats_StreamName = DefaultStreamName, nats_StreamReplicas = 1, nats_StreamMaxAge = DefaultStreamMaxAge,
     nats_ConnectTimeout = DefaultConnectTimeout, nats_DuplicatesWindow = DefaultDuplicatesWindow,
     nats_Auth = zero_auth, nats_TLS = zero_tls,
     nats_NetworkPolicyTarget = \<lparr>npt_Namespace = [], npt_PodLabels = []\<rparr>\<rparr>"

definition NATSConfig_Enabled :: "NATSConfig \<Rightarrow> bool" where
  "NATSConfig_Enabled c = (TrimSpace (nats_URL c) \<noteq> [])"

text \<open>\<^verbatim>\<open>if _, err := time.ParseDuration(v); err != nil { ... }\<close>\<close>

definition check_duration :: "string \<Rightarrow> string \<Rightarrow> unit res" where
  "check_duration field v =
     (case ParseDuration v of None \<Rightarrow> Inl (ErrorText (field, [FS v])) | Some _ \<Rightarrow> Inr ())"

definition name_specials :: string where
  "name_specials = '' .*>/'' @ [CHR 0x5C]"

definition NATSConfig_Normalized :: "'q k8s \<Rightarrow> NATSConfig \<Rightarrow> NATSConfig res" where
  "NATSConfig_Normalized K c =
     (let streamName = TrimSpace (or_default (nats_StreamName c) DefaultStreamName);
          streamMaxAge = or_default (nats_StreamMaxAge c) DefaultStreamMaxAge;
          connectTimeout = or_default (nats_ConnectTimeout c) DefaultConnectTimeout;
          duplicatesWindow = or_default (nats_DuplicatesWindow c) DefaultDuplicatesWindow
      in if ContainsAny streamName name_specials
         then Inl (ErrorText (''streamName %q is invalid'', [FS streamName]))
         else
         andThen (check_duration ''parse streamMaxAge %q: %w'' streamMaxAge) (\<lambda>_.
         andThen (check_duration ''parse connectTimeout %q: %w'' connectTimeout) (\<lambda>_.
         andThen (check_duration ''parse duplicatesWindow %q: %w'' duplicatesWindow) (\<lambda>_.
         andThen (mapErr (Wrap (msg ''normalize auth: %w'')) (Auth_Normalized (nats_Auth c))) (\<lambda>auth.
         andThen (mapErr (Wrap (msg ''normalize networkPolicyTarget: %w''))
                    (Target_Normalized K (nats_NetworkPolicyTarget c))) (\<lambda>target.
           Inr \<lparr>nats_URL = TrimSpace (nats_URL c),
             nats_SubjectPrefix = NormalizeSubjectPrefix (nats_SubjectPrefix c),
             nats_StreamName = streamName,
             nats_StreamReplicas = (if nats_StreamReplicas c \<le> 0 then 1 else nats_StreamReplicas c),
             nats_StreamMaxAge = streamMaxAge, nats_ConnectTimeout = connectTimeout,
             nats_DuplicatesWindow = duplicatesWindow, nats_Auth = auth,
             nats_TLS = TLSConfig_Normalized (nats_TLS c), nats_NetworkPolicyTarget = target\<rparr>))))))"

definition HasNetworkPolicyTarget :: "NATSConfig \<Rightarrow> bool" where
  "HasNetworkPolicyTarget c = (npt_PodLabels (nats_NetworkPolicyTarget c) \<noteq> [])"

text \<open>\<^verbatim>\<open>natsConnectOptions\<close> of \<^verbatim>\<open>nats.go\<close>: the options of the connection.\<close>

datatype 'c nats_option =
    OptTimeout duration | OptName string | OptUserCredentials string | OptToken string
  | OptUserInfo string string | OptSecure "'c ClientTLS"

definition natsConnectOptions ::
    "'c cert_lib \<Rightarrow> file_system \<Rightarrow> NATSConfig \<Rightarrow> duration \<Rightarrow> 'c nats_option list res" where
  "natsConnectOptions L fs cfg connectTimeout =
     (let opts = [OptTimeout connectTimeout, OptName ''gpu-runtime-serverless-ingress''];
          opts = (if auth_CredentialsFile (nats_Auth cfg) \<noteq> []
                  then opts @ [OptUserCredentials (auth_CredentialsFile (nats_Auth cfg))] else opts)
      in andThen (ResolvedToken fs (nats_Auth cfg)) (\<lambda>token.
         andThen (ResolvedUserInfo fs (nats_Auth cfg)) (\<lambda>(username, password).
         andThen (BuildClientTLSConfig L fs (nats_TLS cfg)) (\<lambda>tlsConfig.
           Inr (opts @ (if token \<noteq> [] then [OptToken token] else [])
             @ (if username \<noteq> [] \<or> password \<noteq> [] then [OptUserInfo username password] else [])
             @ (case tlsConfig of None \<Rightarrow> [] | Some t \<Rightarrow> [OptSecure t]))))))"

section \<open>Worker sidecar injection\<close>

definition DefaultWorkerSidecarImage :: string where
  "DefaultWorkerSidecarImage = ''ghcr.io/lokiwager/gpu-runtime-serverless-sidecar:latest''"
definition DefaultWorkerSidecarHealthPort :: int where "DefaultWorkerSidecarHealthPort = 8091"
definition DefaultWorkerSidecarHeartbeatInterval :: string where
  "DefaultWorkerSidecarHeartbeatInterval = ''15s''"

record WorkerSidecarConfig =
  wsc_Image :: string
  wsc_HealthPort :: int
  wsc_HeartbeatInterval :: string
  wsc_DispatchRetry :: RetryPolicy

definition DefaultWorkerSidecarConfig :: WorkerSidecarConfig where
  "DefaultWorkerSidecarConfig = \<lparr>wsc_Image = DefaultWorkerSidecarImage,
     wsc_HealthPort = DefaultWorkerSidecarHealthPort,
     wsc_HeartbeatInterval = DefaultWorkerSidecarHeartbeatInterval,
     wsc_DispatchRetry = DefaultRetryPolicy\<rparr>"

definition WorkerSidecarConfig_Normalized :: "WorkerSidecarConfig \<Rightarrow> WorkerSidecarConfig res" where
  "WorkerSidecarConfig_Normalized c =
     (let heartbeat = (if TrimSpace (wsc_HeartbeatInterval c) = [] then DefaultWorkerSidecarHeartbeatInterval
            else wsc_HeartbeatInterval c)
      in andThen (check_duration ''parse heartbeatInterval %q: %w'' heartbeat) (\<lambda>_.
         andThen (mapErr (Wrap (msg ''normalize dispatchRetry: %w'')) (RetryPolicy_Normalized (wsc_DispatchRetry c))) (\<lambda>retry.
           Inr \<lparr>wsc_Image = or_default (TrimSpace (wsc_Image c)) DefaultWorkerSidecarImage,
             wsc_HealthPort = (if wsc_HealthPort c \<le> 0 \<or> wsc_HealthPort c > 65535
                then DefaultWorkerSidecarHealthPort else wsc_HealthPort c),
             wsc_HeartbeatInterval = heartbeat, wsc_DispatchRetry = retry\<rparr>)))"

section \<open>One way to authenticate\<close>

abbreviation is_auth :: "'c nats_option \<Rightarrow> bool" where
  "is_auth opt \<equiv> (case opt of OptUserCredentials _ \<Rightarrow> True | OptToken _ \<Rightarrow> True | OptUserInfo _ _ \<Rightarrow> True
     | _ \<Rightarrow> False)"

text \<open>The three ways to authenticate a credential block can name.\<close>

definition has_credentials :: "NATSAuthConfig \<Rightarrow> bool" where
  "has_credentials a = (auth_CredentialsFile a \<noteq> [])"

definition has_token :: "NATSAuthConfig \<Rightarrow> bool" where
  "has_token a = (auth_Token a \<noteq> [] \<or> auth_TokenFile a \<noteq> [])"

definition has_user :: "NATSAuthConfig \<Rightarrow> bool" where
  "has_user a = (auth_Username a \<noteq> [] \<or> auth_UsernameFile a \<noteq> [] \<or> auth_Password a \<noteq> [] \<or> auth_PasswordFile a \<noteq> [])"

lemma Auth_Normalized_exclusive:
  assumes "Auth_Normalized a0 = Inr a"
  shows "\<not> (has_credentials a \<and> has_token a)" "\<not> (has_credentials a \<and> has_user a)" "\<not> (has_token a \<and> has_user a)"
proof -
  let ?a = "\<lparr>auth_Token = TrimSpace (auth_Token a0), auth_TokenFile = TrimSpace (auth_TokenFile a0),
      auth_Username = TrimSpace (auth_Username a0), auth_UsernameFile = TrimSpace (auth_UsernameFile a0),
      auth_Password = TrimSpace (auth_Password a0), auth_PasswordFile = TrimSpace (auth_PasswordFile a0),
      auth_CredentialsFile = TrimSpace (auth_CredentialsFile a0)\<rparr>"
  have f: "has_credentials ?a \<longleftrightarrow> TrimSpace (auth_CredentialsFile a0) \<noteq> []"
    "has_token ?a \<longleftrightarrow> TrimSpace (auth_Token a0) \<noteq> [] \<or> TrimSpace (auth_TokenFile a0) \<noteq> []"
    "has_user ?a \<longleftrightarrow> TrimSpace (auth_Username a0) \<noteq> [] \<or> TrimSpace (auth_UsernameFile a0) \<noteq> []
      \<or> TrimSpace (auth_Password a0) \<noteq> [] \<or> TrimSpace (auth_PasswordFile a0) \<noteq> []"
    by (simp_all add: has_credentials_def has_token_def has_user_def)
  note g = assms [unfolded Auth_Normalized_def Let_def guard_Inr_iff sum.inject]
  have a: "a = ?a" using g by (elim conjE) (rule sym)
  show "\<not> (has_credentials a \<and> has_token a)" "\<not> (has_credentials a \<and> has_user a)"
    unfolding a f using g by (elim conjE, blast)+
  show "\<not> (has_token a \<and> has_user a)" unfolding a f using g by (elim conjE) blast
qed

lemma ReadSecretFile_empty [simp]: "ReadSecretFile fs [] = Inr []"
  by (simp add: ReadSecretFile_def)

lemma no_token: "\<not> has_token a \<Longrightarrow> ResolvedToken fs a = Inr []"
  by (simp add: has_token_def ResolvedToken_def)

lemma no_user: "\<not> has_user a \<Longrightarrow> ResolvedUserInfo fs a = Inr ([], [])"
  by (simp add: has_user_def ResolvedUserInfo_def)

text \<open>
  A credential block that is accepted never leads to two ways to authenticate: whatever the
  secret files contain, the options of the connection hold at most one of credentials file, token
  and user information.
\<close>

theorem nats_single_authentication:
  assumes "Auth_Normalized a = Inr (nats_Auth cfg)" "natsConnectOptions L fs cfg t = Inr opts"
  shows "length (filter is_auth opts) \<le> 1"
proof -
  note ex = Auth_Normalized_exclusive [OF assms(1)]
  from assms(2) obtain token username password tls where
    tok: "ResolvedToken fs (nats_Auth cfg) = Inr token"
    and usr: "ResolvedUserInfo fs (nats_Auth cfg) = Inr (username, password)"
    and opts: "opts = [OptTimeout t, OptName ''gpu-runtime-serverless-ingress'']
        @ (if has_credentials (nats_Auth cfg) then [OptUserCredentials (auth_CredentialsFile (nats_Auth cfg))] else [])
        @ (if token \<noteq> [] then [OptToken token] else [])
        @ (if username \<noteq> [] \<or> password \<noteq> [] then [OptUserInfo username password] else [])
        @ (case tls of None \<Rightarrow> [] | Some s \<Rightarrow> [OptSecure s])"
    by (cases "has_credentials (nats_Auth cfg)")
      (auto simp: natsConnectOptions_def Let_def andThen_Inr_iff has_credentials_def)
  have "filter is_auth (case tls of None \<Rightarrow> [] | Some s \<Rightarrow> [OptSecure s]) = []"
    by (cases tls) simp_all
  moreover have "token = [] \<or> has_token (nats_Auth cfg)" using tok no_token by fastforce
  moreover have "username = [] \<and> password = [] \<or> has_user (nats_Auth cfg)" using usr no_user by fastforce
  ultimately show ?thesis using ex unfolding opts by auto
qed

definition ref_certs :: "unit cert_lib" where
  "ref_certs = \<lparr>valid_PEM = (\<lambda>s. s \<noteq> []), LoadX509KeyPair = (\<lambda>c k. Inr ())\<rparr>"

theorem nats_single_authentication_witness:
  "\<exists>opts. natsConnectOptions ref_certs (\<lambda>p. Inr ''s3cret'')
      (DefaultNATSConfig\<lparr>nats_Auth := zero_auth\<lparr>auth_TokenFile := ''/run/token''\<rparr>\<rparr>) second = Inr opts
    \<and> OptToken ''s3cret'' \<in> set opts \<and> length (filter is_auth opts) \<le> 1"
proof -
  let ?a = "zero_auth\<lparr>auth_TokenFile := '' /run/token''\<rparr>"
  let ?cfg = "DefaultNATSConfig\<lparr>nats_Auth := zero_auth\<lparr>auth_TokenFile := ''/run/token''\<rparr>\<rparr>"
  let ?opts = "[OptTimeout second, OptName ''gpu-runtime-serverless-ingress'', OptToken ''s3cret''] :: unit nats_option list"
  have 1: "Auth_Normalized ?a = Inr (nats_Auth ?cfg)" by code_simp
  have 2: "natsConnectOptions ref_certs (\<lambda>p. Inr ''s3cret'') ?cfg second = Inr ?opts" by code_simp
  from nats_single_authentication [OF 1 2] 2 show ?thesis by auto
qed

section \<open>Accepted configurations\<close>

definition wf_nats :: "NATSConfig \<Rightarrow> bool" where
  "wf_nats c = (trimmed (nats_URL c) \<and> nats_SubjectPrefix c \<noteq> [] \<and> 1 \<le> nats_StreamReplicas c
     \<and> \<not> ContainsAny (nats_StreamName c) name_specials
     \<and> ParseDuration (nats_StreamMaxAge c) \<noteq> None \<and> ParseDuration (nats_ConnectTimeout c) \<noteq> None
     \<and> ParseDuration (nats_DuplicatesWindow c) \<noteq> None)"

lemma check_duration_iff [simp]: "check_duration f v = Inr u \<longleftrightarrow> ParseDuration v \<noteq> None"
  by (auto simp: check_duration_def split: option.splits)

lemma NATSConfig_Normalized_wf: "NATSConfig_Normalized K c = Inr r \<Longrightarrow> wf_nats r"
  unfolding NATSConfig_Normalized_def Let_def
  by (simp only: guard_Inr_iff andThen_Inr_iff mapErr_Inr_iff check_duration_iff)
    (auto simp: wf_nats_def)

text \<open>A stream name of white space only passes the default and is accepted as the empty name.\<close>

lemma blank_stream_name_accepted:
  "map_sum (\<lambda>e. e) nats_StreamName (NATSConfig_Normalized ref_k8s (DefaultNATSConfig\<lparr>nats_StreamName := '' ''\<rparr>)) = Inr []"
  by code_simp

end
