(* ===== verification/Serverless_Queue.thy ===== *)
theory Serverless_Queue
  imports Serverless_Config
begin

text \<open>
  \<^verbatim>\<open>pkg/serverless/nats.go\<close>: the publishers and the consumer loop of the queue. JetStream is not part
  of the repository: the answer of every call the code makes to it is an argument, and what the
  code does is the list of calls it makes, in order. The bytes of a message are seen through
  \<^verbatim>\<open>encoding/json\<close>: they decode to a message of the consumer's type, or they do not, and then they
  may still be valid JSON; a \<^verbatim>\<open>json.RawMessage\<close> that is not valid JSON cannot be marshalled.
\<close>

section \<open>Messages\<close>

datatype 'm queue_data = Decoded 'm | Undecodable bool string

text \<open>\<^verbatim>\<open>json.Unmarshal(data, &msg)\<close>, and whether data can be embedded as a raw message.\<close>

definition Unmarshal :: "'m queue_data \<Rightarrow> 'm res" where
  "Unmarshal d = (case d of Decoded m \<Rightarrow> Inr m | Undecodable _ _ \<Rightarrow> Inl (ErrorText (msg ''json'')))"

definition raw_marshals :: "'m queue_data \<Rightarrow> bool" where
  "raw_marshals d = (case d of Decoded _ \<Rightarrow> True | Undecodable valid s \<Rightarrow> valid \<or> s = [])"

record MsgMetadata =
  md_Stream :: string
  md_Consumer :: string
  md_StreamSequence :: uint64
  md_ConsumerSequence :: uint64
  md_NumDelivered :: uint64

record 'm JsMsg =
  jm_Subject :: string
  jm_Data :: "'m queue_data"
  jm_Metadata :: "MsgMetadata option"

record deadLetterInfo =
  dli_InvocationID :: string
  dli_ServerlessRequestID :: string
  dli_WorkerName :: string
  dli_WorkerNamespace :: string

definition zero_info :: deadLetterInfo where
  "zero_info = \<lparr>dli_InvocationID = [], dli_ServerlessRequestID = [], dli_WorkerName = [], dli_WorkerNamespace = []\<rparr>"

record 'm DeadLetterMessage =
  dl_Version :: string
  dl_Source :: DeadLetterSource
  dl_State :: InvocationState
  dl_FailureClass :: InvocationFailureClass
  dl_InvocationID :: string
  dl_ServerlessRequestID :: string
  dl_WorkerName :: string
  dl_WorkerNamespace :: string
  dl_OriginalSubject :: string
  dl_Stream :: string
  dl_Consumer :: string
  dl_StreamSequence :: uint64
  dl_ConsumerSequence :: uint64
  dl_DeliveryCount :: uint64
  dl_Error :: error
  dl_Payload :: "'m queue_data"
  dl_FailedAt :: gotime

definition invocationDeadLetterInfo :: "InvocationMessage \<Rightarrow> deadLetterInfo" where
  "invocationDeadLetterInfo m = zero_info\<lparr>dli_InvocationID := inv_InvocationID m,
     dli_ServerlessRequestID := inv_ServerlessRequestID m\<rparr>"

definition workerDispatchDeadLetterInfo :: "WorkerDispatchMessage \<Rightarrow> deadLetterInfo" where
  "workerDispatchDeadLetterInfo m = \<lparr>dli_InvocationID = dsp_InvocationID m,
     dli_ServerlessRequestID = dsp_ServerlessRequestID m, dli_WorkerName = dsp_WorkerName m,
     dli_WorkerNamespace = dsp_WorkerNamespace m\<rparr>"

definition workerMetricDeadLetterInfo :: "WorkerMetricMessage \<Rightarrow> deadLetterInfo" where
  "workerMetricDeadLetterInfo m = \<lparr>dli_InvocationID = met_InvocationID m,
     dli_ServerlessRequestID = met_ServerlessRequestID m, dli_WorkerName = met_WorkerName m,
     dli_WorkerNamespace = met_WorkerNamespace m\<rparr>"

definition invocationResultDeadLetterInfo :: "InvocationResultMessage \<Rightarrow> deadLetterInfo" where
  "invocationResultDeadLetterInfo m = \<lparr>dli_InvocationID = res_InvocationID m,
     dli_ServerlessRequestID = res_ServerlessRequestID m, dli_WorkerName = res_WorkerName m,
     dli_WorkerNamespace = res_WorkerNamespace m\<rparr>"

section \<open>Publishers\<close>

datatype publication =
    PubInvocation string string InvocationMessage
  | PubDispatch string string WorkerDispatchMessage
  | PubMetric string string WorkerMetricMessage
  | PubResult string string InvocationResultMessage
  | PubReply string InvocationResultMessage

text \<open>
  Each publisher gets whether it is enabled, the configuration, the answers of \<^verbatim>\<open>json.Marshal\<close> and
  of the queue, and returns what it published (subject, message identifier, message) and its result.
\<close>

abbreviation not_configured :: error where
  "not_configured \<equiv> ErrorText (msg ''serverless queue publisher is not configured'')"

definition publishInvocation ::
    "bool \<Rightarrow> NATSConfig \<Rightarrow> unit res \<Rightarrow> (string \<times> uint64 \<times> bool) res \<Rightarrow> gotime \<Rightarrow> InvocationMessage
     \<Rightarrow> publication list \<times> PublishAck res" where
  "publishInvocation enabled cfg marshal answer now m0 =
     (if \<not> enabled then ([], Inl not_configured)
      else
        let m = m0\<lparr>inv_Version := InvocationVersion,
              inv_ResultSubject := ResultSubject (nats_SubjectPrefix cfg) (inv_ServerlessRequestID m0),
              inv_MetricsSubject := MetricsSubject (nats_SubjectPrefix cfg) (inv_ServerlessRequestID m0)\<rparr>;
            subject = InvocationSubject (nats_SubjectPrefix cfg) (inv_ServerlessRequestID m0)
        in case marshal of
             Inl e \<Rightarrow> ([], Inl (Wrap (msg ''marshal invocation message: %w'') e))
           | Inr _ \<Rightarrow>
               ([PubInvocation subject (inv_InvocationID m) m],
                case answer of
                  Inl e \<Rightarrow> Inl (Wrap (''publish invocation %s: %w'', [FS (inv_InvocationID m)]) e)
                | Inr (stream, seqno, duplicate) \<Rightarrow>
                    Inr \<lparr>ack_InvocationID = inv_InvocationID m, ack_ServerlessRequestID = inv_ServerlessRequestID m,
                      ack_Mode = inv_Mode m, ack_Subject = subject, ack_ResultSubject = inv_ResultSubject m,
                      ack_MetricsSubject = inv_MetricsSubject m, ack_Stream = stream, ack_Sequence = seqno,
                      ack_Duplicate = duplicate, ack_AcceptedAt = now\<rparr>))"

definition PublishInvocation ::
    "bool \<Rightarrow> NATSConfig \<Rightarrow> unit res \<Rightarrow> (string \<times> uint64 \<times> bool) res \<Rightarrow> gotime \<Rightarrow> InvocationMessage
     \<Rightarrow> publication list \<times> PublishAck res" where
  "PublishInvocation enabled cfg marshal answer now m = publishInvocation enabled cfg marshal answer now m"

definition PublishWorkerDispatch ::
    "bool \<Rightarrow> NATSConfig \<Rightarrow> unit res \<Rightarrow> unit res \<Rightarrow> WorkerDispatchMessage \<Rightarrow> publication list \<times> unit res" where
  "PublishWorkerDispatch enabled cfg marshal answer m0 =
     (if \<not> enabled then ([], Inl not_configured)
      else
        let m = m0\<lparr>dsp_Version := InvocationVersion\<rparr>;
            subject = DispatchSubject (nats_SubjectPrefix cfg) (dsp_ServerlessRequestID m) (dsp_WorkerName m)
        in case marshal of
             Inl e \<Rightarrow> ([], Inl (Wrap (msg ''marshal worker dispatch message: %w'') e))
           | Inr _ \<Rightarrow>
               ([PubDispatch subject
                   (''dispatch-'' @ dsp_InvocationID m @ ''-'' @ normalizeDispatchToken (dsp_WorkerName m)) m],
                mapErr (Wrap (''publish worker dispatch %s to %s: %w'', [FS (dsp_InvocationID m), FS (dsp_WorkerName m)])) answer))"

definition metric_message_id :: "WorkerMetricMessage \<Rightarrow> string" where
  "metric_message_id m =
     (if met_InvocationID m \<noteq> []
      then ''metric-'' @ met_InvocationID m @ ''-'' @ normalizeDispatchToken (event_type_string (met_EventType m))
      else ''metric-'' @ normalizeDispatchToken (met_WorkerName m) @ ''-''
             @ normalizeDispatchToken (event_type_string (met_EventType m)) @ ''-''
             @ FormatInt (UnixNano (met_ReportedAt m)) 10)"

definition PublishWorkerMetric ::
    "bool \<Rightarrow> NATSConfig \<Rightarrow> unit res \<Rightarrow> unit res \<Rightarrow> WorkerMetricMessage \<Rightarrow> publication list \<times> unit res" where
  "PublishWorkerMetric enabled cfg marshal answer m0 =
     (if \<not> enabled then ([], Inl not_configured)
      else
        let m = m0\<lparr>met_Version := InvocationVersion\<rparr>;
            subject = MetricsSubject (nats_SubjectPrefix cfg) (met_ServerlessRequestID m)
        in case marshal of
             Inl e \<Rightarrow> ([], Inl (Wrap (msg ''marshal worker metric message: %w'') e))
           | Inr _ \<Rightarrow>
               ([PubMetric subject (metric_message_id m) m],
                mapErr (Wrap (''publish worker metric %s for %s: %w'',
                  [FS (event_type_string (met_EventType m)), FS (met_WorkerName m)])) answer))"

definition PublishInvocationResult ::
    "bool \<Rightarrow> NATSConfig \<Rightarrow> unit res \<Rightarrow> unit res \<Rightarrow> unit res \<Rightarrow> InvocationResultMessage
     \<Rightarrow> publication list \<times> unit res" where
  "PublishInvocationResult enabled cfg marshal answer reply m0 =
     (if \<not> enabled then ([], Inl not_configured)
      else
        let m = m0\<lparr>res_Version := InvocationVersion\<rparr>;
            subject = ResultSubject (nats_SubjectPrefix cfg) (res_ServerlessRequestID m);
            durable = PubResult subject (''result-'' @ res_InvocationID m) m
        in case marshal of
             Inl e \<Rightarrow> ([], Inl (Wrap (msg ''marshal invocation result: %w'') e))
           | Inr _ \<Rightarrow>
               (case answer of
                  Inl e \<Rightarrow> ([durable], Inl (Wrap (''publish invocation result %s: %w'', [FS (res_InvocationID m)]) e))
                | Inr _ \<Rightarrow>
                    if res_ReplySubject m = [] then ([durable], Inr ())
                    else ([durable, PubReply (res_ReplySubject m) m],
                          mapErr (Wrap (''publish sync reply for invocation %s: %w'', [FS (res_InvocationID m)])) reply)))"

text \<open>\<^verbatim>\<open>RequestSyncInvocation\<close>: the inbox, the answers of subscribing, flushing and publishing, and the
  bytes that arrive on the inbox (or why nothing did) are arguments.\<close>

definition RequestSyncInvocation ::
    "bool \<Rightarrow> NATSConfig \<Rightarrow> string \<Rightarrow> unit res \<Rightarrow> unit res \<Rightarrow> unit res \<Rightarrow> (string \<times> uint64 \<times> bool) res
     \<Rightarrow> InvocationResultMessage queue_data res \<Rightarrow> gotime \<Rightarrow> InvocationMessage
     \<Rightarrow> publication list \<times> (PublishAck \<times> InvocationResultMessage) res" where
  "RequestSyncInvocation enabled cfg inbox subscribe flush marshal answer reply now m0 =
     (if \<not> enabled then ([], Inl not_configured)
      else case subscribe of
        Inl e \<Rightarrow> ([], Inl (Wrap (''subscribe to reply subject %s: %w'', [FS inbox]) e))
      | Inr _ \<Rightarrow>
      (case flush of
        Inl e \<Rightarrow> ([], Inl (Wrap (''flush reply subscription %s: %w'', [FS inbox]) e))
      | Inr _ \<Rightarrow>
        let m = m0\<lparr>inv_ReplySubject := inbox\<rparr>;
            (pubs, r) = publishInvocation enabled cfg marshal answer now m
        in (pubs,
            andThen r (\<lambda>ack.
            andThen (mapErr (Wrap (''wait for invocation result %s: %w'', [FS (inv_InvocationID m)])) reply) (\<lambda>data.
            andThen (mapErr (Wrap (''decode invocation result %s: %w'', [FS (inv_InvocationID m)])) (Unmarshal data)) (\<lambda>result.
              Inr (ack, result)))))))"

section \<open>The consumer\<close>

text \<open>Everything a consumer does to the queue or the handler while it deals with one message.\<close>

datatype 'm action =
    Handle 'm
  | PublishDeadLetter string string "'m DeadLetterMessage"
  | TermWithReason InvocationFailureClass
  | Term
  | NakWithDelay duration
  | AckMsg

record outcomes =
  oc_Handler :: "unit res"
  oc_Publish :: "unit res"
  oc_TermWithReason :: "unit res"
  oc_Term :: "unit res"
  oc_Nak :: "unit res"
  oc_Ack :: "unit res"

definition deliveryCount :: "'m JsMsg \<Rightarrow> uint64" where
  "deliveryCount jsMsg =
     (case jm_Metadata jsMsg of
        None \<Rightarrow> 1
      | Some meta \<Rightarrow> if md_NumDelivered meta = 0 then 1 else md_NumDelivered meta)"

definition terminalDelivery :: "'m JsMsg \<Rightarrow> ConsumerOptions \<Rightarrow> bool" where
  "terminalDelivery jsMsg opts =
     (if rp_MaxDeliver (co_Retry opts) \<le> 0 then False
      else deliveryCount jsMsg \<ge> word_of_int (rp_MaxDeliver (co_Retry opts)))"

definition buildDeadLetterMessage ::
    "gotime \<Rightarrow> 'm JsMsg \<Rightarrow> DeadLetterSource \<Rightarrow> deadLetterInfo \<Rightarrow> InvocationFailureClass \<Rightarrow> error
     \<Rightarrow> 'm DeadLetterMessage" where
  "buildDeadLetterMessage now jsMsg source info failureClass cause =
     (let m = \<lparr>dl_Version = InvocationVersion, dl_Source = source, dl_State = InvocationStateDeadLettered,
            dl_FailureClass = failureClass, dl_InvocationID = dli_InvocationID info,
            dl_ServerlessRequestID = dli_ServerlessRequestID info, dl_WorkerName = dli_WorkerName info,
            dl_WorkerNamespace = dli_WorkerNamespace info, dl_OriginalSubject = jm_Subject jsMsg,
            dl_Stream = [], dl_Consumer = [], dl_StreamSequence = 0, dl_ConsumerSequence = 0,
            dl_DeliveryCount = 0, dl_Error = cause, dl_Payload = jm_Data jsMsg, dl_FailedAt = now\<rparr>
      in case jm_Metadata jsMsg of
           None \<Rightarrow> m
         | Some meta \<Rightarrow> m\<lparr>dl_Stream := md_Stream meta, dl_Consumer := md_Consumer meta,
             dl_StreamSequence := md_StreamSequence meta, dl_ConsumerSequence := md_ConsumerSequence meta,
             dl_DeliveryCount := md_NumDelivered meta\<rparr>)"

definition dead_letter_id :: "'m DeadLetterMessage \<Rightarrow> string" where
  "dead_letter_id m =
     (if dl_InvocationID m = []
      then ''dlq-'' @ dead_letter_source_string (dl_Source m) @ ''-'' @ FormatInt (uint (dl_StreamSequence m)) 10
             @ ''-'' @ FormatInt (UnixNano (dl_FailedAt m)) 10
      else ''dlq-'' @ dead_letter_source_string (dl_Source m) @ ''-'' @ normalizeDispatchToken (dl_InvocationID m)
             @ ''-'' @ FormatInt (uint (dl_StreamSequence m)) 10)"

definition publishDeadLetter ::
    "NATSConfig \<Rightarrow> unit res \<Rightarrow> 'm DeadLetterMessage \<Rightarrow> 'm action list \<times> unit res" where
  "publishDeadLetter cfg answer m =
     (let requestID = or_default (dl_ServerlessRequestID m) ''unknown'';
          subject = DeadLetterSubject (nats_SubjectPrefix cfg) (dl_Source m) requestID
      in if \<not> raw_marshals (dl_Payload m)
         then ([], Inl (Wrap (msg ''marshal dead letter message: %w'') (ErrorText (msg ''json''))))
         else ([PublishDeadLetter subject (dead_letter_id m) m],
               mapErr (Wrap (''publish dead letter to %s: %w'', [FS subject])) answer))"

definition deadLetterAndTerm ::
    "NATSConfig \<Rightarrow> gotime \<Rightarrow> outcomes \<Rightarrow> 'm JsMsg \<Rightarrow> DeadLetterSource \<Rightarrow> deadLetterInfo
     \<Rightarrow> InvocationFailureClass \<Rightarrow> error \<Rightarrow> 'm action list \<times> unit res" where
  "deadLetterAndTerm cfg now oc jsMsg source info failureClass cause =
     (let dlq = buildDeadLetterMessage now jsMsg source info failureClass cause;
          (acts, r) = publishDeadLetter cfg (oc_Publish oc) dlq
      in case r of
           Inl e \<Rightarrow> (acts, Inl e)
         | Inr _ \<Rightarrow>
             (case oc_TermWithReason oc of
                Inr _ \<Rightarrow> (acts @ [TermWithReason failureClass], Inr ())
              | Inl _ \<Rightarrow>
                  (acts @ [TermWithReason failureClass, Term],
                   mapErr (Wrap (msg ''term dead-lettered message: %w'')) (oc_Term oc))))"

text \<open>The body of the loop over the messages of a batch; \<open>None\<close> is a panic.\<close>

definition consume_message ::
    "NATSConfig \<Rightarrow> ConsumerOptions \<Rightarrow> DeadLetterSource \<Rightarrow> ('m \<Rightarrow> deadLetterInfo) \<Rightarrow> gotime \<Rightarrow> outcomes
     \<Rightarrow> 'm JsMsg \<Rightarrow> ('m action list \<times> unit res) option" where
  "consume_message cfg opts source infoFn now oc jsMsg =
     (case Unmarshal (jm_Data jsMsg) of
        Inl e \<Rightarrow> Some (deadLetterAndTerm cfg now oc jsMsg source zero_info InvocationFailureMalformedMessage e)
      | Inr m \<Rightarrow>
          (case oc_Handler oc of
             Inr _ \<Rightarrow> Some ([Handle m, AckMsg],
                       mapErr (Wrap (msg ''ack serverless queue message: %w'')) (oc_Ack oc))
           | Inl e \<Rightarrow>
               if terminalDelivery jsMsg opts
               then let (acts, r) = deadLetterAndTerm cfg now oc jsMsg source (infoFn m)
                          InvocationFailureRetryExhausted e
                    in Some (Handle m # acts, r)
               else (case DelayForDelivery (co_Retry opts) (deliveryCount jsMsg) of
                       None \<Rightarrow> None
                     | Some d \<Rightarrow> Some ([Handle m, NakWithDelay d],
                         mapErr (Wrap (''nak serverless queue message %s: %w'', [FS (dli_InvocationID (infoFn m))])) (oc_Nak oc)))))"

text \<open>A batch stops at the first message whose handling returns an error.\<close>

fun consume_batch ::
    "NATSConfig \<Rightarrow> ConsumerOptions \<Rightarrow> DeadLetterSource \<Rightarrow> ('m \<Rightarrow> deadLetterInfo)
     \<Rightarrow> (gotime \<times> outcomes \<times> 'm JsMsg) list \<Rightarrow> ('m action list \<times> unit res) option" where
  "consume_batch cfg opts source infoFn [] = Some ([], Inr ())"
| "consume_batch cfg opts source infoFn ((now, oc, jsMsg) # ms) =
     (case consume_message cfg opts source infoFn now oc jsMsg of
        None \<Rightarrow> None
      | Some (acts, Inl e) \<Rightarrow> Some (acts, Inl e)
      | Some (acts, Inr _) \<Rightarrow>
          map_option (\<lambda>(acts', r). (acts @ acts', r)) (consume_batch cfg opts source infoFn ms))"

text \<open>The batches \<^verbatim>\<open>Fetch\<close> delivers until the context is cancelled: an error, or the messages and the
  error of the batch.\<close>

type_synonym 'm batch = "((gotime \<times> outcomes \<times> 'm JsMsg) list \<times> error option) res"

fun consume_loop ::
    "NATSConfig \<Rightarrow> ConsumerOptions \<Rightarrow> DeadLetterSource \<Rightarrow> ('m \<Rightarrow> deadLetterInfo) \<Rightarrow> 'm batch list
     \<Rightarrow> ('m action list \<times> unit res) option" where
  "consume_loop cfg opts source infoFn [] = Some ([], Inr ())"
| "consume_loop cfg opts source infoFn (Inl e # bs) =
     Some ([], Inl (Wrap (msg ''fetch worker dispatch batch: %w'') e))"
| "consume_loop cfg opts source infoFn (Inr (ms, batchError) # bs) =
     (case consume_batch cfg opts source infoFn ms of
        None \<Rightarrow> None
      | Some (acts, Inl e) \<Rightarrow> Some (acts, Inl e)
      | Some (acts, Inr _) \<Rightarrow>
          (case batchError of
             Some e \<Rightarrow> Some (acts, Inl (Wrap (msg ''consume serverless queue batch: %w'') e))
           | None \<Rightarrow> map_option (\<lambda>(acts', r). (acts @ acts', r)) (consume_loop cfg opts source infoFn bs)))"

text \<open>The consumer the queue is asked for.\<close>

record ConsumerConfig =
  cc_Durable :: string
  cc_FilterSubject :: string
  cc_AckWait :: duration
  cc_MaxDeliver :: int
  cc_BackOff :: "duration list"

definition createConsumer :: "string \<Rightarrow> string \<Rightarrow> ConsumerOptions \<Rightarrow> ConsumerConfig" where
  "createConsumer durable filterSubject opts = \<lparr>cc_Durable = durable, cc_FilterSubject = filterSubject,
     cc_AckWait = co_AckWait opts, cc_MaxDeliver = rp_MaxDeliver (co_Retry opts),
     cc_BackOff = BackoffDurations (co_Retry opts)\<rparr>"

definition consumeJSONMessages ::
    "bool \<Rightarrow> NATSConfig \<Rightarrow> string \<Rightarrow> string \<Rightarrow> ConsumerOptions \<Rightarrow> DeadLetterSource \<Rightarrow> ('m \<Rightarrow> deadLetterInfo)
     \<Rightarrow> (ConsumerConfig \<Rightarrow> unit res) \<Rightarrow> 'm batch list \<Rightarrow> ('m action list \<times> unit res) option" where
  "consumeJSONMessages enabled cfg durable filterSubject opts0 source infoFn create batches =
     (if \<not> enabled then Some ([], Inl not_configured)
      else if durable = [] then Some ([], Inl (ErrorText (msg ''consumer durable name is required'')))
      else case ConsumerOptions_Normalized (opts0\<lparr>co_DeadLetterSource := source\<rparr>) (30 * second) of
             Inl e \<Rightarrow> Some ([], Inl e)
           | Inr opts \<Rightarrow>
               (case create (createConsumer durable filterSubject opts) of
                  Inl e \<Rightarrow> Some ([], Inl (Wrap (''create or update consumer %s: %w'', [FS durable]) e))
                | Inr _ \<Rightarrow> consume_loop cfg opts source infoFn batches))"

definition ConsumeInvocations where
  "ConsumeInvocations enabled cfg durable opts create batches =
     consumeJSONMessages enabled cfg durable (nats_SubjectPrefix cfg @ ''.invoke.*'') opts
       DeadLetterSourceInvocation invocationDeadLetterInfo create batches"

definition ConsumeWorkerMetrics where
  "ConsumeWorkerMetrics enabled cfg durable opts create batches =
     consumeJSONMessages enabled cfg durable (nats_SubjectPrefix cfg @ ''.metrics.*'') opts
       DeadLetterSourceMetric workerMetricDeadLetterInfo create batches"

definition ConsumeInvocationResults where
  "ConsumeInvocationResults enabled cfg durable opts create batches =
     consumeJSONMessages enabled cfg durable (nats_SubjectPrefix cfg @ ''.result.*'') opts
       DeadLetterSourceResult invocationResultDeadLetterInfo create batches"

definition ConsumeWorkerDispatches where
  "ConsumeWorkerDispatches enabled cfg durable requestID workerName opts create batches =
     consumeJSONMessages enabled cfg durable (DispatchSubject (nats_SubjectPrefix cfg) requestID workerName) opts
       DeadLetterSourceDispatch workerDispatchDeadLetterInfo create batches"

section \<open>What happens to a message\<close>

definition terminates :: "'m action list \<Rightarrow> bool" where
  "terminates acts = list_ex (\<lambda>a. case a of TermWithReason _ \<Rightarrow> True | Term \<Rightarrow> True | _ \<Rightarrow> False) acts"

definition acknowledges :: "'m action list \<Rightarrow> bool" where
  "acknowledges acts = list_ex (\<lambda>a. case a of AckMsg \<Rightarrow> True | _ \<Rightarrow> False) acts"

text \<open>The dead letters among the actions that carry given data.\<close>

definition dead_letters :: "'m action list \<Rightarrow> 'm DeadLetterMessage list" where
  "dead_letters acts = List.map_filter (\<lambda>a. case a of PublishDeadLetter _ _ m \<Rightarrow> Some m | _ \<Rightarrow> None) acts"

lemmas action_defs = terminates_def acknowledges_def dead_letters_def

lemma action_lists [simp]:
  "\<not> terminates []" "\<not> acknowledges []" "dead_letters [] = []"
  "terminates (Handle m # acts) = terminates acts" "acknowledges (Handle m # acts) = acknowledges acts"
  "dead_letters (Handle m # acts) = dead_letters acts"
  by (simp_all add: action_defs List.map_filter_simps)

lemma build_payload [simp]:
  "dl_Payload (buildDeadLetterMessage now j s i c e) = jm_Data j"
  "dl_FailureClass (buildDeadLetterMessage now j s i c e) = c"
  "dl_OriginalSubject (buildDeadLetterMessage now j s i c e) = jm_Subject j"
  "dl_Source (buildDeadLetterMessage now j s i c e) = s"
  by (simp_all add: buildDeadLetterMessage_def Let_def split: option.splits)

lemma deadLetterAndTerm_effect:
  assumes "deadLetterAndTerm cfg now oc j source info c e = (acts, r)"
  shows "\<not> acknowledges acts"
    and "dead_letters acts = (if raw_marshals (jm_Data j) then [buildDeadLetterMessage now j source info c e] else [])"
    and "terminates acts \<longleftrightarrow> raw_marshals (jm_Data j) \<and> oc_Publish oc = Inr ()"
    and "r = Inr () \<longleftrightarrow> raw_marshals (jm_Data j) \<and> oc_Publish oc = Inr ()
           \<and> (oc_TermWithReason oc = Inr () \<or> oc_Term oc = Inr ())"
  using assms
  by (cases "oc_Publish oc"; cases "oc_TermWithReason oc"; cases "oc_Term oc";
      auto simp: deadLetterAndTerm_def publishDeadLetter_def Let_def action_defs List.map_filter_simps
        split: if_splits)+

text \<open>
  C2. Whatever the queue and the handler answer, the consumer never drops a message silently: it
  terminates a message only after the queue has accepted a dead letter that carries the same data
  and names the reason, it acknowledges a message only when it decoded and its handler succeeded,
  and it never does both.
\<close>

theorem consumer_never_drops:
  assumes "consume_message cfg opts source infoFn now oc j = Some (acts, r)"
  shows "(terminates acts \<longrightarrow> oc_Publish oc = Inr () \<and> length (dead_letters acts) = 1
        \<and> list_all (\<lambda>d. dl_Payload d = jm_Data j \<and> dl_OriginalSubject d = jm_Subject j
             \<and> dl_FailureClass d \<in> {InvocationFailureMalformedMessage, InvocationFailureRetryExhausted})
             (dead_letters acts))
    \<and> (acknowledges acts \<longrightarrow> oc_Handler oc = Inr () \<and> isOk (Unmarshal (jm_Data j)) \<and> \<not> terminates acts)"
proof (cases "Unmarshal (jm_Data j)")
  case (Inl e)
  with assms have d: "deadLetterAndTerm cfg now oc j source zero_info InvocationFailureMalformedMessage e = (acts, r)"
    by (simp add: consume_message_def)
  show ?thesis using deadLetterAndTerm_effect [OF d] by auto
next
  case (Inr m)
  show ?thesis
  proof (cases "oc_Handler oc")
    case (Inr u)
    with assms \<open>Unmarshal (jm_Data j) = Inr m\<close> have "acts = [Handle m, AckMsg]"
      by (simp add: consume_message_def)
    with Inr \<open>Unmarshal (jm_Data j) = Inr m\<close> show ?thesis by (simp add: action_defs)
  next
    case (Inl e)
    show ?thesis
    proof (cases "terminalDelivery j opts")
      case True
      obtain a1 where a1: "deadLetterAndTerm cfg now oc j source (infoFn m) InvocationFailureRetryExhausted e = (a1, r)"
          "acts = Handle m # a1"
        using assms Inl True \<open>Unmarshal (jm_Data j) = Inr m\<close>
        by (auto simp: consume_message_def split: prod.splits)
      show ?thesis using deadLetterAndTerm_effect [OF a1(1)] a1(2) by auto
    next
      case False
      with assms Inl \<open>Unmarshal (jm_Data j) = Inr m\<close> obtain d where "acts = [Handle m, NakWithDelay d]"
        by (auto simp: consume_message_def split: option.splits)
      then show ?thesis by (simp add: action_defs)
    qed
  qed
qed

text \<open>
  A message that decodes but whose handler fails is retried until the delivery limit of the
  policy and no longer: below the limit it is handed back with the positive delay of its delivery,
  from the limit on it goes to the dead letters as exhausted and is terminated, when the queue
  accepts that.
\<close>

theorem consumer_retries_until_limit:
  assumes "wf_policy (co_Retry opts)" "rp_MaxDeliver (co_Retry opts) \<le> max_int64"
    and "jm_Data j = Decoded m" "oc_Handler oc = Inl e"
    and "jm_Metadata j = Some md" "1 \<le> unat (md_NumDelivered md)" "unat (md_NumDelivered md) \<le> 2 ^ 63"
  shows "\<exists>acts r. consume_message cfg opts source infoFn now oc j = Some (acts, r) \<and>
    (if int (unat (md_NumDelivered md)) < rp_MaxDeliver (co_Retry opts)
     then (\<exists>d > 0. acts = [Handle m, NakWithDelay d] \<and> DelayForDelivery (co_Retry opts) (md_NumDelivered md) = Some d)
     else length (dead_letters acts) = 1 \<and> (terminates acts \<longleftrightarrow> oc_Publish oc = Inr ()))"
proof -
  let ?n = "md_NumDelivered md" and ?k = "rp_MaxDeliver (co_Retry opts)"
  have n: "deliveryCount j = ?n" using assms(5,6) by (auto simp: deliveryCount_def)
  have k: "0 < ?k" "?k < 2 ^ 64" using assms(1,2) by (auto simp: wf_policy_def max_int64_def)
  then have "uint (word_of_int ?k :: uint64) = ?k" by (simp add: uint_word_of_int)
  then have t: "terminalDelivery j opts \<longleftrightarrow> ?k \<le> int (unat ?n)"
    using k(1) by (simp add: terminalDelivery_def n word_le_def)
  have u: "Unmarshal (jm_Data j) = Inr m" using assms(3) by (simp add: Unmarshal_def)
  show ?thesis
  proof (cases "int (unat ?n) < ?k")
    case True
    obtain d where d: "DelayForDelivery (co_Retry opts) ?n = Some d" "0 < d"
      using DelayForDelivery_wf [OF assms(1,6,7)] by blast
    with True t u n assms(4) show ?thesis by (simp add: consume_message_def)
  next
    case False
    obtain acts r where a: "deadLetterAndTerm cfg now oc j source (infoFn m) InvocationFailureRetryExhausted e = (acts, r)"
      by fastforce
    have "raw_marshals (jm_Data j)" using assms(3) by (simp add: raw_marshals_def)
    with False t u assms(4) a deadLetterAndTerm_effect [OF a] show ?thesis
      by (simp add: consume_message_def)
  qed
qed

text \<open>
  A message whose bytes are not JSON at all cannot be moved to the dead letters, because the
  dead letter embeds them as raw JSON: the consumer publishes nothing, terminates nothing,
  acknowledges nothing and returns an error, whatever the queue answers, and so ends its loop.
\<close>

theorem poison_message_stops_consumer:
  assumes "s \<noteq> []" "jm_Data j = Undecodable False s"
  shows "\<exists>e. consume_message cfg opts source infoFn now oc j = Some ([], Inl e)
    \<and> consume_loop cfg opts source infoFn (Inr ((now, oc, j) # ms, be) # bs) = Some ([], Inl e)"
  using assms
  by (auto simp: consume_message_def Unmarshal_def deadLetterAndTerm_def publishDeadLetter_def raw_marshals_def
      Let_def buildDeadLetterMessage_def split: option.splits)

section \<open>Witnesses\<close>

definition all_ok :: outcomes where
  "all_ok = \<lparr>oc_Handler = Inr (), oc_Publish = Inr (), oc_TermWithReason = Inr (), oc_Term = Inr (), oc_Nak = Inr (),
     oc_Ack = Inr ()\<rparr>"

definition sample_message :: "'m queue_data \<Rightarrow> uint64 \<Rightarrow> 'm JsMsg" where
  "sample_message d n = \<lparr>jm_Subject = ''runtime.serverless.invoke.llm'', jm_Data = d,
     jm_Metadata = Some \<lparr>md_Stream = ''S'', md_Consumer = ''c'', md_StreamSequence = 7, md_ConsumerSequence = 7,
       md_NumDelivered = n\<rparr>\<rparr>"

definition default_options :: ConsumerOptions where
  "default_options = \<lparr>co_AckWait = 30 * second, co_Retry = DefaultRetryPolicy,
     co_DeadLetterSource = DeadLetterSourceInvocation\<rparr>"

lemma malformed_delivery:
  "\<exists>acts r. consume_message DefaultNATSConfig default_options DeadLetterSourceInvocation (\<lambda>_. zero_info) 0
      all_ok (sample_message (Undecodable True ''[]'' :: nat queue_data) 1) = Some (acts, r)
    \<and> terminates acts \<and> \<not> acknowledges acts \<and> length (dead_letters acts) = 1"
proof -
  let ?j = "sample_message (Undecodable True ''[]'' :: nat queue_data) 1"
  obtain acts r where d: "deadLetterAndTerm DefaultNATSConfig 0 all_ok ?j DeadLetterSourceInvocation zero_info
      InvocationFailureMalformedMessage (ErrorText (msg ''json'')) = (acts, r)" by fastforce
  have "raw_marshals (jm_Data ?j)" "oc_Publish all_ok = Inr ()"
    by (simp_all add: raw_marshals_def sample_message_def all_ok_def)
  moreover have "Unmarshal (jm_Data ?j) = Inl (ErrorText (msg ''json''))"
    by (simp add: Unmarshal_def sample_message_def)
  ultimately show ?thesis using deadLetterAndTerm_effect [OF d] d by (simp add: consume_message_def)
qed

theorem consumer_never_drops_witness:
  "\<exists>acts r. consume_message DefaultNATSConfig default_options DeadLetterSourceInvocation (\<lambda>_. zero_info) 0
      all_ok (sample_message (Undecodable True ''[]'' :: nat queue_data) 1) = Some (acts, r)
    \<and> terminates acts \<and> length (dead_letters acts) = 1"
  using malformed_delivery consumer_never_drops by blast

theorem consumer_retries_until_limit_witness:
  "\<exists>acts r. consume_message DefaultNATSConfig default_options DeadLetterSourceInvocation (\<lambda>_. zero_info) 0
      (all_ok\<lparr>oc_Handler := Inl DeadlineExceeded\<rparr>) (sample_message (Decoded (3 :: nat)) 5) = Some (acts, r)
    \<and> length (dead_letters acts) = 1"
proof -
  have "wf_policy (co_Retry default_options)" "rp_MaxDeliver (co_Retry default_options) \<le> max_int64"
    by code_simp+
  moreover have "\<not> int (unat (5 :: uint64)) < rp_MaxDeliver (co_Retry default_options)"
    by (simp add: default_options_def DefaultRetryPolicy_def DefaultRetryMaxDeliver_def)
  ultimately show ?thesis
    using consumer_retries_until_limit [of default_options "sample_message (Decoded 3) 5" 3
        "all_ok\<lparr>oc_Handler := Inl DeadlineExceeded\<rparr>" DeadlineExceeded
        "\<lparr>md_Stream = ''S'', md_Consumer = ''c'', md_StreamSequence = 7, md_ConsumerSequence = 7,
          md_NumDelivered = 5\<rparr>" DefaultNATSConfig DeadLetterSourceInvocation "\<lambda>_. zero_info" 0]
    by (auto simp: sample_message_def)
qed

theorem poison_message_stops_consumer_witness:
  "\<exists>e. consume_message DefaultNATSConfig default_options DeadLetterSourceInvocation (\<lambda>_. zero_info) 0
      all_ok (sample_message (Undecodable False ''{'' :: nat queue_data) 1) = Some ([], Inl e)"
proof -
  have "jm_Data (sample_message (Undecodable False ''{'' :: nat queue_data) 1) = Undecodable False ''{''"
    by (simp add: sample_message_def)
  from poison_message_stops_consumer [OF _ this] show ?thesis by blast
qed

section \<open>The life of one message\<close>

text \<open>
  The documented behaviour of the queue towards one message: it delivers the message at most
  \<open>MaxDeliver\<close> times, as long as it is neither acknowledged nor terminated. In each delivery the
  consumer runs with any answers, or it dies or is too slow and nothing arrives. The state counts
  the deliveries and the dead letters the queue has accepted.
\<close>

datatype fate = Waiting | Acked | Terminated

definition fate_of :: "outcomes \<Rightarrow> 'm action list \<Rightarrow> fate" where
  "fate_of oc acts =
     (if acknowledges acts \<and> oc_Ack oc = Inr () then Acked
      else if terminates acts \<and> (oc_TermWithReason oc = Inr () \<or> oc_Term oc = Inr ()) then Terminated
      else Waiting)"

definition accepted :: "outcomes \<Rightarrow> 'm action list \<Rightarrow> nat" where
  "accepted oc acts = (if oc_Publish oc = Inr () then length (dead_letters acts) else 0)"

inductive delivery ::
    "NATSConfig \<Rightarrow> ConsumerOptions \<Rightarrow> DeadLetterSource \<Rightarrow> ('m \<Rightarrow> deadLetterInfo) \<Rightarrow> 'm queue_data
     \<Rightarrow> nat \<times> nat \<times> fate \<Rightarrow> nat \<times> nat \<times> fate \<Rightarrow> bool"
  for cfg opts source infoFn data where
  handled: "int n < rp_MaxDeliver (co_Retry opts) \<Longrightarrow> jm_Data j = data
    \<Longrightarrow> jm_Metadata j = Some md \<Longrightarrow> unat (md_NumDelivered md) = Suc n
    \<Longrightarrow> consume_message cfg opts source infoFn now oc j = Some (acts, r)
    \<Longrightarrow> delivery cfg opts source infoFn data (n, d, Waiting) (Suc n, d + accepted oc acts, fate_of oc acts)"
| lost: "int n < rp_MaxDeliver (co_Retry opts)
    \<Longrightarrow> delivery cfg opts source infoFn data (n, d, Waiting) (Suc n, d, Waiting)"

lemma terminated_has_dead_letter:
  assumes "consume_message cfg opts source infoFn now oc j = Some (acts, r)" "terminates acts"
  shows "1 \<le> accepted oc acts"
proof (cases "Unmarshal (jm_Data j)")
  case (Inl e)
  with assms(1) have "deadLetterAndTerm cfg now oc j source zero_info InvocationFailureMalformedMessage e = (acts, r)"
    by (simp add: consume_message_def)
  from deadLetterAndTerm_effect [OF this] assms(2) show ?thesis by (simp add: accepted_def)
next
  case (Inr m)
  show ?thesis
  proof (cases "oc_Handler oc")
    case (Inl e)
    show ?thesis
    proof (cases "terminalDelivery j opts")
      case True
      with assms(1) Inr Inl obtain a1 where
        a1: "deadLetterAndTerm cfg now oc j source (infoFn m) InvocationFailureRetryExhausted e = (a1, r)"
          "acts = Handle m # a1"
        by (auto simp: consume_message_def split: prod.splits)
      from deadLetterAndTerm_effect [OF a1(1)] assms(2) a1(2) show ?thesis by (simp add: accepted_def)
    next
      case False
      with assms Inr Inl show ?thesis
        by (auto simp: consume_message_def terminates_def split: option.splits)
    qed
  next
    case (Inr u)
    with assms \<open>Unmarshal (jm_Data j) = Inr m\<close> show ?thesis
      by (auto simp: consume_message_def terminates_def)
  qed
qed

lemma delivery_invariant:
  "(delivery cfg opts source infoFn data)\<^sup>*\<^sup>* (0, 0, Waiting) (n, d, f) \<Longrightarrow>
   int n \<le> max 0 (rp_MaxDeliver (co_Retry opts)) \<and> (f = Terminated \<longrightarrow> 1 \<le> d)"
proof (induction "(n, d, f)" arbitrary: n d f rule: rtranclp_induct)
  case (step s)
  show ?case using step(2)
  proof (cases rule: delivery.cases)
    case (handled n0 j md now oc acts r d0)
    then show ?thesis using step(3) terminated_has_dead_letter [OF handled(9)]
      by (fastforce simp: fate_of_def split: if_splits)
  next
    case (lost n0)
    with step(3) show ?thesis by fastforce
  qed
qed simp



end
