(* ===== verification/Worker_Sidecar.thy ===== *)
theory Worker_Sidecar
  imports Serverless_Queue Serverless_Contract
begin

text \<open>
  \<^verbatim>\<open>pkg/workersidecar\<close>: the configuration of the sidecar from its environment, the handling of one
  dispatch and the heartbeat. The answers of the framework, of the queue and of the clock are
  arguments; what the sidecar publishes is returned as a list of events in order. The handler is
  split at the call of the framework, where other handlers and the heartbeat interleave: the
  counter of invocations in flight (an \<^verbatim>\<open>atomic.Int32\<close>, here a \<open>32 word\<close>) is the only state they
  share, and \<open>sidecar_step\<close> is the relation of their interleavings.
\<close>

section \<open>Configuration\<close>

record SidecarConfig =
  sc_Serverless :: NATSConfig
  sc_WorkerName :: string
  sc_WorkerNamespace :: string
  sc_ServerlessRequestID :: string
  sc_ConsumerName :: string
  sc_HeartbeatInterval :: string
  sc_FrameworkSocketPath :: string
  sc_FrameworkInvokePath :: string
  sc_FrameworkHealthPath :: string
  sc_HealthPort :: int
  sc_DispatchAckWait :: string
  sc_DispatchRetry :: RetryPolicy

definition defaultDispatchAckWait :: string where "defaultDispatchAckWait = ''5m''"

definition defaultEnvValue :: "string \<Rightarrow> string \<Rightarrow> string" where
  "defaultEnvValue v fallback = (if TrimSpace v = [] then fallback else TrimSpace v)"

text \<open>\<^verbatim>\<open>fmt.Sscanf(raw, "%d", &parsed)\<close> into an \<^verbatim>\<open>int64\<close>: a sign and the leading digits, what follows
  is left unread.\<close>

definition Sscanf_d :: "string \<Rightarrow> int option" where
  "Sscanf_d raw =
     (let (neg, rest) = (case raw of [] \<Rightarrow> (False, [])
            | c # cs \<Rightarrow> if c = CHR ''-'' then (True, cs) else if c = CHR ''+'' then (False, cs) else (False, raw));
          ds = takeWhile isDigit rest;
          v = (if neg then - int (digits_val ds) else int (digits_val ds))
      in if ds = [] \<or> v < - max_int64 - 1 \<or> v > max_int64 then None else Some v)"

definition defaultHealthPortFromEnv :: "(string \<Rightarrow> string) \<Rightarrow> int \<Rightarrow> int" where
  "defaultHealthPortFromEnv env v =
     (if 0 < v \<and> v \<le> 65535 then v
      else let raw = TrimSpace (env ''SERVERLESS_SIDECAR_HEALTH_PORT'')
           in if raw = [] then DefaultWorkerSidecarHealthPort
              else case Sscanf_d raw of
                     None \<Rightarrow> DefaultWorkerSidecarHealthPort
                   | Some parsed \<Rightarrow> if parsed \<le> 0 \<or> parsed > 65535 then DefaultWorkerSidecarHealthPort else parsed)"

definition normalizePath :: "string \<Rightarrow> string \<Rightarrow> string" where
  "normalizePath v fallback =
     (let trimmed = TrimSpace v
      in if trimmed = [] then fallback
         else let normalized = ''/'' @ TrimPrefix trimmed ''/''
              in if normalized = ''/'' then fallback else normalized)"

definition SidecarConfig_Normalized ::
    "'q k8s \<Rightarrow> (string \<Rightarrow> string) \<Rightarrow> SidecarConfig \<Rightarrow> SidecarConfig res" where
  "SidecarConfig_Normalized K env c =
     andThen (NATSConfig_Normalized K (sc_Serverless c)) (\<lambda>nats.
       if \<not> NATSConfig_Enabled nats
       then Inl (ErrorText (msg ''serverless.url is required for the worker sidecar''))
       else
         let workerName = TrimSpace (sc_WorkerName c);
             workerNamespace = TrimSpace (sc_WorkerNamespace c)
         in if workerName = [] then Inl (ErrorText (''%s is required'', [FS ''SERVERLESS_WORKER_NAME'']))
         else if workerNamespace = [] then Inl (ErrorText (''%s is required'', [FS ''SERVERLESS_WORKER_NAMESPACE'']))
         else andThen (NormalizeRequestID (sc_ServerlessRequestID c)) (\<lambda>requestID.
           let consumerName = or_default (TrimSpace (sc_ConsumerName c)) (''serverless-sidecar-'' @ workerName);
               heartbeat = defaultEnvValue (sc_HeartbeatInterval c) DefaultWorkerSidecarHeartbeatInterval
           in andThen (check_duration ''parse heartbeat interval %q: %w'' heartbeat) (\<lambda>_.
           let socket = or_default (TrimSpace (sc_FrameworkSocketPath c)) DefaultServerlessFrameworkSocketPath;
               socket = Clean (if HasPrefix socket ''/'' then socket else ''/'' @ socket);
               socketDir = Clean DefaultServerlessFrameworkSocketDir
           in if socket = socketDir \<or> \<not> HasPrefix socket (socketDir @ ''/'')
              then Inl (ErrorText (''framework socket path %q must stay under %s'',
                     [FS socket, FS DefaultServerlessFrameworkSocketDir]))
              else
                let ackWait = defaultEnvValue (sc_DispatchAckWait c) defaultDispatchAckWait
                in andThen (check_duration ''parse dispatch ack wait %q: %w'' ackWait) (\<lambda>_.
                   andThen (mapErr (Wrap (msg ''normalize dispatch retry: %w'')) (RetryPolicy_Normalized (sc_DispatchRetry c))) (\<lambda>retry.
                     Inr \<lparr>sc_Serverless = nats, sc_WorkerName = workerName, sc_WorkerNamespace = workerNamespace,
                       sc_ServerlessRequestID = requestID, sc_ConsumerName = consumerName,
                       sc_HeartbeatInterval = heartbeat, sc_FrameworkSocketPath = socket,
                       sc_FrameworkInvokePath = normalizePath (sc_FrameworkInvokePath c) DefaultServerlessFrameworkInvokePath,
                       sc_FrameworkHealthPath = normalizePath (sc_FrameworkHealthPath c) DefaultServerlessFrameworkHealthPath,
                       sc_HealthPort = defaultHealthPortFromEnv env (sc_HealthPort c),
                       sc_DispatchAckWait = ackWait, sc_DispatchRetry = retry\<rparr>)))))"

definition LoadConfigFromEnv :: "'q k8s \<Rightarrow> (string \<Rightarrow> string) \<Rightarrow> SidecarConfig res" where
  "LoadConfigFromEnv K env =
     SidecarConfig_Normalized K env
       \<lparr>sc_Serverless = \<lparr>nats_URL = env ''SERVERLESS_NATS_URL'', nats_SubjectPrefix = env ''SERVERLESS_SUBJECT_PREFIX'',
          nats_StreamName = env ''SERVERLESS_STREAM_NAME'', nats_StreamReplicas = 0, nats_StreamMaxAge = [],
          nats_ConnectTimeout = [], nats_DuplicatesWindow = [], nats_Auth = zero_auth, nats_TLS = zero_tls,
          nats_NetworkPolicyTarget = \<lparr>npt_Namespace = [], npt_PodLabels = []\<rparr>\<rparr>,
        sc_WorkerName = env ''SERVERLESS_WORKER_NAME'', sc_WorkerNamespace = env ''SERVERLESS_WORKER_NAMESPACE'',
        sc_ServerlessRequestID = env ''SERVERLESS_REQUEST_ID'',
        sc_ConsumerName = env ''SERVERLESS_WORKER_CONSUMER_NAME'',
        sc_HeartbeatInterval = env ''SERVERLESS_HEARTBEAT_INTERVAL'',
        sc_FrameworkSocketPath = env ''SERVERLESS_FRAMEWORK_SOCKET_PATH'',
        sc_FrameworkInvokePath = env ''SERVERLESS_FRAMEWORK_INVOKE_PATH'',
        sc_FrameworkHealthPath = env ''SERVERLESS_FRAMEWORK_HEALTH_PATH'',
        sc_HealthPort = 0,
        sc_DispatchAckWait = defaultEnvValue (env ''SERVERLESS_DISPATCH_ACK_WAIT'') defaultDispatchAckWait,
        sc_DispatchRetry = RetryPolicyFromEnv (env ''SERVERLESS_DISPATCH_MAX_DELIVER'') (env ''SERVERLESS_DISPATCH_BACKOFF'')\<rparr>"

definition DispatchConsumerOptions :: "SidecarConfig \<Rightarrow> ConsumerOptions res" where
  "DispatchConsumerOptions c =
     (case ParseDuration (sc_DispatchAckWait c) of
        None \<Rightarrow> Inl (ErrorText (msg ''duration''))
      | Some ackWait \<Rightarrow> Inr \<lparr>co_AckWait = ackWait, co_Retry = sc_DispatchRetry c,
          co_DeadLetterSource = DeadLetterSourceDispatch\<rparr>)"

section \<open>Handling a dispatch\<close>

datatype sidecar_event = EvMetric WorkerMetricMessage | EvResult InvocationResultMessage

definition invocation_metric ::
    "WorkerDispatchMessage \<Rightarrow> WorkerMetricEventType \<Rightarrow> int32 \<Rightarrow> int \<Rightarrow> error option \<Rightarrow> gotime \<Rightarrow> WorkerMetricMessage" where
  "invocation_metric dispatch event inflight status err at =
     \<lparr>met_Version = InvocationVersion, met_ServerlessRequestID = dsp_ServerlessRequestID dispatch,
      met_WorkerName = dsp_WorkerName dispatch, met_WorkerNamespace = dsp_WorkerNamespace dispatch,
      met_InvocationID = dsp_InvocationID dispatch, met_EventType = event, met_Inflight = inflight,
      met_StatusCode = status, met_Error = err, met_ReportedAt = at\<rparr>"

text \<open>Up to the call of the framework: the new counter, the events, the request, and the timeout of
  its context (\<open>None\<close>: none).\<close>

definition HandleDispatch_start ::
    "gotime \<Rightarrow> WorkerDispatchMessage \<Rightarrow> int32
     \<Rightarrow> int32 \<times> sidecar_event list \<times> FrameworkInvocationRequest \<times> duration option" where
  "HandleDispatch_start startedAt dispatch inflight =
     (let inflight = inflight + 1
      in (inflight,
          [EvMetric (invocation_metric dispatch WorkerMetricEventInvocationStarted inflight 0 None startedAt)],
          \<lparr>freq_Version = InvocationVersion, freq_InvocationID = dsp_InvocationID dispatch,
           freq_ServerlessRequestID = dsp_ServerlessRequestID dispatch,
           freq_WorkerName = dsp_WorkerName dispatch, freq_WorkerNamespace = dsp_WorkerNamespace dispatch,
           freq_Mode = dsp_Mode dispatch, freq_State = InvocationStateRunning,
           freq_ContentType = dsp_ContentType dispatch, freq_Headers = cloneStringMap (dsp_Headers dispatch),
           freq_Attributes = cloneStringMap (dsp_Attributes dispatch), freq_Payload = dsp_Payload dispatch,
           freq_TimeoutSeconds = dsp_TimeoutSeconds dispatch, freq_DispatchedAt = dsp_DispatchedAt dispatch\<rparr>,
          if dsp_TimeoutSeconds dispatch > 0 then Some (dsp_TimeoutSeconds dispatch * second) else None))"

definition failure_result ::
    "gotime \<Rightarrow> gotime \<Rightarrow> WorkerDispatchMessage \<Rightarrow> error \<Rightarrow> InvocationResultMessage" where
  "failure_result startedAt completedAt dispatch e =
     (let expired = errors_Is e DeadlineExceeded
      in zero_result\<lparr>res_Version := InvocationVersion, res_InvocationID := dsp_InvocationID dispatch,
           res_ServerlessRequestID := dsp_ServerlessRequestID dispatch, res_Mode := dsp_Mode dispatch,
           res_State := (if expired then InvocationStateExpired else InvocationStateFailed),
           res_FailureClass := (if expired then InvocationFailureFrameworkTimeout else InvocationFailureFrameworkError),
           res_ReplySubject := dsp_ReplySubject dispatch, res_WorkerName := dsp_WorkerName dispatch,
           res_WorkerNamespace := dsp_WorkerNamespace dispatch,
           res_StatusCode := (if expired then 504 else 502), res_Error := Some e,
           res_StartedAt := startedAt, res_CompletedAt := completedAt\<rparr>)"

definition success_result ::
    "gotime \<Rightarrow> gotime \<Rightarrow> WorkerDispatchMessage \<Rightarrow> FrameworkInvocationResponse \<Rightarrow> InvocationResultMessage" where
  "success_result startedAt completedAt dispatch resp =
     zero_result\<lparr>res_Version := InvocationVersion, res_InvocationID := dsp_InvocationID dispatch,
       res_ServerlessRequestID := dsp_ServerlessRequestID dispatch, res_Mode := dsp_Mode dispatch,
       res_State := InvocationStateSucceeded, res_ReplySubject := dsp_ReplySubject dispatch,
       res_WorkerName := dsp_WorkerName dispatch, res_WorkerNamespace := dsp_WorkerNamespace dispatch,
       res_StatusCode := or_default_int (fresp_StatusCode resp) 200,
       res_ContentType := fresp_ContentType resp, res_Headers := cloneStringMap (fresp_Headers resp),
       res_Body := fresp_Body resp, res_ErrorText := fresp_Error resp,
       res_StartedAt := startedAt, res_CompletedAt := completedAt\<rparr>"

text \<open>From the answer of the framework on: the counter after the deferred decrement, the events, and
  the value returned to the queue consumer. The metric reads the counter before the decrement.\<close>

definition HandleDispatch_finish ::
    "gotime \<Rightarrow> gotime \<Rightarrow> FrameworkInvocationResponse res \<Rightarrow> unit res \<Rightarrow> WorkerDispatchMessage \<Rightarrow> int32
     \<Rightarrow> int32 \<times> sidecar_event list \<times> unit res" where
  "HandleDispatch_finish startedAt completedAt answer publish dispatch inflight =
     (case answer of
        Inl e \<Rightarrow>
          let result = failure_result startedAt completedAt dispatch e
          in (case publish of
                Inl pubErr \<Rightarrow> (inflight - 1, [EvResult result], Inl pubErr)
              | Inr _ \<Rightarrow> (inflight - 1, [EvResult result,
                  EvMetric (invocation_metric dispatch WorkerMetricEventInvocationFailed inflight
                    (res_StatusCode result) (Some e) completedAt)], Inr ()))
      | Inr resp \<Rightarrow>
          let result = success_result startedAt completedAt dispatch resp
          in (case publish of
                Inl pubErr \<Rightarrow> (inflight - 1, [EvResult result], Inl pubErr)
              | Inr _ \<Rightarrow> (inflight - 1, [EvResult result,
                  EvMetric (invocation_metric dispatch WorkerMetricEventInvocationFinished inflight
                    (res_StatusCode result) None completedAt)], Inr ())))"

text \<open>The whole handler when nothing interleaves.\<close>

definition HandleDispatch ::
    "gotime \<Rightarrow> gotime \<Rightarrow> FrameworkInvocationResponse res \<Rightarrow> unit res \<Rightarrow> WorkerDispatchMessage \<Rightarrow> int32
     \<Rightarrow> int32 \<times> sidecar_event list \<times> unit res" where
  "HandleDispatch startedAt completedAt answer publish dispatch inflight0 =
     (let (inflight1, evs, _, _) = HandleDispatch_start startedAt dispatch inflight0;
          (inflight2, evs', r) = HandleDispatch_finish startedAt completedAt answer publish dispatch inflight1
      in (inflight2, evs @ evs', r))"

definition worker_metric :: "SidecarConfig \<Rightarrow> WorkerMetricEventType \<Rightarrow> int32 \<Rightarrow> gotime \<Rightarrow> WorkerMetricMessage" where
  "worker_metric cfg event inflight at =
     \<lparr>met_Version = InvocationVersion, met_ServerlessRequestID = sc_ServerlessRequestID cfg,
      met_WorkerName = sc_WorkerName cfg, met_WorkerNamespace = sc_WorkerNamespace cfg, met_InvocationID = [],
      met_EventType = event, met_Inflight = inflight, met_StatusCode = 0, met_Error = None, met_ReportedAt = at\<rparr>"

text \<open>\<^verbatim>\<open>Run\<close>: health check, registration, then the consumer gets its options.\<close>

definition Sidecar_Run ::
    "SidecarConfig \<Rightarrow> unit res \<Rightarrow> unit res \<Rightarrow> gotime \<Rightarrow> sidecar_event list \<times> ConsumerOptions res" where
  "Sidecar_Run cfg health publish now =
     (case health of
        Inl e \<Rightarrow> ([], Inl e)
      | Inr _ \<Rightarrow>
          ([EvMetric (worker_metric cfg WorkerMetricEventRegistered 0 now)],
           andThen publish (\<lambda>_. DispatchConsumerOptions cfg)))"

text \<open>The heartbeat: each tick publishes one event; a ticker that cannot be built panics.\<close>

definition heartbeat_event :: "SidecarConfig \<Rightarrow> int32 \<Rightarrow> gotime \<Rightarrow> sidecar_event" where
  "heartbeat_event cfg inflight now = EvMetric (worker_metric cfg WorkerMetricEventHeartbeat inflight now)"

definition heartbeatLoop_start :: "SidecarConfig \<Rightarrow> (unit + duration) option" where
  "heartbeatLoop_start cfg =
     (case ParseDuration (sc_HeartbeatInterval cfg) of
        None \<Rightarrow> Some (Inl ())
      | Some interval \<Rightarrow> map_option Inr (NewTicker interval))"

section \<open>One dispatch, one result\<close>

definition results :: "sidecar_event list \<Rightarrow> InvocationResultMessage list" where
  "results evs = List.map_filter (\<lambda>ev. case ev of EvResult r \<Rightarrow> Some r | EvMetric _ \<Rightarrow> None) evs"

lemma results_simps [simp]:
  "results [] = []" "results (EvResult r # evs) = r # results evs" "results (EvMetric m # evs) = results evs"
  by (simp_all add: results_def List.map_filter_simps)

text \<open>
  C23. Handling a dispatch leaves the in-flight counter as it was, publishes exactly one result for
  the invocation, with its worker and its reply subject, and hands the message back to the queue
  exactly when that result could not be published. The result tells a deadline (504, expired) from
  any other failure of the framework (502, failed) and from an answer (its status, 200 if it has
  none).
\<close>

theorem handle_dispatch_outcome:
  assumes "HandleDispatch t0 t1 answer publish d i = (i', evs, r)"
  shows "i' = i \<and> r = publish \<and> (\<exists>res. results evs = [res] \<and> res_InvocationID res = dsp_InvocationID d
    \<and> res_ServerlessRequestID res = dsp_ServerlessRequestID d \<and> res_WorkerName res = dsp_WorkerName d
    \<and> res_ReplySubject res = dsp_ReplySubject d
    \<and> (case answer of
         Inl e \<Rightarrow> res_Error res = Some e \<and> (res_StatusCode res, res_State res, res_FailureClass res) =
             (if errors_Is e DeadlineExceeded
              then (504, InvocationStateExpired, InvocationFailureFrameworkTimeout)
              else (502, InvocationStateFailed, InvocationFailureFrameworkError))
       | Inr resp \<Rightarrow> res_State res = InvocationStateSucceeded \<and> res_FailureClass res = InvocationFailureNone
           \<and> res_Body res = fresp_Body resp
           \<and> res_StatusCode res = (if fresp_StatusCode resp = 0 then 200 else fresp_StatusCode resp)))"
  using assms
  by (cases answer; cases publish)
    (auto simp: HandleDispatch_def HandleDispatch_start_def HandleDispatch_finish_def Let_def
      failure_result_def success_result_def zero_result_def or_default_int_def)

definition sample_dispatch :: WorkerDispatchMessage where
  "sample_dispatch = \<lparr>dsp_Version = InvocationVersion, dsp_InvocationID = ''inv-1'', dsp_ServerlessRequestID = ''llm'',
     dsp_WorkerName = ''w'', dsp_WorkerNamespace = [], dsp_Mode = ''sync'',
     dsp_State = InvocationStateDispatching, dsp_ContentType = [], dsp_Headers = [], dsp_Attributes = [],
     dsp_Payload = [], dsp_TimeoutSeconds = 30, dsp_ResultSubject = [], dsp_MetricsSubject = [],
     dsp_ReplySubject = ''_INBOX.x'', dsp_DispatchedAt = 1\<rparr>"

theorem handle_dispatch_outcome_witness:
  "\<exists>evs res. HandleDispatch 1 2 (Inl (Wrap (msg ''call framework invoke endpoint: %w'') DeadlineExceeded))
      (Inr ()) sample_dispatch 0 = (0, evs, Inr ()) \<and> results evs = [res] \<and> res_StatusCode res = 504"
proof -
  obtain i evs r where h: "HandleDispatch 1 2 (Inl (Wrap (msg ''call framework invoke endpoint: %w'') DeadlineExceeded))
      (Inr ()) sample_dispatch 0 = (i, evs, r)" using prod_cases3 by blast
  from handle_dispatch_outcome [OF h] h show ?thesis by auto
qed

section \<open>Interleaving\<close>

text \<open>
  The handlers that are between their start and their finish, and the shared counter. A step is
  labelled with the events it publishes; a heartbeat publishes the counter as it is.
\<close>

inductive sidecar_step :: "SidecarConfig \<Rightarrow> int32 \<times> WorkerDispatchMessage list \<Rightarrow> sidecar_event list
    \<Rightarrow> int32 \<times> WorkerDispatchMessage list \<Rightarrow> bool" for cfg where
  start: "HandleDispatch_start t d i = (i', evs, req, timeout)
    \<Longrightarrow> sidecar_step cfg (i, running) evs (i', d # running)"
| finish: "d \<in> set running \<Longrightarrow> HandleDispatch_finish t0 t1 answer publish d i = (i', evs, r)
    \<Longrightarrow> sidecar_step cfg (i, running) evs (i', remove1 d running)"
| heartbeat: "sidecar_step cfg (i, running) [heartbeat_event cfg i now] (i, running)"

inductive sidecar_run :: "SidecarConfig \<Rightarrow> sidecar_event list \<Rightarrow> int32 \<times> WorkerDispatchMessage list \<Rightarrow> bool"
  for cfg where
  init: "sidecar_run cfg [] (0, [])"
| step: "sidecar_run cfg evs s \<Longrightarrow> sidecar_step cfg s evs' s' \<Longrightarrow> sidecar_run cfg (evs @ evs') s'"

lemma finish_counter: "fst (HandleDispatch_finish t0 t1 answer publish d i) = i - 1"
  by (cases answer; cases publish) (simp_all add: HandleDispatch_finish_def Let_def)

lemma start_counter: "fst (HandleDispatch_start t d i) = i + 1"
  by (simp add: HandleDispatch_start_def Let_def)

lemma sidecar_counter: "sidecar_run cfg evs (i, running) \<Longrightarrow> i = of_nat (length running)"
proof (induction evs "(i, running)" arbitrary: i running rule: sidecar_run.induct)
  case (step evs s evs' i' running')
  obtain i running where s: "s = (i, running)" by fastforce
  have ih: "i = of_nat (length running)" using step(2) [OF s] .
  show ?case using step(3) unfolding s
  proof (cases rule: sidecar_step.cases)
    case (start t d req timeout)
    have "i' = i + 1" using start_counter [of t d i] start(2) by simp
    with ih show ?thesis unfolding start(1) by (metis add.commute length_Cons of_nat_Suc)
  next
    case (finish d t0 t1 answer publish r)
    have "i' = i - 1" using finish(3) finish_counter [of t0 t1 answer publish d i] by simp
    moreover have "length running = Suc (length running')"
      using length_pos_if_in_set [OF finish(2)] by (simp add: finish(1,2) length_remove1)
    ultimately show ?thesis using ih by (metis add_diff_cancel_left' of_nat_Suc)
  next
    case (heartbeat now)
    show ?thesis unfolding heartbeat(2,3) by (rule ih)
  qed
qed simp

lemma inflight_running:
  assumes "sidecar_run cfg evs (i, running)" "length running < 2 ^ 32"
  shows "unat i = length running \<and> (i = 0 \<longleftrightarrow> running = [])"
proof -
  have i: "i = of_nat (length running)" using assms(1) by (rule sidecar_counter)
  have "unat i = length running" unfolding i using assms(2) by (simp add: unat_of_nat take_bit_nat_eq_self)
  then show ?thesis by (metis length_0_conv unat_eq_zero)
qed

text \<open>
  However handlers and heartbeats interleave, the in-flight counter is the number of handlers
  between their start and their finish (as a 32-bit word), so with fewer than $2^{32}$ of them a
  heartbeat reports zero exactly when the worker is idle.
\<close>

theorem sidecar_inflight:
  assumes "sidecar_run cfg evs (i, running)" "length running < 2 ^ 32"
  shows "unat i = length running \<and> (i = 0 \<longleftrightarrow> running = [])"
  by (rule inflight_running [OF assms])

section \<open>Configuration\<close>

definition wf_sidecar :: "SidecarConfig \<Rightarrow> bool" where
  "wf_sidecar c = (wf_nats (sc_Serverless c) \<and> nats_URL (sc_Serverless c) \<noteq> [] \<and> sc_WorkerName c \<noteq> []
     \<and> sc_WorkerNamespace c \<noteq> [] \<and> token_match (sc_ServerlessRequestID c) \<and> sc_ConsumerName c \<noteq> []
     \<and> ParseDuration (sc_HeartbeatInterval c) \<noteq> None \<and> ParseDuration (sc_DispatchAckWait c) \<noteq> None
     \<and> wf_policy (sc_DispatchRetry c) \<and> 1 \<le> sc_HealthPort c \<and> sc_HealthPort c \<le> 65535
     \<and> path_below DefaultServerlessFrameworkSocketDir (sc_FrameworkSocketPath c))"

lemma health_port_range: "1 \<le> defaultHealthPortFromEnv env v \<and> defaultHealthPortFromEnv env v \<le> 65535"
  by (auto simp: defaultHealthPortFromEnv_def DefaultWorkerSidecarHealthPort_def Let_def split: option.splits)

lemma wf_nats_enabled: "wf_nats c \<Longrightarrow> NATSConfig_Enabled c \<longleftrightarrow> nats_URL c \<noteq> []"
  by (simp add: wf_nats_def NATSConfig_Enabled_def TrimSpace_id)

lemma SidecarConfig_Normalized_wf:
  assumes "SidecarConfig_Normalized K env c = Inr r"
  shows "wf_sidecar r"
proof -
  let ?socket = "let s = or_default (TrimSpace (sc_FrameworkSocketPath c)) DefaultServerlessFrameworkSocketPath
      in Clean (if HasPrefix s ''/'' then s else ''/'' @ s)"
  from assms obtain nats rid retry where
    nats: "NATSConfig_Normalized K (sc_Serverless c) = Inr nats" "NATSConfig_Enabled nats"
    and n: "TrimSpace (sc_WorkerName c) \<noteq> []" "TrimSpace (sc_WorkerNamespace c) \<noteq> []" "token_match rid"
    and retry: "RetryPolicy_Normalized (sc_DispatchRetry c) = Inr retry"
    and h: "HasPrefix ?socket (DefaultServerlessFrameworkSocketDir @ ''/'')"
    and d: "ParseDuration (sc_HeartbeatInterval r) \<noteq> None" "ParseDuration (sc_DispatchAckWait r) \<noteq> None"
    and r: "sc_Serverless r = nats" "sc_WorkerName r = TrimSpace (sc_WorkerName c)"
      "sc_WorkerNamespace r = TrimSpace (sc_WorkerNamespace c)" "sc_ServerlessRequestID r = rid"
      "sc_ConsumerName r = or_default (TrimSpace (sc_ConsumerName c)) (''serverless-sidecar-'' @ TrimSpace (sc_WorkerName c))"
      "sc_DispatchRetry r = retry" "sc_HealthPort r = defaultHealthPortFromEnv env (sc_HealthPort c)"
      "sc_FrameworkSocketPath r = ?socket"
    unfolding SidecarConfig_Normalized_def Let_def socket_dir
    by (simp only: guard_Inr_iff andThen_Inr_iff mapErr_Inr_iff check_duration_iff NormalizeRequestID_Inr)
      (elim exE conjE, clarsimp)
  have abs: "IsAbs (if HasPrefix s ''/'' then s else ''/'' @ s)" for s by (simp add: IsAbs_def HasPrefix_def)
  have "clean_abs ?socket" unfolding Let_def by (rule Clean_abs) (rule abs)
  then have below: "path_below DefaultServerlessFrameworkSocketDir (sc_FrameworkSocketPath r)"
    using h socket_dir(2) unfolding r(8) by (rule clean_abs_below)
  have w: "wf_nats nats" "wf_policy retry"
    using NATSConfig_Normalized_wf [OF nats(1)] retry by (simp_all add: RetryPolicy_Normalized_Inr)
  show ?thesis using w nats(2) n d below r(1-7) wf_nats_enabled health_port_range [of env "sc_HealthPort c"]
    by (simp add: wf_sidecar_def)
qed

text \<open>
  A sidecar configuration that is accepted can be run with: queue address, worker name,
  namespace and request token are present, intervals parse, the retry policy is well formed, the
  health port is a port, and the framework socket lies strictly below the shared directory whatever
  the environment asked for.
\<close>

theorem sidecar_config_normalized:
  assumes "LoadConfigFromEnv K env = Inr cfg"
  shows "wf_sidecar cfg"
  using assms unfolding LoadConfigFromEnv_def by (rule SidecarConfig_Normalized_wf)

definition sample_env :: "string \<Rightarrow> string \<Rightarrow> string" where
  "sample_env heartbeat key =
     (if key = ''SERVERLESS_NATS_URL'' then ''nats://nats:4222''
      else if key = ''SERVERLESS_WORKER_NAME'' then ''w''
      else if key = ''SERVERLESS_WORKER_NAMESPACE'' then ''runtime-instance''
      else if key = ''SERVERLESS_REQUEST_ID'' then ''LLM''
      else if key = ''SERVERLESS_HEARTBEAT_INTERVAL'' then heartbeat
      else if key = ''SERVERLESS_SIDECAR_HEALTH_PORT'' then ''8080/tcp''
      else [])"

lemma sample_env_loads: "isOk (LoadConfigFromEnv ref_k8s (sample_env ''10s''))"
  by code_simp

theorem sidecar_config_normalized_witness:
  "\<exists>cfg. LoadConfigFromEnv ref_k8s (sample_env ''10s'') = Inr cfg \<and> wf_sidecar cfg"
  using sample_env_loads sidecar_config_normalized by (auto simp: isOk_iff)

text \<open>An interval of zero is accepted, and the ticker of the heartbeat then panics.\<close>

lemma zero_heartbeat_panics:
  "map_sum (\<lambda>e. e) heartbeatLoop_start (LoadConfigFromEnv ref_k8s (sample_env ''0s'')) = Inr None"
  by code_simp

theorem sidecar_inflight_witness:
  "\<exists>cfg evs i. LoadConfigFromEnv ref_k8s (sample_env ''10s'') = Inr cfg
     \<and> sidecar_run cfg evs (i, [sample_dispatch]) \<and> unat i = 1"
proof -
  obtain cfg where c: "LoadConfigFromEnv ref_k8s (sample_env ''10s'') = Inr cfg"
    using sample_env_loads by (auto simp: isOk_iff)
  obtain i evs req t where s: "HandleDispatch_start 1 sample_dispatch 0 = (i, evs, req, t)"
    using prod_cases4 by blast
  have "sidecar_run cfg ([] @ evs) (i, [sample_dispatch])"
    by (rule sidecar_run.step [OF sidecar_run.init]) (rule sidecar_step.start [OF s])
  from sidecar_inflight [OF this] this c show ?thesis by auto
qed

end
