(* ===== verification/Activator_Service.thy ===== *)
theory Activator_Service
  imports Activator_Lifecycle Worker_Sidecar
begin

text \<open>
  \<^verbatim>\<open>pkg/activator/service.go\<close> and \<^verbatim>\<open>config.go\<close>: the settings of the activator and the processing of
  one invocation: finding or creating a worker, waiting for it, and publishing the dispatch or a
  failure result. The runtime is the record \<open>RuntimeControl\<close>; the answers of the two publishers are
  arguments (\<open>None\<close> for a publisher that is not there), and what is published is returned as events.
  \<open>None\<close> as a whole is a panic. Cancellation of the caller's context is left out: the only way a
  wait ends early is its own deadline.
\<close>

section \<open>Configuration\<close>

record ActivatorConfig =
  ac_Serverless :: NATSConfig
  ac_ConsumerName :: string
  ac_MetricsConsumerName :: string
  ac_WorkerReadyWait :: string
  ac_WorkerPollInterval :: string
  ac_LifecycleInterval :: string
  ac_InvocationRetry :: RetryPolicy
  ac_MetricsRetry :: RetryPolicy
  ac_MaxPendingWorkersPerRequestID :: int

definition DefaultActivatorConfig :: ActivatorConfig where
  "DefaultActivatorConfig = \<lparr>ac_Serverless = DefaultNATSConfig, ac_ConsumerName = ''runtime-activator'',
     ac_MetricsConsumerName = ''runtime-activator-metrics'', ac_WorkerReadyWait = ''2m'',
     ac_WorkerPollInterval = ''2s'', ac_LifecycleInterval = ''15s'', ac_InvocationRetry = DefaultRetryPolicy,
     ac_MetricsRetry = DefaultRetryPolicy, ac_MaxPendingWorkersPerRequestID = 1\<rparr>"

definition normalizeConsumerName :: "string \<Rightarrow> string \<Rightarrow> string \<Rightarrow> string res" where
  "normalizeConsumerName field v fallback =
     (let normalized = or_default (TrimSpace v) fallback
      in if ContainsAny normalized name_specials
         then Inl (ErrorText (''%s %q is invalid'', [FS field, FS normalized])) else Inr normalized)"

definition ActivatorConfig_Normalized :: "'q k8s \<Rightarrow> ActivatorConfig \<Rightarrow> ActivatorConfig res" where
  "ActivatorConfig_Normalized K c =
     andThen (NATSConfig_Normalized K (ac_Serverless c)) (\<lambda>nats.
       if \<not> NATSConfig_Enabled nats
       then Inl (ErrorText (msg ''serverless.url is required for the activator''))
       else
       andThen (normalizeConsumerName ''consumerName'' (ac_ConsumerName c) ''runtime-activator'') (\<lambda>consumer.
       andThen (normalizeConsumerName ''metricsConsumerName'' (ac_MetricsConsumerName c) ''runtime-activator-metrics'') (\<lambda>metrics.
       let readyWait = or_default (ac_WorkerReadyWait c) ''2m'';
           poll = or_default (ac_WorkerPollInterval c) ''2s'';
           interval = or_default (ac_LifecycleInterval c) ''15s''
       in andThen (check_duration ''parse workerReadyWait %q: %w'' readyWait) (\<lambda>_.
          andThen (check_duration ''parse workerPollInterval %q: %w'' poll) (\<lambda>_.
          andThen (check_duration ''parse lifecycleInterval %q: %w'' interval) (\<lambda>_.
          andThen (mapErr (Wrap (msg ''normalize invocationRetry: %w'')) (RetryPolicy_Normalized (ac_InvocationRetry c))) (\<lambda>invocationRetry.
          andThen (mapErr (Wrap (msg ''normalize metricsRetry: %w'')) (RetryPolicy_Normalized (ac_MetricsRetry c))) (\<lambda>metricsRetry.
            Inr \<lparr>ac_Serverless = nats, ac_ConsumerName = consumer, ac_MetricsConsumerName = metrics,
              ac_WorkerReadyWait = readyWait, ac_WorkerPollInterval = poll, ac_LifecycleInterval = interval,
              ac_InvocationRetry = invocationRetry, ac_MetricsRetry = metricsRetry,
              ac_MaxPendingWorkersPerRequestID =
                (if ac_MaxPendingWorkersPerRequestID c \<le> 0 then 1 else ac_MaxPendingWorkersPerRequestID c)\<rparr>))))))))"

definition WorkerReadyWaitDuration :: "ActivatorConfig \<Rightarrow> duration" where
  "WorkerReadyWaitDuration c = duration_or_zero (ac_WorkerReadyWait c)"

definition WorkerPollIntervalDuration :: "ActivatorConfig \<Rightarrow> duration" where
  "WorkerPollIntervalDuration c = duration_or_zero (ac_WorkerPollInterval c)"

definition LifecycleIntervalDuration :: "ActivatorConfig \<Rightarrow> duration" where
  "LifecycleIntervalDuration c = duration_or_zero (ac_LifecycleInterval c)"

definition AckWaitDuration :: "ActivatorConfig \<Rightarrow> duration" where
  "AckWaitDuration c = WorkerReadyWaitDuration c + 15 * second"

definition InvocationConsumerOptions :: "ActivatorConfig \<Rightarrow> ConsumerOptions" where
  "InvocationConsumerOptions c = \<lparr>co_AckWait = AckWaitDuration c, co_Retry = ac_InvocationRetry c,
     co_DeadLetterSource = DeadLetterSourceInvocation\<rparr>"

definition MetricsConsumerOptions :: "ActivatorConfig \<Rightarrow> ConsumerOptions" where
  "MetricsConsumerOptions c = \<lparr>co_AckWait = AckWaitDuration c, co_Retry = ac_MetricsRetry c,
     co_DeadLetterSource = DeadLetterSourceMetric\<rparr>"

section \<open>Finding a worker\<close>

definition listServerlessUnits ::
    "'w RuntimeControl \<Rightarrow> string \<Rightarrow> 'w \<Rightarrow> GPUUnitRuntime list res \<times> 'w" where
  "listServerlessUnits R requestID w =
     (let (r, w) = rc_List R [] w
      in (andThen r (\<lambda>units. Inr (sort_key rt_Name (filter (serverless_of requestID) units))), w))"

definition firstPendingWorker :: "GPUUnitRuntime list \<Rightarrow> string \<Rightarrow> GPUUnitRuntime option" where
  "firstPendingWorker units requestID = find (\<lambda>u. serverless_of requestID u \<and> rt_Phase u \<noteq> PhaseReady) units"

definition pendingManagedWorkers :: "GPUUnitRuntime list \<Rightarrow> string \<Rightarrow> int" where
  "pendingManagedWorkers units requestID =
     int (length (filter (\<lambda>u. serverless_of requestID u \<and> isActivatorManagedWorker u \<and> rt_Phase u \<noteq> PhaseReady) units))"

text \<open>
  The polls of a wait: one at once and one per tick before the deadline; \<open>n\<close> counts the ticks left.
  After the last one the rest of the time passes and the context is done. A call of the runtime
  takes no time of its own, and a tick that falls on the deadline loses to it.
\<close>

fun poll_loop :: "'w RuntimeControl \<Rightarrow> string \<Rightarrow> duration \<Rightarrow> duration \<Rightarrow> nat \<Rightarrow> WorkerRegistry \<Rightarrow> 'w
    \<Rightarrow> Worker res \<times> WorkerRegistry \<times> 'w" where
  "poll_loop R name poll rest n registry w =
     (let (r, w) = rc_Get R DefaultInstanceNamespace name w
      in if (case r of Inr u \<Rightarrow> isReadyWorkerUnit u (sls_RequestID (rt_Serverless u)) | Inl _ \<Rightarrow> False)
         then let u = projr r
              in (Inr (workerFromUnit u), Registry_Sync (sls_RequestID (rt_Serverless u)) [u] registry, w)
         else case n of
                0 \<Rightarrow> (Inl (Wrap (''wait for worker %s to become ready: %w'', [FS name]) DeadlineExceeded),
                       registry, rc_Wait R (max 0 rest) w)
              | Suc n \<Rightarrow> poll_loop R name poll (rest - poll) n registry (rc_Wait R poll w))"

declare poll_loop.simps [simp del]

definition waitForWorkerReady :: "'w RuntimeControl \<Rightarrow> ActivatorConfig \<Rightarrow> string \<Rightarrow> WorkerRegistry \<Rightarrow> 'w
    \<Rightarrow> (Worker res \<times> WorkerRegistry \<times> 'w) option" where
  "waitForWorkerReady R cfg name registry w =
     (let wait = WorkerReadyWaitDuration cfg
      in case NewTicker (WorkerPollIntervalDuration cfg) of
           None \<Rightarrow> None
         | Some poll \<Rightarrow> Some (poll_loop R name poll wait (nat ((wait - 1) div poll)) registry w))"

definition acquireWorker :: "'w RuntimeControl \<Rightarrow> ActivatorConfig \<Rightarrow> string \<Rightarrow> string \<Rightarrow> WorkerRegistry \<Rightarrow> 'w
    \<Rightarrow> (Worker res \<times> WorkerRegistry \<times> 'w) option" where
  "acquireWorker R cfg requestID invocationID registry w =
     (case listServerlessUnits R requestID w of
        (Inl e, w) \<Rightarrow> Some (Inl e, registry, w)
      | (Inr units, w) \<Rightarrow>
          let registry = Registry_Sync requestID units registry
          in case Registry_Pick requestID registry of
               Some worker \<Rightarrow> Some (Inr worker, registry, w)
             | None \<Rightarrow>
                 if units = []
                 then Some (Inl (Wrap (''%w %q'', [FS requestID]) ErrNoServerlessWorkerTemplate), registry, w)
                 else
                   let create = (\<lambda>registry w.
                         let template = templateUnit units;
                             pending = pendingManagedWorkers units requestID
                         in if pending \<ge> ac_MaxPendingWorkersPerRequestID cfg
                            then Some (Inl (BackpressureError requestID pending (ac_MaxPendingWorkersPerRequestID cfg)), registry, w)
                            else
                              (case rc_Create R (buildCreateRequest template invocationID) w of
                                 (Inl e, w) \<Rightarrow> Some (Inl (Wrap (''create serverless worker from template %s: %w'',
                                                  [FS (rt_Name template)]) e), registry, w)
                               | (Inr (created, _), w) \<Rightarrow> waitForWorkerReady R cfg (rt_Name created) registry w))
                   in case firstPendingWorker units requestID of
                        None \<Rightarrow> create registry w
                      | Some candidate \<Rightarrow>
                          (case waitForWorkerReady R cfg (rt_Name candidate) registry w of
                             None \<Rightarrow> None
                           | Some (Inr worker, registry, w) \<Rightarrow> Some (Inr worker, registry, w)
                           | Some (Inl _, registry, w) \<Rightarrow> create registry w))"

section \<open>Processing an invocation\<close>

definition isRetryableInvocationError :: "error \<Rightarrow> bool" where
  "isRetryableInvocationError e =
     (if errors_As_backpressure e then True else \<not> errors_Is e ErrNoServerlessWorkerTemplate)"

definition classifyInvocationFailure :: "error \<Rightarrow> InvocationFailureClass" where
  "classifyInvocationFailure e =
     (if errors_Is e ErrNoServerlessWorkerTemplate then InvocationFailureNoWorkerTemplate
      else if errors_As_backpressure e then InvocationFailureBackpressure
      else if errors_Is e DeadlineExceeded then InvocationFailureActivationTimeout
      else InvocationFailureDispatchError)"

datatype activator_event = EvDispatched WorkerDispatchMessage | EvFailed InvocationResultMessage

definition publishResult :: "unit res option \<Rightarrow> gotime \<Rightarrow> InvocationResultMessage \<Rightarrow> activator_event list \<times> unit res" where
  "publishResult publisher now result0 =
     (let result = (if res_CompletedAt result0 = 0 then result0\<lparr>res_CompletedAt := now\<rparr> else result0)
      in case publisher of
           None \<Rightarrow> ([], Inl (ErrorText (msg ''invocation result publisher is required'')))
         | Some answer \<Rightarrow> ([EvFailed result], answer))"

definition dispatchToWorker ::
    "ActivatorConfig \<Rightarrow> unit res option \<Rightarrow> gotime \<Rightarrow> Worker \<Rightarrow> InvocationMessage \<Rightarrow> activator_event list \<times> unit res" where
  "dispatchToWorker cfg dispatches now worker invocation =
     (let pfx = nats_SubjectPrefix (ac_Serverless cfg);
          resultSubject = or_default (TrimSpace (inv_ResultSubject invocation))
            (ResultSubject pfx (inv_ServerlessRequestID invocation));
          metricsSubject = or_default (TrimSpace (inv_MetricsSubject invocation))
            (MetricsSubject pfx (inv_ServerlessRequestID invocation))
      in case dispatches of
           None \<Rightarrow> ([], Inl (ErrorText (msg ''worker dispatch publisher is required'')))
         | Some answer \<Rightarrow>
             ([EvDispatched \<lparr>dsp_Version = InvocationVersion, dsp_InvocationID = inv_InvocationID invocation,
                 dsp_ServerlessRequestID = inv_ServerlessRequestID invocation, dsp_WorkerName = w_Name worker,
                 dsp_WorkerNamespace = w_Namespace worker, dsp_Mode = inv_Mode invocation,
                 dsp_State = InvocationStateDispatching, dsp_ContentType = inv_ContentType invocation,
                 dsp_Headers = cloneStringMap (inv_Headers invocation),
                 dsp_Attributes = cloneStringMap (inv_Attributes invocation),
                 dsp_Payload = inv_Payload invocation, dsp_TimeoutSeconds = inv_TimeoutSeconds invocation,
                 dsp_ResultSubject = resultSubject, dsp_MetricsSubject = metricsSubject,
                 dsp_ReplySubject = inv_ReplySubject invocation, dsp_DispatchedAt = now\<rparr>], answer))"

definition ProcessInvocation ::
    "'w RuntimeControl \<Rightarrow> ActivatorConfig \<Rightarrow> unit res option \<Rightarrow> unit res option \<Rightarrow> InvocationMessage \<Rightarrow> WorkerRegistry
     \<Rightarrow> 'w \<Rightarrow> (activator_event list \<times> unit res \<times> WorkerRegistry \<times> 'w) option" where
  "ProcessInvocation R cfg dispatches resultPub invocation registry w0 =
     (let result = zero_result\<lparr>res_Version := InvocationVersion, res_InvocationID := inv_InvocationID invocation,
            res_ServerlessRequestID := inv_ServerlessRequestID invocation, res_Mode := inv_Mode invocation,
            res_ReplySubject := inv_ReplySubject invocation, res_CompletedAt := rc_Now R w0\<rparr>
      in case acquireWorker R cfg (inv_ServerlessRequestID invocation) (inv_InvocationID invocation) registry w0 of
           None \<Rightarrow> None
         | Some (Inl e, registry, w) \<Rightarrow>
             if isRetryableInvocationError e then Some ([], Inl e, registry, w)
             else
               let result = result\<lparr>res_StatusCode := 503, res_State := InvocationStateFailed,
                     res_FailureClass := classifyInvocationFailure e, res_Error := Some e\<rparr>;
                   (evs, r) = publishResult resultPub (rc_Now R w) result
               in Some (evs, r, registry, w)
         | Some (Inr worker, registry, w) \<Rightarrow>
             let (evs, r) = dispatchToWorker cfg dispatches (rc_Now R w) worker invocation
             in Some (evs, mapErr (Wrap (''dispatch invocation %s to worker %s/%s: %w'',
                   [FS (inv_InvocationID invocation), FS (w_Namespace worker), FS (w_Name worker)])) r, registry, w))"

definition HandleWorkerMetric ::
    "gotime \<Rightarrow> WorkerMetricMessage \<Rightarrow> WorkerState smap \<Rightarrow> unit res \<times> WorkerState smap" where
  "HandleWorkerMetric now metric workers = (Inr (), ObserveMetric now metric workers)"

section \<open>Waiting\<close>

lemma Registry_Sync_one:
  assumes "isReadyWorkerUnit u q"
  shows "workerFromUnit u \<in> snd ` set (Registry_Sync q [u] registry)"
proof -
  let ?k = "workerKey (rt_Namespace u) (rt_Name u)"
  have "(?k, workerFromUnit u) \<in> set (map_put ?k (workerFromUnit u) registry)"
    by (rule map_of_SomeD) simp
  with assms show ?thesis
    by (force simp: Registry_Sync_def sync_step_def Let_def workerFromUnit_def image_iff)
qed

lemma Registry_Pick_member:
  "Registry_Pick q registry = Some worker \<Longrightarrow> worker \<in> snd ` set registry"
  by (force simp: Registry_Pick_def split: list.splits dest!: map_of_SomeD)

lemma poll_loop_member:
  "poll_loop R name poll rest n registry w = (Inr worker, registry', w') \<Longrightarrow> worker \<in> snd ` set registry'"
proof (induction R name poll rest n registry w rule: poll_loop.induct)
  case (1 R name poll rest n registry w)
  obtain r v where g: "rc_Get R DefaultInstanceNamespace name w = (r, v)" by fastforce
  show ?case
  proof (cases "case r of Inr u \<Rightarrow> isReadyWorkerUnit u (sls_RequestID (rt_Serverless u)) | Inl _ \<Rightarrow> False")
    case True
    then obtain u where "r = Inr u" "isReadyWorkerUnit u (sls_RequestID (rt_Serverless u))"
      by (auto split: sum.splits)
    with "1.prems" g Registry_Sync_one show ?thesis by (auto simp: poll_loop.simps [of R])
  next
    case False
    show ?thesis
    proof (cases n)
      case 0
      with "1.prems" g False show ?thesis by (simp add: poll_loop.simps [of R])
    next
      case (Suc m)
      with "1.prems" g False have "poll_loop R name poll (rest - poll) m registry (rc_Wait R poll v) = (Inr worker, registry', w')"
        by (simp add: poll_loop.simps [of R _ _ _ "Suc m"])
      with "1.IH" [OF g [symmetric] refl] False Suc show ?thesis by simp
    qed
  qed
qed

lemma waitForWorkerReady_member:
  "waitForWorkerReady R cfg name registry w = Some (Inr worker, registry', w') \<Longrightarrow> worker \<in> snd ` set registry'"
  by (auto simp: waitForWorkerReady_def Let_def split: option.splits dest: poll_loop_member)

lemma waitForWorkerReady_None:
  "waitForWorkerReady R cfg name registry w = None \<longleftrightarrow> WorkerPollIntervalDuration cfg \<le> 0"
  by (simp add: waitForWorkerReady_def Let_def NewTicker_def)

lemmas acquire_splits = prod.splits sum.splits option.splits if_splits

lemma acquireWorker_member:
  "acquireWorker R cfg q i registry w = Some (Inr worker, registry', w') \<Longrightarrow> worker \<in> snd ` set registry'"
  by (auto simp: acquireWorker_def Let_def split: acquire_splits
      dest: Registry_Pick_member waitForWorkerReady_member)

lemma acquireWorker_None:
  "acquireWorker R cfg q i registry w = None \<Longrightarrow> WorkerPollIntervalDuration cfg \<le> 0"
  by (auto simp: acquireWorker_def Let_def waitForWorkerReady_None split: acquire_splits)

section \<open>Outcomes\<close>

lemma not_retryable_class:
  "\<not> isRetryableInvocationError e \<Longrightarrow> classifyInvocationFailure e = InvocationFailureNoWorkerTemplate"
  by (simp add: isRetryableInvocationError_def classifyInvocationFailure_def split: if_splits)

text \<open>A dispatch that carries the invocation to a worker.\<close>

definition dispatch_carries :: "ActivatorConfig \<Rightarrow> InvocationMessage \<Rightarrow> Worker \<Rightarrow> WorkerDispatchMessage \<Rightarrow> bool" where
  "dispatch_carries cfg i worker d =
     (dsp_InvocationID d = inv_InvocationID i \<and> dsp_ServerlessRequestID d = inv_ServerlessRequestID i
      \<and> dsp_Payload d = inv_Payload i \<and> dsp_ReplySubject d = inv_ReplySubject i \<and> dsp_Mode d = inv_Mode i
      \<and> dsp_TimeoutSeconds d = inv_TimeoutSeconds i \<and> dsp_State d = InvocationStateDispatching
      \<and> dsp_WorkerName d = w_Name worker \<and> dsp_WorkerNamespace d = w_Namespace worker
      \<and> dsp_ResultSubject d = or_default (TrimSpace (inv_ResultSubject i))
          (ResultSubject (nats_SubjectPrefix (ac_Serverless cfg)) (inv_ServerlessRequestID i)))"

text \<open>A failure result of the activator.\<close>

definition failure_reports :: "InvocationMessage \<Rightarrow> InvocationResultMessage \<Rightarrow> bool" where
  "failure_reports i f =
     (res_InvocationID f = inv_InvocationID i \<and> res_ServerlessRequestID f = inv_ServerlessRequestID i
      \<and> res_ReplySubject f = inv_ReplySubject i \<and> res_StatusCode f = 503
      \<and> res_State f = InvocationStateFailed \<and> res_FailureClass f = InvocationFailureNoWorkerTemplate)"

lemma dispatchToWorker_carries:
  "\<exists>d. dispatchToWorker cfg (Some answer) now worker i = ([EvDispatched d], answer) \<and> dispatch_carries cfg i worker d"
  by (simp add: dispatchToWorker_def dispatch_carries_def Let_def)

lemma publishResult_event:
  "\<exists>f. publishResult (Some answer) now result = ([EvFailed f], answer)
     \<and> f = result\<lparr>res_CompletedAt := (if res_CompletedAt result = 0 then now else res_CompletedAt result)\<rparr>"
  by (simp add: publishResult_def Let_def)

text \<open>
  C8. Processing an invocation ends in exactly one of three ways: it publishes one dispatch that
  carries the invocation to a worker the registry holds, and returns what the publication returned;
  it publishes one 503 result, always of the class that no worker template exists, and returns what
  that publication returned; or it publishes nothing and returns an error that asks for redelivery.
\<close>

theorem process_invocation_outcome:
  assumes "ProcessInvocation R cfg (Some dispatched) (Some published) i registry w = Some (evs, r, registry', w')"
  shows "(\<exists>d worker. evs = [EvDispatched d] \<and> worker \<in> snd ` set registry' \<and> dispatch_carries cfg i worker d
        \<and> isOk r = isOk dispatched)
    \<or> (\<exists>f. evs = [EvFailed f] \<and> failure_reports i f \<and> r = published)
    \<or> (evs = [] \<and> (\<exists>e. r = Inl e \<and> isRetryableInvocationError e))"
proof -
  obtain a reg v where a: "acquireWorker R cfg (inv_ServerlessRequestID i) (inv_InvocationID i) registry w = Some (a, reg, v)"
    using assms by (auto simp: ProcessInvocation_def Let_def split: option.splits)
  show ?thesis
  proof (cases a)
    case (Inr worker)
    obtain d where d: "dispatchToWorker cfg (Some dispatched) (rc_Now R v) worker i = ([EvDispatched d], dispatched)"
      "dispatch_carries cfg i worker d" using dispatchToWorker_carries by blast
    have k: "isOk (mapErr g dispatched) = isOk dispatched" for g :: "error \<Rightarrow> error"
      by (cases dispatched) (simp_all add: isOk_def mapErr_def)
    have e: "evs = [EvDispatched d]" "reg = registry'" "isOk r = isOk dispatched"
      using assms by (auto simp: ProcessInvocation_def a Inr d(1) Let_def k)
    have "worker \<in> snd ` set reg" by (rule acquireWorker_member [OF a [unfolded Inr]])
    with e d(2) show ?thesis by blast
  next
    case (Inl e)
    show ?thesis
    proof (cases "isRetryableInvocationError e")
      case True
      with assms show ?thesis by (auto simp: ProcessInvocation_def a Inl Let_def)
    next
      case False
      with assms show ?thesis
        by (auto simp: ProcessInvocation_def a Inl Let_def publishResult_def failure_reports_def not_retryable_class)
    qed
  qed
qed

text \<open>A runtime whose units never become ready, with the clock as its world: what a wait costs is
  visible in the clock.\<close>

definition slow_runtime :: "GPUUnitRuntime list \<Rightarrow> gotime RuntimeControl" where
  "slow_runtime us = \<lparr>rc_List = (\<lambda>_ t. (Inr us, t)), rc_Create = (\<lambda>req t. (Inr (hd us, True), t)),
     rc_Get = (\<lambda>_ name t. (case find (\<lambda>u. rt_Name u = name) us of Some u \<Rightarrow> Inr u | None \<Rightarrow> Inl (ErrorText (msg ''not found'')), t)),
     rc_Delete = (\<lambda>_ _ t. (Inr (), t)), rc_Now = id, rc_Wait = (\<lambda>d t. t + d)\<rparr>"

definition sample_invocation :: InvocationMessage where
  "sample_invocation = \<lparr>inv_Version = InvocationVersion, inv_InvocationID = ''i1'', inv_ServerlessRequestID = ''llm'',
     inv_Mode = InvocationModeAsync, inv_State = InvocationStateQueued, inv_ContentType = [], inv_Headers = [],
     inv_Attributes = [], inv_Payload = ''{}'', inv_TimeoutSeconds = 0, inv_ResultSubject = [],
     inv_MetricsSubject = [], inv_ReplySubject = [], inv_EnqueuedAt = 0\<rparr>"

lemma acquireWorker_ready:
  assumes "listServerlessUnits R q w = (Inr us, v)"
    and "Registry_Pick q (Registry_Sync q us registry) = Some worker"
  shows "acquireWorker R cfg q i registry w = Some (Inr worker, Registry_Sync q us registry, v)"
  using assms by (simp add: acquireWorker_def Let_def)

theorem process_invocation_outcome_witness:
  "\<exists>d worker. dispatch_carries DefaultActivatorConfig sample_invocation worker d \<and> w_Name worker = ''a''"
proof -
  let ?u = "sample_unit ''a'' PhaseReady 1"
  let ?R = "slow_runtime [?u]"
  have i: "inv_ServerlessRequestID sample_invocation = ''llm''" by (simp add: sample_invocation_def)
  have l: "listServerlessUnits ?R ''llm'' 7 = (Inr [?u], 7)"
    by (simp add: listServerlessUnits_def slow_runtime_def sample_unit_def andThen_def)
  have "isReadyWorkerUnit ?u ''llm''" by code_simp
  then have s: "Registry_Sync ''llm'' [?u] NewWorkerRegistry = [(workerKey (rt_Namespace ?u) ''a'', workerFromUnit ?u)]"
    "Registry_Pick ''llm'' [(workerKey (rt_Namespace ?u) ''a'', workerFromUnit ?u)] = Some (workerFromUnit ?u)"
    by (simp_all add: Registry_Sync_def Registry_Pick_def sync_step_def NewWorkerRegistry_def workerFromUnit_def
        sample_unit_def map_put_def Let_def)
  have a: "acquireWorker ?R cfg (inv_ServerlessRequestID sample_invocation) j NewWorkerRegistry 7
      = Some (Inr (workerFromUnit ?u), Registry_Sync ''llm'' [?u] NewWorkerRegistry, 7)" for cfg j
    unfolding i by (rule acquireWorker_ready [OF l]) (simp add: s)
  obtain evs r where p: "ProcessInvocation ?R DefaultActivatorConfig (Some (Inr ())) (Some (Inr ())) sample_invocation
      NewWorkerRegistry 7 = Some (evs, r, Registry_Sync ''llm'' [?u] NewWorkerRegistry, 7)" "r = Inr ()" "evs \<noteq> []"
    "list_all (\<lambda>e. case e of EvDispatched d \<Rightarrow> True | _ \<Rightarrow> False) evs"
    using a by (simp add: ProcessInvocation_def Let_def dispatchToWorker_def mapErr_def)
  have "w_Name (workerFromUnit ?u) = ''a''" by (simp add: workerFromUnit_def sample_unit_def)
  with process_invocation_outcome [OF p(1)] p(2-4) show ?thesis by (auto simp: s)
qed
section \<open>Creation and backpressure\<close>

lemma poll_loop_create: "poll_loop (R\<lparr>rc_Create := c\<rparr>) name poll rest n registry w = poll_loop R name poll rest n registry w"
proof (induction n arbitrary: rest w)
  case 0
  then show ?case by (simp add: poll_loop.simps Let_def split: prod.splits)
next
  case (Suc n)
  then show ?case by (simp add: poll_loop.simps [of _ _ _ _ "Suc n"] Let_def split: prod.splits)
qed

lemma waitForWorkerReady_create:
  "waitForWorkerReady (R\<lparr>rc_Create := c\<rparr>) cfg name registry w = waitForWorkerReady R cfg name registry w"
  by (simp add: waitForWorkerReady_def poll_loop_create Let_def split: option.splits)

lemma listServerlessUnits_create: "listServerlessUnits (R\<lparr>rc_Create := c\<rparr>) q w = listServerlessUnits R q w"
  by (simp add: listServerlessUnits_def)

text \<open>
  C9. A worker is created for an invocation only when it is needed and allowed: when the listing
  shows a ready worker, or no unit of the request at all, or as many pending workers of the
  activator as the limit, the outcome does not depend on what a creation would do, because none is
  attempted.
\<close>

theorem acquire_creates_only_below_limit:
  assumes "listServerlessUnits R q w = (Inr us, v)"
    and "Registry_Pick q (Registry_Sync q us registry) \<noteq> None \<or> us = []
      \<or> pendingManagedWorkers us q \<ge> ac_MaxPendingWorkersPerRequestID cfg"
  shows "acquireWorker (R\<lparr>rc_Create := c\<rparr>) cfg q i registry w = acquireWorker R cfg q i registry w"
  using assms
  by (auto simp: acquireWorker_def Let_def listServerlessUnits_create waitForWorkerReady_create
      split: option.splits)

theorem acquire_creates_only_below_limit_witness:
  "let R = slow_runtime [sample_unit ''unit-llm-worker-1'' PhaseProgressing 1]
   in acquireWorker (R\<lparr>rc_Create := (\<lambda>_ t. (Inl ErrNoServerlessWorkerTemplate, t))\<rparr>) DefaultActivatorConfig ''llm'' ''i1'' NewWorkerRegistry 7
      = acquireWorker R DefaultActivatorConfig ''llm'' ''i1'' NewWorkerRegistry 7"
proof -
  let ?us = "[sample_unit ''unit-llm-worker-1'' PhaseProgressing 1]"
  have l: "listServerlessUnits (slow_runtime ?us) ''llm'' 7 = (Inr ?us, 7)"
    by (simp add: listServerlessUnits_def slow_runtime_def sample_unit_def andThen_def)
  have "pendingManagedWorkers ?us ''llm'' \<ge> ac_MaxPendingWorkersPerRequestID DefaultActivatorConfig"
    by code_simp
  with acquire_creates_only_below_limit [OF l] show ?thesis by simp
qed

section \<open>Panics and waits\<close>



lemma poll_loop_never_ready:
  assumes "\<And>t. rc_Get R DefaultInstanceNamespace name t = (Inr u, t)" "rt_Phase u \<noteq> PhaseReady"
    "\<And>d t. rc_Wait R d t = t + d" "0 < poll" "int n * poll \<le> rest"
  shows "poll_loop R name poll rest n registry (t :: int) =
    (Inl (Wrap (''wait for worker %s to become ready: %w'', [FS name]) DeadlineExceeded), registry, t + rest)"
  using assms(5)
proof (induction n arbitrary: rest t)
  case 0
  then show ?case using assms(1-3) by (simp add: poll_loop.simps isReadyWorkerUnit_def)
next
  case (Suc n)
  have "int n * poll \<le> rest - poll" using Suc.prems by (simp add: algebra_simps)
  from Suc.IH [OF this, of "t + poll"] show ?case
    using assms(1-3) by (simp add: poll_loop.simps [of _ _ _ _ "Suc n"] isReadyWorkerUnit_def)
qed

lemma waitForWorkerReady_never_ready:
  assumes "\<And>t. rc_Get R DefaultInstanceNamespace name t = (Inr u, t)" "rt_Phase u \<noteq> PhaseReady"
    "\<And>d t. rc_Wait R d t = t + d" "0 < WorkerPollIntervalDuration cfg" "0 < WorkerReadyWaitDuration cfg"
  shows "waitForWorkerReady R cfg name registry (t :: int) =
    Some (Inl (Wrap (''wait for worker %s to become ready: %w'', [FS name]) DeadlineExceeded), registry,
      t + WorkerReadyWaitDuration cfg)"
proof -
  let ?p = "WorkerPollIntervalDuration cfg" and ?w = "WorkerReadyWaitDuration cfg"
  have "0 \<le> (?w - 1) div ?p" using assms(4,5) by (simp add: pos_imp_zdiv_nonneg_iff)
  then have "int (nat ((?w - 1) div ?p)) * ?p = (?w - 1) div ?p * ?p" by simp
  also have "\<dots> = ?w - 1 - (?w - 1) mod ?p" by (simp add: minus_mod_eq_div_mult)
  finally have "int (nat ((?w - 1) div ?p)) * ?p \<le> ?w" using assms(4) pos_mod_sign [of ?p "?w - 1"] by linarith
  from poll_loop_never_ready [OF assms(1-4) this] show ?thesis
    using assms(4) by (simp add: waitForWorkerReady_def NewTicker_def Let_def)
qed

text \<open>
  When a request has only a pending template, processing waits for it and then again for the
  worker it creates: the invocation takes twice the ready wait, which is more than the acknowledge
  wait of its consumer as soon as the ready wait exceeds fifteen seconds, so that the message is
  delivered again while it is being processed.
\<close>

theorem acquire_waits_twice:
  assumes "rt_Phase u \<noteq> PhaseReady" "serverless_of q u" "\<not> isActivatorManagedWorker u"
    and "0 < WorkerPollIntervalDuration cfg" "15 * second < WorkerReadyWaitDuration cfg"
    and "0 < ac_MaxPendingWorkersPerRequestID cfg"
  shows "\<exists>e registry' t'. acquireWorker (slow_runtime [u]) cfg q i NewWorkerRegistry t = Some (Inl e, registry', t')
    \<and> isRetryableInvocationError e
    \<and> t' = t + 2 * WorkerReadyWaitDuration cfg
    \<and> t' > t + co_AckWait (InvocationConsumerOptions cfg)"
proof -
  let ?R = "slow_runtime [u]"
  have g: "\<And>t. rc_Get ?R DefaultInstanceNamespace (rt_Name u) t = (Inr u, t)" "\<And>d t. rc_Wait ?R d t = t + d"
    by (simp_all add: slow_runtime_def)
  have l: "listServerlessUnits ?R q t = (Inr [u], t)"
    using assms(2) by (simp add: listServerlessUnits_def slow_runtime_def andThen_def)
  have s: "Registry_Sync q [u] NewWorkerRegistry = []" "Registry_Pick q [] = None"
    using assms(1) by (simp_all add: Registry_Sync_def sync_step_def isReadyWorkerUnit_def NewWorkerRegistry_def Registry_Pick_def)
  have c: "firstPendingWorker [u] q = Some u" "pendingManagedWorkers [u] q = 0" "templateUnit [u] = u"
    using assms(1-3) by (simp_all add: firstPendingWorker_def pendingManagedWorkers_def templateUnit_def)
  have wt: "0 < WorkerReadyWaitDuration cfg" using assms(5) by (simp add: second_def)
  have cr: "rc_Create ?R req t' = (Inr (u, True), t')" for req t' by (simp add: slow_runtime_def)
  note w = waitForWorkerReady_never_ready [OF g(1) assms(1) g(2) assms(4) wt]
  have "acquireWorker ?R cfg q i NewWorkerRegistry t =
      Some (Inl (Wrap (''wait for worker %s to become ready: %w'', [FS (rt_Name u)]) DeadlineExceeded), [],
        t + WorkerReadyWaitDuration cfg + WorkerReadyWaitDuration cfg)"
    using assms(6) by (simp add: acquireWorker_def l s c w cr Let_def)
  moreover have "isRetryableInvocationError (Wrap m DeadlineExceeded)" for m
    by (simp add: isRetryableInvocationError_def)
  ultimately show ?thesis using assms(5)
    by (simp add: InvocationConsumerOptions_def AckWaitDuration_def)
qed

theorem acquire_waits_twice_witness:
  "\<exists>e registry' t'. acquireWorker (slow_runtime [sample_unit ''llm'' PhaseProgressing 1]) DefaultActivatorConfig ''llm'' ''i1''
      NewWorkerRegistry 0 = Some (Inl e, registry', t') \<and> t' = 240 * second"
proof -
  have d: "0 < WorkerPollIntervalDuration DefaultActivatorConfig" "15 * second < WorkerReadyWaitDuration DefaultActivatorConfig"
    "0 < ac_MaxPendingWorkersPerRequestID DefaultActivatorConfig" "WorkerReadyWaitDuration DefaultActivatorConfig = 120 * second"
    by code_simp+
  have u: "rt_Phase (sample_unit ''llm'' PhaseProgressing 1) \<noteq> PhaseReady" "serverless_of ''llm'' (sample_unit ''llm'' PhaseProgressing 1)"
    "\<not> isActivatorManagedWorker (sample_unit ''llm'' PhaseProgressing 1)"
    by code_simp+
  from acquire_waits_twice [OF u d(1-3), of "''i1''" 0] d(4) show ?thesis by auto
qed

section \<open>Accepted configurations\<close>

lemma normalizeConsumerName_Inr:
  "normalizeConsumerName f v d = Inr n \<Longrightarrow> n = or_default (TrimSpace v) d \<and> \<not> ContainsAny n name_specials"
  by (auto simp: normalizeConsumerName_def Let_def split: if_splits)

text \<open>A configuration with a poll interval of zero is accepted, and the first invocation that has
  to wait panics.\<close>

definition zero_poll_config :: ActivatorConfig where
  "zero_poll_config = DefaultActivatorConfig\<lparr>ac_Serverless := DefaultNATSConfig\<lparr>nats_URL := ''nats://n:4222''\<rparr>,
     ac_WorkerPollInterval := ''0s''\<rparr>"

lemma zero_poll_interval_panics:
  "isOk (ActivatorConfig_Normalized ref_k8s zero_poll_config)
   \<and> ProcessInvocation (slow_runtime [sample_unit ''llm'' PhaseProgressing 1]) zero_poll_config None None
       sample_invocation NewWorkerRegistry 7 = None"
proof
  show "isOk (ActivatorConfig_Normalized ref_k8s zero_poll_config)" by code_simp
  show "ProcessInvocation (slow_runtime [sample_unit ''llm'' PhaseProgressing 1]) zero_poll_config None None
      sample_invocation NewWorkerRegistry 7 = None" by code_simp
qed

end
