(* ===== verification/Activator_Reconcile.thy ===== *)
theory Activator_Reconcile
  imports Activator_Lifecycle
begin

text \<open>
  A whole run of the lifecycle reconciliation (\<^verbatim>\<open>Reconcile\<close> of \<^verbatim>\<open>pkg/activator/lifecycle.go\<close>) against a
  runtime that obeys \<open>runtime_store\<close>: which units survive it, and that the ready workers of a request
  never fall below its minimum because of it. The order in which the groups are visited is open.
\<close>

context runtime_store
begin

text \<open>The units a run deletes for one group at one time.\<close>

abbreviation deleted_ids :: "WorkerState smap \<Rightarrow> gotime \<Rightarrow> string \<Rightarrow> GPUUnitRuntime list \<Rightarrow> (string \<times> string) set" where
  "deleted_ids workers t q us \<equiv> (\<lambda>c. unit_id (fst c)) ` set (idle_deletions workers t q us)"

lemma deleteIdleWorkers_survive:
  assumes "deleteIdleWorkers R workers q us w = (r, w')" "\<forall>u \<in> set us. canonical_id (unit_id u)"
    and "v \<in> set (units w)" "unit_id v \<notin> deleted_ids workers (rc_Now R w) q us"
  shows "v \<in> set (units w')"
proof -
  let ?cs = "idle_deletions workers (rc_Now R w) q us"
  obtain errs where l: "delete_loop R ?cs w = (errs, w')"
    using assms(1) by (auto simp: deleteIdleWorkers_def split: prod.splits)
  have "list_all (\<lambda>c. canonical_id (unit_id (fst c))) ?cs"
    using idle_deletions_member assms(2) by (fastforce simp: list_all_iff)
  from delete_loop_only [OF l this assms(3)] assms(4) show ?thesis by (simp add: comp_def)
qed

lemma ensureMinAvailable_survive:
  "ensureMinAvailable R q us w = (r, w') \<Longrightarrow> v \<in> set (units w) \<Longrightarrow> v \<in> set (units w')"
  using ensureMinAvailable_keeps [of q us w r w'] set_mset_mono [of "mset (units w)" "mset (units w')"] by auto

text \<open>Every unit that no group deletes at the time its turn comes is still there at the end.\<close>

lemma reconcile_groups_survive:
  assumes "reconcile_groups R gs m w = (errs, m', w')" "distinct (map fst gs)"
    and "\<forall>q us u. (q, us) \<in> set gs \<longrightarrow> u \<in> set us \<longrightarrow> canonical_id (unit_id u)"
  shows "\<exists>tm. \<forall>v \<in> set (units w). (\<forall>q us. (q, us) \<in> set gs \<longrightarrow> unit_id v \<notin> deleted_ids (lm_workers m) (tm q) q us)
    \<longrightarrow> v \<in> set (units w')"
  using assms
proof (induction gs arbitrary: m w errs)
  case Nil
  then show ?case by simp
next
  case (Cons g gs)
  obtain q us where g: "g = (q, us)" by fastforce
  let ?m = "m\<lparr>lm_registry := Registry_Sync q us (lm_registry m)\<rparr>"
  obtain r1 w1 where e: "ensureMinAvailable R q us w = (r1, w1)" by fastforce
  obtain r2 w2 where d: "deleteIdleWorkers R (lm_workers m) q us w1 = (r2, w2)" by fastforce
  obtain es m3 w3 where l: "reconcile_groups R gs ?m w2 = (es, m3, w3)" by (metis prod_cases3)
  have w3: "w3 = w'" "m3 = m'" using Cons.prems(1) g e d l by (simp_all add: Let_def)
  have lw: "lm_workers ?m = lm_workers m" by simp
  have gs: "distinct (map fst gs)" "\<forall>q us u. (q, us) \<in> set gs \<longrightarrow> u \<in> set us \<longrightarrow> canonical_id (unit_id u)"
    "\<And>us'. (q, us') \<notin> set gs" "\<forall>u \<in> set us. canonical_id (unit_id u)"
    using Cons.prems(2,3) g by (auto simp: image_iff)
  obtain tm where tm: "\<forall>v \<in> set (units w2). (\<forall>q us. (q, us) \<in> set gs \<longrightarrow> unit_id v \<notin> deleted_ids (lm_workers m) (tm q) q us)
      \<longrightarrow> v \<in> set (units w')"
    using Cons.IH [OF l [unfolded w3] gs(1,2)] unfolding lw by (elim exE)
  let ?tm = "tm(q := rc_Now R w1)"
  have "v \<in> set (units w')" if v: "v \<in> set (units w)"
    and a: "\<forall>q us. (q, us) \<in> set (g # gs) \<longrightarrow> unit_id v \<notin> deleted_ids (lm_workers m) (?tm q) q us" for v
  proof -
    have "unit_id v \<notin> deleted_ids (lm_workers m) (rc_Now R w1) q us" using a [rule_format, of q us] g by simp
    then have v2: "v \<in> set (units w2)" by (rule deleteIdleWorkers_survive [OF d gs(4) ensureMinAvailable_survive [OF e v]])
    have "unit_id v \<notin> deleted_ids (lm_workers m) (tm q') q' us'" if "(q', us') \<in> set gs" for q' us'
    proof -
      have "q' \<noteq> q" using that gs(3) by blast
      with a [rule_format, of q' us'] that show ?thesis by simp
    qed
    with tm v2 show ?thesis by blast
  qed
  then show ?case by (intro exI [of _ ?tm]) blast
qed

text \<open>The ready workers that survive are at least the minimum.\<close>

lemma survivors_count:
  assumes "distinct (map unit_id us0)" "int (card D) \<le> max 0 (int (ready_count q us0) - k)" "finite D"
    and "\<And>v. v \<in> set us0 \<Longrightarrow> isReadyWorkerUnit v q \<Longrightarrow> unit_id v \<notin> D \<Longrightarrow> v \<in> set us1"
  shows "int (ready_count q us1) \<ge> min (int (ready_count q us0)) k"
proof -
  let ?r = "\<lambda>us. {v \<in> set us. isReadyWorkerUnit v q}"
  let ?keep = "{v \<in> ?r us0. unit_id v \<notin> D}"
  have inj: "inj_on unit_id (?r us0)" using assms(1) by (auto simp: distinct_map intro: inj_on_subset)
  have c0: "card (?r us0) = ready_count q us0"
    using assms(1) by (metis distinct_card distinct_filter distinct_map set_filter)
  have "card (?r us1) \<le> ready_count q us1" by (metis card_length set_filter)
  moreover have "card ?keep \<le> card (?r us1)" using assms(4) by (intro card_mono) auto
  moreover have "card (?r us0) \<le> card ?keep + card D"
  proof -
    have "card {v \<in> ?r us0. unit_id v \<in> D} \<le> card D"
      using assms(3) inj by (intro card_inj_on_le [of unit_id]) (auto intro: inj_on_subset)
    moreover have "card (?keep \<union> {v \<in> ?r us0. unit_id v \<in> D}) \<le> card ?keep + card {v \<in> ?r us0. unit_id v \<in> D}"
      by (rule card_Un_le)
    moreover have "?keep \<union> {v \<in> ?r us0. unit_id v \<in> D} = ?r us0" by auto
    ultimately show ?thesis by (simp only: le_trans add_left_mono)
  qed
  ultimately show ?thesis using c0 assms(2) by linarith
qed

lemma group_of_listing:
  assumes "mset us = mset vs" "distinct (map unit_id vs)" "\<forall>u \<in> set vs. canonical_id (unit_id u)"
  shows "sort_key rt_Name (filter (serverless_of q) us) = sort_key rt_Name (filter (serverless_of q) vs)"
proof (rule sort_key_inj_key_eq)
  show "mset (filter (serverless_of q) us) = mset (sort_key rt_Name (filter (serverless_of q) vs))"
    using assms(1) by (simp add: mset_filter)
  have "set us = set vs" using assms(1) by (rule mset_eq_setD)
  have "inj_on rt_Name (set vs)"
  proof (rule inj_onI)
    fix x y assume a: "x \<in> set vs" "y \<in> set vs" "rt_Name x = rt_Name y"
    then have "unit_id x = unit_id y" using assms(3) by (auto simp: canonical_id_def)
    with a assms(2) show "x = y" by (meson distinct_map inj_onD)
  qed
  then show "inj_on rt_Name (set (filter (serverless_of q) us))"
    using \<open>set us = set vs\<close> by (auto intro: inj_on_subset)
qed (rule sorted_sort_key)

lemma groups_of_listing:
  assumes "mset us = mset (units w)" "(q, g) \<in> set (groupServerlessUnits us)"
  shows "g = sort_key rt_Name (filter (serverless_of q) (units w))"
proof -
  have "map_of (groupServerlessUnits us) q = Some g"
    using assms(2) serverless_group_keys by (intro map_of_is_SomeI) simp_all
  then have "g = sort_key rt_Name (filter (serverless_of q) us)" by (auto simp: serverless_group_lookup split: if_splits)
  with group_of_listing [OF assms(1) ids] canonical show ?thesis by auto
qed

lemma ready_group: "ready_count q (sort_key rt_Name (filter (serverless_of q) us)) = ready_count q us"
proof -
  have "ready_count q (sort_key rt_Name (filter (serverless_of q) us)) = ready_count q (filter (serverless_of q) us)"
    by (rule ready_count_mset) (rule mset_sort)
  moreover have "filter (\<lambda>u. isReadyWorkerUnit u q) (filter (serverless_of q) us) = filter (\<lambda>u. isReadyWorkerUnit u q) us"
    by (induction us) (auto simp: isReadyWorkerUnit_def)
  ultimately show ?thesis by (rule trans [OF _ arg_cong])
qed

text \<open>No group but the one of the request deletes a ready worker of the request.\<close>

lemma deleted_own_group:
  assumes "v \<in> set (units w)" "isReadyWorkerUnit v q" "set g \<subseteq> set (units w)" "q' \<noteq> q"
  shows "unit_id v \<notin> deleted_ids workers t q' g"
proof
  assume "unit_id v \<in> deleted_ids workers t q' g"
  then obtain c where c: "c \<in> set (idle_deletions workers t q' g)" "unit_id (fst c) = unit_id v" by fastforce
  obtain u s where us: "c = (u, s)" by (cases c)
  have u: "u \<in> set g" "isReadyWorkerUnit u q'" using idle_deletions_member [OF c(1) [unfolded us]] by simp_all
  have "inj_on unit_id (set (units w))" using ids [of w] by (simp add: distinct_map)
  then have "u = v" by (rule inj_onD) (use c(2) us u(1) assms(1,3) in auto)
  with u(2) assms(2,4) show False by (simp add: isReadyWorkerUnit_def)
qed

lemma deleted_card:
  "int (card (deleted_ids workers t q (sort_key rt_Name (filter (serverless_of q) us))))
     \<le> max 0 (int (ready_count q us) - min_available (sort_key rt_Name (filter (serverless_of q) us)))"
proof -
  let ?g = "sort_key rt_Name (filter (serverless_of q) us)"
  have "card (deleted_ids workers t q ?g) \<le> card (set (idle_deletions workers t q ?g))"
    by (rule card_image_le) simp
  moreover have "card (set (idle_deletions workers t q ?g)) \<le> length (idle_deletions workers t q ?g)"
    by (rule card_length)
  moreover have "length (idle_deletions workers t q ?g) \<le> nat (int (ready_count q us) - min_available ?g)"
    using idle_deletions_bound [of workers t q ?g] unfolding ready_group .
  ultimately show ?thesis by linarith
qed

abbreviation request_group :: "string \<Rightarrow> 'w \<Rightarrow> GPUUnitRuntime list" where
  "request_group q w \<equiv> sort_key rt_Name (filter (serverless_of q) (units w))"

lemma request_group_sub: "set (request_group q w) \<subseteq> set (units w)"
  by (simp add: subset_iff)

lemma reconcile_groups_minimum:
  assumes rg: "reconcile_groups R gs m w = (errs, m', w')" and d: "distinct (map fst gs)"
    and grp: "\<And>q' g. (q', g) \<in> set gs \<Longrightarrow> g = request_group q' w"
  shows "int (ready_count q (units w')) \<ge> min (int (ready_count q (units w))) (min_available (request_group q w))"
proof -
  have can: "\<forall>q g u. (q, g) \<in> set gs \<longrightarrow> u \<in> set g \<longrightarrow> canonical_id (unit_id u)"
  proof (intro allI impI)
    fix q' g u assume a: "(q', g) \<in> set gs" "u \<in> set g"
    from a(2) have "u \<in> set (units w)" unfolding grp [OF a(1)] by (rule subsetD [OF request_group_sub])
    then show "canonical_id (unit_id u)" by (rule canonical)
  qed
  obtain tm where tm: "\<forall>v \<in> set (units w). (\<forall>q us. (q, us) \<in> set gs \<longrightarrow> unit_id v \<notin> deleted_ids (lm_workers m) (tm q) q us)
      \<longrightarrow> v \<in> set (units w')"
    using reconcile_groups_survive [OF rg d can] by (elim exE)
  show ?thesis
  proof (rule survivors_count [OF ids deleted_card [of "lm_workers m" "tm q"]])
    fix v assume v: "v \<in> set (units w)" "isReadyWorkerUnit v q"
      "unit_id v \<notin> deleted_ids (lm_workers m) (tm q) q (request_group q w)"
    have "unit_id v \<notin> deleted_ids (lm_workers m) (tm q') q' g" if a: "(q', g) \<in> set gs" for q' g
    proof (cases "q' = q")
      case True
      show ?thesis unfolding grp [OF a] True by (rule v(3))
    next
      case False
      show ?thesis unfolding grp [OF a] by (rule deleted_own_group [OF v(1,2) request_group_sub False])
    qed
    then have "\<forall>q us. (q, us) \<in> set gs \<longrightarrow> unit_id v \<notin> deleted_ids (lm_workers m) (tm q) q us"
      by (intro allI impI)
    then show "v \<in> set (units w')" by (rule mp [OF bspec [OF tm v(1)]])
  qed (rule finite_imageI [OF finite_set])
qed

text \<open>
  A run leaves every request with as many ready workers as it had, or with the minimum of its group, whichever
  is smaller: whatever the group order, the failures of single calls and the clock.
\<close>

lemma Reconcile_keeps_minimum:
  assumes r: "Reconcile visit R m w = (r, m', w')" and vis: "\<And>g. mset (visit g) = mset g"
  shows "int (ready_count q (units w')) \<ge> min (int (ready_count q (units w))) (min_available (request_group q w))"
proof (cases "rc_List R [] w")
  case (Pair l w0)
  show ?thesis
  proof (cases l)
    case (Inl e)
    then have "units w' = units w" using r Pair list_err [of w e w0] by (simp add: Reconcile_def)
    then show ?thesis by simp
  next
    case (Inr us)
    have us: "mset us = mset (units w)" "units w0 = units w" using list_ok [OF Pair [unfolded Inr]] by simp_all
    let ?gs = "visit (groupServerlessUnits us)"
    obtain errs m1 w1 where e: "reconcile_groups R ?gs m w0 = (errs, m1, w1)" by (rule prod_cases3)
    then have rg: "reconcile_groups R ?gs m w0 = (errs, m', w')" using r Pair Inr by (simp add: Reconcile_def)
    have set: "set ?gs = set (groupServerlessUnits us)" by (rule mset_eq_setD [OF vis])
    have grp: "g = request_group q' w0" if "(q', g) \<in> set ?gs" for q' g
      using that unfolding set us(2) by (rule groups_of_listing [OF us(1)])
    have "image_mset fst (mset ?gs) = image_mset fst (mset (groupServerlessUnits us))" by (rule arg_cong [OF vis])
    then have "mset (map fst ?gs) = mset (map fst (groupServerlessUnits us))" by (simp only: mset_map)
    then have "distinct (map fst ?gs)" by (rule iffD2 [OF mset_eq_imp_distinct_iff serverless_group_keys])
    from reconcile_groups_minimum [OF rg this grp, of q] show ?thesis unfolding us(2) .
  qed
qed

end

end
