(* ===== verification/Service_Store.thy ===== *)
theory Service_Store
  imports Service_Storage Activator_Service Activator_Reconcile
begin

text \<open>
  The runtime service as a whole: sequences of its operations, the invariant of the stored objects,
  idempotency of creation, and the service as the runtime that the activator drives (the laws of
  \<open>runtime_store\<close>, from those of the API server).
\<close>

section \<open>Operations\<close>

datatype runtime_op =
    CreateUnit CreateGPUUnitRequest
  | UpdateUnit string string UpdateGPUUnitRequest
  | DeleteUnit string string
  | CreateStorage CreateGPUStorageRequest
  | UpdateStorage string string UpdateGPUStorageRequest
  | RecoverStorage string string string
  | DeleteStorage string string

fun run_op :: "'q k8s \<Rightarrow> (CreateGPUUnitRequest \<Rightarrow> string res) \<Rightarrow> ('w, 'q) Service \<Rightarrow> runtime_op \<Rightarrow> 'w \<Rightarrow> 'w" where
  "run_op K hash S (CreateUnit q) w = snd (CreateGPUUnit K hash S q w)"
| "run_op K hash S (UpdateUnit ns n q) w = snd (UpdateGPUUnit K S ns n q w)"
| "run_op K hash S (DeleteUnit ns n) w = snd (DeleteGPUUnit K S ns n w)"
| "run_op K hash S (CreateStorage q) w = snd (CreateGPUStorage K S q w)"
| "run_op K hash S (UpdateStorage ns n q) w = snd (UpdateGPUStorage K S ns n q w)"
| "run_op K hash S (RecoverStorage nonce ns n) w = snd (RecoverGPUStorage K S nonce ns n w)"
| "run_op K hash S (DeleteStorage ns n) w = snd (DeleteGPUStorage K S ns n w)"

definition run_ops :: "'q k8s \<Rightarrow> (CreateGPUUnitRequest \<Rightarrow> string res) \<Rightarrow> ('w, 'q) Service \<Rightarrow> runtime_op list \<Rightarrow> 'w \<Rightarrow> 'w" where
  "run_ops K hash S = fold (run_op K hash S)"

section \<open>The invariant of the stored objects\<close>

abbreviation active :: "GPUUnit \<Rightarrow> bool" where
  "active u \<equiv> unit_ns u = DefaultInstanceNamespace"

abbreviation mount_names :: "GPUUnit \<Rightarrow> string set" where
  "mount_names u \<equiv> set (map mnt_Name (spec_StorageMounts (unit_Spec u)))"

text \<open>No storage is mounted by two units.\<close>

definition exclusive_mounts :: "GPUUnit list \<Rightarrow> bool" where
  "exclusive_mounts us = (\<forall>u \<in> set us. \<forall>v \<in> set us. active u \<and> active v \<and> unit_name u \<noteq> unit_name v
     \<longrightarrow> mount_names u \<inter> mount_names v = {})"

text \<open>Every mount refers to a storage that exists.\<close>

definition mounts_exist :: "GPUUnit list \<Rightarrow> GPUStorage list \<Rightarrow> bool" where
  "mounts_exist us ss = (\<forall>u \<in> set us. active u \<longrightarrow>
     (\<forall>s \<in> mount_names u. (DefaultInstanceNamespace, s) \<in> stor_key ` set ss))"

text \<open>No two units stem from one operation.\<close>

definition operations_unique :: "GPUUnit list \<Rightarrow> bool" where
  "operations_unique us = (\<forall>u \<in> set us. \<forall>v \<in> set us.
     annotation AnnotationOperationID u \<noteq> [] \<and> annotation AnnotationOperationID u = annotation AnnotationOperationID v
     \<longrightarrow> obj_key unit_Meta u = obj_key unit_Meta v)"

definition store_ok :: "GPUUnit list \<times> GPUStorage list \<Rightarrow> bool" where
  "store_ok st = (exclusive_mounts (fst st) \<and> mounts_exist (fst st) (snd st) \<and> operations_unique (fst st))"

lemma exclusive_subset: "exclusive_mounts us \<Longrightarrow> set us' \<subseteq> set us \<Longrightarrow> exclusive_mounts us'"
  unfolding exclusive_mounts_def by blast

lemma operations_subset: "operations_unique us \<Longrightarrow> set us' \<subseteq> set us \<Longrightarrow> operations_unique us'"
  unfolding operations_unique_def by blast

lemma mounts_exist_mono:
  "mounts_exist us ss \<Longrightarrow> set us' \<subseteq> set us \<Longrightarrow> stor_key ` set ss \<subseteq> stor_key ` set ss' \<Longrightarrow> mounts_exist us' ss'"
  unfolding mounts_exist_def by blast

lemma store_ok_mono:
  "store_ok (us, ss) \<Longrightarrow> set us' \<subseteq> set us \<Longrightarrow> stor_key ` set ss \<subseteq> stor_key ` set ss' \<Longrightarrow> store_ok (us', ss')"
  unfolding store_ok_def fst_conv snd_conv
  by (elim conjE, intro conjI) (rule exclusive_subset mounts_exist_mono operations_subset; assumption)+

lemma mounts_storage_names: "mounts_storage s u \<longleftrightarrow> s \<in> mount_names u"
  by (simp add: mounts_storage_def)

text \<open>The new unit of a successful creation, and the changed one of an update, keep the invariant.\<close>

lemma store_ok_create:
  assumes ok: "store_ok (us, ss)" and may: "may_create K hash S q (us, ss) req h"
    and us': "set us' = insert (buildActiveUnitFromRequest req h) (set us)"
  shows "store_ok (us', ss)"
proof -
  let ?u = "buildActiveUnitFromRequest req h"
  have m: "mount_names ?u = mnt_Name ` set (cr_StorageMounts req)" by (simp add: buildActiveUnitFromRequest_def)
  have free: "mount_names ?u \<inter> mount_names v = {}" if "v \<in> set us" "active v" for v
    using may that unfolding m by (fastforce simp: may_create_def mounts_storage_names)
  have exist: "\<forall>s \<in> mount_names ?u. (DefaultInstanceNamespace, s) \<in> stor_key ` set ss"
    using may unfolding m by (simp add: may_create_def)
  have o: "annotation AnnotationOperationID ?u = cr_OperationID req"
    by (simp add: annotation_def buildActiveUnitFromRequest_def)
  have fresh: "annotation AnnotationOperationID v \<noteq> cr_OperationID req" if "v \<in> set us" for v
    using may that by (simp add: may_create_def)
  have "exclusive_mounts us'"
    using ok free unfolding store_ok_def exclusive_mounts_def us' fst_conv by blast
  moreover have "mounts_exist us' ss"
    using ok exist unfolding store_ok_def mounts_exist_def us' fst_conv snd_conv by blast
  moreover have "operations_unique us'"
    using ok fresh unfolding store_ok_def operations_unique_def us' fst_conv by (metis insert_iff o)
  ultimately show ?thesis by (simp add: store_ok_def)
qed

lemma store_ok_update:
  assumes ok: "store_ok (us, ss)" and i: "inst \<in> set us" "unit_Meta u = unit_Meta inst" "active u"
    and ms: "spec_StorageMounts (unit_Spec u) = spec_StorageMounts (unit_Spec inst) \<or> mounts_free (us, ss) u"
    and us': "set us' \<subseteq> insert u (set us)"
  shows "store_ok (us', ss)"
proof -
  have free: "mount_names u \<inter> mount_names v = {}" if "v \<in> set us" "active v" "unit_name v \<noteq> unit_name u" for v
    using ms
  proof
    assume "spec_StorageMounts (unit_Spec u) = spec_StorageMounts (unit_Spec inst)"
    with ok i that show ?thesis by (simp add: store_ok_def exclusive_mounts_def)
  next
    assume "mounts_free (us, ss) u"
    with that show ?thesis by (fastforce simp: mounts_free_def mounts_storage_names)
  qed
  have exist: "\<forall>s \<in> mount_names u. (DefaultInstanceNamespace, s) \<in> stor_key ` set ss"
    using ms
  proof
    assume "spec_StorageMounts (unit_Spec u) = spec_StorageMounts (unit_Spec inst)"
    with ok i show ?thesis by (simp add: store_ok_def mounts_exist_def)
  next
    assume "mounts_free (us, ss) u"
    then show ?thesis by (simp add: mounts_free_def)
  qed
  have o: "annotation k u = annotation k inst" for k using i(2) by (simp add: annotation_def)
  have x: "exclusive_mounts us'"
    unfolding exclusive_mounts_def
  proof (intro ballI impI)
    fix x y assume a: "x \<in> set us'" "y \<in> set us'" "active x \<and> active y \<and> unit_name x \<noteq> unit_name y"
    then have "x = u \<or> x \<in> set us" "y = u \<or> y \<in> set us" using us' by blast+
    with a free [of x] free [of y] ok show "mount_names x \<inter> mount_names y = {}"
      unfolding store_ok_def exclusive_mounts_def fst_conv by (metis Int_commute)
  qed
  have e: "mounts_exist us' ss"
    using ok exist us' unfolding store_ok_def mounts_exist_def fst_conv snd_conv by blast
  have "operations_unique us'"
    unfolding operations_unique_def
  proof (intro ballI impI)
    fix x y assume a: "x \<in> set us'" "y \<in> set us'" "annotation AnnotationOperationID x \<noteq> []
        \<and> annotation AnnotationOperationID x = annotation AnnotationOperationID y"
    define orig where "orig v = (if v \<in> set us then v else inst)" for v
    have b: "orig v \<in> set us \<and> unit_Meta (orig v) = unit_Meta v" if "v \<in> set us'" for v
      using that us' i(1,2) by (auto simp: orig_def)
    have "annotation AnnotationOperationID (orig v) = annotation AnnotationOperationID v" if "v \<in> set us'" for v
      using b [OF that] by (simp add: annotation_def)
    with a b [of x] b [of y] ok have "obj_key unit_Meta (orig x) = obj_key unit_Meta (orig y)"
      unfolding store_ok_def operations_unique_def fst_conv by metis
    with b [OF a(1)] b [OF a(2)] show "obj_key unit_Meta x = obj_key unit_Meta y" by simp
  qed
  with x e show ?thesis by (simp add: store_ok_def)
qed

lemma store_ok_delete_storage:
  assumes ok: "store_ok (us, ss)" and ss': "set ss' = {s \<in> set ss. stor_key s \<noteq> (DefaultInstanceNamespace, n)}"
    and none: "\<not> (\<exists>u \<in> set us. active u \<and> mounts_storage n u)"
  shows "store_ok (us, ss')"
proof -
  have "mounts_exist us ss'"
    unfolding mounts_exist_def
  proof (intro ballI impI)
    fix u s assume a: "u \<in> set us" "active u" "s \<in> mount_names u"
    then have "(DefaultInstanceNamespace, s) \<in> stor_key ` set ss"
      using ok unfolding store_ok_def mounts_exist_def fst_conv snd_conv by blast
    moreover have "s \<noteq> n" using a none by (auto simp: mounts_storage_names)
    ultimately show "(DefaultInstanceNamespace, s) \<in> stor_key ` set ss'" unfolding ss' by force
  qed
  with ok show ?thesis by (simp add: store_ok_def)
qed

section \<open>Every operation keeps the invariant\<close>

lemma replace_unit_set: "mset us' = mset (map (replace_unit u) us) \<Longrightarrow> set us' \<subseteq> insert u (set us)"
  by (drule mset_eq_setD) auto

lemma filter_mset_subset: "mset xs = mset (filter P ys) \<Longrightarrow> set xs \<subseteq> set ys"
  by (drule mset_eq_setD) auto

lemma add_mset_subset: "mset xs = add_mset y (mset ys) \<Longrightarrow> set ys \<subseteq> set xs"
  by (metis mset_eq_setD set_subset_Cons mset.simps(2))

lemma replace_storage_keys:
  assumes "mset ss' = mset (map (replace_storage s) ss)"
  shows "stor_key ` set ss' = stor_key ` set ss"
proof -
  have "set ss' = replace_storage s ` set ss" using mset_eq_setD [OF assms] by simp
  moreover have "stor_key (replace_storage s x) = stor_key x" for x by simp
  ultimately show ?thesis by (simp only: image_image)
qed

context runtime_backend
begin

lemma run_op_store_ok:
  assumes ok: "store_ok (state w)"
  shows "store_ok (state (run_op K hash S opn w))"
proof (cases opn)
  case (CreateUnit q)
  obtain r w' where c: "CreateGPUUnit K hash S q w = (r, w')" by fastforce
  from CreateGPUUnit_cases [OF c] show ?thesis
  proof
    assume "state w' = state w \<and> (\<forall>v b. r = Inr (v, b) \<longrightarrow> \<not> b \<and> (\<exists>req h. \<exists>u \<in> set (us w).
        NormalizeCreateGPUUnitRequestWithCatalog K q (runtimePackageCatalog S) = Inr req \<and> hash req = Inr h
        \<and> answers req h u \<and> v = gpuUnitRuntimeFromObject K u))"
    with ok c CreateUnit show ?thesis by simp
  next
    assume "\<exists>req h. may_create K hash S q (state w) req h
        \<and> r = Inr (gpuUnitRuntimeFromObject K (buildActiveUnitFromRequest req h), True) \<and> ss w' = ss w
        \<and> mset (us w') = add_mset (buildActiveUnitFromRequest req h) (mset (us w))"
    then obtain req h where m: "may_create K hash S q (state w) req h" "ss w' = ss w"
        "mset (us w') = mset (buildActiveUnitFromRequest req h # us w)" by auto
    have "set (us w') = insert (buildActiveUnitFromRequest req h) (set (us w))"
      using mset_eq_setD [OF m(3)] by simp
    from store_ok_create [OF ok m(1) this] m(2) c CreateUnit show ?thesis by simp
  qed
next
  case (UpdateUnit ns n q)
  obtain r w' where c: "UpdateGPUUnit K S ns n q w = (r, w')" by fastforce
  from UpdateGPUUnit_cases [OF c] show ?thesis
  proof (elim disjE exE conjE)
    assume "state w' = state w"
    with ok c UpdateUnit show ?thesis by simp
  next
    fix inst u
    assume u: "inst \<in> set (us w)" "unit_Meta u = unit_Meta inst" "active u" "ss w' = ss w"
      "mset (us w') = mset (map (replace_unit u) (us w))" "spec_StorageMounts (unit_Spec u) = spec_StorageMounts (unit_Spec inst)"
    from store_ok_update [OF ok u(1-3) disjI1 [OF u(6)] replace_unit_set [OF u(5)]] u(4) c UpdateUnit
    show ?thesis by simp
  next
    fix inst u
    assume u: "inst \<in> set (us w)" "unit_Meta u = unit_Meta inst" "active u" "ss w' = ss w"
      "mset (us w') = mset (map (replace_unit u) (us w))" "mounts_free (state w) u"
    from store_ok_update [OF ok u(1-3) disjI2 [OF u(6)] replace_unit_set [OF u(5)]] u(4) c UpdateUnit
    show ?thesis by simp
  qed
next
  case (DeleteUnit ns n)
  obtain r w' where c: "DeleteGPUUnit K S ns n w = (r, w')" by fastforce
  have "ss w' = ss w \<and> set (us w') \<subseteq> set (us w)"
  proof (cases r)
    case (Inl e)
    with DeleteGPUUnit_cases [OF c] show ?thesis by simp
  next
    case (Inr x)
    with DeleteGPUUnit_cases [OF c] have "ss w' = ss w" "mset (us w') = mset (filter
        (\<lambda>u. obj_key unit_Meta u \<noteq> (DefaultInstanceNamespace, ToLower (TrimSpace n))) (us w))" by simp_all
    with filter_mset_subset show ?thesis by blast
  qed
  with store_ok_mono [OF ok] c DeleteUnit show ?thesis by simp
next
  case (CreateStorage q)
  obtain r w' where c: "CreateGPUStorage K S q w = (r, w')" by fastforce
  have "us w' = us w \<and> set (ss w) \<subseteq> set (ss w')"
    using CreateGPUStorage_cases [OF c] add_mset_subset by (elim conjE disjE exE) simp_all
  with store_ok_mono [OF ok, of "us w'" "ss w'"] c CreateStorage show ?thesis by (simp add: image_mono)
next
  case (UpdateStorage ns n q)
  obtain r w' where c: "UpdateGPUStorage K S ns n q w = (r, w')" by fastforce
  have "us w' = us w" and "ss w' = ss w \<or> (\<exists>s. mset (ss w') = mset (map (replace_storage s) (ss w)))"
    using UpdateGPUStorage_cases [OF c] by blast+
  then have "us w' = us w \<and> stor_key ` set (ss w') = stor_key ` set (ss w)"
    by (elim disjE exE) (simp, simp only: replace_storage_keys simp_thms)
  with store_ok_mono [OF ok, of "us w'" "ss w'"] c UpdateStorage show ?thesis by simp
next
  case (RecoverStorage nonce ns n)
  obtain r w' where c: "RecoverGPUStorage K S nonce ns n w = (r, w')" by fastforce
  have "us w' = us w" and "ss w' = ss w \<or> (\<exists>s. mset (ss w') = mset (map (replace_storage s) (ss w)))"
    using RecoverGPUStorage_cases [OF c] by blast+
  then have "us w' = us w \<and> stor_key ` set (ss w') = stor_key ` set (ss w)"
    by (elim disjE exE) (simp, simp only: replace_storage_keys simp_thms)
  with store_ok_mono [OF ok, of "us w'" "ss w'"] c RecoverStorage show ?thesis by simp
next
  case (DeleteStorage ns n)
  obtain r w' where c: "DeleteGPUStorage K S ns n w = (r, w')" by fastforce
  show ?thesis
  proof (cases r)
    case (Inl e)
    with DeleteGPUStorage_cases [OF c] ok c DeleteStorage show ?thesis by simp
  next
    case (Inr x)
    with DeleteGPUStorage_cases [OF c] have d: "us w' = us w"
      "\<not> (\<exists>u \<in> set (us w). active u \<and> mounts_storage (ToLower (TrimSpace n)) u)"
      "mset (ss w') = mset (filter (\<lambda>s. stor_key s \<noteq> (DefaultInstanceNamespace, ToLower (TrimSpace n))) (ss w))" by simp_all
    have "set (ss w') = {s \<in> set (ss w). stor_key s \<noteq> (DefaultInstanceNamespace, ToLower (TrimSpace n))}"
      using mset_eq_setD [OF d(3)] by auto
    from store_ok_delete_storage [OF ok this d(2)] d(1) c DeleteStorage show ?thesis by simp
  qed
qed

lemma run_ops_store_ok: "store_ok (state w) \<Longrightarrow> store_ok (state (run_ops K hash S ops w))"
  unfolding run_ops_def by (induction ops arbitrary: w) (simp_all add: run_op_store_ok)

end
section \<open>The service as the runtime of the activator\<close>

definition service_control :: "'q k8s \<Rightarrow> (CreateGPUUnitRequest \<Rightarrow> string res) \<Rightarrow> ('w, 'q) Service \<Rightarrow> ('w \<Rightarrow> gotime)
    \<Rightarrow> (duration \<Rightarrow> 'w \<Rightarrow> 'w) \<Rightarrow> 'w RuntimeControl" where
  "service_control K hash S now wait =
     \<lparr>rc_List = ListGPUUnits K S, rc_Create = CreateGPUUnit K hash S, rc_Get = GetGPUUnit K S,
      rc_Delete = DeleteGPUUnit K S, rc_Now = now, rc_Wait = wait\<rparr>"

definition unit_views :: "'q k8s \<Rightarrow> GPUUnit list \<Rightarrow> GPUUnitRuntime list" where
  "unit_views K us = map (gpuUnitRuntimeFromObject K) (filter active us)"

lemma view_id [simp]: "unit_id (gpuUnitRuntimeFromObject K u) = obj_key unit_Meta u"
  by (simp add: gpuUnitRuntimeFromObject_def Let_def)

lemma unit_views_mset: "mset us' = mset us \<Longrightarrow> mset (unit_views K us') = mset (unit_views K us)"
  by (simp add: unit_views_def mset_filter)

lemma unit_views_filter:
  "unit_views K (filter (\<lambda>u. obj_key unit_Meta u \<noteq> i) us) = filter (\<lambda>u. unit_id u \<noteq> i) (unit_views K us)"
  by (induction us) (auto simp: unit_views_def)

locale runtime_service = runtime_backend A us ss S
  for A :: "'w OperatorClient" and us ss and S :: "('w, 'q) Service" +
  fixes K :: "'q k8s" and hash :: "CreateGPUUnitRequest \<Rightarrow> string res" and now :: "'w \<Rightarrow> gotime"
    and wait :: "duration \<Rightarrow> 'w \<Rightarrow> 'w"

sublocale runtime_service \<subseteq> control: runtime_store "service_control K hash S now wait" "\<lambda>w. unit_views K (us w)"
proof
  fix w w' :: 'w and l :: "GPUUnitRuntime list" and ns n :: string and e and q and r
  have "distinct (map (obj_key unit_Meta) (filter active (us w)))"
    using units.keys by (rule distinct_map_filter)
  then show "distinct (map unit_id (unit_views K (us w)))"
    by (simp add: unit_views_def comp_def)
  show "canonical_id (unit_id u)" if "u \<in> set (unit_views K (us w))" for u
    using that units.name_canonical by (auto simp: unit_views_def canonical_id_def gpuUnitRuntimeFromObject_def Let_def)
  show "mset l = mset (unit_views K (us w)) \<and> unit_views K (us w') = unit_views K (us w)"
    if "rc_List (service_control K hash S now wait) [] w = (Inr l, w')"
    using ListGPUUnits_ok [of K w "Inr l" w'] that by (simp add: service_control_def unit_views_def)
  show "unit_views K (us w') = unit_views K (us w)" if "rc_List (service_control K hash S now wait) [] w = (Inl e, w')"
    using ListGPUUnits_ok [of K w "Inl e" w'] that by (simp add: service_control_def)
  show "\<exists>i. mset (unit_views K (us w')) = mset (filter (\<lambda>u. unit_id u \<noteq> i) (unit_views K (us w)))
      \<and> (canonical_id (ns, n) \<longrightarrow> i = (ns, n))"
    if "rc_Delete (service_control K hash S now wait) ns n w = (Inr (), w')"
  proof -
    let ?i = "(DefaultInstanceNamespace, ToLower (TrimSpace n))"
    have "mset (us w') = mset (filter (\<lambda>u. obj_key unit_Meta u \<noteq> ?i) (us w))"
      using DeleteGPUUnit_cases [of K ns n w "Inr ()" w'] that by (simp add: service_control_def)
    from unit_views_mset [OF this, of K] have "mset (unit_views K (us w')) = mset (filter (\<lambda>u. unit_id u \<noteq> ?i) (unit_views K (us w)))"
      unfolding unit_views_filter .
    then show ?thesis by (intro exI [of _ ?i]) (auto simp: canonical_id_def)
  qed
  show "unit_views K (us w') = unit_views K (us w)" if "rc_Delete (service_control K hash S now wait) ns n w = (Inl e, w')"
    using DeleteGPUUnit_cases [of K ns n w "Inl e" w'] that by (simp add: service_control_def)
  show "mset (unit_views K (us w)) \<subseteq># mset (unit_views K (us w'))"
    if "rc_Create (service_control K hash S now wait) q w = (r, w')"
    using CreateGPUUnit_cases [of K hash q w r w'] that
    by (auto simp: service_control_def unit_views_def mset_filter)
qed

section \<open>Instances\<close>

text \<open>The in-memory cluster with one configured package.\<close>

definition mem_service :: "(mem_world, int) Service" where
  "mem_service = \<lparr>svc_kube = None, svc_operator = Some mem_operator, svc_packageCatalog = ref_catalog\<rparr>"

definition mem_hash :: "CreateGPUUnitRequest \<Rightarrow> string res" where
  "mem_hash req = Inr (cr_Name req @ '':'' @ cr_Image req)"

definition mem_empty :: mem_world where
  "mem_empty = \<lparr>mw_Units = [], mw_Storages = [], mw_Clock = 0\<rparr>"

interpretation mem_runtime: runtime_service mem_operator mem_units mem_storages mem_service ref_k8s mem_hash
  mw_Clock "\<lambda>d w. w\<lparr>mw_Clock := mw_Clock w + d\<rparr>"
  by unfold_locales (simp_all add: mem_service_def)
text \<open>The answer of a create request comes from the one unit of its operation.\<close>

context runtime_backend
begin

lemma CreateGPUUnit_answer:
  assumes "store_ok (state w)" "CreateGPUUnit K hash S q w = (Inr (v, b), w1)"
  shows "\<exists>req h u. NormalizeCreateGPUUnitRequestWithCatalog K q (runtimePackageCatalog S) = Inr req \<and> hash req = Inr h
    \<and> u \<in> set (us w1) \<and> answers req h u \<and> v = gpuUnitRuntimeFromObject K u"
  using CreateGPUUnit_cases [OF assms(2)]
proof (elim disjE exE conjE)
  assume "state w1 = state w" and
    "\<forall>x c. Inr (v, b) = Inr (x, c) \<longrightarrow> \<not> c \<and> (\<exists>req h. \<exists>u \<in> set (us w).
       NormalizeCreateGPUUnitRequestWithCatalog K q (runtimePackageCatalog S) = Inr req \<and> hash req = Inr h
       \<and> answers req h u \<and> x = gpuUnitRuntimeFromObject K u)"
  then show ?thesis by auto
next
  fix req h
  assume a: "may_create K hash S q (state w) req h"
    "Inr (v, b) = Inr (gpuUnitRuntimeFromObject K (buildActiveUnitFromRequest req h), True)"
    "mset (us w1) = add_mset (buildActiveUnitFromRequest req h) (mset (us w))"
  have "buildActiveUnitFromRequest req h \<in> set (us w1)" using a(3) by (metis set_mset_mset union_single_eq_member)
  moreover have "answers req h (buildActiveUnitFromRequest req h)"
    by (simp add: answers_def annotation_def buildActiveUnitFromRequest_def AnnotationOperationID_def AnnotationRequestHash_def)
  ultimately show ?thesis using a(1,2) by (auto simp: may_create_def)
qed

lemma operation_unit_unique:
  assumes "store_ok (state w)" "u \<in> set (us w)" "v \<in> set (us w)"
    and "annotation AnnotationOperationID u = annotation AnnotationOperationID v" "annotation AnnotationOperationID u \<noteq> []"
  shows "u = v"
proof -
  have "operations_unique (us w)" using assms(1) by (simp add: store_ok_def)
  then have "obj_key unit_Meta u = obj_key unit_Meta v" using assms(2-5) unfolding operations_unique_def by blast
  then show ?thesis by (rule units.key_inj [OF assms(2,3)])
qed

lemma CreateGPUUnit_replay:
  assumes ok: "store_ok (state w)" and c1: "CreateGPUUnit K hash S q w = (Inr (v, b), w1)"
    and c2: "CreateGPUUnit K hash S q w1 = (r, w2)"
  shows "state w2 = state w1 \<and> (\<forall>v2 b2. r = Inr (v2, b2) \<longrightarrow> v2 = v \<and> \<not> b2)"
proof -
  obtain req h u where u: "NormalizeCreateGPUUnitRequestWithCatalog K q (runtimePackageCatalog S) = Inr req"
      "hash req = Inr h" "u \<in> set (us w1)" "answers req h u" "v = gpuUnitRuntimeFromObject K u"
    using CreateGPUUnit_answer [OF ok c1] by blast
  have "cr_OperationID req \<noteq> []" using NormalizeCreate_wf [OF u(1)] by (simp add: wf_create_def)
  have ok1: "store_ok (state w1)" using run_op_store_ok [OF ok, of K hash "CreateUnit q"] c1 by simp
  have same: "u' = u" if "u' \<in> set (us w1)" "answers req h u'" for u'
    using operation_unit_unique [OF ok1 that(1) u(3)] that(2) u(4) \<open>cr_OperationID req \<noteq> []\<close> by (simp add: answers_def)
  have "\<not> may_create K hash S q (state w1) req' h'" for req' h'
    using u(1,3,4) by (auto simp: may_create_def answers_def)
  then have sf: "state w2 = state w1 \<and> (\<forall>v2 b2. r = Inr (v2, b2) \<longrightarrow> \<not> b2 \<and> (\<exists>req h. \<exists>u \<in> set (us w1).
        NormalizeCreateGPUUnitRequestWithCatalog K q (runtimePackageCatalog S) = Inr req \<and> hash req = Inr h
        \<and> answers req h u \<and> v2 = gpuUnitRuntimeFromObject K u))"
    using CreateGPUUnit_cases [OF c2] by (elim disjE) (assumption, elim exE conjE, simp)
  note s = conjunct1 [OF sf] and f = conjunct2 [OF sf]
  have "v2 = v \<and> \<not> b2" if "r = Inr (v2, b2)" for v2 b2
  proof -
    from f that obtain req' h' u' where x: "\<not> b2" "u' \<in> set (us w1)" "NormalizeCreateGPUUnitRequestWithCatalog K q (runtimePackageCatalog S) = Inr req'"
        "hash req' = Inr h'" "answers req' h' u'" "v2 = gpuUnitRuntimeFromObject K u'" by blast
    have "req' = req" "h' = h" using x(3,4) u(1,2) by auto
    with x same u(5) show ?thesis by simp
  qed
  with s show ?thesis by blast
qed

text \<open>A request that may not create changes nothing.\<close>

lemma operation_taken:
  assumes "u \<in> set (us w)" "annotation AnnotationOperationID u = cr_OperationID req"
    and "NormalizeCreateGPUUnitRequestWithCatalog K q (runtimePackageCatalog S) = Inr req"
  shows "\<not> may_create K hash S q (state w) req' h'"
proof
  assume m: "may_create K hash S q (state w) req' h'"
  then have "req' = req" using assms(3) by (simp add: may_create_def)
  with m have "\<forall>v \<in> set (us w). annotation AnnotationOperationID v \<noteq> cr_OperationID req" by (simp add: may_create_def)
  with assms(1,2) show False by blast
qed

lemma CreateGPUUnit_unchanged:
  assumes "\<And>req' h'. \<not> may_create K hash S q (state w) req' h'" "CreateGPUUnit K hash S q w = (r, w')"
  shows "state w' = state w \<and> (\<forall>v b. r = Inr (v, b) \<longrightarrow> \<not> b \<and> (\<exists>req h. \<exists>u \<in> set (us w).
        NormalizeCreateGPUUnitRequestWithCatalog K q (runtimePackageCatalog S) = Inr req \<and> hash req = Inr h
        \<and> answers req h u \<and> v = gpuUnitRuntimeFromObject K u))"
  using assms(1) CreateGPUUnit_cases [OF assms(2)] by (elim disjE) (assumption, elim exE conjE, simp)

text \<open>A request under an operation identifier that is in use for something else is refused.\<close>

lemma CreateGPUUnit_conflict:
  assumes n: "NormalizeCreateGPUUnitRequestWithCatalog K q (runtimePackageCatalog S) = Inr req" "hash req = Inr h"
    and ok: "store_ok (state w)" and u: "u \<in> set (us w)" "annotation AnnotationOperationID u = cr_OperationID req"
      "annotation AnnotationRequestHash u \<noteq> h"
    and c: "CreateGPUUnit K hash S q w = (r, w')"
  shows "(\<exists>e. r = Inl e) \<and> state w' = state w"
proof -
  have ne: "cr_OperationID req \<noteq> []" using NormalizeCreate_wf [OF n(1)] by (simp add: wf_create_def)
  note unch = CreateGPUUnit_unchanged [OF operation_taken [OF u(1,2) n(1)] c]
  have "r \<noteq> Inr x" for x
  proof
    assume r: "r = Inr x"
    obtain v b where x: "x = (v, b)" by (cases x) simp
    from mp [OF spec [OF spec [OF conjunct2 [OF unch]]] r [unfolded x]] obtain req' h' u' where y: "u' \<in> set (us w)"
        "NormalizeCreateGPUUnitRequestWithCatalog K q (runtimePackageCatalog S) = Inr req'"
        "hash req' = Inr h'" "answers req' h' u'" by blast
    have "req' = req" using y(2) n(1) by simp
    moreover have "h' = h" using y(3) n(2) calculation by simp
    ultimately have a: "answers req h u'" using y(4) by simp
    then have o: "annotation AnnotationOperationID u' = annotation AnnotationOperationID u"
      "annotation AnnotationOperationID u' \<noteq> []" using u(2) ne by (simp_all add: answers_def)
    have "u' = u" by (rule operation_unit_unique [OF ok y(1) u(1) o])
    with a u(3) show False by (simp add: answers_def)
  qed
  then have "\<exists>e. r = Inl e" by (metis sum.exhaust)
  then show ?thesis using conjunct1 [OF unch] by (rule conjI)
qed

end

section \<open>Properties\<close>

text \<open>
  C1. Every sequence of operations of the runtime service, whatever their arguments and whichever of
  them fail, keeps the stored objects consistent: no storage is mounted by two units, every mounted
  storage exists, and no operation identifier belongs to two units.
\<close>

theorem runtime_operations_invariant:
  assumes "runtime_backend A us ss S" "store_ok (us w, ss w)"
  shows "store_ok (us (run_ops K hash S ops w), ss (run_ops K hash S ops w))"
  using assms by (rule runtime_backend.run_ops_store_ok)

theorem runtime_operations_invariant_witness:
  "let w = run_ops ref_k8s mem_hash mem_service [CreateUnit ref_request, DeleteUnit [] (cr_Name ref_request)] mem_empty
   in store_ok (mem_units w, mem_storages w)"
proof -
  have "store_ok (mem_units mem_empty, mem_storages mem_empty)" by code_simp
  from runtime_operations_invariant [OF mem_runtime.runtime_backend_axioms this] show ?thesis by (simp add: Let_def)
qed


definition mem_data :: mem_world where
  "mem_data = mem_empty\<lparr>mw_Storages := [build_storage \<lparr>csr_Name = ''data'', csr_Size = ''10'',
     csr_StorageClassName = DefaultGPUStorageClassName, csr_Prepare = zero_prepare, csr_Accessor = \<lparr>ax_Enabled = False\<rparr>\<rparr>]\<rparr>"

lemma mem_data_ok: "store_ok (mem_units mem_data, mem_storages mem_data)"
  by code_simp

lemma mem_create: "map_prod (map_sum (\<lambda>e. e) snd) (\<lambda>w. length (mem_units w)) (CreateGPUUnit ref_k8s mem_hash mem_service ref_request mem_data) = (Inr True, 1)"
  by code_simp


text \<open>
  An operation identifier belongs to one request: a request under the identifier of a stored
  unit whose request hash differs is refused and changes nothing.
\<close>

theorem create_unit_conflict:
  assumes "runtime_backend A us ss S"
    and "NormalizeCreateGPUUnitRequestWithCatalog K q (runtimePackageCatalog S) = Inr req" "hash req = Inr h"
    and "store_ok (us w, ss w)" "u \<in> set (us w)" "annotation AnnotationOperationID u = cr_OperationID req"
    and "annotation AnnotationRequestHash u \<noteq> h"
  shows "\<exists>e w'. CreateGPUUnit K hash S q w = (Inl e, w') \<and> us w' = us w \<and> ss w' = ss w"
proof -
  obtain r w' where c: "CreateGPUUnit K hash S q w = (r, w')" by (cases "CreateGPUUnit K hash S q w")
  from runtime_backend.CreateGPUUnit_conflict [OF assms c] c show ?thesis by auto
qed

definition other_request :: CreateGPUUnitRequest where
  "other_request = ref_normalized\<lparr>cr_Image := ''other''\<rparr>"

definition mem_taken :: mem_world where
  "mem_taken = mem_data\<lparr>mw_Units := [buildActiveUnitFromRequest other_request ''demo:other'']\<rparr>"

theorem create_unit_conflict_witness:
  "\<exists>e w'. CreateGPUUnit ref_k8s mem_hash mem_service ref_request mem_taken = (Inl e, w') \<and> mem_units w' = mem_units mem_taken"
proof -
  have n: "NormalizeCreateGPUUnitRequestWithCatalog ref_k8s ref_request (runtimePackageCatalog mem_service) = Inr ref_normalized"
    by code_simp
  have h: "mem_hash ref_normalized = Inr ''demo:img''" by code_simp
  have ok: "store_ok (mem_units mem_taken, mem_storages mem_taken)" by code_simp
  have u: "mem_units mem_taken = [buildActiveUnitFromRequest other_request ''demo:other'']" by code_simp
  have a: "annotation AnnotationOperationID (buildActiveUnitFromRequest other_request ''demo:other'') = cr_OperationID ref_normalized"
    "annotation AnnotationRequestHash (buildActiveUnitFromRequest other_request ''demo:other'') \<noteq> ''demo:img''"
    by code_simp+
  from create_unit_conflict [where hash = mem_hash, OF mem_runtime.runtime_backend_axioms n h ok _ a] u show ?thesis by auto
qed

text \<open>A stored storage after another one (or itself) was replaced.\<close>

context runtime_backend
begin

lemma storage_replaced:
  assumes "mset ss' = mset (map (replace_storage s1) (ss w))" "s0 \<in> set (ss w)" "stor_Meta s1 = stor_Meta s0" "s \<in> set (ss w)"
  shows "s \<in> set ss' \<or> s = s0 \<and> s1 \<in> set ss'"
proof -
  have m: "replace_storage s1 s \<in> set ss'" using mset_eq_setD [OF assms(1)] assms(4) by simp
  show ?thesis
  proof (cases "stor_key s = stor_key s1")
    case True
    then have "stor_key s = stor_key s0" using assms(3) by simp
    then have "s = s0" by (rule storages.key_inj [OF assms(4,2)])
    with m True show ?thesis by simp
  next
    case False
    from m show ?thesis unfolding if_not_P [OF False] by (rule disjI1)
  qed
qed

end

text \<open>
  C26. Updating a storage never makes it smaller and never touches its prepare contract: every stored
  storage is still there, under the same name, with a size that parses to at least the old value.
\<close>

theorem storage_never_shrinks:
  assumes "runtime_backend A us ss S" "k8s_quantities K val"
    and "UpdateGPUStorage K S ns n q w = (r, w')" "s \<in> set (ss w)" "ParseQuantity K (sspec_Size (stor_Spec s)) = Inr a"
  shows "\<exists>s' b. s' \<in> set (ss w') \<and> stor_key s' = stor_key s \<and> sspec_Prepare (stor_Spec s') = sspec_Prepare (stor_Spec s)
    \<and> ParseQuantity K (sspec_Size (stor_Spec s')) = Inr b \<and> val a \<le> val b"
proof (cases "s \<in> set (ss w')")
  case True
  with assms(5) show ?thesis by (intro exI [of _ s] exI [of _ a]) simp
next
  case False
  then have "ss w' \<noteq> ss w" using assms(4) by auto
  with runtime_backend.UpdateGPUStorage_cases [OF assms(1,3)]
  obtain s1 s0 where u: "s0 \<in> set (ss w)" "stor_Meta s1 = stor_Meta s0" "mset (ss w') = mset (map (replace_storage s1) (ss w))"
      "sspec_Prepare (stor_Spec s1) = sspec_Prepare (stor_Spec s0)"
      "sspec_Size (stor_Spec s1) = sspec_Size (stor_Spec s0)
         \<or> (\<exists>old new. ParseQuantity K (sspec_Size (stor_Spec s0)) = Inr old \<and> sspec_Size (stor_Spec s1) = qty_String K new
              \<and> 0 < qty_Cmp K new old)"
    by blast
  from runtime_backend.storage_replaced [OF assms(1) u(3,1,2) assms(4)] False
  have s: "s = s0" "s1 \<in> set (ss w')" by simp_all
  from u(5) obtain b where b: "ParseQuantity K (sspec_Size (stor_Spec s1)) = Inr b" "val a \<le> val b"
  proof (elim disjE exE conjE)
    assume "sspec_Size (stor_Spec s1) = sspec_Size (stor_Spec s0)"
    with assms(5) s(1) that [of a] show thesis by simp
  next
    fix old new
    assume o: "ParseQuantity K (sspec_Size (stor_Spec s0)) = Inr old" "sspec_Size (stor_Spec s1) = qty_String K new"
      "0 < qty_Cmp K new old"
    obtain c where "ParseQuantity K (qty_String K new) = Inr c" "val c = val new"
      using k8s_quantities.roundtrip [OF assms(2)] by blast
    moreover have "val old < val new" using o(3) k8s_quantities.cmp_greater [OF assms(2)] by simp
    moreover have "old = a" using o(1) assms(5) s(1) by simp
    ultimately show thesis using o(2) that [of c] by simp
  qed
  show ?thesis using s b u(2,4) by (intro exI [of _ s1] exI [of _ b]) simp
qed

definition grow_request :: UpdateGPUStorageRequest where
  "grow_request = \<lparr>usr_Size = ''20'', usr_Accessor = Some \<lparr>ax_Enabled = True\<rparr>\<rparr>"

theorem storage_never_shrinks_witness:
  "\<exists>s b. s \<in> set (mem_storages (snd (UpdateGPUStorage ref_k8s mem_service [] ''data'' grow_request mem_data)))
     \<and> ParseQuantity ref_k8s (sspec_Size (stor_Spec s)) = Inr b \<and> 10 \<le> b"
proof -
  obtain r w' where u: "UpdateGPUStorage ref_k8s mem_service [] ''data'' grow_request mem_data = (r, w')" by fastforce
  have s: "hd (mem_storages mem_data) \<in> set (mem_storages mem_data)"
    "ParseQuantity ref_k8s (sspec_Size (stor_Spec (hd (mem_storages mem_data)))) = Inr 10" by code_simp+
  from storage_never_shrinks [OF mem_runtime.runtime_backend_axioms ref_quantities.k8s_quantities_axioms u s] u
  show ?thesis by auto
qed

text \<open>
  A storage is deleted only while no active unit mounts it, and the deletion removes that storage
  and nothing else; a refused deletion changes nothing.
\<close>

theorem storage_delete_only_unmounted:
  assumes "runtime_backend A us ss S" "DeleteGPUStorage K S ns n w = (r, w')"
  shows "us w' = us w \<and> (case r of
      Inl _ \<Rightarrow> ss w' = ss w
    | Inr _ \<Rightarrow> list_all (\<lambda>u. \<not> (active u \<and> mounts_storage (ToLower (TrimSpace n)) u)) (us w)
        \<and> mset (ss w') = mset (filter (\<lambda>s. stor_key s \<noteq> (DefaultInstanceNamespace, ToLower (TrimSpace n))) (ss w)))"
proof (cases r)
  case (Inl e)
  with runtime_backend.DeleteGPUStorage_cases [OF assms] show ?thesis by simp
next
  case (Inr x)
  with runtime_backend.DeleteGPUStorage_cases [OF assms] show ?thesis by (simp add: list_all_iff)
qed

theorem storage_delete_only_unmounted_witness:
  "mem_units (snd (DeleteGPUStorage ref_k8s mem_service [] ''data'' mem_taken)) = mem_units mem_taken"
proof -
  obtain r w' where u: "DeleteGPUStorage ref_k8s mem_service [] ''data'' mem_taken = (r, w')" by fastforce
  from storage_delete_only_unmounted [OF mem_runtime.runtime_backend_axioms u] u show ?thesis by simp
qed

end
