(* ===== verification/Service_Admission.thy ===== *)
theory Service_Admission
  imports Service_Store
begin

text \<open>
  What the runtime service admits: the resource quotas of the runtime namespace bound every created unit, a unit
  with storage mounts cannot serve as the template of further workers, and the lifecycle reconciliation of the
  activator, run on the service, keeps the minimum of every request.
\<close>

section \<open>Quotas\<close>

text \<open>The amounts that a create request asks of the quotas.\<close>

definition quota_demand :: "'q k8s \<Rightarrow> CreateGPUUnitRequest \<Rightarrow> (string \<times> 'q) list" where
  "quota_demand K req =
     (if cr_CPU req = [] then [] else case ParseQuantity K (cr_CPU req) of Inl _ \<Rightarrow> [] | Inr a \<Rightarrow> [(''requests.cpu'', a)])
     @ [(draClaimQuotaName, qty_New K 1)]
     @ (if cr_Memory req = [] then [] else case ParseQuantity K (cr_Memory req) of Inl _ \<Rightarrow> [] | Inr a \<Rightarrow> [(''requests.memory'', a)])"

definition quota_fits :: "'q k8s \<Rightarrow> ('q \<Rightarrow> int) \<Rightarrow> CreateGPUUnitRequest \<Rightarrow> 'q ResourceQuota \<Rightarrow> bool" where
  "quota_fits K val req quota = list_all (\<lambda>(name, amount).
     case map_of (rq_Hard quota) name of
       None \<Rightarrow> True
     | Some hard \<Rightarrow> (case map_of (rq_Used quota) name of None \<Rightarrow> 0 | Some used \<Rightarrow> val used) + val amount \<le> val hard)
     (quota_demand K req)"

context k8s_quantities
begin

lemma quota_resource_iff:
  "ensureQuotaResourceAllows K quota name amount = Inr u \<longleftrightarrow>
     (case map_of (rq_Hard quota) name of
       None \<Rightarrow> True
     | Some hard \<Rightarrow> (case map_of (rq_Used quota) name of None \<Rightarrow> 0 | Some used \<Rightarrow> val used) + val amount \<le> val hard)"
  by (auto simp: ensureQuotaResourceAllows_def Let_def cmp(1) add zero split: option.splits)

lemma quota_allows_iff:
  assumes "isOk (ParseQuantity K (cr_CPU req))" "isOk (ParseQuantity K (cr_Memory req))"
  shows "quota_allows K req quota = Inr () \<longleftrightarrow> quota_fits K val req quota"
proof -
  from assms obtain a b where p: "ParseQuantity K (cr_CPU req) = Inr a" "ParseQuantity K (cr_Memory req) = Inr b"
    by (auto simp: isOk_def split: sum.splits)
  show ?thesis
    by (simp add: quota_allows_def quota_fits_def quota_demand_def p andThen_Inr_iff quota_resource_iff)
qed

end

text \<open>The quotas were read and allowed the request before anything was created.\<close>

lemma createDRA_quotas:
  assumes "createDRAAllocatedGPUUnit K S A req h w = (Inr (v, b), w')" "svc_kube S = Some kube"
  shows "\<exists>quotas w1. kube_ListQuotas kube DefaultInstanceNamespace w = (Inr quotas, w1)
    \<and> (\<forall>quota \<in> set quotas. quota_allows K req quota = Inr ())"
proof -
  from assms(1) obtain w1 where "ensureDRAAllocationAvailable K S req w = (Inr (), w1)"
    unfolding createDRAAllocatedGPUUnit_def bindC_Inr_iff by auto
  then show ?thesis
    by (auto simp: ensureDRAAllocationAvailable_def assms(2) ensureResourceQuotaAllows_def bindC_Inr_iff liftC_def checkAll_Inr_iff)
qed

lemma CreateGPUUnit_created:
  assumes "CreateGPUUnit K hash S q w = (Inr (v, True), w')"
  shows "\<exists>A req h w1. svc_operator S = Some A \<and> NormalizeCreateGPUUnitRequestWithCatalog K q (runtimePackageCatalog S) = Inr req
    \<and> hash req = Inr h \<and> createDRAAllocatedGPUUnit K S A req h w1 = (Inr (v, True), w')"
proof (cases "svc_operator S")
  case None
  with assms show ?thesis by (auto simp: CreateGPUUnit_def bindC_Inr_iff failC_def)
next
  case (Some A)
  from assms obtain req h w0 w1 found w2 where
      r: "NormalizeCreateGPUUnitRequestWithCatalog K q (runtimePackageCatalog S) = Inr req" "hash req = Inr h"
    and f: "(case found of Some runtimeView \<Rightarrow> returnC (runtimeView, False)
         | None \<Rightarrow> bindC (ensureGPUStoragesExclusivelyMountable A DefaultInstanceNamespace [] (cr_StorageMounts req)) (\<lambda>_.
               createDRAAllocatedGPUUnit K S A req h)) w2 = (Inr (v, True), w')"
    unfolding CreateGPUUnit_def bindC_Inr_iff Some option.case liftC_def by auto
  from f have "\<exists>w3. createDRAAllocatedGPUUnit K S A req h w3 = (Inr (v, True), w')"
    by (cases found) (auto simp: returnC_def bindC_Inr_iff)
  with r Some show ?thesis by blast
qed

lemma create_parsed:
  assumes "NormalizeCreateGPUUnitRequestWithCatalog K q c = Inr req"
  shows "isOk (ParseQuantity K (cr_CPU req))" "isOk (ParseQuantity K (cr_Memory req))"
  using NormalizeCreate_wf [OF assms] by (simp_all add: wf_create_def)

section \<open>Templates with storage mounts\<close>

lemma mount_loop_names:
  "mount_loop K ns ps ms = Inr r \<Longrightarrow> map mnt_Name r = map (\<lambda>m. ToLower (TrimSpace (mnt_Name m))) ms"
  by (induction K ns ps ms arbitrary: r rule: mount_loop.induct) (auto simp: Let_def result_simps split: if_splits)

lemma mounts_names:
  assumes "NormalizeGPUUnitStorageMounts K ms = Inr r"
  shows "mnt_Name ` set r = (\<lambda>m. ToLower (TrimSpace (mnt_Name m))) ` set ms"
proof (cases "ms = []")
  case True
  with assms show ?thesis by (simp add: NormalizeGPUUnitStorageMounts_def)
next
  case False
  with assms obtain out where out: "mount_loop K [] [] ms = Inr out" "r = sort_key mount_key out"
    by (auto simp: NormalizeGPUUnitStorageMounts_def result_simps)
  show ?thesis using arg_cong [OF mount_loop_names [OF out(1)], of set] out(2) by simp
qed

lemma create_mount_names:
  assumes "NormalizeCreateGPUUnitRequestWithCatalog K q c = Inr r"
  shows "mnt_Name ` set (cr_StorageMounts r) = (\<lambda>m. ToLower (TrimSpace (mnt_Name m))) ` set (cr_StorageMounts q)"
proof -
  from assms obtain req mounts where m: "expand_step c (q\<lparr>cr_OperationID := TrimSpace (cr_OperationID q),
        cr_Name := ToLower (TrimSpace (cr_Name q))\<rparr>) = Inr req"
      "NormalizeGPUUnitStorageMounts K (cr_StorageMounts req) = Inr mounts" "cr_StorageMounts r = mounts"
    by (rule create_Inr) simp
  have "cr_StorageMounts req = cr_StorageMounts q"
    using m(1) by (auto simp: expand_step_def ExpandRuntimePackage_def Let_def andThen_Inr_iff split: if_splits option.splits)
  with mounts_names [OF m(2)] m(3) show ?thesis by simp
qed

context runtime_backend
begin

lemma mounted_template_refused:
  assumes u: "u \<in> set (us w)" "active u" "m \<in> set (spec_StorageMounts (unit_Spec u))"
      "ToLower (TrimSpace (mnt_Name m)) = mnt_Name m"
  shows "\<not> may_create K hash S (buildCreateRequest (gpuUnitRuntimeFromObject K u) i) (state w) req h"
proof
  let ?q = "buildCreateRequest (gpuUnitRuntimeFromObject K u) i"
  assume may: "may_create K hash S ?q (state w) req h"
  then have "NormalizeCreateGPUUnitRequestWithCatalog K ?q (runtimePackageCatalog S) = Inr req"
    by (simp add: may_create_def)
  from create_mount_names [OF this] have "mnt_Name ` set (cr_StorageMounts req)
      = (\<lambda>m. ToLower (TrimSpace (mnt_Name m))) ` set (spec_StorageMounts (unit_Spec u))"
    by (simp add: buildCreateRequest_def gpuUnitRuntimeFromObject_def Let_def)
  with u(3,4) have "mnt_Name m \<in> mnt_Name ` set (cr_StorageMounts req)" by (metis imageI)
  then obtain m' where m': "m' \<in> set (cr_StorageMounts req)" "mnt_Name m' = mnt_Name m" by auto
  have "mounts_storage (mnt_Name m') u" using u(3) m'(2) by (simp add: mounts_storage_names)
  with may m'(1) u(1,2) show False by (auto simp: may_create_def)
qed

end

context runtime_service
begin

lemma Reconcile_minimum:
  assumes "Reconcile visit (service_control K hash S now wait) m w = (r, m', w')" "\<And>g. mset (visit g) = mset g"
  shows "int (ready_count q (unit_views K (us w'))) \<ge> min (int (ready_count q (unit_views K (us w))))
    (min_available (sort_key rt_Name (filter (serverless_of q) (unit_views K (us w)))))"
  by (rule control.Reconcile_keeps_minimum [OF assms])

end

section \<open>Properties\<close>


definition ref_quota :: "int ResourceQuota" where
  "ref_quota = \<lparr>rq_Name = ''runtime'', rq_Namespace = DefaultInstanceNamespace,
     rq_Hard = [(''requests.cpu'', 16), (draClaimQuotaName, 2)], rq_Used = [(''requests.cpu'', 8)]\<rparr>"

definition mem_kube :: "(mem_world, int) KubeClient" where
  "mem_kube = \<lparr>kube_ListQuotas = (\<lambda>_ w. (Inr [ref_quota], w))\<rparr>"

definition quota_service :: "(mem_world, int) Service" where
  "quota_service = mem_service\<lparr>svc_kube := Some mem_kube\<rparr>"

lemma quota_create: "map_sum (\<lambda>e. e) snd (fst (CreateGPUUnit ref_k8s mem_hash quota_service ref_request mem_data)) = Inr True"
  by code_simp


text \<open>
  A unit that mounts storage cannot be multiplied: a create request built from it, as the activator builds one to
  scale out or to prewarm, never creates a unit, because the template itself holds the storage; the request fails or
  finds an existing unit, and changes nothing.
\<close>

theorem mounted_template_never_scales:
  assumes "runtime_backend A us ss S" "u \<in> set (us w)" "active u" "m \<in> set (spec_StorageMounts (unit_Spec u))"
    and "ToLower (TrimSpace (mnt_Name m)) = mnt_Name m"
    and "CreateGPUUnit K hash S (buildCreateRequest (gpuUnitRuntimeFromObject K u) i) w = (r, w')"
  shows "us w' = us w \<and> ss w' = ss w \<and> (\<forall>v. r \<noteq> Inr (v, True))"
  using runtime_backend.CreateGPUUnit_unchanged [OF assms(1) runtime_backend.mounted_template_refused [OF assms(1-5)] assms(6)]
  by auto

definition mounted_unit :: GPUUnit where
  "mounted_unit = buildActiveUnitFromRequest ref_normalized ''h''"

definition mem_mounted :: mem_world where
  "mem_mounted = mem_data\<lparr>mw_Units := [mounted_unit]\<rparr>"

theorem mounted_template_never_scales_witness:
  "mem_units (snd (CreateGPUUnit ref_k8s mem_hash mem_service
     (buildCreateRequest (gpuUnitRuntimeFromObject ref_k8s mounted_unit) ''inv-7'') mem_mounted)) = mem_units mem_mounted"
proof -
  let ?c = "CreateGPUUnit ref_k8s mem_hash mem_service (buildCreateRequest (gpuUnitRuntimeFromObject ref_k8s mounted_unit) ''inv-7'') mem_mounted"
  have m: "mem_units mem_mounted = [mounted_unit]" "active mounted_unit"
    "spec_StorageMounts (unit_Spec mounted_unit) = [\<lparr>mnt_Name = ''data'', mnt_MountPath = ''/data'', mnt_ReadOnly = False\<rparr>]"
    "ToLower (TrimSpace ''data'') = ''data''" by code_simp+
  have i: "mounted_unit \<in> set (mem_units mem_mounted)"
    "\<lparr>mnt_Name = ''data'', mnt_MountPath = ''/data'', mnt_ReadOnly = False\<rparr> \<in> set (spec_StorageMounts (unit_Spec mounted_unit))"
    using m(1,3) by simp_all
  have t: "ToLower (TrimSpace (mnt_Name \<lparr>mnt_Name = ''data'', mnt_MountPath = ''/data'', mnt_ReadOnly = False\<rparr>))
      = mnt_Name \<lparr>mnt_Name = ''data'', mnt_MountPath = ''/data'', mnt_ReadOnly = False\<rparr>" using m(4) by simp
  obtain r w' where c: "?c = (r, w')" by (cases ?c)
  from mounted_template_never_scales [OF mem_runtime.runtime_backend_axioms i(1) m(2) i(2) t c] c show ?thesis by simp
qed

text \<open>
  C5. The activator's lifecycle reconciliation, driving the runtime service, never takes a request below its minimum:
  whatever the order of the groups, the clock and the failures on the way, after a run at least as many ready workers
  of the request are stored as before, or as the minimum of its template asks.
\<close>

theorem reconcile_keeps_minimum:
  assumes "runtime_backend A us ss S" "\<And>g. mset (visit g) = mset g"
    and "Reconcile visit (service_control K hash S now wait) m w = (r, m', w')"
  shows "int (ready_count q (unit_views K (us w'))) \<ge> min (int (ready_count q (unit_views K (us w))))
    (min_available (sort_key rt_Name (filter (serverless_of q) (unit_views K (us w)))))"
proof (rule runtime_service.Reconcile_minimum [OF _ assms(3,2)])
  show "runtime_service A us ss S" using assms(1) by (simp add: runtime_service_def)
qed

definition ready_unit :: "string \<Rightarrow> GPUUnit" where
  "ready_unit n = (let u = buildActiveUnitFromRequest (ref_normalized\<lparr>cr_OperationID := n, cr_Name := n, cr_StorageMounts := [],
       cr_Serverless := \<lparr>sls_Enabled = True, sls_RequestID = ''llm'', sls_MinAvailableCount = 1,
         sls_IdleTimeoutSeconds = 300, sls_MinRequestCount = 0, sls_Framework = zero_framework\<rparr>\<rparr>) ''h''
     in u\<lparr>unit_Status := (unit_Status u)\<lparr>st_Phase := PhaseReady, st_AccessURL := ''http://x''\<rparr>\<rparr>)"

definition mem_ready :: mem_world where
  "mem_ready = mem_empty\<lparr>mw_Units := map ready_unit [''llm'', ''unit-llm-worker-a'', ''unit-llm-worker-b''], mw_Clock := 1000 * second\<rparr>"

definition idle_manager :: LifecycleManager where
  "idle_manager = (NewLifecycleManager NewWorkerRegistry)\<lparr>lm_workers := map
     (\<lambda>n. (workerStateKey DefaultInstanceNamespace n, zero_worker_state\<lparr>ws_LastActivity := 1\<rparr>)) [''unit-llm-worker-a'', ''unit-llm-worker-b'']\<rparr>"

lemma mem_ready_before:
  "ready_count ''llm'' (unit_views ref_k8s (mem_units mem_ready)) = 3"
  "min_available (sort_key rt_Name (filter (serverless_of ''llm'') (unit_views ref_k8s (mem_units mem_ready)))) = 1"
  by code_simp+

theorem reconcile_keeps_minimum_witness:
  "1 \<le> ready_count ''llm'' (unit_views ref_k8s (mem_units (snd (snd (Reconcile rev
     (service_control ref_k8s mem_hash mem_service mw_Clock (\<lambda>d w. w\<lparr>mw_Clock := mw_Clock w + d\<rparr>)) idle_manager mem_ready)))))"
proof -
  let ?R = "service_control ref_k8s mem_hash mem_service mw_Clock (\<lambda>d w. w\<lparr>mw_Clock := mw_Clock w + d\<rparr>)"
  obtain r m' w' where c: "Reconcile rev ?R idle_manager mem_ready = (r, m', w')" by (rule prod_cases3)
  have "mset (rev g) = mset g" for g :: "GPUUnitRuntime list smap" by simp
  from reconcile_keeps_minimum [OF mem_runtime.runtime_backend_axioms this c, of "''llm''"] c show ?thesis
    unfolding mem_ready_before by simp
qed

end
