(* ===== verification/Worker_Lifecycle.thy ===== *)
theory Worker_Lifecycle
  imports Worker_Sidecar Activator_Lifecycle
begin

text \<open>
  The sidecar of a worker and the activator's table of worker states, connected by the metrics that the one
  publishes (\<^verbatim>\<open>pkg/workersidecar/service.go\<close>) and the other observes (\<^verbatim>\<open>pkg/activator/lifecycle.go\<close>). The metrics of
  other workers may come between those of the worker.
\<close>

definition metrics :: "sidecar_event list \<Rightarrow> WorkerMetricMessage list" where
  "metrics evs = List.map_filter (\<lambda>ev. case ev of EvMetric m \<Rightarrow> Some m | EvResult _ \<Rightarrow> None) evs"

lemma metrics_simps [simp]:
  "metrics [] = []" "metrics (EvMetric m # evs) = m # metrics evs" "metrics (EvResult r # evs) = metrics evs"
  by (simp_all add: metrics_def List.map_filter_simps)

lemma metrics_append [simp]: "metrics (evs @ evs') = metrics evs @ metrics evs'"
  by (simp add: metrics_def List.map_filter_def)

definition of_worker :: "string \<Rightarrow> string \<Rightarrow> WorkerMetricMessage \<Rightarrow> bool" where
  "of_worker ns n m = (workerStateKey (met_WorkerNamespace m) (met_WorkerName m) = workerStateKey ns n)"

text \<open>The table after the metrics, each with its time of arrival.\<close>

definition observe_all :: "(gotime \<times> WorkerMetricMessage) list \<Rightarrow> WorkerState smap \<Rightarrow> WorkerState smap" where
  "observe_all ms workers = fold (\<lambda>(t, m). ObserveMetric t m) ms workers"

abbreviation identified :: "WorkerMetricMessage \<Rightarrow> bool" where
  "identified m \<equiv> met_ServerlessRequestID m \<noteq> [] \<and> met_WorkerName m \<noteq> []"

lemma observe_other: "\<not> of_worker ns n m \<Longrightarrow>
  map_of (ObserveMetric t m workers) (workerStateKey ns n) = map_of workers (workerStateKey ns n)"
  by (simp add: ObserveMetric_def of_worker_def Let_def)

lemma observe_own: "of_worker ns n m \<Longrightarrow> identified m \<Longrightarrow>
  \<exists>st. map_of (ObserveMetric t m workers) (workerStateKey ns n) = Some st \<and> ws_Inflight st = met_Inflight m"
  by (simp add: ObserveMetric_def of_worker_def Let_def observe_state_fields)

lemma observe_all_last:
  assumes "filter (of_worker ns n) (map snd ms) \<noteq> []" "list_all identified (filter (of_worker ns n) (map snd ms))"
  shows "\<exists>st. map_of (observe_all ms workers) (workerStateKey ns n) = Some st
    \<and> ws_Inflight st = met_Inflight (last (filter (of_worker ns n) (map snd ms)))"
  using assms
proof (induction ms rule: rev_induct)
  case (snoc x ms)
  obtain t m where x: "x = (t, m)" by (cases x)
  have o: "observe_all (ms @ [x]) workers = ObserveMetric t m (observe_all ms workers)"
    by (simp add: observe_all_def x)
  show ?case
  proof (cases "of_worker ns n m")
    case True
    then show ?thesis using observe_own [OF True] snoc.prems(2) unfolding o by (simp add: x)
  next
    case False
    then show ?thesis using snoc unfolding o observe_other [OF False] by (simp add: x)
  qed
qed simp

section \<open>The last metric of a busy worker\<close>

lemma finish_metrics:
  assumes "HandleDispatch_finish t0 t1 answer publish d i = (i', evs, r)"
  shows "metrics evs = [] \<or> (\<exists>m. metrics evs = [m] \<and> met_Inflight m = i)"
  using assms by (cases answer; cases publish) (auto simp: HandleDispatch_finish_def Let_def invocation_metric_def)

lemma running_events: "sidecar_run cfg evs (i, running) \<Longrightarrow> length running \<le> length evs"
proof (induction evs "(i, running)" arbitrary: i running rule: sidecar_run.induct)
  case (step evs s evs' i' running')
  obtain i running where s: "s = (i, running)" by fastforce
  have ih: "length running \<le> length evs" using step(2) [OF s] .
  show ?case using step(3) ih unfolding s
    by (cases rule: sidecar_step.cases) (auto simp: HandleDispatch_start_def Let_def length_remove1)
qed simp

lemma busy_last_metric:
  "sidecar_run cfg evs (i, running) \<Longrightarrow> length evs < 2 ^ 32 \<Longrightarrow> running \<noteq> [] \<Longrightarrow>
   metrics evs \<noteq> [] \<and> met_Inflight (last (metrics evs)) \<noteq> 0"
proof (induction evs "(i, running)" arbitrary: i running rule: sidecar_run.induct)
  case (step evs s evs' i' running')
  obtain i running where s: "s = (i, running)" by fastforce
  note run = step(1) [unfolded s] and run' = sidecar_run.step [OF step(1,3)]
  have len: "length evs < 2 ^ 32" using step.prems(1) by simp
  have nz: "i = 0 \<longleftrightarrow> running = []"
    using inflight_running [OF run] running_events [OF run] len by simp
  have nz': "i' \<noteq> 0"
    using inflight_running [OF run'] running_events [OF run'] step.prems by simp
  show ?case using step(3) unfolding s
  proof (cases rule: sidecar_step.cases)
    case (start t d req timeout)
    have "metrics evs' = [invocation_metric d WorkerMetricEventInvocationStarted i' 0 None t]"
      using start(2) by (auto simp: HandleDispatch_start_def Let_def)
    with nz' show ?thesis by (simp add: invocation_metric_def)
  next
    case (finish d t0 t1 answer publish r)
    have "running \<noteq> []" using finish(2) by auto
    then have "metrics evs \<noteq> [] \<and> met_Inflight (last (metrics evs)) \<noteq> 0" "i \<noteq> 0"
      using step(2) [OF s len] nz by simp_all
    with finish_metrics [OF finish(3)] show ?thesis by auto
  next
    case (heartbeat now)
    with nz' show ?thesis by (simp add: heartbeat_event_def worker_metric_def)
  qed
qed simp


definition busy_metric :: WorkerMetricMessage where
  "busy_metric = invocation_metric sample_dispatch WorkerMetricEventInvocationStarted 1 0 None 1"


end
