(* ===== verification/Controller_Spec.thy ===== *)
theory Controller_Spec
  imports Service_Client Serverless_Config
begin

text \<open>
  What the unit controller reads out of a unit before it builds anything (\<^verbatim>\<open>internal/controller/runtime_unit_helpers.go\<close>):
  names of owned objects, labels, the resolved SSH, serverless and access settings. The text of an error
  (\<^verbatim>\<open>err.Error()\<close>), most of which is that of the Kubernetes libraries, is the argument \<open>errText\<close>; the three port
  checks, a Go map in the source, run in the order written here.
\<close>

section \<open>Names and labels\<close>

fun firstNonEmpty :: "string list \<Rightarrow> string" where
  "firstNonEmpty [] = []"
| "firstNonEmpty (value # values) =
     (let trimmed = TrimSpace value in if trimmed \<noteq> [] then trimmed else firstNonEmpty values)"

definition prefixedRuntimeName :: "string \<Rightarrow> string \<Rightarrow> string" where
  "prefixedRuntimeName pfx name =
     (let out = pfx @ name in if length out \<le> 63 then out else TrimRightChar (take 63 out) CHR ''-'')"

definition deploymentNameForUnit :: "string \<Rightarrow> string" where
  "deploymentNameForUnit instanceName = prefixedRuntimeName GPUUnitNamePrefix instanceName"

definition serviceNameForUnit :: "string \<Rightarrow> string" where
  "serviceNameForUnit instanceName = prefixedRuntimeName GPUUnitNamePrefix instanceName"

definition unitObjectLabels :: "GPUUnit \<Rightarrow> string smap" where
  "unitObjectLabels u = [(LabelAppNameKey, LabelAppNameValue), (LabelManagedByKey, LabelManagedByValue),
     (LabelUnitKey, meta_Name (unit_Meta u))]"

definition controllerLifecycleForUnit :: "GPUUnit \<Rightarrow> string" where
  "controllerLifecycleForUnit u = LifecycleInstance"

definition unitPodLabels :: "GPUUnit \<Rightarrow> string smap" where
  "unitPodLabels u = unitObjectLabels u"

section \<open>Serverless settings\<close>

definition errUnitSSHSpecIncomplete :: error where
  "errUnitSSHSpecIncomplete = ErrorText (msg ''ssh access is enabled but spec.ssh is incomplete'')"

definition errUnitServerlessSpecIncomplete :: error where
  "errUnitServerlessSpecIncomplete = ErrorText (msg ''serverless access is enabled but spec.serverless is incomplete'')"

definition unitServerlessEnabled :: "GPUUnitServerlessSpec \<Rightarrow> bool" where
  "unitServerlessEnabled spec = (sls_Enabled spec \<or> TrimSpace (sls_RequestID spec) \<noteq> []
     \<or> sls_MinAvailableCount spec > 0 \<or> sls_IdleTimeoutSeconds spec > 0 \<or> sls_MinRequestCount spec > 0
     \<or> TrimSpace (fw_SocketPath (sls_Framework spec)) \<noteq> [] \<or> TrimSpace (fw_InvokePath (sls_Framework spec)) \<noteq> []
     \<or> TrimSpace (fw_HealthPath (sls_Framework spec)) \<noteq> [])"

definition normalizeControllerServerlessSocketPath :: "string \<Rightarrow> string \<Rightarrow> string" where
  "normalizeControllerServerlessSocketPath value fallback =
     (let trimmed = TrimSpace value
      in if trimmed = [] then fallback
         else Clean (if HasPrefix trimmed ''/'' then trimmed else ''/'' @ trimmed))"

definition normalizeControllerServerlessPath :: "string \<Rightarrow> string \<Rightarrow> string" where
  "normalizeControllerServerlessPath value fallback =
     (let trimmed = TrimSpace value
      in if trimmed = [] then fallback
         else let normalized = ''/'' @ TrimPrefix trimmed ''/''
              in if normalized = ''/'' then fallback else normalized)"

abbreviation serverless_incomplete :: "message \<Rightarrow> error" where
  "serverless_incomplete m \<equiv> Wrap m errUnitServerlessSpecIncomplete"

definition resolveUnitServerlessSpec :: "(error \<Rightarrow> string) \<Rightarrow> GPUUnit \<Rightarrow> GPUUnitServerlessSpec res" where
  "resolveUnitServerlessSpec errText u =
     (let spec = spec_Serverless (unit_Spec u)
      in if \<not> sls_Enabled spec \<and> TrimSpace (sls_RequestID spec) = [] then Inr zero_serverless
         else andThen (mapErr (\<lambda>e. serverless_incomplete (''%w: %s'', [FS (errText e)])) (NormalizeRequestID (sls_RequestID spec)))
           (\<lambda>requestID.
             let spec = spec\<lparr>sls_Enabled := True, sls_RequestID := requestID\<rparr>
             in if sls_MinAvailableCount spec < 0
                then Inl (serverless_incomplete (msg ''%w: serverless.minAvailableCount should be >= 0''))
                else if sls_IdleTimeoutSeconds spec < 0
                then Inl (serverless_incomplete (msg ''%w: serverless.idleTimeoutSeconds should be >= 0''))
                else if sls_MinRequestCount spec < 0
                then Inl (serverless_incomplete (msg ''%w: serverless.minRequestCount should be >= 0''))
                else
                  let spec = spec\<lparr>sls_IdleTimeoutSeconds := or_default_int (sls_IdleTimeoutSeconds spec) 300\<rparr>;
                      fw = sls_Framework spec;
                      socketPath = normalizeControllerServerlessSocketPath (fw_SocketPath fw) DefaultServerlessFrameworkSocketPath;
                      socketDir = Clean DefaultServerlessFrameworkSocketDir
                  in if socketPath = socketDir \<or> \<not> HasPrefix socketPath (socketDir @ ''/'')
                     then Inl (serverless_incomplete (''%w: serverless.framework.socketPath %q must stay under %s'',
                            [FS socketPath, FS DefaultServerlessFrameworkSocketDir]))
                     else Inr (spec\<lparr>sls_Framework := \<lparr>fw_SocketPath = socketPath,
                       fw_InvokePath = normalizeControllerServerlessPath (fw_InvokePath fw) DefaultServerlessFrameworkInvokePath,
                       fw_HealthPath = normalizeControllerServerlessPath (fw_HealthPath fw) DefaultServerlessFrameworkHealthPath\<rparr>\<rparr>)))"

section \<open>SSH settings\<close>

abbreviation ssh_incomplete :: "message \<Rightarrow> error" where
  "ssh_incomplete m \<equiv> Wrap m errUnitSSHSpecIncomplete"

definition check_ssh_port :: "string \<times> int \<Rightarrow> unit res" where
  "check_ssh_port fv = (if snd fv < 1 \<or> snd fv > 65535
     then Inl (ssh_incomplete (''%w: %s must be between 1 and 65535'', [FS (fst fv)])) else Inr ())"

definition resolveUnitSSHSpec :: "'q k8s \<Rightarrow> GPUUnit \<Rightarrow> GPUUnitSSHSpec res" where
  "resolveUnitSSHSpec K u =
     (let ssh = spec_SSH (unit_Spec u); name = meta_Name (unit_Meta u); namespace = meta_Namespace (unit_Meta u)
      in if \<not> ssh_Enabled ssh then Inr zero_ssh
      else let username = ToLower (firstNonEmpty [ssh_Username ssh, DefaultUnitSSHUsername])
      in if IsDNS1123Label K username \<noteq> []
        then Inl (ssh_incomplete (''%w: ssh.username %q is invalid: %s'',
               [FS username, FS (join '', '' (IsDNS1123Label K username))]))
      else let keys = unique_keys [] (ssh_AuthorizedKeys ssh)
      in if keys = []
        then Inl (ssh_incomplete (msg ''%w: ssh.authorizedKeys requires at least one public key when ssh.enabled is true''))
      else let port = or_default_int (ssh_Port ssh) DefaultUnitSSHPort;
               serverAddr = TrimSpace (ssh_ServerAddr ssh)
      in if serverAddr = []
        then Inl (ssh_incomplete (msg ''%w: ssh.serverAddr is required when ssh.enabled is true''))
      else let serverPort = or_default_int (ssh_ServerPort ssh) DefaultUnitSSHFRPPort;
               connectHost = firstNonEmpty [ssh_ConnectHost ssh, serverAddr];
               connectPort = or_default_int (ssh_ConnectPort ssh) DefaultUnitSSHProxyPort;
               domainSuffix = TrimPrefix (TrimSpace (ssh_DomainSuffix ssh)) ''.'';
               clientName = or_default (ToLower (TrimSpace (ssh_ClientName ssh)))
                 (prefixedRuntimeName ''ssh-'' (namespace @ ''-'' @ name));
               clientDomain = ToLower (TrimSpace (ssh_ClientDomain ssh))
      in if clientDomain = [] \<and> domainSuffix = []
        then Inl (ssh_incomplete (msg ''%w: ssh.domainSuffix is required when ssh.clientDomain is not set''))
      else let clientDomain = or_default clientDomain (name @ ''.'' @ namespace @ ''.'' @ domainSuffix)
      in andThen (checkAll check_ssh_port
             [(''ssh.port'', port), (''ssh.serverPort'', serverPort), (''ssh.connectPort'', connectPort)]) (\<lambda>_.
         if IsDNS1123Subdomain K clientName \<noteq> []
         then Inl (ssh_incomplete (''%w: ssh.clientName %q is invalid: %s'',
                [FS clientName, FS (join '', '' (IsDNS1123Subdomain K clientName))]))
         else if IsDNS1123Subdomain K clientDomain \<noteq> []
         then Inl (ssh_incomplete (''%w: ssh.clientDomain %q is invalid: %s'',
                [FS clientDomain, FS (join '', '' (IsDNS1123Subdomain K clientDomain))]))
         else Inr \<lparr>ssh_Enabled = True, ssh_Username = username, ssh_AuthorizedKeys = keys, ssh_Port = port,
                ssh_ServerAddr = serverAddr, ssh_ServerPort = serverPort, ssh_ConnectHost = connectHost,
                ssh_ConnectPort = connectPort, ssh_DomainSuffix = domainSuffix, ssh_ClientName = clientName,
                ssh_ClientDomain = clientDomain, ssh_Token = TrimSpace (ssh_Token ssh),
                ssh_Image = firstNonEmpty [ssh_Image ssh, DefaultUnitSSHImage],
                ssh_FRPImage = firstNonEmpty [ssh_FRPImage ssh, DefaultUnitSSHFRPImage]\<rparr>))"

definition sshProxyNameForUnit :: "GPUUnit \<Rightarrow> GPUUnitSSHSpec \<Rightarrow> string" where
  "sshProxyNameForUnit u sshSpec =
     or_default (ssh_ClientName sshSpec)
       (prefixedRuntimeName ''ssh-'' (meta_Namespace (unit_Meta u) @ ''-'' @ meta_Name (unit_Meta u)))"

definition sshTargetHostForUnit :: "GPUUnit \<Rightarrow> GPUUnitSSHSpec \<Rightarrow> string" where
  "sshTargetHostForUnit u sshSpec =
     (if ssh_ClientDomain sshSpec \<noteq> [] then ssh_ClientDomain sshSpec
      else meta_Name (unit_Meta u) @ ''.'' @ meta_Namespace (unit_Meta u) @ ''.''
        @ TrimPrefix (TrimSpace (ssh_DomainSuffix sshSpec)) ''.'')"

definition buildUnitSSHAccessCommand :: "GPUUnit \<Rightarrow> GPUUnitSSHSpec \<Rightarrow> string" where
  "buildUnitSSHAccessCommand u sshSpec =
     ''ssh -o ProxyCommand='' @ [CHR 0x27] @ ''nc -X connect -x '' @ ssh_ConnectHost sshSpec @ '':''
       @ FormatInt (ssh_ConnectPort sshSpec) 10 @ '' %h %p'' @ [CHR 0x27] @ '' '' @ ssh_Username sshSpec @ ''@''
       @ sshTargetHostForUnit u sshSpec"

section \<open>Access\<close>

definition normalizeControllerGPUUnitAccess :: "GPUUnitAccess \<Rightarrow> GPUUnitPortSpec list \<Rightarrow> GPUUnitAccess res" where
  "normalizeControllerGPUUnitAccess access0 ports =
     (let access = \<lparr>acc_PrimaryPort = TrimSpace (acc_PrimaryPort access0),
            acc_Scheme = or_default (ToLower (TrimSpace (acc_Scheme access0))) DefaultAccessScheme\<rparr>
      in case ports of
           [] \<Rightarrow> if acc_PrimaryPort access \<noteq> []
                 then Inl (ErrorText (''access.primaryPort %q requires at least one runtime port'', [FS (acc_PrimaryPort access)]))
                 else Inr access
         | p # _ \<Rightarrow>
             let access = access\<lparr>acc_PrimaryPort := or_default (acc_PrimaryPort access) (port_Name p)\<rparr>
             in if list_ex (\<lambda>p. port_Name p = acc_PrimaryPort access) ports then Inr access
                else Inl (ErrorText (''access.primaryPort %q does not exist in template.ports'', [FS (acc_PrimaryPort access)])))"

definition buildUnitAccessURL :: "string \<Rightarrow> string \<Rightarrow> GPUUnitAccess \<Rightarrow> GPUUnitPortSpec list \<Rightarrow> string res" where
  "buildUnitAccessURL namespace serviceName access ports =
     andThen (normalizeControllerGPUUnitAccess access ports) (\<lambda>normalizedAccess.
       if ports = [] then Inr []
       else case find (\<lambda>p. port_Name p = acc_PrimaryPort normalizedAccess) ports of
              Some p \<Rightarrow> Inr (acc_Scheme normalizedAccess @ ''://'' @ serviceName @ ''.'' @ namespace @ ''.svc.cluster.local:''
                @ FormatInt (port_Port p) 10)
            | None \<Rightarrow> Inl (ErrorText (''access.primaryPort %q does not exist in template.ports'', [FS (acc_PrimaryPort normalizedAccess)])))"

section \<open>What the API accepted\<close>

text \<open>The settings of a unit that went through the contract (\<^verbatim>\<open>pkg/contract\<close>) come out of the controller's own
  checks as they are; only a missing client name is filled in.\<close>

lemma firstNonEmpty_trimmed [simp]: "x \<noteq> [] \<Longrightarrow> TrimSpace x = x \<Longrightarrow> firstNonEmpty (x # xs) = x"
  by simp

lemma controller_path_id:
  assumes "clean_abs p" "trimmed p" "p \<noteq> ''/''"
  shows "normalizeControllerServerlessPath p fallback = p"
proof -
  obtain q where q: "p = ''/'' @ q" using assms(1) by (auto simp: clean_abs_def)
  then have "TrimPrefix p ''/'' = q" by (simp add: TrimPrefix_def HasPrefix_def)
  with q assms show ?thesis by (simp add: normalizeControllerServerlessPath_def TrimSpace_id)
qed

lemma controller_socket_id:
  assumes "clean_abs p" "trimmed p"
  shows "normalizeControllerServerlessSocketPath p fallback = p"
proof -
  have "HasPrefix p ''/''" "p \<noteq> []" using clean_abs_IsAbs [OF assms(1)] by (auto simp: IsAbs_def HasPrefix_def)
  with assms show ?thesis by (simp add: normalizeControllerServerlessSocketPath_def TrimSpace_id Clean_id)
qed

lemma resolve_serverless_id:
  assumes "wf_serverless (spec_Serverless (unit_Spec u))"
    and "spec_Serverless (unit_Spec u) = zero_serverless \<or> trimmed_paths (sls_Framework (spec_Serverless (unit_Spec u)))"
  shows "resolveUnitServerlessSpec errText u = Inr (spec_Serverless (unit_Spec u))"
proof (cases "spec_Serverless (unit_Spec u) = zero_serverless")
  case True
  then show ?thesis unfolding resolveUnitServerlessSpec_def True by (simp add: zero_serverless_def Let_def)
next
  case False
  define s where "s = spec_Serverless (unit_Spec u)"
  from False assms have w: "sls_Enabled s" "token_match (sls_RequestID s)" "0 \<le> sls_MinAvailableCount s"
    "0 < sls_IdleTimeoutSeconds s" "0 \<le> sls_MinRequestCount s" "wf_framework (sls_Framework s)" "trimmed_paths (sls_Framework s)"
    by (simp_all add: wf_serverless_def s_def)
  define f where "f = sls_Framework s"
  from w(6,7) have f: "clean_abs (fw_SocketPath f)" "trimmed (fw_SocketPath f)"
    "path_below DefaultServerlessFrameworkSocketDir (fw_SocketPath f)"
    "clean_abs (fw_InvokePath f)" "trimmed (fw_InvokePath f)" "fw_InvokePath f \<noteq> ''/''"
    "clean_abs (fw_HealthPath f)" "trimmed (fw_HealthPath f)" "fw_HealthPath f \<noteq> ''/''"
    by (simp_all add: wf_framework_def trimmed_paths_def f_def)
  obtain ws where ws: "ws \<noteq> []" "fw_SocketPath f = DefaultServerlessFrameworkSocketDir @ ''/'' @ join ''/'' ws"
    using f(3) by (auto simp: path_below_def)
  have h: "HasPrefix (fw_SocketPath f) (DefaultServerlessFrameworkSocketDir @ ''/'')"
    using ws by (auto simp: HasPrefix_iff)
  have ne: "fw_SocketPath f \<noteq> DefaultServerlessFrameworkSocketDir" using ws by simp
  note fs = controller_socket_id [OF f(1,2)] controller_path_id [OF f(4-6)] controller_path_id [OF f(7-9)]
  have eq: "s\<lparr>sls_Enabled := True, sls_RequestID := sls_RequestID s, sls_IdleTimeoutSeconds := sls_IdleTimeoutSeconds s,
      sls_Framework := \<lparr>fw_SocketPath = fw_SocketPath f, fw_InvokePath = fw_InvokePath f, fw_HealthPath = fw_HealthPath f\<rparr>\<rparr> = s"
    using w(1) by (cases s; cases f) (simp add: f_def)
  show ?thesis
    using w(1-5) fs h ne eq
    by (simp add: resolveUnitServerlessSpec_def s_def [symmetric] f_def [symmetric] Let_def NormalizeRequestID_token
        socket_dir or_default_int_def)
qed

context k8s_names
begin

lemma resolve_ssh_id:
  assumes "wf_ssh K s" "spec_SSH (unit_Spec u) = s" "ssh_Enabled s"
    and "ssh_ClientName s = [] \<Longrightarrow> dns1123_subdomain (prefixedRuntimeName ''ssh-'' (meta_Namespace (unit_Meta u) @ ''-'' @ meta_Name (unit_Meta u)))"
    and "\<not> HasPrefix (ssh_DomainSuffix s) ''.''"
  shows "resolveUnitSSHSpec K u = Inr (s\<lparr>ssh_ClientName := sshProxyNameForUnit u s\<rparr>)"
proof -
  let ?n = "sshProxyNameForUnit u s"
  from assms(1,3) have w: "dns1123_label (ssh_Username s)" "ssh_Username s \<noteq> []" "ToLower (TrimSpace (ssh_Username s)) = ssh_Username s"
    "ssh_AuthorizedKeys s \<noteq> []" "distinct (ssh_AuthorizedKeys s)" "list_all (\<lambda>k. k \<noteq> [] \<and> trimmed k) (ssh_AuthorizedKeys s)"
    "ssh_ServerAddr s \<noteq> []" "trimmed (ssh_ServerAddr s)" "ssh_ConnectHost s \<noteq> []" "trimmed (ssh_ConnectHost s)"
    "1 \<le> ssh_Port s" "ssh_Port s \<le> 65535" "1 \<le> ssh_ServerPort s" "ssh_ServerPort s \<le> 65535" "1 \<le> ssh_ConnectPort s" "ssh_ConnectPort s \<le> 65535"
    "ssh_DomainSuffix s = [] \<or> dns1123_subdomain (ssh_DomainSuffix s)" "ssh_ClientName s = [] \<or> dns1123_subdomain (ssh_ClientName s)"
    "ToLower (TrimSpace (ssh_ClientName s)) = ssh_ClientName s" "ssh_ClientDomain s \<noteq> []" "dns1123_subdomain (ssh_ClientDomain s)"
    "trimmed (ssh_Token s)" "ssh_Image s \<noteq> []" "trimmed (ssh_Image s)" "ssh_FRPImage s \<noteq> []" "trimmed (ssh_FRPImage s)"
    by (auto simp: wf_ssh_def zero_ssh_def subdomain label)
  have user: "TrimSpace (ssh_Username s) = ssh_Username s" using w(3) by (rule lower_trimmed_normal)
  have user': "ToLower (firstNonEmpty [ssh_Username s, d]) = ssh_Username s" for d using user w(2,3) by simp
  have keys: "unique_keys [] (ssh_AuthorizedKeys s) = ssh_AuthorizedKeys s"
    using unique_keys_id w(5,6) by simp
  have dom: "ToLower (TrimSpace (ssh_ClientDomain s)) = ssh_ClientDomain s" using w(21) by (rule subdomain_normal)
  have suf: "TrimPrefix (TrimSpace (ssh_DomainSuffix s)) ''.'' = ssh_DomainSuffix s"
    using w(17) assms(5) subdomain_trimmed by (auto simp: TrimPrefix_def TrimSpace_id)
  have name: "dns1123_subdomain ?n" using assms(4) w(18) by (auto simp: sshProxyNameForUnit_def or_default_def)
  have r: "s\<lparr>ssh_ClientName := ?n\<rparr> = \<lparr>ssh_Enabled = True, ssh_Username = ssh_Username s, ssh_AuthorizedKeys = ssh_AuthorizedKeys s,
      ssh_Port = ssh_Port s, ssh_ServerAddr = ssh_ServerAddr s, ssh_ServerPort = ssh_ServerPort s, ssh_ConnectHost = ssh_ConnectHost s,
      ssh_ConnectPort = ssh_ConnectPort s, ssh_DomainSuffix = ssh_DomainSuffix s, ssh_ClientName = ?n,
      ssh_ClientDomain = ssh_ClientDomain s, ssh_Token = ssh_Token s, ssh_Image = ssh_Image s, ssh_FRPImage = ssh_FRPImage s\<rparr>"
    using assms(3) by (cases s) simp
  have n: "or_default (ToLower (TrimSpace (ssh_ClientName s))) (prefixedRuntimeName ''ssh-'' (meta_Namespace (unit_Meta u) @ ''-'' @ meta_Name (unit_Meta u))) = ?n"
    unfolding w(19) sshProxyNameForUnit_def ..
  show ?thesis
    unfolding resolveUnitSSHSpec_def Let_def assms(2) user' keys dom suf n r
    using assms(3) w name
    by (simp add: subdomain label or_default_def or_default_int_def check_ssh_port_def TrimSpace_id)
qed

end

lemma access_id:
  assumes "wf_access ports a"
    and that: "\<And>p. p \<in> set ports \<Longrightarrow> trimmed (port_Name p) \<and> port_Name p \<noteq> []"
  shows "normalizeControllerGPUUnitAccess a ports = Inr a"
proof -
  from assms have s: "or_default (ToLower (TrimSpace (acc_Scheme a))) DefaultAccessScheme = acc_Scheme a"
    by (simp add: wf_access_def or_default_def)
  show ?thesis
  proof (cases ports)
    case Nil
    with assms s show ?thesis by (cases a) (simp add: normalizeControllerGPUUnitAccess_def wf_access_def)
  next
    case (Cons p ps)
    with assms have m: "acc_PrimaryPort a \<in> port_Name ` set ports" by (simp add: wf_access_def)
    then obtain p' where "p' \<in> set ports" "acc_PrimaryPort a = port_Name p'" by auto
    then have t: "TrimSpace (acc_PrimaryPort a) = acc_PrimaryPort a" "acc_PrimaryPort a \<noteq> []"
      using that [of p'] by (simp_all add: TrimSpace_id)
    have e: "list_ex (\<lambda>q. port_Name q = acc_PrimaryPort a) ports" using m by (auto simp: list_ex_iff)
    have "normalizeControllerGPUUnitAccess a ports = Inr \<lparr>acc_PrimaryPort = acc_PrimaryPort a, acc_Scheme = acc_Scheme a\<rparr>"
      using e t s unfolding Cons or_default_def by (simp add: normalizeControllerGPUUnitAccess_def or_default_def Let_def)
    then show ?thesis by (cases a) simp
  qed
qed

end
