(* ===== verification/Controller_Status.thy ===== *)
theory Controller_Status
  imports Controller_Spec
begin

text \<open>
  How the unit controller computes and writes the status of a unit (\<^verbatim>\<open>status_rules.go\<close>, \<^verbatim>\<open>unit_status_helpers.go\<close>,
  \<^verbatim>\<open>pod_status_helpers.go\<close> and the status part of \<^verbatim>\<open>gpuunit_controller.go\<close>, all under \<^verbatim>\<open>internal/controller\<close>). The
  generation of the object, which only the API server changes, and the time of the write are arguments.
\<close>

section \<open>Constants\<close>

definition UnitSSHPhaseDisabled :: string where "UnitSSHPhaseDisabled = ''Disabled''"
definition UnitSSHPhasePending :: string where "UnitSSHPhasePending = ''Pending''"
definition UnitSSHPhaseReady :: string where "UnitSSHPhaseReady = ''Ready''"
definition UnitSSHPhaseFailed :: string where "UnitSSHPhaseFailed = ''Failed''"
definition UnitServerlessPhaseDisabled :: string where "UnitServerlessPhaseDisabled = ''Disabled''"
definition UnitServerlessPhasePending :: string where "UnitServerlessPhasePending = ''Pending''"
definition UnitServerlessPhaseReady :: string where "UnitServerlessPhaseReady = ''Ready''"
definition UnitServerlessPhaseFailed :: string where "UnitServerlessPhaseFailed = ''Failed''"
definition ReasonUnitReady :: string where "ReasonUnitReady = ''UnitReady''"
definition ReasonPodStartupFailed :: string where "ReasonPodStartupFailed = ''PodStartupFailed''"
definition ReasonStorageNotReady :: string where "ReasonStorageNotReady = ''StorageNotReady''"
definition ReasonUnitProgressing :: string where "ReasonUnitProgressing = ''UnitProgressing''"
definition ReasonUnitSSHPending :: string where "ReasonUnitSSHPending = ''UnitSSHPending''"
definition ReasonUnitSSHReady :: string where "ReasonUnitSSHReady = ''UnitSSHReady''"
definition ReasonUnitSSHFailed :: string where "ReasonUnitSSHFailed = ''UnitSSHFailed''"
definition ReasonUnitServerlessPending :: string where "ReasonUnitServerlessPending = ''UnitServerlessPending''"
definition ReasonUnitServerlessReady :: string where "ReasonUnitServerlessReady = ''UnitServerlessReady''"
definition ReasonUnitServerlessFailed :: string where "ReasonUnitServerlessFailed = ''UnitServerlessFailed''"
definition ReasonSSHConfigInvalid :: string where "ReasonSSHConfigInvalid = ''SSHConfigInvalid''"
definition ReasonServerlessConfigInvalid :: string where "ReasonServerlessConfigInvalid = ''ServerlessConfigInvalid''"
definition ReasonInvalidSpec :: string where "ReasonInvalidSpec = ''InvalidSpec''"
definition ReasonPodStatusSyncFailed :: string where "ReasonPodStatusSyncFailed = ''PodStatusSyncFailed''"
definition ReasonAccessConfigInvalid :: string where "ReasonAccessConfigInvalid = ''AccessConfigInvalid''"
definition ReasonUnitServiceSyncFailed :: string where "ReasonUnitServiceSyncFailed = ''UnitServiceSyncFailed''"
definition ReasonUnitNetworkPolicySyncFailed :: string where "ReasonUnitNetworkPolicySyncFailed = ''UnitNetworkPolicySyncFailed''"
definition ReasonUnitDeploymentSyncFailed :: string where "ReasonUnitDeploymentSyncFailed = ''UnitDeploymentSyncFailed''"
definition ReasonUnitDRAClaimSyncFailed :: string where "ReasonUnitDRAClaimSyncFailed = ''UnitDRAClaimSyncFailed''"
definition ReasonStorageMountInvalid :: string where "ReasonStorageMountInvalid = ''StorageMountInvalid''"
definition StatusMessageUnitReady :: string where "StatusMessageUnitReady = ''GPU unit runtime is ready.''"
definition StatusMessageUnitWait :: string where
  "StatusMessageUnitWait = ''Waiting for the GPU unit runtime to become ready.''"
definition StatusMessageUnitStorage :: string where "StatusMessageUnitStorage = ''Waiting for attached storage to become ready.''"
definition StatusMessageUnitSSHReady :: string where "StatusMessageUnitSSHReady = ''GPU unit SSH access is ready.''"
definition StatusMessageUnitSSHPending :: string where
  "StatusMessageUnitSSHPending = ''Waiting for the GPU unit SSH access to become ready.''"
definition StatusMessageUnitSSHDisabled :: string where "StatusMessageUnitSSHDisabled = ''GPU unit SSH access is disabled.''"
definition StatusMessageUnitServerlessReady :: string where "StatusMessageUnitServerlessReady = ''GPU unit serverless sidecar is ready.''"
definition StatusMessageUnitServerlessPending :: string where
  "StatusMessageUnitServerlessPending = ''Waiting for the GPU unit serverless sidecar to become ready.''"
definition StatusMessageUnitServerlessDisabled :: string where "StatusMessageUnitServerlessDisabled = ''GPU unit serverless sidecar is disabled.''"
definition ConditionSSHReady :: string where "ConditionSSHReady = ''SSHReady''"
definition ConditionServerlessReady :: string where "ConditionServerlessReady = ''ServerlessReady''"

section \<open>Decision tables\<close>

record ('i, 'o) statusRule =
  rule_Match :: "'i \<Rightarrow> bool"
  rule_Build :: "'i \<Rightarrow> 'o"

record conditionDecision =
  cd_Status :: string
  cd_Reason :: string
  cd_Message :: string

definition ConditionTrue :: string where "ConditionTrue = ''True''"
definition ConditionFalse :: string where "ConditionFalse = ''False''"

fun resolveStatusRule :: "'i \<Rightarrow> ('i, 'o) statusRule list \<Rightarrow> ('i \<Rightarrow> 'o) \<Rightarrow> 'o" where
  "resolveStatusRule input [] fallback = fallback input"
| "resolveStatusRule input (rule # rules) fallback =
     (if rule_Match rule input then rule_Build rule input else resolveStatusRule input rules fallback)"

definition statusConditionFromDecision :: "string \<Rightarrow> int \<Rightarrow> conditionDecision \<Rightarrow> Condition" where
  "statusConditionFromDecision conditionType generation decision =
     \<lparr>cond_Type = conditionType, cond_Status = cd_Status decision, cond_ObservedGeneration = generation,
      cond_LastTransitionTime = 0, cond_Reason = cd_Reason decision, cond_Message = cd_Message decision\<rparr>"

section \<open>Readiness of a unit\<close>

record unitReadyStatusInput =
  ri_Available :: int
  ri_FailureMessage :: string
  ri_StorageReady :: bool
  ri_StorageWaitMessage :: string

record unitReadyStatusDecision =
  rd_Phase :: string
  rd_Ready :: conditionDecision

definition instanceUnitStatusRules :: "(unitReadyStatusInput, unitReadyStatusDecision) statusRule list" where
  "instanceUnitStatusRules =
     [\<lparr>rule_Match = (\<lambda>input. ri_Available input \<ge> 1),
       rule_Build = (\<lambda>input. \<lparr>rd_Phase = PhaseReady,
         rd_Ready = \<lparr>cd_Status = ConditionTrue, cd_Reason = ReasonUnitReady, cd_Message = StatusMessageUnitReady\<rparr>\<rparr>)\<rparr>,
      \<lparr>rule_Match = (\<lambda>input. ri_FailureMessage input \<noteq> []),
       rule_Build = (\<lambda>input. \<lparr>rd_Phase = PhaseFailed,
         rd_Ready = \<lparr>cd_Status = ConditionFalse, cd_Reason = ReasonPodStartupFailed, cd_Message = ri_FailureMessage input\<rparr>\<rparr>)\<rparr>,
      \<lparr>rule_Match = (\<lambda>input. \<not> ri_StorageReady input),
       rule_Build = (\<lambda>input. \<lparr>rd_Phase = PhaseProgressing,
         rd_Ready = \<lparr>cd_Status = ConditionFalse, cd_Reason = ReasonStorageNotReady,
           cd_Message = firstNonEmpty [ri_StorageWaitMessage input, StatusMessageUnitStorage]\<rparr>\<rparr>)\<rparr>]"

definition defaultInstanceUnitStatusDecision :: "unitReadyStatusInput \<Rightarrow> unitReadyStatusDecision" where
  "defaultInstanceUnitStatusDecision input = \<lparr>rd_Phase = PhaseProgressing,
     rd_Ready = \<lparr>cd_Status = ConditionFalse, cd_Reason = ReasonUnitProgressing, cd_Message = StatusMessageUnitWait\<rparr>\<rparr>"

definition resolveUnitReadyStatus :: "GPUUnit \<Rightarrow> unitReadyStatusInput \<Rightarrow> unitReadyStatusDecision" where
  "resolveUnitReadyStatus u input = resolveStatusRule input instanceUnitStatusRules defaultInstanceUnitStatusDecision"

section \<open>SSH and serverless progress\<close>

record unitSSHProgress =
  sp_Phase :: string
  sp_Username :: string
  sp_TargetHost :: string
  sp_ConnectHost :: string
  sp_ConnectPort :: int
  sp_AccessCommand :: string
  sp_Reason :: string
  sp_Message :: string
  sp_Ready :: bool

record unitServerlessProgress =
  vp_Phase :: string
  vp_DispatchSubject :: string
  vp_SocketPath :: string
  vp_InvokePath :: string
  vp_HealthPath :: string
  vp_Reason :: string
  vp_Message :: string
  vp_Ready :: bool

definition zero_ssh_progress :: unitSSHProgress where
  "zero_ssh_progress = \<lparr>sp_Phase = [], sp_Username = [], sp_TargetHost = [], sp_ConnectHost = [], sp_ConnectPort = 0,
     sp_AccessCommand = [], sp_Reason = [], sp_Message = [], sp_Ready = False\<rparr>"

definition zero_serverless_progress :: unitServerlessProgress where
  "zero_serverless_progress = \<lparr>vp_Phase = [], vp_DispatchSubject = [], vp_SocketPath = [], vp_InvokePath = [],
     vp_HealthPath = [], vp_Reason = [], vp_Message = [], vp_Ready = False\<rparr>"

definition unitSSHConditionByPhase :: "conditionDecision smap" where
  "unitSSHConditionByPhase =
     [(UnitSSHPhaseDisabled, \<lparr>cd_Status = ConditionTrue, cd_Reason = ReasonUnitSSHReady, cd_Message = StatusMessageUnitSSHDisabled\<rparr>),
      (UnitSSHPhasePending, \<lparr>cd_Status = ConditionFalse, cd_Reason = ReasonUnitSSHPending, cd_Message = StatusMessageUnitSSHPending\<rparr>),
      (UnitSSHPhaseReady, \<lparr>cd_Status = ConditionTrue, cd_Reason = ReasonUnitSSHReady, cd_Message = StatusMessageUnitSSHReady\<rparr>),
      (UnitSSHPhaseFailed, \<lparr>cd_Status = ConditionFalse, cd_Reason = ReasonUnitSSHFailed, cd_Message = []\<rparr>)]"

definition unitServerlessConditionByPhase :: "conditionDecision smap" where
  "unitServerlessConditionByPhase =
     [(UnitServerlessPhaseDisabled, \<lparr>cd_Status = ConditionTrue, cd_Reason = ReasonUnitServerlessReady, cd_Message = StatusMessageUnitServerlessDisabled\<rparr>),
      (UnitServerlessPhasePending, \<lparr>cd_Status = ConditionFalse, cd_Reason = ReasonUnitServerlessPending, cd_Message = StatusMessageUnitServerlessPending\<rparr>),
      (UnitServerlessPhaseReady, \<lparr>cd_Status = ConditionTrue, cd_Reason = ReasonUnitServerlessReady, cd_Message = StatusMessageUnitServerlessReady\<rparr>),
      (UnitServerlessPhaseFailed, \<lparr>cd_Status = ConditionFalse, cd_Reason = ReasonUnitServerlessFailed, cd_Message = []\<rparr>)]"

definition buildUnitSSHProgress :: "'q k8s \<Rightarrow> (error \<Rightarrow> string) \<Rightarrow> GPUUnit \<Rightarrow> int \<Rightarrow> string \<Rightarrow> unitSSHProgress" where
  "buildUnitSSHProgress K errText u available sshFailure =
     (if \<not> ssh_Enabled (spec_SSH (unit_Spec u))
      then zero_ssh_progress\<lparr>sp_Phase := UnitSSHPhaseDisabled, sp_Reason := ReasonUnitSSHReady,
             sp_Message := StatusMessageUnitSSHDisabled, sp_Ready := True\<rparr>
      else case resolveUnitSSHSpec K u of
        Inl e \<Rightarrow> zero_ssh_progress\<lparr>sp_Phase := UnitSSHPhaseFailed, sp_Reason := ReasonSSHConfigInvalid, sp_Message := errText e\<rparr>
      | Inr sshSpec \<Rightarrow>
          let progress = \<lparr>sp_Phase = UnitSSHPhasePending, sp_Username = ssh_Username sshSpec,
                sp_TargetHost = sshTargetHostForUnit u sshSpec, sp_ConnectHost = ssh_ConnectHost sshSpec,
                sp_ConnectPort = ssh_ConnectPort sshSpec, sp_AccessCommand = buildUnitSSHAccessCommand u sshSpec,
                sp_Reason = ReasonUnitSSHPending, sp_Message = StatusMessageUnitSSHPending, sp_Ready = False\<rparr>
          in if sshFailure \<noteq> []
             then progress\<lparr>sp_Phase := UnitSSHPhaseFailed, sp_Reason := ReasonUnitSSHFailed, sp_Message := sshFailure\<rparr>
             else if available \<ge> 1
             then progress\<lparr>sp_Phase := UnitSSHPhaseReady, sp_Reason := ReasonUnitSSHReady,
                    sp_Message := StatusMessageUnitSSHReady, sp_Ready := True\<rparr>
             else progress)"

definition buildUnitServerlessProgress :: "(error \<Rightarrow> string) \<Rightarrow> GPUUnit \<Rightarrow> int \<Rightarrow> string \<Rightarrow> string \<Rightarrow> unitServerlessProgress" where
  "buildUnitServerlessProgress errText u available subjectPrefix sidecarFailure =
     (if \<not> unitServerlessEnabled (spec_Serverless (unit_Spec u))
      then zero_serverless_progress\<lparr>vp_Phase := UnitServerlessPhaseDisabled, vp_Reason := ReasonUnitServerlessReady,
             vp_Message := StatusMessageUnitServerlessDisabled, vp_Ready := True\<rparr>
      else case resolveUnitServerlessSpec errText u of
        Inl e \<Rightarrow> zero_serverless_progress\<lparr>vp_Phase := UnitServerlessPhaseFailed, vp_Reason := ReasonServerlessConfigInvalid,
               vp_Message := errText e\<rparr>
      | Inr spec \<Rightarrow>
          let progress = \<lparr>vp_Phase = UnitServerlessPhasePending,
                vp_DispatchSubject = DispatchSubject subjectPrefix (sls_RequestID spec) (meta_Name (unit_Meta u)),
                vp_SocketPath = fw_SocketPath (sls_Framework spec), vp_InvokePath = fw_InvokePath (sls_Framework spec),
                vp_HealthPath = fw_HealthPath (sls_Framework spec), vp_Reason = ReasonUnitServerlessPending,
                vp_Message = StatusMessageUnitServerlessPending, vp_Ready = False\<rparr>
          in if sidecarFailure \<noteq> []
             then progress\<lparr>vp_Phase := UnitServerlessPhaseFailed, vp_Reason := ReasonUnitServerlessFailed, vp_Message := sidecarFailure\<rparr>
             else if available \<ge> 1
             then progress\<lparr>vp_Phase := UnitServerlessPhaseReady, vp_Reason := ReasonUnitServerlessReady,
                    vp_Message := StatusMessageUnitServerlessReady, vp_Ready := True\<rparr>
             else progress)"

definition gpuUnitSSHStatusFromProgress :: "unitSSHProgress \<Rightarrow> GPUUnitSSHStatus" where
  "gpuUnitSSHStatusFromProgress p = \<lparr>sshst_Phase = sp_Phase p, sshst_Username = sp_Username p,
     sshst_TargetHost = sp_TargetHost p, sshst_ConnectHost = sp_ConnectHost p, sshst_ConnectPort = sp_ConnectPort p,
     sshst_AccessCommand = sp_AccessCommand p\<rparr>"

definition gpuUnitServerlessStatusFromProgress :: "unitServerlessProgress \<Rightarrow> GPUUnitServerlessStatus" where
  "gpuUnitServerlessStatusFromProgress p = \<lparr>slsst_Phase = vp_Phase p, slsst_DispatchSubject = vp_DispatchSubject p,
     slsst_SocketPath = vp_SocketPath p, slsst_InvokePath = vp_InvokePath p, slsst_HealthPath = vp_HealthPath p\<rparr>"

text \<open>A phase that is not in the table reads as pending.\<close>

definition decision_for :: "conditionDecision smap \<Rightarrow> string \<Rightarrow> string \<Rightarrow> string \<Rightarrow> string \<Rightarrow> conditionDecision" where
  "decision_for table pending phase reason message =
     (let decision = (case map_of table phase of Some d \<Rightarrow> d | None \<Rightarrow>
            (case map_of table pending of Some d \<Rightarrow> d | None \<Rightarrow> \<lparr>cd_Status = [], cd_Reason = [], cd_Message = []\<rparr>))
      in decision\<lparr>cd_Reason := firstNonEmpty [reason, cd_Reason decision],
           cd_Message := firstNonEmpty [message, cd_Message decision]\<rparr>)"

definition buildUnitSSHCondition :: "int \<Rightarrow> unitSSHProgress \<Rightarrow> Condition" where
  "buildUnitSSHCondition generation p = statusConditionFromDecision ConditionSSHReady generation
     (decision_for unitSSHConditionByPhase UnitSSHPhasePending (sp_Phase p) (sp_Reason p) (sp_Message p))"

definition buildUnitServerlessCondition :: "int \<Rightarrow> unitServerlessProgress \<Rightarrow> Condition" where
  "buildUnitServerlessCondition generation p = statusConditionFromDecision ConditionServerlessReady generation
     (decision_for unitServerlessConditionByPhase UnitServerlessPhasePending (vp_Phase p) (vp_Reason p) (vp_Message p))"

section \<open>The whole status\<close>

definition buildGPUUnitStatus :: "'q k8s \<Rightarrow> gotime \<Rightarrow> int \<Rightarrow> GPUUnit \<Rightarrow> int \<Rightarrow> string \<Rightarrow> string \<Rightarrow> string \<Rightarrow> bool \<Rightarrow> string
    \<Rightarrow> unitSSHProgress \<Rightarrow> unitServerlessProgress \<Rightarrow> GPUUnitDRAStatus \<Rightarrow> GPUUnitStatus" where
  "buildGPUUnitStatus K now generation u available serviceName accessURL failureMessage storageReady storageWaitMessage
       sshProgress serverlessProgress draStatus =
     (let decision = resolveUnitReadyStatus u \<lparr>ri_Available = available, ri_FailureMessage = failureMessage,
            ri_StorageReady = storageReady, ri_StorageWaitMessage = storageWaitMessage\<rparr>;
          conditions = SetStatusCondition K now (buildUnitServerlessCondition generation serverlessProgress)
            (SetStatusCondition K now (buildUnitSSHCondition generation sshProgress)
              (SetStatusCondition K now (statusConditionFromDecision ConditionReady generation (rd_Ready decision)) []))
      in \<lparr>st_ReadyReplicas = available, st_Phase = rd_Phase decision, st_ObservedGeneration = generation,
          st_LastSyncTime = now, st_ServiceName = serviceName, st_AccessURL = accessURL,
          st_SSH = gpuUnitSSHStatusFromProgress sshProgress,
          st_Serverless = gpuUnitServerlessStatusFromProgress serverlessProgress,
          st_DRA = draStatus, st_Conditions = conditions\<rparr>)"

section \<open>Writing the status\<close>

text \<open>
  \<^verbatim>\<open>normalizeGPUUnitStatusForCompare\<close> gets a copy of the status, but the copy shares the array of conditions with its
  caller: the result is the returned value together with what the caller's status has become.
\<close>

definition clear_transitions :: "Condition list \<Rightarrow> Condition list" where
  "clear_transitions cs = map (\<lambda>c. c\<lparr>cond_LastTransitionTime := 0\<rparr>) cs"

definition normalizeGPUUnitStatusForCompare :: "GPUUnitStatus \<Rightarrow> GPUUnitStatus \<times> GPUUnitStatus" where
  "normalizeGPUUnitStatusForCompare status =
     (let conditions = clear_transitions (st_Conditions status)
      in (status\<lparr>st_LastSyncTime := 0, st_Conditions := conditions\<rparr>, status\<lparr>st_Conditions := conditions\<rparr>))"

definition gpuUnitStatusEqual :: "GPUUnitStatus \<Rightarrow> GPUUnitStatus \<Rightarrow> bool \<times> GPUUnitStatus \<times> GPUUnitStatus" where
  "gpuUnitStatusEqual a b =
     (let (aa, a) = normalizeGPUUnitStatusForCompare a; (bb, b) = normalizeGPUUnitStatusForCompare b
      in (aa = bb, a, b))"

text \<open>The result: the instance in memory after the call, and the outcome of the write.\<close>

definition updateGPUUnitStatus ::
    "(GPUUnit \<Rightarrow> ('w, unit) call) \<Rightarrow> GPUUnit \<Rightarrow> GPUUnitStatus \<Rightarrow> ('w, GPUUnit) call" where
  "updateGPUUnitStatus write u next =
     (let (same, old, next) = gpuUnitStatusEqual (unit_Status u) next
      in if same then returnC (u\<lparr>unit_Status := old\<rparr>)
         else bindC (write (u\<lparr>unit_Status := next\<rparr>)) (\<lambda>_. returnC (u\<lparr>unit_Status := next\<rparr>)))"

definition failed_status :: "'q k8s \<Rightarrow> (error \<Rightarrow> string) \<Rightarrow> string \<Rightarrow> gotime \<Rightarrow> int \<Rightarrow> GPUUnit \<Rightarrow> string \<Rightarrow> string \<Rightarrow> string
    \<Rightarrow> string \<Rightarrow> GPUUnitStatus" where
  "failed_status K errText subjectPrefix now generation u serviceName accessURL reason message =
     (let next = zero_unit_status\<lparr>st_Phase := PhaseFailed, st_ObservedGeneration := generation, st_LastSyncTime := now,
            st_ServiceName := serviceName, st_AccessURL := accessURL\<rparr>;
          next = (if ssh_Enabled (spec_SSH (unit_Spec u))
            then let p = buildUnitSSHProgress K errText u 0 [];
                     p = p\<lparr>sp_Phase := UnitSSHPhaseFailed, sp_Reason := firstNonEmpty [reason, ReasonUnitSSHFailed],
                           sp_Message := firstNonEmpty [message, sp_AccessCommand p, StatusMessageUnitSSHPending]\<rparr>
                 in next\<lparr>st_SSH := gpuUnitSSHStatusFromProgress p,
                      st_Conditions := SetStatusCondition K now (buildUnitSSHCondition generation p) (st_Conditions next)\<rparr>
            else next);
          next = (if unitServerlessEnabled (spec_Serverless (unit_Spec u))
            then let p = buildUnitServerlessProgress errText u 0 subjectPrefix [];
                     p = p\<lparr>vp_Phase := UnitServerlessPhaseFailed, vp_Reason := firstNonEmpty [reason, ReasonUnitServerlessFailed],
                           vp_Message := firstNonEmpty [message, StatusMessageUnitServerlessPending]\<rparr>
                 in next\<lparr>st_Serverless := gpuUnitServerlessStatusFromProgress p,
                      st_Conditions := SetStatusCondition K now (buildUnitServerlessCondition generation p) (st_Conditions next)\<rparr>
            else next)
      in next\<lparr>st_Conditions := SetStatusCondition K now (statusConditionFromDecision ConditionReady generation
           \<lparr>cd_Status = ConditionFalse, cd_Reason = reason, cd_Message = message\<rparr>) (st_Conditions next)\<rparr>)"

definition markUnitFailed :: "'q k8s \<Rightarrow> (error \<Rightarrow> string) \<Rightarrow> string \<Rightarrow> gotime \<Rightarrow> int \<Rightarrow> (GPUUnit \<Rightarrow> ('w, unit) call) \<Rightarrow> GPUUnit
    \<Rightarrow> string \<Rightarrow> string \<Rightarrow> string \<Rightarrow> string \<Rightarrow> ('w, GPUUnit) call" where
  "markUnitFailed K errText subjectPrefix now generation write u serviceName accessURL reason message =
     updateGPUUnitStatus write u (failed_status K errText subjectPrefix now generation u serviceName accessURL reason message)"

section \<open>Failures of pods\<close>

record ContainerStateWaiting =
  waiting_Reason :: string
  waiting_Message :: string

record ContainerStateTerminated =
  term_ExitCode :: int
  term_Signal :: int
  term_Reason :: string
  term_Message :: string

record ContainerStatus =
  cs_Name :: string
  cs_Waiting :: "ContainerStateWaiting option"
  cs_Terminated :: "ContainerStateTerminated option"
  cs_LastTerminated :: "ContainerStateTerminated option"

record Pod =
  pod_Name :: string
  pod_Phase :: string
  pod_Message :: string
  pod_Reason :: string
  pod_InitContainerStatuses :: "ContainerStatus list"
  pod_ContainerStatuses :: "ContainerStatus list"

definition isIgnorableWaitingReason :: "string \<Rightarrow> bool" where
  "isIgnorableWaitingReason reason = (TrimSpace reason \<in> {[], ''ContainerCreating'', ''PodInitializing''})"

definition terminatedFailureMessage :: "ContainerStateTerminated option \<Rightarrow> string" where
  "terminatedFailureMessage terminated =
     (case terminated of
        None \<Rightarrow> []
      | Some t \<Rightarrow>
          if term_ExitCode t = 0 \<and> term_Signal t = 0 then []
          else if firstNonEmpty [term_Message t] \<noteq> [] then firstNonEmpty [term_Message t]
          else if firstNonEmpty [term_Reason t] \<noteq> []
          then (if term_ExitCode t \<noteq> 0
                then firstNonEmpty [term_Reason t] @ '' (exit code '' @ FormatInt (term_ExitCode t) 10 @ '')''
                else firstNonEmpty [term_Reason t])
          else if term_ExitCode t \<noteq> 0 then ''container exited with code '' @ FormatInt (term_ExitCode t) 10
          else ''container terminated by signal '' @ FormatInt (term_Signal t) 10)"

definition containerFailureMessage :: "ContainerStatus \<Rightarrow> string option" where
  "containerFailureMessage status =
     (let terminated = terminatedFailureMessage (cs_Terminated status);
          rest = (if terminated \<noteq> [] then Some terminated else None)
      in case cs_Waiting status of
           None \<Rightarrow> rest
         | Some waiting \<Rightarrow>
             if isIgnorableWaitingReason (waiting_Reason waiting) then None
             else if waiting_Reason waiting = ''CrashLoopBackOff'' \<and> terminatedFailureMessage (cs_LastTerminated status) \<noteq> []
             then Some (terminatedFailureMessage (cs_LastTerminated status))
             else if firstNonEmpty [waiting_Message waiting, waiting_Reason waiting] \<noteq> []
             then Some (firstNonEmpty [waiting_Message waiting, waiting_Reason waiting])
             else rest)"

definition observedPodContainerStatuses :: "Pod \<Rightarrow> (string \<times> ContainerStatus) list" where
  "observedPodContainerStatuses pod =
     map (\<lambda>s. (pod_Name pod, s)) (pod_InitContainerStatuses pod) @ map (\<lambda>s. (pod_Name pod, s)) (pod_ContainerStatuses pod)"

fun first_failure :: "(string \<times> ContainerStatus) list \<Rightarrow> string option" where
  "first_failure [] = None"
| "first_failure ((podName, status) # rest) =
     (case containerFailureMessage status of
        Some message \<Rightarrow> Some (''Pod '' @ podName @ '' container '' @ cs_Name status @ '': '' @ message)
      | None \<Rightarrow> first_failure rest)"

definition podFailureMessage :: "Pod \<Rightarrow> string option" where
  "podFailureMessage pod =
     (case first_failure (observedPodContainerStatuses pod) of
        Some m \<Rightarrow> Some m
      | None \<Rightarrow>
          if pod_Phase pod = ''Failed'' \<and> firstNonEmpty [pod_Message pod, pod_Reason pod] \<noteq> []
          then Some (''Pod '' @ pod_Name pod @ '': '' @ firstNonEmpty [pod_Message pod, pod_Reason pod]) else None)"

definition namedContainerFailureMessage :: "Pod \<Rightarrow> string list \<Rightarrow> string option" where
  "namedContainerFailureMessage pod containerNames =
     first_failure (filter (\<lambda>(_, status). cs_Name status \<in> set containerNames) (observedPodContainerStatuses pod))"

definition opt_text :: "string option \<Rightarrow> string" where
  "opt_text m = (case m of None \<Rightarrow> [] | Some t \<Rightarrow> t)"

definition UnitSSHContainerName :: string where "UnitSSHContainerName = ''ssh-server''"
definition UnitSSHFRPContainerName :: string where "UnitSSHFRPContainerName = ''ssh-frpc''"
definition ServerlessSidecarContainerName :: string where "ServerlessSidecarContainerName = ''serverless-sidecar''"

fun inspect_pods :: "Pod list \<Rightarrow> string \<times> string \<times> string" where
  "inspect_pods [] = ([], [], [])"
| "inspect_pods (pod # pods) =
     (let ssh = namedContainerFailureMessage pod [UnitSSHContainerName, UnitSSHFRPContainerName];
          sidecar = namedContainerFailureMessage pod [ServerlessSidecarContainerName]
      in case podFailureMessage pod of
           Some message \<Rightarrow> (message, opt_text ssh, opt_text sidecar)
         | None \<Rightarrow>
             (case ssh of
                Some m \<Rightarrow> ([], m, [])
              | None \<Rightarrow> (case sidecar of Some m \<Rightarrow> ([], [], m) | None \<Rightarrow> inspect_pods pods)))"

definition inspectGPUUnitPods :: "(string \<Rightarrow> string \<times> string \<Rightarrow> ('w, Pod list) call) \<Rightarrow> GPUUnit \<Rightarrow> ('w, string \<times> string \<times> string) call" where
  "inspectGPUUnitPods listPods u =
     bindC (listPods (meta_Namespace (unit_Meta u)) (LabelUnitKey, meta_Name (unit_Meta u))) (\<lambda>pods. returnC (inspect_pods pods))"

section \<open>Facts about the status\<close>

lemma unit_ready_decision:
  "resolveUnitReadyStatus u i =
     (if 1 \<le> ri_Available i then \<lparr>rd_Phase = PhaseReady,
         rd_Ready = \<lparr>cd_Status = ConditionTrue, cd_Reason = ReasonUnitReady, cd_Message = StatusMessageUnitReady\<rparr>\<rparr>
      else if ri_FailureMessage i \<noteq> [] then \<lparr>rd_Phase = PhaseFailed,
         rd_Ready = \<lparr>cd_Status = ConditionFalse, cd_Reason = ReasonPodStartupFailed, cd_Message = ri_FailureMessage i\<rparr>\<rparr>
      else if \<not> ri_StorageReady i then \<lparr>rd_Phase = PhaseProgressing,
         rd_Ready = \<lparr>cd_Status = ConditionFalse, cd_Reason = ReasonStorageNotReady,
           cd_Message = firstNonEmpty [ri_StorageWaitMessage i, StatusMessageUnitStorage]\<rparr>\<rparr>
      else defaultInstanceUnitStatusDecision i)"
  by (simp add: resolveUnitReadyStatus_def instanceUnitStatusRules_def)

lemmas phase_defs = PhaseReady_def PhaseFailed_def PhaseProgressing_def ConditionTrue_def ConditionFalse_def
  ConditionReady_def ConditionSSHReady_def ConditionServerlessReady_def
  UnitSSHPhaseDisabled_def UnitSSHPhasePending_def UnitSSHPhaseReady_def UnitSSHPhaseFailed_def
  UnitServerlessPhaseDisabled_def UnitServerlessPhasePending_def UnitServerlessPhaseReady_def UnitServerlessPhaseFailed_def

lemma ssh_progress_condition:
  "cond_Status (buildUnitSSHCondition g (buildUnitSSHProgress K errText u available failure)) =
     (if sp_Ready (buildUnitSSHProgress K errText u available failure) then ConditionTrue else ConditionFalse)"
  by (simp add: buildUnitSSHProgress_def buildUnitSSHCondition_def statusConditionFromDecision_def decision_for_def
      unitSSHConditionByPhase_def zero_ssh_progress_def phase_defs Let_def split: sum.splits)

lemma serverless_progress_condition:
  "cond_Status (buildUnitServerlessCondition g (buildUnitServerlessProgress errText u available p failure)) =
     (if vp_Ready (buildUnitServerlessProgress errText u available p failure) then ConditionTrue else ConditionFalse)"
  by (simp add: buildUnitServerlessProgress_def buildUnitServerlessCondition_def statusConditionFromDecision_def decision_for_def
      unitServerlessConditionByPhase_def zero_serverless_progress_def phase_defs Let_def split: sum.splits)

lemma condition_types:
  "cond_Type (statusConditionFromDecision t g d) = t" "cond_ObservedGeneration (statusConditionFromDecision t g d) = g"
  "cond_Type (buildUnitSSHCondition g p) = ConditionSSHReady" "cond_ObservedGeneration (buildUnitSSHCondition g p) = g"
  "cond_Type (buildUnitServerlessCondition g q) = ConditionServerlessReady"
  "cond_ObservedGeneration (buildUnitServerlessCondition g q) = g"
  by (simp_all add: statusConditionFromDecision_def buildUnitSSHCondition_def buildUnitServerlessCondition_def)

lemma same_conditionD:
  "same_condition c d \<Longrightarrow> cond_Status c = cond_Status d \<and> cond_ObservedGeneration c = cond_ObservedGeneration d
     \<and> cond_Reason c = cond_Reason d \<and> cond_Message c = cond_Message d"
  unfolding same_condition_def by (cases c; cases d) simp

context k8s_conditions
begin

text \<open>The condition of a type in a list built by setting conditions one after the other.\<close>

lemma set_found:
  "cond_Type c = t \<Longrightarrow> \<exists>d. FindStatusCondition K (SetStatusCondition K now c cs) t = Some d
     \<and> cond_Status d = cond_Status c \<and> cond_ObservedGeneration d = cond_ObservedGeneration c"
  using find_set [of now c cs] same_conditionD by blast

lemma unit_conditions:
  assumes "conds = SetStatusCondition K now c3 (SetStatusCondition K now c2 (SetStatusCondition K now c1 []))"
    and "cond_Type c1 \<noteq> cond_Type c2" "cond_Type c1 \<noteq> cond_Type c3" "cond_Type c2 \<noteq> cond_Type c3"
    and "c \<in> {c1, c2, c3}"
  shows "\<exists>d. FindStatusCondition K conds (cond_Type c) = Some d \<and> cond_Status d = cond_Status c
    \<and> cond_ObservedGeneration d = cond_ObservedGeneration c"
proof -
  have "FindStatusCondition K conds (cond_Type c1) = FindStatusCondition K (SetStatusCondition K now c1 []) (cond_Type c1)"
    using assms(2,3) unfolding assms(1) by (simp add: find_other)
  moreover have "FindStatusCondition K conds (cond_Type c2) = FindStatusCondition K (SetStatusCondition K now c2 (SetStatusCondition K now c1 [])) (cond_Type c2)"
    using assms(4) unfolding assms(1) by (simp add: find_other)
  ultimately show ?thesis using assms(5) set_found unfolding assms(1) by auto
qed

end


definition plain_unit :: GPUUnit where
  "plain_unit = \<lparr>unit_Meta = \<lparr>meta_Name = ''demo'', meta_Namespace = DefaultInstanceNamespace, meta_Labels = [], meta_Annotations = []\<rparr>,
     unit_Spec = \<lparr>spec_PackageID = [], spec_SpecName = ''a100'', spec_Image = ''img'', spec_CPU = ''8'', spec_Memory = ''64'',
       spec_GPU = 1, spec_Allocation = zero_allocation, spec_Template = zero_template, spec_Access = zero_access,
       spec_SSH = zero_ssh, spec_Serverless = zero_serverless, spec_StorageMounts = []\<rparr>,
     unit_Status = zero_unit_status\<rparr>"

definition plain_status :: GPUUnitStatus where
  "plain_status = buildGPUUnitStatus ref_k8s 7 3 plain_unit 1 [] [] [] True []
     (buildUnitSSHProgress ref_k8s (\<lambda>_. ''error'') plain_unit 1 [])
     (buildUnitServerlessProgress (\<lambda>_. ''error'') plain_unit 1 ''serverless'' []) (st_DRA zero_unit_status)"


text \<open>
  C28. The comparison that decides whether a status is written clears the transition times of the very conditions it
  then writes. An API server that enforces the schema of the resource, in which \<^verbatim>\<open>lastTransitionTime\<close> is a required
  date, refuses every such write: no status with conditions is ever stored.
\<close>

theorem unit_status_never_written:
  assumes "\<And>v w. list_ex (\<lambda>c. cond_LastTransitionTime c = 0) (st_Conditions (unit_Status v)) \<Longrightarrow> \<exists>e. write v w = (Inl e, w)"
    and "st_Conditions next \<noteq> []"
  shows "snd (updateGPUUnitStatus write u next w) = w"
proof -
  let ?next = "next\<lparr>st_Conditions := clear_transitions (st_Conditions next)\<rparr>"
  have "list_ex (\<lambda>c. cond_LastTransitionTime c = 0) (st_Conditions ?next)"
    using assms(2) by (cases "st_Conditions next") (simp_all add: clear_transitions_def)
  then obtain e where "write (u\<lparr>unit_Status := ?next\<rparr>) w = (Inl e, w)" using assms(1) [of "u\<lparr>unit_Status := ?next\<rparr>" w] by auto
  then show ?thesis by (simp add: updateGPUUnitStatus_def gpuUnitStatusEqual_def normalizeGPUUnitStatusForCompare_def Let_def)
qed

definition schema_write :: "GPUUnit \<Rightarrow> (GPUUnit list, unit) call" where
  "schema_write v w = (if list_ex (\<lambda>c. cond_LastTransitionTime c = 0) (st_Conditions (unit_Status v))
     then (Inl (ErrorText (msg ''lastTransitionTime must be of type string'')), w) else (Inr (), v # w))"

theorem unit_status_never_written_witness:
  "snd (updateGPUUnitStatus schema_write plain_unit plain_status []) = []
   \<and> snd (schema_write (plain_unit\<lparr>unit_Status := plain_status\<rparr>) []) \<noteq> []"
proof -
  have "st_Conditions plain_status \<noteq> []" by code_simp
  with unit_status_never_written [of schema_write plain_status plain_unit "[]"]
  have "snd (updateGPUUnitStatus schema_write plain_unit plain_status []) = []" by (simp add: schema_write_def)
  moreover have "snd (schema_write (plain_unit\<lparr>unit_Status := plain_status\<rparr>) []) \<noteq> []" by code_simp
  ultimately show ?thesis ..
qed

end
