(* ===== verification/Controller_Objects.thy ===== *)
theory Controller_Objects
  imports Controller_Spec
begin

text \<open>
  The Kubernetes objects that the controllers own, with the fields the code reads or writes, and the pieces every
  workload shares (\<^verbatim>\<open>internal/controller/workload_security_helpers.go\<close>, the label maps of
  \<^verbatim>\<open>storage_runtime_helpers.go\<close>). A Go map in an object is an association list in a canonical order, so that
  \<^verbatim>\<open>reflect.DeepEqual\<close> is equality; a pointer to a scalar is an option.
\<close>

section \<open>Pods\<close>

record SecurityContext =
  sec_AllowPrivilegeEscalation :: "bool option"
  sec_DropCapabilities :: "string list"
  sec_SeccompProfile :: string

record ContainerPort =
  cp_Name :: string
  cp_ContainerPort :: int
  cp_Protocol :: string

record VolumeMount =
  vm_Name :: string
  vm_MountPath :: string
  vm_ReadOnly :: bool

datatype ProbeHandler = HTTPGetAction string int | TCPSocketAction int

record Probe =
  probe_Handler :: ProbeHandler
  probe_PeriodSeconds :: int
  probe_FailureThreshold :: int

record 'q ResourceRequirements =
  res_Requests :: "'q smap"
  res_Limits :: "'q smap"
  res_Claims :: "(string \<times> string) list"

definition no_resources :: "'q ResourceRequirements" where
  "no_resources = \<lparr>res_Requests = [], res_Limits = [], res_Claims = []\<rparr>"

record 'q Container =
  c_Name :: string
  c_Image :: string
  c_ImagePullPolicy :: string
  c_Command :: "string list"
  c_Args :: "string list"
  c_Env :: "(string \<times> string) list"
  c_Ports :: "ContainerPort list"
  c_Resources :: "'q ResourceRequirements"
  c_SecurityContext :: "SecurityContext option"
  c_VolumeMounts :: "VolumeMount list"
  c_StartupProbe :: "Probe option"
  c_RestartPolicy :: "string option"

definition zero_container :: "'q Container" where
  "zero_container = \<lparr>c_Name = [], c_Image = [], c_ImagePullPolicy = [], c_Command = [], c_Args = [], c_Env = [],
     c_Ports = [], c_Resources = no_resources, c_SecurityContext = None, c_VolumeMounts = [], c_StartupProbe = None,
     c_RestartPolicy = None\<rparr>"

datatype 'q VolumeSource =
    ClaimVolume string bool
  | EmptyDirVolume string "'q option"
  | ConfigMapVolume string int "(string \<times> string) list"

record 'q Volume =
  v_Name :: string
  v_Source :: "'q VolumeSource"

record 'q PodSpec =
  ps_RestartPolicy :: string
  ps_Containers :: "'q Container list"
  ps_InitContainers :: "'q Container list"
  ps_Volumes :: "'q Volume list"
  ps_ResourceClaims :: "(string \<times> string) list"

record 'q PodTemplateSpec =
  pt_Labels :: "string smap"
  pt_Spec :: "'q PodSpec"

section \<open>Owned objects\<close>

record 'q Deployment =
  dep_Meta :: ObjectMeta
  dep_Replicas :: "int option"
  dep_Selector :: "string smap"
  dep_Template :: "'q PodTemplateSpec"
  dep_AvailableReplicas :: int

record ServicePort =
  sp_PortName :: string
  sp_Port :: int
  sp_TargetPort :: int
  sp_Protocol :: string

record KubeService =
  ks_Meta :: ObjectMeta
  ks_Type :: string
  ks_Selector :: "string smap"
  ks_Ports :: "ServicePort list"

record 'q PersistentVolumeClaim =
  pvc_Meta :: ObjectMeta
  pvc_AccessModes :: "string list"
  pvc_Requests :: "'q smap"
  pvc_StorageClassName :: "string option"
  pvc_Phase :: string
  pvc_Capacity :: "'q smap"

record JobCondition =
  jc_Type :: string
  jc_Status :: string
  jc_Reason :: string
  jc_Message :: string

record 'q Job =
  job_Meta :: ObjectMeta
  job_BackoffLimit :: "int option"
  job_TTLSecondsAfterFinished :: "int option"
  job_Template :: "'q PodTemplateSpec"
  job_Succeeded :: int
  job_Failed :: int
  job_Active :: int
  job_Conditions :: "JobCondition list"

section \<open>Security\<close>

definition droppedWorkloadCapabilities :: "string list" where
  "droppedWorkloadCapabilities = [''AUDIT_CONTROL'', ''AUDIT_READ'', ''BLOCK_SUSPEND'', ''DAC_READ_SEARCH'', ''IPC_LOCK'',
     ''IPC_OWNER'', ''KILL'', ''MAC_ADMIN'', ''MAC_OVERRIDE'', ''MKNOD'', ''SETPCAP'', ''SYS_ADMIN'', ''SYS_MODULE'', ''SYS_RAWIO'',
     ''SYS_RESOURCE'', ''SYS_TIME'', ''WAKE_ALARM'']"

definition restrictedContainerSecurityContext :: SecurityContext where
  "restrictedContainerSecurityContext = \<lparr>sec_AllowPrivilegeEscalation = Some False,
     sec_DropCapabilities = [] @ droppedWorkloadCapabilities, sec_SeccompProfile = ''RuntimeDefault''\<rparr>"

definition unitSharedMemoryVolumeName :: string where "unitSharedMemoryVolumeName = ''runtime-shm''"
definition unitSharedMemoryMountPath :: string where "unitSharedMemoryMountPath = ''/dev/shm''"

text \<open>Half of the memory limit, at least one byte; Go's division truncates.\<close>

definition go_div2 :: "int \<Rightarrow> int" where
  "go_div2 v = (if v < 0 then - ((- v) div 2) else v div 2)"

definition desiredSharedMemoryVolume :: "'q k8s \<Rightarrow> string \<Rightarrow> 'q Volume res" where
  "desiredSharedMemoryVolume K memoryLimit =
     (let volume = \<lparr>v_Name = unitSharedMemoryVolumeName, v_Source = EmptyDirVolume ''Memory'' None\<rparr>;
          trimmed = TrimSpace memoryLimit
      in if trimmed = [] then Inr volume
         else andThen (ParseQuantity K trimmed) (\<lambda>qty.
           let half = go_div2 (qty_Value K qty);
               sizeLimitBytes = (if half < 1 then 1 else half)
           in Inr (volume\<lparr>v_Source := EmptyDirVolume ''Memory'' (Some (qty_New K sizeLimitBytes))\<rparr>)))"

definition desiredSharedMemoryVolumeMount :: VolumeMount where
  "desiredSharedMemoryVolumeMount = \<lparr>vm_Name = unitSharedMemoryVolumeName, vm_MountPath = unitSharedMemoryMountPath, vm_ReadOnly = False\<rparr>"

section \<open>Label maps\<close>

definition map_lookup :: "string smap \<Rightarrow> string \<Rightarrow> string" where
  "map_lookup m k = (case map_of m k of None \<Rightarrow> [] | Some v \<Rightarrow> v)"

definition ensure_entry :: "string \<times> string \<Rightarrow> string smap \<times> bool \<Rightarrow> string smap \<times> bool" where
  "ensure_entry kv st =
     (if map_lookup (fst st) (fst kv) = snd kv then st else (map_put (fst kv) (snd kv) (fst st), True))"

definition ensureStringMapValues :: "string smap \<Rightarrow> string smap \<Rightarrow> string smap \<times> bool" where
  "ensureStringMapValues current desired =
     (if desired = [] then (current, False) else fold ensure_entry desired (current, False))"

text \<open>\<^verbatim>\<open>reflect.DeepEqual\<close> on maps: the same entries, in whatever order.\<close>

definition map_equal :: "'v smap \<Rightarrow> 'v smap \<Rightarrow> bool" where
  "map_equal m n = list_all (\<lambda>k. map_of m k = map_of n k) (map fst m @ map fst n)"

definition replaceStringMap :: "string smap \<Rightarrow> string smap \<Rightarrow> string smap \<times> bool" where
  "replaceStringMap current desired = (if map_equal current desired then (current, False) else (desired, True))"

lemma map_equal_iff: "map_equal m n \<longleftrightarrow> map_of m = map_of n"
proof
  assume eq: "map_equal m n"
  show "map_of m = map_of n"
  proof
    fix k
    show "map_of m k = map_of n k"
    proof (cases "k \<in> fst ` set m \<or> k \<in> fst ` set n")
      case True
      then show ?thesis using eq by (auto simp: map_equal_def list_all_iff)
    next
      case False
      then have "map_of m k = None" "map_of n k = None" by (simp_all add: map_of_eq_None_iff)
      then show ?thesis by simp
    qed
  qed
qed (simp add: map_equal_def list_all_iff)

lemma map_equal_refl [simp]: "map_equal m m"
  by (simp add: map_equal_iff)

lemma replaceStringMap_settles: "replaceStringMap current desired = (m, c) \<Longrightarrow> replaceStringMap m desired = (m, False)"
  by (auto simp: replaceStringMap_def split: if_splits)

lemma replaceStringMap_self [simp]: "replaceStringMap m m = (m, False)"
  by (simp add: replaceStringMap_def)

lemma replaceStringMap_same: "replaceStringMap current desired = (m, False) \<Longrightarrow> m = current"
  by (simp add: replaceStringMap_def split: if_splits)

lemma replaceStringMap_equal: "replaceStringMap current desired = (m, c) \<Longrightarrow> map_of m = map_of desired \<and> (c \<or> m = current)"
  by (auto simp: replaceStringMap_def map_equal_iff split: if_splits)

text \<open>After the labels were ensured, ensuring them again changes nothing.\<close>

lemma ensure_entry_lookup:
  "map_lookup (fst (ensure_entry kv st)) k = (if k = fst kv then snd kv else map_lookup (fst st) k)"
  by (auto simp: ensure_entry_def map_lookup_def)

lemma ensure_fold_lookup:
  "distinct (map fst desired) \<Longrightarrow> map_lookup (fst (fold ensure_entry desired st)) k =
     (case map_of desired k of Some v \<Rightarrow> v | None \<Rightarrow> map_lookup (fst st) k)"
proof (induction desired arbitrary: st)
  case (Cons kv desired)
  have "map_of desired (fst kv) = None" using Cons.prems by (simp add: map_of_eq_None_iff)
  with Cons show ?case by (cases kv) (auto simp: ensure_entry_lookup split: option.splits)
qed simp

lemma ensure_fold_id:
  "(\<And>kv. kv \<in> set desired \<Longrightarrow> map_lookup (fst st) (fst kv) = snd kv) \<Longrightarrow> fold ensure_entry desired st = st"
  by (induction desired) (simp_all add: ensure_entry_def)

lemma ensureStringMapValues_idem:
  assumes "distinct (map fst desired)"
  shows "ensureStringMapValues (fst (ensureStringMapValues current desired)) desired = (fst (ensureStringMapValues current desired), False)"
proof (cases "desired = []")
  case False
  let ?m = "fst (fold ensure_entry desired (current, False))"
  have "fold ensure_entry desired (?m, False) = (?m, False)"
  proof (rule ensure_fold_id)
    fix kv assume "kv \<in> set desired"
    then have "map_of desired (fst kv) = Some (snd kv)" using assms by simp
    then show "map_lookup (fst (?m, False)) (fst kv) = snd kv" using ensure_fold_lookup [OF assms, of "(current, False)" "fst kv"] by simp
  qed
  with False show ?thesis by (simp add: ensureStringMapValues_def)
qed (simp add: ensureStringMapValues_def)

end
