(* ===== verification/Storage_Status.thy ===== *)
theory Storage_Status
  imports Controller_Status Controller_Objects
begin

text \<open>
  The storage controller's view of its work (\<^verbatim>\<open>internal/controller/storage_status_helpers.go\<close> and the progress values,
  names and desired objects of \<^verbatim>\<open>storage_runtime_helpers.go\<close>): the state of the prepare job and of the accessor, the
  readiness table, the status of a storage and how it is written. The digest of the prepare contract (JSON and
  SHA-256) is the argument \<open>digest\<close>.
\<close>

section \<open>Constants\<close>

definition StoragePhaseReady :: string where "StoragePhaseReady = ''Ready''"
definition StoragePhasePending :: string where "StoragePhasePending = ''Pending''"
definition StoragePhaseFailed :: string where "StoragePhaseFailed = ''Failed''"
definition DefaultStoragePrepareCopyImage :: string where "DefaultStoragePrepareCopyImage = ''busybox:1.36''"
definition StorageAccessorContainerName :: string where "StorageAccessorContainerName = ''storage-accessor''"
definition DefaultStorageAccessorImage :: string where "DefaultStorageAccessorImage = ''sigoden/dufs:latest''"
definition DefaultStorageAccessorPort :: int where "DefaultStorageAccessorPort = 5000"
definition StoragePrepareMountPath :: string where "StoragePrepareMountPath = ''/workspace''"
definition StoragePrepareSourceMountPath :: string where "StoragePrepareSourceMountPath = ''/source''"
definition DefaultStorageProxyPathPrefix :: string where "DefaultStorageProxyPathPrefix = ''/storage''"
definition ConditionPrepared :: string where "ConditionPrepared = ''Prepared''"
definition ConditionAccessorReady :: string where "ConditionAccessorReady = ''AccessorReady''"
definition StoragePreparePhaseNotRequested :: string where "StoragePreparePhaseNotRequested = ''NotRequested''"
definition StoragePreparePhasePending :: string where "StoragePreparePhasePending = ''Pending''"
definition StoragePreparePhaseRunning :: string where "StoragePreparePhaseRunning = ''Running''"
definition StoragePreparePhaseSucceeded :: string where "StoragePreparePhaseSucceeded = ''Succeeded''"
definition StoragePreparePhaseFailed :: string where "StoragePreparePhaseFailed = ''Failed''"
definition StorageAccessorPhaseDisabled :: string where "StorageAccessorPhaseDisabled = ''Disabled''"
definition StorageAccessorPhasePending :: string where "StorageAccessorPhasePending = ''Pending''"
definition StorageAccessorPhaseReady :: string where "StorageAccessorPhaseReady = ''Ready''"
definition StorageAccessorPhaseFailed :: string where "StorageAccessorPhaseFailed = ''Failed''"
definition StorageRecoveryPhaseNone :: string where "StorageRecoveryPhaseNone = ''None''"
definition StorageRecoveryPhaseRequired :: string where "StorageRecoveryPhaseRequired = ''Required''"
definition StorageRecoveryPhaseRunning :: string where "StorageRecoveryPhaseRunning = ''Running''"
definition StorageRecoveryPhaseSucceeded :: string where "StorageRecoveryPhaseSucceeded = ''Succeeded''"
definition ReasonStorageReady :: string where "ReasonStorageReady = ''StorageReady''"
definition ReasonStoragePending :: string where "ReasonStoragePending = ''StoragePending''"
definition ReasonStoragePVCSyncFailed :: string where "ReasonStoragePVCSyncFailed = ''StoragePVCSyncFailed''"
definition ReasonStorageInvalidSpec :: string where "ReasonStorageInvalidSpec = ''StorageInvalidSpec''"
definition ReasonStoragePreparePending :: string where "ReasonStoragePreparePending = ''StoragePreparePending''"
definition ReasonStoragePrepareRunning :: string where "ReasonStoragePrepareRunning = ''StoragePrepareRunning''"
definition ReasonStoragePrepareReady :: string where "ReasonStoragePrepareReady = ''StoragePrepareReady''"
definition ReasonStoragePrepareFailed :: string where "ReasonStoragePrepareFailed = ''StoragePrepareFailed''"
definition ReasonStorageAccessorPending :: string where "ReasonStorageAccessorPending = ''StorageAccessorPending''"
definition ReasonStorageAccessorReady :: string where "ReasonStorageAccessorReady = ''StorageAccessorReady''"
definition ReasonStorageAccessorFailed :: string where "ReasonStorageAccessorFailed = ''StorageAccessorFailed''"
definition StatusMessageStorageReady :: string where "StatusMessageStorageReady = ''Persistent storage is ready.''"
definition StatusMessageStoragePending :: string where
  "StatusMessageStoragePending = ''Waiting for the persistent volume claim to bind.''"
definition StatusMessageStoragePrepared :: string where "StatusMessageStoragePrepared = ''Persistent storage content is ready.''"
definition StatusMessageStoragePreparePending :: string where "StatusMessageStoragePreparePending = ''Waiting for storage data preparation to start.''"
definition StatusMessageStoragePrepareRunning :: string where "StatusMessageStoragePrepareRunning = ''Storage data preparation is running.''"
definition StatusMessageStoragePrepareFailed :: string where
  "StatusMessageStoragePrepareFailed = ''Storage data preparation failed and requires recovery.''"
definition StatusMessageStorageAccessorDisabled :: string where "StatusMessageStorageAccessorDisabled = ''Storage accessor is disabled.''"
definition StatusMessageStorageAccessorPending :: string where
  "StatusMessageStorageAccessorPending = ''Waiting for the storage accessor to become ready.''"
definition StatusMessageStorageAccessorReady :: string where "StatusMessageStorageAccessorReady = ''Storage accessor is ready.''"

section \<open>Progress\<close>

record storagePrepareProgress =
  pp_Phase :: string
  pp_JobName :: string
  pp_Digest :: string
  pp_RecoveryPhase :: string
  pp_Reason :: string
  pp_Message :: string
  pp_Ready :: bool
  pp_Changed :: bool

record storageAccessorProgress =
  ap_Phase :: string
  ap_ServiceName :: string
  ap_AccessURL :: string
  ap_Reason :: string
  ap_Message :: string
  ap_Ready :: bool
  ap_Changed :: bool

definition newStoragePrepareProgress :: "string \<Rightarrow> string \<Rightarrow> string \<Rightarrow> string \<Rightarrow> bool \<Rightarrow> storagePrepareProgress" where
  "newStoragePrepareProgress phase recoveryPhase reason message ready = \<lparr>pp_Phase = phase, pp_JobName = [], pp_Digest = [],
     pp_RecoveryPhase = recoveryPhase, pp_Reason = reason, pp_Message = message, pp_Ready = ready, pp_Changed = False\<rparr>"

definition storagePrepareNotRequestedProgress :: storagePrepareProgress where
  "storagePrepareNotRequestedProgress = newStoragePrepareProgress StoragePreparePhaseNotRequested StorageRecoveryPhaseNone
     ReasonStoragePrepareReady StatusMessageStoragePrepared True"

definition storagePreparePVCWaitingProgress :: storagePrepareProgress where
  "storagePreparePVCWaitingProgress = newStoragePrepareProgress StoragePreparePhasePending StorageRecoveryPhaseNone
     ReasonStoragePreparePending StatusMessageStoragePending False"

definition clampName :: "string \<Rightarrow> nat \<Rightarrow> string" where
  "clampName name limit = (if length name \<le> limit then name else TrimRightChar (take limit name) CHR ''-'')"

definition clampStorageResourceName :: "string \<Rightarrow> nat \<Rightarrow> string" where
  "clampStorageResourceName name limit = (if length name \<le> limit then name else TrimRightChar (take limit name) CHR ''-'')"

definition StorageAccessorServiceResourceName :: "string \<Rightarrow> string" where
  "StorageAccessorServiceResourceName storageName = clampStorageResourceName (''storage-accessor-'' @ storageName) 63"

definition storagePrepareJobName :: "string \<Rightarrow> string \<Rightarrow> string" where
  "storagePrepareJobName storageName dig = clampName (''storage-prepare-'' @ storageName @ ''-'' @ dig) 63"

definition storageAccessorDeploymentName :: "string \<Rightarrow> string" where
  "storageAccessorDeploymentName storageName = StorageAccessorServiceResourceName storageName"

definition storageAccessorServiceName :: "string \<Rightarrow> string" where
  "storageAccessorServiceName storageName = StorageAccessorServiceResourceName storageName"

definition recovery_nonce :: "GPUStorage \<Rightarrow> string" where
  "recovery_nonce s = map_lookup (meta_Annotations (stor_Meta s)) AnnotationStorageRecoveryNonce"

definition storagePrepareDigest :: "(GPUStoragePrepareSpec \<Rightarrow> string \<Rightarrow> string res) \<Rightarrow> GPUStorage \<Rightarrow> string res" where
  "storagePrepareDigest digest s = andThen (digest (sspec_Prepare (stor_Spec s)) (recovery_nonce s)) (\<lambda>h. Inr (take 12 h))"

definition newStoragePrepareJobProgress :: "(GPUStoragePrepareSpec \<Rightarrow> string \<Rightarrow> string res) \<Rightarrow> GPUStorage \<Rightarrow> storagePrepareProgress res" where
  "newStoragePrepareJobProgress digest s =
     andThen (storagePrepareDigest digest s) (\<lambda>d. Inr \<lparr>pp_Phase = StoragePreparePhasePending,
       pp_JobName = storagePrepareJobName (meta_Name (stor_Meta s)) d, pp_Digest = d, pp_RecoveryPhase = StorageRecoveryPhaseNone,
       pp_Reason = ReasonStoragePreparePending, pp_Message = StatusMessageStoragePreparePending, pp_Ready = False, pp_Changed = False\<rparr>)"

definition countNonEmpty :: "string list \<Rightarrow> nat" where
  "countNonEmpty values = length (filter (\<lambda>v. TrimSpace v \<noteq> []) values)"

definition isZeroControllerGPUStoragePrepare :: "GPUStoragePrepareSpec \<Rightarrow> bool" where
  "isZeroControllerGPUStoragePrepare p = (TrimSpace (prep_FromImage p) = [] \<and> ToLower (TrimSpace (prep_FromStorageName p)) = []
     \<and> countNonEmpty (prep_Command p) = 0 \<and> countNonEmpty (prep_Args p) = 0)"

definition validateGPUStoragePrepareSpec :: "'q k8s \<Rightarrow> string \<Rightarrow> GPUStoragePrepareSpec \<Rightarrow> unit res" where
  "validateGPUStoragePrepareSpec K storageName prepare =
     (let fromImage = TrimSpace (prep_FromImage prepare);
          fromStorageName = ToLower (TrimSpace (prep_FromStorageName prepare));
          commandCount = countNonEmpty (prep_Command prepare);
          argsCount = countNonEmpty (prep_Args prepare)
      in if fromImage \<noteq> [] \<and> fromStorageName \<noteq> []
         then Inl (ErrorText (msg ''prepare.fromImage and prepare.fromStorageName are mutually exclusive''))
         else if fromStorageName \<noteq> [] \<and> IsDNS1123Subdomain K fromStorageName \<noteq> []
         then Inl (ErrorText (''prepare.fromStorageName %q is invalid: %s'',
                [FS fromStorageName, FS (join '', '' (IsDNS1123Subdomain K fromStorageName))]))
         else if fromStorageName \<noteq> [] \<and> fromStorageName = storageName
         then Inl (ErrorText (msg ''prepare.fromStorageName cannot point to the same storage object''))
         else if fromStorageName \<noteq> [] \<and> (commandCount > 0 \<or> argsCount > 0)
         then Inl (ErrorText (msg ''prepare.command and prepare.args are not supported with prepare.fromStorageName''))
         else if fromImage = [] \<and> (commandCount > 0 \<or> argsCount > 0)
         then Inl (ErrorText (msg ''prepare.command and prepare.args require prepare.fromImage''))
         else if fromImage \<noteq> [] \<and> commandCount = 0 \<and> argsCount = 0
         then Inl (ErrorText (msg ''prepare.command or prepare.args is required when prepare.fromImage is set''))
         else Inr ())"

definition recoveryPhaseForPrepare :: "GPUStorage \<Rightarrow> string \<Rightarrow> string" where
  "recoveryPhaseForPrepare s phase =
     (if isZeroControllerGPUStoragePrepare (sspec_Prepare (stor_Spec s)) then StorageRecoveryPhaseNone
      else
        let requested = TrimSpace (recovery_nonce s) \<noteq> []
        in if phase = StoragePreparePhaseFailed then StorageRecoveryPhaseRequired
           else if phase = StoragePreparePhasePending \<or> phase = StoragePreparePhaseRunning
           then (if requested then StorageRecoveryPhaseRunning else StorageRecoveryPhaseNone)
           else if phase = StoragePreparePhaseSucceeded
           then (if requested then StorageRecoveryPhaseSucceeded else StorageRecoveryPhaseNone)
           else StorageRecoveryPhaseNone)"

definition storagePrepareSucceededProgress :: "GPUStorage \<Rightarrow> storagePrepareProgress \<Rightarrow> storagePrepareProgress" where
  "storagePrepareSucceededProgress s progress =
     progress\<lparr>pp_Phase := StoragePreparePhaseSucceeded, pp_Reason := ReasonStoragePrepareReady,
       pp_Message := StatusMessageStoragePrepared, pp_Ready := True,
       pp_RecoveryPhase := recoveryPhaseForPrepare s StoragePreparePhaseSucceeded\<rparr>"

fun job_failed_condition :: "JobCondition list \<Rightarrow> string" where
  "job_failed_condition [] = []"
| "job_failed_condition (cond # conds) =
     (if jc_Status cond = ConditionTrue \<and> jc_Type cond = ''Failed'' \<and> firstNonEmpty [jc_Message cond, jc_Reason cond] \<noteq> []
      then firstNonEmpty [jc_Message cond, jc_Reason cond] else job_failed_condition conds)"

definition jobFailureMessage :: "'q Job \<Rightarrow> string" where
  "jobFailureMessage job =
     (if job_failed_condition (job_Conditions job) \<noteq> [] then job_failed_condition (job_Conditions job)
      else if job_Failed job > 0 then ''storage prepare job failed'' else [])"

definition storagePrepareProgressFromJob :: "GPUStorage \<Rightarrow> storagePrepareProgress \<Rightarrow> 'q Job \<Rightarrow> storagePrepareProgress" where
  "storagePrepareProgressFromJob s progress job =
     (let progress =
            (if job_Succeeded job > 0 then storagePrepareSucceededProgress s progress
             else if job_Failed job > 0
             then progress\<lparr>pp_Phase := StoragePreparePhaseFailed, pp_Reason := ReasonStoragePrepareFailed,
                    pp_Message := firstNonEmpty [jobFailureMessage job, StatusMessageStoragePrepareFailed]\<rparr>
             else if job_Active job > 0
             then progress\<lparr>pp_Phase := StoragePreparePhaseRunning, pp_Reason := ReasonStoragePrepareRunning,
                    pp_Message := StatusMessageStoragePrepareRunning\<rparr>
             else progress\<lparr>pp_Phase := StoragePreparePhasePending, pp_Reason := ReasonStoragePreparePending,
                    pp_Message := StatusMessageStoragePreparePending\<rparr>)
      in progress\<lparr>pp_RecoveryPhase := recoveryPhaseForPrepare s (pp_Phase progress)\<rparr>)"

definition newStorageAccessorProgress :: "string \<Rightarrow> string \<Rightarrow> string \<Rightarrow> string \<Rightarrow> string \<Rightarrow> bool \<Rightarrow> bool \<Rightarrow> storageAccessorProgress" where
  "newStorageAccessorProgress phase serviceName accessURL reason message ready changed = \<lparr>ap_Phase = phase,
     ap_ServiceName = serviceName, ap_AccessURL = accessURL, ap_Reason = reason, ap_Message = message, ap_Ready = ready,
     ap_Changed = changed\<rparr>"

definition storageAccessorDisabledProgress :: "bool \<Rightarrow> storageAccessorProgress" where
  "storageAccessorDisabledProgress changed = newStorageAccessorProgress StorageAccessorPhaseDisabled [] []
     ReasonStorageAccessorReady StatusMessageStorageAccessorDisabled True changed"

definition storageAccessorPendingProgress :: "bool \<Rightarrow> storageAccessorProgress" where
  "storageAccessorPendingProgress changed = newStorageAccessorProgress StorageAccessorPhasePending [] []
     ReasonStorageAccessorPending StatusMessageStorageAccessorPending False changed"

definition path_Join :: "string list \<Rightarrow> string" where
  "path_Join elems = (let elems = filter (\<lambda>e. e \<noteq> []) elems in if elems = [] then [] else Clean (join ''/'' elems))"

definition storageProxyBasePath :: "string \<Rightarrow> string \<Rightarrow> string" where
  "storageProxyBasePath namespace storageName = path_Join [DefaultStorageProxyPathPrefix, namespace, storageName]"

definition storageProxyPath :: "string \<Rightarrow> string \<Rightarrow> string" where
  "storageProxyPath namespace storageName = storageProxyBasePath namespace storageName @ ''/''"

definition storageAccessorURL :: "string \<Rightarrow> string \<Rightarrow> string \<Rightarrow> string" where
  "storageAccessorURL namespace serviceName storageName =
     ''http://'' @ serviceName @ ''.'' @ namespace @ ''.svc.cluster.local:'' @ FormatInt DefaultStorageAccessorPort 10
       @ storageProxyPath namespace storageName"

definition storageAccessorProgressFromDeployment :: "GPUStorage \<Rightarrow> string \<Rightarrow> int \<Rightarrow> bool \<Rightarrow> storageAccessorProgress" where
  "storageAccessorProgressFromDeployment s serviceName availableReplicas changed =
     (let accessURL = storageAccessorURL (meta_Namespace (stor_Meta s)) serviceName (meta_Name (stor_Meta s))
      in if availableReplicas > 0
         then newStorageAccessorProgress StorageAccessorPhaseReady serviceName accessURL ReasonStorageAccessorReady
                StatusMessageStorageAccessorReady True changed
         else newStorageAccessorProgress StorageAccessorPhasePending serviceName accessURL ReasonStorageAccessorPending
                StatusMessageStorageAccessorPending False changed)"

section \<open>The status of a storage\<close>

record storageReadyStatusInput =
  si_ClaimBound :: bool
  si_Prepare :: storagePrepareProgress
  si_Accessor :: storageAccessorProgress
  si_AccessorEnabled :: bool

record storageReadyStatusDecision =
  sd_Phase :: string
  sd_Ready :: conditionDecision

definition storagePrepareConditionByPhase :: "conditionDecision smap" where
  "storagePrepareConditionByPhase =
     [(StoragePreparePhaseNotRequested, \<lparr>cd_Status = ConditionTrue, cd_Reason = ReasonStoragePrepareReady, cd_Message = StatusMessageStoragePrepared\<rparr>),
      (StoragePreparePhasePending, \<lparr>cd_Status = ConditionFalse, cd_Reason = ReasonStoragePreparePending, cd_Message = StatusMessageStoragePreparePending\<rparr>),
      (StoragePreparePhaseRunning, \<lparr>cd_Status = ConditionFalse, cd_Reason = ReasonStoragePrepareRunning, cd_Message = StatusMessageStoragePrepareRunning\<rparr>),
      (StoragePreparePhaseSucceeded, \<lparr>cd_Status = ConditionTrue, cd_Reason = ReasonStoragePrepareReady, cd_Message = StatusMessageStoragePrepared\<rparr>),
      (StoragePreparePhaseFailed, \<lparr>cd_Status = ConditionFalse, cd_Reason = ReasonStoragePrepareFailed, cd_Message = StatusMessageStoragePrepareFailed\<rparr>)]"

definition storageAccessorConditionByPhase :: "conditionDecision smap" where
  "storageAccessorConditionByPhase =
     [(StorageAccessorPhaseDisabled, \<lparr>cd_Status = ConditionTrue, cd_Reason = ReasonStorageAccessorReady, cd_Message = StatusMessageStorageAccessorDisabled\<rparr>),
      (StorageAccessorPhasePending, \<lparr>cd_Status = ConditionFalse, cd_Reason = ReasonStorageAccessorPending, cd_Message = StatusMessageStorageAccessorPending\<rparr>),
      (StorageAccessorPhaseReady, \<lparr>cd_Status = ConditionTrue, cd_Reason = ReasonStorageAccessorReady, cd_Message = StatusMessageStorageAccessorReady\<rparr>),
      (StorageAccessorPhaseFailed, \<lparr>cd_Status = ConditionFalse, cd_Reason = ReasonStorageAccessorFailed, cd_Message = []\<rparr>)]"

definition storageReadyStatusRules :: "(storageReadyStatusInput, storageReadyStatusDecision) statusRule list" where
  "storageReadyStatusRules =
     [\<lparr>rule_Match = (\<lambda>i. \<not> si_ClaimBound i),
       rule_Build = (\<lambda>i. \<lparr>sd_Phase = StoragePhasePending, sd_Ready = \<lparr>cd_Status = ConditionFalse, cd_Reason = ReasonStoragePending,
         cd_Message = StatusMessageStoragePending\<rparr>\<rparr>)\<rparr>,
      \<lparr>rule_Match = (\<lambda>i. pp_Phase (si_Prepare i) = StoragePreparePhaseFailed),
       rule_Build = (\<lambda>i. \<lparr>sd_Phase = StoragePhaseFailed, sd_Ready = \<lparr>cd_Status = ConditionFalse,
         cd_Reason = firstNonEmpty [pp_Reason (si_Prepare i), ReasonStoragePrepareFailed],
         cd_Message = firstNonEmpty [pp_Message (si_Prepare i), StatusMessageStoragePrepareFailed]\<rparr>\<rparr>)\<rparr>,
      \<lparr>rule_Match = (\<lambda>i. si_AccessorEnabled i \<and> ap_Phase (si_Accessor i) = StorageAccessorPhaseFailed),
       rule_Build = (\<lambda>i. \<lparr>sd_Phase = StoragePhaseFailed, sd_Ready = \<lparr>cd_Status = ConditionFalse,
         cd_Reason = firstNonEmpty [ap_Reason (si_Accessor i), ReasonStorageAccessorFailed],
         cd_Message = ap_Message (si_Accessor i)\<rparr>\<rparr>)\<rparr>,
      \<lparr>rule_Match = (\<lambda>i. \<not> pp_Ready (si_Prepare i)),
       rule_Build = (\<lambda>i. \<lparr>sd_Phase = StoragePhasePending, sd_Ready = \<lparr>cd_Status = ConditionFalse, cd_Reason = pp_Reason (si_Prepare i),
         cd_Message = pp_Message (si_Prepare i)\<rparr>\<rparr>)\<rparr>,
      \<lparr>rule_Match = (\<lambda>i. si_AccessorEnabled i \<and> \<not> ap_Ready (si_Accessor i)),
       rule_Build = (\<lambda>i. \<lparr>sd_Phase = StoragePhasePending, sd_Ready = \<lparr>cd_Status = ConditionFalse, cd_Reason = ap_Reason (si_Accessor i),
         cd_Message = ap_Message (si_Accessor i)\<rparr>\<rparr>)\<rparr>]"

definition defaultStorageReadyStatusDecision :: "storageReadyStatusInput \<Rightarrow> storageReadyStatusDecision" where
  "defaultStorageReadyStatusDecision i = \<lparr>sd_Phase = StoragePhaseReady,
     sd_Ready = \<lparr>cd_Status = ConditionTrue, cd_Reason = ReasonStorageReady, cd_Message = StatusMessageStorageReady\<rparr>\<rparr>"

definition buildStoragePrepareCondition :: "int \<Rightarrow> storagePrepareProgress \<Rightarrow> Condition" where
  "buildStoragePrepareCondition generation p = statusConditionFromDecision ConditionPrepared generation
     (decision_for storagePrepareConditionByPhase StoragePreparePhasePending (pp_Phase p) (pp_Reason p) (pp_Message p))"

definition buildStorageAccessorCondition :: "int \<Rightarrow> storageAccessorProgress \<Rightarrow> Condition" where
  "buildStorageAccessorCondition generation p = statusConditionFromDecision ConditionAccessorReady generation
     (decision_for storageAccessorConditionByPhase StorageAccessorPhasePending (ap_Phase p) (ap_Reason p) (ap_Message p))"

definition isGPUStorageClaimBound :: "'q PersistentVolumeClaim option \<Rightarrow> bool" where
  "isGPUStorageClaimBound pvc = (case pvc of None \<Rightarrow> False | Some c \<Rightarrow> pvc_Phase c = ''Bound'')"

definition buildGPUStorageStatus :: "'q k8s \<Rightarrow> gotime \<Rightarrow> int \<Rightarrow> GPUStorage \<Rightarrow> 'q PersistentVolumeClaim option
    \<Rightarrow> storagePrepareProgress \<Rightarrow> storageAccessorProgress \<Rightarrow> GPUStorageStatus" where
  "buildGPUStorageStatus K now generation s pvc prepare accessor =
     (let name = meta_Name (stor_Meta s);
          decision = resolveStatusRule \<lparr>si_ClaimBound = isGPUStorageClaimBound pvc, si_Prepare = prepare, si_Accessor = accessor,
            si_AccessorEnabled = ax_Enabled (sspec_Accessor (stor_Spec s))\<rparr> storageReadyStatusRules defaultStorageReadyStatusDecision
      in \<lparr>sst_ClaimName = (case pvc of None \<Rightarrow> firstNonEmpty [name] | Some c \<Rightarrow> firstNonEmpty [meta_Name (pvc_Meta c), name]),
          sst_Capacity = (case pvc of None \<Rightarrow> [] | Some c \<Rightarrow>
            (case map_of (pvc_Capacity c) ''storage'' of None \<Rightarrow> [] | Some q \<Rightarrow> qty_String K q)),
          sst_Phase = sd_Phase decision,
          sst_Prepare = \<lparr>prepst_Phase = pp_Phase prepare, prepst_JobName = pp_JobName prepare,
            prepst_ObservedDigest = pp_Digest prepare, prepst_RecoveryPhase = pp_RecoveryPhase prepare\<rparr>,
          sst_Accessor = \<lparr>axst_Phase = ap_Phase accessor, axst_ServiceName = ap_ServiceName accessor,
            axst_AccessURL = ap_AccessURL accessor\<rparr>,
          sst_ObservedGeneration = generation, sst_LastSyncTime = now,
          sst_Conditions = SetStatusCondition K now (buildStorageAccessorCondition generation accessor)
            (SetStatusCondition K now (buildStoragePrepareCondition generation prepare)
              (SetStatusCondition K now (statusConditionFromDecision ConditionReady generation (sd_Ready decision)) []))\<rparr>)"

section \<open>Writing the status\<close>

definition normalizeGPUStorageStatusForCompare :: "GPUStorageStatus \<Rightarrow> GPUStorageStatus \<times> GPUStorageStatus" where
  "normalizeGPUStorageStatusForCompare status =
     (let conditions = clear_transitions (sst_Conditions status)
      in (status\<lparr>sst_LastSyncTime := 0, sst_Conditions := conditions\<rparr>, status\<lparr>sst_Conditions := conditions\<rparr>))"

definition gpuStorageStatusEqual :: "GPUStorageStatus \<Rightarrow> GPUStorageStatus \<Rightarrow> bool \<times> GPUStorageStatus \<times> GPUStorageStatus" where
  "gpuStorageStatusEqual a b =
     (let (aa, a) = normalizeGPUStorageStatusForCompare a; (bb, b) = normalizeGPUStorageStatusForCompare b
      in (aa = bb, a, b))"

definition updateGPUStorageStatus ::
    "(GPUStorage \<Rightarrow> ('w, unit) call) \<Rightarrow> GPUStorage \<Rightarrow> GPUStorageStatus \<Rightarrow> ('w, GPUStorage) call" where
  "updateGPUStorageStatus write s next =
     (let (same, old, next) = gpuStorageStatusEqual (stor_Status s) next
      in if same then returnC (s\<lparr>stor_Status := old\<rparr>)
         else bindC (write (s\<lparr>stor_Status := next\<rparr>)) (\<lambda>_. returnC (s\<lparr>stor_Status := next\<rparr>)))"

definition failed_storage_status :: "'q k8s \<Rightarrow> gotime \<Rightarrow> int \<Rightarrow> GPUStorage \<Rightarrow> string \<Rightarrow> string \<Rightarrow> GPUStorageStatus" where
  "failed_storage_status K now generation s reason message =
     zero_storage_status\<lparr>sst_ClaimName := meta_Name (stor_Meta s), sst_Phase := StoragePhaseFailed,
       sst_ObservedGeneration := generation, sst_LastSyncTime := now, sst_Prepare := sst_Prepare (stor_Status s),
       sst_Accessor := sst_Accessor (stor_Status s),
       sst_Conditions := SetStatusCondition K now (statusConditionFromDecision ConditionReady generation
         \<lparr>cd_Status = ConditionFalse, cd_Reason = reason, cd_Message = message\<rparr>) []\<rparr>"

definition markStorageFailed :: "'q k8s \<Rightarrow> gotime \<Rightarrow> int \<Rightarrow> (GPUStorage \<Rightarrow> ('w, unit) call) \<Rightarrow> GPUStorage \<Rightarrow> string \<Rightarrow> string
    \<Rightarrow> ('w, GPUStorage) call" where
  "markStorageFailed K now generation write s reason message =
     updateGPUStorageStatus write s (failed_storage_status K now generation s reason message)"

end
