(* ===== verification/Controller_Storage.thy ===== *)
theory Controller_Storage
  imports Storage_Status
begin

text \<open>
  The storage controller (\<^verbatim>\<open>internal/controller/gpustorage_controller.go\<close> and the desired objects of
  \<^verbatim>\<open>storage_runtime_helpers.go\<close>): the claim, the prepare job, the accessor, and the reconciliation that ties them
  together. The Kubernetes client is the record \<open>StorageCluster\<close> of calls.
\<close>

section \<open>The cluster\<close>

record ('w, 'q) StorageCluster =
  stc_Storages :: "('w, GPUStorage) ResourceClient"
  stc_WriteStatus :: "GPUStorage \<Rightarrow> ('w, unit) call"
  stc_PVCs :: "('w, 'q PersistentVolumeClaim) ResourceClient"
  stc_Jobs :: "('w, 'q Job) ResourceClient"
  stc_Deployments :: "('w, 'q Deployment) ResourceClient"
  stc_Services :: "('w, KubeService) ResourceClient"
  stc_SetOwner :: "ObjectMeta \<Rightarrow> ObjectMeta \<Rightarrow> ObjectMeta res"

text \<open>Everything else a run depends on.\<close>

record 'q StorageEnv =
  ste_K :: "'q k8s"
  ste_ErrText :: "error \<Rightarrow> string"
  ste_Digest :: "GPUStoragePrepareSpec \<Rightarrow> string \<Rightarrow> string res"

abbreviation stor_ns :: "GPUStorage \<Rightarrow> string" where
  "stor_ns s \<equiv> meta_Namespace (stor_Meta s)"

abbreviation stor_name :: "GPUStorage \<Rightarrow> string" where
  "stor_name s \<equiv> meta_Name (stor_Meta s)"

section \<open>Desired objects\<close>

definition storageOwnedLabels :: "string \<Rightarrow> string smap" where
  "storageOwnedLabels storageName = [(LabelAppNameKey, LabelAppNameValue), (LabelManagedByKey, LabelManagedByValue),
     (LabelStorageKey, storageName)]"

definition resolvedGPUStorageClassName :: "string \<Rightarrow> string" where
  "resolvedGPUStorageClassName raw = (if raw = [] then DefaultGPUStorageClassName else raw)"

definition desiredGPUStoragePVC :: "'q k8s \<Rightarrow> GPUStorage \<Rightarrow> 'q PersistentVolumeClaim res" where
  "desiredGPUStoragePVC K s =
     andThen (ParseQuantity K (sspec_Size (stor_Spec s))) (\<lambda>qty. Inr
       \<lparr>pvc_Meta = \<lparr>meta_Name = stor_name s, meta_Namespace = stor_ns s, meta_Labels = storageOwnedLabels (stor_name s),
          meta_Annotations = []\<rparr>,
        pvc_AccessModes = [''ReadWriteOnce''], pvc_Requests = [(''storage'', qty)],
        pvc_StorageClassName = Some (resolvedGPUStorageClassName (sspec_StorageClassName (stor_Spec s))),
        pvc_Phase = [], pvc_Capacity = []\<rparr>)"

definition workspace_mount :: "string \<Rightarrow> bool \<Rightarrow> VolumeMount" where
  "workspace_mount path readOnly = \<lparr>vm_Name = ''workspace'', vm_MountPath = path, vm_ReadOnly = readOnly\<rparr>"

definition copy_script :: string where
  "copy_script = ''mkdir -p '' @ StoragePrepareMountPath @ '' && if [ -d '' @ StoragePrepareSourceMountPath
     @ '' ] && [ '' @ [CHR 0x22] @ ''$(ls -A '' @ StoragePrepareSourceMountPath @ '' 2>/dev/null)'' @ [CHR 0x22]
     @ '' ]; then cp -a '' @ StoragePrepareSourceMountPath @ ''/. '' @ StoragePrepareMountPath @ ''/; fi''"

definition desiredGPUStoragePrepareJob :: "GPUStorage \<Rightarrow> string \<Rightarrow> string \<Rightarrow> string \<Rightarrow> 'q Job" where
  "desiredGPUStoragePrepareJob s jobName targetClaimName sourceClaimName =
     (let prepare = sspec_Prepare (stor_Spec s);
          labels = map_put ''runtime.lokiwager.io/storage-prepare'' (stor_name s) (storageOwnedLabels (stor_name s));
          container = zero_container\<lparr>c_Name := ''storage-prepare'', c_ImagePullPolicy := ''IfNotPresent'',
            c_SecurityContext := Some restrictedContainerSecurityContext,
            c_VolumeMounts := [workspace_mount StoragePrepareMountPath False]\<rparr>;
          volumes = [\<lparr>v_Name = ''workspace'', v_Source = ClaimVolume targetClaimName False\<rparr>];
          (container, volumes) =
            (if prep_FromStorageName prepare \<noteq> []
             then (container\<lparr>c_Image := DefaultStoragePrepareCopyImage, c_Command := [''sh'', ''-c''], c_Args := [copy_script],
                     c_VolumeMounts := c_VolumeMounts container
                       @ [\<lparr>vm_Name = ''source'', vm_MountPath = StoragePrepareSourceMountPath, vm_ReadOnly = True\<rparr>]\<rparr>,
                   volumes @ [\<lparr>v_Name = ''source'', v_Source = ClaimVolume sourceClaimName True\<rparr>])
             else (container\<lparr>c_Image := prep_FromImage prepare, c_Command := prep_Command prepare, c_Args := prep_Args prepare\<rparr>, volumes))
      in \<lparr>job_Meta = \<lparr>meta_Name = jobName, meta_Namespace = stor_ns s, meta_Labels = labels, meta_Annotations = []\<rparr>,
          job_BackoffLimit = Some 0, job_TTLSecondsAfterFinished = Some 300,
          job_Template = \<lparr>pt_Labels = labels, pt_Spec = \<lparr>ps_RestartPolicy = ''Never'', ps_Containers = [container],
            ps_InitContainers = [], ps_Volumes = volumes, ps_ResourceClaims = []\<rparr>\<rparr>,
          job_Succeeded = 0, job_Failed = 0, job_Active = 0, job_Conditions = []\<rparr>)"

abbreviation accessor_label :: "string \<Rightarrow> string smap" where
  "accessor_label n \<equiv> [(''runtime.lokiwager.io/storage-accessor'', n)]"

definition accessor_labels :: "GPUStorage \<Rightarrow> string smap" where
  "accessor_labels s = map_put ''runtime.lokiwager.io/storage-accessor'' (stor_name s) (storageOwnedLabels (stor_name s))"

definition desiredGPUStorageAccessorDeployment :: "GPUStorage \<Rightarrow> string \<Rightarrow> 'q Deployment" where
  "desiredGPUStorageAccessorDeployment s claimName =
     (let labels = accessor_labels s;
          container = zero_container\<lparr>c_Name := StorageAccessorContainerName, c_Image := DefaultStorageAccessorImage,
            c_ImagePullPolicy := ''IfNotPresent'', c_SecurityContext := Some restrictedContainerSecurityContext,
            c_Command := [''dufs''],
            c_Args := [''/data'', ''--bind'', ''0.0.0.0'', ''--port'', FormatInt DefaultStorageAccessorPort 10, ''--path-prefix'',
              storageProxyBasePath (stor_ns s) (stor_name s), ''--allow-search'', ''--allow-archive''],
            c_Ports := [\<lparr>cp_Name = ''http'', cp_ContainerPort = DefaultStorageAccessorPort, cp_Protocol = ''TCP''\<rparr>],
            c_VolumeMounts := [workspace_mount ''/data'' True]\<rparr>
      in \<lparr>dep_Meta = \<lparr>meta_Name = storageAccessorDeploymentName (stor_name s), meta_Namespace = stor_ns s, meta_Labels = labels,
            meta_Annotations = []\<rparr>,
          dep_Replicas = Some 1, dep_Selector = accessor_label (stor_name s),
          dep_Template = \<lparr>pt_Labels = labels, pt_Spec = \<lparr>ps_RestartPolicy = ''Always'', ps_Containers = [container],
            ps_InitContainers = [], ps_Volumes = [\<lparr>v_Name = ''workspace'', v_Source = ClaimVolume claimName True\<rparr>],
            ps_ResourceClaims = []\<rparr>\<rparr>,
          dep_AvailableReplicas = 0\<rparr>)"

definition desiredGPUStorageAccessorService :: "GPUStorage \<Rightarrow> KubeService" where
  "desiredGPUStorageAccessorService s =
     \<lparr>ks_Meta = \<lparr>meta_Name = storageAccessorServiceName (stor_name s), meta_Namespace = stor_ns s,
        meta_Labels = accessor_labels s, meta_Annotations = []\<rparr>,
      ks_Type = ''ClusterIP'', ks_Selector = accessor_label (stor_name s),
      ks_Ports = [\<lparr>sp_PortName = ''http'', sp_Port = DefaultStorageAccessorPort, sp_TargetPort = DefaultStorageAccessorPort,
        sp_Protocol = ''TCP''\<rparr>]\<rparr>"

section \<open>Bringing objects in line\<close>

definition set_labels :: "ObjectMeta \<Rightarrow> string smap \<Rightarrow> ObjectMeta \<times> bool" where
  "set_labels m desired = (let (labels, changed) = ensureStringMapValues (meta_Labels m) desired
     in (if changed then m\<lparr>meta_Labels := labels\<rparr> else m, changed))"

text \<open>A missing quantity reads as the zero quantity.\<close>

definition qty_of :: "'q k8s \<Rightarrow> 'q smap \<Rightarrow> string \<Rightarrow> 'q" where
  "qty_of K m k = (case map_of m k of None \<Rightarrow> qty_Zero K | Some q \<Rightarrow> q)"

definition syncGPUStoragePVC :: "'q k8s \<Rightarrow> 'q PersistentVolumeClaim \<Rightarrow> 'q PersistentVolumeClaim \<Rightarrow> 'q PersistentVolumeClaim \<times> bool" where
  "syncGPUStoragePVC K current desired =
     (let (m, c1) = set_labels (pvc_Meta current) (meta_Labels (pvc_Meta desired));
          current = current\<lparr>pvc_Meta := m\<rparr>;
          c2 = (pvc_AccessModes current \<noteq> pvc_AccessModes desired);
          current = (if c2 then current\<lparr>pvc_AccessModes := pvc_AccessModes desired\<rparr> else current);
          desiredQty = qty_of K (pvc_Requests desired) ''storage'';
          c3 = (qty_Cmp K (qty_of K (pvc_Requests current) ''storage'') desiredQty \<noteq> 0);
          current = (if c3 then current\<lparr>pvc_Requests := map_put ''storage'' desiredQty (pvc_Requests current)\<rparr> else current);
          desiredClass = (case pvc_StorageClassName desired of None \<Rightarrow> [] | Some n \<Rightarrow> n);
          c4 = (pvc_StorageClassName current \<noteq> Some desiredClass);
          current = (if c4 then current\<lparr>pvc_StorageClassName := Some desiredClass\<rparr> else current)
      in (current, c1 \<or> c2 \<or> c3 \<or> c4))"

definition syncGPUStorageAccessorService :: "KubeService \<Rightarrow> KubeService \<Rightarrow> KubeService \<times> bool" where
  "syncGPUStorageAccessorService current desired =
     (let (m, c1) = set_labels (ks_Meta current) (meta_Labels (ks_Meta desired));
          c2 = (ks_Type current \<noteq> ks_Type desired);
          c3 = (ks_Ports current \<noteq> ks_Ports desired);
          (selector, c4) = replaceStringMap (ks_Selector current) (ks_Selector desired)
      in (current\<lparr>ks_Meta := m, ks_Type := ks_Type desired, ks_Ports := ks_Ports desired, ks_Selector := selector\<rparr>,
          c1 \<or> c2 \<or> c3 \<or> c4))"

definition syncGPUStorageAccessorDeployment :: "'q Deployment \<Rightarrow> 'q Deployment \<Rightarrow> 'q Deployment \<times> bool" where
  "syncGPUStorageAccessorDeployment current desired =
     (let (m, c1) = set_labels (dep_Meta current) (meta_Labels (dep_Meta desired));
          desiredReplicas = (case dep_Replicas desired of None \<Rightarrow> 1 | Some r \<Rightarrow> r);
          c2 = (dep_Replicas current \<noteq> Some desiredReplicas);
          (selector, c3) = replaceStringMap (dep_Selector current) (dep_Selector desired);
          (labels, c4) = replaceStringMap (pt_Labels (dep_Template current)) (pt_Labels (dep_Template desired));
          c5 = (pt_Spec (dep_Template current) \<noteq> pt_Spec (dep_Template desired))
      in (current\<lparr>dep_Meta := m, dep_Replicas := Some desiredReplicas, dep_Selector := selector,
            dep_Template := \<lparr>pt_Labels = labels, pt_Spec = pt_Spec (dep_Template desired)\<rparr>\<rparr>,
          c1 \<or> c2 \<or> c3 \<or> c4 \<or> c5))"

text \<open>Read an object, create the desired one with its owner when it is missing, otherwise bring it in line and write it
  if that changed it: the shape of the four \<^verbatim>\<open>reconcile...\<close> methods.\<close>

definition reconcile_object :: "('w, 'o) ResourceClient \<Rightarrow> ('o \<Rightarrow> ObjectMeta) \<Rightarrow> ('o \<Rightarrow> ('w, 'o) call) \<Rightarrow> ('o \<Rightarrow> 'o \<Rightarrow> 'o \<times> bool)
    \<Rightarrow> 'o \<Rightarrow> ('w, 'o \<times> bool) call" where
  "reconcile_object C meta own sync desired =
     bindC (tryC (rs_Get C (meta_Namespace (meta desired)) (meta_Name (meta desired)))) (\<lambda>r. case r of
       Inl e \<Rightarrow> if \<not> IsNotFound e then failC e
                else bindC (own desired) (\<lambda>desired. bindC (rs_Create C desired) (\<lambda>_. returnC (desired, True)))
     | Inr current \<Rightarrow>
         let (current, changed) = sync current desired
         in if changed then bindC (rs_Update C current) (\<lambda>_. returnC (current, True)) else returnC (current, False))"

definition own_with :: "(ObjectMeta \<Rightarrow> ObjectMeta \<Rightarrow> ObjectMeta res) \<Rightarrow> ObjectMeta \<Rightarrow> ('o \<Rightarrow> ObjectMeta) \<Rightarrow> (ObjectMeta \<Rightarrow> 'o \<Rightarrow> 'o) \<Rightarrow> 'o \<Rightarrow> ('w, 'o) call" where
  "own_with setOwner owner meta set_meta ob = bindC (liftC (setOwner owner (meta ob))) (\<lambda>m. returnC (set_meta m ob))"

definition reconcileGPUStoragePVC :: "'q StorageEnv \<Rightarrow> ('w, 'q) StorageCluster \<Rightarrow> GPUStorage \<Rightarrow> ('w, 'q PersistentVolumeClaim \<times> bool) call" where
  "reconcileGPUStoragePVC E S s =
     bindC (liftC (desiredGPUStoragePVC (ste_K E) s)) (\<lambda>desired.
       reconcile_object (stc_PVCs S) pvc_Meta (own_with (stc_SetOwner S) (stor_Meta s) pvc_Meta (\<lambda>m ob. ob\<lparr>pvc_Meta := m\<rparr>)) (syncGPUStoragePVC (ste_K E)) desired)"

definition reconcileGPUStorageAccessorService :: "('w, 'q) StorageCluster \<Rightarrow> GPUStorage \<Rightarrow> KubeService \<Rightarrow> ('w, bool) call" where
  "reconcileGPUStorageAccessorService S s desired =
     bindC (reconcile_object (stc_Services S) ks_Meta (own_with (stc_SetOwner S) (stor_Meta s) ks_Meta (\<lambda>m ob. ob\<lparr>ks_Meta := m\<rparr>))
       syncGPUStorageAccessorService desired) (\<lambda>(_, changed). returnC changed)"

definition reconcileGPUStorageAccessorDeployment :: "('w, 'q) StorageCluster \<Rightarrow> GPUStorage \<Rightarrow> 'q Deployment \<Rightarrow> ('w, 'q Deployment \<times> bool) call" where
  "reconcileGPUStorageAccessorDeployment S s desired =
     reconcile_object (stc_Deployments S) dep_Meta (own_with (stc_SetOwner S) (stor_Meta s) dep_Meta (\<lambda>m ob. ob\<lparr>dep_Meta := m\<rparr>))
       syncGPUStorageAccessorDeployment desired"

section \<open>Preparation\<close>

definition resolveGPUStoragePrepareSource :: "('w, 'q) StorageCluster \<Rightarrow> GPUStorage \<Rightarrow> storagePrepareProgress
    \<Rightarrow> ('w, string \<times> storagePrepareProgress \<times> bool) call" where
  "resolveGPUStoragePrepareSource S s progress =
     (let from = prep_FromStorageName (sspec_Prepare (stor_Spec s))
      in if from = [] then returnC ([], progress, False)
         else bindC (tryC (rs_Get (stc_Storages S) (stor_ns s) from)) (\<lambda>r. case r of
           Inl e \<Rightarrow> if IsNotFound e
                    then returnC ([], progress\<lparr>pp_Message := ''Waiting for source storage '' @ from @ '' to exist.''\<rparr>, True)
                    else failC e
         | Inr source \<Rightarrow>
             if sst_Phase (stor_Status source) \<noteq> StoragePhaseReady
             then returnC ([], progress\<lparr>pp_Message := ''Waiting for source storage '' @ stor_name source @ '' to become ready.''\<rparr>, True)
             else returnC (firstNonEmpty [sst_ClaimName (stor_Status source), stor_name source], progress, False)))"

definition reconcileGPUStoragePrepareJobState :: "('w, 'q) StorageCluster \<Rightarrow> GPUStorage \<Rightarrow> 'q PersistentVolumeClaim \<Rightarrow> string
    \<Rightarrow> storagePrepareProgress \<Rightarrow> ('w, storagePrepareProgress) call" where
  "reconcileGPUStoragePrepareJobState S s pvc sourceClaimName progress =
     bindC (tryC (rs_Get (stc_Jobs S) (stor_ns s) (pp_JobName progress))) (\<lambda>r. case r of
       Inr job \<Rightarrow> returnC (storagePrepareProgressFromJob s progress job)
     | Inl e \<Rightarrow>
         if \<not> IsNotFound e then failC e
         else if prepst_ObservedDigest (sst_Prepare (stor_Status s)) = pp_Digest progress
                \<and> prepst_Phase (sst_Prepare (stor_Status s)) = StoragePreparePhaseSucceeded
         then returnC (storagePrepareSucceededProgress s progress)
         else
           let newJob = desiredGPUStoragePrepareJob s (pp_JobName progress) (firstNonEmpty [meta_Name (pvc_Meta pvc), stor_name s]) sourceClaimName
           in bindC (own_with (stc_SetOwner S) (stor_Meta s) job_Meta (\<lambda>m ob. ob\<lparr>job_Meta := m\<rparr>) newJob) (\<lambda>newJob.
              bindC (rs_Create (stc_Jobs S) newJob) (\<lambda>_.
                returnC (progress\<lparr>pp_Changed := True, pp_RecoveryPhase := recoveryPhaseForPrepare s (pp_Phase progress)\<rparr>))))"

definition reconcileGPUStoragePrepare :: "'q StorageEnv \<Rightarrow> ('w, 'q) StorageCluster \<Rightarrow> GPUStorage \<Rightarrow> 'q PersistentVolumeClaim
    \<Rightarrow> ('w, storagePrepareProgress) call" where
  "reconcileGPUStoragePrepare E S s pvc =
     bindC (liftC (validateGPUStoragePrepareSpec (ste_K E) (stor_name s) (sspec_Prepare (stor_Spec s)))) (\<lambda>_.
     if isZeroControllerGPUStoragePrepare (sspec_Prepare (stor_Spec s)) then returnC storagePrepareNotRequestedProgress
     else if \<not> isGPUStorageClaimBound (Some pvc) then returnC storagePreparePVCWaitingProgress
     else bindC (liftC (newStoragePrepareJobProgress (ste_Digest E) s)) (\<lambda>progress.
          bindC (resolveGPUStoragePrepareSource S s progress) (\<lambda>(sourceClaimName, waitProgress, waiting).
            if waiting then returnC waitProgress
            else reconcileGPUStoragePrepareJobState S s pvc sourceClaimName progress)))"

section \<open>Accessor\<close>

definition delete_if_present :: "('w, 'o) ResourceClient \<Rightarrow> string \<Rightarrow> string \<Rightarrow> ('w, bool) call" where
  "delete_if_present C namespace name =
     bindC (tryC (rs_Get C namespace name)) (\<lambda>r. case r of
       Inr ob \<Rightarrow> bindC (rs_Delete C ob) (\<lambda>_. returnC True)
     | Inl e \<Rightarrow> if IsNotFound e then returnC False else failC e)"

definition ensureGPUStorageAccessorAbsent :: "('w, 'q) StorageCluster \<Rightarrow> GPUStorage \<Rightarrow> ('w, bool) call" where
  "ensureGPUStorageAccessorAbsent S s =
     bindC (delete_if_present (stc_Deployments S) (stor_ns s) (storageAccessorDeploymentName (stor_name s))) (\<lambda>c1.
     bindC (delete_if_present (stc_Services S) (stor_ns s) (storageAccessorServiceName (stor_name s))) (\<lambda>c2.
       returnC (c1 \<or> c2)))"

definition reconcileAbsentGPUStorageAccessor :: "('w, 'q) StorageCluster \<Rightarrow> GPUStorage \<Rightarrow> (bool \<Rightarrow> storageAccessorProgress)
    \<Rightarrow> ('w, storageAccessorProgress) call" where
  "reconcileAbsentGPUStorageAccessor S s build = bindC (ensureGPUStorageAccessorAbsent S s) (\<lambda>changed. returnC (build changed))"

definition reconcileGPUStorageAccessor :: "('w, 'q) StorageCluster \<Rightarrow> GPUStorage \<Rightarrow> 'q PersistentVolumeClaim \<Rightarrow> storagePrepareProgress
    \<Rightarrow> ('w, storageAccessorProgress) call" where
  "reconcileGPUStorageAccessor S s pvc prepare =
     (if \<not> ax_Enabled (sspec_Accessor (stor_Spec s)) then reconcileAbsentGPUStorageAccessor S s storageAccessorDisabledProgress
      else if \<not> isGPUStorageClaimBound (Some pvc) \<or> \<not> pp_Ready prepare
      then reconcileAbsentGPUStorageAccessor S s storageAccessorPendingProgress
      else
        let service = desiredGPUStorageAccessorService s
        in bindC (reconcileGPUStorageAccessorService S s service) (\<lambda>serviceChanged.
           let deployment = desiredGPUStorageAccessorDeployment s (firstNonEmpty [meta_Name (pvc_Meta pvc), stor_name s])
           in bindC (reconcileGPUStorageAccessorDeployment S s deployment) (\<lambda>(current, deploymentChanged).
                returnC (storageAccessorProgressFromDeployment s (meta_Name (ks_Meta service)) (dep_AvailableReplicas current)
                  (serviceChanged \<or> deploymentChanged)))))"

section \<open>Reconciliation\<close>

datatype requeue = NoRequeue | RequeueAfterUpdate

text \<open>A failed step marks the storage as failed; whether the error is then returned, which makes the manager run the
  reconciliation again, differs between the steps.\<close>

definition mark_and :: "'q StorageEnv \<Rightarrow> ('w, 'q) StorageCluster \<Rightarrow> gotime \<Rightarrow> int \<Rightarrow> GPUStorage \<Rightarrow> string \<Rightarrow> error
    \<Rightarrow> ('w, requeue) call \<Rightarrow> ('w, requeue) call" where
  "mark_and E S now generation s reason e after =
     bindC (markStorageFailed (ste_K E) now generation (stc_WriteStatus S) s reason (ste_ErrText E e)) (\<lambda>_. after)"

definition Storage_Reconcile :: "'q StorageEnv \<Rightarrow> ('w, 'q) StorageCluster \<Rightarrow> gotime \<Rightarrow> int \<Rightarrow> string \<Rightarrow> string \<Rightarrow> ('w, requeue) call" where
  "Storage_Reconcile E S now generation namespace name =
     bindC (tryC (rs_Get (stc_Storages S) namespace name)) (\<lambda>r. case r of
       Inl e \<Rightarrow> if IsNotFound e then returnC NoRequeue else failC e
     | Inr s \<Rightarrow>
         bindC (tryC (reconcileGPUStoragePVC E S s)) (\<lambda>r. case r of
           Inl e \<Rightarrow> mark_and E S now generation s ReasonStoragePVCSyncFailed e (failC e)
         | Inr (pvc, pvcChanged) \<Rightarrow>
             bindC (tryC (reconcileGPUStoragePrepare E S s pvc)) (\<lambda>r. case r of
               Inl e \<Rightarrow> mark_and E S now generation s ReasonStorageInvalidSpec e (returnC NoRequeue)
             | Inr prepareProgress \<Rightarrow>
                 bindC (tryC (reconcileGPUStorageAccessor S s pvc prepareProgress)) (\<lambda>r. case r of
                   Inl e \<Rightarrow> mark_and E S now generation s ReasonStorageAccessorFailed e (failC e)
                 | Inr accessorProgress \<Rightarrow>
                     let next = buildGPUStorageStatus (ste_K E) now generation s (Some pvc) prepareProgress accessorProgress
                     in bindC (updateGPUStorageStatus (stc_WriteStatus S) s next) (\<lambda>_.
                          if pvcChanged \<or> pp_Changed prepareProgress \<or> ap_Changed accessorProgress \<or> sst_Phase next \<noteq> StoragePhaseReady
                          then returnC RequeueAfterUpdate else returnC NoRequeue)))))"

end
