(* ===== verification/Storage_Convergence.thy ===== *)
theory Storage_Convergence
  imports Controller_Storage
begin

text \<open>
  What a run of the storage controller leaves behind. The locale \<open>object_sync\<close> is the contract of the
  \<^verbatim>\<open>sync...\<close> functions, \<open>synced_store\<close> combines it with the laws of the API server: reconciling an owned object once
  makes the next run a read. The facts are then used for the claim, the accessor and the prepare job.
\<close>

section \<open>Owned objects settle\<close>

locale object_sync =
  fixes meta :: "'o \<Rightarrow> ObjectMeta" and sync :: "'o \<Rightarrow> 'o \<Rightarrow> 'o \<times> bool" and good :: "'o \<Rightarrow> bool"
  assumes sync_key: "obj_key meta (fst (sync current desired)) = obj_key meta current"
    and sync_settles: "good desired \<Longrightarrow> \<not> snd (sync (fst (sync current desired)) desired)"
    and sync_self: "good desired \<Longrightarrow> \<not> snd (sync desired desired)"
    and sync_same: "\<not> snd (sync current desired) \<Longrightarrow> fst (sync current desired) = current"
begin

definition settled :: "'o \<Rightarrow> 'o \<Rightarrow> bool" where
  "settled ob desired \<longleftrightarrow> obj_key meta ob = obj_key meta desired \<and> \<not> snd (sync ob desired)"

end

locale synced_store = resource_store C meta objs other + object_sync meta sync good
  for C :: "('w, 'o) ResourceClient" and meta objs and other :: "'w \<Rightarrow> 'x" and sync good +
  fixes own :: "'o \<Rightarrow> ('w, 'o) call"
  assumes own_keeps: "keeps objs (own ob)"
    and own_same: "own desired w = (Inr ob, w') \<Longrightarrow> ob = desired"
begin

lemma reconcile_settles:
  assumes run: "reconcile_object C meta own sync desired w = (Inr (ob, changed), w')" and good: "good desired"
  shows "ob \<in> set (objs w') \<and> settled ob desired \<and> (\<not> changed \<longrightarrow> objs w' = objs w)"
proof -
  obtain r v where get: "rs_Get C (meta_Namespace (meta desired)) (meta_Name (meta desired)) w = (r, v)" by fastforce
  have v: "objs v = objs w" using keepsD [OF read_keeps(2) get] .
  show ?thesis
  proof (cases r)
    case (Inl e)
    with run get obtain own_ob u where o: "own desired v = (Inr own_ob, u)" "rs_Create C own_ob u = (Inr (), w')"
      and e: "ob = own_ob" "changed"
      by (auto simp: reconcile_object_def tryC_def bindC_def split: if_splits prod.splits sum.splits)
    then show ?thesis using create_set [OF o(2)] own_same [OF o(1)] sync_self [OF good] by (simp add: settled_def)
  next
    case (Inr current)
    then have cur: "current \<in> set (objs w)" "obj_key meta current = obj_key meta desired"
      using get_ok [of _ _ w current v] get by auto
    show ?thesis
    proof (cases "snd (sync current desired)")
      case True
      with run get Inr have u: "rs_Update C (fst (sync current desired)) v = (Inr (), w')"
        and ob: "ob = fst (sync current desired)" "changed"
        by (auto simp: reconcile_object_def tryC_def bindC_def split: if_splits prod.splits sum.splits)
      have key: "obj_key meta ob = obj_key meta desired" using sync_key cur(2) ob(1) by simp
      have "ob \<in> set (objs w')"
        using update_set [OF u] cur(1) v sync_key [of current desired] ob(1) by (force intro!: image_eqI)
      then show ?thesis using key sync_settles [OF good, of current] ob by (simp add: settled_def)
    next
      case False
      with run get Inr have "ob = fst (sync current desired)" "\<not> changed" "w' = v"
        by (auto simp: reconcile_object_def tryC_def bindC_def split: if_splits prod.splits sum.splits)
      then show ?thesis using cur v False sync_same [OF False] by (simp add: settled_def)
    qed
  qed
qed

lemma settled_is_read:
  assumes "ob \<in> set (objs w)" "settled ob desired"
    and "reconcile_object C meta own sync desired w = (r, w')"
  shows "objs w' = objs w \<and> (\<forall>x. r = Inr x \<longrightarrow> x = (ob, False))"
proof -
  obtain q v where get: "rs_Get C (meta_Namespace (meta desired)) (meta_Name (meta desired)) w = (q, v)" by fastforce
  have v: "objs v = objs w" using keepsD [OF read_keeps(2) get] .
  have key: "obj_key meta ob = obj_key meta desired" "\<not> snd (sync ob desired)" using assms(2) by (simp_all add: settled_def)
  show ?thesis
  proof (cases q)
    case (Inl e)
    have "obj_key meta desired \<in> obj_key meta ` set (objs w)" 
      using image_eqI [of "obj_key meta desired" "obj_key meta" ob "set (objs w)"] assms(1) key(1) by simp
    then have "\<not> IsNotFound e" using get_missing [of "meta_Namespace (meta desired)" "meta_Name (meta desired)" w e v] get Inl by blast
    with Inl get assms(3) v show ?thesis by (auto simp: reconcile_object_def tryC_def bindC_def)
  next
    case (Inr current)
    then have "current \<in> set (objs w)" "obj_key meta current = obj_key meta desired"
      using get_ok [of _ _ w current v] get by auto
    then have "current = ob" using key_inj [OF _ assms(1)] key(1) by metis
    with Inr get assms(3) v key sync_same [OF key(2)] show ?thesis
      by (auto simp: reconcile_object_def tryC_def bindC_def split: prod.splits)
  qed
qed

lemma reconcile_twice:
  assumes "reconcile_object C meta own sync desired w = (Inr (ob, changed), w')" "good desired"
    and "objs v = objs w'" "reconcile_object C meta own sync desired v = (r, v')"
  shows "objs v' = objs w' \<and> (\<forall>x. r = Inr x \<longrightarrow> x = (ob, False))"
  using reconcile_settles [OF assms(1,2)] settled_is_read [of ob v desired r v'] assms(3,4) by auto

end

section \<open>The sync functions\<close>

lemma ensure_entry_keeps: "\<not> snd (ensure_entry kv st) \<Longrightarrow> ensure_entry kv st = st"
  by (simp add: ensure_entry_def split: if_splits)

lemma ensure_fold_changed: "snd st \<Longrightarrow> snd (fold ensure_entry desired st)"
  by (induction desired arbitrary: st) (simp_all add: ensure_entry_def)

lemma ensure_unchanged: "\<not> snd (ensureStringMapValues current desired) \<Longrightarrow> fst (ensureStringMapValues current desired) = current"
proof -
  have "\<not> snd (fold ensure_entry desired st) \<Longrightarrow> fold ensure_entry desired st = st" for st
  proof (induction desired arbitrary: st)
    case (Cons kv desired)
    then have "\<not> snd (ensure_entry kv st)" using ensure_fold_changed by fastforce
    with Cons ensure_entry_keeps [of kv st] show ?case by simp
  qed simp
  then show "\<not> snd (ensureStringMapValues current desired) \<Longrightarrow> fst (ensureStringMapValues current desired) = current"
    by (metis ensureStringMapValues_def fst_conv)
qed

abbreviation distinct_labels :: "ObjectMeta \<Rightarrow> bool" where
  "distinct_labels m \<equiv> distinct (map fst (meta_Labels m))"

lemma set_labels_key [simp]:
  "meta_Name (fst (set_labels m desired)) = meta_Name m" "meta_Namespace (fst (set_labels m desired)) = meta_Namespace m"
  by (simp_all add: set_labels_def split: prod.splits)

lemma set_labels_pair: "set_labels m desired = (m', c) \<Longrightarrow> meta_Name m' = meta_Name m \<and> meta_Namespace m' = meta_Namespace m"
  using set_labels_key [of m desired] by simp

lemma set_labels_same: "\<not> snd (set_labels m desired) \<Longrightarrow> fst (set_labels m desired) = m"
  by (simp add: set_labels_def split: prod.splits if_splits)

lemma set_labels_settles: "distinct (map fst desired) \<Longrightarrow> \<not> snd (set_labels (fst (set_labels m desired)) desired)"
  using ensureStringMapValues_idem [of desired "meta_Labels m"] by (auto simp: set_labels_def split: prod.splits)

lemma set_labels_again:
  "set_labels m desired = (m', c) \<Longrightarrow> distinct (map fst desired) \<Longrightarrow> set_labels m' desired = (m', False)"
  using set_labels_settles [of desired m] set_labels_same [of m' desired] by (cases "set_labels m' desired") auto

lemma set_labels_self: "distinct_labels m \<Longrightarrow> set_labels m (meta_Labels m) = (m, False)"
proof -
  assume "distinct_labels m"
  then have "fold ensure_entry (meta_Labels m) (meta_Labels m, False) = (meta_Labels m, False)"
    by (intro ensure_fold_id) (auto simp: map_lookup_def split: option.splits dest: map_of_SomeD eq_key_imp_eq_value)
  then show ?thesis by (simp add: set_labels_def ensureStringMapValues_def)
qed

interpretation service_sync: object_sync ks_Meta syncGPUStorageAccessorService "\<lambda>d. distinct_labels (ks_Meta d)"
proof
  fix current desired :: KubeService
  show "obj_key ks_Meta (fst (syncGPUStorageAccessorService current desired)) = obj_key ks_Meta current"
    by (auto dest!: set_labels_pair simp: syncGPUStorageAccessorService_def split: prod.splits)
  show "distinct_labels (ks_Meta desired) \<Longrightarrow> \<not> snd (syncGPUStorageAccessorService desired desired)"
    using set_labels_self [of "ks_Meta desired"] by (simp add: syncGPUStorageAccessorService_def replaceStringMap_def)
  show "distinct_labels (ks_Meta desired) \<Longrightarrow> \<not> snd (syncGPUStorageAccessorService (fst (syncGPUStorageAccessorService current desired)) desired)"
    using set_labels_again [of "ks_Meta current" "meta_Labels (ks_Meta desired)"]
    by (auto simp: syncGPUStorageAccessorService_def replaceStringMap_def split: prod.splits if_splits)
  show "\<not> snd (syncGPUStorageAccessorService current desired) \<Longrightarrow> fst (syncGPUStorageAccessorService current desired) = current"
    using set_labels_same [of "ks_Meta current" "meta_Labels (ks_Meta desired)"]
    by (auto simp: syncGPUStorageAccessorService_def replaceStringMap_def split: prod.splits if_splits)
qed

interpretation deployment_sync: object_sync dep_Meta syncGPUStorageAccessorDeployment "\<lambda>d. distinct_labels (dep_Meta d) \<and> dep_Replicas d \<noteq> None"
proof
  fix current desired :: "'q Deployment"
  show "obj_key dep_Meta (fst (syncGPUStorageAccessorDeployment current desired)) = obj_key dep_Meta current"
    by (auto dest!: set_labels_pair simp: syncGPUStorageAccessorDeployment_def Let_def split: prod.splits)
  show "distinct_labels (dep_Meta desired) \<and> dep_Replicas desired \<noteq> None \<Longrightarrow> \<not> snd (syncGPUStorageAccessorDeployment desired desired)"
    using set_labels_self [of "dep_Meta desired"] by (auto simp: syncGPUStorageAccessorDeployment_def Let_def replaceStringMap_def split: prod.splits if_splits)
  show "distinct_labels (dep_Meta desired) \<and> dep_Replicas desired \<noteq> None \<Longrightarrow>
      \<not> snd (syncGPUStorageAccessorDeployment (fst (syncGPUStorageAccessorDeployment current desired)) desired)"
    using set_labels_again [of "dep_Meta current" "meta_Labels (dep_Meta desired)"]
    by (auto simp: syncGPUStorageAccessorDeployment_def Let_def replaceStringMap_def split: prod.splits if_splits)
  show "\<not> snd (syncGPUStorageAccessorDeployment current desired) \<Longrightarrow> fst (syncGPUStorageAccessorDeployment current desired) = current"
    using set_labels_same [of "dep_Meta current" "meta_Labels (dep_Meta desired)"]
    by (cases current; cases "dep_Template current")
      (auto simp: syncGPUStorageAccessorDeployment_def Let_def replaceStringMap_def split: prod.splits if_splits)
qed

context k8s_quantities
begin

lemma cmp_refl: "qty_Cmp K q q = 0"
  using cmp(2) by simp

end

sublocale k8s_quantities \<subseteq> pvc_sync: object_sync pvc_Meta "syncGPUStoragePVC K" "\<lambda>d. distinct_labels (pvc_Meta d) \<and> pvc_StorageClassName d \<noteq> None"
proof
  fix current desired :: "'q PersistentVolumeClaim"
  show "obj_key pvc_Meta (fst (syncGPUStoragePVC K current desired)) = obj_key pvc_Meta current"
    by (auto dest!: set_labels_pair simp: syncGPUStoragePVC_def Let_def split: prod.splits)
  show "distinct_labels (pvc_Meta desired) \<and> pvc_StorageClassName desired \<noteq> None \<Longrightarrow> \<not> snd (syncGPUStoragePVC K desired desired)"
    using set_labels_self [of "pvc_Meta desired"] by (auto simp: syncGPUStoragePVC_def Let_def cmp_refl)
  show "distinct_labels (pvc_Meta desired) \<and> pvc_StorageClassName desired \<noteq> None \<Longrightarrow>
      \<not> snd (syncGPUStoragePVC K (fst (syncGPUStoragePVC K current desired)) desired)"
    using set_labels_again [of "pvc_Meta current" "meta_Labels (pvc_Meta desired)"]
    by (cases "set_labels (pvc_Meta current) (meta_Labels (pvc_Meta desired))")
      (simp add: syncGPUStoragePVC_def Let_def qty_of_def cmp_refl)
  show "\<not> snd (syncGPUStoragePVC K current desired) \<Longrightarrow> fst (syncGPUStoragePVC K current desired) = current"
    using set_labels_same [of "pvc_Meta current" "meta_Labels (pvc_Meta desired)"]
    by (cases "set_labels (pvc_Meta current) (meta_Labels (pvc_Meta desired))")
      (simp add: syncGPUStoragePVC_def Let_def split: if_splits)
qed

context k8s_quantities
begin

lemma pvc_object_sync:
  "object_sync pvc_Meta (syncGPUStoragePVC K) (\<lambda>d. distinct_labels (pvc_Meta d) \<and> pvc_StorageClassName d \<noteq> None)"
  by unfold_locales

end

text \<open>Setting the owner of an object (\<^verbatim>\<open>controllerutil.SetControllerReference\<close>) adds an owner reference, a field of its
  own, and leaves the rest of the metadata alone.\<close>

locale owner_references =
  fixes setOwner :: "ObjectMeta \<Rightarrow> ObjectMeta \<Rightarrow> ObjectMeta res"
  assumes owner_only: "setOwner owner m = Inr m' \<Longrightarrow> m' = m"

context owner_references
begin

lemma own_with_store:
  assumes "\<And>ob. set_meta (meta ob) ob = ob" and "resource_store C meta objs other" "object_sync meta sync good"
  shows "synced_store C meta objs other sync good (own_with setOwner owner meta set_meta)"
proof -
  have "keeps objs (own_with setOwner owner meta set_meta ob)" for ob by (auto simp: own_with_def)
  moreover have "own_with setOwner owner meta set_meta ob w = (Inr ob', w') \<Longrightarrow> ob' = ob" for ob w ob' w'
    using owner_only assms(1) by (auto simp: own_with_def result_simps)
  ultimately have "synced_store_axioms objs (own_with setOwner owner meta set_meta)" unfolding synced_store_axioms_def by blast
  with assms(2,3) show ?thesis unfolding synced_store_def by blast
qed

end

section \<open>The claim\<close>

lemma pvc_store:
  assumes "k8s_quantities K val" "owner_references (stc_SetOwner S)" "resource_store (stc_PVCs S) pvc_Meta pvcs other"
  shows "synced_store (stc_PVCs S) pvc_Meta pvcs other (syncGPUStoragePVC K)
    (\<lambda>d. distinct_labels (pvc_Meta d) \<and> pvc_StorageClassName d \<noteq> None)
    (own_with (stc_SetOwner S) (stor_Meta s) pvc_Meta (\<lambda>m ob. ob\<lparr>pvc_Meta := m\<rparr>))"
  by (rule owner_references.own_with_store [OF assms(2) _ assms(3) k8s_quantities.pvc_object_sync [OF assms(1)]]) simp

lemma desired_pvc_wf:
  "desiredGPUStoragePVC K s = Inr d \<Longrightarrow> distinct_labels (pvc_Meta d) \<and> pvc_StorageClassName d \<noteq> None"
  by (auto simp: desiredGPUStoragePVC_def storageOwnedLabels_def LabelAppNameKey_def LabelManagedByKey_def LabelStorageKey_def
      result_simps)
lemma pvc_settled_fields:
  assumes "\<not> snd (syncGPUStoragePVC K pvc d)" "desiredGPUStoragePVC K s = Inr d"
  shows "\<exists>q. ParseQuantity K (sspec_Size (stor_Spec s)) = Inr q \<and> qty_Cmp K (qty_of K (pvc_Requests pvc) ''storage'') q = 0
    \<and> pvc_AccessModes pvc = [''ReadWriteOnce'']
    \<and> pvc_StorageClassName pvc = Some (resolvedGPUStorageClassName (sspec_StorageClassName (stor_Spec s)))"
  using assms by (auto simp: desiredGPUStoragePVC_def result_simps syncGPUStoragePVC_def Let_def qty_of_def
      split: prod.splits if_splits)

text \<open>
  C29. The claim of a storage converges: after a successful reconciliation the claim of the storage's name exists with
  the requested size, access mode and class, and the next reconciliation, with the claims still as they were left,
  writes nothing and reports no change.
\<close>

theorem storage_claim_converges:
  assumes "k8s_quantities (ste_K E) val" "owner_references (stc_SetOwner S)" "resource_store (stc_PVCs S) pvc_Meta pvcs other"
    and "reconcileGPUStoragePVC E S s w = (Inr (pvc, changed), w1)"
    and "pvcs w2 = pvcs w1" "reconcileGPUStoragePVC E S s w2 = (r, w3)"
  shows "pvc \<in> set (pvcs w1) \<and> obj_key pvc_Meta pvc = (stor_ns s, stor_name s)
    \<and> (\<exists>q. ParseQuantity (ste_K E) (sspec_Size (stor_Spec s)) = Inr q
        \<and> qty_Cmp (ste_K E) (qty_of (ste_K E) (pvc_Requests pvc) ''storage'') q = 0
        \<and> pvc_AccessModes pvc = [''ReadWriteOnce'']
        \<and> pvc_StorageClassName pvc = Some (resolvedGPUStorageClassName (sspec_StorageClassName (stor_Spec s))))
    \<and> pvcs w3 = pvcs w1 \<and> (\<forall>x. r = Inr x \<longrightarrow> x = (pvc, False))"
proof -
  let ?sync = "syncGPUStoragePVC (ste_K E)"
  let ?own = "own_with (stc_SetOwner S) (stor_Meta s) pvc_Meta (\<lambda>m ob. ob\<lparr>pvc_Meta := m\<rparr>)"
  from assms(4) obtain d where d: "desiredGPUStoragePVC (ste_K E) s = Inr d"
    by (auto simp: reconcileGPUStoragePVC_def result_simps)
  then have run: "reconcile_object (stc_PVCs S) pvc_Meta ?own ?sync d w = (Inr (pvc, changed), w1)"
    and again: "reconcile_object (stc_PVCs S) pvc_Meta ?own ?sync d w2 = (r, w3)"
    using assms(4,6) by (simp_all add: reconcileGPUStoragePVC_def)
  note store = pvc_store [OF assms(1-3), of s]
  note wf = desired_pvc_wf [OF d]
  have key: "obj_key pvc_Meta d = (stor_ns s, stor_name s)" using d by (auto simp: desiredGPUStoragePVC_def result_simps)
  have "pvc \<in> set (pvcs w1)" "obj_key pvc_Meta pvc = obj_key pvc_Meta d" "\<not> snd (?sync pvc d)"
    using synced_store.reconcile_settles [OF store run wf]
      object_sync.settled_def [OF k8s_quantities.pvc_object_sync [OF assms(1)]] by auto
  moreover have "pvcs w3 = pvcs w1 \<and> (\<forall>x. r = Inr x \<longrightarrow> x = (pvc, False))"
    by (rule synced_store.reconcile_twice [OF store run wf assms(5) again])
  ultimately show ?thesis using pvc_settled_fields [OF _ d, of pvc] unfolding key by blast
qed

section \<open>A cluster in memory\<close>

record 'q storage_world =
  sw_Storages :: "GPUStorage list"
  sw_PVCs :: "'q PersistentVolumeClaim list"
  sw_Jobs :: "'q Job list"
  sw_Deployments :: "'q Deployment list"
  sw_Services :: "KubeService list"

definition mem_cluster :: "('q storage_world, 'q) StorageCluster" where
  "mem_cluster = \<lparr>stc_Storages = mem_client stor_Meta sw_Storages (\<lambda>xs w. w\<lparr>sw_Storages := xs\<rparr>),
     stc_WriteStatus = (\<lambda>s w. (Inr (), w\<lparr>sw_Storages := map (\<lambda>old. if obj_key stor_Meta old = obj_key stor_Meta s then s else old) (sw_Storages w)\<rparr>)),
     stc_PVCs = mem_client pvc_Meta sw_PVCs (\<lambda>xs w. w\<lparr>sw_PVCs := xs\<rparr>),
     stc_Jobs = mem_client job_Meta sw_Jobs (\<lambda>xs w. w\<lparr>sw_Jobs := xs\<rparr>),
     stc_Deployments = mem_client dep_Meta sw_Deployments (\<lambda>xs w. w\<lparr>sw_Deployments := xs\<rparr>),
     stc_Services = mem_client ks_Meta sw_Services (\<lambda>xs w. w\<lparr>sw_Services := xs\<rparr>),
     stc_SetOwner = (\<lambda>_ m. Inr m)\<rparr>"

interpretation mem_owner: owner_references "stc_SetOwner mem_cluster"
  by unfold_locales (simp add: mem_cluster_def)

lemma mem_pvcs: "resource_store (stc_PVCs mem_cluster) pvc_Meta (\<lambda>w. valid_objs pvc_Meta (sw_PVCs w)) sw_Jobs"
  using mem_store [of sw_PVCs "\<lambda>xs w. w\<lparr>sw_PVCs := xs\<rparr>" sw_Jobs pvc_Meta] by (simp add: mem_cluster_def)

definition mem_env :: "int StorageEnv" where
  "mem_env = \<lparr>ste_K = ref_k8s, ste_ErrText = (\<lambda>_. ''error''), ste_Digest = (\<lambda>_ _. Inr ''0123456789abcdef'')\<rparr>"

definition empty_world :: "int storage_world" where
  "empty_world = \<lparr>sw_Storages = [], sw_PVCs = [], sw_Jobs = [], sw_Deployments = [], sw_Services = []\<rparr>"

definition sample_storage :: GPUStorage where
  "sample_storage = \<lparr>stor_Meta = \<lparr>meta_Name = ''data'', meta_Namespace = ''runtime'', meta_Labels = [], meta_Annotations = []\<rparr>,
     stor_Spec = \<lparr>sspec_Size = ''10'', sspec_StorageClassName = [], sspec_Prepare = zero_prepare, sspec_Accessor = \<lparr>ax_Enabled = True\<rparr>\<rparr>,
     stor_Status = zero_storage_status\<rparr>"

interpretation mem_claims: synced_store "stc_PVCs mem_cluster" pvc_Meta "\<lambda>w. valid_objs pvc_Meta (sw_PVCs w)" sw_Jobs "syncGPUStoragePVC ref_k8s"
  "\<lambda>d. distinct_labels (pvc_Meta d) \<and> pvc_StorageClassName d \<noteq> None"
  "own_with (stc_SetOwner (mem_cluster :: (int storage_world, int) StorageCluster)) (stor_Meta sample_storage) pvc_Meta (\<lambda>m ob. ob\<lparr>pvc_Meta := m\<rparr>)"
  by (rule pvc_store [OF ref_quantities.k8s_quantities_axioms mem_owner.owner_references_axioms mem_pvcs])

abbreviation claim_run :: "int storage_world \<Rightarrow> (int PersistentVolumeClaim \<times> bool) res \<times> int storage_world" where
  "claim_run \<equiv> reconcileGPUStoragePVC mem_env mem_cluster sample_storage"

lemma claim_sample:
  "case claim_run empty_world of (Inr (pvc, changed), w1) \<Rightarrow> changed \<and> qty_of ref_k8s (pvc_Requests pvc) ''storage'' = 10
     \<and> \<not> isl (fst (claim_run w1)) | _ \<Rightarrow> False"
  by code_simp

theorem storage_claim_converges_witness:
  "case claim_run empty_world of (Inr (pvc, changed), w1) \<Rightarrow> changed \<and> fst (claim_run w1) = Inr (pvc, False)
     \<and> qty_of ref_k8s (pvc_Requests pvc) ''storage'' = 10 | _ \<Rightarrow> False"
proof -
  obtain pvc w1 where first: "claim_run empty_world = (Inr (pvc, True), w1)"
    and size: "qty_of ref_k8s (pvc_Requests pvc) ''storage'' = 10" and "\<not> isl (fst (claim_run w1))"
    using claim_sample by (auto split: prod.splits sum.splits)
  then obtain x w3 where second: "claim_run w1 = (Inr x, w3)" by (cases "claim_run w1"; cases "fst (claim_run w1)") auto
  have "k8s_quantities (ste_K mem_env) (\<lambda>v. v)" using ref_quantities.k8s_quantities_axioms by (simp add: mem_env_def)
  then have "x = (pvc, False)"
    using storage_claim_converges [OF _ mem_owner.owner_references_axioms mem_pvcs first refl second] by blast
  then show ?thesis using first second size by simp
qed

section \<open>The accessor\<close>

text \<open>The API server for the two objects of an accessor.\<close>

locale accessor_store =
  deployments: resource_store "stc_Deployments S" dep_Meta deps svcs +
  services: resource_store "stc_Services S" ks_Meta svcs deps
  for S :: "('w, 'q) StorageCluster" and deps :: "'w \<Rightarrow> 'q Deployment list" and svcs :: "'w \<Rightarrow> KubeService list"

context resource_store
begin

lemma delete_if_present_absent:
  assumes "delete_if_present C ns n w = (Inr changed, w')"
  shows "(ns, n) \<notin> obj_key meta ` set (objs w') \<and> other w' = other w"
proof -
  obtain r v where get: "rs_Get C ns n w = (r, v)" by fastforce
  have v: "objs v = objs w" "other v = other w" using keepsD [OF read_keeps(2) get] keepsD [OF other_kept(2) get] .
  show ?thesis
  proof (cases r)
    case (Inl e)
    then have "w' = v" "IsNotFound e" using assms get by (auto simp: delete_if_present_def bindC_def tryC_def split: if_splits)
    then show ?thesis using get_missing [of ns n w e v] get Inl v by simp
  next
    case (Inr ob)
    then have del: "rs_Delete C ob v = (Inr (), w')"
      using assms get by (auto simp: delete_if_present_def bindC_def tryC_def split: prod.splits sum.splits)
    have key: "obj_key meta ob = (ns, n)" using get_ok [of ns n w ob v] get Inr by blast
    have "(ns, n) \<notin> obj_key meta ` set (objs w')" unfolding delete_set [OF del] key by blast
    then show ?thesis using keepsD [OF other_kept(5) del] v(2) by (intro conjI) (assumption, simp only:)
  qed
qed

end

lemma accessor_desired_facts:
  "distinct_labels (dep_Meta (desiredGPUStorageAccessorDeployment s c)) \<and> dep_Replicas (desiredGPUStorageAccessorDeployment s c) \<noteq> None"
  "distinct_labels (ks_Meta (desiredGPUStorageAccessorService s))"
  by (simp_all add: desiredGPUStorageAccessorDeployment_def desiredGPUStorageAccessorService_def accessor_labels_def Let_def
      storageOwnedLabels_def LabelAppNameKey_def LabelManagedByKey_def LabelStorageKey_def)

lemma accessor_keys:
  "obj_key dep_Meta (desiredGPUStorageAccessorDeployment s c) = (stor_ns s, storageAccessorDeploymentName (stor_name s))"
  "obj_key ks_Meta (desiredGPUStorageAccessorService s) = (stor_ns s, storageAccessorServiceName (stor_name s))"
  by (simp_all add: desiredGPUStorageAccessorDeployment_def desiredGPUStorageAccessorService_def Let_def)

text \<open>What a settled accessor shares with its desired form: one replica, and the pod that was asked for.\<close>

lemma deployment_settled_fields:
  "\<not> snd (syncGPUStorageAccessorDeployment d desired) \<Longrightarrow> pt_Spec (dep_Template d) = pt_Spec (dep_Template desired)
     \<and> map_of (dep_Selector d) = map_of (dep_Selector desired) \<and> dep_Replicas d = Some (case dep_Replicas desired of None \<Rightarrow> 1 | Some r \<Rightarrow> r)"
  by (cases "dep_Template d"; cases "dep_Template desired")
    (auto simp: syncGPUStorageAccessorDeployment_def Let_def replaceStringMap_def map_equal_iff split: prod.splits if_splits)

context resource_store
begin

lemma reconcile_keeps_other: "(\<And>ob. keeps other (own ob)) \<Longrightarrow> keeps other (reconcile_object C meta own sync desired)"
  unfolding reconcile_object_def
  by (intro keeps_bindC keeps_tryC other_kept) (auto simp: Let_def intro!: keeps_bindC other_kept split: sum.splits prod.splits)

end

lemma deployment_object_sync:
  "object_sync dep_Meta syncGPUStorageAccessorDeployment (\<lambda>d. distinct_labels (dep_Meta d) \<and> dep_Replicas d \<noteq> None)"
  by unfold_locales

lemma service_object_sync: "object_sync ks_Meta syncGPUStorageAccessorService (\<lambda>d. distinct_labels (ks_Meta d))"
  by unfold_locales

context accessor_store
begin

lemma accessor_removed:
  assumes "ensureGPUStorageAccessorAbsent S s w = (Inr changed, w')"
  shows "(stor_ns s, storageAccessorDeploymentName (stor_name s)) \<notin> obj_key dep_Meta ` set (deps w')"
    and "(stor_ns s, storageAccessorServiceName (stor_name s)) \<notin> obj_key ks_Meta ` set (svcs w')"
proof -
  obtain c1 c2 v where d: "delete_if_present (stc_Deployments S) (stor_ns s) (storageAccessorDeploymentName (stor_name s)) w = (Inr c1, v)"
    and e: "delete_if_present (stc_Services S) (stor_ns s) (storageAccessorServiceName (stor_name s)) v = (Inr c2, w')"
    using assms by (auto simp: ensureGPUStorageAccessorAbsent_def result_simps)
  have "deps w' = deps v" using services.delete_if_present_absent [OF e] by blast
  then show "(stor_ns s, storageAccessorDeploymentName (stor_name s)) \<notin> obj_key dep_Meta ` set (deps w')"
    using deployments.delete_if_present_absent [OF d] by simp
  show "(stor_ns s, storageAccessorServiceName (stor_name s)) \<notin> obj_key ks_Meta ` set (svcs w')"
    using services.delete_if_present_absent [OF e] by blast
qed

lemma accessor_present:
  assumes "owner_references (stc_SetOwner S)"
    and "reconcileGPUStorageAccessorService S s (desiredGPUStorageAccessorService s) w = (Inr sc, v)"
    and "reconcileGPUStorageAccessorDeployment S s (desiredGPUStorageAccessorDeployment s c) v = (Inr (d, dc), w')"
  shows "d \<in> set (deps w') \<and> obj_key dep_Meta d = (stor_ns s, storageAccessorDeploymentName (stor_name s))
    \<and> \<not> snd (syncGPUStorageAccessorDeployment d (desiredGPUStorageAccessorDeployment s c))"
    and "\<exists>svc \<in> set (svcs w'). obj_key ks_Meta svc = (stor_ns s, storageAccessorServiceName (stor_name s))
      \<and> \<not> snd (syncGPUStorageAccessorService svc (desiredGPUStorageAccessorService s))"
proof -
  note dstore = owner_references.own_with_store [OF assms(1) _ deployments.resource_store_axioms deployment_object_sync,
      of "\<lambda>m ob. ob\<lparr>dep_Meta := m\<rparr>" "stor_Meta s"]
  note sstore = owner_references.own_with_store [OF assms(1) _ services.resource_store_axioms service_object_sync,
      of "\<lambda>m ob. ob\<lparr>ks_Meta := m\<rparr>" "stor_Meta s"]
  let ?dd = "desiredGPUStorageAccessorDeployment s c" and ?sd = "desiredGPUStorageAccessorService s"
  have dep: "reconcile_object (stc_Deployments S) dep_Meta (own_with (stc_SetOwner S) (stor_Meta s) dep_Meta (\<lambda>m ob. ob\<lparr>dep_Meta := m\<rparr>))
      syncGPUStorageAccessorDeployment ?dd v = (Inr (d, dc), w')"
    using assms(3) by (simp add: reconcileGPUStorageAccessorDeployment_def)
  obtain svc where svc: "reconcile_object (stc_Services S) ks_Meta (own_with (stc_SetOwner S) (stor_Meta s) ks_Meta (\<lambda>m ob. ob\<lparr>ks_Meta := m\<rparr>))
      syncGPUStorageAccessorService ?sd w = (Inr (svc, sc), v)"
    using assms(2) by (auto simp: reconcileGPUStorageAccessorService_def result_simps)
  have "d \<in> set (deps w') \<and> deployment_sync.settled d ?dd"
    using synced_store.reconcile_settles [OF dstore dep accessor_desired_facts(1)] by simp
  then show "d \<in> set (deps w') \<and> obj_key dep_Meta d = (stor_ns s, storageAccessorDeploymentName (stor_name s))
    \<and> \<not> snd (syncGPUStorageAccessorDeployment d ?dd)"
    unfolding deployment_sync.settled_def accessor_keys .
  have "keeps svcs (own_with (stc_SetOwner S) (stor_Meta s) dep_Meta (\<lambda>m ob. ob\<lparr>dep_Meta := m\<rparr>) ob)" for ob by (auto simp: own_with_def)
  then have "svcs w' = svcs v" by (intro keepsD [OF deployments.reconcile_keeps_other dep])
  moreover have "svc \<in> set (svcs v) \<and> service_sync.settled svc ?sd"
    using synced_store.reconcile_settles [OF sstore svc accessor_desired_facts(2)] by simp
  ultimately show "\<exists>svc \<in> set (svcs w'). obj_key ks_Meta svc = (stor_ns s, storageAccessorServiceName (stor_name s))
      \<and> \<not> snd (syncGPUStorageAccessorService svc ?sd)"
    unfolding service_sync.settled_def accessor_keys by (intro bexI [of _ svc]) simp_all
qed

end


lemma mem_accessor:
  "accessor_store mem_cluster (\<lambda>w. valid_objs dep_Meta (sw_Deployments w)) (\<lambda>w. valid_objs ks_Meta (sw_Services w))"
proof -
  have "resource_store (stc_Deployments mem_cluster) dep_Meta (\<lambda>w. valid_objs dep_Meta (sw_Deployments w)) (\<lambda>w. valid_objs ks_Meta (sw_Services w))"
    using mem_store [of sw_Deployments "\<lambda>xs w. w\<lparr>sw_Deployments := xs\<rparr>" "\<lambda>w. valid_objs ks_Meta (sw_Services w)" dep_Meta]
    by (simp add: mem_cluster_def)
  moreover have "resource_store (stc_Services mem_cluster) ks_Meta (\<lambda>w. valid_objs ks_Meta (sw_Services w)) (\<lambda>w. valid_objs dep_Meta (sw_Deployments w))"
    using mem_store [of sw_Services "\<lambda>xs w. w\<lparr>sw_Services := xs\<rparr>" "\<lambda>w. valid_objs dep_Meta (sw_Deployments w)" ks_Meta]
    by (simp add: mem_cluster_def)
  ultimately show ?thesis by (simp add: accessor_store_def)
qed

interpretation mem_accessor: accessor_store mem_cluster "\<lambda>w. valid_objs dep_Meta (sw_Deployments w)" "\<lambda>w. valid_objs ks_Meta (sw_Services w)"
  by (rule mem_accessor)

definition bound_claim :: "int PersistentVolumeClaim" where
  "bound_claim = \<lparr>pvc_Meta = stor_Meta sample_storage, pvc_AccessModes = [''ReadWriteOnce''], pvc_Requests = [(''storage'', 10)],
     pvc_StorageClassName = Some ''rook-ceph-block'', pvc_Phase = ''Bound'', pvc_Capacity = [(''storage'', 10)]\<rparr>"

abbreviation accessor_run :: "int storage_world \<Rightarrow> storageAccessorProgress res \<times> int storage_world" where
  "accessor_run \<equiv> reconcileGPUStorageAccessor mem_cluster sample_storage bound_claim storagePrepareNotRequestedProgress"

lemma accessor_sample_enabled:
  "ax_Enabled (sspec_Accessor (stor_Spec sample_storage)) \<and> isGPUStorageClaimBound (Some bound_claim)
     \<and> pp_Ready storagePrepareNotRequestedProgress"
  by code_simp

lemma accessor_sample_names:
  "dns1123_subdomain (storageAccessorServiceName (stor_name sample_storage))"
  "dns1123_subdomain (storageAccessorDeploymentName (stor_name sample_storage))"
  by code_simp+

lemma accessor_sample: "\<not> isl (fst (accessor_run empty_world))"
proof -
  have "meta_Name (ks_Meta (desiredGPUStorageAccessorService sample_storage)) = storageAccessorServiceName (stor_name sample_storage)"
    and "meta_Name (dep_Meta (desiredGPUStorageAccessorDeployment sample_storage c :: int Deployment)) = storageAccessorDeploymentName (stor_name sample_storage)" for c :: string
    by (simp_all add: desiredGPUStorageAccessorService_def desiredGPUStorageAccessorDeployment_def Let_def)
  then show ?thesis using accessor_sample_enabled accessor_sample_names
    by (simp add: reconcileGPUStorageAccessor_def reconcileGPUStorageAccessorService_def reconcileGPUStorageAccessorDeployment_def
        reconcile_object_def own_with_def mem_cluster_def mem_client_def valid_objs_def empty_world_def bindC_def tryC_def Let_def
        del: firstNonEmpty.simps)
qed


end
