(* ===== verification/Storage_Readiness.thy ===== *)
theory Storage_Readiness
  imports Storage_Convergence
begin

text \<open>
  The status of a storage and the preparation of its data: the phase and the conditions follow from the claim, the
  prepare job and the accessor; content that was prepared from an image is not prepared again; and two situations in
  which the preparation does not do what it is for.
\<close>

section \<open>Coherent progress\<close>

definition prepare_coherent :: "storagePrepareProgress \<Rightarrow> bool" where
  "prepare_coherent p = (pp_Phase p \<in> {StoragePreparePhaseNotRequested, StoragePreparePhasePending, StoragePreparePhaseRunning,
       StoragePreparePhaseSucceeded, StoragePreparePhaseFailed}
     \<and> (pp_Ready p \<longleftrightarrow> pp_Phase p \<in> {StoragePreparePhaseNotRequested, StoragePreparePhaseSucceeded}))"

definition accessor_coherent :: "bool \<Rightarrow> storageAccessorProgress \<Rightarrow> bool" where
  "accessor_coherent enabled p = (ap_Phase p \<in> {StorageAccessorPhaseDisabled, StorageAccessorPhasePending, StorageAccessorPhaseReady}
     \<and> (ap_Ready p \<longleftrightarrow> ap_Phase p \<in> {StorageAccessorPhaseDisabled, StorageAccessorPhaseReady})
     \<and> (ap_Phase p = StorageAccessorPhaseDisabled \<longleftrightarrow> \<not> enabled))"

lemmas storage_phase_defs = StoragePreparePhaseNotRequested_def StoragePreparePhasePending_def StoragePreparePhaseRunning_def
  StoragePreparePhaseSucceeded_def StoragePreparePhaseFailed_def StorageAccessorPhaseDisabled_def StorageAccessorPhasePending_def
  StorageAccessorPhaseReady_def StorageAccessorPhaseFailed_def StoragePhaseReady_def StoragePhasePending_def StoragePhaseFailed_def
  ConditionTrue_def ConditionFalse_def

lemma job_progress_coherent:
  "\<not> pp_Ready p \<Longrightarrow> prepare_coherent (storagePrepareProgressFromJob s p job)"
  "prepare_coherent (storagePrepareSucceededProgress s p)"
  by (simp_all add: prepare_coherent_def storagePrepareProgressFromJob_def storagePrepareSucceededProgress_def Let_def storage_phase_defs)

lemma new_job_progress:
  "newStoragePrepareJobProgress dig s = Inr p \<Longrightarrow> pp_Phase p = StoragePreparePhasePending \<and> \<not> pp_Ready p
     \<and> storagePrepareDigest dig s = Inr (pp_Digest p) \<and> pp_JobName p = storagePrepareJobName (stor_name s) (pp_Digest p)"
  by (auto simp: newStoragePrepareJobProgress_def result_simps)

lemma pending_coherent: "pp_Phase p = StoragePreparePhasePending \<Longrightarrow> \<not> pp_Ready p \<Longrightarrow> prepare_coherent p"
  by (simp add: prepare_coherent_def storage_phase_defs)

lemma source_progress:
  "resolveGPUStoragePrepareSource S s p w = (Inr (c, p', waiting), w') \<Longrightarrow> pp_Phase p' = pp_Phase p \<and> pp_Ready p' = pp_Ready p"
  by (auto simp: resolveGPUStoragePrepareSource_def Let_def handle_Inr_iff split: if_splits)

lemma job_state_coherent:
  fixes S :: "('w, 'q) StorageCluster"
  assumes "reconcileGPUStoragePrepareJobState S s pvc c p w = (Inr p', w')" "pp_Phase p = StoragePreparePhasePending" "\<not> pp_Ready p"
  shows "prepare_coherent p'"
proof -
  consider (job) job :: "'q Job" where "p' = storagePrepareProgressFromJob s p job" | (finished) "p' = storagePrepareSucceededProgress s p"
    | (new) "pp_Phase p' = pp_Phase p" "pp_Ready p' = pp_Ready p"
    using assms(1) unfolding reconcileGPUStoragePrepareJobState_def Let_def handle_Inr_iff
    by (auto simp: result_simps simp del: firstNonEmpty.simps split: if_splits)
  then show ?thesis
  proof cases
    case job
    then show ?thesis using job_progress_coherent(1) [OF assms(3)] by simp
  next
    case finished
    then show ?thesis using job_progress_coherent(2) by simp
  next
    case new
    then show ?thesis using pending_coherent assms(2,3) by simp
  qed
qed

lemma prepare_progress_coherent:
  assumes "reconcileGPUStoragePrepare E S s pvc w = (Inr p, w')"
  shows "prepare_coherent p"
proof -
  have fixed: "prepare_coherent storagePrepareNotRequestedProgress" "prepare_coherent storagePreparePVCWaitingProgress"
    by (simp_all add: prepare_coherent_def storagePrepareNotRequestedProgress_def storagePreparePVCWaitingProgress_def
        newStoragePrepareProgress_def storage_phase_defs)
  show ?thesis
  proof (cases "isZeroControllerGPUStoragePrepare (sspec_Prepare (stor_Spec s)) \<or> \<not> isGPUStorageClaimBound (Some pvc)")
    case True
    then show ?thesis using assms fixed by (auto simp: reconcileGPUStoragePrepare_def result_simps split: if_splits)
  next
    case False
    with assms obtain p0 c q waiting v v' where new: "newStoragePrepareJobProgress (ste_Digest E) s = Inr p0"
      and src: "resolveGPUStoragePrepareSource S s p0 v = (Inr (c, q, waiting), v')"
      and rest: "(if waiting then returnC q else reconcileGPUStoragePrepareJobState S s pvc c p0) v' = (Inr p, w')"
      by (auto simp: reconcileGPUStoragePrepare_def result_simps)
    show ?thesis using new_job_progress [OF new] source_progress [OF src] rest pending_coherent job_state_coherent
      by (cases waiting) auto
  qed
qed

lemma accessor_progress_coherent:
  assumes "reconcileGPUStorageAccessor S s pvc prepare w = (Inr p, w')"
  shows "accessor_coherent (ax_Enabled (sspec_Accessor (stor_Spec s))) p"
  using assms by (auto simp: reconcileGPUStorageAccessor_def reconcileAbsentGPUStorageAccessor_def result_simps Let_def
      accessor_coherent_def storageAccessorDisabledProgress_def storageAccessorPendingProgress_def
      storageAccessorProgressFromDeployment_def newStorageAccessorProgress_def storage_phase_defs split: if_splits)

section \<open>The status\<close>

lemma storage_decision:
  assumes "prepare_coherent p" "accessor_coherent enabled a"
  shows "sd_Phase (resolveStatusRule \<lparr>si_ClaimBound = bound, si_Prepare = p, si_Accessor = a, si_AccessorEnabled = enabled\<rparr>
      storageReadyStatusRules defaultStorageReadyStatusDecision) =
     (if bound \<and> pp_Phase p = StoragePreparePhaseFailed then StoragePhaseFailed
      else if bound \<and> pp_Ready p \<and> ap_Ready a then StoragePhaseReady else StoragePhasePending)"
    and "cd_Status (sd_Ready (resolveStatusRule \<lparr>si_ClaimBound = bound, si_Prepare = p, si_Accessor = a, si_AccessorEnabled = enabled\<rparr>
      storageReadyStatusRules defaultStorageReadyStatusDecision)) =
     (if bound \<and> pp_Ready p \<and> ap_Ready a then ConditionTrue else ConditionFalse)"
  using assms by (auto simp: storageReadyStatusRules_def defaultStorageReadyStatusDecision_def prepare_coherent_def accessor_coherent_def
      storage_phase_defs)

lemma prepare_condition:
  "prepare_coherent p \<Longrightarrow> cond_Status (buildStoragePrepareCondition g p) = (if pp_Ready p then ConditionTrue else ConditionFalse)"
  by (auto simp: prepare_coherent_def buildStoragePrepareCondition_def statusConditionFromDecision_def decision_for_def
      storagePrepareConditionByPhase_def storage_phase_defs Let_def)

lemma accessor_condition:
  "accessor_coherent enabled p \<Longrightarrow> cond_Status (buildStorageAccessorCondition g p) = (if ap_Ready p then ConditionTrue else ConditionFalse)"
  by (auto simp: accessor_coherent_def buildStorageAccessorCondition_def statusConditionFromDecision_def decision_for_def
      storageAccessorConditionByPhase_def storage_phase_defs Let_def)

lemma storage_condition_types:
  "cond_Type (buildStoragePrepareCondition g p) = ConditionPrepared" "cond_ObservedGeneration (buildStoragePrepareCondition g p) = g"
  "cond_Type (buildStorageAccessorCondition g a) = ConditionAccessorReady" "cond_ObservedGeneration (buildStorageAccessorCondition g a) = g"
  by (simp_all add: buildStoragePrepareCondition_def buildStorageAccessorCondition_def statusConditionFromDecision_def)

text \<open>
  The status the controller computes from the claim, the prepare job and the accessor is consistent: the storage is
  ready exactly when its claim is bound, its content is prepared or needs no preparation, and its accessor is ready
  or switched off; it is failed exactly when the preparation on a bound claim failed; and the three conditions are
  true exactly when the storage, the content and the accessor are ready, for the generation that was reconciled.
\<close>

theorem storage_status_consistent:
  assumes "k8s_conditions K"
    and "reconcileGPUStoragePrepare E S s pvc w = (Inr prepare, w1)"
    and "reconcileGPUStorageAccessor S s pvc prepare w1 = (Inr accessor, w2)"
    and "st = buildGPUStorageStatus K now g s (Some pvc) prepare accessor"
  shows "sst_Phase st = (if isGPUStorageClaimBound (Some pvc) \<and> prepst_Phase (sst_Prepare st) = StoragePreparePhaseFailed then StoragePhaseFailed
      else if isGPUStorageClaimBound (Some pvc) \<and> prepst_Phase (sst_Prepare st) \<in> {StoragePreparePhaseNotRequested, StoragePreparePhaseSucceeded}
        \<and> axst_Phase (sst_Accessor st) \<in> {StorageAccessorPhaseDisabled, StorageAccessorPhaseReady} then StoragePhaseReady
      else StoragePhasePending)
    \<and> list_all (\<lambda>(t, ok). \<exists>c. FindStatusCondition K (sst_Conditions st) t = Some c \<and> cond_ObservedGeneration c = g
        \<and> cond_Status c = (if ok then ConditionTrue else ConditionFalse))
       [(ConditionReady, sst_Phase st = StoragePhaseReady),
        (ConditionPrepared, prepst_Phase (sst_Prepare st) \<in> {StoragePreparePhaseNotRequested, StoragePreparePhaseSucceeded}),
        (ConditionAccessorReady, axst_Phase (sst_Accessor st) \<in> {StorageAccessorPhaseDisabled, StorageAccessorPhaseReady})]"
proof -
  let ?en = "ax_Enabled (sspec_Accessor (stor_Spec s))" and ?b = "isGPUStorageClaimBound (Some pvc)"
  let ?d = "resolveStatusRule \<lparr>si_ClaimBound = ?b, si_Prepare = prepare, si_Accessor = accessor, si_AccessorEnabled = ?en\<rparr>
      storageReadyStatusRules defaultStorageReadyStatusDecision"
  let ?c1 = "statusConditionFromDecision ConditionReady g (sd_Ready ?d)"
  let ?c2 = "buildStoragePrepareCondition g prepare" and ?c3 = "buildStorageAccessorCondition g accessor"
  have pc: "prepare_coherent prepare" by (rule prepare_progress_coherent [OF assms(2)])
  have ac: "accessor_coherent ?en accessor" by (rule accessor_progress_coherent [OF assms(3)])
  have st: "sst_Conditions st = SetStatusCondition K now ?c3 (SetStatusCondition K now ?c2 (SetStatusCondition K now ?c1 []))"
    and fields: "sst_Phase st = sd_Phase ?d" "prepst_Phase (sst_Prepare st) = pp_Phase prepare" "axst_Phase (sst_Accessor st) = ap_Phase accessor"
    by (simp_all add: assms(4) buildGPUStorageStatus_def Let_def)
  have prep: "pp_Phase prepare \<in> {StoragePreparePhaseNotRequested, StoragePreparePhaseSucceeded} \<longleftrightarrow> pp_Ready prepare"
    and acc: "ap_Phase accessor \<in> {StorageAccessorPhaseDisabled, StorageAccessorPhaseReady} \<longleftrightarrow> ap_Ready accessor"
    and fail: "pp_Phase prepare = StoragePreparePhaseFailed \<Longrightarrow> \<not> pp_Ready prepare"
    using pc ac by (auto simp: prepare_coherent_def accessor_coherent_def storage_phase_defs)
  note decision = storage_decision [OF pc ac, of ?b]
  have phase: "sst_Phase st = StoragePhaseReady \<longleftrightarrow> ?b \<and> pp_Ready prepare \<and> ap_Ready accessor"
    unfolding fields decision using fail by (auto simp: storage_phase_defs)
  have types: "cond_Type ?c1 \<noteq> cond_Type ?c2" "cond_Type ?c1 \<noteq> cond_Type ?c3" "cond_Type ?c2 \<noteq> cond_Type ?c3"
    by (simp_all add: condition_types storage_condition_types ConditionReady_def ConditionPrepared_def ConditionAccessorReady_def)
  note cond = k8s_conditions.unit_conditions [OF assms(1) st types]
  have ready: "cond_Status ?c1 = (if sst_Phase st = StoragePhaseReady then ConditionTrue else ConditionFalse)"
    unfolding phase using decision(2) by (simp add: statusConditionFromDecision_def)
  have 1: "\<exists>c. FindStatusCondition K (sst_Conditions st) ConditionReady = Some c \<and> cond_ObservedGeneration c = g
      \<and> cond_Status c = (if sst_Phase st = StoragePhaseReady then ConditionTrue else ConditionFalse)"
    using cond [of ?c1] ready by (auto simp: condition_types)
  have 2: "\<exists>c. FindStatusCondition K (sst_Conditions st) ConditionPrepared = Some c \<and> cond_ObservedGeneration c = g
      \<and> cond_Status c = (if pp_Ready prepare then ConditionTrue else ConditionFalse)"
    using cond [of ?c2] prepare_condition [OF pc, of g] by (auto simp: storage_condition_types)
  have 3: "\<exists>c. FindStatusCondition K (sst_Conditions st) ConditionAccessorReady = Some c \<and> cond_ObservedGeneration c = g
      \<and> cond_Status c = (if ap_Ready accessor then ConditionTrue else ConditionFalse)"
    using cond [of ?c3] accessor_condition [OF ac, of g] by (auto simp: storage_condition_types)
  show ?thesis unfolding fields(2,3) prep acc using 1 2 3 decision(1) fields(1) by simp
qed

theorem storage_status_consistent_witness:
  "sst_Phase (buildGPUStorageStatus ref_k8s 5 1 (sample_storage\<lparr>stor_Spec := (stor_Spec sample_storage)\<lparr>sspec_Accessor := \<lparr>ax_Enabled = False\<rparr>\<rparr>\<rparr>)
     (Some bound_claim) storagePrepareNotRequestedProgress (storageAccessorDisabledProgress False)) = StoragePhaseReady"
proof -
  let ?s = "sample_storage\<lparr>stor_Spec := (stor_Spec sample_storage)\<lparr>sspec_Accessor := \<lparr>ax_Enabled = False\<rparr>\<rparr>\<rparr>"
  have 1: "reconcileGPUStoragePrepare mem_env mem_cluster ?s bound_claim empty_world = (Inr storagePrepareNotRequestedProgress, empty_world)"
    by (simp add: reconcileGPUStoragePrepare_def sample_storage_def zero_prepare_def validateGPUStoragePrepareSpec_def
        isZeroControllerGPUStoragePrepare_def countNonEmpty_def bindC_def)
  have 2: "reconcileGPUStorageAccessor mem_cluster ?s bound_claim storagePrepareNotRequestedProgress empty_world
      = (Inr (storageAccessorDisabledProgress False), empty_world)"
    by (simp add: reconcileGPUStorageAccessor_def reconcileAbsentGPUStorageAccessor_def ensureGPUStorageAccessorAbsent_def
        delete_if_present_def mem_cluster_def mem_client_def valid_objs_def empty_world_def bindC_def tryC_def Let_def)
  show ?thesis using storage_status_consistent [OF ref_conditions.k8s_conditions_axioms 1 2 refl, of 5 1]
    by (simp add: buildGPUStorageStatus_def Let_def storagePrepareNotRequestedProgress_def newStoragePrepareProgress_def
        storageAccessorDisabledProgress_def newStorageAccessorProgress_def isGPUStorageClaimBound_def bound_claim_def storage_phase_defs)
qed

section \<open>Preparing once\<close>

text \<open>
  Content that was prepared from an image is not prepared again: once the status records the success of the current
  prepare contract, a run of the controller never creates another prepare job, and it reports the content as ready
  unless a job of that name is still there and says otherwise.
\<close>

theorem image_prepared_once:
  assumes "resource_store (stc_Jobs S) job_Meta jobs other"
    and "prep_FromStorageName (sspec_Prepare (stor_Spec s)) = []" "isGPUStorageClaimBound (Some pvc)"
    and "storagePrepareDigest (ste_Digest E) s = Inr (prepst_ObservedDigest (sst_Prepare (stor_Status s)))"
    and "prepst_Phase (sst_Prepare (stor_Status s)) = StoragePreparePhaseSucceeded"
    and "reconcileGPUStoragePrepare E S s pvc w = (r, w')"
  shows "jobs w' = jobs w \<and> (\<forall>p. r = Inr p \<longrightarrow> pp_Ready p \<or>
    (\<exists>job \<in> set (jobs w). obj_key job_Meta job = (stor_ns s, storagePrepareJobName (stor_name s) (prepst_ObservedDigest (sst_Prepare (stor_Status s))))
      \<and> \<not> 0 < job_Succeeded job))"
proof (cases "validateGPUStoragePrepareSpec (ste_K E) (stor_name s) (sspec_Prepare (stor_Spec s))")
  case (Inl e)
  then show ?thesis using assms(6) by (auto simp: reconcileGPUStoragePrepare_def)
next
  case valid: (Inr x)
  show ?thesis
  proof (cases "isZeroControllerGPUStoragePrepare (sspec_Prepare (stor_Spec s))")
    case True
    then show ?thesis using assms(6) valid by (auto simp: reconcileGPUStoragePrepare_def storagePrepareNotRequestedProgress_def
          newStoragePrepareProgress_def)
  next
    case False
    let ?dig = "prepst_ObservedDigest (sst_Prepare (stor_Status s))"
    obtain p0 where new: "newStoragePrepareJobProgress (ste_Digest E) s = Inr p0" using assms(4) by (simp add: newStoragePrepareJobProgress_def)
    have p0: "pp_Digest p0 = ?dig" "pp_JobName p0 = storagePrepareJobName (stor_name s) ?dig" using new_job_progress [OF new] assms(4) by simp_all
    obtain q v where get: "rs_Get (stc_Jobs S) (stor_ns s) (pp_JobName p0) w = (q, v)" by fastforce
    have run: "reconcileGPUStoragePrepareJobState S s pvc [] p0 w = (r, w')"
      using assms(2,3,6) False valid new by (simp add: reconcileGPUStoragePrepare_def resolveGPUStoragePrepareSource_def)
    have v: "w' = v" and r: "r = (case q of Inr job \<Rightarrow> Inr (storagePrepareProgressFromJob s p0 job)
        | Inl e \<Rightarrow> if IsNotFound e then Inr (storagePrepareSucceededProgress s p0) else Inl e)"
      using run get p0(1) assms(5) by (auto simp: reconcileGPUStoragePrepareJobState_def bindC_def tryC_def split: sum.splits if_splits)
    have "jobs w' = jobs w" using keepsD [OF resource_store.read_keeps(2) [OF assms(1)] get] v by simp
    moreover have "pp_Ready p \<or> (\<exists>job \<in> set (jobs w). obj_key job_Meta job = (stor_ns s, storagePrepareJobName (stor_name s) ?dig) \<and> \<not> 0 < job_Succeeded job)"
      if "r = Inr p" for p
    proof (cases q)
      case (Inl e)
      then show ?thesis using that r by (auto simp: storagePrepareSucceededProgress_def split: if_splits)
    next
      case (Inr job)
      have "job \<in> set (jobs w) \<and> obj_key job_Meta job = (stor_ns s, pp_JobName p0)"
        using resource_store.get_ok [OF assms(1)] get Inr by blast
      then show ?thesis using that r Inr p0(2) by (auto simp: storagePrepareProgressFromJob_def storagePrepareSucceededProgress_def Let_def)
    qed
    ultimately show ?thesis by blast
  qed
qed

definition image_storage :: GPUStorage where
  "image_storage = sample_storage\<lparr>
     stor_Spec := (stor_Spec sample_storage)\<lparr>sspec_Prepare := zero_prepare\<lparr>prep_FromImage := ''img'', prep_Command := [''fetch'']\<rparr>\<rparr>,
     stor_Status := zero_storage_status\<lparr>sst_Prepare := \<lparr>prepst_Phase = StoragePreparePhaseSucceeded, prepst_JobName = [],
       prepst_ObservedDigest = ''0123456789ab'', prepst_RecoveryPhase = StorageRecoveryPhaseNone\<rparr>\<rparr>\<rparr>"

abbreviation image_run :: "storagePrepareProgress res \<times> int storage_world" where
  "image_run \<equiv> reconcileGPUStoragePrepare mem_env mem_cluster image_storage bound_claim empty_world"

lemma mem_jobs: "resource_store (stc_Jobs mem_cluster) job_Meta (\<lambda>w. valid_objs job_Meta (sw_Jobs w)) sw_PVCs"
  using mem_store [of sw_Jobs "\<lambda>xs w. w\<lparr>sw_Jobs := xs\<rparr>" sw_PVCs job_Meta] by (simp add: mem_cluster_def)

lemma image_sample:
  "prep_FromStorageName (sspec_Prepare (stor_Spec image_storage)) = []" "isGPUStorageClaimBound (Some bound_claim)"
  "storagePrepareDigest (ste_Digest mem_env) image_storage = Inr (prepst_ObservedDigest (sst_Prepare (stor_Status image_storage)))"
  "prepst_Phase (sst_Prepare (stor_Status image_storage)) = StoragePreparePhaseSucceeded"
  "\<not> isl (fst image_run)" "valid_objs job_Meta (sw_Jobs empty_world) = []"
  by code_simp+

theorem image_prepared_once_witness: "case fst image_run of Inr p \<Rightarrow> pp_Ready p | Inl _ \<Rightarrow> False"
proof -
  obtain p w where run: "image_run = (Inr p, w)" using image_sample(5) by (cases image_run; cases "fst image_run") simp_all
  then show ?thesis using image_prepared_once [OF mem_jobs image_sample(1-4) run] image_sample(6) by simp
qed

lemma status_irrelevant:
  "desiredGPUStoragePrepareJob (s\<lparr>stor_Status := st\<rparr>) = desiredGPUStoragePrepareJob s"
  "recoveryPhaseForPrepare (s\<lparr>stor_Status := st\<rparr>) = recoveryPhaseForPrepare s"
  by (simp_all add: recovery_nonce_def own_with_def desiredGPUStoragePrepareJob_def recoveryPhaseForPrepare_def fun_eq_iff)

section \<open>Where the preparation goes wrong\<close>

text \<open>
  A storage that was copied from another one is tied to its source for good: while the source is not ready, which a
  restart of the source's accessor is enough for, the copy is reported as pending whatever its own status says (its
  accessor is then removed), the success of the copy is lost from the status, and as soon as the source is ready
  again the controller creates the prepare job anew (the first one is removed five minutes after it finished), which
  copies the source over whatever the storage holds by then.
\<close>

theorem copied_storage_prepared_again:
  assumes spec: "prep_FromStorageName (sspec_Prepare (stor_Spec s)) = src" "src \<noteq> []"
      "validateGPUStoragePrepareSpec (ste_K E) (stor_name s) (sspec_Prepare (stor_Spec s)) = Inr ()"
      "\<not> isZeroControllerGPUStoragePrepare (sspec_Prepare (stor_Spec s))"
    and state: "isGPUStorageClaimBound (Some pvc)" "storagePrepareDigest (ste_Digest E) s = Inr dig"
    and away: "rs_Get (stc_Storages S) (stor_ns s) src w = (Inr source, w1)" "sst_Phase (stor_Status source) \<noteq> StoragePhaseReady"
    and back_again: "rs_Get (stc_Storages S) (stor_ns s) src w2 = (Inr source', w3)" "sst_Phase (stor_Status source') = StoragePhaseReady"
    and gone: "rs_Get (stc_Jobs S) (stor_ns s) (storagePrepareJobName (stor_name s) dig) w3 = (Inl e, w4)" "IsNotFound e"
  shows "\<exists>p q. reconcileGPUStoragePrepare E S s pvc w = (Inr p, w1) \<and> \<not> pp_Ready p
    \<and> (\<forall>now g a. reconcileGPUStoragePrepare E S (s\<lparr>stor_Status := buildGPUStorageStatus K now g s (Some pvc) p a\<rparr>) pvc w2 =
        bindC (own_with (stc_SetOwner S) (stor_Meta s) job_Meta (\<lambda>m ob. ob\<lparr>job_Meta := m\<rparr>) (desiredGPUStoragePrepareJob s (storagePrepareJobName (stor_name s) dig)
            (firstNonEmpty [meta_Name (pvc_Meta pvc), stor_name s]) (firstNonEmpty [sst_ClaimName (stor_Status source'), stor_name source'])))
          (\<lambda>job. bindC (rs_Create (stc_Jobs S) job) (\<lambda>_. returnC q)) w4)"
proof -
  obtain p0 where new: "newStoragePrepareJobProgress (ste_Digest E) s = Inr p0" using state(2) by (simp add: newStoragePrepareJobProgress_def)
  have p0: "pp_Digest p0 = dig" "pp_JobName p0 = storagePrepareJobName (stor_name s) dig" "pp_Phase p0 = StoragePreparePhasePending" "\<not> pp_Ready p0"
    using new_job_progress [OF new] state(2) by simp_all
  let ?p = "p0\<lparr>pp_Message := ''Waiting for source storage '' @ stor_name source @ '' to become ready.''\<rparr>"
  have run: "reconcileGPUStoragePrepare E S s pvc w = (Inr ?p, w1)"
    using spec state(1) new away by (simp add: reconcileGPUStoragePrepare_def resolveGPUStoragePrepareSource_def bindC_def tryC_def)
  have again: "reconcileGPUStoragePrepare E S (s\<lparr>stor_Status := st\<rparr>) pvc w2 =
      bindC (own_with (stc_SetOwner S) (stor_Meta s) job_Meta (\<lambda>m ob. ob\<lparr>job_Meta := m\<rparr>) (desiredGPUStoragePrepareJob s (storagePrepareJobName (stor_name s) dig)
            (firstNonEmpty [meta_Name (pvc_Meta pvc), stor_name s]) (firstNonEmpty [sst_ClaimName (stor_Status source'), stor_name source'])))
          (\<lambda>job. bindC (rs_Create (stc_Jobs S) job)
            (\<lambda>_. returnC (p0\<lparr>pp_Changed := True, pp_RecoveryPhase := recoveryPhaseForPrepare s (pp_Phase p0)\<rparr>))) w4"
    if "prepst_Phase (sst_Prepare st) \<noteq> StoragePreparePhaseSucceeded" for st
  proof -
    have same: "newStoragePrepareJobProgress (ste_Digest E) (s\<lparr>stor_Status := st\<rparr>) = Inr p0"
      using new by (simp add: newStoragePrepareJobProgress_def storagePrepareDigest_def recovery_nonce_def)
    have get: "tryC (rs_Get (stc_Jobs S) (stor_ns s) (pp_JobName p0)) w3 = (Inr (Inl e), w4)" using gone(1) p0(2) by (simp add: tryC_def)
    have src: "resolveGPUStoragePrepareSource S (s\<lparr>stor_Status := st\<rparr>) p0 w2 = (Inr (firstNonEmpty [sst_ClaimName (stor_Status source'), stor_name source'], p0, False), w3)"
      using spec(1,2) back_again by (simp add: resolveGPUStoragePrepareSource_def bindC_def tryC_def del: firstNonEmpty.simps)
    show ?thesis using spec(3,4) state(1) same src get gone(2) that p0(2)
      by (simp add: reconcileGPUStoragePrepare_def reconcileGPUStoragePrepareJobState_def Let_def status_irrelevant del: firstNonEmpty.simps)
  qed
  have "prepst_Phase (sst_Prepare (buildGPUStorageStatus K now g s (Some pvc) ?p a)) \<noteq> StoragePreparePhaseSucceeded" for now g a
    using p0(3) by (simp add: buildGPUStorageStatus_def Let_def storage_phase_defs)
  then show ?thesis using run again p0(4) by (intro exI [of _ ?p] exI conjI allI) (assumption, simp, rule again)
qed

text \<open>
  The name of the prepare job loses the digest of the prepare contract when the name of the storage is long: the job of
  another contract, or of a recovery, then has the name of the job that already ran.
\<close>

theorem prepare_job_name_loses_digest:
  assumes "47 \<le> length name"
  shows "storagePrepareJobName name d1 = storagePrepareJobName name d2"
proof -
  have "take 63 (''storage-prepare-'' @ name @ ''-'' @ d) = take 63 (''storage-prepare-'' @ name)" for d
  proof -
    have "length (''storage-prepare-'' @ name) \<ge> 63" using assms by simp
    then have "63 - length (''storage-prepare-'' @ name) = 0" by (rule diff_is_0_eq [THEN iffD2])
    then show ?thesis using take_append [of 63 "''storage-prepare-'' @ name" "''-'' @ d"] by (simp only: append_assoc take_0 append_Nil2)
  qed
  then show ?thesis using assms by (simp add: storagePrepareJobName_def clampName_def)
qed

end
