(* ===== verification/Controller_Pod.thy ===== *)
theory Controller_Pod
  imports Controller_Objects Controller_Status Worker_Sidecar
begin

text \<open>
  The pod of a unit (\<^verbatim>\<open>internal/controller/runtime_unit_helpers.go\<close>, with the claim and key helpers of
  \<^verbatim>\<open>unit_dra_helpers.go\<close> and \<^verbatim>\<open>unit_ssh_config_helpers.go\<close>): the runtime container, the SSH and serverless sidecars, the
  volumes, and the Deployment and Service around them. \<^verbatim>\<open>%q\<close> (\<^verbatim>\<open>strconv.Quote\<close>) and the hexadecimal SHA-256 of a
  string are fields of \<open>PodEnv\<close>.
\<close>

section \<open>Constants\<close>

definition RuntimeWorkerContainerName :: string where "RuntimeWorkerContainerName = ''runtime-worker''"
definition DefaultRuntimeImage :: string where "DefaultRuntimeImage = ''busybox:1.36''"
definition RuntimeCommandShell :: string where "RuntimeCommandShell = ''sh''"
definition RuntimeCommandShellFlag :: string where "RuntimeCommandShellFlag = ''-c''"
definition RuntimeCommandSleep :: string where "RuntimeCommandSleep = ''sleep 3600''"
definition EnvSpecName :: string where "EnvSpecName = ''SPEC_NAME''"
definition EnvUnitName :: string where "EnvUnitName = ''UNIT_NAME''"
definition EnvGPUCount :: string where "EnvGPUCount = ''GPU_COUNT''"
definition EnvMemoryLimit :: string where "EnvMemoryLimit = ''MEMORY_LIMIT''"
definition UnitDRAClaimName :: string where "UnitDRAClaimName = ''gpu''"
definition unitSSHAuthorizedKeysConfigKey :: string where "unitSSHAuthorizedKeysConfigKey = ''authorized_keys''"
definition unitSSHAuthorizedKeysVolumeName :: string where "unitSSHAuthorizedKeysVolumeName = ''ssh-authorized-keys''"
definition unitSSHAuthorizedKeysMountPath :: string where "unitSSHAuthorizedKeysMountPath = ''/ssh-keys''"
definition unitSSHAuthorizedKeysEnvName :: string where "unitSSHAuthorizedKeysEnvName = ''PUBLIC_KEY_FILE''"
definition unitSSHAuthorizedKeysDigestEnv :: string where "unitSSHAuthorizedKeysDigestEnv = ''SSH_AUTHORIZED_KEYS_HASH''"
definition unitSSHAuthorizedKeysDefaultMode :: int where "unitSSHAuthorizedKeysDefaultMode = 384"

record 'q PodEnv =
  pe_K :: "'q k8s"
  pe_ErrText :: "error \<Rightarrow> string"
  pe_Quote :: "string \<Rightarrow> string"
  pe_Sha256Hex :: "string \<Rightarrow> string"

section \<open>Data\<close>

record resolvedGPUUnitStorageMount =
  rsm_Mount :: GPUUnitStorageMount
  rsm_ClaimName :: string
  rsm_Ready :: bool

record 'q unitPodSpecParts =
  up_Containers :: "'q Container list"
  up_InitContainers :: "'q Container list"
  up_Volumes :: "'q Volume list"
  up_ResourceClaims :: "(string \<times> string) list"

abbreviation u_name :: "GPUUnit \<Rightarrow> string" where
  "u_name u \<equiv> meta_Name (unit_Meta u)"

abbreviation u_ns :: "GPUUnit \<Rightarrow> string" where
  "u_ns u \<equiv> meta_Namespace (unit_Meta u)"

section \<open>Device claims\<close>

definition unitDRAClaimName :: "GPUUnit \<Rightarrow> string" where
  "unitDRAClaimName u =
     (let claimName = TrimSpace (alloc_ClaimName (spec_Allocation (unit_Spec u)))
      in if claimName \<noteq> [] then claimName else GPUUnitNamePrefix @ u_name u @ ''-gpu'')"

definition unitDRAClaimRequestName :: "GPUUnit \<Rightarrow> string" where
  "unitDRAClaimRequestName u =
     (let requestName = TrimSpace (alloc_ClaimRequestName (spec_Allocation (unit_Spec u)))
      in if requestName \<noteq> [] then requestName else UnitDRAClaimRequestName)"

definition desiredDRAResourceClaims :: "GPUUnit \<Rightarrow> (string \<times> string) list" where
  "desiredDRAResourceClaims u = [(UnitDRAClaimName, unitDRAClaimName u)]"

section \<open>The runtime container\<close>

definition parseMemoryError :: "string \<Rightarrow> error \<Rightarrow> error" where
  "parseMemoryError memory e = Wrap (''parse memory %q: %w'', [FS memory]) e"

definition desiredUnitRuntimeResources :: "'q k8s \<Rightarrow> GPUUnit \<Rightarrow> 'q ResourceRequirements res" where
  "desiredUnitRuntimeResources K u =
     (let cpu = spec_CPU (unit_Spec u); memory = spec_Memory (unit_Spec u)
      in andThen (if cpu \<noteq> []
           then andThen (mapErr (Wrap (''parse cpu %q: %w'', [FS cpu])) (ParseQuantity K cpu)) (\<lambda>qty.
                  Inr (no_resources\<lparr>res_Requests := [(''cpu'', qty)], res_Limits := [(''cpu'', qty)]\<rparr>))
           else Inr no_resources) (\<lambda>resources.
         andThen (if memory \<noteq> []
           then andThen (mapErr (parseMemoryError memory) (ParseQuantity K memory)) (\<lambda>qty.
                  Inr (resources\<lparr>res_Requests := map_put ''memory'' qty (res_Requests resources),
                    res_Limits := map_put ''memory'' qty (res_Limits resources)\<rparr>))
           else Inr resources) (\<lambda>resources.
         Inr (resources\<lparr>res_Claims := [(UnitDRAClaimName, unitDRAClaimRequestName u)]\<rparr>))))"

definition defaultGPUUnitEnv :: "GPUUnit \<Rightarrow> (string \<times> string) list" where
  "defaultGPUUnitEnv u = [(EnvSpecName, spec_SpecName (unit_Spec u)), (EnvUnitName, u_name u),
     (EnvGPUCount, FormatInt (spec_GPU (unit_Spec u)) 10), (EnvMemoryLimit, spec_Memory (unit_Spec u))]"

definition defaultGPUUnitServerlessFrameworkEnv :: "(error \<Rightarrow> string) \<Rightarrow> GPUUnit \<Rightarrow> (string \<times> string) list" where
  "defaultGPUUnitServerlessFrameworkEnv errText u =
     (case resolveUnitServerlessSpec errText u of
        Inl _ \<Rightarrow> []
      | Inr spec \<Rightarrow> [(''SERVERLESS_REQUEST_ID'', sls_RequestID spec), (''SERVERLESS_WORKER_NAME'', u_name u),
          (''SERVERLESS_WORKER_NAMESPACE'', u_ns u), (''SERVERLESS_FRAMEWORK_SOCKET_PATH'', fw_SocketPath (sls_Framework spec)),
          (''SERVERLESS_FRAMEWORK_INVOKE_PATH'', fw_InvokePath (sls_Framework spec)),
          (''SERVERLESS_FRAMEWORK_HEALTH_PATH'', fw_HealthPath (sls_Framework spec))])"

definition port_protocol :: "GPUUnitPortSpec \<Rightarrow> string" where
  "port_protocol port = (if port_Protocol port = [] then ''TCP'' else port_Protocol port)"

definition desiredContainerPorts :: "GPUUnitPortSpec list \<Rightarrow> ContainerPort list" where
  "desiredContainerPorts ports = map (\<lambda>port. \<lparr>cp_Name = port_Name port, cp_ContainerPort = port_Port port,
     cp_Protocol = port_protocol port\<rparr>) ports"

definition desiredServicePorts :: "GPUUnitPortSpec list \<Rightarrow> ServicePort list" where
  "desiredServicePorts ports = map (\<lambda>port. \<lparr>sp_PortName = port_Name port, sp_Port = port_Port port,
     sp_TargetPort = port_Port port, sp_Protocol = port_protocol port\<rparr>) ports"

definition volumeNameForStorageMount :: "nat \<Rightarrow> string" where
  "volumeNameForStorageMount index = ''storage-'' @ FormatInt (int index) 10"

definition desiredStorageVolumeMounts :: "resolvedGPUUnitStorageMount list \<Rightarrow> VolumeMount list" where
  "desiredStorageVolumeMounts storageMounts = map (\<lambda>(i, mount). \<lparr>vm_Name = volumeNameForStorageMount i,
     vm_MountPath = mnt_MountPath (rsm_Mount mount), vm_ReadOnly = mnt_ReadOnly (rsm_Mount mount)\<rparr>) (enumerate 0 storageMounts)"

definition desiredStorageVolumes :: "resolvedGPUUnitStorageMount list \<Rightarrow> 'q Volume list" where
  "desiredStorageVolumes storageMounts = map (\<lambda>(i, mount). \<lparr>v_Name = volumeNameForStorageMount i,
     v_Source = ClaimVolume (rsm_ClaimName mount) (mnt_ReadOnly (rsm_Mount mount))\<rparr>) (enumerate 0 storageMounts)"

definition desiredUnitRuntimeVolumeMounts :: "resolvedGPUUnitStorageMount list \<Rightarrow> VolumeMount list" where
  "desiredUnitRuntimeVolumeMounts storageMounts = desiredStorageVolumeMounts storageMounts @ [desiredSharedMemoryVolumeMount]"

definition desiredUnitServerlessFrameworkSocketVolume :: "'q Volume" where
  "desiredUnitServerlessFrameworkSocketVolume = \<lparr>v_Name = ''serverless-framework-socket'', v_Source = EmptyDirVolume [] None\<rparr>"

definition desiredUnitServerlessFrameworkSocketVolumeMount :: VolumeMount where
  "desiredUnitServerlessFrameworkSocketVolumeMount = \<lparr>vm_Name = ''serverless-framework-socket'',
     vm_MountPath = DefaultServerlessFrameworkSocketDir, vm_ReadOnly = False\<rparr>"

definition runtime_command :: "GPUUnitTemplate \<Rightarrow> string list" where
  "runtime_command t = (if tpl_Command t = [] \<and> tpl_Args t = []
     then [RuntimeCommandShell, RuntimeCommandShellFlag, RuntimeCommandSleep] else tpl_Command t)"

definition desiredUnitRuntimeContainer :: "'q PodEnv \<Rightarrow> GPUUnit \<Rightarrow> resolvedGPUUnitStorageMount list \<Rightarrow> 'q Container res" where
  "desiredUnitRuntimeContainer E u storageMounts =
     andThen (desiredUnitRuntimeResources (pe_K E) u) (\<lambda>resources.
       let spec = unit_Spec u;
           container = zero_container\<lparr>c_Name := RuntimeWorkerContainerName,
             c_Image := firstNonEmpty [spec_Image spec, DefaultRuntimeImage], c_ImagePullPolicy := ''IfNotPresent'',
             c_Env := defaultGPUUnitEnv u @ map (\<lambda>e. (env_Name e, env_Value e)) (tpl_Envs (spec_Template spec)),
             c_Ports := desiredContainerPorts (tpl_Ports (spec_Template spec)), c_Resources := resources,
             c_SecurityContext := Some restrictedContainerSecurityContext,
             c_VolumeMounts := desiredUnitRuntimeVolumeMounts storageMounts,
             c_Command := runtime_command (spec_Template spec), c_Args := tpl_Args (spec_Template spec)\<rparr>
       in Inr (if unitServerlessEnabled (spec_Serverless spec)
               then container\<lparr>c_Env := c_Env container @ defaultGPUUnitServerlessFrameworkEnv (pe_ErrText E) u,
                      c_VolumeMounts := c_VolumeMounts container @ [desiredUnitServerlessFrameworkSocketVolumeMount]\<rparr>
               else container))"

section \<open>The serverless sidecar\<close>

definition asRestartableInitSidecar :: "'q Container \<Rightarrow> 'q Container" where
  "asRestartableInitSidecar container = container\<lparr>c_RestartPolicy := Some ''Always''\<rparr>"

definition sidecar_env :: "NATSConfig \<Rightarrow> WorkerSidecarConfig \<Rightarrow> GPUUnit \<Rightarrow> GPUUnitServerlessSpec \<Rightarrow> (string \<times> string) list" where
  "sidecar_env queueConfig workerConfig u spec =
     [(''SERVERLESS_NATS_URL'', nats_URL queueConfig), (''SERVERLESS_SUBJECT_PREFIX'', nats_SubjectPrefix queueConfig),
      (''SERVERLESS_STREAM_NAME'', nats_StreamName queueConfig), (''SERVERLESS_WORKER_NAME'', u_name u),
      (''SERVERLESS_WORKER_NAMESPACE'', u_ns u), (''SERVERLESS_REQUEST_ID'', sls_RequestID spec),
      (''SERVERLESS_WORKER_CONSUMER_NAME'', ''serverless-sidecar-'' @ u_name u),
      (''SERVERLESS_HEARTBEAT_INTERVAL'', wsc_HeartbeatInterval workerConfig),
      (''SERVERLESS_DISPATCH_MAX_DELIVER'', FormatInt (rp_MaxDeliver (wsc_DispatchRetry workerConfig)) 10),
      (''SERVERLESS_DISPATCH_BACKOFF'', join '','' (rp_Backoff (wsc_DispatchRetry workerConfig))),
      (''SERVERLESS_FRAMEWORK_SOCKET_PATH'', fw_SocketPath (sls_Framework spec)),
      (''SERVERLESS_FRAMEWORK_INVOKE_PATH'', fw_InvokePath (sls_Framework spec)),
      (''SERVERLESS_FRAMEWORK_HEALTH_PATH'', fw_HealthPath (sls_Framework spec)),
      (''SERVERLESS_SIDECAR_HEALTH_PORT'', FormatInt (wsc_HealthPort workerConfig) 10)]"

definition startup_probe :: "ProbeHandler \<Rightarrow> Probe" where
  "startup_probe handler = \<lparr>probe_Handler = handler, probe_PeriodSeconds = 1, probe_FailureThreshold = 30\<rparr>"

definition desiredUnitServerlessSidecar :: "'q PodEnv \<Rightarrow> GPUUnit \<Rightarrow> NATSConfig \<Rightarrow> WorkerSidecarConfig \<Rightarrow> 'q Container list res" where
  "desiredUnitServerlessSidecar E u queueConfig workerConfig =
     andThen (resolveUnitServerlessSpec (pe_ErrText E) u) (\<lambda>spec.
       if \<not> sls_Enabled spec then Inr []
       else if \<not> NATSConfig_Enabled queueConfig
       then Inl (ErrorText (msg ''serverless queue is not configured but spec.serverless is enabled''))
       else andThen (WorkerSidecarConfig_Normalized workerConfig) (\<lambda>workerConfig.
            andThen (NATSConfig_Normalized (pe_K E) queueConfig) (\<lambda>queueConfig.
              Inr [asRestartableInitSidecar (zero_container\<lparr>c_Name := ServerlessSidecarContainerName,
                c_Image := wsc_Image workerConfig, c_ImagePullPolicy := ''IfNotPresent'',
                c_SecurityContext := Some restrictedContainerSecurityContext, c_Env := sidecar_env queueConfig workerConfig u spec,
                c_VolumeMounts := [desiredUnitServerlessFrameworkSocketVolumeMount],
                c_StartupProbe := Some (startup_probe (HTTPGetAction ''/healthz'' (wsc_HealthPort workerConfig)))\<rparr>)])))"

section \<open>The SSH sidecars\<close>

definition unitSSHAuthorizedKeysConfigMapName :: "string \<Rightarrow> string" where
  "unitSSHAuthorizedKeysConfigMapName instanceName = prefixedRuntimeName ''ssh-keys-'' instanceName"

definition unitSSHAuthorizedKeysFilePath :: string where
  "unitSSHAuthorizedKeysFilePath = unitSSHAuthorizedKeysMountPath @ ''/'' @ unitSSHAuthorizedKeysConfigKey"

definition newline :: string where "newline = [CHR 0x0A]"

definition unitSSHAuthorizedKeysDigest :: "(string \<Rightarrow> string) \<Rightarrow> GPUUnitSSHSpec \<Rightarrow> string" where
  "unitSSHAuthorizedKeysDigest sha256Hex sshSpec = sha256Hex (join newline (ssh_AuthorizedKeys sshSpec))"

definition desiredUnitSSHVolumeMounts :: "resolvedGPUUnitStorageMount list \<Rightarrow> VolumeMount list" where
  "desiredUnitSSHVolumeMounts storageMounts =
     [\<lparr>vm_Name = ''ssh-config'', vm_MountPath = ''/config'', vm_ReadOnly = False\<rparr>,
      \<lparr>vm_Name = unitSSHAuthorizedKeysVolumeName, vm_MountPath = unitSSHAuthorizedKeysMountPath, vm_ReadOnly = True\<rparr>]
     @ desiredStorageVolumeMounts storageMounts"

definition desiredUnitSSHServerSidecar :: "(string \<Rightarrow> string) \<Rightarrow> GPUUnitSSHSpec \<Rightarrow> resolvedGPUUnitStorageMount list \<Rightarrow> 'q Container" where
  "desiredUnitSSHServerSidecar sha256Hex sshSpec storageMounts = zero_container\<lparr>c_Name := UnitSSHContainerName,
     c_Image := ssh_Image sshSpec, c_ImagePullPolicy := ''IfNotPresent'',
     c_Env := [(''PUID'', ''1000''), (''PGID'', ''1000''), (''TZ'', ''Etc/UTC''),
       (unitSSHAuthorizedKeysEnvName, unitSSHAuthorizedKeysFilePath),
       (unitSSHAuthorizedKeysDigestEnv, unitSSHAuthorizedKeysDigest sha256Hex sshSpec), (''USER_NAME'', ssh_Username sshSpec),
       (''PASSWORD_ACCESS'', ''false''), (''SUDO_ACCESS'', ''false''), (''LOG_STDOUT'', ''true'')],
     c_SecurityContext := Some restrictedContainerSecurityContext,
     c_Ports := [\<lparr>cp_Name = ''ssh'', cp_ContainerPort = ssh_Port sshSpec, cp_Protocol = ''TCP''\<rparr>],
     c_StartupProbe := Some (startup_probe (TCPSocketAction (ssh_Port sshSpec))),
     c_VolumeMounts := desiredUnitSSHVolumeMounts storageMounts\<rparr>"

text \<open>The lines of the client's configuration file and the script that writes it.\<close>

definition frp_lines :: "(string \<Rightarrow> string) \<Rightarrow> GPUUnit \<Rightarrow> GPUUnitSSHSpec \<Rightarrow> string list" where
  "frp_lines quote u sshSpec =
     [''serverAddr = '' @ quote (ssh_ServerAddr sshSpec), ''serverPort = '' @ FormatInt (ssh_ServerPort sshSpec) 10]
     @ (if TrimSpace (ssh_Token sshSpec) \<noteq> []
        then [''auth.method = '' @ [CHR 0x22] @ ''token'' @ [CHR 0x22], ''auth.token = '' @ quote (ssh_Token sshSpec)] else [])
     @ [[], ''[[proxies]]'', ''name = '' @ quote (sshProxyNameForUnit u sshSpec), ''type = '' @ [CHR 0x22] @ ''tcpmux'' @ [CHR 0x22],
        ''multiplexer = '' @ [CHR 0x22] @ ''httpconnect'' @ [CHR 0x22],
        ''customDomains = ['' @ quote (sshTargetHostForUnit u sshSpec) @ '']'', ''localIP = '' @ [CHR 0x22] @ ''127.0.0.1'' @ [CHR 0x22],
        ''localPort = '' @ FormatInt (ssh_Port sshSpec) 10]"

definition desiredUnitSSHFRPConfig :: "(string \<Rightarrow> string) \<Rightarrow> GPUUnit \<Rightarrow> GPUUnitSSHSpec \<Rightarrow> string" where
  "desiredUnitSSHFRPConfig quote u sshSpec =
     ''cat <<'' @ [CHR 0x27] @ ''EOF'' @ [CHR 0x27] @ '' >/tmp/frpc.toml'' @ newline @ join newline (frp_lines quote u sshSpec)
       @ newline @ ''EOF'' @ newline @ ''exec frpc -c /tmp/frpc.toml''"

definition desiredUnitSSHFRPSidecar :: "(string \<Rightarrow> string) \<Rightarrow> GPUUnit \<Rightarrow> GPUUnitSSHSpec \<Rightarrow> 'q Container" where
  "desiredUnitSSHFRPSidecar quote u sshSpec = zero_container\<lparr>c_Name := UnitSSHFRPContainerName, c_Image := ssh_FRPImage sshSpec,
     c_ImagePullPolicy := ''IfNotPresent'', c_SecurityContext := Some restrictedContainerSecurityContext,
     c_Command := [''sh'', ''-c''], c_Args := [desiredUnitSSHFRPConfig quote u sshSpec]\<rparr>"

definition desiredUnitSSHConfigVolume :: "'q Volume" where
  "desiredUnitSSHConfigVolume = \<lparr>v_Name = ''ssh-config'', v_Source = EmptyDirVolume [] None\<rparr>"

definition desiredUnitSSHAuthorizedKeysVolume :: "string \<Rightarrow> 'q Volume" where
  "desiredUnitSSHAuthorizedKeysVolume instanceName = \<lparr>v_Name = unitSSHAuthorizedKeysVolumeName,
     v_Source = ConfigMapVolume (unitSSHAuthorizedKeysConfigMapName instanceName) unitSSHAuthorizedKeysDefaultMode
       [(unitSSHAuthorizedKeysConfigKey, unitSSHAuthorizedKeysConfigKey)]\<rparr>"

definition desiredUnitSSHSidecars :: "'q PodEnv \<Rightarrow> GPUUnit \<Rightarrow> resolvedGPUUnitStorageMount list \<Rightarrow> ('q Container list \<times> 'q Volume list) res" where
  "desiredUnitSSHSidecars E u storageMounts =
     andThen (resolveUnitSSHSpec (pe_K E) u) (\<lambda>sshSpec.
       Inr ([asRestartableInitSidecar (desiredUnitSSHServerSidecar (pe_Sha256Hex E) sshSpec storageMounts),
             asRestartableInitSidecar (desiredUnitSSHFRPSidecar (pe_Quote E) u sshSpec)],
            [desiredUnitSSHConfigVolume, desiredUnitSSHAuthorizedKeysVolume (u_name u)]))"

section \<open>The pod and its objects\<close>

definition desiredUnitPodSpecParts :: "'q PodEnv \<Rightarrow> GPUUnit \<Rightarrow> resolvedGPUUnitStorageMount list \<Rightarrow> NATSConfig \<Rightarrow> WorkerSidecarConfig
    \<Rightarrow> 'q unitPodSpecParts res" where
  "desiredUnitPodSpecParts E u storageMounts queueConfig workerConfig =
     andThen (desiredUnitRuntimeContainer E u storageMounts) (\<lambda>runtimeContainer.
     andThen (mapErr (parseMemoryError (spec_Memory (unit_Spec u))) (desiredSharedMemoryVolume (pe_K E) (spec_Memory (unit_Spec u)))) (\<lambda>sharedMemoryVolume.
     let parts = \<lparr>up_Containers = [runtimeContainer], up_InitContainers = [],
           up_Volumes = desiredStorageVolumes storageMounts @ [sharedMemoryVolume], up_ResourceClaims = desiredDRAResourceClaims u\<rparr>
     in andThen (if controllerLifecycleForUnit u = LifecycleInstance \<and> unitServerlessEnabled (spec_Serverless (unit_Spec u))
          then andThen (desiredUnitServerlessSidecar E u queueConfig workerConfig) (\<lambda>sidecars.
                 Inr (parts\<lparr>up_Volumes := up_Volumes parts @ [desiredUnitServerlessFrameworkSocketVolume],
                   up_InitContainers := up_InitContainers parts @ sidecars\<rparr>))
          else Inr parts) (\<lambda>parts.
        if controllerLifecycleForUnit u \<noteq> LifecycleInstance \<or> \<not> ssh_Enabled (spec_SSH (unit_Spec u)) then Inr parts
        else andThen (desiredUnitSSHSidecars E u storageMounts) (\<lambda>(containers, volumes).
               Inr (parts\<lparr>up_InitContainers := up_InitContainers parts @ containers, up_Volumes := up_Volumes parts @ volumes\<rparr>)))))"

definition desiredUnitPodTemplate :: "'q PodEnv \<Rightarrow> GPUUnit \<Rightarrow> resolvedGPUUnitStorageMount list \<Rightarrow> NATSConfig \<Rightarrow> WorkerSidecarConfig
    \<Rightarrow> 'q PodTemplateSpec res" where
  "desiredUnitPodTemplate E u storageMounts queueConfig workerConfig =
     andThen (desiredUnitPodSpecParts E u storageMounts queueConfig workerConfig) (\<lambda>parts.
       Inr \<lparr>pt_Labels = unitPodLabels u, pt_Spec = \<lparr>ps_RestartPolicy = [], ps_Containers = up_Containers parts,
         ps_InitContainers = up_InitContainers parts, ps_Volumes = up_Volumes parts, ps_ResourceClaims = up_ResourceClaims parts\<rparr>\<rparr>)"

definition desiredUnitDeployment :: "'q PodEnv \<Rightarrow> GPUUnit \<Rightarrow> resolvedGPUUnitStorageMount list \<Rightarrow> NATSConfig \<Rightarrow> WorkerSidecarConfig
    \<Rightarrow> 'q Deployment res" where
  "desiredUnitDeployment E u storageMounts queueConfig workerConfig =
     andThen (desiredUnitPodTemplate E u storageMounts queueConfig workerConfig) (\<lambda>template.
       Inr \<lparr>dep_Meta = \<lparr>meta_Name = deploymentNameForUnit (u_name u), meta_Namespace = u_ns u, meta_Labels = unitObjectLabels u,
           meta_Annotations = []\<rparr>,
         dep_Replicas = Some 1, dep_Selector = [(LabelUnitKey, u_name u)], dep_Template = template, dep_AvailableReplicas = 0\<rparr>)"

definition desiredGPUUnitService :: "GPUUnit \<Rightarrow> ServicePort list \<Rightarrow> KubeService" where
  "desiredGPUUnitService u ports = \<lparr>ks_Meta = \<lparr>meta_Name = serviceNameForUnit (u_name u), meta_Namespace = u_ns u,
       meta_Labels = unitObjectLabels u, meta_Annotations = []\<rparr>,
     ks_Type = ''ClusterIP'', ks_Selector = [(LabelUnitKey, u_name u)], ks_Ports = ports\<rparr>"

end
