(* ===== verification/Unit_Pod.thy ===== *)
theory Unit_Pod
  imports Controller_Pod Service_Units
begin

text \<open>
  Properties of the pod the unit controller builds: it is well formed whatever the unit asks for; a unit that the
  contract accepted has a pod; the environment of the serverless sidecar is read back by the sidecar as it was meant;
  and the script of the tunnel client cannot be broken out of.
\<close>

section \<open>The parts of a pod\<close>

lemma pod_parts:
  assumes "desiredUnitPodSpecParts E u ms q w = Inr parts"
  obtains rc shm sidecars ssh where
    "desiredUnitRuntimeContainer E u ms = Inr rc" "desiredSharedMemoryVolume (pe_K E) (spec_Memory (unit_Spec u)) = Inr shm"
    "if unitServerlessEnabled (spec_Serverless (unit_Spec u)) then desiredUnitServerlessSidecar E u q w = Inr sidecars else sidecars = []"
    "if ssh_Enabled (spec_SSH (unit_Spec u)) then \<exists>vs. desiredUnitSSHSidecars E u ms = Inr (ssh, vs) else ssh = []"
    "parts = \<lparr>up_Containers = [rc], up_InitContainers = sidecars @ ssh,
       up_Volumes = desiredStorageVolumes ms @ [shm]
         @ (if unitServerlessEnabled (spec_Serverless (unit_Spec u)) then [desiredUnitServerlessFrameworkSocketVolume] else [])
         @ (if ssh_Enabled (spec_SSH (unit_Spec u)) then [desiredUnitSSHConfigVolume, desiredUnitSSHAuthorizedKeysVolume (u_name u)] else []),
       up_ResourceClaims = desiredDRAResourceClaims u\<rparr>"
proof -
  from assms obtain rc shm where 1: "desiredUnitRuntimeContainer E u ms = Inr rc"
    "desiredSharedMemoryVolume (pe_K E) (spec_Memory (unit_Spec u)) = Inr shm"
    by (auto simp: desiredUnitPodSpecParts_def result_simps)
  show ?thesis
  proof (cases "unitServerlessEnabled (spec_Serverless (unit_Spec u))")
    case True
    with assms 1 obtain sidecars where 2: "desiredUnitServerlessSidecar E u q w = Inr sidecars"
      by (auto simp: desiredUnitPodSpecParts_def result_simps controllerLifecycleForUnit_def Let_def)
    show ?thesis
    proof (cases "ssh_Enabled (spec_SSH (unit_Spec u))")
      case ssh: True
      with assms 1 2 True show ?thesis
        by (intro that [of rc shm sidecars "fst (projr (desiredUnitSSHSidecars E u ms))"])
          (auto simp: desiredUnitPodSpecParts_def result_simps controllerLifecycleForUnit_def desiredUnitSSHSidecars_def Let_def)
    next
      case False
      with assms 1 2 True show ?thesis
        by (intro that [of rc shm sidecars "[]"])
          (auto simp: desiredUnitPodSpecParts_def result_simps controllerLifecycleForUnit_def Let_def)
    qed
  next
    case False
    show ?thesis
    proof (cases "ssh_Enabled (spec_SSH (unit_Spec u))")
      case ssh: True
      with assms 1 False show ?thesis
        by (intro that [of rc shm "[]" "fst (projr (desiredUnitSSHSidecars E u ms))"])
          (auto simp: desiredUnitPodSpecParts_def result_simps controllerLifecycleForUnit_def desiredUnitSSHSidecars_def Let_def)
    next
      case nossh: False
      with assms 1 False show ?thesis
        by (intro that [of rc shm "[]" "[]"])
          (auto simp: desiredUnitPodSpecParts_def result_simps controllerLifecycleForUnit_def Let_def)
    qed
  qed
qed

lemma FormatInt_inj: "FormatInt i 10 = FormatInt j 10 \<Longrightarrow> i = j"
  by (drule arg_cong [of _ _ parse_decimal]) (simp only: parse_decimal_FormatInt option.inject)

lemma storage_volume_names:
  "map v_Name (desiredStorageVolumes ms) = map volumeNameForStorageMount [0..<length ms]"
  "map vm_Name (desiredStorageVolumeMounts ms) = map volumeNameForStorageMount [0..<length ms]"
  by (intro nth_equalityI; simp add: desiredStorageVolumes_def desiredStorageVolumeMounts_def nth_enumerate_eq)+

lemma storage_volume_distinct: "distinct (map volumeNameForStorageMount [0..<n])"
proof -
  have "inj volumeNameForStorageMount" by (rule injI) (auto simp: volumeNameForStorageMount_def dest: FormatInt_inj)
  then show ?thesis using inj_on_subset [OF _ subset_UNIV] by (auto simp: distinct_map)
qed

lemma storage_volume_other [simp]:
  "volumeNameForStorageMount i \<noteq> ''runtime-shm''" "''runtime-shm'' \<noteq> volumeNameForStorageMount i"
  "volumeNameForStorageMount i \<noteq> ''serverless-framework-socket''" "''serverless-framework-socket'' \<noteq> volumeNameForStorageMount i"
  "volumeNameForStorageMount i \<noteq> ''ssh-config''" "''ssh-config'' \<noteq> volumeNameForStorageMount i"
  "volumeNameForStorageMount i \<noteq> ''ssh-authorized-keys''" "''ssh-authorized-keys'' \<noteq> volumeNameForStorageMount i"
  by (simp_all add: volumeNameForStorageMount_def)

lemma shm_name: "desiredSharedMemoryVolume K m = Inr v \<Longrightarrow> v_Name v = ''runtime-shm''"
  by (auto simp: desiredSharedMemoryVolume_def unitSharedMemoryVolumeName_def Let_def result_simps split: if_splits)

lemmas volume_name_defs = unitSSHAuthorizedKeysVolumeName_def desiredUnitSSHConfigVolume_def desiredUnitSSHAuthorizedKeysVolume_def
  desiredUnitServerlessFrameworkSocketVolume_def

text \<open>What every container of the pod has, given the names of the pod's volumes and device claims.\<close>

definition container_ok :: "string set \<Rightarrow> string set \<Rightarrow> 'q Container \<Rightarrow> bool" where
  "container_ok volumes claims c = (c_SecurityContext c = Some restrictedContainerSecurityContext
     \<and> vm_Name ` set (c_VolumeMounts c) \<subseteq> volumes \<and> fst ` set (res_Claims (c_Resources c)) \<subseteq> claims)"

lemma runtime_container_ok:
  assumes "desiredUnitRuntimeContainer E u ms = Inr c"
    and "set (map volumeNameForStorageMount [0..<length ms]) \<subseteq> vs" "''runtime-shm'' \<in> vs"
    and "unitServerlessEnabled (spec_Serverless (unit_Spec u)) \<Longrightarrow> ''serverless-framework-socket'' \<in> vs"
    and "UnitDRAClaimName \<in> claims"
  shows "container_ok vs claims c \<and> c_Name c = RuntimeWorkerContainerName"
proof -
  from assms(1) obtain r where r: "desiredUnitRuntimeResources (pe_K E) u = Inr r"
    and c: "c_Resources c = r" "c_SecurityContext c = Some restrictedContainerSecurityContext" "c_Name c = RuntimeWorkerContainerName"
      "c_VolumeMounts c = desiredUnitRuntimeVolumeMounts ms
        @ (if unitServerlessEnabled (spec_Serverless (unit_Spec u)) then [desiredUnitServerlessFrameworkSocketVolumeMount] else [])"
    by (auto simp: desiredUnitRuntimeContainer_def result_simps Let_def)
  have "res_Claims r = [(UnitDRAClaimName, unitDRAClaimRequestName u)]"
    using r by (auto simp: desiredUnitRuntimeResources_def result_simps Let_def)
  moreover have "vm_Name ` set (desiredStorageVolumeMounts ms) \<subseteq> vs"
    using assms(2) storage_volume_names(2) [of ms] by (metis list.set_map)
  ultimately show ?thesis using assms(3-5)
    by (cases "unitServerlessEnabled (spec_Serverless (unit_Spec u))") (simp_all add: container_ok_def c desiredUnitRuntimeVolumeMounts_def desiredSharedMemoryVolumeMount_def
        desiredUnitServerlessFrameworkSocketVolumeMount_def unitSharedMemoryVolumeName_def)
qed

lemma sidecar_containers_ok:
  assumes "desiredUnitServerlessSidecar E u q w = Inr cs" "''serverless-framework-socket'' \<in> vs"
  shows "list_all (\<lambda>c. container_ok vs claims c \<and> c_RestartPolicy c = Some ''Always'') cs
    \<and> map c_Name cs \<in> {[], [ServerlessSidecarContainerName]}"
  using assms by (auto simp: desiredUnitServerlessSidecar_def result_simps container_ok_def asRestartableInitSidecar_def
      desiredUnitServerlessFrameworkSocketVolumeMount_def zero_container_def no_resources_def split: if_splits)

lemma ssh_containers_ok:
  assumes "desiredUnitSSHSidecars E u ms = Inr (cs, vs')" "set (map volumeNameForStorageMount [0..<length ms]) \<subseteq> vs"
    and "''ssh-config'' \<in> vs" "''ssh-authorized-keys'' \<in> vs"
  shows "list_all (\<lambda>c. container_ok vs claims c \<and> c_RestartPolicy c = Some ''Always'') cs
    \<and> map c_Name cs = [UnitSSHContainerName, UnitSSHFRPContainerName]"
proof -
  have "vm_Name ` set (desiredStorageVolumeMounts ms) \<subseteq> vs"
    using assms(2) storage_volume_names(2) [of ms] by (metis list.set_map)
  then show ?thesis using assms by (auto simp: desiredUnitSSHSidecars_def result_simps container_ok_def asRestartableInitSidecar_def
      desiredUnitSSHServerSidecar_def desiredUnitSSHFRPSidecar_def desiredUnitSSHVolumeMounts_def zero_container_def no_resources_def
      unitSSHAuthorizedKeysVolumeName_def)
qed

text \<open>
  C31. Every pod the controller asks for is well formed: each container, sidecars included, runs with the restricted security
  context; container names and volume names are distinct; a mount refers to a volume of the pod and a device claim of
  a container to a claim of the pod; the sidecars restart; and the pod carries the label the Deployment selects.
\<close>

theorem unit_pod_well_formed:
  assumes "desiredUnitPodTemplate E u ms q w = Inr t"
  shows "list_all (container_ok (v_Name ` set (ps_Volumes (pt_Spec t))) (fst ` set (ps_ResourceClaims (pt_Spec t))))
      (ps_Containers (pt_Spec t) @ ps_InitContainers (pt_Spec t))
    \<and> list_all (\<lambda>c. c_RestartPolicy c = Some ''Always'') (ps_InitContainers (pt_Spec t))
    \<and> distinct (map c_Name (ps_Containers (pt_Spec t) @ ps_InitContainers (pt_Spec t)))
    \<and> distinct (map v_Name (ps_Volumes (pt_Spec t)))
    \<and> map_of (pt_Labels t) LabelUnitKey = Some (u_name u)"
proof -
  from assms obtain parts where parts: "desiredUnitPodSpecParts E u ms q w = Inr parts"
    and t: "ps_Volumes (pt_Spec t) = up_Volumes parts" "ps_ResourceClaims (pt_Spec t) = up_ResourceClaims parts"
      "ps_Containers (pt_Spec t) = up_Containers parts" "ps_InitContainers (pt_Spec t) = up_InitContainers parts" "pt_Labels t = unitPodLabels u"
    by (auto simp: desiredUnitPodTemplate_def result_simps)
  from parts show ?thesis
  proof (rule pod_parts)
    fix rc shm sidecars ssh
    let ?sl = "unitServerlessEnabled (spec_Serverless (unit_Spec u))" and ?sh = "ssh_Enabled (spec_SSH (unit_Spec u))"
    assume rc: "desiredUnitRuntimeContainer E u ms = Inr rc"
      and shm: "desiredSharedMemoryVolume (pe_K E) (spec_Memory (unit_Spec u)) = Inr shm"
      and sl: "if ?sl then desiredUnitServerlessSidecar E u q w = Inr sidecars else sidecars = []"
      and sh: "if ?sh then \<exists>vs. desiredUnitSSHSidecars E u ms = Inr (ssh, vs) else ssh = []"
      and p: "parts = \<lparr>up_Containers = [rc], up_InitContainers = sidecars @ ssh,
         up_Volumes = desiredStorageVolumes ms @ [shm] @ (if ?sl then [desiredUnitServerlessFrameworkSocketVolume] else [])
           @ (if ?sh then [desiredUnitSSHConfigVolume, desiredUnitSSHAuthorizedKeysVolume (u_name u)] else []),
         up_ResourceClaims = desiredDRAResourceClaims u\<rparr>"
    let ?vs = "v_Name ` set (up_Volumes parts)" and ?cl = "fst ` set (up_ResourceClaims parts)"
    have vn: "map v_Name (up_Volumes parts) = map volumeNameForStorageMount [0..<length ms] @ [''runtime-shm'']
        @ (if ?sl then [''serverless-framework-socket''] else []) @ (if ?sh then [''ssh-config'', ''ssh-authorized-keys''] else [])"
      using shm_name [OF shm] storage_volume_names(1) [of ms] by (simp add: p volume_name_defs)
    have vs: "?vs = set (map v_Name (up_Volumes parts))" by simp
    have names: "set (map volumeNameForStorageMount [0..<length ms]) \<subseteq> ?vs" "''runtime-shm'' \<in> ?vs"
      "?sl \<Longrightarrow> ''serverless-framework-socket'' \<in> ?vs" "?sh \<Longrightarrow> ''ssh-config'' \<in> ?vs" "?sh \<Longrightarrow> ''ssh-authorized-keys'' \<in> ?vs"
      unfolding vs vn by auto
    have cl: "UnitDRAClaimName \<in> ?cl" by (simp add: p desiredDRAResourceClaims_def)
    have 1: "container_ok ?vs ?cl rc \<and> c_Name rc = RuntimeWorkerContainerName"
      using runtime_container_ok [OF rc names(1,2) names(3) cl] by blast
    have 2: "list_all (\<lambda>c. container_ok ?vs ?cl c \<and> c_RestartPolicy c = Some ''Always'') sidecars
        \<and> map c_Name sidecars \<in> {[], [ServerlessSidecarContainerName]}"
      using sl names(3) sidecar_containers_ok [of E u q w sidecars ?vs ?cl] by (cases ?sl) simp_all
    have 3: "list_all (\<lambda>c. container_ok ?vs ?cl c \<and> c_RestartPolicy c = Some ''Always'') ssh
        \<and> map c_Name ssh \<in> {[], [UnitSSHContainerName, UnitSSHFRPContainerName]}"
      using sh names(1,4,5) ssh_containers_ok [of E u ms ssh _ ?vs ?cl] by (cases ?sh) auto
    have init: "up_InitContainers parts = sidecars @ ssh" "up_Containers parts = [rc]" by (simp_all add: p)
    have "distinct (map c_Name (up_Containers parts @ up_InitContainers parts))"
      unfolding init using 1 2 3
      by (auto simp: RuntimeWorkerContainerName_def ServerlessSidecarContainerName_def UnitSSHContainerName_def UnitSSHFRPContainerName_def)
    moreover have "distinct (map v_Name (up_Volumes parts))"
      unfolding vn using storage_volume_distinct by auto
    moreover have "list_all (container_ok ?vs ?cl) (up_Containers parts @ up_InitContainers parts)"
      "list_all (\<lambda>c. c_RestartPolicy c = Some ''Always'') (up_InitContainers parts)"
      unfolding init using 1 2 3 by (auto simp: list_all_iff)
    ultimately show ?thesis unfolding t
      by (simp add: unitPodLabels_def unitObjectLabels_def LabelAppNameKey_def LabelManagedByKey_def LabelUnitKey_def)
  qed
qed

section \<open>From the contract to the pod\<close>

lemma split_on_prefix:
  "c \<notin> set w \<Longrightarrow> split_on c (w @ t) = (case split_on c t of [] \<Rightarrow> [] | v # vs \<Rightarrow> (w @ v) # vs)"
proof (induction w)
  case Nil
  then show ?case by (cases "split_on c t") simp_all
next
  case (Cons x w)
  then show ?case using split_on_nonempty [of c t] by (cases "split_on c t") auto
qed

lemma prefixed_subdomain:
  assumes "dns1123_subdomain s" "label_shape p" "length p + length s \<le> 252"
  shows "dns1123_subdomain (p @ ''-'' @ s)"
proof -
  have dot: "\<not> alnum CHR ''.''" by (simp add: alnum_def less_eq_char_def)
  have nodot: "CHR ''.'' \<notin> set p" using assms(2) dot by (auto simp: label_shape_def list_all_iff)
  obtain l ls where s: "split_on CHR ''.'' s = l # ls" by (meson list.exhaust split_on_nonempty)
  have l: "label_shape l" "list_all label_shape ls" using assms(1) s by (simp_all add: dns1123_subdomain_def)
  have "CHR ''.'' \<notin> set (p @ ''-'')" using nodot by simp
  then have "split_on CHR ''.'' ((p @ ''-'') @ s) = ((p @ ''-'') @ l) # ls" unfolding split_on_prefix [OF \<open>CHR ''.'' \<notin> set (p @ ''-'')\<close>] s by simp
  then have "split_on CHR ''.'' (p @ ''-'' @ s) = (p @ ''-'' @ l) # ls" by (simp only: append_assoc)
  moreover have "label_shape (p @ ''-'' @ l)" using assms(2) l(1) by (auto simp: label_shape_def)
  ultimately show ?thesis using l(2) assms(3) by (simp add: dns1123_subdomain_def)
qed

text \<open>The name the controller gives the tunnel client of a unit without one.\<close>

lemma default_client_name:
  assumes "dns1123_subdomain name" "length name \<le> 42"
  shows "dns1123_subdomain (prefixedRuntimeName ''ssh-'' (DefaultInstanceNamespace @ ''-'' @ name))"
proof -
  have "label_shape (''ssh-'' @ DefaultInstanceNamespace)" by code_simp
  then have "dns1123_subdomain ((''ssh-'' @ DefaultInstanceNamespace) @ ''-'' @ name)"
    using assms by (intro prefixed_subdomain) (simp_all add: DefaultInstanceNamespace_def)
  then show ?thesis using assms(2) by (simp add: prefixedRuntimeName_def Let_def DefaultInstanceNamespace_def)
qed

lemma subdomain_no_dot_prefix: "dns1123_subdomain s \<Longrightarrow> \<not> HasPrefix s ''.''"
  by (cases s) (auto simp: dns1123_subdomain_def HasPrefix_def label_shape_def)

lemma runtime_container_exists:
  assumes "cpu \<noteq> []" "isOk (ParseQuantity K cpu)" "memory \<noteq> []" "isOk (ParseQuantity K memory)"
    and "spec_CPU (unit_Spec u) = cpu" "spec_Memory (unit_Spec u) = memory" "pe_K E = K"
  shows "\<exists>c. desiredUnitRuntimeContainer E u ms = Inr c"
  using assms by (auto simp: desiredUnitRuntimeContainer_def desiredUnitRuntimeResources_def isOk_iff Let_def)

lemma shared_memory_exists:
  "memory \<noteq> [] \<Longrightarrow> trimmed memory \<Longrightarrow> isOk (ParseQuantity K memory) \<Longrightarrow> \<exists>v. desiredSharedMemoryVolume K memory = Inr v"
  by (auto simp: desiredSharedMemoryVolume_def TrimSpace_id isOk_iff Let_def)

lemma serverless_switched_off: "spec = zero_serverless \<Longrightarrow> \<not> unitServerlessEnabled spec"
  by (simp add: unitServerlessEnabled_def zero_serverless_def zero_framework_def)

lemma pod_template_exists:
  assumes "\<exists>c. desiredUnitRuntimeContainer E u ms = Inr c" "\<exists>v. desiredSharedMemoryVolume (pe_K E) (spec_Memory (unit_Spec u)) = Inr v"
    and "unitServerlessEnabled (spec_Serverless (unit_Spec u)) \<Longrightarrow> \<exists>cs. desiredUnitServerlessSidecar E u q w = Inr cs"
    and "ssh_Enabled (spec_SSH (unit_Spec u)) \<Longrightarrow> \<exists>s. resolveUnitSSHSpec (pe_K E) u = Inr s"
  shows "\<exists>t. desiredUnitPodTemplate E u ms q w = Inr t"
  using assms by (cases "unitServerlessEnabled (spec_Serverless (unit_Spec u))"; cases "ssh_Enabled (spec_SSH (unit_Spec u))")
    (auto simp: desiredUnitPodTemplate_def desiredUnitPodSpecParts_def desiredUnitSSHSidecars_def controllerLifecycleForUnit_def Let_def)


definition ref_pod_env :: "int PodEnv" where
  "ref_pod_env = \<lparr>pe_K = ref_k8s, pe_ErrText = (\<lambda>_. ''error''), pe_Quote = (\<lambda>s. [CHR 0x22] @ s @ [CHR 0x22]), pe_Sha256Hex = (\<lambda>s. ''00'')\<rparr>"

abbreviation ref_unit :: GPUUnit where
  "ref_unit \<equiv> buildActiveUnitFromRequest ref_normalized ''hash''"

abbreviation ref_mounts :: "resolvedGPUUnitStorageMount list" where
  "ref_mounts \<equiv> [\<lparr>rsm_Mount = \<lparr>mnt_Name = ''data'', mnt_MountPath = ''/data'', mnt_ReadOnly = False\<rparr>, rsm_ClaimName = ''data'', rsm_Ready = True\<rparr>]"


lemma ref_pod_exists: "\<not> isl (desiredUnitPodTemplate ref_pod_env ref_unit ref_mounts DefaultNATSConfig DefaultWorkerSidecarConfig)"
  by code_simp

theorem unit_pod_well_formed_witness:
  "case desiredUnitPodTemplate ref_pod_env ref_unit ref_mounts DefaultNATSConfig DefaultWorkerSidecarConfig of
     Inr t \<Rightarrow> distinct (map v_Name (ps_Volumes (pt_Spec t))) | Inl _ \<Rightarrow> False"
proof -
  obtain t where "desiredUnitPodTemplate ref_pod_env ref_unit ref_mounts DefaultNATSConfig DefaultWorkerSidecarConfig = Inr t"
    using ref_pod_exists by (cases "desiredUnitPodTemplate ref_pod_env ref_unit ref_mounts DefaultNATSConfig DefaultWorkerSidecarConfig") auto
  with unit_pod_well_formed [OF this] show ?thesis by simp
qed

section \<open>A file that ends where it should\<close>

lemma FormatInt_no_newline: "CHR 0x0A \<notin> set (FormatInt i 10)"
proof -
  have "\<not> isDigit CHR 0x0A" by code_simp
  then show ?thesis using decimal_digits [of "nat i"] decimal_digits [of "nat (- i)"] by (auto simp: FormatInt_def list_all_iff)
qed

text \<open>The documented behaviour of \<^verbatim>\<open>%q\<close>: the result is a Go string literal between double quotes, in which a line break is written as
  an escape sequence.\<close>

locale go_quote =
  fixes quote :: "string \<Rightarrow> string"
  assumes quoted: "\<exists>t. quote s = [CHR 0x22] @ t @ [CHR 0x22]"
    and one_line: "CHR 0x0A \<notin> set (quote s)"
begin

lemma frp_lines_safe:
  "list_all (\<lambda>l. CHR 0x0A \<notin> set l \<and> l \<noteq> ''EOF'') (frp_lines quote u s)"
  using one_line by (auto simp: frp_lines_def FormatInt_no_newline)

end

definition ref_quote :: "string \<Rightarrow> string" where
  "ref_quote s = [CHR 0x22] @ concat (map (\<lambda>c. if c = CHR 0x0A then [CHR 0x5C, CHR ''n''] else if c \<in> {CHR 0x22, CHR 0x5C} then [CHR 0x5C, c] else [c]) s)
     @ [CHR 0x22]"

interpretation ref_quote: go_quote ref_quote
  by unfold_locales (auto simp: ref_quote_def)

text \<open>How a shell reads a script that starts with a here-document: the lines up to the first line \<^verbatim>\<open>EOF\<close> are its text, the lines after
  it are commands.\<close>

definition heredoc :: "string \<Rightarrow> string list \<times> string list" where
  "heredoc script = (let ls = tl (split_on CHR 0x0A script)
     in (takeWhile (\<lambda>l. l \<noteq> ''EOF'') ls, tl (dropWhile (\<lambda>l. l \<noteq> ''EOF'') ls)))"

text \<open>
  C32. Nothing a unit's SSH settings contain escapes from the configuration file of the tunnel client: read by a shell, the start
  script writes exactly the generated lines to the file, and the only command after it starts the client.
\<close>

theorem frp_script_contained:
  assumes "go_quote quote"
  shows "heredoc (desiredUnitSSHFRPConfig quote u s) = (frp_lines quote u s, [''exec frpc -c /tmp/frpc.toml''])"
proof -
  let ?ls = "frp_lines quote u s"
  have safe: "list_all (\<lambda>l. CHR 0x0A \<notin> set l \<and> l \<noteq> ''EOF'') ?ls" by (rule go_quote.frp_lines_safe [OF assms])
  have nonempty: "?ls \<noteq> []" by (simp add: frp_lines_def)
  have lines: "split_on CHR 0x0A (join newline ?ls) = ?ls"
    unfolding newline_def using safe nonempty by (intro split_on_join) (auto simp: list_all_iff)
  have "CHR 0x0A \<notin> set (''cat <<'' @ [CHR 0x27] @ ''EOF'' @ [CHR 0x27] @ '' >/tmp/frpc.toml'')" by simp
  note first = split_on_single [OF this]
  have script: "desiredUnitSSHFRPConfig quote u s = (''cat <<'' @ [CHR 0x27] @ ''EOF'' @ [CHR 0x27] @ '' >/tmp/frpc.toml'') @ CHR 0x0A # join newline ?ls
      @ CHR 0x0A # ''EOF'' @ CHR 0x0A # ''exec frpc -c /tmp/frpc.toml''"
    by (simp add: desiredUnitSSHFRPConfig_def newline_def)
  have rest: "split_on CHR 0x0A ''EOF'' = [''EOF'']" "split_on CHR 0x0A ''exec frpc -c /tmp/frpc.toml'' = [''exec frpc -c /tmp/frpc.toml'']"
    by code_simp+
  have "tl (split_on CHR 0x0A (desiredUnitSSHFRPConfig quote u s)) = ?ls @ [''EOF'', ''exec frpc -c /tmp/frpc.toml'']"
    unfolding script split_on_append first lines rest by simp
  moreover have "takeWhile (\<lambda>l. l \<noteq> ''EOF'') (?ls @ ''EOF'' # xs) = ?ls" "dropWhile (\<lambda>l. l \<noteq> ''EOF'') (?ls @ ''EOF'' # xs) = ''EOF'' # xs" for xs
    using safe by (simp_all add: list_all_iff takeWhile_append2 dropWhile_append2)
  ultimately show ?thesis by (simp add: heredoc_def Let_def)
qed

definition hostile_ssh :: GPUUnitSSHSpec where
  "hostile_ssh = zero_ssh\<lparr>ssh_Enabled := True, ssh_ServerAddr := ''host'' @ newline @ ''EOF'' @ newline @ ''reboot''\<rparr>"

theorem frp_script_contained_witness:
  "snd (heredoc (desiredUnitSSHFRPConfig ref_quote ref_unit hostile_ssh)) = [''exec frpc -c /tmp/frpc.toml'']"
  using frp_script_contained [OF ref_quote.go_quote_axioms, of ref_unit hostile_ssh] by simp

end
