(* ===== verification/Sidecar_Roundtrip.thy ===== *)
theory Sidecar_Roundtrip
  imports Unit_Pod
begin

text \<open>
  The controller configures a worker sidecar through environment variables (\<^verbatim>\<open>desiredUnitServerlessSidecar\<close>), and the sidecar
  reads them back (\<^verbatim>\<open>workersidecar.LoadConfigFromEnv\<close>): what it gets is what the controller meant. On the way, facts on
  what a duration can be written with and on numbers in decimal.
\<close>

section \<open>Durations and numbers as text\<close>

definition duration_chars :: "char set" where
  "duration_chars = {c. isDigit c} \<union> {CHR ''.'', CHR ''+'', CHR ''-'', CHR ''n'', CHR ''u'', CHR ''s'', CHR ''m'', CHR ''h'',
     CHR 0xC2, CHR 0xB5, CHR 0xCE, CHR 0xBC}"

lemma unit_chars: "unit_of u = Some n \<Longrightarrow> set u \<subseteq> duration_chars"
  by (auto simp: unit_of_def duration_chars_def split: if_splits)

lemma scan_fraction_split: "scan_fraction s = (fp, r) \<Longrightarrow> \<exists>d. s = d @ r \<and> set d \<subseteq> duration_chars"
proof (cases s)
  case (Cons c cs)
  assume f: "scan_fraction s = (fp, r)"
  show ?thesis
  proof (cases "c = CHR ''.''")
    case True
    have "set (takeWhile isDigit cs) \<subseteq> duration_chars" by (auto simp: duration_chars_def dest: set_takeWhileD)
    then show ?thesis using f Cons True
      by (intro exI [of _ "c # takeWhile isDigit cs"]) (auto simp: scan_fraction_def duration_chars_def)
  next
    case False
    then show ?thesis using f Cons by (simp add: scan_fraction_def)
  qed
qed (simp add: scan_fraction_def)

lemma component_split:
  assumes "parse_component s = Some (v, r)"
  shows "\<exists>d. s = d @ r \<and> set d \<subseteq> duration_chars"
proof -
  obtain fp s2 where f: "scan_fraction (dropWhile isDigit s) = (fp, s2)" by fastforce
  obtain d where d: "dropWhile isDigit s = d @ s2" "set d \<subseteq> duration_chars" using scan_fraction_split [OF f] by blast
  let ?u = "takeWhile (\<lambda>c. \<not> is_num_char c) s2"
  have r: "r = dropWhile (\<lambda>c. \<not> is_num_char c) s2" and u: "set ?u \<subseteq> duration_chars"
    using assms f unit_chars by (auto simp: parse_component_def Let_def split: if_splits option.splits)
  have "set (takeWhile isDigit s) \<subseteq> duration_chars" by (auto simp: duration_chars_def dest: set_takeWhileD)
  moreover have "s = (takeWhile isDigit s @ d @ ?u) @ r"
    unfolding r using d(1) by (metis append_assoc takeWhile_dropWhile_id)
  ultimately show ?thesis using d(2) u by (intro exI [of _ "takeWhile isDigit s @ d @ ?u"]) simp
qed

lemma components_chars: "parse_components d s = Some x \<Longrightarrow> set s \<subseteq> duration_chars"
proof (induction d s rule: parse_components.induct)
  case (1 d s)
  show ?case
  proof (cases "s = []")
    case False
    with "1.prems" obtain v r where c: "parse_component s = Some (v, r)" "\<not> d + v > max_int64 + 1" "parse_components (d + v) r = Some x"
      by (auto simp: parse_components.simps [of d s] split: option.splits if_splits)
    with False have "set r \<subseteq> duration_chars" using "1.IH" by blast
    then show ?thesis using component_split [OF c(1)] by auto
  qed simp
qed

lemma ParseDuration_chars:
  assumes "ParseDuration s = Some x"
  shows "s \<noteq> []" "set s \<subseteq> duration_chars"
proof -
  show "s \<noteq> []" using assms by (auto simp: ParseDuration_def)
  have zero: "set ''0'' \<subseteq> duration_chars" by (simp add: duration_chars_def isDigit_def less_eq_char_def)
  obtain c cs where s: "s = c # cs" using \<open>s \<noteq> []\<close> by (cases s) simp
  let ?t = "if c = CHR ''-'' \<or> c = CHR ''+'' then cs else s"
  have "?t = ''0'' \<or> (\<exists>d. parse_components 0 ?t = Some d)"
    using assms s by (auto simp: ParseDuration_def split: if_splits option.splits)
  then have t: "set ?t \<subseteq> duration_chars" using zero components_chars by (elim disjE exE) (simp only:, blast)
  moreover have "set s \<subseteq> insert CHR ''-'' (insert CHR ''+'' (set ?t))" unfolding s by (cases "c = CHR ''-'' \<or> c = CHR ''+''") auto
  moreover have "CHR ''-'' \<in> duration_chars" "CHR ''+'' \<in> duration_chars" by (simp_all add: duration_chars_def)
  ultimately show "set s \<subseteq> duration_chars" by blast
qed

lemma duration_char_other:
  "c \<in> duration_chars \<Longrightarrow> \<not> isSpace c \<and> c \<noteq> CHR '',''"
proof -
  have "\<not> isSpace c \<and> c \<noteq> CHR '',''" if "isDigit c" for c
    using that unfolding isDigit_def isSpace_code less_eq_char_def by auto
  moreover have "list_all (\<lambda>c. \<not> isSpace c \<and> c \<noteq> CHR '','') [CHR ''.'', CHR ''+'', CHR ''-'', CHR ''n'', CHR ''u'', CHR ''s'', CHR ''m'', CHR ''h'',
     CHR 0xC2, CHR 0xB5, CHR 0xCE, CHR 0xBC]" by code_simp
  ultimately show "c \<in> duration_chars \<Longrightarrow> \<not> isSpace c \<and> c \<noteq> CHR '',''" by (auto simp: duration_chars_def)
qed

lemma no_space_trimmed: "(\<And>c. c \<in> set s \<Longrightarrow> \<not> isSpace c) \<Longrightarrow> trimmed s"
  by (cases "s = []") (auto simp: trimmed_def trimmed_by_def)

lemma duration_trimmed: "ParseDuration s = Some x \<Longrightarrow> trimmed s"
  using ParseDuration_chars(2) duration_char_other by (intro no_space_trimmed) blast

lemma decimal_trimmed: "trimmed (FormatInt i 10)"
proof (rule no_space_trimmed)
  fix c assume "c \<in> set (FormatInt i 10)"
  then have "isDigit c \<or> c = CHR ''-''"
    using decimal_digits [of "nat i"] decimal_digits [of "nat (- i)"] by (auto simp: FormatInt_def list_all_iff split: if_splits)
  then have "c \<in> duration_chars" by (auto simp: duration_chars_def)
  then show "\<not> isSpace c" using duration_char_other by blast
qed

lemma Atoi_FormatInt: "- max_int64 - 1 \<le> i \<Longrightarrow> i \<le> max_int64 \<Longrightarrow> Atoi (TrimSpace (FormatInt i 10)) = Some i"
  by (simp add: Atoi_def TrimSpace_id [OF decimal_trimmed] parse_decimal_FormatInt)

section \<open>The retry policy\<close>

lemma kept_by_trim: "x \<in> set s \<Longrightarrow> \<not> P x \<Longrightarrow> x \<in> set (trim_by P s)"
proof -
  have dw: "x \<in> set (dropWhile P s)" if "x \<in> set s" "\<not> P x" for x P and s :: string
    using that by (induction s) auto
  then have "x \<in> set (trim_right P s)" if "x \<in> set s" "\<not> P x" for x P and s :: string
    using that dw [of x "rev s" P] by (simp add: trim_right_def)
  with dw show "x \<in> set s \<Longrightarrow> \<not> P x \<Longrightarrow> x \<in> set (trim_by P s)" by (simp add: trim_by_def)
qed

lemma backoff_no_comma: "backoff_ok v \<Longrightarrow> CHR '','' \<notin> set v"
proof
  assume "backoff_ok v" "CHR '','' \<in> set v"
  moreover have "\<not> isSpace CHR '',''" by code_simp
  ultimately have "CHR '','' \<in> set (TrimSpace v)" unfolding TrimSpace_def by (intro kept_by_trim)
  with \<open>backoff_ok v\<close> show False using ParseDuration_chars(2) duration_char_other by (fastforce simp: backoff_ok_def split: option.splits)
qed

lemma backoff_nonempty: "backoff_ok v \<Longrightarrow> TrimSpace v \<noteq> []"
  using ParseDuration_chars(1) by (auto simp: backoff_ok_def split: option.splits)

text \<open>A policy written to the two variables and read back: the entries lose the white space around them.\<close>

lemma retry_policy_env:
  assumes "wf_policy p" "rp_MaxDeliver p \<le> max_int64"
  shows "RetryPolicyFromEnv (FormatInt (rp_MaxDeliver p) 10) (join '','' (rp_Backoff p)) = p\<lparr>rp_Backoff := map TrimSpace (rp_Backoff p)\<rparr>"
proof -
  have ok: "list_all backoff_ok (rp_Backoff p)" "rp_Backoff p \<noteq> []" "1 \<le> rp_MaxDeliver p" using assms(1) by (simp_all add: wf_policy_def)
  have "split_on CHR '','' (join '','' (rp_Backoff p)) = rp_Backoff p"
    using ok(1,2) backoff_no_comma by (intro split_on_join) (auto simp: list_all_iff)
  moreover have "filter (\<lambda>t. t \<noteq> []) (map TrimSpace (rp_Backoff p)) = map TrimSpace (rp_Backoff p)"
    using ok(1) backoff_nonempty by (auto simp: list_all_iff filter_id_conv)
  ultimately have "SplitRetryBackoff (join '','' (rp_Backoff p)) = map TrimSpace (rp_Backoff p)" by (simp add: SplitRetryBackoff_def)
  moreover have "Atoi (TrimSpace (FormatInt (rp_MaxDeliver p) 10)) = Some (rp_MaxDeliver p)"
    using ok(3) assms(2) by (intro Atoi_FormatInt) (simp_all add: max_int64_def)
  ultimately show ?thesis using ok(2) by (cases p) (simp add: RetryPolicyFromEnv_def Let_def)
qed

lemma retry_policy_trimmed: "wf_policy p \<Longrightarrow> RetryPolicy_Normalized (p\<lparr>rp_Backoff := map TrimSpace (rp_Backoff p)\<rparr>) = Inr (p\<lparr>rp_Backoff := map TrimSpace (rp_Backoff p)\<rparr>)"
proof -
  let ?p = "p\<lparr>rp_Backoff := map TrimSpace (rp_Backoff p)\<rparr>"
  assume "wf_policy p"
  then have "wf_policy ?p" by (simp add: wf_policy_def list_all_iff backoff_ok_def)
  then show "RetryPolicy_Normalized ?p = Inr ?p" by (simp add: RetryPolicy_Normalized_Inr defaulted_id)
qed

lemma health_port_env:
  assumes "env ''SERVERLESS_SIDECAR_HEALTH_PORT'' = FormatInt p 10" "0 < p" "p \<le> 65535"
  shows "defaultHealthPortFromEnv env 0 = p"
proof -
  obtain c cs where n: "nat_to_base 10 (nat p) = c # cs" using nat_to_base_nonempty [of 10 "nat p"] by (cases "nat_to_base 10 (nat p)") auto
  have d: "list_all isDigit (c # cs)" "digits_val (c # cs) = nat p" using decimal_digits [of "nat p"] n by simp_all
  then have "c \<noteq> CHR ''-''" "c \<noteq> CHR ''+''" by (auto simp: isDigit_def less_eq_char_def)
  then have "Sscanf_d (FormatInt p 10) = Some p"
    using assms(2,3) n d by (simp add: Sscanf_d_def FormatInt_def takeWhile_eq_all_conv [THEN iffD2] list_all_iff max_int64_def)
  moreover have "FormatInt p 10 \<noteq> []" using assms(2) n by (simp add: FormatInt_def)
  ultimately show ?thesis using assms by (simp add: defaultHealthPortFromEnv_def TrimSpace_id [OF decimal_trimmed])
qed

section \<open>The queue\<close>

abbreviation queue_from :: "string \<Rightarrow> string \<Rightarrow> string \<Rightarrow> NATSConfig" where
  "queue_from url pfx stream \<equiv> \<lparr>nats_URL = url, nats_SubjectPrefix = pfx, nats_StreamName = stream, nats_StreamReplicas = 0,
     nats_StreamMaxAge = [], nats_ConnectTimeout = [], nats_DuplicatesWindow = [], nats_Auth = zero_auth, nats_TLS = zero_tls,
     nats_NetworkPolicyTarget = \<lparr>npt_Namespace = [], npt_PodLabels = []\<rparr>\<rparr>"

lemma subject_prefix_again:
  assumes "trimmed (NormalizeSubjectPrefix v)"
  shows "NormalizeSubjectPrefix (NormalizeSubjectPrefix v) = NormalizeSubjectPrefix v"
proof (cases "TrimChar (TrimSpace v) CHR ''.'' = []")
  case True
  have "NormalizeSubjectPrefix DefaultSubjectPrefix = DefaultSubjectPrefix" by code_simp
  with True show ?thesis by (simp add: NormalizeSubjectPrefix_def [of v])
next
  case False
  then have "NormalizeSubjectPrefix v = TrimChar (TrimSpace v) CHR ''.''" by (simp add: NormalizeSubjectPrefix_def Let_def)
  with assms False show ?thesis by (simp add: NormalizeSubjectPrefix_def TrimSpace_id Let_def TrimChar_def)
qed

lemma queue_env:
  assumes "NATSConfig_Normalized K q = Inr n" "trimmed (nats_SubjectPrefix n)" "nats_StreamName n \<noteq> []"
  shows "\<exists>m. NATSConfig_Normalized K (queue_from (nats_URL n) (nats_SubjectPrefix n) (nats_StreamName n)) = Inr m
    \<and> nats_URL m = nats_URL n \<and> nats_SubjectPrefix m = nats_SubjectPrefix n \<and> nats_StreamName m = nats_StreamName n"
proof -
  from assms(1) have n: "nats_URL n = TrimSpace (nats_URL q)" "nats_SubjectPrefix n = NormalizeSubjectPrefix (nats_SubjectPrefix q)"
    "nats_StreamName n = TrimSpace (or_default (nats_StreamName q) DefaultStreamName)" "\<not> ContainsAny (nats_StreamName n) name_specials"
    unfolding NATSConfig_Normalized_def Let_def by (simp_all only: guard_Inr_iff andThen_Inr_iff mapErr_Inr_iff) auto
  have s: "TrimSpace (or_default (nats_StreamName n) DefaultStreamName) = nats_StreamName n" using assms(3) n(3) by simp
  have p: "NormalizeSubjectPrefix (nats_SubjectPrefix n) = nats_SubjectPrefix n" using subject_prefix_again assms(2) n(2) by simp
  have d: "check_duration f DefaultStreamMaxAge = Inr ()" "check_duration f DefaultConnectTimeout = Inr ()" "check_duration f DefaultDuplicatesWindow = Inr ()" for f
    using ParseDuration_defaults by (simp_all add: DefaultStreamMaxAge_def DefaultConnectTimeout_def DefaultDuplicatesWindow_def)
  show ?thesis using n(1,4) s p
    by (simp add: NATSConfig_Normalized_def d Auth_Normalized_def zero_auth_def Target_Normalized_def Let_def)
qed

section \<open>The round trip\<close>

lemma sidecar_path_id: "clean_abs p \<Longrightarrow> trimmed p \<Longrightarrow> p \<noteq> ''/'' \<Longrightarrow> normalizePath p fallback = p"
  using controller_path_id by (simp add: normalizePath_def normalizeControllerServerlessPath_def)

lemma framework_below:
  assumes "wf_framework f" "trimmed_paths f"
  shows "Clean (fw_SocketPath f) = fw_SocketPath f" "HasPrefix (fw_SocketPath f) ''/''" "fw_SocketPath f \<noteq> []"
    "HasPrefix (fw_SocketPath f) (DefaultServerlessFrameworkSocketDir @ ''/'')" "fw_SocketPath f \<noteq> DefaultServerlessFrameworkSocketDir"
proof -
  from assms have c: "clean_abs (fw_SocketPath f)" "path_below DefaultServerlessFrameworkSocketDir (fw_SocketPath f)"
    by (simp_all add: wf_framework_def)
  obtain ws where ws: "ws \<noteq> []" "fw_SocketPath f = DefaultServerlessFrameworkSocketDir @ ''/'' @ join ''/'' ws"
    using c(2) by (auto simp: path_below_def)
  show "HasPrefix (fw_SocketPath f) (DefaultServerlessFrameworkSocketDir @ ''/'')" "fw_SocketPath f \<noteq> DefaultServerlessFrameworkSocketDir"
    using ws by (auto simp: HasPrefix_iff)
  show "Clean (fw_SocketPath f) = fw_SocketPath f" using c(1) by (rule Clean_id)
  show "HasPrefix (fw_SocketPath f) ''/''" "fw_SocketPath f \<noteq> []"
    using clean_abs_IsAbs [OF c(1)] by (auto simp: IsAbs_def HasPrefix_def)
qed

lemma worker_config_facts:
  assumes "WorkerSidecarConfig_Normalized w = Inr n"
  shows "0 < wsc_HealthPort n \<and> wsc_HealthPort n \<le> 65535 \<and> wf_policy (wsc_DispatchRetry n)
    \<and> ParseDuration (wsc_HeartbeatInterval n) \<noteq> None"
  using assms by (auto simp: WorkerSidecarConfig_Normalized_def Let_def result_simps RetryPolicy_Normalized_Inr DefaultWorkerSidecarHealthPort_def
      split: if_splits)


definition env_of :: "(string \<times> string) list \<Rightarrow> string \<Rightarrow> string" where
  "env_of es k = (case map_of es k of Some v \<Rightarrow> v | None \<Rightarrow> [])"

definition ref_serverless :: GPUUnitServerlessSpec where
  "ref_serverless = zero_serverless\<lparr>sls_Enabled := True, sls_RequestID := ''req'', sls_IdleTimeoutSeconds := 300,
     sls_Framework := \<lparr>fw_SocketPath = DefaultServerlessFrameworkSocketPath, fw_InvokePath = DefaultServerlessFrameworkInvokePath,
       fw_HealthPath = DefaultServerlessFrameworkHealthPath\<rparr>\<rparr>"

definition serverless_unit :: GPUUnit where
  "serverless_unit = ref_unit\<lparr>unit_Spec := (unit_Spec ref_unit)\<lparr>spec_Serverless := ref_serverless\<rparr>\<rparr>"

definition ref_queue :: NATSConfig where
  "ref_queue = DefaultNATSConfig\<lparr>nats_URL := ''nats://queue:4222''\<rparr>"

lemma env_of_sidecar:
  "list_all (\<lambda>(k, x). env_of (sidecar_env n v u s) k = x) (sidecar_env n v u s)"
  "env_of (sidecar_env n v u s) ''SERVERLESS_DISPATCH_ACK_WAIT'' = []"
  by (simp_all add: sidecar_env_def env_of_def)

lemma ref_sidecar_unit:
  "spec_Serverless (unit_Spec serverless_unit) = ref_serverless" "NormalizeGPUUnitServerless (zero_serverless\<lparr>sls_RequestID := ''req''\<rparr>) = Inr ref_serverless"
  "trimmed_paths (sls_Framework ref_serverless)" "sls_Enabled ref_serverless"
  "trimmed (u_name serverless_unit)" "u_name serverless_unit \<noteq> []" "trimmed (u_ns serverless_unit)" "u_ns serverless_unit \<noteq> []"
  by code_simp+

lemma ref_sidecar_config:
  "case NATSConfig_Normalized ref_k8s ref_queue of Inr n \<Rightarrow> trimmed (nats_SubjectPrefix n) \<and> nats_StreamName n \<noteq> [] | Inl _ \<Rightarrow> False"
  "case WorkerSidecarConfig_Normalized DefaultWorkerSidecarConfig of Inr v \<Rightarrow> rp_MaxDeliver (wsc_DispatchRetry v) \<le> max_int64 | Inl _ \<Rightarrow> False"
  "NATSConfig_Enabled ref_queue"
  by code_simp+


end
