(* ===== verification/Go_Net.thy ===== *)
theory Go_Net
  imports Go_Time "HOL-Library.Word"
begin

unbundle bit_operations_syntax

text \<open>
  The parts of Go's \<^verbatim>\<open>net\<close> package that the egress policy uses. An address is a slice of 4 or 16 bytes, as in Go, and
  \<^verbatim>\<open>ParseIP\<close> always returns 16 of them. The IPv4 notation is written out; the IPv6 notation (compression of zero groups,
  hexadecimal groups, embedded IPv4) is a pair of parameters \<open>parse6\<close> and \<open>print6\<close> with the law that what is printed is
  parsed back. The section ends with the meaning of a CIDR with all its bits: exactly one address.
\<close>

section \<open>Addresses\<close>

type_synonym IP = "8 word list"

definition v4InV6Prefix :: IP where
  "v4InV6Prefix = replicate 10 0 @ [0xff, 0xff]"

definition To4 :: "IP \<Rightarrow> IP option" where
  "To4 ip = (if length ip = 4 then Some ip else if length ip = 16 \<and> take 12 ip = v4InV6Prefix then Some (drop 12 ip) else None)"

text \<open>The short form of an address, by which \<^verbatim>\<open>IPNet.Contains\<close> and \<^verbatim>\<open>IP.Equal\<close> compare.\<close>

definition short_ip :: "IP \<Rightarrow> IP" where
  "short_ip ip = (case To4 ip of None \<Rightarrow> ip | Some x \<Rightarrow> x)"

definition print_bytes :: "char \<Rightarrow> IP \<Rightarrow> string" where
  "print_bytes sep ip = join [sep] (map (\<lambda>b. FormatInt (uint b) 10) ip)"

definition parse_octet :: "string \<Rightarrow> 8 word option" where
  "parse_octet s =
     (if s = [] \<or> \<not> list_all isDigit s \<or> (length s > 1 \<and> hd s = CHR ''0'') \<or> digits_val s > 255 then None
      else Some (of_nat (digits_val s)))"

definition parse_bytes :: "char \<Rightarrow> nat \<Rightarrow> string \<Rightarrow> IP option" where
  "parse_bytes sep n s =
     (let octets = map parse_octet (split_on sep s)
      in if length octets = n \<and> list_all (\<lambda>x. x \<noteq> None) octets then Some (map the octets) else None)"

text \<open>The dotted notation: four decimal numbers below 256 without leading zeros.\<close>

abbreviation print4 :: "IP \<Rightarrow> string" where
  "print4 \<equiv> print_bytes CHR ''.''"

abbreviation parse4 :: "string \<Rightarrow> IP option" where
  "parse4 \<equiv> parse_bytes CHR ''.'' 4"

record ipv6_text =
  parse6 :: "string \<Rightarrow> IP option"
  print6 :: "IP \<Rightarrow> string"

text \<open>\<^verbatim>\<open>netip.ParseAddr\<close>: the first dot, colon or percent sign decides the family. The boolean says that the text was IPv4.\<close>

definition ParseAddr :: "ipv6_text \<Rightarrow> string \<Rightarrow> (bool \<times> IP) option" where
  "ParseAddr N s =
     (case filter (\<lambda>c. c = CHR ''.'' \<or> c = CHR '':'' \<or> c = CHR ''%'') s of
        [] \<Rightarrow> None
      | c # _ \<Rightarrow> if c = CHR ''.'' then map_option (\<lambda>ip. (True, ip)) (parse4 s)
                 else if c = CHR '':'' then map_option (\<lambda>ip. (False, ip)) (parse6 N s) else None)"

definition ParseIP :: "ipv6_text \<Rightarrow> string \<Rightarrow> IP option" where
  "ParseIP N s = (case ParseAddr N s of None \<Rightarrow> None
     | Some (v4, ip) \<Rightarrow> Some (if v4 then v4InV6Prefix @ ip else ip))"

definition IP_String :: "ipv6_text \<Rightarrow> IP \<Rightarrow> string" where
  "IP_String N ip = (case To4 ip of Some x \<Rightarrow> print4 x | None \<Rightarrow> print6 N ip)"

section \<open>Blocks\<close>

text \<open>\<^verbatim>\<open>net.CIDRMask\<close>: \<open>ones\<close> leading one bits in \<open>bytes\<close> bytes.\<close>

fun CIDRMask :: "nat \<Rightarrow> nat \<Rightarrow> 8 word list" where
  "CIDRMask ones 0 = []"
| "CIDRMask ones (Suc bytes) =
     (if ones \<ge> 8 then 0xff # CIDRMask (ones - 8) bytes else push_bit (8 - ones) 0xff # CIDRMask 0 bytes)"

definition and_mask :: "8 word list \<Rightarrow> 8 word list \<Rightarrow> 8 word list" where
  "and_mask m ip = map2 (AND) ip m"

record IPNet =
  net_IP :: IP
  net_Mask :: "8 word list"

definition dtoi :: "string \<Rightarrow> nat option" where
  "dtoi s = (if s = [] \<or> \<not> list_all isDigit s \<or> digits_val s \<ge> 0xFFFFFF then None else Some (digits_val s))"

definition ParseCIDR :: "ipv6_text \<Rightarrow> string \<Rightarrow> IPNet option" where
  "ParseCIDR N s =
     (case split_on CHR ''/'' s of
        addr # m # ms \<Rightarrow>
          (case ParseAddr N addr of
             None \<Rightarrow> None
           | Some (v4, ip) \<Rightarrow>
               let len = (if v4 then 4 else 16)
               in case dtoi (join ''/'' (m # ms)) of
                    None \<Rightarrow> None
                  | Some n \<Rightarrow> if n > 8 * len then None
                              else let msk = CIDRMask n len in Some \<lparr>net_IP = and_mask msk ip, net_Mask = msk\<rparr>)
      | _ \<Rightarrow> None)"

text \<open>\<^verbatim>\<open>networkNumberAndMask\<close> and \<^verbatim>\<open>IPNet.Contains\<close>.\<close>

definition networkNumberAndMask :: "IPNet \<Rightarrow> (IP \<times> 8 word list) option" where
  "networkNumberAndMask n =
     (let ip = short_ip (net_IP n); m = net_Mask n
      in if length ip = 4 then (if length m = 4 then Some (ip, m) else if length m = 16 then Some (ip, drop 12 m) else None)
         else if length ip = 16 \<and> length m = 16 then Some (ip, m) else None)"

definition IPNet_Contains :: "IPNet \<Rightarrow> IP \<Rightarrow> bool" where
  "IPNet_Contains n ip =
     (case networkNumberAndMask n of None \<Rightarrow> False
      | Some (nn, m) \<Rightarrow> length (short_ip ip) = length nn \<and> and_mask m nn = and_mask m (short_ip ip))"

definition in_cidr :: "ipv6_text \<Rightarrow> string \<Rightarrow> IP \<Rightarrow> bool" where
  "in_cidr N cidr ip = (case ParseCIDR N cidr of None \<Rightarrow> False | Some n \<Rightarrow> IPNet_Contains n ip)"

section \<open>Printing and parsing\<close>

lemma decimal_no_leading_zero: "0 < n \<Longrightarrow> hd (nat_to_base 10 n) \<noteq> CHR ''0''"
proof (induction n rule: less_induct)
  case (less n)
  show ?case
  proof (cases "n < 10")
    case True
    then have "isDigit (digit_char n)" "digit_val (digit_char n) = n" using decimal_digit by simp_all
    then show ?thesis using less.prems True by (auto simp: nat_to_base.simps [of 10 n] digit_val_def)
  next
    case False
    then show ?thesis using less.IH [of "n div 10"] nat_to_base_nonempty [of 10 "n div 10"] by (simp add: nat_to_base.simps [of 10 n])
  qed
qed

lemma decimal_leading: "1 < length (nat_to_base 10 n) \<Longrightarrow> hd (nat_to_base 10 n) \<noteq> CHR ''0''"
  using decimal_no_leading_zero [of n] by (cases "n = 0") (auto simp: nat_to_base.simps [of 10 0])

lemma octet_text: "list_all isDigit (FormatInt (uint b) 10)"
  using decimal_digits [of "nat (uint b)"] by (simp add: FormatInt_def)

lemma parse_octet_print: "parse_octet (FormatInt (uint (b :: 8 word)) 10) = Some b"
proof -
  have "unat b < 256" using unsigned_less [of b, where ?'a = nat] by simp
  moreover obtain t where t: "t = nat_to_base 10 (unat b)" by blast
  moreover have "FormatInt (uint b) 10 = t" by (simp add: FormatInt_def t)
  moreover have "list_all isDigit t" "digits_val t = unat b" "t \<noteq> []" "1 < length t \<longrightarrow> hd t \<noteq> CHR ''0''"
    unfolding t using decimal_digits [of "unat b"] nat_to_base_nonempty [of 10 "unat b"] decimal_leading [of "unat b"]
    by simp_all
  ultimately show ?thesis unfolding parse_octet_def by simp
qed

lemma octet_no_sep: "\<not> isDigit c \<Longrightarrow> c \<notin> set (FormatInt (uint b) 10)"
  using octet_text [of b] by (auto simp: list_all_iff)

lemma split_print_bytes:
  assumes "ip \<noteq> []" "\<not> isDigit sep" shows "split_on sep (print_bytes sep ip) = map (\<lambda>b. FormatInt (uint b) 10) ip"
  unfolding print_bytes_def by (rule split_on_join) (use assms octet_no_sep in \<open>auto simp: list_all_iff\<close>)

lemma parse_print_bytes: "length ip = n \<Longrightarrow> 0 < n \<Longrightarrow> \<not> isDigit sep \<Longrightarrow> parse_bytes sep n (print_bytes sep ip) = Some ip"
  by (auto simp: parse_bytes_def split_print_bytes Let_def parse_octet_print list_all_iff comp_def)

lemma parse4_print4: "length ip = 4 \<Longrightarrow> parse4 (print4 ip) = Some ip"
  using parse_print_bytes [of ip _ "CHR ''.''"] by (auto simp: isDigit_def less_eq_char_def)

lemma print_bytes_chars: "c \<in> set (print_bytes sep ip) \<Longrightarrow> c = sep \<or> isDigit c"
proof -
  have "set (join [sep] ws) \<subseteq> insert sep (\<Union> (set ` set ws))" for ws by (induction "[sep]" ws rule: join.induct) auto
  then show "c \<in> set (print_bytes sep ip) \<Longrightarrow> c = sep \<or> isDigit c"
    using octet_text by (fastforce simp: print_bytes_def list_all_iff)
qed

section \<open>Blocks of one address\<close>

lemma full_mask [simp]: "CIDRMask 32 4 = replicate 4 0xff" "CIDRMask 128 16 = replicate 16 0xff"
  by (simp_all add: numeral_eq_Suc)

lemma and_full_mask [simp]: "length ip = n \<Longrightarrow> and_mask (replicate n 0xff) ip = ip"
proof (induction ip arbitrary: n)
  case (Cons b ip)
  have "(0xff :: 8 word) = - 1" by simp
  then have "b AND 0xff = b" by (simp only: bit.conj_one_right)
  with Cons show ?case by (auto simp: and_mask_def)
qed (simp add: and_mask_def)

lemma short_ip_4 [simp]: "length ip = 4 \<Longrightarrow> short_ip ip = ip"
  by (simp add: short_ip_def To4_def)

lemma dtoi_full [simp]: "dtoi ''32'' = Some 32" "dtoi ''128'' = Some 128"
  by (simp_all add: dtoi_def isDigit_def less_eq_char_def digits_val_def digit_val_def)

lemma ParseAddr_print4:
  assumes "length ip = 4" shows "ParseAddr N (print4 ip) = Some (True, ip)"
proof -
  obtain a b c d where ip: "ip = [a, b, c, d]" using assms by (auto simp: length_Suc_conv numeral_eq_Suc)
  have "filter (\<lambda>c. c = CHR ''.'' \<or> c = CHR '':'' \<or> c = CHR ''%'') (FormatInt (uint x) 10) = []" for x :: "8 word"
    using octet_no_sep [of _ x] by (auto simp: filter_empty_conv isDigit_def less_eq_char_def)
  then show ?thesis using parse4_print4 [OF assms] by (simp add: ParseAddr_def print_bytes_def ip)
qed

lemma print4_no_slash: "CHR ''/'' \<notin> set (print4 ip)"
  using print_bytes_chars [of "CHR ''/''" "CHR ''.''" ip] by (auto simp: isDigit_def less_eq_char_def)

lemma ParseCIDR_slash:
  assumes "CHR ''/'' \<notin> set addr" "CHR ''/'' \<notin> set m"
  shows "split_on CHR ''/'' (addr @ CHR ''/'' # m) = [addr, m]"
  using assms by (simp add: split_on_append split_on_single)

lemma in_cidr_v4:
  assumes "length ip = 4" shows "in_cidr N (print4 ip @ ''/32'') other \<longleftrightarrow> short_ip other = ip"
proof -
  have "ParseCIDR N (print4 ip @ ''/32'') = Some \<lparr>net_IP = ip, net_Mask = replicate 4 0xff\<rparr>"
    using assms ParseCIDR_slash [OF print4_no_slash, of "''32''" ip] by (simp add: ParseCIDR_def ParseAddr_print4)
  then show ?thesis using assms
    by (auto simp: in_cidr_def IPNet_Contains_def networkNumberAndMask_def Let_def)
qed

text \<open>What the code relies on of the IPv6 notation.\<close>

locale ipv6_notation =
  fixes N :: ipv6_text
  assumes parse6_length: "parse6 N s = Some ip \<Longrightarrow> length ip = 16"
    and parse6_print6: "length ip = 16 \<Longrightarrow> To4 ip = None \<Longrightarrow> parse6 N (print6 N ip) = Some ip"
    and print6_text: "length ip = 16 \<Longrightarrow> To4 ip = None \<Longrightarrow>
      set (print6 N ip) \<inter> {CHR ''.'', CHR ''%'', CHR ''/''} = {} \<and> CHR '':'' \<in> set (print6 N ip)"
begin

lemma ParseIP_length: "ParseIP N s = Some ip \<Longrightarrow> length ip = 16"
  by (auto simp: ParseIP_def ParseAddr_def parse_bytes_def v4InV6Prefix_def Let_def dest: parse6_length split: option.splits list.splits if_splits)

lemma ParseAddr_print6:
  assumes "length ip = 16" "To4 ip = None" shows "ParseAddr N (print6 N ip) = Some (False, ip)"
proof -
  let ?f = "filter (\<lambda>c. c = CHR ''.'' \<or> c = CHR '':'' \<or> c = CHR ''%'') (print6 N ip)"
  have "set ?f = {CHR '':''}" using print6_text [OF assms] by auto
  then obtain cs where "?f = CHR '':'' # cs" by (cases ?f) auto
  then show ?thesis using parse6_print6 [OF assms] by (simp add: ParseAddr_def)
qed

lemma in_cidr_v6:
  assumes "length ip = 16" "To4 ip = None" shows "in_cidr N (print6 N ip @ ''/128'') other \<longleftrightarrow> short_ip other = ip"
proof -
  have "ParseCIDR N (print6 N ip @ ''/128'') = Some \<lparr>net_IP = ip, net_Mask = replicate 16 0xff\<rparr>"
    using assms ParseCIDR_slash [of "print6 N ip" "''128''"] print6_text [OF assms] by (simp add: ParseCIDR_def ParseAddr_print6)
  moreover have "short_ip ip = ip" using assms(2) by (simp add: short_ip_def)
  ultimately show ?thesis using assms by (auto simp: in_cidr_def IPNet_Contains_def networkNumberAndMask_def Let_def)
qed

end

text \<open>A notation with these laws: the bytes in decimal, separated by colons.\<close>

definition plain_ipv6 :: ipv6_text where
  "plain_ipv6 = \<lparr>parse6 = parse_bytes CHR '':'' 16, print6 = print_bytes CHR '':''\<rparr>"

interpretation plain_ipv6: ipv6_notation plain_ipv6
proof
  fix ip s
  show "parse6 plain_ipv6 s = Some ip \<Longrightarrow> length ip = 16" by (auto simp: plain_ipv6_def parse_bytes_def Let_def split: if_splits)
  assume len: "length ip = 16"
  then show "parse6 plain_ipv6 (print6 plain_ipv6 ip) = Some ip"
    using parse_print_bytes [of ip _ "CHR '':''"] by (auto simp: plain_ipv6_def isDigit_def less_eq_char_def)
  obtain a b bs where ip: "ip = a # b # bs" using len by (auto simp: length_Suc_conv numeral_eq_Suc)
  then have "CHR '':'' \<in> set (print_bytes CHR '':'' ip)" by (simp add: print_bytes_def)
  moreover have "c \<in> set (print_bytes CHR '':'' ip) \<Longrightarrow> c \<notin> {CHR ''.'', CHR ''%'', CHR ''/''}" for c
    using print_bytes_chars [of c "CHR '':''" ip] by (auto simp: isDigit_def less_eq_char_def)
  ultimately show "set (print6 plain_ipv6 ip) \<inter> {CHR ''.'', CHR ''%'', CHR ''/''} = {} \<and> CHR '':'' \<in> set (print6 plain_ipv6 ip)"
    by (auto simp: plain_ipv6_def)
qed

end
