(* ===== verification/Controller_Network.thy ===== *)
theory Controller_Network
  imports Controller_Pod Go_Net
begin

text \<open>
  The egress policy of a unit (\<^verbatim>\<open>internal/controller/unit_network_policy_helpers.go\<close>) and the parts of the queue
  configuration it asks for (\<^verbatim>\<open>pkg/serverless/config.go\<close>). Addresses and blocks are those of \<open>Go_Net\<close>; the host and the
  port that \<^verbatim>\<open>net/url\<close> finds in a URL are a parameter (\<open>None\<close>: it does not parse).
\<close>

section \<open>Addresses and URLs\<close>

record net_lib =
  nl_IPv6 :: ipv6_text
  url_Parse :: "string \<Rightarrow> (string \<times> string) option"

definition URLHostname :: "net_lib \<Rightarrow> NATSConfig \<Rightarrow> string" where
  "URLHostname N c = (case url_Parse N (TrimSpace (nats_URL c)) of None \<Rightarrow> [] | Some (host, _) \<Rightarrow> TrimSpace host)"

definition URLPort :: "net_lib \<Rightarrow> NATSConfig \<Rightarrow> int" where
  "URLPort N c =
     (case url_Parse N (TrimSpace (nats_URL c)) of
        None \<Rightarrow> 4222
      | Some (_, rawPort) \<Rightarrow>
          if rawPort = [] then 4222
          else let port = TrimSpace rawPort
               in if port = [] then 4222
                  else case Atoi port of
                         None \<Rightarrow> 4222
                       | Some parsed \<Rightarrow> if parsed \<le> 0 \<or> parsed > 65535 then 4222 else parsed)"

definition UsesClusterServiceHost :: "net_lib \<Rightarrow> NATSConfig \<Rightarrow> bool" where
  "UsesClusterServiceHost N c =
     (let parts = split_on CHR ''.'' (URLHostname N c) in length parts \<ge> 3 \<and> parts ! 2 = ''svc'')"

definition InferredClusterServiceNamespace :: "net_lib \<Rightarrow> NATSConfig \<Rightarrow> string" where
  "InferredClusterServiceNamespace N c =
     (let parts = split_on CHR ''.'' (URLHostname N c)
      in if length parts \<ge> 3 \<and> parts ! 2 = ''svc'' then TrimSpace (parts ! 1) else [])"

definition EffectiveNetworkPolicyNamespace :: "net_lib \<Rightarrow> NATSConfig \<Rightarrow> string" where
  "EffectiveNetworkPolicyNamespace N c =
     (let ns = TrimSpace (npt_Namespace (nats_NetworkPolicyTarget c))
      in if ns \<noteq> [] then ns else InferredClusterServiceNamespace N c)"

section \<open>The policy\<close>

text \<open>A peer is an address block with exceptions, or the pods of namespaces with given labels (\<open>None\<close>: all pods).\<close>

datatype NetworkPolicyPeer =
    IPBlock string "string list"
  | Selector "string smap" "string smap option"

record NetworkPolicyEgressRule =
  eg_To :: "NetworkPolicyPeer list"
  eg_Ports :: "(string \<times> int) list"

record NetworkPolicySpec =
  nps_PodSelector :: "string smap"
  nps_PolicyTypes :: "string list"
  nps_Egress :: "NetworkPolicyEgressRule list"

record NetworkPolicy =
  np_Meta :: ObjectMeta
  np_Spec :: NetworkPolicySpec

definition kubeNamespaceMetadataLabelKey :: string where "kubeNamespaceMetadataLabelKey = ''kubernetes.io/metadata.name''"

definition networkPolicyNameForUnit :: "string \<Rightarrow> string" where
  "networkPolicyNameForUnit instanceName = prefixedRuntimeName ''egress-'' instanceName"

definition allowClusterDNSRule :: NetworkPolicyEgressRule where
  "allowClusterDNSRule = \<lparr>eg_To = [Selector [(kubeNamespaceMetadataLabelKey, ''kube-system'')] None],
     eg_Ports = [(''TCP'', 53), (''UDP'', 53)]\<rparr>"

definition allowPublicEgressRule :: "string list \<Rightarrow> NetworkPolicyEgressRule" where
  "allowPublicEgressRule blockedEgressCIDRs = \<lparr>eg_To = [IPBlock ''0.0.0.0/0'' ([] @ blockedEgressCIDRs)], eg_Ports = []\<rparr>"

fun ipOverlapsBlockedCIDRs :: "net_lib \<Rightarrow> IP \<Rightarrow> string list \<Rightarrow> bool" where
  "ipOverlapsBlockedCIDRs N ip [] = False"
| "ipOverlapsBlockedCIDRs N ip (rawCIDR # rest) =
     (case ParseCIDR (nl_IPv6 N) rawCIDR of
        None \<Rightarrow> ipOverlapsBlockedCIDRs N ip rest
      | Some network \<Rightarrow> if IPNet_Contains network ip then True else ipOverlapsBlockedCIDRs N ip rest)"

definition singleIPCIDR :: "net_lib \<Rightarrow> IP \<Rightarrow> string" where
  "singleIPCIDR N ip = (if To4 ip \<noteq> None then IP_String (nl_IPv6 N) ip @ ''/32'' else IP_String (nl_IPv6 N) ip @ ''/128'')"

definition normalizeBlockedEgressCIDRs :: "string list \<Rightarrow> string list" where
  "normalizeBlockedEgressCIDRs values = (if values = [] then [] else sort (unique_keys [] values))"

definition single_ip_rule :: "net_lib \<Rightarrow> IP \<Rightarrow> int \<Rightarrow> NetworkPolicyEgressRule" where
  "single_ip_rule N ip port = \<lparr>eg_To = [IPBlock (singleIPCIDR N ip) []], eg_Ports = [(''TCP'', port)]\<rparr>"

definition explicitSSHServerEgressRule :: "net_lib \<Rightarrow> GPUUnitSSHSpec \<Rightarrow> string list \<Rightarrow> NetworkPolicyEgressRule option" where
  "explicitSSHServerEgressRule N sshSpec blockedEgressCIDRs =
     (if \<not> ssh_Enabled sshSpec then None
      else case ParseIP (nl_IPv6 N) (TrimSpace (ssh_ServerAddr sshSpec)) of
             None \<Rightarrow> None
           | Some serverIP \<Rightarrow>
               if \<not> ipOverlapsBlockedCIDRs N serverIP blockedEgressCIDRs then None
               else Some (single_ip_rule N serverIP (ssh_ServerPort sshSpec)))"

definition explicitServerlessQueueEgressRule :: "net_lib \<Rightarrow> GPUUnitServerlessSpec \<Rightarrow> NATSConfig \<Rightarrow> string list
    \<Rightarrow> NetworkPolicyEgressRule option res" where
  "explicitServerlessQueueEgressRule N serverlessSpec queueConfig blockedEgressCIDRs =
     (if \<not> unitServerlessEnabled serverlessSpec \<or> \<not> NATSConfig_Enabled queueConfig then Inr None
      else if UsesClusterServiceHost N queueConfig
      then let namespace = EffectiveNetworkPolicyNamespace N queueConfig
           in if namespace = [] \<or> \<not> HasNetworkPolicyTarget queueConfig
              then Inl (serverless_incomplete
                (''%w: serverless.url %q points to an in-cluster service but serverless.networkPolicyTarget.namespace and podLabels are not fully configured'',
                 [FS (nats_URL queueConfig)]))
              else Inr (Some \<lparr>eg_To = [Selector [(kubeNamespaceMetadataLabelKey, namespace)]
                  (Some (npt_PodLabels (nats_NetworkPolicyTarget queueConfig)))],
                eg_Ports = [(''TCP'', URLPort N queueConfig)]\<rparr>)
      else case ParseIP (nl_IPv6 N) (URLHostname N queueConfig) of
             None \<Rightarrow> Inr None
           | Some ip \<Rightarrow>
               if \<not> ipOverlapsBlockedCIDRs N ip blockedEgressCIDRs then Inr None
               else Inr (Some (single_ip_rule N ip (URLPort N queueConfig))))"

definition opt_list :: "'a option \<Rightarrow> 'a list" where
  "opt_list x = (case x of None \<Rightarrow> [] | Some v \<Rightarrow> [v])"

definition desiredUnitNetworkPolicy :: "'q k8s \<Rightarrow> net_lib \<Rightarrow> GPUUnit \<Rightarrow> string list \<Rightarrow> NATSConfig \<Rightarrow> NetworkPolicy res" where
  "desiredUnitNetworkPolicy K N u blockedEgressCIDRs queueConfig =
     (let blocked = normalizeBlockedEgressCIDRs blockedEgressCIDRs;
          egressRules = [allowClusterDNSRule, allowPublicEgressRule blocked]
      in andThen (resolveUnitSSHSpec K u) (\<lambda>sshSpec.
         let egressRules = egressRules @ opt_list (explicitSSHServerEgressRule N sshSpec blocked)
         in andThen (explicitServerlessQueueEgressRule N (spec_Serverless (unit_Spec u)) queueConfig blocked) (\<lambda>serverlessRule.
           Inr \<lparr>np_Meta = \<lparr>meta_Name = networkPolicyNameForUnit (u_name u), meta_Namespace = u_ns u, meta_Labels = unitObjectLabels u,
               meta_Annotations = []\<rparr>,
             np_Spec = \<lparr>nps_PodSelector = [(LabelUnitKey, u_name u)], nps_PolicyTypes = [''Egress''],
               nps_Egress = egressRules @ opt_list serverlessRule\<rparr>\<rparr>)))"

section \<open>What the policy allows\<close>

text \<open>The addresses and ports a policy allows: an address in the block and in no exception of a peer, through an open port. A
  selector allows pods, which are not addresses outside the cluster.\<close>

definition peer_allows :: "net_lib \<Rightarrow> NetworkPolicyPeer \<Rightarrow> IP \<Rightarrow> bool" where
  "peer_allows N peer ip = (case peer of Selector _ _ \<Rightarrow> False
     | IPBlock cidr exceptions \<Rightarrow> in_cidr (nl_IPv6 N) cidr ip \<and> list_all (\<lambda>e. \<not> in_cidr (nl_IPv6 N) e ip) exceptions)"

definition port_open :: "(string \<times> int) list \<Rightarrow> string \<Rightarrow> int \<Rightarrow> bool" where
  "port_open ports protocol port = (ports = [] \<or> (protocol, port) \<in> set ports)"

definition egress_allowed :: "net_lib \<Rightarrow> NetworkPolicy \<Rightarrow> IP \<Rightarrow> string \<Rightarrow> int \<Rightarrow> bool" where
  "egress_allowed N p ip protocol port =
     list_ex (\<lambda>r. list_ex (\<lambda>peer. peer_allows N peer ip) (eg_To r) \<and> port_open (eg_Ports r) protocol port) (nps_Egress (np_Spec p))"

lemma unique_keys_set: "set (unique_keys seen vs) = {t \<in> TrimSpace ` set vs. t \<noteq> []} - set seen"
  by (induction seen vs rule: unique_keys.induct) (auto simp: Let_def)

lemma blocked_set: "set (normalizeBlockedEgressCIDRs values) = {t \<in> TrimSpace ` set values. t \<noteq> []}"
  by (simp add: normalizeBlockedEgressCIDRs_def unique_keys_set)

lemma overlaps_iff: "ipOverlapsBlockedCIDRs N ip cidrs \<longleftrightarrow> list_ex (\<lambda>c. in_cidr (nl_IPv6 N) c ip) cidrs"
  by (induction N ip cidrs rule: ipOverlapsBlockedCIDRs.induct) (auto simp: in_cidr_def split: option.splits)

context ipv6_notation
begin

lemma single_address:
  assumes "nl_IPv6 L = N" "length ip = 16"
  shows "in_cidr N (singleIPCIDR L ip) other \<longleftrightarrow> short_ip other = short_ip ip"
proof (cases "To4 ip")
  case None
  then show ?thesis using in_cidr_v6 [OF assms(2) None] assms by (simp add: singleIPCIDR_def IP_String_def short_ip_def)
next
  case (Some x)
  then have "length x = 4" using assms(2) by (auto simp: To4_def split: if_splits)
  then show ?thesis using in_cidr_v4 [of x N] assms Some by (simp add: singleIPCIDR_def IP_String_def short_ip_def)
qed

lemma single_rule_allows:
  assumes "nl_IPv6 L = N" "ParseIP N s = Some ip"
    and "list_ex (\<lambda>peer. peer_allows L peer other) (eg_To (single_ip_rule L ip port))"
    and "port_open (eg_Ports (single_ip_rule L ip port)) protocol p"
  shows "short_ip other = short_ip ip \<and> protocol = ''TCP'' \<and> p = port"
  using assms single_address [OF assms(1) ParseIP_length [OF assms(2)]] by (simp add: single_ip_rule_def peer_allows_def port_open_def)

end


definition tunnelled_unit :: GPUUnit where
  "tunnelled_unit = plain_unit\<lparr>unit_Spec := (unit_Spec plain_unit)\<lparr>spec_SSH := zero_ssh\<lparr>ssh_Enabled := True, ssh_AuthorizedKeys := [''key''],
     ssh_ServerAddr := ''10.0.0.9'', ssh_DomainSuffix := ''ssh.example''\<rparr>\<rparr>\<rparr>"

definition plain_net :: net_lib where
  "plain_net = \<lparr>nl_IPv6 = plain_ipv6, url_Parse = (\<lambda>_. None)\<rparr>"

definition server_ip :: IP where
  "server_ip = v4InV6Prefix @ [10, 0, 0, 9]"

abbreviation tunnel_policy :: "NetworkPolicy res" where
  "tunnel_policy \<equiv> desiredUnitNetworkPolicy ref_k8s plain_net tunnelled_unit ['' 10.0.0.0/8''] DefaultNATSConfig"

lemma numeral_4_bytes: "(4 :: nat) = Suc (Suc (Suc (Suc 0)))"
  by simp

lemma blocked_block: "ParseCIDR N ''10.0.0.0/8'' = Some \<lparr>net_IP = [10, 0, 0, 0], net_Mask = [0xff, 0, 0, 0]\<rparr>"
proof -
  have "split_on CHR ''/'' ''10.0.0.0/8'' = [''10.0.0.0'', ''8'']" by simp
  moreover have "dtoi ''8'' = Some 8" by (simp add: dtoi_def isDigit_def less_eq_char_def digits_val_def digit_val_def)
  moreover have "parse4 ''10.0.0.0'' = Some [10, 0, 0, 0]"
    by (simp add: parse_bytes_def parse_octet_def isDigit_def less_eq_char_def digits_val_def digit_val_def)
  moreover have "CIDRMask 8 4 = [0xff, 0, 0, 0]" unfolding numeral_4_bytes by simp
  ultimately show ?thesis by (simp add: ParseCIDR_def ParseAddr_def and_mask_def)
qed

lemma parse_server: "ParseIP N ''10.0.0.9'' = Some server_ip"
proof -
  have "parse4 ''10.0.0.9'' = Some [10, 0, 0, 9]"
    by (simp add: parse_bytes_def parse_octet_def isDigit_def less_eq_char_def digits_val_def digit_val_def)
  then show ?thesis by (simp add: ParseIP_def ParseAddr_def server_ip_def)
qed

lemma server_blocked: "in_cidr N ''10.0.0.0/8'' server_ip"
  by (simp add: in_cidr_def blocked_block IPNet_Contains_def networkNumberAndMask_def short_ip_def To4_def server_ip_def
    v4InV6Prefix_def and_mask_def numeral_eq_Suc)

lemma tunnel_ssh: "map_sum (\<lambda>e. e) (\<lambda>s. (ssh_Enabled s, ssh_ServerAddr s, ssh_ServerPort s)) (resolveUnitSSHSpec ref_k8s tunnelled_unit) = Inr (True, ''10.0.0.9'', 7000)"
  by code_simp

lemma tunnel_no_queue: "\<not> unitServerlessEnabled (spec_Serverless (unit_Spec tunnelled_unit))"
  by code_simp

lemma tunnel_blocked: "normalizeBlockedEgressCIDRs ['' 10.0.0.0/8''] = [''10.0.0.0/8'']" "TrimSpace '' 10.0.0.0/8'' = ''10.0.0.0/8''"
    "TrimSpace ''10.0.0.9'' = ''10.0.0.9''"
  by code_simp+

lemma tunnel_policy_allows:
  obtains p where "tunnel_policy = Inr p" "egress_allowed plain_net p server_ip ''TCP'' 7000"
proof -
  obtain s where s: "resolveUnitSSHSpec ref_k8s tunnelled_unit = Inr s" "ssh_Enabled s" "ssh_ServerAddr s = ''10.0.0.9''" "ssh_ServerPort s = 7000"
    using tunnel_ssh by (cases "resolveUnitSSHSpec ref_k8s tunnelled_unit") auto
  have rule: "explicitSSHServerEgressRule plain_net s [''10.0.0.0/8''] = Some (single_ip_rule plain_net server_ip 7000)"
    using s server_blocked [of plain_ipv6] by (simp add: explicitSSHServerEgressRule_def tunnel_blocked parse_server plain_net_def overlaps_iff)
  have queue: "explicitServerlessQueueEgressRule plain_net (spec_Serverless (unit_Spec tunnelled_unit)) DefaultNATSConfig [''10.0.0.0/8''] = Inr None"
    using tunnel_no_queue by (simp add: explicitServerlessQueueEgressRule_def)
  have "in_cidr plain_ipv6 (singleIPCIDR plain_net server_ip) server_ip"
    using plain_ipv6.single_address [of plain_net server_ip server_ip] by (simp add: plain_net_def server_ip_def v4InV6Prefix_def)
  then have "list_ex (\<lambda>peer. peer_allows plain_net peer server_ip) (eg_To (single_ip_rule plain_net server_ip 7000))
      \<and> port_open (eg_Ports (single_ip_rule plain_net server_ip 7000)) ''TCP'' 7000"
    by (simp add: single_ip_rule_def peer_allows_def port_open_def plain_net_def)
  then show ?thesis using that s(1) rule queue
    by (auto simp: desiredUnitNetworkPolicy_def tunnel_blocked egress_allowed_def opt_list_def result_simps)
qed


end
