(* ===== verification/Controller_Unit.thy ===== *)
theory Controller_Unit
  imports Controller_Network Storage_Convergence
begin

text \<open>
  The unit controller: the reconciliation of \<^verbatim>\<open>internal/controller/gpuunit_controller.go\<close> with the objects a unit owns, its
  device claim (\<^verbatim>\<open>unit_dra_helpers.go\<close>), its authorized keys (\<^verbatim>\<open>unit_ssh_config_helpers.go\<close>) and its egress policy
  (\<^verbatim>\<open>unit_network_policy_helpers.go\<close>). The Kubernetes client is the record \<open>UnitCluster\<close> of calls.
\<close>

section \<open>Objects\<close>

record ConfigMap =
  cm_Meta :: ObjectMeta
  cm_Data :: "string smap"

text \<open>Kubernetes' device claims. The selectors are a slice that may be nil (\<open>None\<close>): \<^verbatim>\<open>reflect.DeepEqual\<close> tells a nil slice from an
  empty one.\<close>

record 'q ExactDeviceRequest =
  dr_DeviceClassName :: string
  dr_AllocationMode :: string
  dr_Count :: int
  dr_Selectors :: "string list option"
  dr_Capacity :: "'q smap option"

record 'q DeviceRequest =
  dreq_Name :: string
  dreq_Exactly :: "'q ExactDeviceRequest"

record 'q AllocationResult =
  ar_Request :: string
  ar_Driver :: string
  ar_Pool :: string
  ar_Device :: string
  ar_ShareID :: "string option"
  ar_ConsumedCapacity :: "'q smap"

record 'q ResourceClaim =
  rc_Meta :: ObjectMeta
  rc_Requests :: "'q DeviceRequest list"
  rc_Allocation :: "'q AllocationResult list option"

record ('w, 'q) UnitCluster =
  uc_Units :: "('w, GPUUnit) ResourceClient"
  uc_WriteStatus :: "GPUUnit \<Rightarrow> ('w, unit) call"
  uc_Storages :: "('w, GPUStorage) ResourceClient"
  uc_Deployments :: "('w, 'q Deployment) ResourceClient"
  uc_Services :: "('w, KubeService) ResourceClient"
  uc_ConfigMaps :: "('w, ConfigMap) ResourceClient"
  uc_NetworkPolicies :: "('w, NetworkPolicy) ResourceClient"
  uc_Claims :: "('w, 'q ResourceClaim) ResourceClient"
  uc_ListPods :: "string \<Rightarrow> string \<times> string \<Rightarrow> ('w, Pod list) call"
  uc_SetOwner :: "ObjectMeta \<Rightarrow> ObjectMeta \<Rightarrow> ObjectMeta res"

text \<open>The settings of the controller (\<^verbatim>\<open>GPUUnitReconciler\<close>) and the libraries it calls.\<close>

record 'q GPUUnitReconciler =
  gr_Env :: "'q PodEnv"
  gr_Net :: net_lib
  gr_BlockedEgressCIDRs :: "string list"
  gr_ServerlessQueueConfig :: NATSConfig
  gr_ServerlessWorker :: WorkerSidecarConfig

section \<open>Device claims\<close>

definition desiredDRASelectors :: "string list \<Rightarrow> string list option" where
  "desiredDRASelectors values = Some (filter (\<lambda>e. e \<noteq> []) (map TrimSpace values))"

fun dra_capacity :: "'q k8s \<Rightarrow> string smap \<Rightarrow> 'q smap \<Rightarrow> 'q smap res" where
  "dra_capacity K [] out = Inr out"
| "dra_capacity K ((key, value) # rest) out =
     (let name = TrimSpace key
      in if name = [] then Inl (ErrorText (msg ''dra capacity key is required''))
         else case ParseQuantity K value of
                Inl e \<Rightarrow> Inl (Wrap (''parse dra capacity %q: %w'', [FS name]) e)
              | Inr qty \<Rightarrow> dra_capacity K rest (map_put name qty out))"

definition desiredDRACapacity :: "'q k8s \<Rightarrow> string smap \<Rightarrow> 'q smap res" where
  "desiredDRACapacity K values = (if values = [] then Inr [] else dra_capacity K values [])"

definition desiredUnitDRAResourceClaim :: "'q k8s \<Rightarrow> GPUUnit \<Rightarrow> 'q ResourceClaim res" where
  "desiredUnitDRAResourceClaim K u =
     (let allocation = spec_Allocation (unit_Spec u);
          deviceClassName = TrimSpace (alloc_DeviceClassName allocation);
          count = (if alloc_Count allocation \<le> 0 then spec_GPU (unit_Spec u) else alloc_Count allocation)
      in if deviceClassName = [] then Inl (ErrorText (msg ''dra allocation requires deviceClassName''))
         else if count \<le> 0 then Inl (ErrorText (msg ''dra allocation requires count > 0''))
         else andThen (desiredDRACapacity K (alloc_Capacity allocation)) (\<lambda>capacity.
           let exact = \<lparr>dr_DeviceClassName = deviceClassName, dr_AllocationMode = ''ExactCount'', dr_Count = count,
                 dr_Selectors = desiredDRASelectors (alloc_Selectors allocation),
                 dr_Capacity = (if capacity \<noteq> [] then Some capacity else None)\<rparr>
           in Inr \<lparr>rc_Meta = \<lparr>meta_Name = unitDRAClaimName u, meta_Namespace = u_ns u, meta_Labels = unitObjectLabels u, meta_Annotations = []\<rparr>,
                rc_Requests = [\<lparr>dreq_Name = unitDRAClaimRequestName u, dreq_Exactly = exact\<rparr>], rc_Allocation = None\<rparr>))"

definition draCapacityMapToStrings :: "'q k8s \<Rightarrow> 'q smap \<Rightarrow> string smap" where
  "draCapacityMapToStrings K values = map (\<lambda>(name, qty). (name, qty_String K qty)) values"

text \<open>The order by request, driver, pool and device. \<^verbatim>\<open>sort.Slice\<close> leaves the order of equal results open; the model keeps
  the one they have.\<close>

definition result_key :: "'q AllocationResult \<Rightarrow> string list" where
  "result_key r = [ar_Request r, ar_Driver r, ar_Pool r, ar_Device r]"

definition device_status :: "'q k8s \<Rightarrow> 'q AllocationResult \<Rightarrow> GPUUnitDRADeviceStatus" where
  "device_status K r = \<lparr>dev_Request = ar_Request r, dev_Driver = ar_Driver r, dev_Pool = ar_Pool r, dev_Device = ar_Device r,
     dev_ShareID = (case ar_ShareID r of None \<Rightarrow> [] | Some shareID \<Rightarrow> shareID),
     dev_ConsumedCapacity = draCapacityMapToStrings K (ar_ConsumedCapacity r)\<rparr>"

definition gpuUnitDRAStatusFromClaim :: "'q k8s \<Rightarrow> 'q ResourceClaim \<Rightarrow> GPUUnitDRAStatus" where
  "gpuUnitDRAStatusFromClaim K claim =
     (case rc_Allocation claim of
        None \<Rightarrow> \<lparr>dra_ClaimName = meta_Name (rc_Meta claim), dra_Allocated = False, dra_Devices = []\<rparr>
      | Some allocated \<Rightarrow> \<lparr>dra_ClaimName = meta_Name (rc_Meta claim), dra_Allocated = True,
          dra_Devices = map (device_status K) (sort_key result_key allocated)\<rparr>)"

abbreviation unit_owner :: "('w, 'q) UnitCluster \<Rightarrow> GPUUnit \<Rightarrow> ('o \<Rightarrow> ObjectMeta) \<Rightarrow> (ObjectMeta \<Rightarrow> 'o \<Rightarrow> 'o) \<Rightarrow> 'o \<Rightarrow> ('w, 'o) call" where
  "unit_owner C u \<equiv> own_with (uc_SetOwner C) (unit_Meta u)"

definition reconcileGPUUnitDRAClaim :: "'q GPUUnitReconciler \<Rightarrow> ('w, 'q) UnitCluster \<Rightarrow> GPUUnit \<Rightarrow> ('w, GPUUnitDRAStatus \<times> bool) call" where
  "reconcileGPUUnitDRAClaim R C u =
     bindC (liftC (desiredUnitDRAResourceClaim (pe_K (gr_Env R)) u)) (\<lambda>desired.
     bindC (unit_owner C u rc_Meta (\<lambda>m ob. ob\<lparr>rc_Meta := m\<rparr>) desired) (\<lambda>desired.
     bindC (tryC (rs_Get (uc_Claims C) (meta_Namespace (rc_Meta desired)) (meta_Name (rc_Meta desired)))) (\<lambda>r. case r of
       Inl e \<Rightarrow>
         if \<not> IsNotFound e then failC e
         else bindC (rs_Create (uc_Claims C) desired) (\<lambda>_.
           returnC (\<lparr>dra_ClaimName = meta_Name (rc_Meta desired), dra_Allocated = False, dra_Devices = []\<rparr>, True))
     | Inr claim \<Rightarrow>
         if rc_Requests claim \<noteq> rc_Requests desired
         then failC (ErrorText (''dra ResourceClaim %s/%s spec differs from GPUUnit allocation; recreate the GPUUnit to change package allocation'',
           [FS (meta_Namespace (rc_Meta claim)), FS (meta_Name (rc_Meta claim))]))
         else returnC (gpuUnitDRAStatusFromClaim (pe_K (gr_Env R)) claim, False))))"

section \<open>Authorized keys\<close>

definition desiredUnitSSHAuthorizedKeysConfigMap :: "GPUUnit \<Rightarrow> GPUUnitSSHSpec \<Rightarrow> ConfigMap" where
  "desiredUnitSSHAuthorizedKeysConfigMap u sshSpec =
     \<lparr>cm_Meta = \<lparr>meta_Name = unitSSHAuthorizedKeysConfigMapName (u_name u), meta_Namespace = u_ns u, meta_Labels = unitObjectLabels u, meta_Annotations = []\<rparr>,
      cm_Data = [(unitSSHAuthorizedKeysConfigKey, join newline (ssh_AuthorizedKeys sshSpec) @ newline)]\<rparr>"

definition sync_config_map :: "ConfigMap \<Rightarrow> ConfigMap \<Rightarrow> ConfigMap \<times> bool" where
  "sync_config_map current desired =
     (let (data, c1) = replaceStringMap (cm_Data current) (cm_Data desired);
          (labels, c2) = replaceStringMap (meta_Labels (cm_Meta current)) (meta_Labels (cm_Meta desired))
      in (current\<lparr>cm_Data := data, cm_Meta := (cm_Meta current)\<lparr>meta_Labels := labels\<rparr>\<rparr>, c1 \<or> c2))"

definition ensureGPUUnitSSHAuthorizedKeysConfigAbsent :: "('w, 'q) UnitCluster \<Rightarrow> GPUUnit \<Rightarrow> ('w, bool) call" where
  "ensureGPUUnitSSHAuthorizedKeysConfigAbsent C u = delete_if_present (uc_ConfigMaps C) (u_ns u) (unitSSHAuthorizedKeysConfigMapName (u_name u))"

definition reconcileGPUUnitSSHAuthorizedKeysConfig :: "'q GPUUnitReconciler \<Rightarrow> ('w, 'q) UnitCluster \<Rightarrow> GPUUnit \<Rightarrow> ('w, bool) call" where
  "reconcileGPUUnitSSHAuthorizedKeysConfig R C u =
     (if controllerLifecycleForUnit u \<noteq> LifecycleInstance \<or> \<not> ssh_Enabled (spec_SSH (unit_Spec u))
      then ensureGPUUnitSSHAuthorizedKeysConfigAbsent C u
      else bindC (liftC (resolveUnitSSHSpec (pe_K (gr_Env R)) u)) (\<lambda>sshSpec.
           bindC (reconcile_object (uc_ConfigMaps C) cm_Meta (unit_owner C u cm_Meta (\<lambda>m ob. ob\<lparr>cm_Meta := m\<rparr>)) sync_config_map
             (desiredUnitSSHAuthorizedKeysConfigMap u sshSpec)) (\<lambda>(_, changed). returnC changed)))"

section \<open>Egress policy\<close>

definition sync_network_policy :: "NetworkPolicy \<Rightarrow> NetworkPolicy \<Rightarrow> NetworkPolicy \<times> bool" where
  "sync_network_policy current desired =
     (let (labels, c1) = replaceStringMap (meta_Labels (np_Meta current)) (meta_Labels (np_Meta desired))
      in (\<lparr>np_Meta = (np_Meta current)\<lparr>meta_Labels := labels\<rparr>, np_Spec = np_Spec desired\<rparr>, c1 \<or> np_Spec current \<noteq> np_Spec desired))"

definition reconcileGPUUnitNetworkPolicy :: "'q GPUUnitReconciler \<Rightarrow> ('w, 'q) UnitCluster \<Rightarrow> GPUUnit \<Rightarrow> ('w, bool) call" where
  "reconcileGPUUnitNetworkPolicy R C u =
     bindC (liftC (desiredUnitNetworkPolicy (pe_K (gr_Env R)) (gr_Net R) u (gr_BlockedEgressCIDRs R) (gr_ServerlessQueueConfig R))) (\<lambda>desired.
     bindC (reconcile_object (uc_NetworkPolicies C) np_Meta (unit_owner C u np_Meta (\<lambda>m ob. ob\<lparr>np_Meta := m\<rparr>)) sync_network_policy desired)
       (\<lambda>(_, changed). returnC changed))"

section \<open>Service\<close>

definition ensureGPUUnitServiceAbsent :: "('w, 'q) UnitCluster \<Rightarrow> GPUUnit \<Rightarrow> ('w, bool) call" where
  "ensureGPUUnitServiceAbsent C u = delete_if_present (uc_Services C) (u_ns u) (serviceNameForUnit (u_name u))"

definition sync_unit_service :: "KubeService \<Rightarrow> KubeService \<Rightarrow> KubeService \<times> bool" where
  "sync_unit_service current desired =
     (if ks_Ports current \<noteq> ks_Ports desired \<or> \<not> map_equal (ks_Selector current) (ks_Selector desired)
      then (current\<lparr>ks_Ports := ks_Ports desired, ks_Selector := ks_Selector desired\<rparr>, True)
      else (current, False))"

definition reconcileGPUUnitService :: "('w, 'q) UnitCluster \<Rightarrow> GPUUnit \<Rightarrow> GPUUnitAccess \<Rightarrow> ('w, string \<times> string \<times> bool) call" where
  "reconcileGPUUnitService C u access =
     (let serviceName = serviceNameForUnit (u_name u);
          ports = desiredServicePorts (tpl_Ports (spec_Template (unit_Spec u)))
      in if ports = [] then bindC (ensureGPUUnitServiceAbsent C u) (\<lambda>changed. returnC ([], [], changed))
         else bindC (liftC (buildUnitAccessURL (u_ns u) serviceName access (tpl_Ports (spec_Template (unit_Spec u))))) (\<lambda>accessURL.
              bindC (reconcile_object (uc_Services C) ks_Meta (unit_owner C u ks_Meta (\<lambda>m ob. ob\<lparr>ks_Meta := m\<rparr>)) sync_unit_service
                (desiredGPUUnitService u ports)) (\<lambda>(_, changed). returnC (serviceName, accessURL, changed))))"

section \<open>Storage mounts\<close>

fun resolve_mounts :: "('w, GPUStorage) ResourceClient \<Rightarrow> string \<Rightarrow> GPUUnitStorageMount list
    \<Rightarrow> resolvedGPUUnitStorageMount list \<times> string list \<Rightarrow> ('w, resolvedGPUUnitStorageMount list \<times> string list) call" where
  "resolve_mounts C namespace [] acc = returnC acc"
| "resolve_mounts C namespace (mount # mounts) (attachments, pending) =
     bindC (tryC (rs_Get C namespace (mnt_Name mount))) (\<lambda>r. case r of
       Inl e \<Rightarrow>
         if IsNotFound e
         then failC (ErrorText (msg (''referenced gpu storage '' @ namespace @ ''/'' @ mnt_Name mount @ '' does not exist'')))
         else failC e
     | Inr storage \<Rightarrow>
         let ready = (sst_Phase (stor_Status storage) = StoragePhaseReady)
         in resolve_mounts C namespace mounts
              (attachments @ [\<lparr>rsm_Mount = mount, rsm_ClaimName = stor_name storage, rsm_Ready = ready\<rparr>],
               if ready then pending else pending @ [stor_name storage]))"

definition resolveGPUUnitStorageMounts :: "('w, 'q) UnitCluster \<Rightarrow> GPUUnit \<Rightarrow> ('w, resolvedGPUUnitStorageMount list \<times> bool \<times> string) call" where
  "resolveGPUUnitStorageMounts C u =
     (let mounts = spec_StorageMounts (unit_Spec u)
      in if mounts = [] then returnC ([], True, [])
         else bindC (resolve_mounts (uc_Storages C) (u_ns u) mounts ([], [])) (\<lambda>(attachments, pending).
           if pending = [] then returnC (attachments, True, [])
           else returnC (attachments, False, ''Waiting for attached storage to become ready: '' @ join '', '' pending)))"

section \<open>Deployment\<close>

definition errStatusOnly :: error where
  "errStatusOnly = ErrorText (msg ''status already updated'')"

definition invalid_spec_reason :: "error \<Rightarrow> string" where
  "invalid_spec_reason e =
     (if errors_Is e errUnitServerlessSpecIncomplete then ReasonServerlessConfigInvalid
      else if errors_Is e errUnitSSHSpecIncomplete then ReasonSSHConfigInvalid else ReasonInvalidSpec)"

definition mark_failed :: "'q GPUUnitReconciler \<Rightarrow> ('w, 'q) UnitCluster \<Rightarrow> gotime \<Rightarrow> int \<Rightarrow> GPUUnit \<Rightarrow> string \<Rightarrow> string \<Rightarrow> string \<Rightarrow> error
    \<Rightarrow> ('w, 'r) call \<Rightarrow> ('w, 'r) call" where
  "mark_failed R C now generation u serviceName accessURL reason e after =
     bindC (markUnitFailed (pe_K (gr_Env R)) (pe_ErrText (gr_Env R)) (nats_SubjectPrefix (gr_ServerlessQueueConfig R)) now generation
       (uc_WriteStatus C) u serviceName accessURL reason (pe_ErrText (gr_Env R) e)) (\<lambda>_. after)"

definition sync_unit_deployment :: "'q Deployment \<Rightarrow> 'q PodTemplateSpec \<Rightarrow> 'q Deployment \<times> bool" where
  "sync_unit_deployment dep expectedTemplate =
     (let c1 = (dep_Replicas dep \<noteq> Some 1);
          dep = (if c1 then dep\<lparr>dep_Replicas := Some 1\<rparr> else dep);
          c2 = (pt_Spec (dep_Template dep) \<noteq> pt_Spec expectedTemplate
            \<or> \<not> map_equal (pt_Labels (dep_Template dep)) (pt_Labels expectedTemplate));
          dep = (if c2 then dep\<lparr>dep_Template := expectedTemplate\<rparr> else dep)
      in (dep, c1 \<or> c2))"

definition reconcileGPUUnitDeployment :: "'q GPUUnitReconciler \<Rightarrow> ('w, 'q) UnitCluster \<Rightarrow> gotime \<Rightarrow> int \<Rightarrow> GPUUnit \<Rightarrow> resolvedGPUUnitStorageMount list
    \<Rightarrow> ('w, 'q Deployment \<times> bool) call" where
  "reconcileGPUUnitDeployment R C now generation u storageMounts =
     (let invalid = (\<lambda>e. mark_failed R C now generation u (st_ServiceName (unit_Status u)) (st_AccessURL (unit_Status u)) (invalid_spec_reason e) e
            (failC errStatusOnly))
      in bindC (tryC (rs_Get (uc_Deployments C) (u_ns u) (deploymentNameForUnit (u_name u)))) (\<lambda>r. case r of
           Inl e \<Rightarrow>
             if \<not> IsNotFound e then failC e
             else (case desiredUnitDeployment (gr_Env R) u storageMounts (gr_ServerlessQueueConfig R) (gr_ServerlessWorker R) of
                     Inl e \<Rightarrow> invalid e
                   | Inr newDep \<Rightarrow>
                       bindC (unit_owner C u dep_Meta (\<lambda>m ob. ob\<lparr>dep_Meta := m\<rparr>) newDep) (\<lambda>newDep.
                       bindC (rs_Create (uc_Deployments C) newDep) (\<lambda>_. returnC (newDep, True))))
         | Inr dep \<Rightarrow>
             (case desiredUnitPodTemplate (gr_Env R) u storageMounts (gr_ServerlessQueueConfig R) (gr_ServerlessWorker R) of
                Inl e \<Rightarrow> invalid e
              | Inr expectedTemplate \<Rightarrow>
                  let (dep, needsUpdate) = sync_unit_deployment dep expectedTemplate
                  in if needsUpdate then bindC (rs_Update (uc_Deployments C) dep) (\<lambda>_. returnC (dep, True))
                     else returnC (dep, False))))"

section \<open>Reconciliation\<close>

text \<open>A step whose error is written to the status; the error is then returned, which makes the manager run the reconciliation again.\<close>

definition or_fail :: "('w, 'a) call \<Rightarrow> (error \<Rightarrow> ('w, 'r) call) \<Rightarrow> ('a \<Rightarrow> ('w, 'r) call) \<Rightarrow> ('w, 'r) call" where
  "or_fail step failed go = bindC (tryC step) (\<lambda>r. case r of Inl e \<Rightarrow> failed e | Inr x \<Rightarrow> go x)"

definition unit_service_step :: "'q GPUUnitReconciler \<Rightarrow> ('w, 'q) UnitCluster \<Rightarrow> gotime \<Rightarrow> int \<Rightarrow> GPUUnit
    \<Rightarrow> (string \<times> string \<times> bool \<Rightarrow> ('w, requeue) call) \<Rightarrow> ('w, requeue) call" where
  "unit_service_step R C now generation u go =
     (let failed = (\<lambda>reason e after. mark_failed R C now generation u [] [] reason e after)
      in if controllerLifecycleForUnit u = LifecycleInstance
         then case normalizeControllerGPUUnitAccess (spec_Access (unit_Spec u)) (tpl_Ports (spec_Template (unit_Spec u))) of
                Inl e \<Rightarrow> failed ReasonAccessConfigInvalid e (returnC NoRequeue)
              | Inr access \<Rightarrow>
                  or_fail (reconcileGPUUnitService C u access) (\<lambda>e. failed ReasonUnitServiceSyncFailed e (failC e)) go
         else or_fail (ensureGPUUnitServiceAbsent C u) (\<lambda>e. failed ReasonUnitServiceSyncFailed e (failC e))
                (\<lambda>changed. go ([], [], changed)))"

text \<open>The last part of a run: the pods are looked at and the status is written (\<open>changed\<close>: an owned object was changed).\<close>

definition unit_status_step :: "'q GPUUnitReconciler \<Rightarrow> ('w, 'q) UnitCluster \<Rightarrow> gotime \<Rightarrow> int \<Rightarrow> GPUUnit \<Rightarrow> bool \<times> string \<Rightarrow> string \<times> string
    \<Rightarrow> GPUUnitDRAStatus \<Rightarrow> 'q Deployment \<Rightarrow> bool \<Rightarrow> ('w, requeue) call" where
  "unit_status_step R C now generation u storage access draStatus dep changed =
     (let (storageReady, storageWaitMessage) = storage;
          (serviceName, accessURL) = access
      in or_fail (inspectGPUUnitPods (uc_ListPods C) u)
           (\<lambda>e. mark_failed R C now generation u serviceName accessURL ReasonPodStatusSyncFailed e (failC e))
           (\<lambda>(podFailure, sshFailure, serverlessFailure).
         let K = pe_K (gr_Env R);
             errText = pe_ErrText (gr_Env R);
             available = dep_AvailableReplicas dep;
             sshProgress = buildUnitSSHProgress K errText u available sshFailure;
             serverlessProgress = buildUnitServerlessProgress errText u available (nats_SubjectPrefix (gr_ServerlessQueueConfig R)) serverlessFailure;
             next = buildGPUUnitStatus K now generation u available serviceName accessURL podFailure storageReady storageWaitMessage
               sshProgress serverlessProgress draStatus
         in bindC (updateGPUUnitStatus (uc_WriteStatus C) u next) (\<lambda>_.
              if changed \<or> \<not> storageReady then returnC RequeueAfterUpdate else returnC NoRequeue)))"

text \<open>The objects the pods rely on, in the order of the code, and then the deployment.\<close>

definition unit_owned_step :: "'q GPUUnitReconciler \<Rightarrow> ('w, 'q) UnitCluster \<Rightarrow> gotime \<Rightarrow> int \<Rightarrow> GPUUnit \<Rightarrow> resolvedGPUUnitStorageMount list \<Rightarrow> bool \<times> string
    \<Rightarrow> string \<times> string \<times> bool \<Rightarrow> ('w, requeue) call" where
  "unit_owned_step R C now generation u storageMounts storage service =
     (let (serviceName, accessURL, serviceChanged) = service;
          failed = (\<lambda>reason e. mark_failed R C now generation u serviceName accessURL reason e (failC e))
      in or_fail (reconcileGPUUnitSSHAuthorizedKeysConfig R C u) (failed ReasonUnitDeploymentSyncFailed) (\<lambda>sshConfigChanged.
         or_fail (reconcileGPUUnitDRAClaim R C u) (failed ReasonUnitDRAClaimSyncFailed) (\<lambda>(draStatus, draClaimChanged).
         or_fail (reconcileGPUUnitNetworkPolicy R C u) (failed ReasonUnitNetworkPolicySyncFailed) (\<lambda>networkPolicyChanged.
         or_fail (reconcileGPUUnitDeployment R C now generation u storageMounts)
           (\<lambda>e. if errors_Is e errStatusOnly then returnC NoRequeue else failed ReasonUnitDeploymentSyncFailed e) (\<lambda>(dep, deploymentChanged).
         unit_status_step R C now generation u storage (serviceName, accessURL) draStatus dep
           (serviceChanged \<or> sshConfigChanged \<or> draClaimChanged \<or> networkPolicyChanged \<or> deploymentChanged))))))"

definition Unit_Reconcile :: "'q GPUUnitReconciler \<Rightarrow> ('w, 'q) UnitCluster \<Rightarrow> gotime \<Rightarrow> int \<Rightarrow> string \<Rightarrow> string \<Rightarrow> ('w, requeue) call" where
  "Unit_Reconcile R C now generation namespace name =
     bindC (tryC (rs_Get (uc_Units C) namespace name)) (\<lambda>r. case r of
       Inl e \<Rightarrow> if IsNotFound e then returnC NoRequeue else failC e
     | Inr u \<Rightarrow>
         or_fail (resolveGPUUnitStorageMounts C u)
           (\<lambda>e. mark_failed R C now generation u [] [] ReasonStorageMountInvalid e (returnC NoRequeue)) (\<lambda>(storageMounts, storage).
         case desiredUnitPodTemplate (gr_Env R) u storageMounts (gr_ServerlessQueueConfig R) (gr_ServerlessWorker R) of
           Inl e \<Rightarrow> mark_failed R C now generation u [] [] (invalid_spec_reason e) e (returnC NoRequeue)
         | Inr _ \<Rightarrow> unit_service_step R C now generation u (unit_owned_step R C now generation u storageMounts storage)))"

end
