(* ===== verification/Unit_Convergence.thy ===== *)
theory Unit_Convergence
  imports Controller_Unit
begin

text \<open>
  What a run of the unit controller leaves behind: the objects it owns settle (locale \<open>object_sync\<close> on its sync functions), and
  the deployment is written only after everything its pods rely on is in place. The locale \<open>unit_cluster\<close> is the contract of the
  API server for the kinds of object the controller writes.
\<close>

section \<open>The sync functions\<close>

interpretation config_map_sync: object_sync cm_Meta sync_config_map "\<lambda>_. True"
  by unfold_locales (auto simp: sync_config_map_def replaceStringMap_def split: prod.splits if_splits)

interpretation network_policy_sync: object_sync np_Meta sync_network_policy "\<lambda>_. True"
  by unfold_locales (auto simp: sync_network_policy_def replaceStringMap_def split: prod.splits if_splits)

interpretation unit_service_sync: object_sync ks_Meta sync_unit_service "\<lambda>_. True"
  by unfold_locales (auto simp: sync_unit_service_def split: prod.splits if_splits)

lemma network_policy_settled: "network_policy_sync.settled np desired \<longleftrightarrow>
    obj_key np_Meta np = obj_key np_Meta desired \<and> np_Spec np = np_Spec desired \<and> map_of (meta_Labels (np_Meta np)) = map_of (meta_Labels (np_Meta desired))"
  unfolding network_policy_sync.settled_def by (auto simp: sync_network_policy_def replaceStringMap_def map_equal_iff split: prod.splits)

lemma config_map_settled: "config_map_sync.settled cm desired \<longleftrightarrow>
    obj_key cm_Meta cm = obj_key cm_Meta desired \<and> map_of (cm_Data cm) = map_of (cm_Data desired)
    \<and> map_of (meta_Labels (cm_Meta cm)) = map_of (meta_Labels (cm_Meta desired))"
  unfolding config_map_sync.settled_def by (auto simp: sync_config_map_def replaceStringMap_def map_equal_iff split: prod.splits)

section \<open>The cluster\<close>

text \<open>The kinds the controller writes are separate stores; reading units, storages and pods and writing a status changes none of them.\<close>

locale unit_cluster =
  deployments: resource_store "uc_Deployments C" dep_Meta deps "\<lambda>w. (svcs w, cms w, nps w, rcs w)" +
  services: resource_store "uc_Services C" ks_Meta svcs "\<lambda>w. (deps w, cms w, nps w, rcs w)" +
  config_maps: resource_store "uc_ConfigMaps C" cm_Meta cms "\<lambda>w. (deps w, svcs w, nps w, rcs w)" +
  policies: resource_store "uc_NetworkPolicies C" np_Meta nps "\<lambda>w. (deps w, svcs w, cms w, rcs w)" +
  claims: resource_store "uc_Claims C" rc_Meta rcs "\<lambda>w. (deps w, svcs w, cms w, nps w)" +
  owners: owner_references "uc_SetOwner C"
  for C :: "('w, 'q) UnitCluster" and deps :: "'w \<Rightarrow> 'q Deployment list" and svcs cms nps rcs +
  assumes status_keeps: "keeps (\<lambda>w. (deps w, svcs w, cms w, nps w, rcs w)) (uc_WriteStatus C u)"
    and units_keep: "keeps (\<lambda>w. (deps w, svcs w, cms w, nps w, rcs w)) (rs_Get (uc_Units C) ns n)"
    and storages_keep: "keeps (\<lambda>w. (deps w, svcs w, cms w, nps w, rcs w)) (rs_Get (uc_Storages C) ns n)"
    and pods_keep: "keeps (\<lambda>w. (deps w, svcs w, cms w, nps w, rcs w)) (uc_ListPods C ns l)"

lemma keeps_weaken: "keeps view m \<Longrightarrow> (\<And>w w'. view w = view w' \<Longrightarrow> f w = f w') \<Longrightarrow> keeps f m"
  unfolding keeps_def by blast

lemma keeps_or_fail [intro]:
  "keeps view step \<Longrightarrow> (\<And>e. keeps view (failed e)) \<Longrightarrow> (\<And>x. keeps view (go x)) \<Longrightarrow> keeps view (or_fail step failed go)"
  unfolding or_fail_def by (intro keeps_bindC keeps_tryC) (auto split: sum.splits)

lemma or_fail_cases:
  assumes "or_fail step failed go w = (r, w')"
  obtains (failed) e v where "step w = (Inl e, v)" "failed e v = (r, w')" | (go) x v where "step w = (Inr x, v)" "go x v = (r, w')"
proof (cases "step w")
  case (Pair a v)
  then show ?thesis using that assms by (cases a) (auto simp: or_fail_def bindC_def tryC_def)
qed

text \<open>A step that keeps a view, with an error handler that keeps it too, was passed when the view has changed.\<close>

lemma or_fail_passed:
  assumes "or_fail step failed go w = (r, w')" "view w' \<noteq> view w" "keeps view step" "\<And>e. keeps view (failed e)"
  shows "\<exists>x v. step w = (Inr x, v) \<and> go x v = (r, w') \<and> view v = view w"
  using assms(1)
proof (cases rule: or_fail_cases)
  case (failed e v)
  then have "view w' = view w" using keepsD [OF assms(3) failed(1)] keepsD [OF assms(4) failed(2)] by simp
  with assms(2) show ?thesis by blast
next
  case (go x v)
  then show ?thesis using keepsD [OF assms(3) go(1)] by blast
qed

lemma keeps_reconcile_object:
  assumes "\<And>ns n. keeps view (rs_Get C ns n)" "\<And>ob. keeps view (rs_Create C ob)" "\<And>ob. keeps view (rs_Update C ob)" "\<And>ob. keeps view (own ob)"
  shows "keeps view (reconcile_object C meta own sync desired)"
  unfolding reconcile_object_def using assms by (intro keeps_bindC keeps_tryC) (auto split: sum.splits prod.splits intro!: keeps_bindC)

lemma keeps_delete_if_present:
  assumes "\<And>ns n. keeps view (rs_Get C ns n)" "\<And>ob. keeps view (rs_Delete C ob)"
  shows "keeps view (delete_if_present C ns n)"
  unfolding delete_if_present_def using assms by (intro keeps_bindC keeps_tryC) (auto split: sum.splits)

lemma keeps_own_with [intro]: "keeps view (own_with setOwner owner meta set_meta ob)"
  by (auto simp: own_with_def)

lemma keeps_split [intro]: "(\<And>a b. keeps view (f a b)) \<Longrightarrow> keeps view (case p of (a, b) \<Rightarrow> f a b)"
  by (cases p) simp

context unit_cluster
begin

abbreviation view_all :: "'w \<Rightarrow> 'q Deployment list \<times> KubeService list \<times> ConfigMap list \<times> NetworkPolicy list \<times> 'q ResourceClaim list" where
  "view_all w \<equiv> (deps w, svcs w, cms w, nps w, rcs w)"

lemma mark_failed_keeps [intro]: "keeps view_all after \<Longrightarrow> keeps view_all (mark_failed R C now g u sn url reason e after)"
  unfolding mark_failed_def markUnitFailed_def updateGPUUnitStatus_def Let_def
  by (intro keeps_bindC) (auto split: prod.splits intro!: keeps_bindC status_keeps)

lemma resolve_mounts_keeps: "keeps view_all (resolve_mounts (uc_Storages C) ns ms acc)"
proof (induction ms arbitrary: acc)
  case (Cons mt ms)
  obtain attachments pending where acc: "acc = (attachments, pending)" by fastforce
  show ?case unfolding acc resolve_mounts.simps Let_def using Cons by (intro keeps_bindC keeps_tryC storages_keep) (auto split: sum.splits)
qed simp

lemma mounts_keeps: "keeps view_all (resolveGPUUnitStorageMounts C u)"
  unfolding resolveGPUUnitStorageMounts_def Let_def by (intro keeps_if keeps_bindC resolve_mounts_keeps) auto

lemma service_keeps: "keeps (\<lambda>w. (deps w, cms w, nps w, rcs w)) (reconcileGPUUnitService C u access)"
  "keeps (\<lambda>w. (deps w, cms w, nps w, rcs w)) (ensureGPUUnitServiceAbsent C u)"
proof -
  show "keeps (\<lambda>w. (deps w, cms w, nps w, rcs w)) (ensureGPUUnitServiceAbsent C u)"
    unfolding ensureGPUUnitServiceAbsent_def by (intro keeps_delete_if_present services.other_kept)
  then show "keeps (\<lambda>w. (deps w, cms w, nps w, rcs w)) (reconcileGPUUnitService C u access)"
    unfolding reconcileGPUUnitService_def Let_def
    by (intro keeps_if keeps_bindC keeps_reconcile_object services.other_kept keeps_own_with) auto
qed

lemma keys_keeps: "keeps (\<lambda>w. (deps w, svcs w, nps w, rcs w)) (reconcileGPUUnitSSHAuthorizedKeysConfig R C u)"
  unfolding reconcileGPUUnitSSHAuthorizedKeysConfig_def ensureGPUUnitSSHAuthorizedKeysConfigAbsent_def
  by (intro keeps_if keeps_bindC keeps_reconcile_object keeps_delete_if_present config_maps.other_kept keeps_own_with) auto

lemma claim_keeps: "keeps (\<lambda>w. (deps w, svcs w, cms w, nps w)) (reconcileGPUUnitDRAClaim R C u)"
  unfolding reconcileGPUUnitDRAClaim_def
  by (intro keeps_bindC keeps_tryC claims.other_kept keeps_own_with keeps_basic)
    (auto split: sum.splits intro!: keeps_bindC claims.other_kept)

lemma policy_keeps: "keeps (\<lambda>w. (deps w, svcs w, cms w, rcs w)) (reconcileGPUUnitNetworkPolicy R C u)"
  unfolding reconcileGPUUnitNetworkPolicy_def
  by (intro keeps_bindC keeps_reconcile_object policies.other_kept keeps_own_with) auto

lemma deployment_keeps: "keeps (\<lambda>w. (svcs w, cms w, nps w, rcs w)) (reconcileGPUUnitDeployment R C now g u mts)"
proof -
  have failed: "keeps (\<lambda>w. (svcs w, cms w, nps w, rcs w)) (mark_failed R C now g u sn url reason e (failC e'))" for sn url reason e e'
    by (rule keeps_weaken [OF mark_failed_keeps]) auto
  show ?thesis unfolding reconcileGPUUnitDeployment_def Let_def
    by (intro keeps_bindC keeps_tryC deployments.other_kept)
      (auto split: sum.splits prod.splits intro!: keeps_bindC failed deployments.other_kept keeps_own_with)
qed

lemma pods_keeps: "keeps view_all (inspectGPUUnitPods (uc_ListPods C) u)"
  unfolding inspectGPUUnitPods_def by (intro keeps_bindC pods_keep) auto

end

section \<open>What the steps establish\<close>

context unit_cluster
begin

lemma policy_present:
  assumes "reconcileGPUUnitNetworkPolicy R C u w = (Inr changed, w')"
  shows "\<exists>p. desiredUnitNetworkPolicy (pe_K (gr_Env R)) (gr_Net R) u (gr_BlockedEgressCIDRs R) (gr_ServerlessQueueConfig R) = Inr p
    \<and> (\<exists>np \<in> set (nps w'). network_policy_sync.settled np p)"
proof -
  obtain p np where p: "desiredUnitNetworkPolicy (pe_K (gr_Env R)) (gr_Net R) u (gr_BlockedEgressCIDRs R) (gr_ServerlessQueueConfig R) = Inr p"
    and run: "reconcile_object (uc_NetworkPolicies C) np_Meta (unit_owner C u np_Meta (\<lambda>m ob. ob\<lparr>np_Meta := m\<rparr>)) sync_network_policy p w = (Inr (np, changed), w')"
    using assms by (auto simp: reconcileGPUUnitNetworkPolicy_def result_simps)
  have store: "synced_store (uc_NetworkPolicies C) np_Meta nps (\<lambda>w. (deps w, svcs w, cms w, rcs w)) sync_network_policy (\<lambda>_. True)
      (unit_owner C u np_Meta (\<lambda>m ob. ob\<lparr>np_Meta := m\<rparr>))"
    by (rule owners.own_with_store [OF _ policies.resource_store_axioms network_policy_sync.object_sync_axioms]) simp
  show ?thesis using p synced_store.reconcile_settles [OF store run] by blast
qed

lemma keys_present:
  assumes "reconcileGPUUnitSSHAuthorizedKeysConfig R C u w = (Inr changed, w')"
    and "controllerLifecycleForUnit u = LifecycleInstance" "ssh_Enabled (spec_SSH (unit_Spec u))"
  shows "\<exists>s. resolveUnitSSHSpec (pe_K (gr_Env R)) u = Inr s
    \<and> (\<exists>cm \<in> set (cms w'). config_map_sync.settled cm (desiredUnitSSHAuthorizedKeysConfigMap u s))"
proof -
  obtain s cm where s: "resolveUnitSSHSpec (pe_K (gr_Env R)) u = Inr s"
    and run: "reconcile_object (uc_ConfigMaps C) cm_Meta (unit_owner C u cm_Meta (\<lambda>m ob. ob\<lparr>cm_Meta := m\<rparr>)) sync_config_map
      (desiredUnitSSHAuthorizedKeysConfigMap u s) w = (Inr (cm, changed), w')"
    using assms by (auto simp: reconcileGPUUnitSSHAuthorizedKeysConfig_def result_simps)
  have store: "synced_store (uc_ConfigMaps C) cm_Meta cms (\<lambda>w. (deps w, svcs w, nps w, rcs w)) sync_config_map (\<lambda>_. True)
      (unit_owner C u cm_Meta (\<lambda>m ob. ob\<lparr>cm_Meta := m\<rparr>))"
    by (rule owners.own_with_store [OF _ config_maps.resource_store_axioms config_map_sync.object_sync_axioms]) simp
  show ?thesis using s synced_store.reconcile_settles [OF store run] by blast
qed

lemma claim_present:
  assumes "reconcileGPUUnitDRAClaim R C u w = (Inr (st, changed), w')"
  shows "\<exists>d. desiredUnitDRAResourceClaim (pe_K (gr_Env R)) u = Inr d
    \<and> (\<exists>c \<in> set (rcs w'). obj_key rc_Meta c = obj_key rc_Meta d \<and> rc_Requests c = rc_Requests d)"
proof -
  obtain d where d: "desiredUnitDRAResourceClaim (pe_K (gr_Env R)) u = Inr d"
    using assms by (auto simp: reconcileGPUUnitDRAClaim_def result_simps)
  have own: "unit_owner C u rc_Meta (\<lambda>m ob. ob\<lparr>rc_Meta := m\<rparr>) d v = (Inr d', v') \<Longrightarrow> d' = d \<and> v' = v" for d' v v'
    using owners.owner_only by (auto simp: own_with_def result_simps)
  obtain r v where get: "rs_Get (uc_Claims C) (meta_Namespace (rc_Meta d)) (meta_Name (rc_Meta d)) w = (r, v)" by fastforce
  have v: "rcs v = rcs w" using keepsD [OF claims.read_keeps(2) get] .
  show ?thesis
  proof (cases r)
    case (Inl e)
    with assms d get have "rs_Create (uc_Claims C) d v = (Inr (), w')"
      by (auto simp: reconcileGPUUnitDRAClaim_def result_simps split: if_splits dest!: own)
    then have "d \<in> set (rcs w')" by (simp add: claims.create_set)
    with d show ?thesis by blast
  next
    case (Inr c)
    with assms d get have "w' = v" "rc_Requests c = rc_Requests d"
      by (auto simp: reconcileGPUUnitDRAClaim_def result_simps split: if_splits dest!: own)
    moreover have "c \<in> set (rcs w)" "obj_key rc_Meta c = obj_key rc_Meta d" using claims.get_ok [of _ _ w c v] get Inr by auto
    ultimately show ?thesis using d v by auto
  qed
qed

lemma status_step_keeps: "keeps view_all (unit_status_step R C now g u storage access dra dep changed)"
  unfolding unit_status_step_def updateGPUUnitStatus_def Let_def
  by (auto split: prod.splits intro!: keeps_or_fail pods_keeps mark_failed_keeps keeps_bindC status_keeps)

text \<open>A run that changes a deployment went through every step before it.\<close>

lemma owned_step_reached:
  assumes "unit_owned_step R C now g u mts storage service w = (r, w')" "deps w' \<noteq> deps w"
  obtains kc v2 st cc v3 pc v4 where
    "reconcileGPUUnitSSHAuthorizedKeysConfig R C u w = (Inr kc, v2)" "reconcileGPUUnitDRAClaim R C u v2 = (Inr (st, cc), v3)"
    "reconcileGPUUnitNetworkPolicy R C u v3 = (Inr pc, v4)" "cms w' = cms v2" "rcs w' = rcs v3" "nps w' = nps v4"
proof -
  have fail: "keeps deps (mark_failed R C now g u sn url reason e (failC e))" for sn url reason e
    by (rule keeps_weaken [OF mark_failed_keeps]) auto
  have steps: "keeps deps (reconcileGPUUnitSSHAuthorizedKeysConfig R C u)" "keeps deps (reconcileGPUUnitDRAClaim R C u)"
    "keeps deps (reconcileGPUUnitNetworkPolicy R C u)"
    by (rule keeps_weaken [OF keys_keeps], simp, rule keeps_weaken [OF claim_keeps], simp, rule keeps_weaken [OF policy_keeps], simp)
  obtain sn url sc where service: "service = (sn, url, sc)" by (cases service) auto
  have "keeps (\<lambda>w. (svcs w, cms w, nps w, rcs w)) (unit_status_step R C now g u storage (sn, url) st dep b)" for st dep b
    by (rule keeps_weaken [OF status_step_keeps]) auto
  moreover have "keeps (\<lambda>w. (svcs w, cms w, nps w, rcs w)) (mark_failed R C now g u sn url ReasonUnitDeploymentSyncFailed e (failC e))" for e
    by (rule keeps_weaken [OF mark_failed_keeps]) auto
  ultimately have tail: "keeps (\<lambda>w. (svcs w, cms w, nps w, rcs w)) (or_fail (reconcileGPUUnitDeployment R C now g u mts)
      (\<lambda>e. if errors_Is e errStatusOnly then returnC NoRequeue else mark_failed R C now g u sn url ReasonUnitDeploymentSyncFailed e (failC e))
      (\<lambda>(dep, dc). unit_status_step R C now g u storage (sn, url) st dep (f dc)))" for st f
    by (intro keeps_or_fail deployment_keeps) auto
  obtain kc v2 st cc v3 pc v4 where run: "reconcileGPUUnitSSHAuthorizedKeysConfig R C u w = (Inr kc, v2)"
    "reconcileGPUUnitDRAClaim R C u v2 = (Inr (st, cc), v3)" "reconcileGPUUnitNetworkPolicy R C u v3 = (Inr pc, v4)"
    and rest: "or_fail (reconcileGPUUnitDeployment R C now g u mts)
      (\<lambda>e. if errors_Is e errStatusOnly then returnC NoRequeue else mark_failed R C now g u sn url ReasonUnitDeploymentSyncFailed e (failC e))
      (\<lambda>(dep, dc). unit_status_step R C now g u storage (sn, url) st dep (sc \<or> kc \<or> cc \<or> pc \<or> dc)) v4 = (r, w')"
    using assms(1) unfolding unit_owned_step_def service Let_def prod.case
    apply (drule_tac or_fail_passed [OF _ assms(2) steps(1) fail])
    apply (elim exE conjE)
    apply (drule or_fail_passed [OF _ _ steps(2) fail], use assms(2) in simp)
    apply (elim exE conjE)
    apply (simp add: case_prod_unfold)
    apply (drule or_fail_passed [OF _ _ steps(3) fail], use assms(2) in simp)
    apply (elim exE conjE)
    subgoal premises p for kc v2 stc v3 pc v4
      using p by (cases stc) (auto simp: case_prod_unfold)
    done
  have "(svcs w', cms w', nps w', rcs w') = (svcs v4, cms v4, nps v4, rcs v4)" using keepsD [OF tail rest] by simp
  moreover have "cms v4 = cms v3" "rcs v4 = rcs v3" using keepsD [OF policy_keeps run(3)] by simp_all
  moreover have "cms v3 = cms v2" using keepsD [OF claim_keeps run(2)] by simp
  ultimately show ?thesis using that run by simp
qed

lemma deployment_reached:
  assumes "Unit_Reconcile R C now g ns n w = (r, w')" "deps w' \<noteq> deps w"
  obtains u v0 mts storage service v1 where "rs_Get (uc_Units C) ns n w = (Inr u, v0)"
    "unit_owned_step R C now g u mts storage service v1 = (r, w')" "deps v1 = deps w"
proof -
  obtain q v0 where get: "rs_Get (uc_Units C) ns n w = (q, v0)" by fastforce
  have v0: "deps v0 = deps w" using keepsD [OF units_keep get] by simp
  obtain u where q: "q = Inr u"
    using assms get v0 by (cases q) (auto simp: Unit_Reconcile_def bindC_def tryC_def split: if_splits)
  have fail: "keeps deps (mark_failed R C now g u sn url reason e (returnC x))" "keeps deps (mark_failed R C now g u sn url reason e (failC e'))"
    for sn url reason e e' and x :: requeue
    by (rule keeps_weaken [OF mark_failed_keeps], simp, simp)+
  have steps: "keeps deps (resolveGPUUnitStorageMounts C u)" "keeps deps (reconcileGPUUnitService C u access)" "keeps deps (ensureGPUUnitServiceAbsent C u)" for access
    by (rule keeps_weaken [OF mounts_keeps], simp, rule keeps_weaken [OF service_keeps(1)], simp, rule keeps_weaken [OF service_keeps(2)], simp)
  from assms(1) have "or_fail (resolveGPUUnitStorageMounts C u)
      (\<lambda>e. mark_failed R C now g u [] [] ReasonStorageMountInvalid e (returnC NoRequeue)) (\<lambda>(storageMounts, storage).
        case desiredUnitPodTemplate (gr_Env R) u storageMounts (gr_ServerlessQueueConfig R) (gr_ServerlessWorker R) of
          Inl e \<Rightarrow> mark_failed R C now g u [] [] (invalid_spec_reason e) e (returnC NoRequeue)
        | Inr _ \<Rightarrow> unit_service_step R C now g u (unit_owned_step R C now g u storageMounts storage)) v0 = (r, w')"
    using get q by (simp add: Unit_Reconcile_def bindC_def tryC_def)
  from or_fail_passed [OF this _ steps(1) fail(1)] obtain mts storage v1 where v1: "deps v1 = deps w"
    and go: "(case desiredUnitPodTemplate (gr_Env R) u mts (gr_ServerlessQueueConfig R) (gr_ServerlessWorker R) of
          Inl e \<Rightarrow> mark_failed R C now g u [] [] (invalid_spec_reason e) e (returnC NoRequeue)
        | Inr _ \<Rightarrow> unit_service_step R C now g u (unit_owned_step R C now g u mts storage)) v1 = (r, w')"
    using assms(2) v0 by auto
  have svc: "unit_service_step R C now g u (unit_owned_step R C now g u mts storage) v1 = (r, w')"
  proof (cases "desiredUnitPodTemplate (gr_Env R) u mts (gr_ServerlessQueueConfig R) (gr_ServerlessWorker R)")
    case (Inl e)
    then have "deps w' = deps v1" using keepsD [OF fail(1), of "[]" "[]" "invalid_spec_reason e" e NoRequeue v1 r w'] go by simp
    with assms(2) v1 show ?thesis by simp
  qed (use go in simp)
  have "\<exists>service v. unit_owned_step R C now g u mts storage service v = (r, w') \<and> deps v = deps w"
  proof (cases "controllerLifecycleForUnit u = LifecycleInstance")
    case True
    obtain access where "or_fail (reconcileGPUUnitService C u access) (\<lambda>e. mark_failed R C now g u [] [] ReasonUnitServiceSyncFailed e (failC e))
        (unit_owned_step R C now g u mts storage) v1 = (r, w')"
    proof (cases "normalizeControllerGPUUnitAccess (spec_Access (unit_Spec u)) (tpl_Ports (spec_Template (unit_Spec u)))")
      case (Inl e)
      then have "deps w' = deps v1"
        using keepsD [OF fail(1), of "[]" "[]" ReasonAccessConfigInvalid e NoRequeue v1 r w'] svc True by (simp add: unit_service_step_def)
      with assms(2) v1 show ?thesis by simp
    qed (use svc True that in \<open>simp add: unit_service_step_def\<close>)
    from or_fail_passed [OF this _ steps(2) fail(2)] show ?thesis using assms(2) v1 by auto
  next
    case False
    then have "or_fail (ensureGPUUnitServiceAbsent C u) (\<lambda>e. mark_failed R C now g u [] [] ReasonUnitServiceSyncFailed e (failC e))
        (\<lambda>changed. unit_owned_step R C now g u mts storage ([], [], changed)) v1 = (r, w')"
      using svc by (simp add: unit_service_step_def)
    from or_fail_passed [OF this _ steps(3) fail(2)] show ?thesis using assms(2) v1 by auto
  qed
  then show ?thesis using that get q by blast
qed

end

text \<open>
  C15. The pods of a unit start only behind their policy: a run that creates or changes the deployment of a unit leaves, when it ends, the
  egress policy of the unit with exactly the rules the settings ask for, the device claim with exactly the requested devices, and, when SSH is
  enabled, the file of authorized keys.
\<close>

theorem deployment_waits_for_dependencies:
  assumes "unit_cluster C deps svcs cms nps rcs"
    and "Unit_Reconcile R C now g ns n w = (r, w')" "deps w' \<noteq> deps w"
  shows "\<exists>u v. rs_Get (uc_Units C) ns n w = (Inr u, v)
    \<and> (\<exists>p. desiredUnitNetworkPolicy (pe_K (gr_Env R)) (gr_Net R) u (gr_BlockedEgressCIDRs R) (gr_ServerlessQueueConfig R) = Inr p
        \<and> (\<exists>np \<in> set (nps w'). obj_key np_Meta np = (u_ns u, networkPolicyNameForUnit (u_name u)) \<and> np_Spec np = np_Spec p))
    \<and> (\<exists>d. desiredUnitDRAResourceClaim (pe_K (gr_Env R)) u = Inr d
        \<and> (\<exists>c \<in> set (rcs w'). obj_key rc_Meta c = (u_ns u, unitDRAClaimName u) \<and> rc_Requests c = rc_Requests d))
    \<and> (ssh_Enabled (spec_SSH (unit_Spec u)) \<longrightarrow> (\<exists>s. resolveUnitSSHSpec (pe_K (gr_Env R)) u = Inr s
        \<and> (\<exists>cm \<in> set (cms w'). obj_key cm_Meta cm = (u_ns u, unitSSHAuthorizedKeysConfigMapName (u_name u))
            \<and> map_of (cm_Data cm) unitSSHAuthorizedKeysConfigKey = Some (join newline (ssh_AuthorizedKeys s) @ newline))))"
proof -
  obtain u v0 mts storage service v1 where u: "rs_Get (uc_Units C) ns n w = (Inr u, v0)"
    and step: "unit_owned_step R C now g u mts storage service v1 = (r, w')" "deps v1 = deps w"
    using unit_cluster.deployment_reached [OF assms] by metis
  obtain kc v2 st cc v3 pc v4 where run: "reconcileGPUUnitSSHAuthorizedKeysConfig R C u v1 = (Inr kc, v2)"
    "reconcileGPUUnitDRAClaim R C u v2 = (Inr (st, cc), v3)" "reconcileGPUUnitNetworkPolicy R C u v3 = (Inr pc, v4)"
    and kept: "cms w' = cms v2" "rcs w' = rcs v3" "nps w' = nps v4"
    using unit_cluster.owned_step_reached [OF assms(1) step(1)] assms(3) step(2) by metis
  have keys: "desiredUnitNetworkPolicy K N u b q = Inr p \<Longrightarrow> obj_key np_Meta p = (u_ns u, networkPolicyNameForUnit (u_name u))"
    "desiredUnitDRAResourceClaim K u = Inr d \<Longrightarrow> obj_key rc_Meta d = (u_ns u, unitDRAClaimName u)"
    "obj_key cm_Meta (desiredUnitSSHAuthorizedKeysConfigMap u s) = (u_ns u, unitSSHAuthorizedKeysConfigMapName (u_name u))" for K N b q p d s
    by (auto simp: desiredUnitNetworkPolicy_def desiredUnitDRAResourceClaim_def desiredUnitSSHAuthorizedKeysConfigMap_def Let_def
        result_simps split: if_splits)
  have "ssh_Enabled (spec_SSH (unit_Spec u)) \<Longrightarrow> \<exists>s. resolveUnitSSHSpec (pe_K (gr_Env R)) u = Inr s
      \<and> (\<exists>cm \<in> set (cms w'). obj_key cm_Meta cm = (u_ns u, unitSSHAuthorizedKeysConfigMapName (u_name u))
          \<and> map_of (cm_Data cm) unitSSHAuthorizedKeysConfigKey = Some (join newline (ssh_AuthorizedKeys s) @ newline))"
    using unit_cluster.keys_present [OF assms(1) run(1)] kept(1) unfolding config_map_settled keys
    by (force simp: controllerLifecycleForUnit_def desiredUnitSSHAuthorizedKeysConfigMap_def)
  moreover have "\<exists>d. desiredUnitDRAResourceClaim (pe_K (gr_Env R)) u = Inr d
      \<and> (\<exists>c \<in> set (rcs w'). obj_key rc_Meta c = (u_ns u, unitDRAClaimName u) \<and> rc_Requests c = rc_Requests d)"
    using unit_cluster.claim_present [OF assms(1) run(2)] kept(2) keys(2) by metis
  moreover have "\<exists>p. desiredUnitNetworkPolicy (pe_K (gr_Env R)) (gr_Net R) u (gr_BlockedEgressCIDRs R) (gr_ServerlessQueueConfig R) = Inr p
      \<and> (\<exists>np \<in> set (nps w'). obj_key np_Meta np = (u_ns u, networkPolicyNameForUnit (u_name u)) \<and> np_Spec np = np_Spec p)"
    using unit_cluster.policy_present [OF assms(1) run(3)] kept(3) keys(1) unfolding network_policy_settled by metis
  ultimately show ?thesis using u by blast
qed

section \<open>A cluster in memory\<close>

record unit_world =
  uw_Units :: "GPUUnit list"
  uw_Storages :: "GPUStorage list"
  uw_Deployments :: "int Deployment list"
  uw_Services :: "KubeService list"
  uw_ConfigMaps :: "ConfigMap list"
  uw_Policies :: "NetworkPolicy list"
  uw_Claims :: "int ResourceClaim list"

definition mem_unit_cluster :: "(unit_world, int) UnitCluster" where
  "mem_unit_cluster = \<lparr>uc_Units = mem_client unit_Meta uw_Units (\<lambda>xs w. w\<lparr>uw_Units := xs\<rparr>),
     uc_WriteStatus = (\<lambda>u w. (Inr (), w\<lparr>uw_Units := map (\<lambda>old. if obj_key unit_Meta old = obj_key unit_Meta u then u else old) (uw_Units w)\<rparr>)),
     uc_Storages = mem_client stor_Meta uw_Storages (\<lambda>xs w. w\<lparr>uw_Storages := xs\<rparr>),
     uc_Deployments = mem_client dep_Meta uw_Deployments (\<lambda>xs w. w\<lparr>uw_Deployments := xs\<rparr>),
     uc_Services = mem_client ks_Meta uw_Services (\<lambda>xs w. w\<lparr>uw_Services := xs\<rparr>),
     uc_ConfigMaps = mem_client cm_Meta uw_ConfigMaps (\<lambda>xs w. w\<lparr>uw_ConfigMaps := xs\<rparr>),
     uc_NetworkPolicies = mem_client np_Meta uw_Policies (\<lambda>xs w. w\<lparr>uw_Policies := xs\<rparr>),
     uc_Claims = mem_client rc_Meta uw_Claims (\<lambda>xs w. w\<lparr>uw_Claims := xs\<rparr>),
     uc_ListPods = (\<lambda>_ _ w. (Inr [], w)), uc_SetOwner = (\<lambda>_ m. Inr m)\<rparr>"

abbreviation mem_deps where "mem_deps w \<equiv> valid_objs dep_Meta (uw_Deployments w)"
abbreviation mem_svcs where "mem_svcs w \<equiv> valid_objs ks_Meta (uw_Services w)"
abbreviation mem_cms where "mem_cms w \<equiv> valid_objs cm_Meta (uw_ConfigMaps w)"
abbreviation mem_nps where "mem_nps w \<equiv> valid_objs np_Meta (uw_Policies w)"
abbreviation mem_rcs where "mem_rcs w \<equiv> valid_objs rc_Meta (uw_Claims w)"

interpretation mem_unit: unit_cluster mem_unit_cluster mem_deps mem_svcs mem_cms mem_nps mem_rcs
proof (intro unit_cluster.intro unit_cluster_axioms.intro)
  show "resource_store (uc_Deployments mem_unit_cluster) dep_Meta mem_deps (\<lambda>w. (mem_svcs w, mem_cms w, mem_nps w, mem_rcs w))"
    unfolding mem_unit_cluster_def UnitCluster.simps by (rule mem_store) simp_all
  show "resource_store (uc_Services mem_unit_cluster) ks_Meta mem_svcs (\<lambda>w. (mem_deps w, mem_cms w, mem_nps w, mem_rcs w))"
    unfolding mem_unit_cluster_def UnitCluster.simps by (rule mem_store) simp_all
  show "resource_store (uc_ConfigMaps mem_unit_cluster) cm_Meta mem_cms (\<lambda>w. (mem_deps w, mem_svcs w, mem_nps w, mem_rcs w))"
    unfolding mem_unit_cluster_def UnitCluster.simps by (rule mem_store) simp_all
  show "resource_store (uc_NetworkPolicies mem_unit_cluster) np_Meta mem_nps (\<lambda>w. (mem_deps w, mem_svcs w, mem_cms w, mem_rcs w))"
    unfolding mem_unit_cluster_def UnitCluster.simps by (rule mem_store) simp_all
  show "resource_store (uc_Claims mem_unit_cluster) rc_Meta mem_rcs (\<lambda>w. (mem_deps w, mem_svcs w, mem_cms w, mem_nps w))"
    unfolding mem_unit_cluster_def UnitCluster.simps by (rule mem_store) simp_all
  show "owner_references (uc_SetOwner mem_unit_cluster)" by unfold_locales (simp add: mem_unit_cluster_def)
qed (simp_all add: keeps_def mem_unit_cluster_def mem_client_def Let_def)

definition gpu_unit :: GPUUnit where
  "gpu_unit = plain_unit\<lparr>unit_Spec := (unit_Spec plain_unit)\<lparr>spec_Allocation := zero_allocation\<lparr>alloc_DeviceClassName := ''gpu.nvidia.com''\<rparr>\<rparr>\<rparr>"

definition gpu_world :: unit_world where
  "gpu_world = \<lparr>uw_Units = [gpu_unit], uw_Storages = [], uw_Deployments = [], uw_Services = [], uw_ConfigMaps = [], uw_Policies = [], uw_Claims = []\<rparr>"

definition mem_reconciler :: "int GPUUnitReconciler" where
  "mem_reconciler = \<lparr>gr_Env = \<lparr>pe_K = ref_k8s, pe_ErrText = (\<lambda>_. ''error''), pe_Quote = (\<lambda>s. s), pe_Sha256Hex = (\<lambda>s. s)\<rparr>,
     gr_Net = plain_net, gr_BlockedEgressCIDRs = [''10.0.0.0/8''], gr_ServerlessQueueConfig = DefaultNATSConfig, gr_ServerlessWorker = DefaultWorkerSidecarConfig\<rparr>"

abbreviation unit_run :: "unit_world \<Rightarrow> requeue res \<times> unit_world" where
  "unit_run \<equiv> Unit_Reconcile mem_reconciler mem_unit_cluster 7 1 DefaultInstanceNamespace ''demo''"

lemma unit_run_sample:
  "case unit_run gpu_world of (r, w') \<Rightarrow> r = Inr RequeueAfterUpdate \<and> map (meta_Name \<circ> dep_Meta) (mem_deps w') = [deploymentNameForUnit ''demo'']"
  by code_simp

theorem deployment_waits_for_dependencies_witness:
  "\<exists>np \<in> set (mem_nps (snd (unit_run gpu_world))). meta_Name (np_Meta np) = networkPolicyNameForUnit ''demo''"
proof -
  obtain r w' where run: "unit_run gpu_world = (r, w')" by fastforce
  have "mem_deps w' \<noteq> []" using unit_run_sample run by auto
  then have changed: "mem_deps w' \<noteq> mem_deps gpu_world" by (simp add: gpu_world_def valid_objs_def)
  have get: "fst (rs_Get (uc_Units mem_unit_cluster) DefaultInstanceNamespace ''demo'' gpu_world) = Inr gpu_unit" by code_simp
  have name: "u_name gpu_unit = ''demo''" by (simp add: gpu_unit_def plain_unit_def)
  show ?thesis
    using deployment_waits_for_dependencies [OF mem_unit.unit_cluster_axioms run changed] get name unfolding run by fastforce
qed

section \<open>Where the reconciliation goes wrong\<close>

text \<open>
  A claim of a unit without selectors is accepted only in the run that creates it. The desired claim has an empty slice of selectors, but
  the field is left out of the stored object when it is empty and read back as nil, and \<^verbatim>\<open>reflect.DeepEqual\<close> tells the two apart:
  whenever the claim exists, the run ends with the error that the specification differs.
\<close>

theorem claim_without_selectors_refused:
  assumes "\<And>ns n w c w'. rs_Get (uc_Claims C) ns n w = (Inr c, w') \<Longrightarrow> list_all (\<lambda>r. dr_Selectors (dreq_Exactly r) \<noteq> Some []) (rc_Requests c)"
    and "list_all (\<lambda>s. TrimSpace s = []) (alloc_Selectors (spec_Allocation (unit_Spec u)))"
    and "reconcileGPUUnitDRAClaim R C u w = (Inr (st, changed), w')"
  shows "changed"
proof -
  have "desiredDRASelectors (alloc_Selectors (spec_Allocation (unit_Spec u))) = Some []"
    using assms(2) by (auto simp: desiredDRASelectors_def list_all_iff filter_empty_conv)
  then have empty: "desiredUnitDRAResourceClaim K u = Inr d \<Longrightarrow> \<not> list_all (\<lambda>r. dr_Selectors (dreq_Exactly r) \<noteq> Some []) (rc_Requests d)" for K d
    by (auto simp: desiredUnitDRAResourceClaim_def Let_def result_simps split: if_splits)
  obtain d m where d: "desiredUnitDRAResourceClaim (pe_K (gr_Env R)) u = Inr d" "uc_SetOwner C (unit_Meta u) (rc_Meta d) = Inr m"
    using assms(3) by (auto simp: reconcileGPUUnitDRAClaim_def own_with_def result_simps)
  obtain r v where get: "rs_Get (uc_Claims C) (meta_Namespace m) (meta_Name m) w = (r, v)" by fastforce
  show ?thesis
  proof (cases r)
    case (Inl e)
    then show ?thesis using assms(3) d get by (auto simp: reconcileGPUUnitDRAClaim_def own_with_def bindC_def tryC_def split: if_splits prod.splits sum.splits)
  next
    case (Inr c)
    then have "rc_Requests c \<noteq> rc_Requests d" using assms(1) [of _ _ w c v] get empty [OF d(1)] by auto
    then show ?thesis using assms(3) d get Inr by (auto simp: reconcileGPUUnitDRAClaim_def own_with_def bindC_def tryC_def)
  qed
qed

text \<open>
  A unit whose deployment exists is never left alone. The expected pod template leaves the restart policy empty, the API server fills it in, and
  the two are compared as a whole: every run writes the deployment and asks to run again.
\<close>

theorem deployment_rewritten_every_run:
  assumes "\<And>ns n w d w'. rs_Get (uc_Deployments C) ns n w = (Inr d, w') \<Longrightarrow> ps_RestartPolicy (pt_Spec (dep_Template d)) \<noteq> []"
    and "reconcileGPUUnitDeployment R C now g u mts w = (Inr (dep, changed), w')"
  shows "changed"
proof -
  have blank: "desiredUnitPodTemplate E u mts q wc = Inr t \<Longrightarrow> ps_RestartPolicy (pt_Spec t) = []" for E q wc t
    by (auto simp: desiredUnitPodTemplate_def result_simps)
  obtain r v where get: "rs_Get (uc_Deployments C) (u_ns u) (deploymentNameForUnit (u_name u)) w = (r, v)" by fastforce
  show ?thesis
  proof (cases r)
    case (Inl e)
    then show ?thesis using assms(2) get
      by (auto simp: reconcileGPUUnitDeployment_def mark_failed_def Let_def bindC_def tryC_def split: if_splits prod.splits sum.splits)
  next
    case (Inr d)
    then obtain t where t: "desiredUnitPodTemplate (gr_Env R) u mts (gr_ServerlessQueueConfig R) (gr_ServerlessWorker R) = Inr t"
      using assms(2) get by (auto simp: reconcileGPUUnitDeployment_def mark_failed_def Let_def bindC_def tryC_def split: prod.splits sum.splits)
    then have "pt_Spec (dep_Template d) \<noteq> pt_Spec t" using blank [OF t] assms(1) [of _ _ w d v] get Inr by auto
    then have "snd (sync_unit_deployment d t)" by (simp add: sync_unit_deployment_def Let_def)
    then show ?thesis using assms(2) get Inr t
      by (cases "sync_unit_deployment d t") (auto simp: reconcileGPUUnitDeployment_def Let_def bindC_def tryC_def split: prod.splits sum.splits)
  qed
qed

end
