(* ===== verification/Storage_Proxy.thy ===== *)
theory Storage_Proxy
  imports Controller_Storage
begin

text \<open>
  The proxy in front of the storage accessors (\<^verbatim>\<open>pkg/proxy/server.go\<close>). The answer of the upstream (the transport of
  \<^verbatim>\<open>httputil.ReverseProxy\<close>) is a parameter; the client it asks for the storage after a failure is a \<open>ResourceClient\<close>.
  The theorem ties it to the storage controller: the address the controller publishes is the one the proxy understands.
\<close>

section \<open>Requests\<close>

record proxy_request =
  prq_Path :: string
  prq_Host :: string
  prq_TLS :: bool
  prq_ForwardedProto :: string

record upstream_request =
  up_Scheme :: string
  up_Host :: string
  up_Path :: string
  up_ForwardedHost :: string
  up_ForwardedProto :: string

datatype 'r proxy_reply = Upstream 'r | HttpError int message

text \<open>\<^verbatim>\<open>strings.SplitN\<close> with a positive count.\<close>

definition SplitN :: "char \<Rightarrow> nat \<Rightarrow> string \<Rightarrow> string list" where
  "SplitN c n s = (let parts = split_on c s in if length parts \<le> n then parts else take (n - 1) parts @ [join [c] (drop (n - 1) parts)])"

definition parseStorageRequestPath :: "string \<Rightarrow> (string \<times> string) option" where
  "parseStorageRequestPath raw =
     (let parts = SplitN CHR ''/'' 3 (TrimPrefix raw (DefaultStorageProxyPathPrefix @ ''/''))
      in if length parts < 2 then None
         else let namespace = TrimSpace (parts ! 0); storageName = TrimSpace (parts ! 1)
              in if namespace = [] \<or> storageName = [] then None else Some (namespace, storageName))"

definition forwardedProto :: "proxy_request \<Rightarrow> string" where
  "forwardedProto req =
     (if prq_TLS req then ''https'' else if TrimSpace (prq_ForwardedProto req) \<noteq> [] then TrimSpace (prq_ForwardedProto req) else ''http'')"

definition storageAccessorUpstreamHost :: "string \<Rightarrow> string \<Rightarrow> string" where
  "storageAccessorUpstreamHost namespace storageName =
     StorageAccessorServiceResourceName storageName @ ''.'' @ namespace @ ''.svc.cluster.local:'' @ FormatInt DefaultStorageAccessorPort 10"

section \<open>Failures\<close>

definition writeStorageProxyError :: "('w, GPUStorage) ResourceClient option \<Rightarrow> string \<Rightarrow> string \<Rightarrow> string \<Rightarrow> error \<Rightarrow> ('w, 'r proxy_reply) call" where
  "writeStorageProxyError C namespace storageName upstreamHost upstreamErr =
     (case C of
        None \<Rightarrow> returnC (HttpError 502 (msg ''storage proxy upstream error''))
      | Some C \<Rightarrow> bindC (tryC (rs_Get C namespace storageName)) (\<lambda>r. case r of
          Inl e \<Rightarrow>
            if IsNotFound e then returnC (HttpError 404 (''gpu storage %s/%s not found'', [FS namespace, FS storageName]))
            else returnC (HttpError 502 (''failed to load gpu storage %s/%s: %v'', [FS namespace, FS storageName]))
        | Inr storage \<Rightarrow>
            let acc = sst_Accessor (stor_Status storage);
                expectedServiceName = StorageAccessorServiceResourceName storageName;
                serviceName = TrimSpace (axst_ServiceName acc)
            in if \<not> ax_Enabled (sspec_Accessor (stor_Spec storage))
               then returnC (HttpError 503 (''gpu storage %s/%s has accessor disabled'', [FS namespace, FS storageName]))
               else if axst_Phase acc \<noteq> StorageAccessorPhaseReady
               then returnC (HttpError 503 (''gpu storage %s/%s accessor is not ready: phase=%s'', [FS namespace, FS storageName, FS (axst_Phase acc)]))
               else if serviceName \<noteq> [] \<and> serviceName \<noteq> expectedServiceName
               then returnC (HttpError 502 (''gpu storage %s/%s accessor service mismatch: expected=%s observed=%s'',
                      [FS namespace, FS storageName, FS expectedServiceName, FS serviceName]))
               else returnC (HttpError 502 (''storage accessor %s is marked ready but proxying to %s failed: %v'', [FS storageName, FS upstreamHost]))))"

text \<open>\<^verbatim>\<open>SetURL\<close> with a target without a path keeps the path of the request.\<close>

definition handleStorage :: "('w, GPUStorage) ResourceClient option \<Rightarrow> (upstream_request \<Rightarrow> ('w, 'r) call) \<Rightarrow> proxy_request
    \<Rightarrow> ('w, 'r proxy_reply) call" where
  "handleStorage C transport req =
     (case parseStorageRequestPath (prq_Path req) of
        None \<Rightarrow> returnC (HttpError 404 (msg ''404 page not found''))
      | Some (namespace, storageName) \<Rightarrow>
          let upstreamHost = storageAccessorUpstreamHost namespace storageName
          in bindC (tryC (transport \<lparr>up_Scheme = ''http'', up_Host = upstreamHost, up_Path = prq_Path req,
               up_ForwardedHost = prq_Host req, up_ForwardedProto = forwardedProto req\<rparr>)) (\<lambda>r. case r of
               Inr resp \<Rightarrow> returnC (Upstream resp)
             | Inl e \<Rightarrow> writeStorageProxyError C namespace storageName upstreamHost e))"

section \<open>Paths\<close>

lemma subdomain_path_elem:
  assumes "dns1123_subdomain s"
  shows "clean_elem s"
proof -
  let ?ws = "split_on CHR ''.'' s"
  have shape: "list_all label_shape ?ws" using assms by (simp add: dns1123_subdomain_def)
  have slash: "\<not> alnum CHR ''/''" by (simp add: alnum_def less_eq_char_def)
  then have "CHR ''/'' \<notin> set w" if "w \<in> set ?ws" for w
    using shape that by (auto simp: list_all_iff label_shape_def)
  moreover have "set (join ''.'' ws) \<subseteq> insert CHR ''.'' (\<Union> (set ` set ws))" for ws
    by (induction "''.''" ws rule: join.induct) auto
  then have "set s \<subseteq> insert CHR ''.'' (\<Union> (set ` set ?ws))" by (metis subdomain_join)
  ultimately have "CHR ''/'' \<notin> set s" by fastforce
  moreover have "s \<noteq> ''.''" "s \<noteq> ''..''" using shape by (auto simp: label_shape_def)
  ultimately show ?thesis using subdomain_nonempty [OF assms] by (simp add: clean_elem_def)
qed

lemma proxy_path:
  assumes "clean_elem ns" "clean_elem n"
  shows "storageProxyPath ns n = ''/storage/'' @ ns @ ''/'' @ n @ ''/''"
proof -
  have "clean_abs (''/'' @ join ''/'' [''storage'', ns, n])"
    using assms unfolding clean_abs_def by (intro exI [of _ "[''storage'', ns, n]"]) (simp add: clean_elem_def)
  then have "Clean (''/'' @ join ''/'' [''storage'', ns, n]) = ''/'' @ join ''/'' [''storage'', ns, n]" by (rule Clean_id)
  then show ?thesis using assms
    by (simp add: storageProxyPath_def storageProxyBasePath_def path_Join_def DefaultStorageProxyPathPrefix_def clean_elem_def)
qed

lemma SplitN_three:
  assumes "c \<notin> set a" "c \<notin> set b"
  shows "SplitN c 3 (a @ c # b @ c # rest) = [a, b, rest]"
proof -
  have "split_on c (a @ c # b @ c # rest) = a # b # split_on c rest"
    using assms by (simp add: split_on_append split_on_single)
  moreover obtain u us where u: "split_on c rest = u # us" by (cases "split_on c rest") auto
  moreover have "join [c] (u # us) = rest" unfolding u [symmetric] by simp
  ultimately show ?thesis by (cases us) (auto simp: SplitN_def)
qed

text \<open>C34. The address the storage controller publishes for an accessor is served: for a storage and a namespace with valid names, every
  path below the published one is parsed back to that namespace and storage, and the request is forwarded, path unchanged, to the host of
  the published address, which is where the accessor listens.\<close>

theorem published_address_reaches_accessor:
  assumes "dns1123_subdomain ns" "dns1123_subdomain n"
    and "prq_Path req = storageProxyPath ns n @ rest"
    and "transport \<lparr>up_Scheme = ''http'', up_Host = storageAccessorUpstreamHost ns n, up_Path = prq_Path req,
           up_ForwardedHost = prq_Host req, up_ForwardedProto = forwardedProto req\<rparr> w = (Inr resp, w')"
  shows "parseStorageRequestPath (prq_Path req) = Some (ns, n)
    \<and> storageAccessorURL ns (storageAccessorServiceName n) n = ''http://'' @ storageAccessorUpstreamHost ns n @ storageProxyPath ns n
    \<and> handleStorage C transport req w = (Inr (Upstream resp), w')"
proof -
  have e: "clean_elem ns" "clean_elem n" using assms(1,2) by (auto intro: subdomain_path_elem)
  have path: "prq_Path req = ''/storage/'' @ ns @ CHR ''/'' # n @ CHR ''/'' # rest"
    using proxy_path [OF e] assms(3) by simp
  have "SplitN CHR ''/'' 3 (ns @ CHR ''/'' # n @ CHR ''/'' # rest) = [ns, n, rest]"
    using e by (intro SplitN_three) (auto simp: clean_elem_def)
  then have parse: "parseStorageRequestPath (prq_Path req) = Some (ns, n)"
    using e subdomain_trimmed [OF assms(1)] subdomain_trimmed [OF assms(2)]
    by (simp add: path parseStorageRequestPath_def DefaultStorageProxyPathPrefix_def TrimPrefix_def HasPrefix_def TrimSpace_id clean_elem_def)
  moreover have "handleStorage C transport req w = (Inr (Upstream resp), w')"
    using parse assms(4) by (simp add: handleStorage_def Let_def bindC_def tryC_def returnC_def)
  ultimately show ?thesis
    by (simp add: storageAccessorURL_def storageAccessorUpstreamHost_def storageAccessorServiceName_def)
qed

section \<open>Answers\<close>

text \<open>A failure of the upstream is answered by what the cluster says of the storage: 404 only when it does not exist, 503 only when its
  accessor is switched off or not ready, 502 otherwise.\<close>

lemma proxy_error_status:
  assumes "writeStorageProxyError (Some C) ns n host e w = (r, w')" and "rs_Get C ns n w = (answer, v)"
  shows "\<exists>m. w' = v \<and> r = Inr (HttpError
    (case answer of
       Inl a \<Rightarrow> if IsNotFound a then 404 else 502
     | Inr s \<Rightarrow> if \<not> ax_Enabled (sspec_Accessor (stor_Spec s)) \<or> axst_Phase (sst_Accessor (stor_Status s)) \<noteq> StorageAccessorPhaseReady
               then 503 else 502) m)"
  using assms by (auto simp: writeStorageProxyError_def bindC_def tryC_def returnC_def Let_def split: sum.splits if_splits)

text \<open>An instance: an upstream that answers with the host it was asked for.\<close>

definition sample_request :: proxy_request where
  "sample_request = \<lparr>prq_Path = ''/storage/runtime/data/models/a.bin'', prq_Host = ''proxy'', prq_TLS = False, prq_ForwardedProto = []\<rparr>"

lemma sample_path: "prq_Path sample_request = storageProxyPath ''runtime'' ''data'' @ ''models/a.bin''"
  by (subst proxy_path) (simp_all add: sample_request_def clean_elem_def)

theorem published_address_reaches_accessor_witness:
  "parseStorageRequestPath ''/storage/runtime/data/models/a.bin'' = Some (''runtime'', ''data'')
   \<and> handleStorage None (\<lambda>u w. (Inr (up_Host u), w)) sample_request ()
       = (Inr (Upstream (storageAccessorUpstreamHost ''runtime'' ''data'')), ())"
proof -
  have d: "dns1123_subdomain ''runtime''" "dns1123_subdomain ''data''" by code_simp+
  show ?thesis
    using published_address_reaches_accessor [OF d sample_path, where transport = "\<lambda>u w. (Inr (up_Host u), w)" and C = None and w = "()"]
    by (simp add: sample_request_def)
qed

end
