(* ===== verification/Result_Store.thy ===== *)
theory Result_Store
  imports Serverless_Queue Service_Client
begin

text \<open>
  The consumer of invocation results (\<^verbatim>\<open>pkg/resultconsumer\<close>) and the store it writes to (\<^verbatim>\<open>pkg/resultstore\<close>). The table of
  the database is a pair of calls, insert and read, with the laws of the locale \<open>result_table\<close>: an insert replaces the row of
  its key, an insert that reports an error may still have happened, and a read returns the row.
\<close>

section \<open>Records\<close>

record InvocationRecord =
  ir_InvocationID :: string
  ir_ServerlessRequestID :: string
  ir_Mode :: InvocationMode
  ir_State :: InvocationState
  ir_FailureClass :: InvocationFailureClass
  ir_WorkerName :: string
  ir_WorkerNamespace :: string
  ir_StatusCode :: int
  ir_ContentType :: string
  ir_Headers :: "string smap"
  ir_BodyInline :: string
  ir_BodyBytes :: int
  ir_BodyTruncated :: bool
  ir_Error :: "error option"
  ir_ErrorText :: string
  ir_StartedAt :: gotime
  ir_CompletedAt :: gotime
  ir_StoredAt :: gotime

definition normalizeResultState :: "InvocationResultMessage \<Rightarrow> InvocationState" where
  "normalizeResultState result =
     (if res_State result \<noteq> InvocationStateUnset then res_State result
      else if res_FailureClass result = InvocationFailureFrameworkTimeout then InvocationStateExpired
      else if res_Error result \<noteq> None \<or> res_ErrorText result \<noteq> [] then InvocationStateFailed
      else InvocationStateSucceeded)"

text \<open>The two readings of the clock are arguments.\<close>

definition RecordFromResult :: "gotime \<Rightarrow> gotime \<Rightarrow> InvocationResultMessage \<Rightarrow> int \<Rightarrow> InvocationRecord res" where
  "RecordFromResult now stored result maxInlineBodyBytes =
     (if res_InvocationID result = [] then Inl (ErrorText (msg ''invocationID is required''))
      else if res_ServerlessRequestID result = [] then Inl (ErrorText (msg ''serverlessRequestID is required''))
      else if maxInlineBodyBytes < 0 then Inl (ErrorText (msg ''maxInlineBodyBytes must be >= 0''))
      else
        let completedAt = (if res_CompletedAt result = 0 then now else res_CompletedAt result);
            startedAt = (if res_StartedAt result = 0 then completedAt else res_StartedAt result);
            record = \<lparr>ir_InvocationID = res_InvocationID result, ir_ServerlessRequestID = res_ServerlessRequestID result,
              ir_Mode = res_Mode result, ir_State = normalizeResultState result, ir_FailureClass = res_FailureClass result,
              ir_WorkerName = res_WorkerName result, ir_WorkerNamespace = res_WorkerNamespace result,
              ir_StatusCode = res_StatusCode result, ir_ContentType = res_ContentType result,
              ir_Headers = cloneStringMap (res_Headers result), ir_BodyInline = [], ir_BodyBytes = int (length (res_Body result)),
              ir_BodyTruncated = False, ir_Error = res_Error result, ir_ErrorText = res_ErrorText result,
              ir_StartedAt = startedAt, ir_CompletedAt = completedAt, ir_StoredAt = stored\<rparr>
        in if int (length (res_Body result)) \<le> maxInlineBodyBytes then Inr (record\<lparr>ir_BodyInline := res_Body result\<rparr>)
           else Inr (record\<lparr>ir_BodyTruncated := True\<rparr>))"

section \<open>Configuration\<close>

definition DefaultKeyspace :: string where "DefaultKeyspace = ''runtime_serverless''"
definition DefaultResultsTable :: string where "DefaultResultsTable = ''invocation_results''"
definition DefaultScyllaConnectTimeout :: string where "DefaultScyllaConnectTimeout = ''5s''"
definition DefaultRequestTimeout :: string where "DefaultRequestTimeout = ''5s''"
definition DefaultReplicationFactor :: int where "DefaultReplicationFactor = 1"
definition DefaultMaxInlineBodyBytes :: int where "DefaultMaxInlineBodyBytes = 1048576"

record ScyllaConfig =
  scy_Hosts :: "string list"
  scy_Keyspace :: string
  scy_ResultsTable :: string
  scy_Datacenter :: string
  scy_Username :: string
  scy_UsernameFile :: string
  scy_Password :: string
  scy_PasswordFile :: string
  scy_TLS :: TLSConfig
  scy_ConnectTimeout :: string
  scy_RequestTimeout :: string
  scy_ReplicationFactor :: int
  scy_AutoMigrate :: bool
  scy_MaxInlineBodyBytes :: int

definition DefaultScyllaConfig :: ScyllaConfig where
  "DefaultScyllaConfig = \<lparr>scy_Hosts = [], scy_Keyspace = DefaultKeyspace, scy_ResultsTable = DefaultResultsTable, scy_Datacenter = [],
     scy_Username = [], scy_UsernameFile = [], scy_Password = [], scy_PasswordFile = [], scy_TLS = zero_tls,
     scy_ConnectTimeout = DefaultScyllaConnectTimeout, scy_RequestTimeout = DefaultRequestTimeout,
     scy_ReplicationFactor = DefaultReplicationFactor, scy_AutoMigrate = True, scy_MaxInlineBodyBytes = DefaultMaxInlineBodyBytes\<rparr>"

definition normalizeHosts :: "string list \<Rightarrow> string list" where
  "normalizeHosts hosts = unique_keys [] hosts"

definition isLetter :: "char \<Rightarrow> bool" where
  "isLetter c = (CHR ''A'' \<le> c \<and> c \<le> CHR ''Z'' \<or> CHR ''a'' \<le> c \<and> c \<le> CHR ''z'')"

text \<open>The pattern \<^verbatim>\<open>^[A-Za-z][A-Za-z0-9_]*$\<close>.\<close>

definition cqlIdentifier :: "string \<Rightarrow> bool" where
  "cqlIdentifier s = (s \<noteq> [] \<and> isLetter (hd s) \<and> list_all (\<lambda>c. isLetter c \<or> isDigit c \<or> c = CHR ''_'') s)"

definition validateIdentifier :: "string \<Rightarrow> string \<Rightarrow> unit res" where
  "validateIdentifier field ident =
     (if cqlIdentifier ident then Inr ()
      else Inl (ErrorText (''%s %q is invalid; use letters, numbers, and underscores, starting with a letter'', [FS field, FS ident])))"

definition check_timeout :: "string \<Rightarrow> string \<Rightarrow> unit res" where
  "check_timeout field d = (case ParseDuration d of None \<Rightarrow> Inl (Wrap (''parse %s %q: %w'', [FS field, FS d]) (ErrorText (msg ''duration''))) | Some _ \<Rightarrow> Inr ())"

definition ScyllaConfig_Normalized :: "ScyllaConfig \<Rightarrow> ScyllaConfig res" where
  "ScyllaConfig_Normalized c =
     (let hosts = normalizeHosts (scy_Hosts c);
          keyspace = or_default (TrimSpace (scy_Keyspace c)) DefaultKeyspace;
          resultsTable = or_default (TrimSpace (scy_ResultsTable c)) DefaultResultsTable;
          username = TrimSpace (scy_Username c); usernameFile = TrimSpace (scy_UsernameFile c);
          password = TrimSpace (scy_Password c); passwordFile = TrimSpace (scy_PasswordFile c);
          connectTimeout = or_default (scy_ConnectTimeout c) DefaultScyllaConnectTimeout;
          requestTimeout = or_default (scy_RequestTimeout c) DefaultRequestTimeout
      in if hosts = [] then Inl (ErrorText (msg ''scylla.hosts is required''))
      else andThen (validateIdentifier ''scylla.keyspace'' keyspace) (\<lambda>_.
      andThen (validateIdentifier ''scylla.resultsTable'' resultsTable) (\<lambda>_.
      if username \<noteq> [] \<and> usernameFile \<noteq> []
      then Inl (ErrorText (msg ''scylla.username and scylla.usernameFile are mutually exclusive''))
      else if password \<noteq> [] \<and> passwordFile \<noteq> []
      then Inl (ErrorText (msg ''scylla.password and scylla.passwordFile are mutually exclusive''))
      else if (username \<noteq> [] \<or> usernameFile \<noteq> []) \<noteq> (password \<noteq> [] \<or> passwordFile \<noteq> [])
      then Inl (ErrorText (msg ''scylla username and password must be configured together''))
      else andThen (check_timeout ''scylla.connectTimeout'' connectTimeout) (\<lambda>_.
      andThen (check_timeout ''scylla.requestTimeout'' requestTimeout) (\<lambda>_.
        let replicationFactor = (if scy_ReplicationFactor c \<le> 0 then DefaultReplicationFactor else scy_ReplicationFactor c);
            maxInline = (if scy_MaxInlineBodyBytes c = 0 then DefaultMaxInlineBodyBytes else scy_MaxInlineBodyBytes c)
        in if maxInline < 0 then Inl (ErrorText (msg ''scylla.maxInlineBodyBytes must be >= 0''))
           else Inr (c\<lparr>scy_Hosts := hosts, scy_Keyspace := keyspace, scy_ResultsTable := resultsTable,
             scy_Datacenter := TrimSpace (scy_Datacenter c), scy_Username := username, scy_UsernameFile := usernameFile,
             scy_Password := password, scy_PasswordFile := passwordFile, scy_TLS := TLSConfig_Normalized (scy_TLS c),
             scy_ConnectTimeout := connectTimeout, scy_RequestTimeout := requestTimeout,
             scy_ReplicationFactor := replicationFactor, scy_MaxInlineBodyBytes := maxInline\<rparr>))))))"

definition ResolvedCredentials :: "file_system \<Rightarrow> ScyllaConfig \<Rightarrow> (string \<times> string) res" where
  "ResolvedCredentials fs c =
     andThen (if scy_Username c = [] then ReadSecretFile fs (scy_UsernameFile c) else Inr (scy_Username c)) (\<lambda>username.
     andThen (if scy_Password c = [] then ReadSecretFile fs (scy_PasswordFile c) else Inr (scy_Password c)) (\<lambda>password.
       Inr (username, password)))"

definition duration_or_zero :: "string \<Rightarrow> duration" where
  "duration_or_zero s = (case ParseDuration s of None \<Rightarrow> 0 | Some d \<Rightarrow> d)"

record 'c ClusterConfig =
  cl_Hosts :: "string list"
  cl_Keyspace :: string
  cl_ConnectTimeout :: duration
  cl_Timeout :: duration
  cl_Datacenter :: "string option"
  cl_Authenticator :: "(string \<times> string) option"
  cl_SslOpts :: "('c ClientTLS \<times> bool) option"

definition newCluster :: "'c cert_lib \<Rightarrow> file_system \<Rightarrow> ScyllaConfig \<Rightarrow> string \<Rightarrow> 'c ClusterConfig res" where
  "newCluster L fs c keyspace =
     andThen (ResolvedCredentials fs c) (\<lambda>(username, password).
     andThen (BuildClientTLSConfig L fs (scy_TLS c)) (\<lambda>tls.
       Inr \<lparr>cl_Hosts = scy_Hosts c, cl_Keyspace = keyspace, cl_ConnectTimeout = duration_or_zero (scy_ConnectTimeout c),
         cl_Timeout = duration_or_zero (scy_RequestTimeout c),
         cl_Datacenter = (if scy_Datacenter c \<noteq> [] then Some (scy_Datacenter c) else None),
         cl_Authenticator = (if username \<noteq> [] \<or> password \<noteq> [] then Some (username, password) else None),
         cl_SslOpts = map_option (\<lambda>t. (t, \<not> tls_InsecureSkipVerify (scy_TLS c))) tls\<rparr>))"

section \<open>Schema\<close>

definition invocationResultColumns :: "string list" where
  "invocationResultColumns = [''invocation_id'', ''serverless_request_id'', ''mode'', ''state'', ''failure_class'', ''worker_name'',
     ''worker_namespace'', ''status_code'', ''content_type'', ''headers'', ''body_inline'', ''body_bytes'', ''body_truncated'', ''error'',
     ''started_at'', ''completed_at'', ''stored_at'']"

definition invocationResultColumnDefinitions :: "string list" where
  "invocationResultColumnDefinitions = [''invocation_id text PRIMARY KEY'', ''serverless_request_id text'', ''mode text'', ''state text'',
     ''failure_class text'', ''worker_name text'', ''worker_namespace text'', ''status_code int'', ''content_type text'',
     ''headers map<text, text>'', ''body_inline blob'', ''body_bytes bigint'', ''body_truncated boolean'', ''error text'',
     ''started_at timestamp'', ''completed_at timestamp'', ''stored_at timestamp'']"

abbreviation nl :: string where "nl \<equiv> [CHR 0x0A]"

definition createInvocationResultTableCQL :: "string \<Rightarrow> string" where
  "createInvocationResultTableCQL tableName = ''CREATE TABLE IF NOT EXISTS '' @ tableName @ '' ('' @ nl
     @ join ('','' @ nl) (map (\<lambda>d. CHR 0x09 # d) invocationResultColumnDefinitions) @ nl @ '')''"

definition resultTableName :: "ScyllaConfig \<Rightarrow> string" where
  "resultTableName c = scy_Keyspace c @ ''.'' @ scy_ResultsTable c"

definition createKeyspaceCQL :: "ScyllaConfig \<Rightarrow> string" where
  "createKeyspaceCQL c = ''CREATE KEYSPACE IF NOT EXISTS '' @ scy_Keyspace c
     @ '' WITH replication = {'' @ [CHR 0x27] @ ''class'' @ [CHR 0x27] @ '': '' @ [CHR 0x27] @ ''SimpleStrategy'' @ [CHR 0x27] @ '', ''
     @ [CHR 0x27] @ ''replication_factor'' @ [CHR 0x27] @ '': '' @ FormatInt (scy_ReplicationFactor c) 10 @ ''}''"

section \<open>The store\<close>

record 'w ResultTable =
  rt_Insert :: "InvocationRecord \<Rightarrow> ('w, unit) call"
  rt_Get :: "string \<Rightarrow> ('w, InvocationRecord) call"

definition gocqlErrNotFound :: error where "gocqlErrNotFound = ErrorText (msg ''not found'')"
definition ErrNotFound :: error where "ErrNotFound = ErrorText (msg ''invocation result not found'')"

definition SaveInvocationResult :: "ScyllaConfig \<Rightarrow> 'w ResultTable \<Rightarrow> gotime \<Rightarrow> gotime \<Rightarrow> InvocationResultMessage \<Rightarrow> ('w, unit) call" where
  "SaveInvocationResult cfg T now stored result =
     bindC (liftC (RecordFromResult now stored result (scy_MaxInlineBodyBytes cfg))) (\<lambda>record.
     bindC (tryC (rt_Insert T record)) (\<lambda>r. case r of
       Inl e \<Rightarrow> failC (Wrap (''store invocation result %s: %w'', [FS (ir_InvocationID record)]) e)
     | Inr _ \<Rightarrow> returnC ()))"

definition GetInvocationResult :: "'w ResultTable \<Rightarrow> string \<Rightarrow> ('w, InvocationRecord) call" where
  "GetInvocationResult T invocationID =
     bindC (tryC (rt_Get T invocationID)) (\<lambda>r. case r of
       Inr record \<Rightarrow> returnC record
     | Inl e \<Rightarrow> if errors_Is e gocqlErrNotFound then failC ErrNotFound
               else failC (Wrap (''get invocation result %s: %w'', [FS invocationID]) e))"

section \<open>The consumer\<close>

definition defaultResultConsumerName :: string where "defaultResultConsumerName = ''runtime-result-store''"
definition defaultResultAckWait :: string where "defaultResultAckWait = ''30s''"

record ResultConsumerConfig =
  rcc_Serverless :: NATSConfig
  rcc_ConsumerName :: string
  rcc_AckWait :: string
  rcc_Retry :: RetryPolicy
  rcc_Scylla :: ScyllaConfig

definition DefaultResultConsumerConfig :: ResultConsumerConfig where
  "DefaultResultConsumerConfig = \<lparr>rcc_Serverless = DefaultNATSConfig, rcc_ConsumerName = defaultResultConsumerName,
     rcc_AckWait = defaultResultAckWait, rcc_Retry = DefaultRetryPolicy, rcc_Scylla = DefaultScyllaConfig\<rparr>"

definition ResultConsumerConfig_Normalized :: "'q k8s \<Rightarrow> ResultConsumerConfig \<Rightarrow> ResultConsumerConfig res" where
  "ResultConsumerConfig_Normalized K c =
     andThen (NATSConfig_Normalized K (rcc_Serverless c)) (\<lambda>nats.
       if \<not> NATSConfig_Enabled nats then Inl (ErrorText (msg ''serverless.url is required for the result consumer''))
       else let consumerName = or_default (TrimSpace (rcc_ConsumerName c)) defaultResultConsumerName
       in if ContainsAny consumerName name_specials then Inl (ErrorText (''consumerName %q is invalid'', [FS consumerName]))
       else let ackWait = or_default (rcc_AckWait c) defaultResultAckWait
       in andThen (check_timeout ''ackWait'' ackWait) (\<lambda>_.
          andThen (mapErr (Wrap (msg ''normalize retry: %w'')) (RetryPolicy_Normalized (rcc_Retry c))) (\<lambda>retry.
          andThen (ScyllaConfig_Normalized (rcc_Scylla c)) (\<lambda>scylla.
            Inr \<lparr>rcc_Serverless = nats, rcc_ConsumerName = consumerName, rcc_AckWait = ackWait, rcc_Retry = retry, rcc_Scylla = scylla\<rparr>))))"

definition ResultConsumerOptions :: "ResultConsumerConfig \<Rightarrow> ConsumerOptions" where
  "ResultConsumerOptions c = \<lparr>co_AckWait = duration_or_zero (rcc_AckWait c), co_Retry = rcc_Retry c, co_DeadLetterSource = DeadLetterSourceResult\<rparr>"

definition HandleResult :: "(InvocationResultMessage \<Rightarrow> ('w, unit) call) \<Rightarrow> InvocationResultMessage \<Rightarrow> ('w, unit) call" where
  "HandleResult save result =
     (if res_InvocationID result = [] then failC (ErrorText (msg ''invocationID is required''))
      else if res_ServerlessRequestID result = [] then failC (ErrorText (msg ''serverlessRequestID is required''))
      else save result)"

definition ResultConsumer_Run where
  "ResultConsumer_Run has_queue has_store enabled c create batches =
     (if \<not> has_queue then Some ([], Inl (ErrorText (msg ''result queue is required'')))
      else if \<not> has_store then Some ([], Inl (ErrorText (msg ''result store is required'')))
      else ConsumeInvocationResults enabled (rcc_Serverless c) (rcc_ConsumerName c) (ResultConsumerOptions c) create batches)"

section \<open>Opening the store\<close>

text \<open>A session of the database: its creation and the execution of a statement are those of \<^verbatim>\<open>gocql\<close>.\<close>

record ('w, 'c, 's) Gocql =
  gq_CreateSession :: "'c ClusterConfig \<Rightarrow> ('w, 's) call"
  gq_Exec :: "'s \<Rightarrow> string \<Rightarrow> ('w, unit) call"
  gq_Close :: "'s \<Rightarrow> 'w \<Rightarrow> 'w"

definition closing :: "('w, 'c, 's) Gocql \<Rightarrow> 's \<Rightarrow> ('w, 'a) call \<Rightarrow> ('w, 'a) call" where
  "closing G session f w = (case f w of (r, w') \<Rightarrow> (r, gq_Close G session w'))"

definition ensureKeyspace :: "'c cert_lib \<Rightarrow> file_system \<Rightarrow> ('w, 'c, 's) Gocql \<Rightarrow> ScyllaConfig \<Rightarrow> ('w, unit) call" where
  "ensureKeyspace L fs G cfg =
     bindC (liftC (newCluster L fs cfg ''system'')) (\<lambda>cluster.
     bindC (wrapC (msg ''connect to scylla system keyspace: %w'') (gq_CreateSession G cluster)) (\<lambda>session.
       closing G session (wrapC (''create scylla keyspace %s: %w'', [FS (scy_Keyspace cfg)]) (gq_Exec G session (createKeyspaceCQL cfg)))))"

definition EnsureSchema :: "('w, 'c, 's) Gocql \<Rightarrow> 's \<Rightarrow> string \<Rightarrow> ('w, unit) call" where
  "EnsureSchema G session tableName =
     wrapC (''create scylla result table %s: %w'', [FS tableName]) (gq_Exec G session (createInvocationResultTableCQL tableName))"

definition NewScyllaStore :: "'c cert_lib \<Rightarrow> file_system \<Rightarrow> ('w, 'c, 's) Gocql \<Rightarrow> ScyllaConfig \<Rightarrow> ('w, ScyllaConfig \<times> 's) call" where
  "NewScyllaStore L fs G cfg =
     bindC (liftC (ScyllaConfig_Normalized cfg)) (\<lambda>normalized.
     bindC (if scy_AutoMigrate normalized then ensureKeyspace L fs G normalized else returnC ()) (\<lambda>_.
     bindC (liftC (newCluster L fs normalized (scy_Keyspace normalized))) (\<lambda>cluster.
     bindC (wrapC (''connect to scylla keyspace %s: %w'', [FS (scy_Keyspace normalized)]) (gq_CreateSession G cluster)) (\<lambda>session.
       if \<not> scy_AutoMigrate normalized then returnC (normalized, session)
       else bindC (tryC (EnsureSchema G session (resultTableName normalized))) (\<lambda>r. case r of
              Inl e \<Rightarrow> closing G session (failC e)
            | Inr _ \<Rightarrow> returnC (normalized, session))))))"

section \<open>Deliveries\<close>

text \<open>The consumer around the handler: a message that decodes is handled, and the answer of the handler is what the consumer acts on.
  The run stops at the first error, as the loop of the consumer does.\<close>

type_synonym result_delivery = "gotime \<times> gotime \<times> gotime \<times> outcomes \<times> InvocationResultMessage JsMsg"

definition deliver_result :: "ScyllaConfig \<Rightarrow> 'w ResultTable \<Rightarrow> result_delivery \<Rightarrow> 'w \<Rightarrow> outcomes \<times> 'w" where
  "deliver_result cfg T d w = (case d of (now, stored, failed, oc, j) \<Rightarrow>
     (case Unmarshal (jm_Data j) of
        Inl _ \<Rightarrow> (oc, w)
      | Inr m \<Rightarrow> (case HandleResult (SaveInvocationResult cfg T now stored) m w of (a, v) \<Rightarrow> (oc\<lparr>oc_Handler := a\<rparr>, v))))"

fun consume_results :: "NATSConfig \<Rightarrow> ConsumerOptions \<Rightarrow> ScyllaConfig \<Rightarrow> 'w ResultTable \<Rightarrow> result_delivery list \<Rightarrow> 'w
    \<Rightarrow> (InvocationResultMessage JsMsg \<times> InvocationResultMessage action list) list \<times> 'w" where
  "consume_results nats opts cfg T [] w = ([], w)"
| "consume_results nats opts cfg T ((now, stored, failed, oc, j) # ds) w =
     (case deliver_result cfg T (now, stored, failed, oc, j) w of (oc', v) \<Rightarrow>
       (case consume_message nats opts DeadLetterSourceResult invocationResultDeadLetterInfo failed oc' j of
          None \<Rightarrow> ([], v)
        | Some (acts, Inl _) \<Rightarrow> ([(j, acts)], v)
        | Some (acts, Inr _) \<Rightarrow> (case consume_results nats opts cfg T ds v of (log, w') \<Rightarrow> ((j, acts) # log, w'))))"

section \<open>The table\<close>

text \<open>A column of type \<^verbatim>\<open>timestamp\<close> has milliseconds.\<close>

definition cql_time :: "gotime \<Rightarrow> gotime" where
  "cql_time t = t div 1000000 * 1000000"

definition cql_row :: "InvocationRecord \<Rightarrow> InvocationRecord" where
  "cql_row r = r\<lparr>ir_StartedAt := cql_time (ir_StartedAt r), ir_CompletedAt := cql_time (ir_CompletedAt r),
     ir_StoredAt := cql_time (ir_StoredAt r)\<rparr>"

lemma record_key: "RecordFromResult now stored m k = Inr r \<Longrightarrow> ir_InvocationID r = res_InvocationID m"
  by (auto simp: RecordFromResult_def Let_def split: if_splits)

text \<open>A message is acknowledged only after its handler returned without an error.\<close>

lemma acknowledged_was_handled:
  assumes "consume_message nats opts source info now oc j = Some (acts, r)" "acknowledges acts"
  shows "\<exists>m. jm_Data j = Decoded m \<and> isOk (oc_Handler oc)"
proof (cases "jm_Data j")
  case (Decoded m)
  have "\<not> acknowledges a" if "deadLetterAndTerm nats now oc j source (info m) f e = (a, b)" for f e a b
    using that by (auto simp: deadLetterAndTerm_def publishDeadLetter_def acknowledges_def Let_def split: sum.splits prod.splits if_splits)
  then show ?thesis using assms Decoded
    by (cases "oc_Handler oc") (auto simp: consume_message_def Unmarshal_def acknowledges_def Let_def split: if_splits option.splits prod.splits)
next
  case (Undecodable b s)
  then show ?thesis using assms
    by (auto simp: consume_message_def Unmarshal_def deadLetterAndTerm_def publishDeadLetter_def acknowledges_def Let_def
        split: sum.splits prod.splits if_splits)
qed

text \<open>A row that a delivery wrote.\<close>

definition delivered_row :: "ScyllaConfig \<Rightarrow> string \<Rightarrow> InvocationRecord \<Rightarrow> result_delivery \<Rightarrow> bool" where
  "delivered_row cfg i row d = (case d of (now, stored, failed, oc, j) \<Rightarrow>
     (case jm_Data j of
        Undecodable _ _ \<Rightarrow> False
      | Decoded m \<Rightarrow> res_InvocationID m = i
          \<and> (case RecordFromResult now stored m (scy_MaxInlineBodyBytes cfg) of Inl _ \<Rightarrow> False | Inr r \<Rightarrow> row = cql_row r)))"

locale result_table =
  fixes T :: "'w ResultTable" and rows :: "'w \<Rightarrow> string \<Rightarrow> InvocationRecord option"
  assumes insert_ok: "rt_Insert T r w = (Inr u, w') \<Longrightarrow> rows w' = (rows w)(ir_InvocationID r \<mapsto> cql_row r)"
    and insert_err: "rt_Insert T r w = (Inl e, w') \<Longrightarrow> rows w' = rows w \<or> rows w' = (rows w)(ir_InvocationID r \<mapsto> cql_row r)"
    and get_ok: "rt_Get T i w = (Inr r, w') \<Longrightarrow> rows w i = Some r"
    and get_missing: "rt_Get T i w = (Inl e, w') \<Longrightarrow> errors_Is e gocqlErrNotFound \<Longrightarrow> rows w i = None"
    and get_keeps: "rt_Get T i w = (a, w') \<Longrightarrow> rows w' = rows w"
begin

abbreviation stored_as :: "ScyllaConfig \<Rightarrow> gotime \<Rightarrow> gotime \<Rightarrow> InvocationResultMessage \<Rightarrow> 'w \<Rightarrow> 'w \<Rightarrow> bool" where
  "stored_as cfg now stored m w w' \<equiv> (\<exists>r. RecordFromResult now stored m (scy_MaxInlineBodyBytes cfg) = Inr r
     \<and> rows w' = (rows w)(res_InvocationID m \<mapsto> cql_row r))"

lemma save_effect:
  assumes "SaveInvocationResult cfg T now stored m w = (a, w')"
  shows "stored_as cfg now stored m w w' \<or> (\<not> isOk a \<and> rows w' = rows w)"
proof (cases "RecordFromResult now stored m (scy_MaxInlineBodyBytes cfg)")
  case (Inl e)
  with assms show ?thesis by (auto simp: SaveInvocationResult_def)
next
  case (Inr r)
  obtain b v where b: "rt_Insert T r w = (b, v)" by fastforce
  with assms Inr have "w' = v" "isOk a = isOk b" by (cases b; auto simp: SaveInvocationResult_def bindC_def tryC_def)+
  with b insert_ok [of r w] insert_err [of r w] record_key [OF Inr] show ?thesis
    by (cases b) (auto simp: Inr)
qed

lemma deliver_effect:
  assumes "deliver_result cfg T (now, stored, failed, oc, j) w = (oc', v)"
  shows "(\<exists>m. jm_Data j = Decoded m \<and> stored_as cfg now stored m w v)
     \<or> (rows v = rows w \<and> (\<forall>m. jm_Data j = Decoded m \<longrightarrow> \<not> isOk (oc_Handler oc')))"
proof (cases "jm_Data j")
  case (Decoded m)
  with assms obtain a where a: "HandleResult (SaveInvocationResult cfg T now stored) m w = (a, v)" "oc' = oc\<lparr>oc_Handler := a\<rparr>"
    by (auto simp: deliver_result_def Unmarshal_def split: prod.splits)
  show ?thesis
  proof (cases "res_InvocationID m = [] \<or> res_ServerlessRequestID m = []")
    case True
    with a Decoded show ?thesis by (auto simp: HandleResult_def split: if_splits)
  next
    case False
    with a save_effect [of cfg now stored m w a v] Decoded show ?thesis by (auto simp: HandleResult_def)
  qed
qed (use assms in \<open>auto simp: deliver_result_def Unmarshal_def\<close>)

text \<open>What a run promises: no row disappears, every row was there or is that of a delivered result, and every acknowledged message has
  its row.\<close>

definition kept_or_delivered :: "ScyllaConfig \<Rightarrow> result_delivery list \<Rightarrow> 'w \<Rightarrow> 'w \<Rightarrow> bool" where
  "kept_or_delivered cfg ds w w' = (\<forall>i row. rows w' i = Some row \<longrightarrow> rows w i = Some row \<or> list_ex (delivered_row cfg i row) ds)"

definition acknowledged_stored :: "(InvocationResultMessage JsMsg \<times> InvocationResultMessage action list) list \<Rightarrow> 'w \<Rightarrow> bool" where
  "acknowledged_stored log w = (\<forall>(j, acts) \<in> set log. acknowledges acts
     \<longrightarrow> (\<exists>m. jm_Data j = Decoded m \<and> res_InvocationID m \<in> dom (rows w)))"

lemma kept_or_delivered_trans:
  "kept_or_delivered cfg [d] w v \<Longrightarrow> kept_or_delivered cfg ds v w' \<Longrightarrow> kept_or_delivered cfg (d # ds) w w'"
  unfolding kept_or_delivered_def list_ex_iff by fastforce

lemma kept_or_delivered_one: "kept_or_delivered cfg [d] w v \<Longrightarrow> kept_or_delivered cfg (d # ds) w v"
  unfolding kept_or_delivered_def list_ex_iff by fastforce

lemma acknowledged_stored_Cons:
  "acknowledged_stored [x] v \<Longrightarrow> dom (rows v) \<subseteq> dom (rows w) \<Longrightarrow> acknowledged_stored log w \<Longrightarrow> acknowledged_stored (x # log) w"
  unfolding acknowledged_stored_def by fastforce

lemma deliver_promises:
  assumes "deliver_result cfg T (now, stored, failed, oc, j) w = (oc', v)"
  shows "dom (rows w) \<subseteq> dom (rows v)" "kept_or_delivered cfg [(now, stored, failed, oc, j)] w v"
    and "consume_message nats opts source info failed oc' j = Some (acts, r) \<Longrightarrow> acknowledged_stored [(j, acts)] v"
proof -
  note eff = deliver_effect [OF assms]
  show "dom (rows w) \<subseteq> dom (rows v)" using eff by auto
  show "kept_or_delivered cfg [(now, stored, failed, oc, j)] w v"
    using eff by (auto simp: kept_or_delivered_def delivered_row_def split: if_splits)
  show "acknowledged_stored [(j, acts)] v" if "consume_message nats opts source info failed oc' j = Some (acts, r)"
    using acknowledged_was_handled [OF that] eff by (auto simp: acknowledged_stored_def)
qed

lemma consume_promises:
  "consume_results nats opts cfg T ds w = (log, w')
   \<Longrightarrow> dom (rows w) \<subseteq> dom (rows w') \<and> kept_or_delivered cfg ds w w' \<and> acknowledged_stored log w'"
proof (induction ds arbitrary: w log)
  case Nil
  then show ?case by (simp add: kept_or_delivered_def acknowledged_stored_def)
next
  case (Cons x ds)
  obtain now stored failed oc j where x: "x = (now, stored, failed, oc, j)" by (cases x)
  obtain oc' v where d: "deliver_result cfg T (now, stored, failed, oc, j) w = (oc', v)" by fastforce
  let ?c = "consume_message nats opts DeadLetterSourceResult invocationResultDeadLetterInfo failed oc' j"
  note one = deliver_promises [OF d]
  consider "w' = v" "log = []" | acts e where "?c = Some (acts, Inl e)" "w' = v" "log = [(j, acts)]"
    | acts u log' where "?c = Some (acts, Inr u)" "log = (j, acts) # log'" "consume_results nats opts cfg T ds v = (log', w')"
    using Cons.prems d by (auto simp: x split: option.splits prod.splits sum.splits)
  then show ?case
  proof cases
    case 1
    then show ?thesis using one(1,2) by (simp add: x kept_or_delivered_one acknowledged_stored_def)
  next
    case 2
    then show ?thesis using one by (simp add: x kept_or_delivered_one)
  next
    case 3
    note rest = Cons.IH [OF 3(3)]
    then have "acknowledged_stored log w'" unfolding 3(2) using one(3) [OF 3(1)] by (blast intro: acknowledged_stored_Cons)
    moreover have "dom (rows w) \<subseteq> dom (rows w')" using one(1) rest by (meson subset_trans)
    moreover have "kept_or_delivered cfg (x # ds) w w'" unfolding x using one(2) rest by (blast intro: kept_or_delivered_trans)
    ultimately show ?thesis by blast
  qed
qed

text \<open>A second delivery of a stored result changes nothing but the time of the write.\<close>

lemma redelivery_idempotent:
  assumes "SaveInvocationResult cfg T now stored m w = (Inr u, v)" "SaveInvocationResult cfg T now' stored' m v = (a, w')"
    and "res_CompletedAt m \<noteq> 0"
  shows "\<exists>r. rows v (res_InvocationID m) = Some r
    \<and> (rows w' = rows v \<or> rows w' = (rows v)(res_InvocationID m \<mapsto> r\<lparr>ir_StoredAt := cql_time stored'\<rparr>))"
proof -
  obtain r where r: "RecordFromResult now stored m (scy_MaxInlineBodyBytes cfg) = Inr r" "rows v = (rows w)(res_InvocationID m \<mapsto> cql_row r)"
    using save_effect [OF assms(1)] by auto
  have "RecordFromResult now' stored' m (scy_MaxInlineBodyBytes cfg) = Inr (r\<lparr>ir_StoredAt := stored'\<rparr>)"
    using r(1) assms(3) by (auto simp: RecordFromResult_def Let_def split: if_splits)
  then show ?thesis using save_effect [OF assms(2)] r(2) by (auto simp: cql_row_def)
qed

text \<open>Reading back.\<close>

lemma read_back:
  assumes "SaveInvocationResult cfg T now stored m w = (Inr u, v)" "GetInvocationResult T (res_InvocationID m) v = (a, w')"
  shows "(\<exists>r. RecordFromResult now stored m (scy_MaxInlineBodyBytes cfg) = Inr r \<and> a = Inr (cql_row r))
     \<or> (\<exists>e. a = Inl (Wrap (''get invocation result %s: %w'', [FS (res_InvocationID m)]) e))"
proof -
  obtain r where r: "RecordFromResult now stored m (scy_MaxInlineBodyBytes cfg) = Inr r" "rows v (res_InvocationID m) = Some (cql_row r)"
    using save_effect [OF assms(1)] by auto
  obtain b v' where b: "rt_Get T (res_InvocationID m) v = (b, v')" by fastforce
  show ?thesis
  proof (cases b)
    case (Inl e)
    with get_missing [of "res_InvocationID m" v e v'] b r(2) have "\<not> errors_Is e gocqlErrNotFound" by auto
    with Inl assms(2) b show ?thesis by (auto simp: GetInvocationResult_def bindC_def tryC_def)
  next
    case (Inr x)
    with get_ok [of "res_InvocationID m" v x v'] b r assms(2) show ?thesis
      by (auto simp: GetInvocationResult_def bindC_def tryC_def)
  qed
qed

end

section \<open>A table in memory\<close>

type_synonym mem_table = "string \<Rightarrow> InvocationRecord option"

definition mem_results :: "mem_table ResultTable" where
  "mem_results = \<lparr>
     rt_Insert = (\<lambda>r t. (Inr (), t(ir_InvocationID r \<mapsto> cql_row r))),
     rt_Get = (\<lambda>i t. (case t i of None \<Rightarrow> Inl gocqlErrNotFound | Some r \<Rightarrow> Inr r, t))\<rparr>"

interpretation mem_results: result_table mem_results id
  by unfold_locales (auto simp: mem_results_def split: option.splits)

section \<open>What the consumer guarantees\<close>

text \<open>C19. An invocation result is acknowledged only when it is stored: after any run of the result consumer over any deliveries (repeated,
  reordered, undecodable, with failing database calls that may or may not have written), every message that was acknowledged has a row under
  its invocation, no row has disappeared, and every row was there before or is the row of a delivered result.\<close>

theorem results_acknowledged_only_when_stored:
  assumes "result_table T rows" and "consume_results nats opts cfg T ds w = (log, w')"
  shows "(\<forall>(j, acts) \<in> set log. acknowledges acts \<longrightarrow> (\<exists>m. jm_Data j = Decoded m \<and> res_InvocationID m \<in> dom (rows w')))
    \<and> dom (rows w) \<subseteq> dom (rows w')
    \<and> (\<forall>i row. rows w' i = Some row \<longrightarrow> rows w i = Some row \<or> list_ex (delivered_row cfg i row) ds)"
  using result_table.consume_promises [OF assms]
  unfolding result_table.kept_or_delivered_def [OF assms(1)] result_table.acknowledged_stored_def [OF assms(1)] by simp

text \<open>C33. A stored result reads back: a lookup after a successful save of a result returns its record (up to the milliseconds the table
  keeps) or reports that the lookup failed, never that there is no result. The record has the identifiers, the status and the size of the
  body of the result, its body when it is not over the limit (and says so when it is), and a state that is set.\<close>

theorem stored_result_reads_back:
  assumes "result_table T rows"
    and "SaveInvocationResult cfg T now stored m w = (Inr u, v)" and "GetInvocationResult T (res_InvocationID m) v = (a, w')"
  shows "a \<noteq> Inl ErrNotFound \<and> (\<forall>r. a = Inr r \<longrightarrow>
      ir_InvocationID r = res_InvocationID m \<and> ir_ServerlessRequestID r = res_ServerlessRequestID m
      \<and> ir_StatusCode r = res_StatusCode m \<and> ir_BodyBytes r = int (length (res_Body m))
      \<and> ir_State r \<noteq> InvocationStateUnset \<and> (res_State m \<noteq> InvocationStateUnset \<longrightarrow> ir_State r = res_State m)
      \<and> ir_BodyTruncated r = (scy_MaxInlineBodyBytes cfg < int (length (res_Body m)))
      \<and> (\<not> ir_BodyTruncated r \<longrightarrow> ir_BodyInline r = res_Body m)
      \<and> (res_CompletedAt m \<noteq> 0 \<longrightarrow> ir_CompletedAt r = cql_time (res_CompletedAt m)))"
proof -
  have "ir_InvocationID r = res_InvocationID m \<and> ir_ServerlessRequestID r = res_ServerlessRequestID m
      \<and> ir_StatusCode r = res_StatusCode m \<and> ir_BodyBytes r = int (length (res_Body m))
      \<and> ir_State r = normalizeResultState m \<and> ir_BodyTruncated r = (scy_MaxInlineBodyBytes cfg < int (length (res_Body m)))
      \<and> (\<not> ir_BodyTruncated r \<longrightarrow> ir_BodyInline r = res_Body m)
      \<and> (res_CompletedAt m \<noteq> 0 \<longrightarrow> ir_CompletedAt r = res_CompletedAt m)"
    if "RecordFromResult now stored m (scy_MaxInlineBodyBytes cfg) = Inr r" for r
    using that by (auto simp: RecordFromResult_def Let_def split: if_splits)
  moreover have "normalizeResultState m \<noteq> InvocationStateUnset \<and> (res_State m \<noteq> InvocationStateUnset \<longrightarrow> normalizeResultState m = res_State m)"
    by (simp add: normalizeResultState_def)
  ultimately show ?thesis using result_table.read_back [OF assms] by (auto simp: cql_row_def ErrNotFound_def)
qed

section \<open>What the configuration guarantees\<close>

text \<open>The statements are put together from text: the configuration lets no name through that is more than one identifier.\<close>

lemma check_timeout_iff [simp]: "check_timeout field d = Inr u \<longleftrightarrow> ParseDuration d \<noteq> None"
  by (auto simp: check_timeout_def split: option.splits)

lemma validateIdentifier_iff [simp]: "validateIdentifier field s = Inr u \<longleftrightarrow> cqlIdentifier s"
  by (auto simp: validateIdentifier_def)

lemma scylla_normalized:
  assumes "ScyllaConfig_Normalized c = Inr c'"
  shows "cqlIdentifier (scy_Keyspace c')" "cqlIdentifier (scy_ResultsTable c')" "scy_Hosts c' \<noteq> []" "0 < scy_ReplicationFactor c'"
    "0 \<le> scy_MaxInlineBodyBytes c'" "ParseDuration (scy_ConnectTimeout c') \<noteq> None" "ParseDuration (scy_RequestTimeout c') \<noteq> None"
    "(scy_Username c' = [] \<and> scy_UsernameFile c' = []) \<longleftrightarrow> (scy_Password c' = [] \<and> scy_PasswordFile c' = [])"
  using assms unfolding ScyllaConfig_Normalized_def Let_def
  by (simp_all add: result_simps DefaultReplicationFactor_def DefaultMaxInlineBodyBytes_def split: if_split_asm) (elim conjE; hypsubst; simp; blast?)+

lemma columns_defined: "map (takeWhile (\<lambda>c. c \<noteq> CHR '' '')) invocationResultColumnDefinitions = invocationResultColumns"
  by (simp add: invocationResultColumnDefinitions_def invocationResultColumns_def)

text \<open>A limit of no inline body cannot be configured: zero is replaced by the default of one megabyte.\<close>

lemma zero_inline_limit_replaced:
  assumes "ScyllaConfig_Normalized c = Inr c'" "scy_MaxInlineBodyBytes c = 0"
  shows "scy_MaxInlineBodyBytes c' = 1048576"
  using assms unfolding ScyllaConfig_Normalized_def Let_def
  by (auto simp: result_simps DefaultMaxInlineBodyBytes_def split: if_splits option.splits)

section \<open>A run\<close>

definition sample_result :: InvocationResultMessage where
  "sample_result = zero_result\<lparr>res_InvocationID := ''inv-1'', res_ServerlessRequestID := ''chat'', res_StatusCode := 200,
     res_Body := ''hello'', res_CompletedAt := 5000000\<rparr>"

definition sample_delivery :: result_delivery where
  "sample_delivery = (7000000, 7000000, 7000000, all_ok, sample_message (Decoded sample_result) 1)"

lemma sample_record: "RecordFromResult 7000000 7000000 sample_result (scy_MaxInlineBodyBytes DefaultScyllaConfig) \<noteq> Inl e"
  by (simp add: RecordFromResult_def sample_result_def zero_result_def DefaultScyllaConfig_def DefaultMaxInlineBodyBytes_def)

lemma sample_run:
  "\<exists>t. consume_results DefaultNATSConfig default_options DefaultScyllaConfig mem_results [sample_delivery] Map.empty
     = ([(sample_message (Decoded sample_result) 1, [Handle sample_result, AckMsg])], t)"
  using sample_record
  by (auto simp: sample_delivery_def deliver_result_def sample_message_def Unmarshal_def HandleResult_def SaveInvocationResult_def
      consume_message_def all_ok_def sample_result_def zero_result_def mem_results_def bindC_def tryC_def split: sum.splits)

theorem results_acknowledged_only_when_stored_witness:
  "\<exists>t. consume_results DefaultNATSConfig default_options DefaultScyllaConfig mem_results [sample_delivery] Map.empty
     = ([(sample_message (Decoded sample_result) 1, [Handle sample_result, AckMsg])], t) \<and> ''inv-1'' \<in> dom t"
proof -
  obtain t where t: "consume_results DefaultNATSConfig default_options DefaultScyllaConfig mem_results [sample_delivery] Map.empty
     = ([(sample_message (Decoded sample_result) 1, [Handle sample_result, AckMsg])], t)" using sample_run by blast
  from results_acknowledged_only_when_stored [OF mem_results.result_table_axioms t]
  have "''inv-1'' \<in> dom t" by (auto simp: acknowledges_def sample_message_def sample_result_def)
  with t show ?thesis by blast
qed

theorem stored_result_reads_back_witness:
  "\<exists>t r. SaveInvocationResult DefaultScyllaConfig mem_results 7000000 7000000 sample_result Map.empty = (Inr (), t)
     \<and> GetInvocationResult mem_results ''inv-1'' t = (Inr r, t) \<and> ir_BodyInline r = ''hello'' \<and> ir_State r = InvocationStateSucceeded"
proof -
  obtain r0 where r0: "RecordFromResult 7000000 7000000 sample_result (scy_MaxInlineBodyBytes DefaultScyllaConfig) = Inr r0"
    using sample_record by (metis obj_sumE)
  have key: "ir_InvocationID r0 = ''inv-1''" using record_key [OF r0] by (simp add: sample_result_def)
  let ?t = "Map.empty(''inv-1'' \<mapsto> cql_row r0)"
  have s: "SaveInvocationResult DefaultScyllaConfig mem_results 7000000 7000000 sample_result Map.empty = (Inr (), ?t)"
    using r0 key by (simp add: SaveInvocationResult_def mem_results_def bindC_def tryC_def)
  have g: "GetInvocationResult mem_results (res_InvocationID sample_result) ?t = (Inr (cql_row r0), ?t)"
    by (simp add: GetInvocationResult_def mem_results_def bindC_def tryC_def sample_result_def)
  have "ir_State (cql_row r0) = InvocationStateSucceeded"
    using r0 by (auto simp: RecordFromResult_def Let_def normalizeResultState_def sample_result_def zero_result_def cql_row_def split: if_splits)
  moreover from stored_result_reads_back [OF mem_results.result_table_axioms s g]
  have "ir_BodyInline (cql_row r0) = ''hello''"
    by (simp add: sample_result_def DefaultScyllaConfig_def DefaultMaxInlineBodyBytes_def)
  ultimately show ?thesis using s g by (auto simp: sample_result_def)
qed

end
