(* ===== verification/Service_Serverless.thy ===== *)
theory Service_Serverless
  imports Service_Client Serverless_Contract Serverless_Queue
begin

text \<open>
  Submission of serverless invocations (\<^verbatim>\<open>pkg/service/serverless_service.go\<close>). The publisher is the interface of
  \<^verbatim>\<open>pkg/serverless\<close>: its asynchronous call, and the synchronous one if it has it. The implementation in the repository
  (\<^verbatim>\<open>nats.go\<close>, theory Serverless_Queue) over a stream is an instance; the documented behaviour of a JetStream stream, which
  stores a message identifier once, is the locale \<open>dedup_stream\<close>.
\<close>

section \<open>The service\<close>

record ServerlessInvocationAck =
  sia_InvocationID :: string
  sia_ServerlessRequestID :: string
  sia_Mode :: string
  sia_Subject :: string
  sia_ResultSubject :: string
  sia_MetricsSubject :: string
  sia_Stream :: string
  sia_Sequence :: uint64
  sia_Duplicate :: bool
  sia_AcceptedAt :: gotime

record ServerlessInvocationResult =
  sires_InvocationID :: string
  sires_ServerlessRequestID :: string
  sires_Mode :: string
  sires_State :: InvocationState
  sires_FailureClass :: InvocationFailureClass
  sires_WorkerName :: string
  sires_WorkerNamespace :: string
  sires_StatusCode :: int
  sires_ContentType :: string
  sires_Headers :: "string smap"
  sires_Body :: string
  sires_Error :: "error option"
  sires_ErrorText :: string
  sires_StartedAt :: gotime
  sires_CompletedAt :: gotime

text \<open>The deadline of the context is an argument of the synchronous call.\<close>

record 'w InvocationPublisher =
  ip_Enabled :: bool
  ip_PublishInvocation :: "InvocationMessage \<Rightarrow> ('w, PublishAck) call"
  ip_RequestSyncInvocation :: "(duration option \<Rightarrow> InvocationMessage \<Rightarrow> ('w, PublishAck \<times> InvocationResultMessage) call) option"

definition queue_unavailable :: error where
  "queue_unavailable = UnavailableError (msg ''serverless queue is not configured'')"

definition invocation_message :: "CreateServerlessInvocationRequest \<Rightarrow> InvocationMessage" where
  "invocation_message req = \<lparr>inv_Version = [], inv_InvocationID = sir_InvocationID req, inv_ServerlessRequestID = sir_ServerlessRequestID req,
     inv_Mode = sir_Mode req, inv_State = InvocationStateQueued, inv_ContentType = sir_ContentType req,
     inv_Headers = cloneStringMap (sir_Headers req), inv_Attributes = cloneStringMap (sir_Attributes req),
     inv_Payload = [] @ sir_Payload req, inv_TimeoutSeconds = sir_TimeoutSeconds req, inv_ResultSubject = [],
     inv_MetricsSubject = [], inv_ReplySubject = [], inv_EnqueuedAt = 0\<rparr>"

definition CreateServerlessInvocation ::
    "'w InvocationPublisher option \<Rightarrow> CreateServerlessInvocationRequest \<Rightarrow> ('w, ServerlessInvocationAck \<times> bool) call" where
  "CreateServerlessInvocation publisher req =
     (case publisher of
        None \<Rightarrow> failC queue_unavailable
      | Some P \<Rightarrow>
          if \<not> ip_Enabled P then failC queue_unavailable
          else bindC (ip_PublishInvocation P (invocation_message req)) (\<lambda>ack.
            returnC (\<lparr>sia_InvocationID = ack_InvocationID ack, sia_ServerlessRequestID = ack_ServerlessRequestID ack,
              sia_Mode = ack_Mode ack, sia_Subject = ack_Subject ack, sia_ResultSubject = ack_ResultSubject ack,
              sia_MetricsSubject = ack_MetricsSubject ack, sia_Stream = ack_Stream ack, sia_Sequence = ack_Sequence ack,
              sia_Duplicate = ack_Duplicate ack, sia_AcceptedAt = ack_AcceptedAt ack\<rparr>, \<not> ack_Duplicate ack)))"

definition InvokeServerlessSync ::
    "'w InvocationPublisher option \<Rightarrow> CreateServerlessInvocationRequest \<Rightarrow> ('w, ServerlessInvocationResult) call" where
  "InvokeServerlessSync publisher req =
     (case publisher of
        None \<Rightarrow> failC queue_unavailable
      | Some P \<Rightarrow>
          if \<not> ip_Enabled P then failC queue_unavailable
          else case ip_RequestSyncInvocation P of
            None \<Rightarrow> failC (UnavailableError (msg ''sync serverless invocation is not configured''))
          | Some request \<Rightarrow>
              bindC (request (if sir_TimeoutSeconds req > 0 then Some (sir_TimeoutSeconds req * second) else None) (invocation_message req))
                (\<lambda>(_, result). returnC \<lparr>sires_InvocationID = res_InvocationID result, sires_ServerlessRequestID = res_ServerlessRequestID result,
                   sires_Mode = res_Mode result, sires_State = res_State result, sires_FailureClass = res_FailureClass result,
                   sires_WorkerName = res_WorkerName result, sires_WorkerNamespace = res_WorkerNamespace result,
                   sires_StatusCode = res_StatusCode result, sires_ContentType = res_ContentType result,
                   sires_Headers = cloneStringMap (res_Headers result), sires_Body = [] @ res_Body result, sires_Error = res_Error result,
                   sires_ErrorText = res_ErrorText result, sires_StartedAt = res_StartedAt result, sires_CompletedAt = res_CompletedAt result\<rparr>))"

section \<open>The publisher of the repository\<close>

text \<open>A connection: a stream answers a publication with its name, the sequence number and whether it had the identifier already; the
  reply to a synchronous invocation arrives on an inbox.\<close>

record 'w stream_conn =
  sc_Publish :: "publication \<Rightarrow> ('w, string \<times> uint64 \<times> bool) call"
  sc_Now :: "'w \<Rightarrow> gotime"
  sc_Marshal :: "InvocationMessage \<Rightarrow> unit res"
  sc_NewInbox :: "'w \<Rightarrow> string"
  sc_Subscribe :: "string \<Rightarrow> ('w, unit) call"
  sc_Flush :: "('w, unit) call"
  sc_NextMsg :: "duration option \<Rightarrow> string \<Rightarrow> ('w, InvocationResultMessage queue_data) call"

text \<open>What is published does not depend on the answers, which are obtained only after the publication.\<close>

definition nats_publish :: "NATSConfig \<Rightarrow> 'w stream_conn \<Rightarrow> InvocationMessage \<Rightarrow> ('w, PublishAck) call" where
  "nats_publish cfg N m w =
     (let attempt = (\<lambda>answer. PublishInvocation True cfg (sc_Marshal N m) answer (sc_Now N w) m)
      in case fst (attempt (Inl Canceled)) of
           [] \<Rightarrow> (snd (attempt (Inl Canceled)), w)
         | pub # _ \<Rightarrow> (case sc_Publish N pub w of (answer, w') \<Rightarrow> (snd (attempt answer), w')))"

definition nats_request :: "NATSConfig \<Rightarrow> 'w stream_conn \<Rightarrow> duration option \<Rightarrow> InvocationMessage \<Rightarrow> ('w, PublishAck \<times> InvocationResultMessage) call" where
  "nats_request cfg N deadline m w =
     (let inbox = sc_NewInbox N w;
          (subscribed, w1) = sc_Subscribe N inbox w;
          (flushed, w2) = (if isOk subscribed then sc_Flush N w1 else (Inr (), w1));
          attempt = (\<lambda>answer reply. RequestSyncInvocation True cfg inbox subscribed flushed (sc_Marshal N m) answer reply (sc_Now N w) m)
      in case fst (attempt (Inl Canceled) (Inl Canceled)) of
           [] \<Rightarrow> (snd (attempt (Inl Canceled) (Inl Canceled)), w2)
         | pub # _ \<Rightarrow> (case sc_Publish N pub w2 of (answer, w3) \<Rightarrow>
             (case (if isOk answer then sc_NextMsg N deadline inbox w3 else (Inl Canceled, w3)) of (reply, w4) \<Rightarrow>
               (snd (attempt answer reply), w4))))"

definition nats_publisher :: "NATSConfig \<Rightarrow> 'w stream_conn \<Rightarrow> 'w InvocationPublisher" where
  "nats_publisher cfg N = \<lparr>ip_Enabled = True, ip_PublishInvocation = nats_publish cfg N, ip_RequestSyncInvocation = Some (nats_request cfg N)\<rparr>"

section \<open>A stream that stores an identifier once\<close>

definition pub_id :: "publication \<Rightarrow> string" where
  "pub_id p = (case p of PubInvocation _ i _ \<Rightarrow> i | PubDispatch _ i _ \<Rightarrow> i | PubMetric _ i _ \<Rightarrow> i | PubResult _ i _ \<Rightarrow> i | PubReply _ _ \<Rightarrow> [])"

text \<open>The publication of an invocation.\<close>

abbreviation stored_message :: "NATSConfig \<Rightarrow> InvocationMessage \<Rightarrow> publication" where
  "stored_message cfg m \<equiv> PubInvocation (InvocationSubject (nats_SubjectPrefix cfg) (inv_ServerlessRequestID m)) (inv_InvocationID m)
     (m\<lparr>inv_Version := InvocationVersion, inv_ResultSubject := ResultSubject (nats_SubjectPrefix cfg) (inv_ServerlessRequestID m),
        inv_MetricsSubject := MetricsSubject (nats_SubjectPrefix cfg) (inv_ServerlessRequestID m)\<rparr>)"

text \<open>The documented behaviour of a JetStream stream, for the messages of its window for duplicates: a publication whose identifier
  the stream has is reported as a duplicate and not stored, any other is stored; one that fails may have been stored; waiting for a
  reply does not change the stream.\<close>

locale dedup_stream =
  fixes N :: "'w stream_conn" and stream :: "'w \<Rightarrow> publication list"
  assumes publish_ok: "sc_Publish N p w = (Inr (name, seqno, dup), w') \<Longrightarrow>
      dup = (pub_id p \<in> pub_id ` set (stream w)) \<and> stream w' = (if dup then stream w else stream w @ [p])"
    and publish_err: "sc_Publish N p w = (Inl e, w') \<Longrightarrow>
      stream w' = stream w \<or> pub_id p \<notin> pub_id ` set (stream w) \<and> stream w' = stream w @ [p]"
    and others_keep: "keeps stream (sc_Subscribe N inbox)" "keeps stream (sc_Flush N)" "keeps stream (sc_NextMsg N deadline inbox)"
begin

lemma publish_cases:
  assumes "nats_publish cfg N m w = (r, w')"
  shows "(\<exists>e. r = Inl e \<and> (stream w' = stream w
        \<or> inv_InvocationID m \<notin> pub_id ` set (stream w) \<and> stream w' = stream w @ [stored_message cfg m]))
    \<or> (isOk r \<and> ack_InvocationID (projr r) = inv_InvocationID m
        \<and> ack_Duplicate (projr r) = (inv_InvocationID m \<in> pub_id ` set (stream w))
        \<and> stream w' = (if ack_Duplicate (projr r) then stream w else stream w @ [stored_message cfg m]))"
proof (cases "sc_Marshal N m")
  case (Inl e)
  with assms show ?thesis by (auto simp: nats_publish_def PublishInvocation_def publishInvocation_def Let_def)
next
  case (Inr u)
  obtain answer v where a: "sc_Publish N (stored_message cfg m) w = (answer, v)" by fastforce
  have id: "pub_id (stored_message cfg m) = inv_InvocationID m" by (simp add: pub_id_def)
  show ?thesis
  proof (cases answer)
    case (Inl e)
    with publish_err [of "stored_message cfg m" w e v] assms a Inr id show ?thesis
      by (auto simp: nats_publish_def PublishInvocation_def publishInvocation_def Let_def)
  next
    case ok: (Inr x)
    obtain name seqno dup where x: "x = (name, seqno, dup)" by (cases x)
    with publish_ok [of "stored_message cfg m" w name seqno dup v] assms a Inr ok id show ?thesis
      by (auto simp: nats_publish_def PublishInvocation_def publishInvocation_def Let_def)
  qed
qed

end

text \<open>A stream in memory.\<close>

definition mem_conn :: "publication list stream_conn" where
  "mem_conn = \<lparr>
     sc_Publish = (\<lambda>p st. (Inr (''RUNTIME'', of_nat (Suc (length st)), pub_id p \<in> set (map pub_id st)),
        if pub_id p \<in> set (map pub_id st) then st else st @ [p])),
     sc_Now = (\<lambda>_. 1), sc_Marshal = (\<lambda>_. Inr ()), sc_NewInbox = (\<lambda>_. ''_INBOX.1''), sc_Subscribe = (\<lambda>_. returnC ()),
     sc_Flush = returnC (), sc_NextMsg = (\<lambda>_ _. failC DeadlineExceeded)\<rparr>"

interpretation mem_stream: dedup_stream mem_conn id
  by unfold_locales (auto simp: mem_conn_def keeps_def)

end
