(* ===== verification/Service_Inventory.thy ===== *)
theory Service_Inventory
  imports Service_Units Controller_Unit
begin

text \<open>
  Inventory, health and telemetry of the runtime service (\<^verbatim>\<open>metrics_snapshot.go\<close>, \<^verbatim>\<open>allocation.go\<close>,
  \<^verbatim>\<open>nvidia_telemetry.go\<close> and \<^verbatim>\<open>Health\<close> of \<^verbatim>\<open>service.go\<close>). The clients for nodes, claims, slices and the scrape of
  the exporter are parameters, as is floating-point arithmetic. The theorems say that the counts are those of what was listed.
\<close>

section \<open>What is listed\<close>

record 'q Node =
  node_Name :: string
  node_Labels :: "string smap"
  node_Conditions :: "(string \<times> string) list"
  node_Capacity :: "'q smap"
  node_Allocatable :: "'q smap"

record 'f Metric =
  metric_Labels :: "(string \<times> string) list"
  metric_Gauge :: "'f option"

type_synonym 'f families = "string \<Rightarrow> 'f Metric list option"

record ('w, 'q, 'f) inventory_env =
  ie_ListNodes :: "('w, 'q Node list) call"
  ie_ListClaims :: "string \<Rightarrow> ('w, 'q ResourceClaim list) call"
  ie_ListSlices :: "('w, nat) call"
  ie_Endpoint :: string
  ie_NewRequest :: "string \<Rightarrow> unit res"
  ie_Get :: "string \<Rightarrow> ('w, int \<times> 'f families res) call"
  ie_StartedAt :: gotime
  ie_Now :: "'w \<Rightarrow> gotime"

record 'f floats =
  fl_zero :: 'f
  fl_add :: "'f \<Rightarrow> 'f \<Rightarrow> 'f"
  fl_div :: "'f \<Rightarrow> 'f \<Rightarrow> 'f"
  fl_of_int :: "int \<Rightarrow> 'f"
  fl_less :: "'f \<Rightarrow> 'f \<Rightarrow> bool"
  fl_eq :: "'f \<Rightarrow> 'f \<Rightarrow> bool"

section \<open>Nodes\<close>

definition NVIDIAGPUResourceName :: string where "NVIDIAGPUResourceName = ''nvidia.com/gpu''"
definition NVIDIAGPUProductLabelKey :: string where "NVIDIAGPUProductLabelKey = ''nvidia.com/gpu.product''"
definition unknownMetricsPhase :: string where "unknownMetricsPhase = ''Unknown''"

record GPUProductHealth =
  gph_Product :: string
  gph_NodeCount :: int
  gph_Capacity :: int
  gph_Allocatable :: int

record RuntimeNodeMetrics =
  rnm_Name :: string
  rnm_Ready :: bool
  rnm_GPUProduct :: string
  rnm_GPUCapacity :: int
  rnm_GPUAllocatable :: int

record nodeInventorySnapshot =
  nis_Connected :: bool
  nis_NodeCount :: int
  nis_ReadyNodeCount :: int
  nis_TotalGPUCapacity :: int
  nis_TotalGPUAllocatable :: int
  nis_GPUProducts :: "GPUProductHealth list"
  nis_Nodes :: "RuntimeNodeMetrics list"
  nis_KubeError :: "error option"

definition zero_inventory :: nodeInventorySnapshot where
  "zero_inventory = \<lparr>nis_Connected = False, nis_NodeCount = 0, nis_ReadyNodeCount = 0, nis_TotalGPUCapacity = 0, nis_TotalGPUAllocatable = 0,
     nis_GPUProducts = [], nis_Nodes = [], nis_KubeError = None\<rparr>"

fun ready_condition :: "(string \<times> string) list \<Rightarrow> bool" where
  "ready_condition [] = False"
| "ready_condition ((t, status) # cs) = (if t = ''Ready'' then status = ''True'' else ready_condition cs)"

definition isNodeReady :: "'q Node \<Rightarrow> bool" where
  "isNodeReady node = ready_condition (node_Conditions node)"

definition gpuQuantity :: "'q k8s \<Rightarrow> 'q smap \<Rightarrow> int" where
  "gpuQuantity K resources = (case map_of resources NVIDIAGPUResourceName of None \<Rightarrow> 0 | Some qty \<Rightarrow> qty_Value K qty)"

definition normalizeMetricsPhase :: "string \<Rightarrow> string" where
  "normalizeMetricsPhase phase = (let trimmed = TrimSpace phase in if trimmed = [] then unknownMetricsPhase else trimmed)"

definition label_of :: "string smap \<Rightarrow> string \<Rightarrow> string" where
  "label_of m k = (case map_of m k of None \<Rightarrow> [] | Some v \<Rightarrow> v)"

definition node_metrics :: "'q k8s \<Rightarrow> 'q Node \<Rightarrow> RuntimeNodeMetrics" where
  "node_metrics K item = \<lparr>rnm_Name = node_Name item, rnm_Ready = isNodeReady item,
     rnm_GPUProduct = TrimSpace (label_of (node_Labels item) NVIDIAGPUProductLabelKey),
     rnm_GPUCapacity = gpuQuantity K (node_Capacity item), rnm_GPUAllocatable = gpuQuantity K (node_Allocatable item)\<rparr>"

definition product_add :: "RuntimeNodeMetrics \<Rightarrow> GPUProductHealth smap \<Rightarrow> GPUProductHealth smap" where
  "product_add n index =
     (if rnm_GPUCapacity n \<le> 0 \<and> rnm_GPUAllocatable n \<le> 0 then index
      else let product = or_default (rnm_GPUProduct n) ''unknown'';
               health = (case map_of index product of
                 None \<Rightarrow> \<lparr>gph_Product = product, gph_NodeCount = 0, gph_Capacity = 0, gph_Allocatable = 0\<rparr> | Some h \<Rightarrow> h)
           in map_put product (health\<lparr>gph_NodeCount := gph_NodeCount health + 1,
                gph_Capacity := gph_Capacity health + rnm_GPUCapacity n,
                gph_Allocatable := gph_Allocatable health + rnm_GPUAllocatable n\<rparr>) index)"

definition node_step :: "'q k8s \<Rightarrow> 'q Node \<Rightarrow> nodeInventorySnapshot \<times> GPUProductHealth smap \<Rightarrow> nodeInventorySnapshot \<times> GPUProductHealth smap" where
  "node_step K item st = (let n = node_metrics K item; s = fst st in
     (s\<lparr>nis_ReadyNodeCount := nis_ReadyNodeCount s + (if rnm_Ready n then 1 else 0), nis_Nodes := nis_Nodes s @ [n],
        nis_TotalGPUCapacity := nis_TotalGPUCapacity s + rnm_GPUCapacity n,
        nis_TotalGPUAllocatable := nis_TotalGPUAllocatable s + rnm_GPUAllocatable n\<rparr>, product_add n (snd st)))"

text \<open>The snapshot is returned beside the error.\<close>

definition collectNodeInventory :: "'q k8s \<Rightarrow> ('w, 'q, 'f) inventory_env \<Rightarrow> ('w, 'q) Service
    \<Rightarrow> 'w \<Rightarrow> (nodeInventorySnapshot \<times> error option) \<times> 'w" where
  "collectNodeInventory K E S w =
     (case svc_kube S of
        None \<Rightarrow> ((zero_inventory, None), w)
      | Some _ \<Rightarrow> (case ie_ListNodes E w of
          (Inl e, w') \<Rightarrow> ((zero_inventory\<lparr>nis_KubeError := Some e\<rparr>, Some e), w')
        | (Inr nodes, w') \<Rightarrow>
            let (s, index) = fold (node_step K) nodes (zero_inventory\<lparr>nis_Connected := True, nis_NodeCount := int (length nodes)\<rparr>, [])
            in ((s\<lparr>nis_GPUProducts := map snd (sort_key fst index), nis_Nodes := sort_key rnm_Name (nis_Nodes s)\<rparr>, None), w')))"

section \<open>Phases\<close>

definition count_up :: "'k \<Rightarrow> ('k \<times> int) list \<Rightarrow> ('k \<times> int) list" where
  "count_up k m = AList.update k ((case map_of m k of None \<Rightarrow> 0 | Some n \<Rightarrow> n) + 1) m"

definition collectRuntimeUnitPhaseCounts :: "('w, 'q) Service \<Rightarrow> 'w \<Rightarrow> (((string \<times> string) \<times> int) list \<times> int \<times> error option) \<times> 'w" where
  "collectRuntimeUnitPhaseCounts S w =
     (case svc_operator S of
        None \<Rightarrow> (([], 0, None), w)
      | Some A \<Rightarrow> (case rs_List (op_Units A) None w of
          (Inl e, w') \<Rightarrow> (([], 0, Some e), w')
        | (Inr units, w') \<Rightarrow>
            ((fold (\<lambda>u. count_up (lifecycleForUnit u, normalizeMetricsPhase (st_Phase (unit_Status u)))) units [], int (length units), None), w')))"

definition collectStoragePhaseCounts :: "('w, 'q) Service \<Rightarrow> 'w
    \<Rightarrow> ((string \<times> int) list \<times> (string \<times> int) list \<times> (string \<times> int) list \<times> error option) \<times> 'w" where
  "collectStoragePhaseCounts S w =
     (case svc_operator S of
        None \<Rightarrow> (([], [], [], None), w)
      | Some A \<Rightarrow> (case rs_List (op_Storages A) None w of
          (Inl e, w') \<Rightarrow> (([], [], [], Some e), w')
        | (Inr storages, w') \<Rightarrow>
            ((fold (\<lambda>s. count_up (normalizeMetricsPhase (sst_Phase (stor_Status s)))) storages [],
              fold (\<lambda>s. count_up (normalizeMetricsPhase (prepst_Phase (sst_Prepare (stor_Status s))))) storages [],
              fold (\<lambda>s. count_up (normalizeMetricsPhase (axst_Phase (sst_Accessor (stor_Status s))))) storages [], None), w')))"

section \<open>Claims and quotas\<close>

record RuntimeDRADeviceStatus =
  rdd_ClaimName :: string
  rdd_Namespace :: string
  rdd_Request :: string
  rdd_Driver :: string
  rdd_Pool :: string
  rdd_Device :: string
  rdd_ShareID :: string
  rdd_ConsumedCapacity :: "string smap"

record draInventorySnapshot =
  dis_ClaimCount :: int
  dis_AllocatedClaims :: int
  dis_AllocatedDevices :: int
  dis_ResourceSlices :: int
  dis_Devices :: "RuntimeDRADeviceStatus list"

record RuntimeQuotaStatus =
  rqs_Name :: string
  rqs_Namespace :: string
  rqs_Hard :: "string smap"
  rqs_Used :: "string smap"

definition quantityMapToStrings :: "'q k8s \<Rightarrow> 'q smap \<Rightarrow> string smap" where
  "quantityMapToStrings K vs = map (\<lambda>(name, qty). (name, qty_String K qty)) vs"

definition draQuantityMapToStrings :: "'q k8s \<Rightarrow> 'q smap \<Rightarrow> string smap" where
  "draQuantityMapToStrings K vs = map (\<lambda>(name, qty). (name, qty_String K qty)) vs"

definition claim_device :: "'q k8s \<Rightarrow> 'q ResourceClaim \<Rightarrow> 'q AllocationResult \<Rightarrow> RuntimeDRADeviceStatus" where
  "claim_device K claim r = \<lparr>rdd_ClaimName = meta_Name (rc_Meta claim), rdd_Namespace = meta_Namespace (rc_Meta claim),
     rdd_Request = ar_Request r, rdd_Driver = ar_Driver r, rdd_Pool = ar_Pool r, rdd_Device = ar_Device r,
     rdd_ShareID = (case ar_ShareID r of None \<Rightarrow> [] | Some shareID \<Rightarrow> shareID),
     rdd_ConsumedCapacity = draQuantityMapToStrings K (ar_ConsumedCapacity r)\<rparr>"

definition claim_step :: "'q k8s \<Rightarrow> 'q ResourceClaim \<Rightarrow> draInventorySnapshot \<Rightarrow> draInventorySnapshot" where
  "claim_step K claim out =
     (case rc_Allocation claim of
        None \<Rightarrow> out
      | Some allocated \<Rightarrow> out\<lparr>dis_AllocatedClaims := dis_AllocatedClaims out + 1,
          dis_AllocatedDevices := dis_AllocatedDevices out + int (length allocated),
          dis_Devices := dis_Devices out @ map (claim_device K claim) allocated\<rparr>)"

definition device_key :: "RuntimeDRADeviceStatus \<Rightarrow> string list" where
  "device_key d = [rdd_Namespace d, rdd_ClaimName d, rdd_Driver d, rdd_Pool d, rdd_Device d]"

definition collectDRAInventory :: "'q k8s \<Rightarrow> ('w, 'q, 'f) inventory_env \<Rightarrow> ('w, 'q) Service \<Rightarrow> ('w, draInventorySnapshot) call" where
  "collectDRAInventory K E S =
     (let empty = \<lparr>dis_ClaimCount = 0, dis_AllocatedClaims = 0, dis_AllocatedDevices = 0, dis_ResourceSlices = 0, dis_Devices = []\<rparr>
      in if svc_operator S = None then returnC empty
         else bindC (ie_ListClaims E DefaultInstanceNamespace) (\<lambda>claims.
           let out = fold (claim_step K) claims (empty\<lparr>dis_ClaimCount := int (length claims)\<rparr>)
           in bindC (ie_ListSlices E) (\<lambda>slices.
                returnC (out\<lparr>dis_ResourceSlices := int slices, dis_Devices := sort_key device_key (dis_Devices out)\<rparr>))))"

record RuntimeInventoryStatus =
  ris_KubernetesConnected :: bool
  ris_NodeCount :: int
  ris_ReadyNodeCount :: int
  ris_TotalGPUCapacity :: int
  ris_TotalGPUAllocatable :: int
  ris_DRAClaimCount :: int
  ris_DRAAllocatedClaims :: int
  ris_DRAAllocatedDevices :: int
  ris_DRAResourceSlices :: int
  ris_DRADevices :: "RuntimeDRADeviceStatus list"
  ris_GPUProducts :: "GPUProductHealth list"
  ris_ResourceQuotas :: "RuntimeQuotaStatus list"

definition quota_status :: "'q k8s \<Rightarrow> 'q ResourceQuota \<Rightarrow> RuntimeQuotaStatus" where
  "quota_status K quota = \<lparr>rqs_Name = rq_Name quota, rqs_Namespace = rq_Namespace quota,
     rqs_Hard = quantityMapToStrings K (rq_Hard quota), rqs_Used = quantityMapToStrings K (rq_Used quota)\<rparr>"

definition RuntimeInventory :: "'q k8s \<Rightarrow> ('w, 'q, 'f) inventory_env \<Rightarrow> ('w, 'q) Service \<Rightarrow> ('w, RuntimeInventoryStatus) call" where
  "RuntimeInventory K E S w =
     (case collectNodeInventory K E S w of
        ((_, Some e), w1) \<Rightarrow> (Inl e, w1)
      | ((nodes, None), w1) \<Rightarrow>
          bindC (collectDRAInventory K E S) (\<lambda>dra.
            let out = \<lparr>ris_KubernetesConnected = nis_Connected nodes, ris_NodeCount = nis_NodeCount nodes,
              ris_ReadyNodeCount = nis_ReadyNodeCount nodes, ris_TotalGPUCapacity = nis_TotalGPUCapacity nodes,
              ris_TotalGPUAllocatable = nis_TotalGPUAllocatable nodes, ris_DRAClaimCount = dis_ClaimCount dra,
              ris_DRAAllocatedClaims = dis_AllocatedClaims dra, ris_DRAAllocatedDevices = dis_AllocatedDevices dra,
              ris_DRAResourceSlices = dis_ResourceSlices dra, ris_DRADevices = [] @ dis_Devices dra,
              ris_GPUProducts = [] @ nis_GPUProducts nodes, ris_ResourceQuotas = []\<rparr>
            in case svc_kube S of
                 None \<Rightarrow> returnC out
               | Some kube \<Rightarrow> bindC (kube_ListQuotas kube DefaultInstanceNamespace) (\<lambda>quotas.
                   returnC (out\<lparr>ris_ResourceQuotas :=
                     sort_key (\<lambda>q. [rqs_Namespace q, rqs_Name q]) (map (quota_status K) quotas)\<rparr>))) w1)"

section \<open>Devices\<close>

record 'f RuntimeGPUDeviceMetrics =
  gdm_NodeName :: string
  gdm_GPU :: string
  gdm_UUID :: string
  gdm_Product :: string
  gdm_UsedMemoryMiB :: 'f
  gdm_FreeMemoryMiB :: 'f
  gdm_TotalMemoryMiB :: 'f
  gdm_UtilizationPercent :: 'f

record 'f nvidiaTelemetrySnapshot =
  nts_Connected :: bool
  nts_Error :: "error option"
  nts_DeviceCount :: int
  nts_TotalMemoryMiB :: 'f
  nts_UsedMemoryMiB :: 'f
  nts_FreeMemoryMiB :: 'f
  nts_AverageGPUUtilizationPercent :: 'f
  nts_Devices :: "'f RuntimeGPUDeviceMetrics list"

type_synonym device_label = "string \<times> string \<times> string \<times> string"
type_synonym 'f device_map = "(device_label \<times> 'f RuntimeGPUDeviceMetrics) list"

fun firstNonEmptyLabel :: "string smap \<Rightarrow> string list \<Rightarrow> string" where
  "firstNonEmptyLabel labels [] = []"
| "firstNonEmptyLabel labels (name # names) =
     (if TrimSpace (label_of labels name) \<noteq> [] then TrimSpace (label_of labels name) else firstNonEmptyLabel labels names)"

definition metric_labels :: "'f Metric \<Rightarrow> string smap" where
  "metric_labels metric = fold (\<lambda>(name, v). map_put name v) (metric_Labels metric) []"

definition gpuDeviceMetricKey :: "'f Metric \<Rightarrow> device_label" where
  "gpuDeviceMetricKey metric = (let labels = metric_labels metric in
     (firstNonEmptyLabel labels [''Hostname'', ''hostname'', ''node'', ''instance''],
      firstNonEmptyLabel labels [''gpu'', ''minor_number'', ''device''],
      firstNonEmptyLabel labels [''UUID'', ''uuid''],
      firstNonEmptyLabel labels [''modelName'', ''product'', ''gpu_product'']))"

definition new_device :: "'f floats \<Rightarrow> device_label \<Rightarrow> 'f RuntimeGPUDeviceMetrics" where
  "new_device F key = (case key of (node, gpu, uuid, product) \<Rightarrow> \<lparr>gdm_NodeName = node, gdm_GPU = gpu, gdm_UUID = uuid, gdm_Product = product,
     gdm_UsedMemoryMiB = fl_zero F, gdm_FreeMemoryMiB = fl_zero F, gdm_TotalMemoryMiB = fl_zero F, gdm_UtilizationPercent = fl_zero F\<rparr>)"

definition upsertGPUDeviceMetric :: "'f floats \<Rightarrow> 'f device_map \<Rightarrow> 'f Metric \<Rightarrow> 'f device_map" where
  "upsertGPUDeviceMetric F devices metric = (let key = gpuDeviceMetricKey metric in
     case map_of devices key of Some _ \<Rightarrow> devices | None \<Rightarrow> AList.update key (new_device F key) devices)"

definition gauge_step :: "'f floats \<Rightarrow> ('f \<Rightarrow> 'f RuntimeGPUDeviceMetrics \<Rightarrow> 'f RuntimeGPUDeviceMetrics) \<Rightarrow> 'f Metric \<Rightarrow> 'f device_map \<Rightarrow> 'f device_map" where
  "gauge_step F apply_to metric devices =
     (let devices = upsertGPUDeviceMetric F devices metric; key = gpuDeviceMetricKey metric
      in case metric_Gauge metric of
           None \<Rightarrow> devices
         | Some v \<Rightarrow> map (\<lambda>(k, d). (k, if k = key then apply_to v d else d)) devices)"

definition applyGaugeMetrics where
  "applyGaugeMetrics F family apply_to devices = (case family of None \<Rightarrow> devices | Some metrics \<Rightarrow> fold (gauge_step F apply_to) metrics devices)"

definition total_memory :: "'f floats \<Rightarrow> 'f RuntimeGPUDeviceMetrics \<Rightarrow> 'f RuntimeGPUDeviceMetrics" where
  "total_memory F d =
     (if fl_eq F (gdm_TotalMemoryMiB d) (fl_zero F) \<and> (fl_less F (fl_zero F) (gdm_UsedMemoryMiB d) \<or> fl_less F (fl_zero F) (gdm_FreeMemoryMiB d))
      then d\<lparr>gdm_TotalMemoryMiB := fl_add F (gdm_UsedMemoryMiB d) (gdm_FreeMemoryMiB d)\<rparr> else d)"

definition device_step :: "'f floats \<Rightarrow> 'f RuntimeGPUDeviceMetrics \<Rightarrow> 'f nvidiaTelemetrySnapshot \<Rightarrow> 'f nvidiaTelemetrySnapshot" where
  "device_step F d0 s = (let d = total_memory F d0 in
     s\<lparr>nts_DeviceCount := nts_DeviceCount s + 1, nts_TotalMemoryMiB := fl_add F (nts_TotalMemoryMiB s) (gdm_TotalMemoryMiB d),
       nts_UsedMemoryMiB := fl_add F (nts_UsedMemoryMiB s) (gdm_UsedMemoryMiB d),
       nts_FreeMemoryMiB := fl_add F (nts_FreeMemoryMiB s) (gdm_FreeMemoryMiB d),
       nts_AverageGPUUtilizationPercent := fl_add F (nts_AverageGPUUtilizationPercent s) (gdm_UtilizationPercent d),
       nts_Devices := nts_Devices s @ [d]\<rparr>)"

definition zero_telemetry :: "'f floats \<Rightarrow> 'f nvidiaTelemetrySnapshot" where
  "zero_telemetry F = \<lparr>nts_Connected = False, nts_Error = None, nts_DeviceCount = 0, nts_TotalMemoryMiB = fl_zero F, nts_UsedMemoryMiB = fl_zero F,
     nts_FreeMemoryMiB = fl_zero F, nts_AverageGPUUtilizationPercent = fl_zero F, nts_Devices = []\<rparr>"

definition scraped_devices :: "'f floats \<Rightarrow> 'f families \<Rightarrow> 'f device_map" where
  "scraped_devices F families =
     applyGaugeMetrics F (families ''DCGM_FI_DEV_GPU_UTIL'') (\<lambda>v d. d\<lparr>gdm_UtilizationPercent := v\<rparr>)
       (applyGaugeMetrics F (families ''DCGM_FI_DEV_FB_FREE'') (\<lambda>v d. d\<lparr>gdm_FreeMemoryMiB := v\<rparr>)
         (applyGaugeMetrics F (families ''DCGM_FI_DEV_FB_USED'') (\<lambda>v d. d\<lparr>gdm_UsedMemoryMiB := v\<rparr>) []))"

text \<open>The devices are visited in the order of a Go map: \<open>order\<close>. The order of devices with the same node and number is that of the visit
  (\<^verbatim>\<open>sort.Slice\<close> does not promise one).\<close>

definition collectNvidiaTelemetry :: "'f floats \<Rightarrow> ('f device_map \<Rightarrow> 'f device_map) \<Rightarrow> ('w, 'q, 'f) inventory_env
    \<Rightarrow> 'w \<Rightarrow> ('f nvidiaTelemetrySnapshot \<times> error option) \<times> 'w" where
  "collectNvidiaTelemetry F order E w =
     (if TrimSpace (ie_Endpoint E) = [] then ((zero_telemetry F, None), w)
      else case ie_NewRequest E (ie_Endpoint E) of
        Inl e \<Rightarrow> ((zero_telemetry F, Some e), w)
      | Inr _ \<Rightarrow> case ie_Get E (ie_Endpoint E) w of
        (Inl e, w') \<Rightarrow> ((zero_telemetry F\<lparr>nts_Error := Some e\<rparr>, Some e), w')
      | (Inr (status, parsed), w') \<Rightarrow>
          if status < 200 \<or> 300 \<le> status
          then let e = ErrorText (''scrape %s returned status %d'', [FS (ie_Endpoint E), FI status])
               in ((zero_telemetry F\<lparr>nts_Error := Some e\<rparr>, Some e), w')
          else case parsed of
            Inl e \<Rightarrow> ((zero_telemetry F\<lparr>nts_Error := Some e\<rparr>, Some e), w')
          | Inr families \<Rightarrow>
              let devices = scraped_devices F families;
                  connected = zero_telemetry F\<lparr>nts_Connected := True\<rparr>
              in if devices = [] then ((connected, None), w')
                 else let s = fold (device_step F) (map snd (order devices)) connected
                      in ((s\<lparr>nts_AverageGPUUtilizationPercent :=
                              (if nts_DeviceCount s > 0 then fl_div F (nts_AverageGPUUtilizationPercent s) (fl_of_int F (nts_DeviceCount s))
                               else nts_AverageGPUUtilizationPercent s),
                            nts_Devices := sort_key (\<lambda>d. [gdm_NodeName d, gdm_GPU d]) (nts_Devices s)\<rparr>, None), w'))"

section \<open>Health and metrics\<close>

record 'f HealthStatus =
  hs_StartedAt :: gotime
  hs_UptimeSeconds :: int
  hs_Nodes :: nodeInventorySnapshot
  hs_KubeError :: "error option"
  hs_ActiveUnitCount :: int
  hs_Telemetry :: "'f nvidiaTelemetrySnapshot"
  hs_NvidiaMetricsError :: "error option"

text \<open>The fields the answer copies from the two snapshots are those snapshots here.\<close>

definition Health :: "'q k8s \<Rightarrow> 'f floats \<Rightarrow> ('f device_map \<Rightarrow> 'f device_map) \<Rightarrow> ('w, 'q, 'f) inventory_env \<Rightarrow> ('w, 'q) Service
    \<Rightarrow> 'w \<Rightarrow> 'f HealthStatus \<times> 'w" where
  "Health K F order E S w =
     (case collectNodeInventory K E S w of ((nodes, kubeErr), w1) \<Rightarrow>
      (case collectNvidiaTelemetry F order E w1 of ((telemetry, nvidiaErr), w2) \<Rightarrow>
       (case collectRuntimeUnitPhaseCounts S w2 of ((_, activeUnits, err), w3) \<Rightarrow>
         (\<lparr>hs_StartedAt = ie_StartedAt E, hs_UptimeSeconds = (ie_Now E w - ie_StartedAt E) div second, hs_Nodes = nodes, hs_KubeError = kubeErr,
           hs_ActiveUnitCount = (if err = None then activeUnits else 0), hs_Telemetry = telemetry,
           hs_NvidiaMetricsError = (case nvidiaErr of Some e \<Rightarrow> Some e | None \<Rightarrow> nts_Error telemetry)\<rparr>, w3))))"

record 'f RuntimeMetricsSnapshot =
  rms_Nodes :: nodeInventorySnapshot
  rms_Telemetry :: "'f nvidiaTelemetrySnapshot"
  rms_UnitCounts :: "((string \<times> string) \<times> int) list"
  rms_StoragePhases :: "(string \<times> int) list"
  rms_StoragePrepare :: "(string \<times> int) list"
  rms_StorageAccessor :: "(string \<times> int) list"

definition joined :: "error option list \<Rightarrow> error option" where
  "joined es = fold (\<lambda>e acc. case e of None \<Rightarrow> acc | Some e \<Rightarrow> Some (JoinErr ((case acc of None \<Rightarrow> [] | Some a \<Rightarrow> [a]) @ [e]))) es None"

definition runtimeMetricsSnapshot :: "'q k8s \<Rightarrow> 'f floats \<Rightarrow> ('f device_map \<Rightarrow> 'f device_map) \<Rightarrow> ('w, 'q, 'f) inventory_env \<Rightarrow> ('w, 'q) Service
    \<Rightarrow> 'w \<Rightarrow> ('f RuntimeMetricsSnapshot \<times> error option) \<times> 'w" where
  "runtimeMetricsSnapshot K F order E S w =
     (case collectNodeInventory K E S w of ((nodes, e1), w1) \<Rightarrow>
      (case collectNvidiaTelemetry F order E w1 of ((telemetry, e2), w2) \<Rightarrow>
       (case collectRuntimeUnitPhaseCounts S w2 of ((counts, _, e3), w3) \<Rightarrow>
        (case collectStoragePhaseCounts S w3 of ((phases, prepare, accessor, e4), w4) \<Rightarrow>
          ((\<lparr>rms_Nodes = nodes, rms_Telemetry = telemetry, rms_UnitCounts = counts, rms_StoragePhases = phases, rms_StoragePrepare = prepare,
             rms_StorageAccessor = accessor\<rparr>, joined [e1, e2, e3, e4]), w4)))))"

section \<open>The counts are those of what was listed\<close>

lemma sum_update:
  fixes f :: "'v \<Rightarrow> int"
  assumes "distinct (map fst m)"
  shows "(\<Sum>x\<leftarrow>AList.update k v m. f (snd x)) = (\<Sum>x\<leftarrow>m. f (snd x)) + f v - (case map_of m k of None \<Rightarrow> 0 | Some old \<Rightarrow> f old)"
  using assms
proof (induction m)
  case (Cons x m)
  show ?case
  proof (cases "fst x = k")
    case True
    then show ?thesis by (cases x) simp
  next
    case False
    with Cons show ?thesis by (cases x) (simp split: option.splits)
  qed
qed simp

lemma distinct_fold_update:
  assumes "\<And>x m. distinct (map fst m) \<Longrightarrow> distinct (map fst (g x m))" "distinct (map fst m)"
  shows "distinct (map fst (fold g xs m))"
  using assms by (induction xs arbitrary: m) auto

lemma count_up_distinct: "distinct (map fst m) \<Longrightarrow> distinct (map fst (count_up k m))"
  by (simp add: count_up_def distinct_update)

lemma count_up_sum: "distinct (map fst m) \<Longrightarrow> (\<Sum>x\<leftarrow>count_up k m. snd x) = (\<Sum>x\<leftarrow>m. snd x) + 1"
  using sum_update [of m id k "(case map_of m k of None \<Rightarrow> 0 | Some n \<Rightarrow> n) + 1"]
  by (simp add: count_up_def split: option.splits)

lemma counts_sum: "distinct (map fst m) \<Longrightarrow> (\<Sum>x\<leftarrow>fold (\<lambda>y. count_up (key y)) ys m. snd x) = (\<Sum>x\<leftarrow>m. snd x) + int (length ys)"
  by (induction ys arbitrary: m) (auto simp: count_up_sum count_up_distinct)

abbreviation gpu_node :: "RuntimeNodeMetrics \<Rightarrow> bool" where
  "gpu_node n \<equiv> 0 < rnm_GPUCapacity n \<or> 0 < rnm_GPUAllocatable n"

lemma product_add_sums:
  assumes "distinct (map fst index)"
  shows "distinct (map fst (product_add n index))"
    and "(\<Sum>x\<leftarrow>product_add n index. gph_Capacity (snd x)) = (\<Sum>x\<leftarrow>index. gph_Capacity (snd x)) + (if gpu_node n then rnm_GPUCapacity n else 0)"
    and "(\<Sum>x\<leftarrow>product_add n index. gph_Allocatable (snd x))
      = (\<Sum>x\<leftarrow>index. gph_Allocatable (snd x)) + (if gpu_node n then rnm_GPUAllocatable n else 0)"
    and "(\<Sum>x\<leftarrow>product_add n index. gph_NodeCount (snd x)) = (\<Sum>x\<leftarrow>index. gph_NodeCount (snd x)) + (if gpu_node n then 1 else 0)"
  using assms by (auto simp: product_add_def Let_def map_put_def distinct_update sum_update split: option.splits)

lemma sum_zero: "(\<And>x. x \<in> set xs \<Longrightarrow> 0 \<le> f x \<and> (\<not> P x \<longrightarrow> f x = (0::int))) \<Longrightarrow> (\<Sum>x\<leftarrow>xs. if P x then f x else 0) = (\<Sum>x\<leftarrow>xs. f x)"
  by (induction xs) auto

text \<open>The state of the loop over the nodes.\<close>

lemma node_fold:
  assumes "distinct (map fst index)" "fold (node_step K) nodes (s, index) = (s', index')"
  shows "distinct (map fst index') \<and> nis_Connected s' = nis_Connected s \<and> nis_NodeCount s' = nis_NodeCount s
    \<and> nis_Nodes s' = nis_Nodes s @ map (node_metrics K) nodes
    \<and> nis_ReadyNodeCount s' = nis_ReadyNodeCount s + int (length (filter isNodeReady nodes))
    \<and> nis_TotalGPUCapacity s' = nis_TotalGPUCapacity s + (\<Sum>n\<leftarrow>nodes. rnm_GPUCapacity (node_metrics K n))
    \<and> nis_TotalGPUAllocatable s' = nis_TotalGPUAllocatable s + (\<Sum>n\<leftarrow>nodes. rnm_GPUAllocatable (node_metrics K n))
    \<and> (\<Sum>x\<leftarrow>index'. gph_Capacity (snd x)) = (\<Sum>x\<leftarrow>index. gph_Capacity (snd x))
      + (\<Sum>n\<leftarrow>nodes. if gpu_node (node_metrics K n) then rnm_GPUCapacity (node_metrics K n) else 0)
    \<and> (\<Sum>x\<leftarrow>index'. gph_Allocatable (snd x)) = (\<Sum>x\<leftarrow>index. gph_Allocatable (snd x))
      + (\<Sum>n\<leftarrow>nodes. if gpu_node (node_metrics K n) then rnm_GPUAllocatable (node_metrics K n) else 0)"
  using assms
proof (induction nodes arbitrary: s index)
  case (Cons n nodes)
  let ?s = "fst (node_step K n (s, index))" and ?i = "product_add (node_metrics K n) index"
  have step: "node_step K n (s, index) = (?s, ?i)" by (simp add: node_step_def Let_def)
  have ready: "rnm_Ready (node_metrics K n) = isNodeReady n" by (simp add: node_metrics_def)
  have "fold (node_step K) nodes (?s, ?i) = (s', index')" using Cons.prems(2) step by simp
  from Cons.IH [OF product_add_sums(1) [OF Cons.prems(1)] this] show ?case
    by (simp add: product_add_sums [OF Cons.prems(1)] ready) (simp add: node_step_def Let_def ready)
qed simp

text \<open>The inventory adds up: it has every listed node, counts the nodes and the ready ones, its capacity and its allocatable devices
  are the sums over the nodes, and the products, one entry each, account for all of them.\<close>

theorem inventory_adds_up:
  assumes "svc_kube S \<noteq> None" "ie_ListNodes E w = (Inr nodes, w')"
    and "\<forall>n \<in> set nodes. 0 \<le> gpuQuantity K (node_Capacity n) \<and> 0 \<le> gpuQuantity K (node_Allocatable n)"
  shows "\<exists>s. collectNodeInventory K E S w = ((s, None), w')
    \<and> nis_NodeCount s = int (length nodes) \<and> nis_ReadyNodeCount s = int (length (filter isNodeReady nodes))
    \<and> mset (nis_Nodes s) = mset (map (node_metrics K) nodes)
    \<and> nis_TotalGPUCapacity s = (\<Sum>n\<leftarrow>nodes. gpuQuantity K (node_Capacity n))
    \<and> nis_TotalGPUAllocatable s = (\<Sum>n\<leftarrow>nodes. gpuQuantity K (node_Allocatable n))
    \<and> (\<Sum>p\<leftarrow>nis_GPUProducts s. gph_Capacity p) = nis_TotalGPUCapacity s
    \<and> (\<Sum>p\<leftarrow>nis_GPUProducts s. gph_Allocatable p) = nis_TotalGPUAllocatable s"
proof -
  let ?s0 = "zero_inventory\<lparr>nis_Connected := True, nis_NodeCount := int (length nodes)\<rparr>"
  obtain s index where f: "fold (node_step K) nodes (?s0, []) = (s, index)" by fastforce
  obtain k where k: "svc_kube S = Some k" using assms(1) by blast
  let ?s = "s\<lparr>nis_GPUProducts := map snd (sort_key fst index), nis_Nodes := sort_key rnm_Name (nis_Nodes s)\<rparr>"
  note l = node_fold [OF _ f]
  have m: "rnm_GPUCapacity (node_metrics K n) = gpuQuantity K (node_Capacity n)"
      "rnm_GPUAllocatable (node_metrics K n) = gpuQuantity K (node_Allocatable n)" for n by (simp_all add: node_metrics_def)
  have sums: "(\<Sum>n\<leftarrow>nodes. if gpu_node (node_metrics K n) then rnm_GPUCapacity (node_metrics K n) else 0) = (\<Sum>n\<leftarrow>nodes. gpuQuantity K (node_Capacity n))"
      "(\<Sum>n\<leftarrow>nodes. if gpu_node (node_metrics K n) then rnm_GPUAllocatable (node_metrics K n) else 0) = (\<Sum>n\<leftarrow>nodes. gpuQuantity K (node_Allocatable n))"
    using assms(3) unfolding m by (intro sum_zero; fastforce)+
  have sorted: "(\<Sum>p\<leftarrow>map snd (sort_key fst index). g p) = (\<Sum>x\<leftarrow>index. g (snd x))" for g :: "GPUProductHealth \<Rightarrow> int"
    by (simp add: comp_def flip: sum_mset_sum_list)
  have "collectNodeInventory K E S w = ((?s, None), w')" using assms(2) k f by (simp add: collectNodeInventory_def)
  then show ?thesis using l sums sorted [of gph_Capacity] sorted [of gph_Allocatable]
    by (intro exI [of _ ?s]) (simp add: zero_inventory_def m)
qed

text \<open>Every unit and every storage is counted under one phase.\<close>

lemma units_counted:
  assumes "svc_operator S = Some A" "rs_List (op_Units A) None w = (Inr units, w')"
  shows "\<exists>counts. collectRuntimeUnitPhaseCounts S w = ((counts, int (length units), None), w') \<and> (\<Sum>c\<leftarrow>counts. snd c) = int (length units)"
  using assms counts_sum [of "[]" _ units] by (simp add: collectRuntimeUnitPhaseCounts_def)

lemma storages_counted:
  assumes "svc_operator S = Some A" "rs_List (op_Storages A) None w = (Inr storages, w')"
  shows "\<exists>phases prepare accessor. collectStoragePhaseCounts S w = ((phases, prepare, accessor, None), w')
    \<and> (\<Sum>c\<leftarrow>phases. snd c) = int (length storages) \<and> (\<Sum>c\<leftarrow>prepare. snd c) = int (length storages)
    \<and> (\<Sum>c\<leftarrow>accessor. snd c) = int (length storages)"
  using assms counts_sum [of "[]" "\<lambda>s. normalizeMetricsPhase (sst_Phase (stor_Status s))" storages]
    counts_sum [of "[]" "\<lambda>s. normalizeMetricsPhase (prepst_Phase (sst_Prepare (stor_Status s)))" storages]
    counts_sum [of "[]" "\<lambda>s. normalizeMetricsPhase (axst_Phase (sst_Accessor (stor_Status s)))" storages]
  by (simp add: collectStoragePhaseCounts_def)

text \<open>The devices of the claims are all there.\<close>

lemma claim_fold:
  "fold (claim_step K) claims s = s\<lparr>
     dis_AllocatedClaims := dis_AllocatedClaims s + int (length (filter (\<lambda>c. rc_Allocation c \<noteq> None) claims)),
     dis_AllocatedDevices := dis_AllocatedDevices s + (\<Sum>c\<leftarrow>claims. int (length (case rc_Allocation c of None \<Rightarrow> [] | Some rs \<Rightarrow> rs))),
     dis_Devices := dis_Devices s @ concat (map (\<lambda>c. map (claim_device K c) (case rc_Allocation c of None \<Rightarrow> [] | Some rs \<Rightarrow> rs)) claims)\<rparr>"
  by (induction claims arbitrary: s) (auto simp: claim_step_def split: option.splits)

section \<open>A cluster\<close>

definition sample_nodes :: "int Node list" where
  "sample_nodes = [
     \<lparr>node_Name = ''b'', node_Labels = [(NVIDIAGPUProductLabelKey, ''A100'')], node_Conditions = [(''Ready'', ''True'')],
       node_Capacity = [(NVIDIAGPUResourceName, 8)], node_Allocatable = [(NVIDIAGPUResourceName, 6)]\<rparr>,
     \<lparr>node_Name = ''a'', node_Labels = [], node_Conditions = [(''Ready'', ''False'')], node_Capacity = [], node_Allocatable = []\<rparr>]"

definition node_env :: "(mem_world, int, int) inventory_env" where
  "node_env = \<lparr>ie_ListNodes = returnC sample_nodes, ie_ListClaims = (\<lambda>_. returnC []), ie_ListSlices = returnC 0, ie_Endpoint = [],
     ie_NewRequest = (\<lambda>_. Inr ()), ie_Get = (\<lambda>_. failC Canceled), ie_StartedAt = 0, ie_Now = (\<lambda>_. 0)\<rparr>"

abbreviation no_objects :: mem_world where
  "no_objects \<equiv> \<lparr>mw_Units = [], mw_Storages = [], mw_Clock = 0\<rparr>"

definition inventory_service :: "(mem_world, int) Service" where
  "inventory_service = \<lparr>svc_kube = Some \<lparr>kube_ListQuotas = (\<lambda>_. returnC [])\<rparr>, svc_operator = Some mem_operator, svc_packageCatalog = []\<rparr>"

theorem inventory_adds_up_witness:
  "\<exists>s. collectNodeInventory ref_k8s node_env inventory_service no_objects = ((s, None), no_objects)
    \<and> nis_NodeCount s = 2 \<and> nis_ReadyNodeCount s = 1 \<and> nis_TotalGPUCapacity s = 8 \<and> (\<Sum>p\<leftarrow>nis_GPUProducts s. gph_Allocatable p) = 6"
proof -
  have "svc_kube inventory_service \<noteq> None" by (simp add: inventory_service_def)
  moreover have "ie_ListNodes node_env no_objects = (Inr sample_nodes, no_objects)" by (simp add: node_env_def)
  moreover have "\<forall>n \<in> set sample_nodes. 0 \<le> gpuQuantity ref_k8s (node_Capacity n) \<and> 0 \<le> gpuQuantity ref_k8s (node_Allocatable n)"
    by (simp add: sample_nodes_def gpuQuantity_def ref_k8s_def)
  ultimately show ?thesis using inventory_adds_up [of inventory_service node_env no_objects sample_nodes no_objects ref_k8s]
    by (auto simp: sample_nodes_def isNodeReady_def gpuQuantity_def ref_k8s_def)
qed

end
