(* ===== verification/Api_Server.thy ===== *)
theory Api_Server
  imports Service_Store Service_Serverless Service_Inventory
begin

text \<open>
  The HTTP surface of the runtime (\<^verbatim>\<open>pkg/api/server.go\<close>): one definition per handler, over the runtime service. What
  \<^verbatim>\<open>echo.Context.Bind\<close> made of the body of a request is an argument; an answer is a status with the data or with the code and the
  error of the envelope. The theorems say which answers leave the cluster unchanged, that a request the contract refuses is answered
  with 400, and that a repeated submission of an invocation is queued once.
\<close>

section \<open>Answers\<close>

datatype 'd http_reply = Data int 'd | Failure int string error | NoContent int

fun reply_status :: "'d http_reply \<Rightarrow> int" where
  "reply_status (Data s _) = s"
| "reply_status (Failure s _ _) = s"
| "reply_status (NoContent s) = s"

definition is_validation :: "error \<Rightarrow> bool" where "is_validation e = (case e of ValidationError _ \<Rightarrow> True | _ \<Rightarrow> False)"
definition is_conflict :: "error \<Rightarrow> bool" where "is_conflict e = (case e of ConflictError _ \<Rightarrow> True | _ \<Rightarrow> False)"
definition is_capacity :: "error \<Rightarrow> bool" where "is_capacity e = (case e of CapacityError _ \<Rightarrow> True | _ \<Rightarrow> False)"
definition is_missing :: "error \<Rightarrow> bool" where "is_missing e = (case e of NotFoundError _ \<Rightarrow> True | _ \<Rightarrow> False)"
definition is_unavailable :: "error \<Rightarrow> bool" where "is_unavailable e = (case e of UnavailableError _ \<Rightarrow> True | _ \<Rightarrow> False)"

definition writeError :: "int \<Rightarrow> string \<Rightarrow> error \<Rightarrow> 'd http_reply" where
  "writeError status code e = Failure status code e"

definition writeData :: "int \<Rightarrow> 'd \<Rightarrow> 'd http_reply" where
  "writeData status d = Data status d"

definition writeServiceError :: "error \<Rightarrow> string \<Rightarrow> 'd http_reply" where
  "writeServiceError e fallbackCode =
     (if err_any is_validation e then writeError 400 ''invalid_request'' e
      else if err_any is_conflict e then writeError 409 ''operation_conflict'' e
      else if err_any is_capacity e then writeError 409 ''insufficient_capacity'' e
      else if err_any is_missing e then writeError 404 fallbackCode e
      else if err_any is_unavailable e then writeError 503 ''service_unavailable'' e
      else writeError 500 fallbackCode e)"

text \<open>A handler answers; it never fails.\<close>

type_synonym ('w, 'd) handler = "'w \<Rightarrow> 'd http_reply \<times> 'w"

definition respond :: "string \<Rightarrow> ('a \<Rightarrow> 'd http_reply) \<Rightarrow> ('w, 'a) call \<Rightarrow> ('w, 'd) handler" where
  "respond fallbackCode f m w = (case m w of
     (Inl e, w') \<Rightarrow> (writeServiceError e fallbackCode, w')
   | (Inr x, w') \<Rightarrow> (f x, w'))"

definition bound :: "'r res \<Rightarrow> ('r \<Rightarrow> ('w, 'd) handler) \<Rightarrow> ('w, 'd) handler" where
  "bound body f w = (case body of Inl e \<Rightarrow> (writeError 400 ''invalid_request'' e, w) | Inr req \<Rightarrow> f req w)"

section \<open>Storages\<close>

definition handleListGPUStorages :: "'q k8s \<Rightarrow> ('w, 'q) Service \<Rightarrow> ('w, GPUStorageRuntime list) handler" where
  "handleListGPUStorages K S = respond ''list_gpustorages_failed'' (writeData 200) (ListGPUStorages K S [])"

definition handleCreateGPUStorage :: "'q k8s \<Rightarrow> ('w, 'q) Service \<Rightarrow> CreateGPUStorageRequest res \<Rightarrow> ('w, GPUStorageRuntime) handler" where
  "handleCreateGPUStorage K S body =
     bound body (\<lambda>req. respond ''create_gpustorage_failed'' (writeData 201) (CreateGPUStorage K S req))"

definition handleGetGPUStorage :: "'q k8s \<Rightarrow> ('w, 'q) Service \<Rightarrow> string \<Rightarrow> ('w, GPUStorageRuntime) handler" where
  "handleGetGPUStorage K S name = respond ''gpustorage_not_found'' (writeData 200) (GetGPUStorage K S [] name)"

definition handleUpdateGPUStorage :: "'q k8s \<Rightarrow> ('w, 'q) Service \<Rightarrow> string \<Rightarrow> UpdateGPUStorageRequest res \<Rightarrow> ('w, GPUStorageRuntime) handler" where
  "handleUpdateGPUStorage K S name body =
     bound body (\<lambda>req. respond ''update_gpustorage_failed'' (writeData 200) (UpdateGPUStorage K S [] name req))"

definition handleRecoverGPUStorage :: "'q k8s \<Rightarrow> ('w, 'q) Service \<Rightarrow> string \<Rightarrow> string \<Rightarrow> ('w, GPUStorageRuntime) handler" where
  "handleRecoverGPUStorage K S nonce name = respond ''recover_gpustorage_failed'' (writeData 200) (RecoverGPUStorage K S nonce [] name)"

definition handleDeleteGPUStorage :: "'q k8s \<Rightarrow> ('w, 'q) Service \<Rightarrow> string \<Rightarrow> ('w, unit) handler" where
  "handleDeleteGPUStorage K S name = respond ''delete_gpustorage_failed'' (\<lambda>_. NoContent 204) (DeleteGPUStorage K S [] name)"

section \<open>Units\<close>

definition handleListGPUUnits :: "'q k8s \<Rightarrow> ('w, 'q) Service \<Rightarrow> ('w, GPUUnitRuntime list) handler" where
  "handleListGPUUnits K S = respond ''list_gpuunits_failed'' (writeData 200) (ListGPUUnits K S [])"

definition handleCreateGPUUnit :: "'q k8s \<Rightarrow> (CreateGPUUnitRequest \<Rightarrow> string res) \<Rightarrow> ('w, 'q) Service \<Rightarrow> CreateGPUUnitRequest res
    \<Rightarrow> ('w, GPUUnitRuntime) handler" where
  "handleCreateGPUUnit K hash S body =
     bound body (\<lambda>req. respond ''create_gpuunit_failed''
       (\<lambda>(inst, created). if created then writeData 201 inst else writeData 200 inst) (CreateGPUUnit K hash S req))"

definition handleGetGPUUnit :: "'q k8s \<Rightarrow> ('w, 'q) Service \<Rightarrow> string \<Rightarrow> ('w, GPUUnitRuntime) handler" where
  "handleGetGPUUnit K S name = respond ''gpuunit_not_found'' (writeData 200) (GetGPUUnit K S [] name)"

definition handleUpdateGPUUnit :: "'q k8s \<Rightarrow> ('w, 'q) Service \<Rightarrow> string \<Rightarrow> UpdateGPUUnitRequest res \<Rightarrow> ('w, GPUUnitRuntime) handler" where
  "handleUpdateGPUUnit K S param body w =
     (case NormalizeGPUUnitObjectKey K [] param of
        Inl e \<Rightarrow> (writeServiceError e ''invalid_request'', w)
      | Inr (namespace, name) \<Rightarrow>
          bound body (\<lambda>req w. case NormalizeUpdateGPUUnitRequest K name namespace req of
            Inl e \<Rightarrow> (writeServiceError e ''invalid_request'', w)
          | Inr req \<Rightarrow> respond ''update_gpuunit_failed'' (writeData 200) (UpdateGPUUnit K S namespace name req) w) w)"

definition handleDeleteGPUUnit :: "'q k8s \<Rightarrow> ('w, 'q) Service \<Rightarrow> string \<Rightarrow> ('w, unit) handler" where
  "handleDeleteGPUUnit K S name = respond ''delete_gpuunit_failed'' (\<lambda>_. NoContent 204) (DeleteGPUUnit K S [] name)"

section \<open>Invocations\<close>

datatype invocation_answer = SyncResult ServerlessInvocationResult | Queued ServerlessInvocationAck

definition handleCreateServerlessInvocation :: "'w InvocationPublisher option \<Rightarrow> nat list res \<Rightarrow> CreateServerlessInvocationRequest res
    \<Rightarrow> ('w, invocation_answer) handler" where
  "handleCreateServerlessInvocation publisher rnd body =
     bound body (\<lambda>req w. case NormalizeCreateServerlessInvocationRequest rnd req of
       Inl e \<Rightarrow> (writeServiceError e ''invalid_request'', w)
     | Inr req \<Rightarrow>
         if sir_Mode req = InvocationModeSync
         then respond ''invoke_serverless_sync_failed'' (\<lambda>r. writeData 200 (SyncResult r)) (InvokeServerlessSync publisher req) w
         else respond ''enqueue_serverless_invocation_failed''
                (\<lambda>(ack, accepted). if accepted then writeData 202 (Queued ack) else writeData 200 (Queued ack))
                (CreateServerlessInvocation publisher req) w)"

section \<open>Inventory and health\<close>

definition handleRuntimeInventory :: "'q k8s \<Rightarrow> ('w, 'q, 'f) inventory_env \<Rightarrow> ('w, 'q) Service \<Rightarrow> ('w, RuntimeInventoryStatus) handler" where
  "handleRuntimeInventory K E S = respond ''runtime_inventory_failed'' (writeData 200) (RuntimeInventory K E S)"

text \<open>\<^verbatim>\<open>Health\<close> reports the failures of its parts in its answer and returns no error.\<close>

definition handleHealth :: "'q k8s \<Rightarrow> 'f floats \<Rightarrow> ('f device_map \<Rightarrow> 'f device_map) \<Rightarrow> ('w, 'q, 'f) inventory_env \<Rightarrow> ('w, 'q) Service
    \<Rightarrow> ('w, 'f HealthStatus) handler" where
  "handleHealth K F order E S w = (case Health K F order E S w of (health, w') \<Rightarrow> (writeData 200 health, w'))"

section \<open>What the contract refuses is a bad request\<close>

text \<open>A result whose error, if it is one, is a validation error.\<close>

definition validating :: "'a res \<Rightarrow> bool" where
  "validating r = (case r of Inl e \<Rightarrow> err_any is_validation e | Inr _ \<Rightarrow> True)"

lemma validating_basic [simp, intro]: "validating (Inr x)" "validating (Inl (ValidationError m))" "validating (mapErr as_validation r)"
  by (auto simp: validating_def is_validation_def as_validation_def mapErr_def split: sum.splits)

lemma validating_andThen [intro]: "validating r \<Longrightarrow> (\<And>x. validating (f x)) \<Longrightarrow> validating (andThen r f)"
  by (cases r) (simp_all add: validating_def)

lemma validating_if [intro]: "validating a \<Longrightarrow> validating b \<Longrightarrow> validating (if c then a else b)"
  by simp

lemma validating_Let [intro]: "(\<And>x. validating (f x)) \<Longrightarrow> validating (let x = v in f x)"
  by (simp add: Let_def)

lemma validating_cases [intro]:
  "(\<And>a b. validating (g a b)) \<Longrightarrow> validating (case p of (a, b) \<Rightarrow> g a b)"
  "validating n \<Longrightarrow> (\<And>x. validating (s x)) \<Longrightarrow> validating (case v of None \<Rightarrow> n | Some x \<Rightarrow> s x)"
  "(\<And>x. validating (l x)) \<Longrightarrow> (\<And>y. validating (r y)) \<Longrightarrow> validating (case e of Inl x \<Rightarrow> l x | Inr y \<Rightarrow> r y)"
  "validating n \<Longrightarrow> (\<And>x t. validating (c x t)) \<Longrightarrow> validating (case xs of [] \<Rightarrow> n | x # t \<Rightarrow> c x t)"
  by (auto split: prod.splits option.splits sum.splits list.splits)

lemma validating_loops [intro]:
  "(\<And>x s. validating (f x s)) \<Longrightarrow> validating (foldRes f xs s)"
  "(\<And>x. validating (g x)) \<Longrightarrow> validating (checkAll g xs)"
  "(\<And>x. validating (h x)) \<Longrightarrow> validating (normalize_if_set h v)"
proof -
  show "validating (foldRes f xs s)" if "\<And>x s. validating (f x s)" using that by (induction xs arbitrary: s) auto
  show "validating (checkAll g xs)" if "\<And>x. validating (g x)" using that by (induction xs) auto
  show "validating (normalize_if_set h v)" if "\<And>x. validating (h x)" using that by (auto simp: normalize_if_set_def)
qed

lemmas validating_intros = validating_basic validating_andThen validating_if validating_Let validating_cases validating_loops

lemma normalize_envs_validating: "validating (normalize_envs K seen es)"
  by (induction K seen es rule: normalize_envs.induct) (auto simp: Let_def)

lemma normalize_ports_validating: "validating (normalize_ports K ns ms ps)"
  by (induction K ns ms ps rule: normalize_ports.induct) (auto simp: Let_def)

lemma mount_loop_validating: "validating (mount_loop K ns ps ms)"
  by (induction K ns ps ms rule: mount_loop.induct) (auto simp: Let_def)

lemma parts_validating:
  "validating (NormalizeGPUUnitObjectKey K ns n)" "validating (NormalizeGPUUnitTemplate K t)" "validating (NormalizeGPUUnitAccess a ports)"
  "validating (NormalizeDRAAllocation K u al)" "validating (NormalizeGPUUnitStorageMounts K ms)" "validating (expand_step c q)"
  unfolding NormalizeGPUUnitObjectKey_def NormalizeGPUUnitInstanceNamespace_def NormalizeGPUUnitTemplate_def NormalizeGPUUnitAccess_def
    NormalizeDRAAllocation_def NormalizeGPUUnitStorageMounts_def check_capacity_def check_selector_def expand_step_def ExpandRuntimePackage_def
    rejectPackageStringOverride_def
  by (intro validating_intros normalize_envs_validating normalize_ports_validating mount_loop_validating)+

lemma ssh_validating: "validating (NormalizeGPUUnitSSH K u ns s)"
  unfolding NormalizeGPUUnitSSH_def check_port_def by (intro validating_intros)

lemma serverless_validating: "validating (NormalizeGPUUnitServerless s)"
  unfolding NormalizeGPUUnitServerless_def NormalizeGPUUnitServerlessFramework_def by (intro validating_intros)

lemma create_validating: "validating (NormalizeCreateGPUUnitRequestWithCatalog K q c)"
  unfolding NormalizeCreateGPUUnitRequestWithCatalog_def
  by (intro validating_intros parts_validating ssh_validating serverless_validating)

lemma update_validating: "validating (NormalizeUpdateGPUUnitRequest K n ns q)"
  unfolding NormalizeUpdateGPUUnitRequest_def
  by (intro validating_intros parts_validating ssh_validating serverless_validating)

lemma invocation_validating: "validating (NormalizeCreateServerlessInvocationRequest rnd q)"
  unfolding NormalizeCreateServerlessInvocationRequest_def trim_entry_def by (intro validating_intros)
section \<open>Answers and their effects\<close>

lemma service_error_status: "reply_status (writeServiceError e code) \<in> {400, 404, 409, 500, 503}"
  by (simp add: writeServiceError_def writeError_def)

lemma service_error_no_success [simp]:
  "reply_status (writeServiceError e code) \<noteq> 200" "reply_status (writeServiceError e code) \<noteq> 201"
  "reply_status (writeServiceError e code) \<noteq> 202" "reply_status (writeServiceError e code) \<noteq> 204"
  by (simp_all add: writeServiceError_def writeError_def)

lemma validation_reply: "err_any is_validation e \<Longrightarrow> writeServiceError e code = Failure 400 ''invalid_request'' e"
  by (simp add: writeServiceError_def writeError_def)

context runtime_backend
begin

lemma UpdateGPUUnit_error_keeps:
  assumes "UpdateGPUUnit K S ns n q w = (Inl e, w')"
  shows "state w' = state w"
proof -
  have keep: "state w1 = state w" if "getActiveGPUUnit K A ns n w = (r, w1)" for r w1
    using keepsD [OF checks_keep(6) that] .
  have mounts: "state w2 = state w1" if "update_mounts A i req next w1 = (r, w2)" for i req "next" w1 r w2
    using keepsD [OF update_mounts_keeps that] .
  have upd: "state w2 = state w1" if "rs_Update (op_Units A) u w1 = (Inl e, w2)" for u w1 w2 e
    using units.write_err [of u w1 e w2] keepsD [OF units.other_kept(4) that] that by simp
  show ?thesis using assms operator
    by (auto simp: UpdateGPUUnit_def bindC_Inl_iff dest!: keep mounts upd split: if_splits)
qed

lemma create_unit_answer:
  assumes "handleCreateGPUUnit K hash S body w = (r, w')"
  shows "if reply_status r = 201 then (\<exists>u. mset (us w') = add_mset u (mset (us w)) \<and> ss w' = ss w
        \<and> r = Data 201 (gpuUnitRuntimeFromObject K u)) else state w' = state w"
proof (cases body)
  case (Inl e)
  with assms show ?thesis by (auto simp: handleCreateGPUUnit_def bound_def writeError_def)
next
  case (Inr q)
  obtain a v where a: "CreateGPUUnit K hash S q w = (a, v)" by fastforce
  show ?thesis
  proof (cases a)
    case (Inl e)
    with Inr a assms have r: "r = writeServiceError e ''create_gpuunit_failed''" "w' = v"
      by (auto simp: handleCreateGPUUnit_def bound_def respond_def)
    moreover have "state v = state w" using CreateGPUUnit_cases [OF a] Inl by auto
    ultimately show ?thesis by simp
  next
    case ok: (Inr x)
    then show ?thesis using CreateGPUUnit_cases [OF a] Inr a assms
      by (cases x) (auto simp: handleCreateGPUUnit_def bound_def respond_def writeData_def)
  qed
qed

lemma update_unit_answer:
  assumes "handleUpdateGPUUnit K S name body w = (r, w')" "reply_status r \<noteq> 200"
  shows "state w' = state w"
proof -
  have "state v = state w" if "UpdateGPUUnit K S ns n q w = (Inl e, v)" for ns n q e v using UpdateGPUUnit_error_keeps [OF that] .
  then show ?thesis using assms
    by (auto simp: handleUpdateGPUUnit_def bound_def respond_def writeData_def split: sum.splits prod.splits)
qed

lemma delete_unit_answer:
  assumes "handleDeleteGPUUnit K S name w = (r, w')"
  shows "ss w' = ss w \<and> (if reply_status r = 204 then (DefaultInstanceNamespace, ToLower (TrimSpace name)) \<notin> obj_key unit_Meta ` set (us w')
     else us w' = us w)"
proof -
  obtain a v where a: "DeleteGPUUnit K S [] name w = (a, v)" by fastforce
  show ?thesis
  proof (cases a)
    case (Inl e)
    then show ?thesis using assms a DeleteGPUUnit_cases [OF a]
      by (auto simp: handleDeleteGPUUnit_def respond_def)
  next
    case (Inr u)
    let ?k = "(DefaultInstanceNamespace, ToLower (TrimSpace name))"
    have "ss v = ss w" "mset (us v) = mset (filter (\<lambda>u. obj_key unit_Meta u \<noteq> ?k) (us w))"
      using DeleteGPUUnit_cases [OF a] Inr by auto
    from this(1) mset_eq_setD [OF this(2)] have "ss v = ss w" "?k \<notin> obj_key unit_Meta ` set (us v)" by auto
    then show ?thesis using assms a Inr by (auto simp: handleDeleteGPUUnit_def respond_def)
  qed
qed

end

lemma create_refused: "fst (handleCreateGPUUnit ref_k8s mem_hash mem_service (Inr (ref_request\<lparr>cr_Image := []\<rparr>)) mem_data)
    = Failure 400 ''invalid_request'' (ValidationError (msg ''image is required''))"
  by code_simp



section \<open>A repeated submission\<close>

lemma normalized_invocation_id:
  assumes "NormalizeCreateServerlessInvocationRequest rnd q = Inr r" "TrimSpace (sir_InvocationID q) \<noteq> []"
  shows "sir_InvocationID r = TrimSpace (sir_InvocationID q)" "NormalizeCreateServerlessInvocationRequest rnd' q = Inr r"
  using assms by (auto simp: NormalizeCreateServerlessInvocationRequest_def result_simps split: if_splits)

context dedup_stream
begin

lemma submit_effect:
  assumes "NormalizeCreateServerlessInvocationRequest rnd q = Inr req" "sir_Mode req \<noteq> InvocationModeSync"
    and "handleCreateServerlessInvocation (Some (nats_publisher cfg N)) rnd (Inr q) w = (r, w')"
  shows "if reply_status r = 202
    then sir_InvocationID req \<notin> pub_id ` set (stream w) \<and> stream w' = stream w @ [stored_message cfg (invocation_message req)]
    else if reply_status r = 200 then sir_InvocationID req \<in> pub_id ` set (stream w) \<and> stream w' = stream w
    else stream w' = stream w \<or> sir_InvocationID req \<notin> pub_id ` set (stream w)"
proof -
  obtain a v where a: "nats_publish cfg N (invocation_message req) w = (a, v)" by fastforce
  have id: "inv_InvocationID (invocation_message req) = sir_InvocationID req" by (simp add: invocation_message_def)
  note c = publish_cases [OF a]
  show ?thesis
  proof (cases a)
    case (Inl e)
    then have "reply_status r = reply_status (writeServiceError e ''enqueue_serverless_invocation_failed'' :: invocation_answer http_reply)" "w' = v"
      using assms a by (auto simp: handleCreateServerlessInvocation_def bound_def respond_def CreateServerlessInvocation_def nats_publisher_def
          bindC_def)
    with c Inl id show ?thesis by auto
  next
    case (Inr ack)
    then have "reply_status r = (if ack_Duplicate ack then 200 else 202)" "w' = v"
      using assms a by (auto simp: handleCreateServerlessInvocation_def bound_def respond_def CreateServerlessInvocation_def nats_publisher_def
          bindC_def writeData_def)
    with c Inr id show ?thesis by auto
  qed
qed

end


definition sample_submission :: CreateServerlessInvocationRequest where
  "sample_submission = \<lparr>sir_InvocationID = ''inv-1'', sir_ServerlessRequestID = ''chat'', sir_Mode = ''async'', sir_ContentType = [],
     sir_Headers = [], sir_Attributes = [], sir_Payload = ''{}'', sir_TimeoutSeconds = 0\<rparr>"

abbreviation submit :: "publication list \<Rightarrow> invocation_answer http_reply \<times> publication list" where
  "submit \<equiv> handleCreateServerlessInvocation (Some (nats_publisher DefaultNATSConfig mem_conn)) (Inl Canceled) (Inr sample_submission)"

lemma first_submission: "reply_status (fst (submit [])) = 202"
  by code_simp



text \<open>A storage is created before the list of units is read for the answer: when the listing fails the answer is an error, the storage
  is there, and the request made again conflicts with it.\<close>

definition unlisted_service :: "(mem_world, int) Service" where
  "unlisted_service = mem_service\<lparr>svc_operator := Some (mem_operator\<lparr>op_Units := (op_Units mem_operator)\<lparr>
     rs_List := (\<lambda>_. failC (ErrorText (msg ''etcd timeout'')))\<rparr>\<rparr>)\<rparr>"

abbreviation sample_storage_request :: CreateGPUStorageRequest where
  "sample_storage_request \<equiv> \<lparr>csr_Name = ''models'', csr_Size = ''10'', csr_StorageClassName = [], csr_Prepare = zero_prepare,
     csr_Accessor = \<lparr>ax_Enabled = False\<rparr>\<rparr>"

abbreviation create_storage :: "mem_world \<Rightarrow> GPUStorageRuntime http_reply \<times> mem_world" where
  "create_storage \<equiv> handleCreateGPUStorage ref_k8s unlisted_service (Inr sample_storage_request)"

lemma failed_creation_keeps_storage:
  "reply_status (fst (create_storage mem_empty)) = 500
   \<and> map (meta_Name \<circ> stor_Meta) (mem_storages (snd (create_storage mem_empty))) = [''models'']
   \<and> reply_status (fst (create_storage (snd (create_storage mem_empty)))) = 409"
  by code_simp

end
