(* ===== verification/Framework_Http.thy ===== *)
theory Framework_Http
  imports Sidecar_Roundtrip
begin

text \<open>
  The contract between the worker sidecar and the framework of the user inside one pod: the HTTP helper of the framework
  (\<^verbatim>\<open>pkg/framework/http.go\<close>) and the client of the sidecar (\<^verbatim>\<open>pkg/workersidecar/framework_client.go\<close>). The handler of the
  user, the transport, and the rendering of raw JSON values are parameters. The theorems put both sides together with the dispatch handler of
  the sidecar.
\<close>

section \<open>The framework side\<close>

record HTTPConfig =
  hc_InvokePath :: string
  hc_HealthPath :: string

definition DefaultHTTPConfig :: HTTPConfig where
  "DefaultHTTPConfig = \<lparr>hc_InvokePath = DefaultServerlessFrameworkInvokePath, hc_HealthPath = DefaultServerlessFrameworkHealthPath\<rparr>"

definition normalizeFrameworkPath :: "string \<Rightarrow> string \<Rightarrow> string" where
  "normalizeFrameworkPath v fallback =
     (let trimmed = TrimSpace v
      in if trimmed = [] then fallback
         else let normalized = ''/'' @ TrimPrefix trimmed ''/''
              in if normalized = ''/'' then fallback else normalized)"

definition HTTPConfig_Normalized :: "HTTPConfig \<Rightarrow> HTTPConfig" where
  "HTTPConfig_Normalized c = \<lparr>hc_InvokePath = normalizeFrameworkPath (hc_InvokePath c) DefaultServerlessFrameworkInvokePath,
     hc_HealthPath = normalizeFrameworkPath (hc_HealthPath c) DefaultServerlessFrameworkHealthPath\<rparr>"

text \<open>A request with the answer of the JSON decoder for its body, and an answer: a status with a body that decodes to a response or not.\<close>

record framework_request =
  frq_Method :: string
  frq_Path :: string
  frq_Body :: "FrameworkInvocationRequest res"

datatype framework_body = Plain | Health_ok | Envelope FrameworkInvocationResponse | Nothing_written

type_synonym framework_reply = "int \<times> framework_body"

text \<open>\<^verbatim>\<open>ServeMux\<close>: a pattern matches its path, one that ends in a slash also everything below it; the longest match is taken.
  (Paths with braces, which the mux would read as wildcards, are outside the model.)\<close>

definition mux_match :: "string \<Rightarrow> string \<Rightarrow> bool" where
  "mux_match pattern p = (p = pattern \<or> pattern \<noteq> [] \<and> last pattern = CHR ''/'' \<and> HasPrefix p pattern)"

definition health_route :: "string \<Rightarrow> framework_reply" where
  "health_route meth = (if meth \<noteq> ''GET'' then (405, Plain) else (200, Health_ok))"

definition failed_response :: "string \<Rightarrow> FrameworkInvocationResponse" where
  "failed_response err = \<lparr>fresp_StatusCode = 500, fresp_ContentType = ''application/json'', fresp_Headers = [],
     fresp_Body = ''{\"error\":\"framework handler failed\"}'', fresp_Error = err\<rparr>"

definition default_response :: "FrameworkInvocationResponse \<Rightarrow> FrameworkInvocationResponse" where
  "default_response resp = resp\<lparr>fresp_StatusCode := or_default_int (fresp_StatusCode resp) 200,
     fresp_ContentType := (if TrimSpace (fresp_ContentType resp) = [] then ''application/json'' else fresp_ContentType resp)\<rparr>"

text \<open>A raw JSON value inside a document: left out when empty, otherwise as the encoder renders it (compacted), or an error when it is not
  JSON. The rendering is a parameter. An answer that cannot be encoded is a status with nothing after it.\<close>

definition marshal_raw :: "(string \<Rightarrow> string res) \<Rightarrow> string \<Rightarrow> string res" where
  "marshal_raw raw v = (if v = [] then Inr [] else raw v)"

definition encode_response :: "(string \<Rightarrow> string res) \<Rightarrow> FrameworkInvocationResponse \<Rightarrow> framework_reply" where
  "encode_response raw resp =
     (200, case marshal_raw raw (fresp_Body resp) of Inl _ \<Rightarrow> Nothing_written | Inr b \<Rightarrow> Envelope (resp\<lparr>fresp_Body := b\<rparr>))"

definition invoke_route :: "(string \<Rightarrow> string res) \<Rightarrow> (FrameworkInvocationRequest \<Rightarrow> string + FrameworkInvocationResponse)
    \<Rightarrow> string \<Rightarrow> FrameworkInvocationRequest res \<Rightarrow> framework_reply" where
  "invoke_route raw handler meth body =
     (if meth \<noteq> ''POST'' then (405, Plain)
      else case body of
        Inl _ \<Rightarrow> (400, Plain)
      | Inr req \<Rightarrow>
          let resp = (case handler req of Inl err \<Rightarrow> failed_response err | Inr resp \<Rightarrow> resp)
          in encode_response raw (default_response resp))"

text \<open>\<^verbatim>\<open>NewHTTPHandler\<close>; \<open>None\<close> is the panic of the mux when both paths are the same pattern.\<close>

definition NewHTTPHandler :: "(string \<Rightarrow> string res) \<Rightarrow> (FrameworkInvocationRequest \<Rightarrow> string + FrameworkInvocationResponse) option \<Rightarrow> HTTPConfig
    \<Rightarrow> (framework_request \<Rightarrow> framework_reply) res option" where
  "NewHTTPHandler raw handler c =
     (case handler of
        None \<Rightarrow> Some (Inl (ErrorText (msg ''framework handler is required'')))
      | Some h \<Rightarrow>
          let cfg = HTTPConfig_Normalized c in
          if hc_HealthPath cfg = hc_InvokePath cfg then None
          else Some (Inr (\<lambda>req.
            if mux_match (hc_HealthPath cfg) (frq_Path req)
               \<and> \<not> (mux_match (hc_InvokePath cfg) (frq_Path req) \<and> length (hc_HealthPath cfg) < length (hc_InvokePath cfg))
            then health_route (frq_Method req)
            else if mux_match (hc_InvokePath cfg) (frq_Path req) then invoke_route raw h (frq_Method req) (frq_Body req)
            else (404, Plain))))"

section \<open>The sidecar side\<close>

text \<open>A client keeps the two addresses; a call of the transport gets method, address and body and returns status and body, or an error.\<close>

record UDSFrameworkClient =
  uds_healthURL :: string
  uds_invokeURL :: string

definition framework_host :: string where "framework_host = ''http://serverless-framework''"

definition NewUDSFrameworkClient :: "SidecarConfig \<Rightarrow> UDSFrameworkClient" where
  "NewUDSFrameworkClient cfg = \<lparr>uds_healthURL = framework_host @ sc_FrameworkHealthPath cfg,
     uds_invokeURL = framework_host @ sc_FrameworkInvokePath cfg\<rparr>"

record 'w uds_transport =
  ut_NewRequest :: "string \<Rightarrow> unit res"
  ut_Marshal :: "FrameworkInvocationRequest \<Rightarrow> FrameworkInvocationRequest res"
  ut_Do :: "string \<Rightarrow> string \<Rightarrow> FrameworkInvocationRequest res \<Rightarrow> ('w, framework_reply) call"

definition no_body :: "FrameworkInvocationRequest res" where "no_body = Inl (ErrorText (msg ''EOF''))"

definition UDS_Health :: "'w uds_transport \<Rightarrow> UDSFrameworkClient \<Rightarrow> ('w, unit) call" where
  "UDS_Health T c =
     bindC (liftC (mapErr (Wrap (msg ''build framework health request: %w'')) (ut_NewRequest T (uds_healthURL c)))) (\<lambda>_.
     bindC (tryC (ut_Do T ''GET'' (uds_healthURL c) no_body)) (\<lambda>r. case r of
       Inl e \<Rightarrow> failC (Wrap (msg ''call framework health endpoint: %w'') e)
     | Inr (status, _) \<Rightarrow> if status \<noteq> 200 then failC (ErrorText (''framework health endpoint returned %d'', [FI status])) else returnC ()))"

definition UDS_Invoke :: "'w uds_transport \<Rightarrow> UDSFrameworkClient \<Rightarrow> FrameworkInvocationRequest \<Rightarrow> ('w, FrameworkInvocationResponse) call" where
  "UDS_Invoke T c payload =
     bindC (liftC (mapErr (Wrap (msg ''marshal framework invocation request: %w'')) (ut_Marshal T payload))) (\<lambda>document.
     bindC (liftC (mapErr (Wrap (msg ''build framework invocation request: %w'')) (ut_NewRequest T (uds_invokeURL c)))) (\<lambda>_.
     bindC (tryC (ut_Do T ''POST'' (uds_invokeURL c) (Inr document))) (\<lambda>r. case r of
       Inl e \<Rightarrow> failC (Wrap (msg ''call framework invoke endpoint: %w'') e)
     | Inr (status, body) \<Rightarrow>
         if status < 200 \<or> 300 \<le> status then failC (ErrorText (''framework invoke endpoint returned %d'', [FI status]))
         else case body of
           Envelope resp \<Rightarrow> returnC resp
         | _ \<Rightarrow> failC (Wrap (msg ''decode framework invocation response: %w'') (ErrorText (msg ''EOF''))))))"

section \<open>Serving on the socket\<close>

text \<open>\<^verbatim>\<open>ServeUnix\<close> of \<^verbatim>\<open>pkg/framework/server.go\<close> over the file system and the listener. Serving ends with the context (\<open>Inr ()\<close>,
  after a shutdown) or with the result of the server.\<close>

record 'w unix_env =
  ux_MkdirAll :: "string \<Rightarrow> ('w, unit) call"
  ux_RemoveAll :: "string \<Rightarrow> ('w, unit) call"
  ux_Listen :: "string \<Rightarrow> ('w, unit) call"
  ux_Chmod :: "string \<Rightarrow> ('w, unit) call"
  ux_Serve :: "(framework_request \<Rightarrow> framework_reply) \<Rightarrow> ('w, unit) call"
  ux_CloseListener :: "'w \<Rightarrow> 'w"
  ux_Remove :: "string \<Rightarrow> 'w \<Rightarrow> 'w"

text \<open>\<^verbatim>\<open>filepath.Dir\<close>: what precedes the last slash, cleaned.\<close>

definition Dir :: "string \<Rightarrow> string" where
  "Dir p = Clean (rev (dropWhile (\<lambda>c. c \<noteq> CHR ''/'') (rev p)))"

text \<open>A deferred cleanup runs on every return of the body.\<close>

definition deferC :: "('w \<Rightarrow> 'w) \<Rightarrow> ('w, 'a) call \<Rightarrow> ('w, 'a) call" where
  "deferC cleanup body w = (case body w of (r, w') \<Rightarrow> (r, cleanup w'))"

definition ServeUnix :: "'w unix_env \<Rightarrow> string \<Rightarrow> (framework_request \<Rightarrow> framework_reply) option \<Rightarrow> ('w, unit) call" where
  "ServeUnix E socketPath handler =
     (case handler of
        None \<Rightarrow> failC (ErrorText (msg ''framework HTTP handler is required''))
      | Some serve \<Rightarrow>
          if socketPath = [] then failC (ErrorText (msg ''framework socket path is required''))
          else
            bindC (wrapC (msg ''create framework socket directory: %w'') (ux_MkdirAll E (Dir socketPath))) (\<lambda>_.
            bindC (wrapC (msg ''remove stale framework socket: %w'') (ux_RemoveAll E socketPath)) (\<lambda>_.
            bindC (wrapC (''listen on unix socket %s: %w'', [FS socketPath]) (ux_Listen E socketPath)) (\<lambda>_.
            deferC (\<lambda>w. ux_Remove E socketPath (ux_CloseListener E w))
              (bindC (wrapC (''chmod unix socket %s: %w'', [FS socketPath]) (ux_Chmod E socketPath)) (\<lambda>_. ux_Serve E serve))))))"

section \<open>The example framework\<close>

text \<open>\<^verbatim>\<open>cmd/framework-echo\<close>: the paths and the socket come from the environment; the handler answers with the fields of the request. The
  encoder of the answer is a parameter: the fields that are texts, the attributes and the raw payload.\<close>

definition echo_settings :: "(string \<Rightarrow> string) \<Rightarrow> HTTPConfig \<times> string" where
  "echo_settings Getenv =
     (DefaultHTTPConfig\<lparr>hc_InvokePath := or_default (Getenv ''SERVERLESS_FRAMEWORK_INVOKE_PATH'') (hc_InvokePath DefaultHTTPConfig),
        hc_HealthPath := or_default (Getenv ''SERVERLESS_FRAMEWORK_HEALTH_PATH'') (hc_HealthPath DefaultHTTPConfig)\<rparr>,
      or_default (Getenv ''SERVERLESS_FRAMEWORK_SOCKET_PATH'') DefaultServerlessFrameworkSocketPath)"

definition echo_handler :: "(string smap \<Rightarrow> string smap \<Rightarrow> string \<Rightarrow> string + string) \<Rightarrow> FrameworkInvocationRequest
    \<Rightarrow> string + FrameworkInvocationResponse" where
  "echo_handler marshal req =
     (case marshal [(''invocationID'', freq_InvocationID req), (''serverlessRequestID'', freq_ServerlessRequestID req),
         (''workerName'', freq_WorkerName req), (''workerNamespace'', freq_WorkerNamespace req), (''contentType'', freq_ContentType req)]
         (freq_Attributes req) (freq_Payload req) of
        Inl err \<Rightarrow> Inl err
      | Inr payload \<Rightarrow> Inr \<lparr>fresp_StatusCode = 200, fresp_ContentType = ''application/json'', fresp_Headers = [], fresp_Body = payload,
          fresp_Error = []\<rparr>)"

section \<open>Both sides together\<close>

text \<open>The socket: a request to the host of the framework arrives with its path and with its payload as it was rendered.\<close>

definition rendered :: "(string \<Rightarrow> string res) \<Rightarrow> FrameworkInvocationRequest \<Rightarrow> FrameworkInvocationRequest res" where
  "rendered raw req = andThen (marshal_raw raw (freq_Payload req)) (\<lambda>p. Inr (req\<lparr>freq_Payload := p\<rparr>))"

definition socket_transport :: "(string \<Rightarrow> string res) \<Rightarrow> (framework_request \<Rightarrow> framework_reply) \<Rightarrow> 'w uds_transport" where
  "socket_transport raw serve = \<lparr>ut_NewRequest = (\<lambda>_. Inr ()), ut_Marshal = rendered raw,
     ut_Do = (\<lambda>meth url body. returnC (serve \<lparr>frq_Method = meth, frq_Path = drop (length framework_host) url, frq_Body = body\<rparr>))\<rparr>"

lemma mounted_path_id: "clean_abs p \<Longrightarrow> trimmed p \<Longrightarrow> p \<noteq> ''/'' \<Longrightarrow> normalizeFrameworkPath p fallback = p"
  using sidecar_path_id [of p fallback] by (simp add: normalizeFrameworkPath_def normalizePath_def)

text \<open>A framework that serves the paths the sidecar was configured with.\<close>

definition serves :: "(string \<Rightarrow> string res) \<Rightarrow> (FrameworkInvocationRequest \<Rightarrow> string + FrameworkInvocationResponse) \<Rightarrow> SidecarConfig
    \<Rightarrow> (framework_request \<Rightarrow> framework_reply) \<Rightarrow> bool" where
  "serves raw handler cfg serve \<longleftrightarrow> NewHTTPHandler raw (Some handler)
     \<lparr>hc_InvokePath = sc_FrameworkInvokePath cfg, hc_HealthPath = sc_FrameworkHealthPath cfg\<rparr> = Some (Inr serve)"

definition clean_paths :: "SidecarConfig \<Rightarrow> bool" where
  "clean_paths cfg = (\<forall>p \<in> {sc_FrameworkInvokePath cfg, sc_FrameworkHealthPath cfg}. clean_abs p \<and> trimmed p \<and> p \<noteq> ''/'')"

lemma clean_path_no_slash:
  assumes "clean_abs p" "p \<noteq> ''/''"
  shows "last p \<noteq> CHR ''/''"
proof -
  from assms(1) obtain ws where ws: "list_all clean_elem ws" "p = ''/'' @ join ''/'' ws" by (auto simp: clean_abs_def)
  with assms(2) have "ws \<noteq> []" by auto
  with ws(1) have e: "clean_elem (last ws)" by (auto simp: list_all_iff)
  then have "last ws \<noteq> []" "last (last ws) \<noteq> CHR ''/''" by (auto simp: clean_elem_def) (metis last_in_set)
  with last_join [OF \<open>ws \<noteq> []\<close>, of "''/''"] show ?thesis by (auto simp: ws(2))
qed

lemma served:
  assumes "serves raw handler cfg serve" "clean_paths cfg"
  shows "serve \<lparr>frq_Method = ''GET'', frq_Path = sc_FrameworkHealthPath cfg, frq_Body = b\<rparr> = (200, Health_ok)"
    and "serve \<lparr>frq_Method = ''POST'', frq_Path = sc_FrameworkInvokePath cfg, frq_Body = b\<rparr> = invoke_route raw handler ''POST'' b"
proof -
  let ?i = "sc_FrameworkInvokePath cfg" and ?h = "sc_FrameworkHealthPath cfg"
  have p: "clean_abs ?i" "trimmed ?i" "?i \<noteq> ''/''" "clean_abs ?h" "trimmed ?h" "?h \<noteq> ''/''" using assms(2) by (auto simp: clean_paths_def)
  have m: "mux_match ?i q = (q = ?i)" "mux_match ?h q = (q = ?h)" for q
    using clean_path_no_slash p by (auto simp: mux_match_def)
  have n: "normalizeFrameworkPath ?i f = ?i" "normalizeFrameworkPath ?h f = ?h" for f using p mounted_path_id by auto
  have other: "?h \<noteq> ?i" and serve: "serve = (\<lambda>req. if frq_Path req = ?h then health_route (frq_Method req)
      else if frq_Path req = ?i then invoke_route raw handler (frq_Method req) (frq_Body req) else (404, Plain))"
  proof -
    have h: "NewHTTPHandler raw (Some handler) \<lparr>hc_InvokePath = ?i, hc_HealthPath = ?h\<rparr> = Some (Inr serve)"
      using assms(1) by (simp only: serves_def)
    show "?h \<noteq> ?i" using h by (simp add: NewHTTPHandler_def HTTPConfig_Normalized_def n Let_def split: if_splits)
    then have "(q = ?h \<and> \<not> (q = ?i \<and> b)) = (q = ?h)" for q b by auto
    with h \<open>?h \<noteq> ?i\<close> show "serve = (\<lambda>req. if frq_Path req = ?h then health_route (frq_Method req)
      else if frq_Path req = ?i then invoke_route raw handler (frq_Method req) (frq_Body req) else (404, Plain))"
      by (simp add: NewHTTPHandler_def HTTPConfig_Normalized_def n m Let_def cong: if_cong)
  qed
  show "serve \<lparr>frq_Method = ''GET'', frq_Path = ?h, frq_Body = b\<rparr> = (200, Health_ok)"
    by (simp add: serve health_route_def)
  show "serve \<lparr>frq_Method = ''POST'', frq_Path = ?i, frq_Body = b\<rparr> = invoke_route raw handler ''POST'' b"
    using other by (simp add: serve)
qed

lemma json_type: "TrimSpace ''application/json'' \<noteq> []"
  by code_simp

lemma invoke_answer:
  assumes "raw (fresp_Body (failed_response [])) = Inr (fresp_Body (failed_response []))"
  shows "invoke_route raw handler ''POST'' (Inr sent) = (200, case handler sent of
      Inl err \<Rightarrow> Envelope (failed_response err)
    | Inr resp \<Rightarrow> (case marshal_raw raw (fresp_Body resp) of
        Inl _ \<Rightarrow> Nothing_written | Inr b \<Rightarrow> Envelope (default_response resp\<lparr>fresp_Body := b\<rparr>)))"
proof (cases "handler sent")
  case (Inl err)
  have "default_response (failed_response err) = failed_response err"
    using json_type by (simp add: default_response_def failed_response_def or_default_int_def)
  moreover have "marshal_raw raw (fresp_Body (failed_response err)) = Inr (fresp_Body (failed_response err))"
    using assms by (simp add: marshal_raw_def failed_response_def)
  ultimately show ?thesis by (simp add: invoke_route_def encode_response_def Inl)
next
  case (Inr resp)
  have "fresp_Body (default_response resp) = fresp_Body resp" by (simp add: default_response_def)
  with Inr show ?thesis by (simp add: invoke_route_def encode_response_def)
qed

lemma UDS_Invoke_run:
  assumes "ut_Marshal T req = Inr document" "ut_NewRequest T (uds_invokeURL c) = Inr ()"
    and "ut_Do T ''POST'' (uds_invokeURL c) (Inr document) w = (Inr (200, body), w')"
  shows "UDS_Invoke T c req w = (case body of
      Envelope resp \<Rightarrow> Inr resp
    | _ \<Rightarrow> Inl (Wrap (msg ''decode framework invocation response: %w'') (ErrorText (msg ''EOF''))), w')"
  using assms by (cases body) (simp_all add: UDS_Invoke_def bindC_def tryC_def)

lemma socket_sent:
  "ut_Do (socket_transport raw serve) meth (framework_host @ p) body = returnC (serve \<lparr>frq_Method = meth, frq_Path = p, frq_Body = body\<rparr>)"
  "ut_NewRequest (socket_transport raw serve) url = Inr ()" "ut_Marshal (socket_transport raw serve) = rendered raw"
  by (simp_all add: socket_transport_def)

lemma client_urls:
  "uds_healthURL (NewUDSFrameworkClient cfg) = framework_host @ sc_FrameworkHealthPath cfg"
  "uds_invokeURL (NewUDSFrameworkClient cfg) = framework_host @ sc_FrameworkInvokePath cfg"
  by (simp_all add: NewUDSFrameworkClient_def)

lemma invoked:
  assumes "serves raw handler cfg serve" "clean_paths cfg" "raw (fresp_Body (failed_response [])) = Inr (fresp_Body (failed_response []))"
  shows "UDS_Invoke (socket_transport raw serve) (NewUDSFrameworkClient cfg) req w =
        (case rendered raw req of
           Inl e \<Rightarrow> Inl (Wrap (msg ''marshal framework invocation request: %w'') e)
         | Inr sent \<Rightarrow> (case handler sent of
             Inl err \<Rightarrow> Inr (failed_response err)
           | Inr resp \<Rightarrow> (case marshal_raw raw (fresp_Body resp) of
               Inl _ \<Rightarrow> Inl (Wrap (msg ''decode framework invocation response: %w'') (ErrorText (msg ''EOF'')))
             | Inr b \<Rightarrow> Inr (default_response resp\<lparr>fresp_Body := b\<rparr>))), w)"
proof (cases "rendered raw req")
  case (Inl e)
  then show ?thesis by (simp add: UDS_Invoke_def socket_sent bindC_def)
next
  case (Inr sent)
  have "ut_Do (socket_transport raw serve) ''POST'' (uds_invokeURL (NewUDSFrameworkClient cfg)) (Inr sent) w
      = (Inr (invoke_route raw handler ''POST'' (Inr sent)), w)"
    by (simp add: client_urls socket_sent served(2) [OF assms(1,2)])
  note run = UDS_Invoke_run [OF _ _ this [unfolded invoke_answer [where raw = raw, OF assms(3), of handler sent]], of req]
  show ?thesis
    unfolding Inr sum.case by (subst run) (simp_all add: socket_sent Inr split: sum.split)
qed


text \<open>A handler that failed is reported as a success: the error travels in the envelope, and the sidecar looks at the transport only.\<close>

lemma failed_handler_reported_succeeded:
  assumes "serves raw handler cfg serve" "clean_paths cfg" "raw (fresp_Body (failed_response [])) = Inr (fresp_Body (failed_response []))"
    and "rendered raw req = Inr sent" "handler sent = Inl err"
    and "HandleDispatch t0 t1 (fst (UDS_Invoke (socket_transport raw serve) (NewUDSFrameworkClient cfg) req w)) publish d i = (i', evs, r)"
  shows "\<exists>res. results evs = [res] \<and> res_State res = InvocationStateSucceeded \<and> res_FailureClass res = InvocationFailureNone
    \<and> res_StatusCode res = 500"
proof -
  have "fst (UDS_Invoke (socket_transport raw serve) (NewUDSFrameworkClient cfg) req w) = Inr (failed_response err)"
    using invoked [OF assms(1-3), of req w] assms(4,5) by simp
  with assms(6) show ?thesis
    by (cases publish) (auto simp: HandleDispatch_def HandleDispatch_start_def HandleDispatch_finish_def Let_def success_result_def
        zero_result_def or_default_int_def failed_response_def)
qed

text \<open>Once the socket is listened on, it is removed again on every return.\<close>

lemma ServeUnix_removes_socket:
  assumes "ux_MkdirAll E (Dir path) w = (Inr (), w1)" "ux_RemoveAll E path w1 = (Inr (), w2)" "ux_Listen E path w2 = (Inr (), w3)" "path \<noteq> []"
  shows "\<exists>w4. snd (ServeUnix E path (Some serve) w) = ux_Remove E path (ux_CloseListener E w4)"
  using assms by (auto simp: ServeUnix_def bindC_def wrapC_def deferC_def split: prod.splits)

text \<open>The example framework serves exactly the paths and the socket that the controller gives its container.\<close>

lemma framework_env_paths:
  assumes "resolveUnitServerlessSpec errText u = Inr spec" "list_all (\<lambda>(k, x). env k = x) (defaultGPUUnitServerlessFrameworkEnv errText u)"
    and "fw_SocketPath (sls_Framework spec) \<noteq> []" "fw_InvokePath (sls_Framework spec) \<noteq> []" "fw_HealthPath (sls_Framework spec) \<noteq> []"
  shows "echo_settings env = (\<lparr>hc_InvokePath = fw_InvokePath (sls_Framework spec), hc_HealthPath = fw_HealthPath (sls_Framework spec)\<rparr>,
    fw_SocketPath (sls_Framework spec))"
  using assms by (simp add: echo_settings_def defaultGPUUnitServerlessFrameworkEnv_def or_default_def DefaultHTTPConfig_def)

text \<open>The contract accepts a unit whose two paths are the same; the helper panics on it.\<close>

lemma equal_paths_panic:
  "\<exists>f. NormalizeGPUUnitServerlessFramework (zero_framework\<lparr>fw_InvokePath := ''/run'', fw_HealthPath := ''/run''\<rparr>) = Inr f
     \<and> NewHTTPHandler raw (Some handler) \<lparr>hc_InvokePath = fw_InvokePath f, hc_HealthPath = fw_HealthPath f\<rparr> = None"
proof -
  have "NormalizeGPUUnitServerlessFramework (zero_framework\<lparr>fw_InvokePath := ''/run'', fw_HealthPath := ''/run''\<rparr>)
    = Inr \<lparr>fw_SocketPath = DefaultServerlessFrameworkSocketPath, fw_InvokePath = ''/run'', fw_HealthPath = ''/run''\<rparr>" by code_simp
  moreover have "normalizeFrameworkPath ''/run'' fallback = ''/run''" for fallback by code_simp
  ultimately show ?thesis by (simp add: NewHTTPHandler_def HTTPConfig_Normalized_def)
qed


text \<open>The example framework on the paths that an empty environment gives it.\<close>

definition plain_echo :: "FrameworkInvocationRequest \<Rightarrow> string + FrameworkInvocationResponse" where
  "plain_echo = echo_handler (\<lambda>_ _ payload. Inr payload)"

definition echo_server :: "framework_request \<Rightarrow> framework_reply" where
  "echo_server = (case NewHTTPHandler Inr (Some plain_echo) (fst (echo_settings (\<lambda>_. []))) of
     Some (Inr serve) \<Rightarrow> serve | _ \<Rightarrow> (\<lambda>_. (404, Plain)))"

definition echo_config :: SidecarConfig where
  "echo_config = \<lparr>sc_Serverless = ref_queue, sc_WorkerName = ''w'', sc_WorkerNamespace = ''runtime'', sc_ServerlessRequestID = ''req'',
     sc_ConsumerName = ''c'', sc_HeartbeatInterval = ''5s'', sc_FrameworkSocketPath = DefaultServerlessFrameworkSocketPath,
     sc_FrameworkInvokePath = DefaultServerlessFrameworkInvokePath, sc_FrameworkHealthPath = DefaultServerlessFrameworkHealthPath,
     sc_HealthPort = 8082, sc_DispatchAckWait = ''5m'', sc_DispatchRetry = wsc_DispatchRetry DefaultWorkerSidecarConfig\<rparr>"

definition echo_request :: FrameworkInvocationRequest where
  "echo_request = \<lparr>freq_Version = ''v1'', freq_InvocationID = ''i'', freq_ServerlessRequestID = ''req'', freq_WorkerName = ''w'',
     freq_WorkerNamespace = ''runtime'', freq_Mode = InvocationModeAsync, freq_State = InvocationStateQueued, freq_ContentType = [],
     freq_Headers = [], freq_Attributes = [], freq_Payload = ''1'', freq_TimeoutSeconds = 0, freq_DispatchedAt = 0\<rparr>"

lemma echo_serves: "serves Inr plain_echo echo_config echo_server"
proof -
  have "normalizeFrameworkPath DefaultServerlessFrameworkInvokePath f = DefaultServerlessFrameworkInvokePath"
    "normalizeFrameworkPath DefaultServerlessFrameworkHealthPath f = DefaultServerlessFrameworkHealthPath" for f
    by code_simp+
  moreover have "DefaultServerlessFrameworkHealthPath \<noteq> DefaultServerlessFrameworkInvokePath" by code_simp
  ultimately show ?thesis
    by (simp add: serves_def echo_server_def echo_settings_def echo_config_def DefaultHTTPConfig_def or_default_def NewHTTPHandler_def
        HTTPConfig_Normalized_def Let_def)
qed

lemma echo_paths: "clean_paths echo_config"
proof -
  have "clean_abs ''/invoke''" "clean_abs ''/healthz''"
    unfolding clean_abs_def by (rule exI [of _ "[''invoke'']"], simp add: clean_elem_def) (rule exI [of _ "[''healthz'']"], simp add: clean_elem_def)
  moreover have "trimmed ''/invoke''" "trimmed ''/healthz''" by code_simp+
  ultimately show ?thesis
    by (simp add: clean_paths_def echo_config_def DefaultServerlessFrameworkInvokePath_def DefaultServerlessFrameworkHealthPath_def)
qed


end
