(* ===== verification/Process_Config.thy ===== *)
theory Process_Config
  imports Controller_Network Activator_Service Result_Store
begin

text \<open>
  The configuration files of the processes (\<^verbatim>\<open>pkg/config/manager.go\<close>, and the \<^verbatim>\<open>LoadConfig\<close> of the activator and the result
  consumer). The file system and the YAML decoder, which fills in a configuration that holds the defaults, are parameters. The theorem
  relates the normalization of the blocked ranges in the configuration to the one the controller applies when it builds a policy.
\<close>

section \<open>Loading\<close>

text \<open>A YAML decoder: the content of a file, and the configuration it is decoded into.\<close>

type_synonym 'c yaml = "string \<Rightarrow> 'c \<Rightarrow> 'c res"

definition load_yaml :: "string \<Rightarrow> file_system \<Rightarrow> 'c yaml \<Rightarrow> 'c \<Rightarrow> string \<Rightarrow> 'c res" where
  "load_yaml what fs decode cfg path =
     (if path = [] then Inr cfg
      else andThen (mapErr (Wrap (''read %s config %s: %w'', [FS what, FS path])) (fs path)) (\<lambda>content.
        mapErr (Wrap (''unmarshal %s config %s: %w'', [FS what, FS path])) (decode content cfg)))"

definition LoadActivatorConfig :: "'q k8s \<Rightarrow> file_system \<Rightarrow> ActivatorConfig yaml \<Rightarrow> string \<Rightarrow> ActivatorConfig res" where
  "LoadActivatorConfig K fs decode path = andThen (load_yaml ''activator'' fs decode DefaultActivatorConfig path) (ActivatorConfig_Normalized K)"

definition LoadResultConsumerConfig :: "'q k8s \<Rightarrow> file_system \<Rightarrow> ResultConsumerConfig yaml \<Rightarrow> string \<Rightarrow> ResultConsumerConfig res" where
  "LoadResultConsumerConfig K fs decode path =
     andThen (load_yaml ''result consumer'' fs decode DefaultResultConsumerConfig path) (ResultConsumerConfig_Normalized K)"

section \<open>The controller manager and the runtime API\<close>

definition defaultBlockedEgressCIDRs :: "string list" where
  "defaultBlockedEgressCIDRs = [''10.0.0.0/8'', ''100.64.0.0/10'', ''169.254.0.0/16'', ''172.16.0.0/12'', ''192.168.0.0/16'']"

record ManagerConfig =
  mc_MetricsBindAddress :: string
  mc_HealthProbeBindAddress :: string
  mc_HTTPAddr :: string
  mc_ReportInterval :: string
  mc_LeaderElect :: bool
  mc_MetricsSecure :: bool
  mc_EnableHTTP2 :: bool
  mc_BlockedEgressCIDRs :: "string list"
  mc_NvidiaMetricsEndpoint :: string
  mc_Serverless :: NATSConfig
  mc_ServerlessWorker :: WorkerSidecarConfig

record ControllerManagerConfig =
  cmc_MetricsBindAddress :: string
  cmc_HealthProbeBindAddress :: string
  cmc_LeaderElect :: bool
  cmc_MetricsSecure :: bool
  cmc_EnableHTTP2 :: bool
  cmc_BlockedEgressCIDRs :: "string list"
  cmc_Serverless :: NATSConfig
  cmc_ServerlessWorker :: WorkerSidecarConfig

record RuntimeAPIConfig =
  rac_HTTPAddr :: string
  rac_ReportInterval :: string
  rac_NvidiaMetricsEndpoint :: string
  rac_Serverless :: NATSConfig
  rac_Packages :: RuntimePackageCatalog

definition DefaultManagerConfig :: ManagerConfig where
  "DefaultManagerConfig = \<lparr>mc_MetricsBindAddress = ''0'', mc_HealthProbeBindAddress = '':8081'', mc_HTTPAddr = '':8080'',
     mc_ReportInterval = ''30s'', mc_LeaderElect = False, mc_MetricsSecure = True, mc_EnableHTTP2 = False,
     mc_BlockedEgressCIDRs = [] @ defaultBlockedEgressCIDRs, mc_NvidiaMetricsEndpoint = [], mc_Serverless = DefaultNATSConfig,
     mc_ServerlessWorker = DefaultWorkerSidecarConfig\<rparr>"

definition DefaultControllerManagerConfig :: ControllerManagerConfig where
  "DefaultControllerManagerConfig = (let cfg = DefaultManagerConfig in
     \<lparr>cmc_MetricsBindAddress = mc_MetricsBindAddress cfg, cmc_HealthProbeBindAddress = mc_HealthProbeBindAddress cfg,
       cmc_LeaderElect = mc_LeaderElect cfg, cmc_MetricsSecure = mc_MetricsSecure cfg, cmc_EnableHTTP2 = mc_EnableHTTP2 cfg,
       cmc_BlockedEgressCIDRs = [] @ mc_BlockedEgressCIDRs cfg, cmc_Serverless = mc_Serverless cfg,
       cmc_ServerlessWorker = mc_ServerlessWorker cfg\<rparr>)"

definition DefaultRuntimeAPIConfig :: RuntimeAPIConfig where
  "DefaultRuntimeAPIConfig = (let cfg = DefaultManagerConfig in
     \<lparr>rac_HTTPAddr = mc_HTTPAddr cfg, rac_ReportInterval = mc_ReportInterval cfg, rac_NvidiaMetricsEndpoint = mc_NvidiaMetricsEndpoint cfg,
       rac_Serverless = mc_Serverless cfg, rac_Packages = []\<rparr>)"

definition LoadManagerConfig :: "file_system \<Rightarrow> ManagerConfig yaml \<Rightarrow> string \<Rightarrow> ManagerConfig res" where
  "LoadManagerConfig fs decode path = load_yaml ''manager'' fs decode DefaultManagerConfig path"

definition LoadControllerManagerConfig :: "file_system \<Rightarrow> ControllerManagerConfig yaml \<Rightarrow> string \<Rightarrow> ControllerManagerConfig res" where
  "LoadControllerManagerConfig fs decode path = load_yaml ''controller manager'' fs decode DefaultControllerManagerConfig path"

definition LoadRuntimeAPIConfig :: "file_system \<Rightarrow> RuntimeAPIConfig yaml \<Rightarrow> string \<Rightarrow> RuntimeAPIConfig res" where
  "LoadRuntimeAPIConfig fs decode path = load_yaml ''runtime API'' fs decode DefaultRuntimeAPIConfig path"

definition parseReportInterval :: "string \<Rightarrow> duration res" where
  "parseReportInterval s = (case ParseDuration s of
     None \<Rightarrow> Inl (Wrap (''parse reportInterval %q: %w'', [FS s]) (ErrorText (msg ''duration'')))
   | Some d \<Rightarrow> Inr d)"

fun valid_ranges :: "ipv6_text \<Rightarrow> string list \<Rightarrow> string list \<Rightarrow> string list res" where
  "valid_ranges N seen [] = Inr []"
| "valid_ranges N seen (v # vs) =
     (let trimmed = TrimSpace v
      in if trimmed = [] then valid_ranges N seen vs
         else if ParseCIDR N trimmed = None
         then Inl (Wrap (''parse blockedEgressCIDRs entry %q: %w'', [FS trimmed]) (ErrorText (msg ''invalid CIDR address'')))
         else if trimmed \<in> set seen then valid_ranges N seen vs
         else andThen (valid_ranges N (trimmed # seen) vs) (\<lambda>out. Inr (trimmed # out)))"

definition NormalizedBlockedEgressCIDRs :: "ipv6_text \<Rightarrow> string list \<Rightarrow> string list res" where
  "NormalizedBlockedEgressCIDRs N vs = (if vs = [] then Inr [] else andThen (valid_ranges N [] vs) (\<lambda>out. Inr (sort out)))"

section \<open>The blocked ranges\<close>

lemma valid_ranges_unique:
  "valid_ranges N seen vs = Inr out \<Longrightarrow> out = unique_keys seen vs \<and> (\<forall>c \<in> set out. ParseCIDR N c \<noteq> None)"
proof (induction vs arbitrary: seen out)
  case (Cons v vs)
  let ?t = "TrimSpace v"
  consider "?t = []" "valid_ranges N seen vs = Inr out" | "?t \<noteq> []" "?t \<in> set seen" "valid_ranges N seen vs = Inr out"
    | l where "?t \<noteq> []" "?t \<notin> set seen" "ParseCIDR N ?t \<noteq> None" "valid_ranges N (?t # seen) vs = Inr l" "out = ?t # l"
    using Cons.prems by (simp add: Let_def andThen_Inr_iff split: if_split_asm) blast
  then show ?case
  proof cases
    case 3
    from Cons.IH [OF 3(4)] 3 show ?thesis by (simp add: Let_def)
  qed (use Cons.IH [of seen out] in simp_all)
qed simp

lemma unique_keys_sorted_id: "unique_keys [] (sort (unique_keys [] vs)) = sort (unique_keys [] vs)"
  using unique_keys_wf [of "[]" vs] by (intro unique_keys_id) (auto simp: list_all_iff)

lemma normalized_ranges:
  assumes "NormalizedBlockedEgressCIDRs N vs = Inr out"
  shows "out = normalizeBlockedEgressCIDRs vs" "\<forall>c \<in> set out. ParseCIDR N c \<noteq> None"
  using assms valid_ranges_unique [of N "[]" vs]
  by (auto simp: NormalizedBlockedEgressCIDRs_def normalizeBlockedEgressCIDRs_def result_simps split: if_splits)

text \<open>C37. The configuration and the controller agree on the blocked ranges: what the configuration accepts is what the controller
  computes itself, every entry is a range, the second normalization changes nothing, and the policy of a unit is the same for the
  configured and for the normalized list.\<close>

theorem blocked_ranges_agree:
  assumes "NormalizedBlockedEgressCIDRs (nl_IPv6 L) vs = Inr out"
  shows "out = normalizeBlockedEgressCIDRs vs \<and> normalizeBlockedEgressCIDRs out = out \<and> (\<forall>c \<in> set out. ParseCIDR (nl_IPv6 L) c \<noteq> None)
    \<and> desiredUnitNetworkPolicy K L u out q = desiredUnitNetworkPolicy K L u vs q"
proof -
  have "out = normalizeBlockedEgressCIDRs vs" "\<forall>c \<in> set out. ParseCIDR (nl_IPv6 L) c \<noteq> None"
    using normalized_ranges [OF assms] by simp_all
  moreover have "normalizeBlockedEgressCIDRs (normalizeBlockedEgressCIDRs vs) = normalizeBlockedEgressCIDRs vs"
    using unique_keys_sorted_id [of vs] by (auto simp: normalizeBlockedEgressCIDRs_def sorted_sort_id)
  ultimately show ?thesis by (simp add: desiredUnitNetworkPolicy_def)
qed

lemma sample_ranges: "NormalizedBlockedEgressCIDRs (nl_IPv6 plain_net) ['' 10.0.0.0/8'', ''10.0.0.0/8''] = Inr [''10.0.0.0/8'']"
proof -
  have "TrimSpace ''10.0.0.0/8'' = ''10.0.0.0/8''" by code_simp
  then show ?thesis by (simp add: NormalizedBlockedEgressCIDRs_def Let_def tunnel_blocked(2) blocked_block)
qed

theorem blocked_ranges_agree_witness:
  "normalizeBlockedEgressCIDRs ['' 10.0.0.0/8'', ''10.0.0.0/8''] = [''10.0.0.0/8'']"
  using blocked_ranges_agree [OF sample_ranges, of ref_k8s tunnelled_unit DefaultNATSConfig] by simp

end
