(* ===== verification/Image_Accelerator.thy ===== *)
theory Image_Accelerator
  imports Process_Config
begin

text \<open>
  Conversion of images to an accelerated format (\<^verbatim>\<open>pkg/imageaccelerator\<close> and the flags of \<^verbatim>\<open>cmd/image-accelerator\<close>). The
  builder of overlaybd, the file system and \<^verbatim>\<open>filepath.Abs\<close> are parameters.
\<close>

section \<open>Configuration\<close>

definition EngineOverlayBD :: string where "EngineOverlayBD = ''overlaybd''"
definition EngineTurboOCI :: string where "EngineTurboOCI = ''turbo-oci''"
definition defaultWorkDir :: string where "defaultWorkDir = ''tmp_conv''"
definition defaultFSType :: string where "defaultFSType = ''ext4''"
definition defaultVSizeGB :: int where "defaultVSizeGB = 64"
definition defaultConcurrencyLimit :: int where "defaultConcurrencyLimit = 4"
definition overlayBDBinDir :: string where "overlayBDBinDir = ''/opt/overlaybd/bin''"
definition overlayBDBaseLayer :: string where "overlayBDBaseLayer = ''/opt/overlaybd/baselayers/ext4_64''"
definition overlayBDCreateBinary :: string where "overlayBDCreateBinary = overlayBDBinDir @ ''/overlaybd-create''"
definition overlayBDCommitBinary :: string where "overlayBDCommitBinary = overlayBDBinDir @ ''/overlaybd-commit''"
definition overlayBDApplyBinary :: string where "overlayBDApplyBinary = overlayBDBinDir @ ''/overlaybd-apply''"
definition turboOCIApplyBinary :: string where "turboOCIApplyBinary = overlayBDBinDir @ ''/turboOCI-apply''"

record RegistryConfig =
  reg_Username :: string
  reg_Password :: string
  reg_PlainHTTP :: bool

record RegistryTLSConfig =
  rtls_CertDirs :: "string list"
  rtls_RootCAs :: "string list"
  rtls_ClientCerts :: "string list"
  rtls_Insecure :: bool

record OverlayBDConfig =
  obd_FSType :: string
  obd_Mkfs :: bool
  obd_VSizeGB :: int
  obd_DisableSparse :: bool

record DebugConfig =
  dbg_Reserve :: bool
  dbg_NoUpload :: bool
  dbg_DumpManifest :: bool

record AcceleratorConfig =
  iac_Source :: string
  iac_Target :: string
  iac_Engine :: string
  iac_WorkDir :: string
  iac_OCI :: bool
  iac_Referrer :: bool
  iac_Verbose :: bool
  iac_ConcurrencyLimit :: int
  iac_Registry :: RegistryConfig
  iac_TLS :: RegistryTLSConfig
  iac_OverlayBD :: OverlayBDConfig
  iac_Debug :: DebugConfig

definition DefaultAcceleratorConfig :: AcceleratorConfig where
  "DefaultAcceleratorConfig = \<lparr>iac_Source = [], iac_Target = [], iac_Engine = EngineOverlayBD, iac_WorkDir = defaultWorkDir, iac_OCI = False,
     iac_Referrer = False, iac_Verbose = False, iac_ConcurrencyLimit = defaultConcurrencyLimit,
     iac_Registry = \<lparr>reg_Username = [], reg_Password = [], reg_PlainHTTP = False\<rparr>,
     iac_TLS = \<lparr>rtls_CertDirs = [], rtls_RootCAs = [], rtls_ClientCerts = [], rtls_Insecure = False\<rparr>,
     iac_OverlayBD = \<lparr>obd_FSType = defaultFSType, obd_Mkfs = True, obd_VSizeGB = defaultVSizeGB, obd_DisableSparse = False\<rparr>,
     iac_Debug = \<lparr>dbg_Reserve = False, dbg_NoUpload = False, dbg_DumpManifest = False\<rparr>\<rparr>"

definition LoadAcceleratorConfig :: "file_system \<Rightarrow> AcceleratorConfig yaml \<Rightarrow> string \<Rightarrow> AcceleratorConfig res" where
  "LoadAcceleratorConfig fs decode path =
     load_yaml ''image accelerator'' fs decode DefaultAcceleratorConfig (if TrimSpace path = [] then [] else path)"

definition normalizeEngine :: "string \<Rightarrow> string" where
  "normalizeEngine v = (let name = ToLower (TrimSpace v) in
     if name = [] \<or> name = EngineOverlayBD then EngineOverlayBD
     else if name = ''turbooci'' \<or> name = ''turbo-oci'' then EngineTurboOCI
     else name)"

definition trimStringSlice :: "string list \<Rightarrow> string list" where
  "trimStringSlice vs = filter (\<lambda>v. v \<noteq> []) (map TrimSpace vs)"

definition config_defaults :: "AcceleratorConfig \<Rightarrow> AcceleratorConfig" where
  "config_defaults c = c\<lparr>iac_Source := TrimSpace (iac_Source c), iac_Target := TrimSpace (iac_Target c),
     iac_Engine := or_default (normalizeEngine (iac_Engine c)) EngineOverlayBD,
     iac_WorkDir := or_default (TrimSpace (iac_WorkDir c)) defaultWorkDir,
     iac_OCI := iac_OCI c \<or> iac_Referrer c,
     iac_ConcurrencyLimit := (if iac_ConcurrencyLimit c = 0 then defaultConcurrencyLimit else iac_ConcurrencyLimit c),
     iac_Registry := (iac_Registry c)\<lparr>reg_Username := TrimSpace (reg_Username (iac_Registry c)),
       reg_Password := TrimSpace (reg_Password (iac_Registry c))\<rparr>,
     iac_TLS := (iac_TLS c)\<lparr>rtls_CertDirs := trimStringSlice (rtls_CertDirs (iac_TLS c)), rtls_RootCAs := trimStringSlice (rtls_RootCAs (iac_TLS c)),
       rtls_ClientCerts := trimStringSlice (rtls_ClientCerts (iac_TLS c))\<rparr>,
     iac_OverlayBD := (iac_OverlayBD c)\<lparr>obd_FSType := or_default (TrimSpace (obd_FSType (iac_OverlayBD c))) defaultFSType,
       obd_VSizeGB := (if obd_VSizeGB (iac_OverlayBD c) \<le> 0 then defaultVSizeGB else obd_VSizeGB (iac_OverlayBD c))\<rparr>\<rparr>"

definition config_checks :: "AcceleratorConfig \<Rightarrow> unit res" where
  "config_checks c =
     (if iac_ConcurrencyLimit c < 0 then Inl (ErrorText (msg ''concurrencyLimit must be >= 0''))
      else if iac_Engine c \<noteq> EngineOverlayBD \<and> iac_Engine c \<noteq> EngineTurboOCI
      then Inl (ErrorText (''engine must be one of %q or %q'', [FS EngineOverlayBD, FS EngineTurboOCI]))
      else if iac_Source c = [] then Inl (ErrorText (msg ''source is required''))
      else if iac_Target c = [] then Inl (ErrorText (msg ''target is required''))
      else if iac_Source c = iac_Target c then Inl (ErrorText (msg ''source and target must be different''))
      else if reg_Username (iac_Registry c) = [] \<and> reg_Password (iac_Registry c) \<noteq> []
      then Inl (ErrorText (msg ''registry.username is required when registry.password is set''))
      else if \<not> obd_Mkfs (iac_OverlayBD c) \<and> ToLower (obd_FSType (iac_OverlayBD c)) \<noteq> ''ext4''
      then Inl (ErrorText (msg ''overlaybd.fsType must be ext4 when overlaybd.mkfs is false''))
      else Inr ())"

definition AcceleratorConfig_Normalized :: "(string \<Rightarrow> string res) \<Rightarrow> AcceleratorConfig \<Rightarrow> AcceleratorConfig res" where
  "AcceleratorConfig_Normalized absPath c =
     (let cfg = config_defaults c
      in andThen (config_checks cfg) (\<lambda>_.
         andThen (mapErr (Wrap (''resolve workDir %q: %w'', [FS (iac_WorkDir cfg)])) (absPath (iac_WorkDir cfg))) (\<lambda>absWorkDir.
           Inr (cfg\<lparr>iac_WorkDir := absWorkDir\<rparr>))))"

definition Redacted :: "AcceleratorConfig \<Rightarrow> AcceleratorConfig" where
  "Redacted c = (if reg_Password (iac_Registry c) \<noteq> [] then c\<lparr>iac_Registry := (iac_Registry c)\<lparr>reg_Password := ''***''\<rparr>\<rparr> else c)"

definition registry_auth :: "RegistryConfig \<Rightarrow> string" where
  "registry_auth c = (if reg_Username c = [] then [] else reg_Username c @ '':'' @ reg_Password c)"

section \<open>The run\<close>

definition expectedToolchainPaths :: "AcceleratorConfig \<Rightarrow> string list" where
  "expectedToolchainPaths cfg = [overlayBDCreateBinary, overlayBDCommitBinary, overlayBDApplyBinary]
     @ (if iac_Engine cfg = EngineTurboOCI then [turboOCIApplyBinary] else [])
     @ (if iac_Engine cfg = EngineOverlayBD \<and> \<not> obd_Mkfs (iac_OverlayBD cfg) then [overlayBDBaseLayer] else [])"

text \<open>\<^verbatim>\<open>os.Stat\<close> of a path.\<close>

definition validateToolchainLayout :: "(string \<Rightarrow> unit res) \<Rightarrow> AcceleratorConfig \<Rightarrow> unit res" where
  "validateToolchainLayout stat cfg = checkAll (\<lambda>p. mapErr (Wrap (''official overlaybd userspace convertor expects %s to exist: %w'', [FS p])) (stat p))
     (expectedToolchainPaths cfg)"

datatype BuilderEngine = Overlaybd | TurboOCI

record BuilderOptions =
  bo_Ref :: string
  bo_TargetRef :: string
  bo_Auth :: string
  bo_PlainHTTP :: bool
  bo_WorkDir :: string
  bo_OCI :: bool
  bo_FsType :: string
  bo_Mkfs :: bool
  bo_Vsize :: int
  bo_Engine :: BuilderEngine
  bo_CertOption :: RegistryTLSConfig
  bo_Reserve :: bool
  bo_NoUpload :: bool
  bo_DumpManifest :: bool
  bo_ConcurrencyLimit :: int
  bo_DisableSparse :: bool
  bo_Referrer :: bool

definition builderEngine :: "string \<Rightarrow> BuilderEngine res" where
  "builderEngine name = (if normalizeEngine name = EngineOverlayBD then Inr Overlaybd
     else if normalizeEngine name = EngineTurboOCI then Inr TurboOCI
     else Inl (ErrorText (''unsupported engine %q'', [FS name])))"

definition buildOptions :: "AcceleratorConfig \<Rightarrow> BuilderOptions res" where
  "buildOptions cfg = andThen (builderEngine (iac_Engine cfg)) (\<lambda>engine.
     Inr \<lparr>bo_Ref = iac_Source cfg, bo_TargetRef = iac_Target cfg, bo_Auth = registry_auth (iac_Registry cfg),
       bo_PlainHTTP = reg_PlainHTTP (iac_Registry cfg), bo_WorkDir = iac_WorkDir cfg, bo_OCI = iac_OCI cfg,
       bo_FsType = obd_FSType (iac_OverlayBD cfg), bo_Mkfs = obd_Mkfs (iac_OverlayBD cfg), bo_Vsize = obd_VSizeGB (iac_OverlayBD cfg),
       bo_Engine = engine, bo_CertOption = iac_TLS cfg, bo_Reserve = dbg_Reserve (iac_Debug cfg), bo_NoUpload = dbg_NoUpload (iac_Debug cfg),
       bo_DumpManifest = dbg_DumpManifest (iac_Debug cfg), bo_ConcurrencyLimit = iac_ConcurrencyLimit cfg,
       bo_DisableSparse = obd_DisableSparse (iac_OverlayBD cfg), bo_Referrer = iac_Referrer cfg\<rparr>)"

record 'w builder_host =
  bh_Abs :: "string \<Rightarrow> string res"
  bh_Stat :: "string \<Rightarrow> unit res"
  bh_MkdirAll :: "string \<Rightarrow> ('w, unit) call"
  bh_Build :: "BuilderOptions \<Rightarrow> ('w, unit) call"

definition Accelerator_Run :: "'w builder_host \<Rightarrow> AcceleratorConfig \<Rightarrow> ('w, unit) call" where
  "Accelerator_Run H cfg =
     bindC (liftC (AcceleratorConfig_Normalized (bh_Abs H) cfg)) (\<lambda>normalized.
     bindC (liftC (validateToolchainLayout (bh_Stat H) normalized)) (\<lambda>_.
     bindC (wrapC (''create workDir %s: %w'', [FS (iac_WorkDir normalized)]) (bh_MkdirAll H (iac_WorkDir normalized))) (\<lambda>_.
     bindC (liftC (buildOptions normalized)) (\<lambda>opts.
       wrapC (''convert image %s -> %s: %w'', [FS (iac_Source normalized), FS (iac_Target normalized)]) (bh_Build H opts)))))"

section \<open>Flags\<close>

text \<open>The flags that were given on the command line; a flag that was not given changes nothing.\<close>

record accelerator_flags =
  fl_source :: "string option"
  fl_target :: "string option"
  fl_engine :: "string option"
  fl_workdir :: "string option"
  fl_oci :: "bool option"
  fl_referrer :: "bool option"
  fl_verbose :: "bool option"
  fl_concurrency_limit :: "int option"
  fl_registry_username :: "string option"
  fl_registry_password :: "string option"
  fl_plain_http :: "bool option"
  fl_cert_dir :: "string list option"
  fl_root_ca :: "string list option"
  fl_client_cert :: "string list option"
  fl_insecure :: "bool option"
  fl_fs_type :: "string option"
  fl_mkfs :: "bool option"
  fl_vsize_gb :: "int option"
  fl_disable_sparse :: "bool option"
  fl_reserve :: "bool option"
  fl_no_upload :: "bool option"
  fl_dump_manifest :: "bool option"

definition given :: "'a option \<Rightarrow> 'a \<Rightarrow> 'a" where
  "given v old = (case v of None \<Rightarrow> old | Some x \<Rightarrow> x)"

definition applyOverrides :: "accelerator_flags \<Rightarrow> AcceleratorConfig \<Rightarrow> AcceleratorConfig" where
  "applyOverrides F c = \<lparr>iac_Source = given (fl_source F) (iac_Source c), iac_Target = given (fl_target F) (iac_Target c),
     iac_Engine = given (fl_engine F) (iac_Engine c), iac_WorkDir = given (fl_workdir F) (iac_WorkDir c),
     iac_OCI = given (fl_oci F) (iac_OCI c), iac_Referrer = given (fl_referrer F) (iac_Referrer c),
     iac_Verbose = given (fl_verbose F) (iac_Verbose c), iac_ConcurrencyLimit = given (fl_concurrency_limit F) (iac_ConcurrencyLimit c),
     iac_Registry = \<lparr>reg_Username = given (fl_registry_username F) (reg_Username (iac_Registry c)),
       reg_Password = given (fl_registry_password F) (reg_Password (iac_Registry c)),
       reg_PlainHTTP = given (fl_plain_http F) (reg_PlainHTTP (iac_Registry c))\<rparr>,
     iac_TLS = \<lparr>rtls_CertDirs = given (fl_cert_dir F) (rtls_CertDirs (iac_TLS c)), rtls_RootCAs = given (fl_root_ca F) (rtls_RootCAs (iac_TLS c)),
       rtls_ClientCerts = given (fl_client_cert F) (rtls_ClientCerts (iac_TLS c)), rtls_Insecure = given (fl_insecure F) (rtls_Insecure (iac_TLS c))\<rparr>,
     iac_OverlayBD = \<lparr>obd_FSType = given (fl_fs_type F) (obd_FSType (iac_OverlayBD c)), obd_Mkfs = given (fl_mkfs F) (obd_Mkfs (iac_OverlayBD c)),
       obd_VSizeGB = given (fl_vsize_gb F) (obd_VSizeGB (iac_OverlayBD c)),
       obd_DisableSparse = given (fl_disable_sparse F) (obd_DisableSparse (iac_OverlayBD c))\<rparr>,
     iac_Debug = \<lparr>dbg_Reserve = given (fl_reserve F) (dbg_Reserve (iac_Debug c)), dbg_NoUpload = given (fl_no_upload F) (dbg_NoUpload (iac_Debug c)),
       dbg_DumpManifest = given (fl_dump_manifest F) (dbg_DumpManifest (iac_Debug c))\<rparr>\<rparr>"

text \<open>The command: load, override, normalize, run (which normalizes again).\<close>

definition accelerator_main :: "file_system \<Rightarrow> AcceleratorConfig yaml \<Rightarrow> 'w builder_host \<Rightarrow> string \<Rightarrow> accelerator_flags \<Rightarrow> ('w, unit) call" where
  "accelerator_main fs decode H cfgPath flags =
     bindC (liftC (LoadAcceleratorConfig fs decode cfgPath)) (\<lambda>loaded.
     bindC (liftC (AcceleratorConfig_Normalized (bh_Abs H) (applyOverrides flags loaded))) (\<lambda>normalized.
       Accelerator_Run H normalized))"

section \<open>What an accepted request is\<close>

lemma engines_normal: "normalizeEngine EngineOverlayBD = EngineOverlayBD" "normalizeEngine EngineTurboOCI = EngineTurboOCI"
    "EngineTurboOCI \<noteq> EngineOverlayBD" "EngineOverlayBD \<noteq> []" "EngineTurboOCI \<noteq> []"
  by code_simp+

text \<open>A normalized request always has options for the builder: the engine was checked before, so the run fails for the engine only with
  the message of the configuration.\<close>

lemma Normalized_Inr:
  "AcceleratorConfig_Normalized absPath c = Inr n \<longleftrightarrow> config_checks (config_defaults c) = Inr ()
    \<and> (\<exists>w. absPath (iac_WorkDir (config_defaults c)) = Inr w \<and> n = (config_defaults c)\<lparr>iac_WorkDir := w\<rparr>)"
  by (auto simp: AcceleratorConfig_Normalized_def Let_def result_simps)

lemma config_checks_Inr:
  "config_checks c = Inr () \<longleftrightarrow> 0 \<le> iac_ConcurrencyLimit c \<and> iac_Engine c \<in> {EngineOverlayBD, EngineTurboOCI} \<and> iac_Source c \<noteq> []
    \<and> iac_Target c \<noteq> [] \<and> iac_Source c \<noteq> iac_Target c \<and> (reg_Username (iac_Registry c) = [] \<longrightarrow> reg_Password (iac_Registry c) = [])
    \<and> (\<not> obd_Mkfs (iac_OverlayBD c) \<longrightarrow> ToLower (obd_FSType (iac_OverlayBD c)) = ''ext4'')"
  by (auto simp: config_checks_def)

lemma accepted_engine_builds:
  assumes "AcceleratorConfig_Normalized absPath c = Inr n"
  shows "\<exists>opts. buildOptions n = Inr opts \<and> bo_Ref opts = TrimSpace (iac_Source c) \<and> bo_TargetRef opts = TrimSpace (iac_Target c)
    \<and> bo_Ref opts \<noteq> bo_TargetRef opts \<and> 0 < bo_Vsize opts \<and> 0 < bo_ConcurrencyLimit opts \<and> (bo_Referrer opts \<longrightarrow> bo_OCI opts)"
proof -
  have c: "config_checks (config_defaults c) = Inr ()" using assms by (simp add: Normalized_Inr)
  then have "\<exists>engine. builderEngine (iac_Engine (config_defaults c)) = Inr engine"
    by (auto simp: builderEngine_def engines_normal config_checks_Inr)
  moreover have "0 < iac_ConcurrencyLimit (config_defaults c)" "0 < obd_VSizeGB (iac_OverlayBD (config_defaults c))"
    using c by (auto simp: config_checks_Inr config_defaults_def defaultConcurrencyLimit_def defaultVSizeGB_def)
  moreover have "iac_Source (config_defaults c) \<noteq> iac_Target (config_defaults c)" using c by (simp add: config_checks_Inr)
  ultimately show ?thesis using assms by (auto simp: Normalized_Inr buildOptions_def) (simp_all add: config_defaults_def)
qed

text \<open>A redacted configuration does not depend on the password.\<close>

lemma redacted_hides_password:
  assumes "p \<noteq> []" "q \<noteq> []"
  shows "Redacted (c\<lparr>iac_Registry := (iac_Registry c)\<lparr>reg_Password := p\<rparr>\<rparr>) = Redacted (c\<lparr>iac_Registry := (iac_Registry c)\<lparr>reg_Password := q\<rparr>\<rparr>)"
  using assms by (simp add: Redacted_def)

section \<open>Normalizing twice\<close>

text \<open>\<^verbatim>\<open>filepath.Abs\<close> of a path: absolute, so that a second call returns it. A working directory without white space at its end
  is part of the assumption, because the normalization trims the path again.\<close>

definition abs_stable :: "(string \<Rightarrow> string res) \<Rightarrow> bool" where
  "abs_stable absPath = (\<forall>p q. absPath p = Inr q \<longrightarrow> q \<noteq> [] \<and> trimmed q \<and> absPath q = Inr q)"

lemma trimStringSlice_idem: "trimStringSlice (trimStringSlice vs) = trimStringSlice vs"
  by (induction vs) (simp_all add: trimStringSlice_def)

lemma defaults_again:
  assumes "config_checks (config_defaults c) = Inr ()" "w \<noteq> []" "trimmed w"
  shows "config_defaults ((config_defaults c)\<lparr>iac_WorkDir := w\<rparr>) = (config_defaults c)\<lparr>iac_WorkDir := w\<rparr>"
proof -
  have e: "or_default (normalizeEngine (iac_Engine (config_defaults c))) EngineOverlayBD = iac_Engine (config_defaults c)"
    using assms(1) by (auto simp: config_checks_Inr engines_normal or_default_def)
  have f: "or_default (TrimSpace (or_default (TrimSpace t) defaultFSType)) defaultFSType = or_default (TrimSpace t) defaultFSType" for t
  proof -
    have "TrimSpace defaultFSType = defaultFSType" by code_simp
    then show ?thesis by (simp add: or_default_def)
  qed
  have l: "defaultConcurrencyLimit \<noteq> 0" "\<not> defaultVSizeGB \<le> 0" by (simp_all add: defaultConcurrencyLimit_def defaultVSizeGB_def)
  have d: "or_default (TrimSpace w) defaultWorkDir = w" using assms(2,3) by (simp add: or_default_def TrimSpace_id)
  show ?thesis
    using e l unfolding config_defaults_def by (simp add: f d trimStringSlice_idem)
qed

lemma Normalized_again:
  assumes "abs_stable absPath" "AcceleratorConfig_Normalized absPath c = Inr n"
  shows "AcceleratorConfig_Normalized absPath n = Inr n"
proof -
  from assms(2) obtain w where c: "config_checks (config_defaults c) = Inr ()" "absPath (iac_WorkDir (config_defaults c)) = Inr w"
    and n: "n = (config_defaults c)\<lparr>iac_WorkDir := w\<rparr>" by (auto simp: Normalized_Inr)
  have w: "w \<noteq> []" "trimmed w" "absPath w = Inr w" using assms(1) c(2) by (auto simp: abs_stable_def)
  have "config_checks n = Inr ()" using c(1) by (simp add: n config_checks_Inr)
  moreover have "config_defaults n = n" using defaults_again [OF c(1) w(1,2)] by (simp add: n)
  ultimately show ?thesis using w(3) by (simp add: Normalized_Inr) (simp add: n)
qed


section \<open>A host\<close>

definition plain_host :: "nat builder_host" where
  "plain_host = \<lparr>bh_Abs = (\<lambda>p. Inr ''/work''), bh_Stat = (\<lambda>_. Inr ()), bh_MkdirAll = (\<lambda>_. returnC ()), bh_Build = (\<lambda>_ n. (Inr (), n + 1))\<rparr>"

definition some_flags :: accelerator_flags where
  "some_flags = \<lparr>fl_source = Some ''redis:7 '', fl_target = Some ''redis:7-obd'', fl_engine = None, fl_workdir = None, fl_oci = None,
     fl_referrer = Some True, fl_verbose = None, fl_concurrency_limit = None, fl_registry_username = None, fl_registry_password = None,
     fl_plain_http = None, fl_cert_dir = None, fl_root_ca = None, fl_client_cert = None, fl_insecure = None, fl_fs_type = None, fl_mkfs = None,
     fl_vsize_gb = None, fl_disable_sparse = None, fl_reserve = None, fl_no_upload = None, fl_dump_manifest = None\<rparr>"

abbreviation no_yaml :: "AcceleratorConfig yaml" where "no_yaml \<equiv> \<lambda>_ c. Inr c"

abbreviation no_files :: file_system where "no_files \<equiv> \<lambda>_. Inr []"

lemma some_flags_accepted:
  "LoadAcceleratorConfig no_files no_yaml [] = Inr DefaultAcceleratorConfig"
  "isOk (AcceleratorConfig_Normalized (bh_Abs plain_host) (applyOverrides some_flags DefaultAcceleratorConfig))"
  "snd (accelerator_main no_files no_yaml plain_host [] some_flags 0) = 1"
  by code_simp+


end
