(* ===== verification/Worker_Creation.thy ===== *)
theory Worker_Creation
  imports Service_Admission
begin

text \<open>
  The runtime service of each process (\<^verbatim>\<open>New\<close> of \<^verbatim>\<open>pkg/service/service.go\<close> as \<^verbatim>\<open>cmd/runtime-api\<close> and \<^verbatim>\<open>cmd/activator\<close> call it) and what
  the activator does with its own: it turns a unit it read back into a request for a worker (\<^verbatim>\<open>buildCreateRequest\<close>), which the contract
  has to accept without the package catalog that only the runtime API is configured with.
\<close>

section \<open>The services of the processes\<close>

definition Service_New :: "('w, 'q) KubeClient option \<Rightarrow> 'w OperatorClient option \<Rightarrow> ('w, 'q) Service" where
  "Service_New kubeClient operatorClient = \<lparr>svc_kube = kubeClient, svc_operator = operatorClient, svc_packageCatalog = []\<rparr>"

definition activator_runtime :: "'w OperatorClient \<Rightarrow> ('w, 'q) Service" where
  "activator_runtime operatorClient = Service_New None (Some operatorClient)"

definition runtime_api_service :: "'q k8s \<Rightarrow> ('w, 'q) KubeClient \<Rightarrow> 'w OperatorClient \<Rightarrow> RuntimePackageCatalog \<Rightarrow> ('w, 'q) Service res" where
  "runtime_api_service K kubeClient operatorClient packages =
     (case ConfigureRuntimePackages K packages (Service_New (Some kubeClient) (Some operatorClient)) of
        (Inl e, _) \<Rightarrow> Inl e | (Inr _, S) \<Rightarrow> Inr S)"

section \<open>A worker from a template\<close>

lemma generated_name_normal: "ToLower (TrimSpace (generatedWorkerName r i)) = generatedWorkerName r i" "generatedWorkerName r i \<noteq> []"
proof -
  have "label_shape (generatedWorkerName r i)" using generated_name_label by (simp add: dns1123_label_def)
  then show "generatedWorkerName r i \<noteq> []" by (simp add: label_shape_def)
  show "ToLower (TrimSpace (generatedWorkerName r i)) = generatedWorkerName r i"
    using \<open>label_shape _\<close> by (simp add: label_shape_trimmed label_shape_lower TrimSpace_id)
qed

definition worker_of :: "CreateGPUUnitRequest \<Rightarrow> string \<Rightarrow> CreateGPUUnitRequest" where
  "worker_of r i = (let name = generatedWorkerName (sls_RequestID (cr_Serverless r)) i in
     r\<lparr>cr_OperationID := ''activate-'' @ i, cr_Name := name,
       cr_Allocation := (cr_Allocation r)\<lparr>alloc_ClaimName := GPUUnitNamePrefix @ name @ ''-gpu''\<rparr>\<rparr>)"

lemma worker_wf:
  assumes "k8s_names K" "wf_create K r" "trimmed (''activate-'' @ i)"
  shows "wf_create K (worker_of r i)"
proof -
  have "IsDNS1123Subdomain K (generatedWorkerName q i) = []" for q
    using k8s_names.label_is_subdomain [OF assms(1)] k8s_names.label [OF assms(1)] generated_name_label by blast
  with assms(2,3) show ?thesis
    by (simp add: wf_create_def worker_of_def Let_def wf_allocation_def generated_name_normal)
qed

lemma allocation_for_worker:
  assumes "wf_allocation K a"
  shows "NormalizeDRAAllocation K u ((normalizedUnitAllocation a)\<lparr>alloc_ClaimName := []\<rparr>)
    = Inr (a\<lparr>alloc_ClaimName := GPUUnitNamePrefix @ u @ ''-gpu''\<rparr>)"
  using assms by (cases a) (simp add: NormalizeDRAAllocation_Inr normalizedUnitAllocation_def wf_allocation_def TrimSpace_id or_default_def)

lemma view_of_active:
  "buildCreateRequest (gpuUnitRuntimeFromObject K (buildActiveUnitFromRequest r h)) i
    = (worker_of r i)\<lparr>cr_Allocation := (normalizedUnitAllocation (cr_Allocation r))\<lparr>alloc_ClaimName := []\<rparr>\<rparr>"
  by (cases r) (simp add: buildCreateRequest_def gpuUnitRuntimeFromObject_def buildActiveUnitFromRequest_def worker_of_def Let_def)

lemma expand_without_catalog:
  assumes "ToLower (TrimSpace (cr_PackageID q)) = cr_PackageID q" "TrimSpace (alloc_DeviceClassName (cr_Allocation q)) \<noteq> []"
  shows "expand_step [] q = Inr q"
  using assms by (simp add: expand_step_def Catalog_Lookup_def)


text \<open>The tunnel of the worker is that of its template: the domain was derived from the name of the template when it was created, and
  the worker copies it.\<close>

lemma worker_shares_tunnel_domain:
  "cr_Name (worker_of r i) = generatedWorkerName (sls_RequestID (cr_Serverless r)) i
    \<and> ssh_ClientDomain (cr_SSH (worker_of r i)) = ssh_ClientDomain (cr_SSH r)"
  by (simp add: worker_of_def Let_def)

text \<open>The activator checks no quota, because its service has no Kubernetes client: a request that the runtime API refuses is admitted.\<close>

definition full_quota :: "int ResourceQuota" where
  "full_quota = ref_quota\<lparr>rq_Used := [(''requests.cpu'', 16)]\<rparr>"

definition full_service :: "(mem_world, int) Service" where
  "full_service = mem_service\<lparr>svc_kube := Some \<lparr>kube_ListQuotas = (\<lambda>_ w. (Inr [full_quota], w))\<rparr>\<rparr>"

lemma activator_ignores_quota:
  "case NormalizeCreateGPUUnitRequestWithCatalog ref_k8s ref_request ref_catalog of
     Inl _ \<Rightarrow> False
   | Inr r \<Rightarrow> \<not> isOk (fst (CreateGPUUnit ref_k8s mem_hash full_service r mem_data))
       \<and> isOk (fst (CreateGPUUnit ref_k8s mem_hash (activator_runtime mem_operator) r mem_data))"
  by code_simp

lemma ref_accepted: "case NormalizeCreateGPUUnitRequestWithCatalog ref_k8s ref_request ref_catalog of Inl _ \<Rightarrow> False | Inr r \<Rightarrow> stable_paths r"
  by code_simp


end
