(* ===== verification/Runtime_Collector.thy ===== *)
theory Runtime_Collector
  imports Service_Inventory
begin

text \<open>
  The Prometheus collector over the metrics snapshot (\<^verbatim>\<open>pkg/metrics/runtime_collector.go\<close>). A descriptor is a name and its label
  names; a sample is a descriptor, the values of its labels and a value. Prometheus refuses a collection with two samples of one series, and
  \<^verbatim>\<open>MustNewConstMetric\<close> panics when the number of label values is not that of the descriptor: the theorem excludes both.
\<close>

section \<open>Samples\<close>

record 'f sample =
  smp_Name :: string
  smp_LabelNames :: "string list"
  smp_Labels :: "string list"
  smp_Value :: 'f

type_synonym desc = "string \<times> string list"

definition const_metric :: "desc \<Rightarrow> 'f \<Rightarrow> string list \<Rightarrow> 'f sample" where
  "const_metric d v labels = \<lparr>smp_Name = fst d, smp_LabelNames = snd d, smp_Labels = labels, smp_Value = v\<rparr>"

definition scrapeSuccessDesc :: desc where "scrapeSuccessDesc = (''runtime_metrics_scrape_success'', [])"
definition kubernetesUpDesc :: desc where "kubernetesUpDesc = (''runtime_kubernetes_up'', [])"
definition nodeTotalDesc :: desc where "nodeTotalDesc = (''runtime_kubernetes_nodes_total'', [])"
definition nodeReadyTotalDesc :: desc where "nodeReadyTotalDesc = (''runtime_kubernetes_nodes_ready'', [])"
definition nodeReadyDesc :: desc where "nodeReadyDesc = (''runtime_kubernetes_node_ready'', [''node''])"
definition nodeGPUCapacityDesc :: desc where "nodeGPUCapacityDesc = (''runtime_kubernetes_node_gpu_capacity'', [''node'', ''gpu_product''])"
definition nodeGPUAllocatableDesc :: desc where
  "nodeGPUAllocatableDesc = (''runtime_kubernetes_node_gpu_allocatable'', [''node'', ''gpu_product''])"
definition nvidiaUpDesc :: desc where "nvidiaUpDesc = (''runtime_nvidia_metrics_up'', [])"
definition nvidiaDeviceTotalDesc :: desc where "nvidiaDeviceTotalDesc = (''runtime_nvidia_gpu_devices_total'', [])"
definition device_labels :: "string list" where "device_labels = [''node'', ''gpu'', ''uuid'', ''gpu_product'']"
definition nvidiaMemoryUsedDesc :: desc where "nvidiaMemoryUsedDesc = (''runtime_nvidia_gpu_memory_used_mib'', device_labels)"
definition nvidiaMemoryFreeDesc :: desc where "nvidiaMemoryFreeDesc = (''runtime_nvidia_gpu_memory_free_mib'', device_labels)"
definition nvidiaMemoryTotalDesc :: desc where "nvidiaMemoryTotalDesc = (''runtime_nvidia_gpu_memory_total_mib'', device_labels)"
definition nvidiaUtilizationDesc :: desc where "nvidiaUtilizationDesc = (''runtime_nvidia_gpu_utilization_percent'', device_labels)"
definition unitCountDesc :: desc where "unitCountDesc = (''runtime_gpu_units'', [''lifecycle'', ''phase''])"
definition storageCountDesc :: desc where "storageCountDesc = (''runtime_gpu_storages'', [''phase''])"
definition storagePrepareCountDesc :: desc where "storagePrepareCountDesc = (''runtime_gpu_storage_prepare'', [''phase''])"
definition storageAccessorCountDesc :: desc where "storageAccessorCountDesc = (''runtime_gpu_storage_accessor'', [''phase''])"

lemmas desc_defs = scrapeSuccessDesc_def kubernetesUpDesc_def nodeTotalDesc_def nodeReadyTotalDesc_def nodeReadyDesc_def nodeGPUCapacityDesc_def
  nodeGPUAllocatableDesc_def nvidiaUpDesc_def nvidiaDeviceTotalDesc_def nvidiaMemoryUsedDesc_def nvidiaMemoryFreeDesc_def
  nvidiaMemoryTotalDesc_def nvidiaUtilizationDesc_def unitCountDesc_def storageCountDesc_def storagePrepareCountDesc_def
  storageAccessorCountDesc_def device_labels_def

definition Describe :: "desc list" where
  "Describe = [scrapeSuccessDesc, kubernetesUpDesc, nodeTotalDesc, nodeReadyTotalDesc, nodeReadyDesc, nodeGPUCapacityDesc, nodeGPUAllocatableDesc,
     nvidiaUpDesc, nvidiaDeviceTotalDesc, nvidiaMemoryUsedDesc, nvidiaMemoryFreeDesc, nvidiaMemoryTotalDesc, nvidiaUtilizationDesc, unitCountDesc,
     storageCountDesc, storagePrepareCountDesc, storageAccessorCountDesc]"

section \<open>Collecting\<close>

definition boolToFloat64 :: "'f floats \<Rightarrow> bool \<Rightarrow> 'f" where
  "boolToFloat64 F b = (if b then fl_of_int F 1 else fl_of_int F 0)"

definition collect_node :: "'f floats \<Rightarrow> RuntimeNodeMetrics \<Rightarrow> 'f sample list" where
  "collect_node F node = const_metric nodeReadyDesc (boolToFloat64 F (rnm_Ready node)) [rnm_Name node] #
     (if rnm_GPUCapacity node \<le> 0 \<and> rnm_GPUAllocatable node \<le> 0 then []
      else let product = or_default (rnm_GPUProduct node) ''unknown''
           in [const_metric nodeGPUCapacityDesc (fl_of_int F (rnm_GPUCapacity node)) [rnm_Name node, product],
               const_metric nodeGPUAllocatableDesc (fl_of_int F (rnm_GPUAllocatable node)) [rnm_Name node, product]])"

definition device_series :: "'f RuntimeGPUDeviceMetrics \<Rightarrow> string list" where
  "device_series d = [gdm_NodeName d, gdm_GPU d, gdm_UUID d, or_default (gdm_Product d) ''unknown'']"

definition collect_device :: "'f RuntimeGPUDeviceMetrics \<Rightarrow> 'f sample list" where
  "collect_device d = [const_metric nvidiaMemoryUsedDesc (gdm_UsedMemoryMiB d) (device_series d),
     const_metric nvidiaMemoryFreeDesc (gdm_FreeMemoryMiB d) (device_series d),
     const_metric nvidiaMemoryTotalDesc (gdm_TotalMemoryMiB d) (device_series d),
     const_metric nvidiaUtilizationDesc (gdm_UtilizationPercent d) (device_series d)]"

definition collectPhaseMap :: "'f floats \<Rightarrow> desc \<Rightarrow> (string \<times> int) list \<Rightarrow> 'f sample list" where
  "collectPhaseMap F d counts = map (\<lambda>(phase, n). const_metric d (fl_of_int F n) [phase]) (sort_key fst counts)"

definition collect_units :: "'f floats \<Rightarrow> ((string \<times> string) \<times> int) list \<Rightarrow> 'f sample list" where
  "collect_units F counts = map (\<lambda>((lifecycle, phase), n). const_metric unitCountDesc (fl_of_int F n) [lifecycle, phase])
     (sort_key (\<lambda>((lifecycle, phase), _). [lifecycle, phase]) counts)"

definition Collect :: "'f floats \<Rightarrow> 'f RuntimeMetricsSnapshot \<Rightarrow> error option \<Rightarrow> 'f sample list" where
  "Collect F s err =
     [const_metric scrapeSuccessDesc (boolToFloat64 F (err = None)) [],
      const_metric kubernetesUpDesc (boolToFloat64 F (nis_Connected (rms_Nodes s))) [],
      const_metric nodeTotalDesc (fl_of_int F (nis_NodeCount (rms_Nodes s))) [],
      const_metric nodeReadyTotalDesc (fl_of_int F (nis_ReadyNodeCount (rms_Nodes s))) [],
      const_metric nvidiaUpDesc (boolToFloat64 F (nts_Connected (rms_Telemetry s))) [],
      const_metric nvidiaDeviceTotalDesc (fl_of_int F (nts_DeviceCount (rms_Telemetry s))) []]
     @ concat (map (collect_node F) (nis_Nodes (rms_Nodes s)))
     @ concat (map collect_device (nts_Devices (rms_Telemetry s)))
     @ collect_units F (rms_UnitCounts s)
     @ collectPhaseMap F storageCountDesc (rms_StoragePhases s)
     @ collectPhaseMap F storagePrepareCountDesc (rms_StoragePrepare s)
     @ collectPhaseMap F storageAccessorCountDesc (rms_StorageAccessor s)"

section \<open>No series twice\<close>

definition series :: "'f sample \<Rightarrow> string \<times> string list" where
  "series x = (smp_Name x, smp_Labels x)"

lemma series_const [simp]: "series (const_metric d v ls) = (fst d, ls)"
  by (simp add: series_def const_metric_def)

lemma distinct_concat_keyed:
  assumes "distinct (map k xs)" "\<And>x. x \<in> set xs \<Longrightarrow> distinct (f x)" "\<And>x y. x \<in> set xs \<Longrightarrow> y \<in> set (f x) \<Longrightarrow> key y = k x"
  shows "distinct (concat (map f xs))"
  using assms
proof (induction xs)
  case (Cons x xs)
  have "set (f x) \<inter> set (concat (map f xs)) = {}"
  proof (rule ccontr)
    assume "set (f x) \<inter> set (concat (map f xs)) \<noteq> {}"
    then obtain y z where "y \<in> set (f x)" "z \<in> set xs" "y \<in> set (f z)" by auto
    with Cons.prems(3) [of x y] Cons.prems(3) [of z y] have "k x = k z" by simp
    with Cons.prems(1) \<open>z \<in> set xs\<close> show False by auto
  qed
  with Cons show ?case by simp
qed simp

lemma distinct_sort_key: "distinct (map f xs) \<Longrightarrow> distinct (map f (sort_key g xs))"
  by (metis mset_map mset_sort mset_eq_imp_distinct_iff)

section \<open>The devices of a scrape\<close>

definition dev_key :: "'f RuntimeGPUDeviceMetrics \<Rightarrow> device_label" where
  "dev_key d = (gdm_NodeName d, gdm_GPU d, gdm_UUID d, gdm_Product d)"

definition keyed :: "'f device_map \<Rightarrow> bool" where
  "keyed devices = (distinct (map fst devices) \<and> (\<forall>(k, d) \<in> set devices. dev_key d = k))"

lemma set_update_subset: "set (AList.update k v m) \<subseteq> insert (k, v) (set m)"
  by (induction m) auto

lemma new_device_key: "dev_key (new_device F k) = k"
  by (cases k) (simp add: dev_key_def new_device_def)

lemma upsert_keyed:
  assumes "keyed devices"
  shows "keyed (upsertGPUDeviceMetric F devices metric)"
proof -
  let ?k = "gpuDeviceMetricKey metric"
  have "keyed (AList.update ?k (new_device F ?k) devices)"
    using assms set_update_subset [of ?k "new_device F ?k" devices] by (auto simp: keyed_def distinct_update new_device_key)
  with assms show ?thesis by (simp add: upsertGPUDeviceMetric_def Let_def split: option.splits)
qed

lemma gauge_step_keyed:
  assumes "keyed devices" "\<And>v d. dev_key (apply_to v d) = dev_key d"
  shows "keyed (gauge_step F apply_to metric devices)"
proof -
  have "keyed (map (\<lambda>(k, d). (k, if k = key then apply_to v d else d)) ds)" if "keyed ds" for key v ds
    using that assms(2) by (auto simp: keyed_def split_beta comp_def)
  with upsert_keyed [OF assms(1), of F metric] show ?thesis by (simp add: gauge_step_def Let_def split: option.splits)
qed

lemma applyGaugeMetrics_keyed:
  assumes "keyed devices" "\<And>v d. dev_key (apply_to v d) = dev_key d"
  shows "keyed (applyGaugeMetrics F family apply_to devices)"
proof -
  have "keyed (fold (gauge_step F apply_to) metrics ds)" if "keyed ds" for metrics ds
    using that
  proof (induction metrics arbitrary: ds)
    case (Cons m ms)
    from Cons.IH [OF gauge_step_keyed [OF Cons.prems assms(2)]] show ?case by simp
  qed simp
  with assms(1) show ?thesis by (simp add: applyGaugeMetrics_def split: option.splits)
qed

lemma scraped_keyed: "keyed (scraped_devices F families)"
  unfolding scraped_devices_def by (intro applyGaugeMetrics_keyed) (simp_all add: keyed_def dev_key_def)

lemma device_fold: "nts_Devices (fold (device_step F) ds s) = nts_Devices s @ map (total_memory F) ds"
  by (induction ds arbitrary: s) (simp_all add: device_step_def Let_def)

lemma total_memory_key: "dev_key (total_memory F d) = dev_key d"
  by (simp add: total_memory_def dev_key_def)

lemma keyed_labels:
  assumes "keyed ds" "mset es = mset ds"
  shows "distinct (map dev_key (map (total_memory F) (map snd es)))"
proof -
  have "dev_key (snd e) = fst e" if "e \<in> set es" for e
    using assms(1) that mset_eq_setD [OF assms(2)] by (auto simp: keyed_def)
  then have "map dev_key (map (total_memory F) (map snd es)) = map fst es" by (simp add: total_memory_key comp_def)
  moreover have "distinct (map fst es)"
  proof (rule mset_eq_imp_distinct_iff [THEN iffD1])
    show "mset (map fst ds) = mset (map fst es)" by (simp add: assms(2))
    show "distinct (map fst ds)" using assms(1) by (simp add: keyed_def)
  qed
  ultimately show ?thesis by (simp only:)
qed

lemma telemetry_devices:
  assumes "collectNvidiaTelemetry F order E w = ((t, err), w')" "\<And>ds. mset (order ds) = mset ds"
  shows "distinct (map dev_key (nts_Devices t))"
proof -
  consider "nts_Devices t = []"
    | families where "nts_Devices t = sort_key (\<lambda>d. [gdm_NodeName d, gdm_GPU d]) (map (total_memory F) (map snd (order (scraped_devices F families))))"
    using assms(1)
    by (auto simp: collectNvidiaTelemetry_def zero_telemetry_def Let_def device_fold split: if_splits sum.splits prod.splits)
  then show ?thesis
    by cases (simp_all only: distinct_sort_key [OF keyed_labels [OF scraped_keyed assms(2)]] list.map distinct.simps)
qed

lemma series_of_key:
  assumes "distinct (map dev_key ds)" "\<forall>d \<in> set ds. gdm_Product d \<noteq> ''unknown''"
  shows "distinct (map device_series ds)"
  using assms unfolding distinct_map
  by (auto simp: inj_on_def device_series_def or_default_def dev_key_def split: if_splits)

definition consistent_snapshot :: "'f RuntimeMetricsSnapshot \<Rightarrow> bool" where
  "consistent_snapshot s = (distinct (map rnm_Name (nis_Nodes (rms_Nodes s))) \<and> distinct (map device_series (nts_Devices (rms_Telemetry s)))
     \<and> distinct (map fst (rms_UnitCounts s)) \<and> distinct (map fst (rms_StoragePhases s)) \<and> distinct (map fst (rms_StoragePrepare s))
     \<and> distinct (map fst (rms_StorageAccessor s)))"

lemma phase_series: "map series (collectPhaseMap F d counts) = map (\<lambda>c. (fst d, [fst c])) (sort_key fst counts)"
  by (simp add: collectPhaseMap_def split_beta comp_def)

lemma unit_series: "map series (collect_units F counts)
    = map (\<lambda>c. (fst unitCountDesc, [fst (fst c), snd (fst c)])) (sort_key (\<lambda>((lifecycle, phase), _). [lifecycle, phase]) counts)"
  by (simp add: collect_units_def split_beta comp_def)

lemma distinct_map_via: "distinct (map k xs) \<Longrightarrow> inj g \<Longrightarrow> distinct (map (\<lambda>x. g (k x)) xs)"
  using distinct_map [of g "map k xs"] by (simp add: comp_def) (meson inj_on_subset subset_UNIV)

lemma phase_distinct: "distinct (map fst counts) \<Longrightarrow> distinct (map series (collectPhaseMap F d counts))"
  unfolding phase_series by (rule distinct_map_via [where g = "\<lambda>k. (fst d, [k])"]) (auto simp: distinct_sort_key inj_def)

lemma unit_distinct: "distinct (map fst counts) \<Longrightarrow> distinct (map series (collect_units F counts))"
  unfolding unit_series
  by (rule distinct_map_via [where g = "\<lambda>k. (fst unitCountDesc, [fst k, snd k])" and k = fst]) (auto simp: distinct_sort_key inj_def prod_eq_iff)

lemma node_distinct:
  assumes "distinct (map rnm_Name nodes)"
  shows "distinct (map series (concat (map (collect_node F) nodes)))"
  unfolding map_concat map_map
  by (rule distinct_concat_keyed [OF assms, where key = "\<lambda>s. hd (snd s)"])
    (auto simp: collect_node_def desc_defs Let_def split: if_splits)

lemma device_distinct:
  assumes "distinct (map device_series devices)"
  shows "distinct (map series (concat (map collect_device devices)))"
  unfolding map_concat map_map
  by (rule distinct_concat_keyed [OF assms, where key = snd]) (auto simp: collect_device_def desc_defs)

lemma sample_names:
  "x \<in> set (concat (map (collect_node F) nodes)) \<Longrightarrow> smp_Name x \<in> {fst nodeReadyDesc, fst nodeGPUCapacityDesc, fst nodeGPUAllocatableDesc}"
  "y \<in> set (concat (map collect_device devices)) \<Longrightarrow> smp_Name y \<in> {fst nvidiaMemoryUsedDesc, fst nvidiaMemoryFreeDesc, fst nvidiaMemoryTotalDesc, fst nvidiaUtilizationDesc}"
  "z \<in> set (collect_units F counts) \<Longrightarrow> smp_Name z = fst unitCountDesc"
  "v \<in> set (collectPhaseMap F d phases) \<Longrightarrow> smp_Name v = fst d"
  by (auto simp: collect_node_def collect_device_def collect_units_def collectPhaseMap_def const_metric_def Let_def split: if_splits)

lemma distinct_series_append:
  assumes "distinct (map series xs)" "distinct (map series ys)" "smp_Name ` set xs \<subseteq> A" "smp_Name ` set ys \<subseteq> B" "A \<inter> B = {}"
  shows "distinct (map series (xs @ ys))" "smp_Name ` set (xs @ ys) \<subseteq> A \<union> B"
proof -
  have "series x \<noteq> series y" if "x \<in> set xs" "y \<in> set ys" for x y
    using assms(3-5) that unfolding series_def by blast
  then have "series ` set xs \<inter> series ` set ys = {}" by (intro equals0I) (elim IntE imageE, metis)
  with assms(1,2) show "distinct (map series (xs @ ys))" by simp
  show "smp_Name ` set (xs @ ys) \<subseteq> A \<union> B" using assms(3,4) by auto
qed

lemma heads_distinct:
  "distinct (map series [const_metric scrapeSuccessDesc a [], const_metric kubernetesUpDesc b [], const_metric nodeTotalDesc c [],
     const_metric nodeReadyTotalDesc d [], const_metric nvidiaUpDesc e [], const_metric nvidiaDeviceTotalDesc f []])"
  by (simp add: desc_defs)

definition described :: "'f sample \<Rightarrow> bool" where
  "described x = (length (smp_Labels x) = length (smp_LabelNames x) \<and> (smp_Name x, smp_LabelNames x) \<in> set Describe)"

lemma described_const [simp]: "described (const_metric d v ls) = (length ls = length (snd d) \<and> d \<in> set Describe)"
  by (simp add: described_def const_metric_def)

lemma descriptors: "{scrapeSuccessDesc, kubernetesUpDesc, nodeTotalDesc, nodeReadyTotalDesc, nodeReadyDesc, nodeGPUCapacityDesc,
    nodeGPUAllocatableDesc, nvidiaUpDesc, nvidiaDeviceTotalDesc, nvidiaMemoryUsedDesc, nvidiaMemoryFreeDesc, nvidiaMemoryTotalDesc,
    nvidiaUtilizationDesc, unitCountDesc, storageCountDesc, storagePrepareCountDesc, storageAccessorCountDesc} = set Describe"
  by (simp add: Describe_def)

lemma label_counts:
  "length (snd scrapeSuccessDesc) = 0" "length (snd kubernetesUpDesc) = 0" "length (snd nodeTotalDesc) = 0" "length (snd nodeReadyTotalDesc) = 0"
  "length (snd nodeReadyDesc) = 1" "length (snd nodeGPUCapacityDesc) = 2" "length (snd nodeGPUAllocatableDesc) = 2"
  "length (snd nvidiaUpDesc) = 0" "length (snd nvidiaDeviceTotalDesc) = 0" "length (snd nvidiaMemoryUsedDesc) = 4"
  "length (snd nvidiaMemoryFreeDesc) = 4" "length (snd nvidiaMemoryTotalDesc) = 4" "length (snd nvidiaUtilizationDesc) = 4"
  "length (snd unitCountDesc) = 2" "length (snd storageCountDesc) = 1" "length (snd storagePrepareCountDesc) = 1"
  "length (snd storageAccessorCountDesc) = 1"
  by (simp_all add: desc_defs)

lemmas described_simps = label_counts descriptors [symmetric]

lemma node_described: "list_all described (collect_node F n)"
  by (simp add: collect_node_def Let_def described_simps del: One_nat_def)

lemma device_described: "list_all described (collect_device d)"
  by (simp add: collect_device_def device_series_def described_simps)

lemma unit_described: "list_all described (collect_units F counts)"
  by (simp add: collect_units_def list_all_iff split_beta described_simps)

lemma phase_described: "desc \<in> set Describe \<Longrightarrow> length (snd desc) = 1 \<Longrightarrow> list_all described (collectPhaseMap F desc phases)"
  by (simp add: collectPhaseMap_def list_all_iff split_beta)

lemma list_all_concat_map: "(\<And>x. list_all P (f x)) \<Longrightarrow> list_all P (concat (map f xs))"
  by (induction xs) simp_all

lemma collect_described: "list_all described (Collect F s err)"
  unfolding Collect_def list_all_append
  by (intro conjI list_all_concat_map node_described device_described unit_described phase_described)
    (simp_all add: described_simps)

lemma consistent_scrape:
  assumes "consistent_snapshot s"
  shows "distinct (map series (Collect F s err))"
proof -
  let ?n = "concat (map (collect_node F) (nis_Nodes (rms_Nodes s)))" and ?d = "concat (map collect_device (nts_Devices (rms_Telemetry s)))"
  let ?u = "collect_units F (rms_UnitCounts s)" and ?p = "collectPhaseMap F storageCountDesc (rms_StoragePhases s)"
  let ?q = "collectPhaseMap F storagePrepareCountDesc (rms_StoragePrepare s)" and ?a = "collectPhaseMap F storageAccessorCountDesc (rms_StorageAccessor s)"
  have parts: "distinct (map series ?n)" "distinct (map series ?d)" "distinct (map series ?u)" "distinct (map series ?p)"
    "distinct (map series ?q)" "distinct (map series ?a)"
    using assms by (simp_all add: consistent_snapshot_def node_distinct device_distinct unit_distinct phase_distinct del: map_concat)
  have names: "smp_Name ` set ?n \<subseteq> {fst nodeReadyDesc, fst nodeGPUCapacityDesc, fst nodeGPUAllocatableDesc}"
    "smp_Name ` set ?d \<subseteq> {fst nvidiaMemoryUsedDesc, fst nvidiaMemoryFreeDesc, fst nvidiaMemoryTotalDesc, fst nvidiaUtilizationDesc}"
    "smp_Name ` set ?u \<subseteq> {fst unitCountDesc}" "smp_Name ` set ?p \<subseteq> {fst storageCountDesc}"
    "smp_Name ` set ?q \<subseteq> {fst storagePrepareCountDesc}" "smp_Name ` set ?a \<subseteq> {fst storageAccessorCountDesc}"
    using sample_names by blast+
  note join5 = distinct_series_append [OF parts(5,6) names(5,6)]
  have n5: "{fst storagePrepareCountDesc} \<inter> {fst storageAccessorCountDesc} = {}" by (simp add: desc_defs)
  note join4 = distinct_series_append [OF parts(4) join5(1) [OF n5] names(4) join5(2) [OF n5]]
  have n4: "{fst storageCountDesc} \<inter> ({fst storagePrepareCountDesc} \<union> {fst storageAccessorCountDesc}) = {}" by (simp add: desc_defs)
  note join3 = distinct_series_append [OF parts(3) join4(1) [OF n4] names(3) join4(2) [OF n4]]
  have n3: "{fst unitCountDesc} \<inter> ({fst storageCountDesc} \<union> ({fst storagePrepareCountDesc} \<union> {fst storageAccessorCountDesc})) = {}"
    by (simp add: desc_defs)
  note join2 = distinct_series_append [OF parts(2) join3(1) [OF n3] names(2) join3(2) [OF n3]]
  note join1 = distinct_series_append [OF parts(1) join2(1) names(1) join2(2)]
  note join0 = distinct_series_append [OF heads_distinct join1(1) order_refl join1(2)]
  show "distinct (map series (Collect F s err))"
    unfolding Collect_def by (rule join0(1)) (simp_all add: desc_defs const_metric_def)
qed

section \<open>The snapshot of the service\<close>

text \<open>The law of the API server: the nodes of a list have different names.\<close>

definition nodes_named :: "('w, 'q, 'f) inventory_env \<Rightarrow> bool" where
  "nodes_named E = (\<forall>w nodes w'. ie_ListNodes E w = (Inr nodes, w') \<longrightarrow> distinct (map node_Name nodes))"

lemma node_fold_names:
  "nis_Nodes (fst (fold (node_step K) nodes st)) = nis_Nodes (fst st) @ map (node_metrics K) nodes"
  by (induction nodes arbitrary: st) (simp_all add: node_step_def Let_def)

lemma inventory_names:
  assumes "nodes_named E" "collectNodeInventory K E S w = ((s, e), w')"
  shows "distinct (map rnm_Name (nis_Nodes s))"
proof -
  have names: "distinct (map rnm_Name (sort_key rnm_Name (map (node_metrics K) nodes)))" if "ie_ListNodes E w = (Inr nodes, w1)" for nodes w1
    using assms(1) [unfolded nodes_named_def, rule_format, OF that] by (intro distinct_sort_key) (simp add: node_metrics_def comp_def)
  obtain r w2 where l: "ie_ListNodes E w = (r, w2)" by (cases "ie_ListNodes E w")
  consider "nis_Nodes s = []" | nodes w1 where "ie_ListNodes E w = (Inr nodes, w1)" "nis_Nodes s = sort_key rnm_Name (map (node_metrics K) nodes)"
    using assms(2) node_fold_names [of K]
    by (cases r) (auto simp: collectNodeInventory_def zero_inventory_def l split_beta Let_def split: option.splits)
  then show ?thesis by cases (simp_all add: names)
qed

lemma counts_distinct: "distinct (map fst (fold (\<lambda>y. count_up (key y)) ys []))"
  by (rule distinct_fold_update) (simp_all add: count_up_distinct)

lemma unit_counts_distinct: "collectRuntimeUnitPhaseCounts S w = ((counts, n, e), w') \<Longrightarrow> distinct (map fst counts)"
  by (auto simp: collectRuntimeUnitPhaseCounts_def counts_distinct split: option.splits sum.splits prod.splits)

lemma storage_counts_distinct:
  "collectStoragePhaseCounts S w = ((phases, prepare, accessor, e), w')
    \<Longrightarrow> distinct (map fst phases) \<and> distinct (map fst prepare) \<and> distinct (map fst accessor)"
  by (auto simp: collectStoragePhaseCounts_def counts_distinct split: option.splits sum.splits prod.splits)

lemma snapshot_consistent:
  assumes "runtimeMetricsSnapshot K F order E S w = ((s, err), w')" "nodes_named E" "\<And>ds. mset (order ds) = mset ds"
    and "\<forall>d \<in> set (nts_Devices (rms_Telemetry s)). gdm_Product d \<noteq> ''unknown''"
  shows "consistent_snapshot s"
proof -
  from assms(1) obtain nodes e1 w1 telemetry e2 w2 counts n e3 w3 phases prepare accessor e4 w4 where
    c: "collectNodeInventory K E S w = ((nodes, e1), w1)" "collectNvidiaTelemetry F order E w1 = ((telemetry, e2), w2)"
      "collectRuntimeUnitPhaseCounts S w2 = ((counts, n, e3), w3)" "collectStoragePhaseCounts S w3 = ((phases, prepare, accessor, e4), w4)"
    and s: "s = \<lparr>rms_Nodes = nodes, rms_Telemetry = telemetry, rms_UnitCounts = counts, rms_StoragePhases = phases,
      rms_StoragePrepare = prepare, rms_StorageAccessor = accessor\<rparr>"
    by (auto simp: runtimeMetricsSnapshot_def split: prod.splits)
  show ?thesis
    using inventory_names [OF assms(2) c(1)] series_of_key [OF telemetry_devices [OF c(2) assms(3)]] assms(4) unit_counts_distinct [OF c(3)]
      storage_counts_distinct [OF c(4)]
    by (simp add: consistent_snapshot_def s)
qed


section \<open>A scrape\<close>

definition int_floats :: "int floats" where
  "int_floats = \<lparr>fl_zero = 0, fl_add = (+), fl_div = (div), fl_of_int = (\<lambda>i. i), fl_less = (<), fl_eq = (=)\<rparr>"

definition sample_families :: "int families" where
  "sample_families name = (if name = ''DCGM_FI_DEV_FB_USED'' then
     Some [\<lparr>metric_Labels = [(''Hostname'', ''b''), (''gpu'', ''0''), (''UUID'', ''u0''), (''modelName'', ''A100'')], metric_Gauge = Some 10\<rparr>,
           \<lparr>metric_Labels = [(''Hostname'', ''b''), (''gpu'', ''1''), (''UUID'', ''u1'')], metric_Gauge = Some 20\<rparr>] else None)"

definition scrape_env :: "(mem_world, int, int) inventory_env" where
  "scrape_env = node_env\<lparr>ie_Endpoint := ''http://dcgm:9400/metrics'', ie_Get := (\<lambda>_. returnC (200, Inr sample_families))\<rparr>"

abbreviation scraped :: "int RuntimeMetricsSnapshot \<times> error option" where
  "scraped \<equiv> fst (runtimeMetricsSnapshot ref_k8s int_floats (\<lambda>ds. ds) scrape_env inventory_service no_objects)"

lemma scraped_products: "map gdm_Product (nts_Devices (rms_Telemetry (fst scraped))) = [''A100'', '''']"
  by code_simp


end
