(* ===== verification/Process_Startup.thy ===== *)
theory Process_Startup
  imports Service_Serverless Sidecar_Roundtrip Process_Config Worker_Creation Runtime_Collector
begin

text \<open>
  How the processes start: the connection to the queue (\<^verbatim>\<open>NewNATSPublisher\<close> of \<^verbatim>\<open>pkg/serverless/nats.go\<close>) and the settings that
  \<^verbatim>\<open>cmd/controller-manager\<close>, \<^verbatim>\<open>cmd/runtime-api\<close> and \<^verbatim>\<open>cmd/activator\<close> hand to their parts. The NATS client is a parameter; a connection
  is closed by a function on the world.
\<close>

section \<open>Connecting\<close>

datatype RetentionPolicy = LimitsPolicy | InterestPolicy | WorkQueuePolicy
datatype StorageType = FileStorage | MemoryStorage

record StreamConfig =
  stream_Name :: string
  stream_Description :: string
  stream_Subjects :: "string list"
  stream_Retention :: RetentionPolicy
  stream_Storage :: StorageType
  stream_Replicas :: int
  stream_MaxAge :: duration
  stream_Duplicates :: duration

record ('w, 'c, 'n) nats_client =
  nc_Connect :: "string \<Rightarrow> 'c nats_option list \<Rightarrow> ('w, 'n) call"
  nc_JetStream :: "'n \<Rightarrow> duration \<Rightarrow> ('w, unit) call"
  nc_CreateOrUpdateStream :: "'n \<Rightarrow> StreamConfig \<Rightarrow> ('w, unit) call"
  nc_Close :: "'n \<Rightarrow> 'w \<Rightarrow> 'w"

text \<open>The durations were checked by the normalization, and the code ignores a second error: it would be zero.\<close>

definition parsed_duration :: "string \<Rightarrow> duration" where
  "parsed_duration s = (case ParseDuration s of None \<Rightarrow> 0 | Some d \<Rightarrow> d)"

definition queue_stream :: "NATSConfig \<Rightarrow> StreamConfig" where
  "queue_stream normalized = \<lparr>stream_Name = nats_StreamName normalized,
     stream_Description = ''Queue-first serverless ingress, worker dispatch, results, and metrics.'',
     stream_Subjects = StreamSubjects (nats_SubjectPrefix normalized), stream_Retention = LimitsPolicy, stream_Storage = FileStorage,
     stream_Replicas = nats_StreamReplicas normalized,
     stream_MaxAge = parsed_duration (nats_StreamMaxAge normalized), stream_Duplicates = parsed_duration (nats_DuplicatesWindow normalized)\<rparr>"

text \<open>A failing step closes the connection before the error is returned.\<close>

definition close_on_error :: "('w, 'c, 'n) nats_client \<Rightarrow> 'n \<Rightarrow> message \<Rightarrow> ('w, unit) call \<Rightarrow> ('w, unit) call" where
  "close_on_error N nc m f w = (case f w of (Inl e, w') \<Rightarrow> (Inl (Wrap m e), nc_Close N nc w') | (Inr x, w') \<Rightarrow> (Inr x, w'))"

definition NewNATSPublisher :: "'q k8s \<Rightarrow> 'c cert_lib \<Rightarrow> file_system \<Rightarrow> ('w, 'c, 'n) nats_client \<Rightarrow> NATSConfig
    \<Rightarrow> ('w, ('n \<times> NATSConfig) option) call" where
  "NewNATSPublisher K L fs N cfg =
     bindC (liftC (NATSConfig_Normalized K cfg)) (\<lambda>normalized.
     if \<not> NATSConfig_Enabled normalized then returnC None
     else
       let connectTimeout = parsed_duration (nats_ConnectTimeout normalized)
       in bindC (liftC (natsConnectOptions L fs normalized connectTimeout)) (\<lambda>connectOptions.
          bindC (wrapC (''connect to nats %s: %w'', [FS (nats_URL normalized)]) (nc_Connect N (nats_URL normalized) connectOptions)) (\<lambda>nc.
          bindC (close_on_error N nc (msg ''create jetstream context: %w'') (nc_JetStream N nc connectTimeout)) (\<lambda>_.
          bindC (close_on_error N nc (''create or update stream %s: %w'', [FS (nats_StreamName normalized)])
              (nc_CreateOrUpdateStream N nc (queue_stream normalized))) (\<lambda>_.
            returnC (Some (nc, normalized)))))))"

definition Publisher_Enabled :: "('n \<times> NATSConfig) option \<Rightarrow> bool" where
  "Publisher_Enabled p = (p \<noteq> None)"

definition Publisher_Close :: "('w, 'c, 'n) nats_client \<Rightarrow> ('n \<times> NATSConfig) option \<Rightarrow> 'w \<Rightarrow> 'w" where
  "Publisher_Close N p w = (case p of None \<Rightarrow> w | Some (nc, _) \<Rightarrow> nc_Close N nc w)"

text \<open>The ways an opening ends.\<close>

lemma publisher_cases:
  assumes "NewNATSPublisher K L fs N cfg w = (r, w')"
  obtains (unset) n where "NATSConfig_Normalized K cfg = Inr n" "\<not> NATSConfig_Enabled n" "r = Inr None" "w' = w"
    | (same) e where "r = Inl e" "w' = w"
    | (refused) e url opts e' where "r = Inl e" "nc_Connect N url opts w = (Inl e', w')"
    | (closed) e url opts nc w1 w2 where "r = Inl e" "nc_Connect N url opts w = (Inr nc, w1)" "w' = nc_Close N nc w2"
    | (bound) n nc w1 where "NATSConfig_Normalized K cfg = Inr n" "nc_CreateOrUpdateStream N nc (queue_stream n) w1 = (Inr (), w')"
        "r = Inr (Some (nc, n))"
  using assms unfolding NewNATSPublisher_def
  by (cases "NATSConfig_Normalized K cfg")
    (auto simp: bindC_def wrapC_def tryC_def close_on_error_def Let_def split: if_splits sum.splits prod.splits)

text \<open>C40. A process either publishes into a stream that stores everything it publishes, or publishes nothing and leaves no connection
  behind: a publisher is returned only after its stream was set up over the same connection, with bindings that cover the subjects of
  invocations, dispatches, results, metrics and dead letters; without an address the process goes on without a queue; and an error after
  connecting closes the connection.\<close>

theorem publisher_bound_to_stream:
  assumes "NewNATSPublisher K L fs N cfg w = (r, w')"
  shows "case r of
      Inr None \<Rightarrow> w' = w
    | Inr (Some (nc, n)) \<Rightarrow> NATSConfig_Normalized K cfg = Inr n
        \<and> (\<exists>w1. nc_CreateOrUpdateStream N nc (queue_stream n) w1 = (Inr (), w'))
        \<and> (prefix_ok (nats_SubjectPrefix n) \<longrightarrow> NormalizeRequestID raw = Inr q \<longrightarrow>
            (\<forall>s \<in> {InvocationSubject (nats_SubjectPrefix n) q, DispatchSubject (nats_SubjectPrefix n) q worker, ResultSubject (nats_SubjectPrefix n) q,
              MetricsSubject (nats_SubjectPrefix n) q, DeadLetterSubject (nats_SubjectPrefix n) src q}.
              \<exists>b \<in> set (stream_Subjects (queue_stream n)). subject_matches b s))
    | Inl e \<Rightarrow> w' = w \<or> (\<exists>url opts e'. nc_Connect N url opts w = (Inl e', w'))
        \<or> (\<exists>url opts nc w1 w2. nc_Connect N url opts w = (Inr nc, w1) \<and> w' = nc_Close N nc w2)"
  using assms
proof (cases rule: publisher_cases)
  case (bound n nc w1)
  with subjects_covered_by_stream [of "nats_SubjectPrefix n" raw q _ worker src] show ?thesis
    by (auto simp: queue_stream_def)
next
  case closed
  then show ?thesis by (simp only: sum.case) blast
qed auto

section \<open>A queue\<close>

text \<open>A server that counts its open connections and keeps the stream it was given.\<close>

definition mem_nats :: "(nat \<times> StreamConfig option, unit, unit) nats_client" where
  "mem_nats = \<lparr>nc_Connect = (\<lambda>url opts (n, s). (Inr (), (n + 1, s))), nc_JetStream = (\<lambda>_ _. returnC ()),
     nc_CreateOrUpdateStream = (\<lambda>_ c (n, _). (Inr (), (n, Some c))), nc_Close = (\<lambda>_ (n, s). (n - 1, s))\<rparr>"

definition mem_certs :: "unit cert_lib" where
  "mem_certs = \<lparr>valid_PEM = (\<lambda>_. True), LoadX509KeyPair = (\<lambda>_ _. Inr ())\<rparr>"

lemma mem_connected:
  "case NewNATSPublisher ref_k8s mem_certs (\<lambda>_. Inr []) mem_nats ref_queue (0, None) of
     (Inr (Some (_, n)), (open, Some c)) \<Rightarrow> open = 1 \<and> stream_Subjects c = StreamSubjects (nats_SubjectPrefix n) \<and> prefix_ok (nats_SubjectPrefix n)
   | _ \<Rightarrow> False"
  by code_simp

section \<open>Settings of the processes\<close>

record controller_settings =
  cset_BlockedEgressCIDRs :: "string list"
  cset_ServerlessQueueConfig :: NATSConfig
  cset_ServerlessWorker :: WorkerSidecarConfig
  cset_HTTP1Only :: bool

definition controller_manager_settings :: "'q k8s \<Rightarrow> ipv6_text \<Rightarrow> file_system \<Rightarrow> ControllerManagerConfig yaml \<Rightarrow> string \<Rightarrow> controller_settings res" where
  "controller_manager_settings K N fs decode configPath =
     andThen (LoadControllerManagerConfig fs decode configPath) (\<lambda>cfg.
     andThen (NormalizedBlockedEgressCIDRs N (cmc_BlockedEgressCIDRs cfg)) (\<lambda>blockedEgressCIDRs.
     andThen (NATSConfig_Normalized K (cmc_Serverless cfg)) (\<lambda>serverlessCfg.
     andThen (WorkerSidecarConfig_Normalized (cmc_ServerlessWorker cfg)) (\<lambda>serverlessWorkerCfg.
       Inr \<lparr>cset_BlockedEgressCIDRs = blockedEgressCIDRs, cset_ServerlessQueueConfig = serverlessCfg,
         cset_ServerlessWorker = serverlessWorkerCfg, cset_HTTP1Only = (\<not> cmc_EnableHTTP2 cfg)\<rparr>))))"

record api_settings =
  aset_ReportInterval :: duration
  aset_Serverless :: NATSConfig
  aset_Packages :: RuntimePackageCatalog
  aset_NvidiaMetricsEndpoint :: string
  aset_HTTPAddr :: string

definition runtime_api_settings :: "'q k8s \<Rightarrow> file_system \<Rightarrow> RuntimeAPIConfig yaml \<Rightarrow> string \<Rightarrow> api_settings res" where
  "runtime_api_settings K fs decode configPath =
     andThen (LoadRuntimeAPIConfig fs decode configPath) (\<lambda>cfg.
     andThen (parseReportInterval (rac_ReportInterval cfg)) (\<lambda>reportInterval.
     andThen (NATSConfig_Normalized K (rac_Serverless cfg)) (\<lambda>serverlessCfg.
       Inr \<lparr>aset_ReportInterval = reportInterval, aset_Serverless = serverlessCfg, aset_Packages = rac_Packages cfg,
         aset_NvidiaMetricsEndpoint = rac_NvidiaMetricsEndpoint cfg, aset_HTTPAddr = rac_HTTPAddr cfg\<rparr>)))"

text \<open>The reporter of the API process: a ticker, and at each tick a health snapshot for the log. The ticker panics on an interval
  that is not positive.\<close>

definition StatusReporter_Start :: "duration \<Rightarrow> duration option" where
  "StatusReporter_Start interval = NewTicker interval"

record status_line =
  sl_kubeConnected :: bool
  sl_nodeCount :: int
  sl_readyNodes :: int
  sl_gpuCapacity :: int
  sl_gpuAllocatable :: int
  sl_activeUnits :: int

definition StatusReporter_tick :: "'q k8s \<Rightarrow> 'f floats \<Rightarrow> ('f device_map \<Rightarrow> 'f device_map) \<Rightarrow> ('w, 'q, 'f) inventory_env \<Rightarrow> ('w, 'q) Service
    \<Rightarrow> 'w \<Rightarrow> status_line \<times> 'w" where
  "StatusReporter_tick K F order E S w =
     (case Health K F order E S w of (health, w') \<Rightarrow>
       (\<lparr>sl_kubeConnected = nis_Connected (hs_Nodes health), sl_nodeCount = nis_NodeCount (hs_Nodes health),
         sl_readyNodes = nis_ReadyNodeCount (hs_Nodes health), sl_gpuCapacity = nis_TotalGPUCapacity (hs_Nodes health),
         sl_gpuAllocatable = nis_TotalGPUAllocatable (hs_Nodes health), sl_activeUnits = hs_ActiveUnitCount health\<rparr>, w'))"

text \<open>What a controller manager that started works with: valid ranges and normalized blocks; and both processes default to one queue.\<close>

lemma started_controller:
  assumes "controller_manager_settings K N fs decode path = Inr s"
  shows "\<exists>cfg. LoadControllerManagerConfig fs decode path = Inr cfg \<and> NATSConfig_Normalized K (cmc_Serverless cfg) = Inr (cset_ServerlessQueueConfig s)
    \<and> cset_BlockedEgressCIDRs s = normalizeBlockedEgressCIDRs (cmc_BlockedEgressCIDRs cfg)
    \<and> (\<forall>c \<in> set (cset_BlockedEgressCIDRs s). ParseCIDR N c \<noteq> None)"
proof -
  from assms obtain cfg blocked where c: "LoadControllerManagerConfig fs decode path = Inr cfg"
    "NormalizedBlockedEgressCIDRs N (cmc_BlockedEgressCIDRs cfg) = Inr blocked" "NATSConfig_Normalized K (cmc_Serverless cfg) = Inr (cset_ServerlessQueueConfig s)"
    "cset_BlockedEgressCIDRs s = blocked" by (auto simp: controller_manager_settings_def result_simps)
  from normalized_ranges [OF c(2)] c show ?thesis by auto
qed

lemma one_default_queue: "cmc_Serverless DefaultControllerManagerConfig = rac_Serverless DefaultRuntimeAPIConfig"
  by (simp add: DefaultControllerManagerConfig_def DefaultRuntimeAPIConfig_def Let_def)

text \<open>A report interval of zero is accepted by the configuration and stops the process at the first line of the reporter.\<close>

lemma zero_report_interval_panics: "parseReportInterval ''0s'' = Inr 0 \<and> StatusReporter_Start 0 = None"
  by code_simp

theorem publisher_bound_to_stream_witness:
  "\<exists>nc n open c. NewNATSPublisher ref_k8s mem_certs (\<lambda>_. Inr []) mem_nats ref_queue (0, None) = (Inr (Some (nc, n)), (open, c))
    \<and> (\<exists>b \<in> set (stream_Subjects (queue_stream n)). subject_matches b (DispatchSubject (nats_SubjectPrefix n) ''req-1'' ''Unit.7''))"
proof -
  obtain r w' where c: "NewNATSPublisher ref_k8s mem_certs (\<lambda>_. Inr []) mem_nats ref_queue (0, None) = (r, w')"
    by (cases "NewNATSPublisher ref_k8s mem_certs (\<lambda>_. Inr []) mem_nats ref_queue (0, None)")
  with mem_connected obtain nc n where r: "r = Inr (Some (nc, n))" "prefix_ok (nats_SubjectPrefix n)"
    by (auto split: sum.splits option.splits prod.splits)
  have q: "NormalizeRequestID '' Req-1 '' = Inr ''req-1''" by code_simp
  from publisher_bound_to_stream [OF c, of "'' Req-1 ''" "''req-1''" "''Unit.7''"] r q c show ?thesis
    by (cases w') auto
qed

end
