(* ===== verification/Activator_Run.thy ===== *)
theory Activator_Run
  imports Worker_Creation
begin

text \<open>
  The activator as a process (\<^verbatim>\<open>New\<close>, \<^verbatim>\<open>Run\<close>, \<^verbatim>\<open>lifecycleLoop\<close> of \<^verbatim>\<open>pkg/activator/service.go\<close>): its consumers and its ticker are an open
  sequence of activities over the shared registry and table of workers. The theorem says what the process may do to the units of
  others: an activity that deletes anything deletes workers the activator created.
\<close>

section \<open>Activities\<close>

definition Activator_New :: LifecycleManager where
  "Activator_New = NewLifecycleManager NewWorkerRegistry"

text \<open>What can happen next: a delivered invocation with the answers of the two publishers, a delivered metric at a time, a tick with the
  order in which the groups are visited, a consumer that ends with an error, and the end of the context.\<close>

datatype activity =
    Invocation "unit res option" "unit res option" InvocationMessage
  | Metric gotime WorkerMetricMessage
  | Tick "GPUUnitRuntime list smap \<Rightarrow> GPUUnitRuntime list smap"
  | ConsumerFailed string error
  | ContextDone

definition reconcileLifecycle :: "'w RuntimeControl \<Rightarrow> (GPUUnitRuntime list smap \<Rightarrow> GPUUnitRuntime list smap) \<Rightarrow> LifecycleManager \<Rightarrow> 'w
    \<Rightarrow> LifecycleManager \<times> 'w" where
  "reconcileLifecycle R visit m w = snd (Reconcile visit R m w)"

definition lifecycleLoop_step :: "'w RuntimeControl \<Rightarrow> ActivatorConfig \<Rightarrow> (GPUUnitRuntime list smap \<Rightarrow> GPUUnitRuntime list smap)
    \<Rightarrow> LifecycleManager \<Rightarrow> 'w \<Rightarrow> LifecycleManager \<times> 'w" where
  "lifecycleLoop_step R cfg visit m w = (if LifecycleIntervalDuration cfg \<le> 0 then (m, w) else reconcileLifecycle R visit m w)"

text \<open>The result of the run is \<open>None\<close> while it goes on; the whole value is \<open>None\<close> after a panic.\<close>

fun activities :: "'w RuntimeControl \<Rightarrow> ActivatorConfig \<Rightarrow> activity list \<Rightarrow> LifecycleManager \<Rightarrow> 'w
    \<Rightarrow> (unit res option \<times> LifecycleManager \<times> 'w) option" where
  "activities R cfg [] m w = Some (None, m, w)"
| "activities R cfg (ContextDone # as) m w = Some (Some (Inr ()), m, w)"
| "activities R cfg (ConsumerFailed name e # as) m w = Some (Some (Inl (Wrap (''%s: %w'', [FS name]) e)), m, w)"
| "activities R cfg (Invocation dispatches resultPub invocation # as) m w =
     (case ProcessInvocation R cfg dispatches resultPub invocation (lm_registry m) w of
        None \<Rightarrow> None
      | Some (_, _, registry, w') \<Rightarrow> activities R cfg as (m\<lparr>lm_registry := registry\<rparr>) w')"
| "activities R cfg (Metric now metric # as) m w =
     activities R cfg as (m\<lparr>lm_workers := snd (HandleWorkerMetric now metric (lm_workers m))\<rparr>) w"
| "activities R cfg (Tick visit # as) m w =
     (case lifecycleLoop_step R cfg visit m w of (m', w') \<Rightarrow> activities R cfg as m' w')"

definition Activator_Run :: "'w RuntimeControl \<Rightarrow> ActivatorConfig \<Rightarrow> bool \<Rightarrow> activity list \<Rightarrow> 'w
    \<Rightarrow> (unit res option \<times> LifecycleManager \<times> 'w) option" where
  "Activator_Run R cfg queue as w =
     (if \<not> queue then Some (Some (Inl (ErrorText (msg ''activator queue is required''))), Activator_New, w)
      else activities R cfg as Activator_New w)"

section \<open>What a run does to the units\<close>

text \<open>A runtime on which reading and waiting leave the units alone: nobody else changes them meanwhile.\<close>

locale steady_runtime = runtime_store R units for R :: "'w RuntimeControl" and units +
  assumes get_keeps: "rc_Get R ns n w = (r, w') \<Longrightarrow> units w' = units w"
    and wait_keeps: "units (rc_Wait R d w) = units w"
begin

lemma poll_loop_units: "poll_loop R name poll rest n registry w = (r, registry', w') \<Longrightarrow> units w' = units w"
proof (induction n arbitrary: rest w)
  case 0
  obtain u w1 where g: "rc_Get R DefaultInstanceNamespace name w = (u, w1)" by fastforce
  from 0 get_keeps [OF g] g show ?case by (auto simp: poll_loop.simps [of R] wait_keeps Let_def split: if_splits)
next
  case (Suc n)
  obtain u w1 where g: "rc_Get R DefaultInstanceNamespace name w = (u, w1)" by fastforce
  from Suc.prems g Suc.IH [of "rest - poll" "rc_Wait R poll w1"] get_keeps [OF g] show ?case
    by (auto simp: poll_loop.simps [of R] wait_keeps Let_def split: if_splits)
qed

lemma wait_units: "waitForWorkerReady R cfg name registry w = Some (r, registry', w') \<Longrightarrow> units w' = units w"
  by (auto simp: waitForWorkerReady_def Let_def split: option.splits intro: poll_loop_units)

lemma list_units: "listServerlessUnits R q w = (r, w') \<Longrightarrow> units w' = units w"
  using list_ok [of w] list_err [of w] by (cases "rc_List R [] w"; cases "fst (rc_List R [] w)") (auto simp: listServerlessUnits_def)

lemma create_units: "rc_Create R req w = (r, w') \<Longrightarrow> set (units w) \<subseteq> set (units w')"
  using create_keeps [of req w r w'] set_mset_mono [of "mset (units w)" "mset (units w')"] by simp

lemma acquire_units:
  assumes "acquireWorker R cfg q i registry w = Some (r, registry', w')"
  shows "set (units w) \<subseteq> set (units w')"
proof -
  obtain us w1 where l: "listServerlessUnits R q w = (us, w1)" by fastforce
  have "set (units w) \<subseteq> set (units w')" if "units w1 = units w"
    using assms l that by (auto simp: acquireWorker_def Let_def dest!: wait_units create_units split: acquire_splits)
  with list_units [OF l] show ?thesis by blast
qed

lemma ProcessInvocation_units:
  "ProcessInvocation R cfg d p invocation registry w = Some (evs, r, registry', w') \<Longrightarrow> set (units w) \<subseteq> set (units w')"
  by (auto simp: ProcessInvocation_def Let_def dest!: acquire_units split: option.splits sum.splits prod.splits if_splits)

lemma Reconcile_keeps_others:
  assumes "Reconcile visit R m w = (r, m', w')" "mset (visit (groupServerlessUnits us)) = mset (groupServerlessUnits us)"
    and "rc_List R [] w = (Inr us, w0)" "v \<in> set (units w)" "\<not> isActivatorManagedWorker v"
  shows "v \<in> set (units w')"
proof -
  let ?gs = "visit (groupServerlessUnits us)"
  have us: "mset us = mset (units w)" "units w0 = units w" using list_ok [OF assms(3)] by simp_all
  obtain errs m1 w1 where e1: "reconcile_groups R ?gs m w0 = (errs, m1, w1)" by (rule prod_cases3)
  then have e: "reconcile_groups R ?gs m w0 = (errs, m', w')" using assms(1,3) by (simp add: Reconcile_def)
  have gs: "set ?gs = set (groupServerlessUnits us)" by (rule mset_eq_setD [OF assms(2)])
  have grp: "set g \<subseteq> set (units w)" if "(q, g) \<in> set ?gs" for q g
    using groups_of_listing [OF us(1), of q g] that gs by auto
  have "image_mset fst (mset ?gs) = image_mset fst (mset (groupServerlessUnits us))" by (rule arg_cong [OF assms(2)])
  then have "mset (map fst ?gs) = mset (map fst (groupServerlessUnits us))" by (simp only: mset_map)
  then have d: "distinct (map fst ?gs)" by (rule iffD2 [OF mset_eq_imp_distinct_iff serverless_group_keys])
  have c: "\<forall>q us u. (q, us) \<in> set ?gs \<longrightarrow> u \<in> set us \<longrightarrow> canonical_id (unit_id u)" using grp canonical by blast
  have "unit_id v \<notin> deleted_ids (lm_workers m) t q g" if "(q, g) \<in> set ?gs" for q g t
  proof
    assume "unit_id v \<in> deleted_ids (lm_workers m) t q g"
    then obtain u s where u: "(u, s) \<in> set (idle_deletions (lm_workers m) t q g)" "unit_id v = unit_id u" by auto
    from idle_deletions_member [OF u(1)] grp [OF that] have m: "u \<in> set (units w)" "isActivatorManagedWorker u" by blast+
    have "inj_on unit_id (set (units w))" using ids [of w] by (simp only: distinct_map)
    from inj_onD [OF this u(2) assms(4) m(1)] m(2) assms(5) show False by blast
  qed
  with reconcile_groups_survive [OF e d c] assms(4) show ?thesis unfolding us(2) by blast
qed

lemma step_keeps_others:
  assumes "lifecycleLoop_step R cfg visit m w = (m', w')" "\<And>g. mset (visit g) = mset g" "v \<in> set (units w)" "\<not> isActivatorManagedWorker v"
  shows "v \<in> set (units w')"
proof (cases "LifecycleIntervalDuration cfg \<le> 0")
  case False
  then obtain r where rec: "Reconcile visit R m w = (r, m', w')"
    using assms(1) by (cases "Reconcile visit R m w") (simp add: lifecycleLoop_step_def reconcileLifecycle_def)
  obtain l w0 where l: "rc_List R [] w = (l, w0)" by fastforce
  show ?thesis
  proof (cases l)
    case (Inl e)
    with rec l list_err [of w e w0] assms(3) show ?thesis by (simp add: Reconcile_def)
  next
    case (Inr us)
    show ?thesis by (rule Reconcile_keeps_others [OF rec assms(2) l [unfolded Inr] assms(3,4)])
  qed
qed (use assms in \<open>simp add: lifecycleLoop_step_def\<close>)

lemma activities_keep_others:
  assumes "activities R cfg as m w = Some (r, m', w')" "v \<in> set (units w)" "\<not> isActivatorManagedWorker v"
    and "\<forall>visit g. Tick visit \<in> set as \<longrightarrow> mset (visit g) = mset g"
  shows "v \<in> set (units w')"
  using assms
proof (induction as arbitrary: m w)
  case (Cons a as)
  note rest = Cons.IH [OF _ _ Cons.prems(3)]
  have visit: "\<forall>visit g. Tick visit \<in> set as \<longrightarrow> mset (visit g) = mset g" using Cons.prems(4) by simp
  show ?case
  proof (cases a)
    case (Invocation d p invocation)
    with Cons.prems(1) obtain evs res reg w1 where p: "ProcessInvocation R cfg d p invocation (lm_registry m) w = Some (evs, res, reg, w1)"
      "activities R cfg as (m\<lparr>lm_registry := reg\<rparr>) w1 = Some (r, m', w')" by (auto split: option.splits)
    from rest [OF p(2) _ visit] ProcessInvocation_units [OF p(1)] Cons.prems(2) show ?thesis by blast
  next
    case (Metric now metric)
    with Cons.prems(1,2) rest [OF _ _ visit] show ?thesis by simp
  next
    case (Tick visit')
    obtain m1 w1 where t: "lifecycleLoop_step R cfg visit' m w = (m1, w1)" by fastforce
    from Tick Cons.prems(4) have "mset (visit' g) = mset g" for g by simp
    then have "v \<in> set (units w1)" using step_keeps_others [OF t _ Cons.prems(2,3)] by blast
    with Tick t Cons.prems(1) rest [OF _ _ visit] show ?thesis by simp
  qed (use Cons.prems in auto)
qed simp

end

section \<open>The activator on the runtime service\<close>

locale steady_service = runtime_service A us ss S K hash now wait
  for A :: "'w OperatorClient" and us ss and S :: "('w, 'q) Service" and K hash now and wait +
  assumes wait_units: "us (wait d w) = us w"

sublocale steady_service \<subseteq> steady: steady_runtime "service_control K hash S now wait" "\<lambda>w. unit_views K (us w)"
proof
  fix w w' :: 'w and ns n r d
  show "unit_views K (us w') = unit_views K (us w)" if "rc_Get (service_control K hash S now wait) ns n w = (r, w')"
  proof -
    have "keeps state (GetGPUUnit K S ns n)" by (auto simp: GetGPUUnit_def operator)
    with that show ?thesis by (auto simp: service_control_def dest: keepsD)
  qed
  show "unit_views K (us (rc_Wait (service_control K hash S now wait) d w)) = unit_views K (us w)"
    by (simp add: service_control_def wait_units)
qed

context steady_service
begin

lemma run_keeps_others:
  assumes "activities (service_control K hash S now wait) cfg as m w = Some (r, m', w')" "v \<in> set (unit_views K (us w))"
    and "\<not> isActivatorManagedWorker v" "\<forall>visit g. Tick visit \<in> set as \<longrightarrow> mset (visit g) = mset g"
  shows "v \<in> set (unit_views K (us w'))"
  by (rule steady.activities_keep_others [OF assms])

end


section \<open>A run\<close>

definition idle_metric :: WorkerMetricMessage where
  "idle_metric = \<lparr>met_Version = InvocationVersion, met_ServerlessRequestID = ''llm'', met_WorkerName = ''unit-llm-worker-a'',
     met_WorkerNamespace = DefaultInstanceNamespace, met_InvocationID = [], met_EventType = WorkerMetricEventHeartbeat, met_Inflight = 0,
     met_StatusCode = 0, met_Error = None, met_ReportedAt = 1\<rparr>"

abbreviation mem_control :: "mem_world RuntimeControl" where
  "mem_control \<equiv> service_control ref_k8s mem_hash mem_service mw_Clock (\<lambda>d w. w\<lparr>mw_Clock := mw_Clock w + d\<rparr>)"

abbreviation mem_activities :: "activity list" where
  "mem_activities \<equiv> [Metric 1 idle_metric, Tick rev, ContextDone]"

lemma mem_activator_run:
  "case Activator_Run mem_control DefaultActivatorConfig True mem_activities mem_ready of
     None \<Rightarrow> False
   | Some (_, _, w) \<Rightarrow> map (\<lambda>u. meta_Name (unit_Meta u)) (mem_units w) = [''llm'', ''unit-llm-worker-b'']"
  by code_simp

lemma mem_template:
  "gpuUnitRuntimeFromObject ref_k8s (ready_unit ''llm'') \<in> set (unit_views ref_k8s (mem_units mem_ready))"
  "\<not> isActivatorManagedWorker (gpuUnitRuntimeFromObject ref_k8s (ready_unit ''llm''))"
  by code_simp+

lemma mem_clock_units: "mem_units (w\<lparr>mw_Clock := t\<rparr>) = mem_units w"
  by (simp add: mem_units_def)

interpretation mem_steady: steady_service mem_operator mem_units mem_storages mem_service ref_k8s mem_hash
  mw_Clock "\<lambda>d w. w\<lparr>mw_Clock := mw_Clock w + d\<rparr>"
  by unfold_locales (simp add: mem_clock_units)


end
