(* ===== verification/Process_Mains.thy ===== *)
theory Process_Mains
  imports Process_Startup Framework_Http Activator_Run
begin

text \<open>
  The main functions of the processes (\<^verbatim>\<open>cmd/activator\<close>, \<^verbatim>\<open>cmd/result-store\<close>, \<^verbatim>\<open>cmd/serverless-sidecar\<close>, \<^verbatim>\<open>cmd/runtime-api\<close>) up to the point where
  they hand over to their loops: each loads its configuration, connects, and builds its service. An error ends the process with a code.
  The clients of Kubernetes, made from the ambient configuration, are the parameter of the functions that use them. Every process of the
  serverless path opens one stream together with the others, and the lemmas are about what they agree on.
\<close>

section \<open>Starting\<close>

definition activator_start :: "'q k8s \<Rightarrow> 'c cert_lib \<Rightarrow> file_system \<Rightarrow> ActivatorConfig yaml \<Rightarrow> 'w OperatorClient res \<Rightarrow> ('w, 'c, 'n) nats_client \<Rightarrow> string
    \<Rightarrow> ('w, ActivatorConfig \<times> ('n \<times> NATSConfig) option \<times> ('w, 'q) Service) call" where
  "activator_start K L fs decode newClient N configPath =
     bindC (liftC (LoadActivatorConfig K fs decode configPath)) (\<lambda>cfg.
     bindC (liftC newClient) (\<lambda>operatorClient.
     bindC (NewNATSPublisher K L fs N (ac_Serverless cfg)) (\<lambda>queue.
       returnC (cfg, queue, activator_runtime operatorClient))))"

definition result_store_start :: "'q k8s \<Rightarrow> 'c cert_lib \<Rightarrow> file_system \<Rightarrow> ResultConsumerConfig yaml \<Rightarrow> ('w, 'c, 'n) nats_client \<Rightarrow> ('w, 'c, 's) Gocql \<Rightarrow> string
    \<Rightarrow> ('w, ResultConsumerConfig \<times> ('n \<times> NATSConfig) option \<times> ScyllaConfig \<times> 's) call" where
  "result_store_start K L fs decode N G configPath =
     bindC (liftC (LoadResultConsumerConfig K fs decode configPath)) (\<lambda>cfg.
     bindC (NewNATSPublisher K L fs N (rcc_Serverless cfg)) (\<lambda>queue.
     bindC (NewScyllaStore L fs G (rcc_Scylla cfg)) (\<lambda>store.
       returnC (cfg, queue, store))))"

record sidecar_process =
  sp_Config :: SidecarConfig
  sp_Framework :: UDSFrameworkClient
  sp_Addr :: string

definition sidecar_start :: "'q k8s \<Rightarrow> 'c cert_lib \<Rightarrow> file_system \<Rightarrow> (string \<Rightarrow> string) \<Rightarrow> ('w, 'c, 'n) nats_client
    \<Rightarrow> ('w, sidecar_process \<times> 'n \<times> NATSConfig) call" where
  "sidecar_start K L fs env N =
     bindC (liftC (LoadConfigFromEnv K env)) (\<lambda>cfg.
     bindC (NewNATSPublisher K L fs N (sc_Serverless cfg)) (\<lambda>queue. case queue of
       None \<Rightarrow> failC (ErrorText (msg ''serverless queue publisher is required''))
     | Some q \<Rightarrow> returnC (\<lparr>sp_Config = cfg, sp_Framework = NewUDSFrameworkClient cfg, sp_Addr = '':'' @ FormatInt (sc_HealthPort cfg) 10\<rparr>, q)))"

text \<open>The health server of the sidecar answers one path.\<close>

definition healthHandler :: "string \<Rightarrow> int \<times> string" where
  "healthHandler p = (if mux_match ''/healthz'' p then (200, ''ok'') else (404, ''404 page not found''))"

text \<open>The API goes on without a queue: its settings, its service and the publisher, which may be absent.\<close>

definition runtime_api_start :: "'q k8s \<Rightarrow> 'c cert_lib \<Rightarrow> file_system \<Rightarrow> RuntimeAPIConfig yaml \<Rightarrow> (('w, 'q) KubeClient \<times> 'w OperatorClient) res \<Rightarrow> ('w, 'c, 'n) nats_client
    \<Rightarrow> string \<Rightarrow> ('w, api_settings \<times> ('w, 'q) Service \<times> ('n \<times> NATSConfig) option) call" where
  "runtime_api_start K L fs decode newClients N configPath =
     bindC (liftC (runtime_api_settings K fs decode configPath)) (\<lambda>settings.
     bindC (liftC newClients) (\<lambda>(kubeClient, operatorClient).
     bindC (liftC (runtime_api_service K kubeClient operatorClient (aset_Packages settings))) (\<lambda>svc.
     bindC (NewNATSPublisher K L fs N (aset_Serverless settings)) (\<lambda>serverlessPublisher.
       returnC (settings, svc, serverlessPublisher)))))"

section \<open>Serving\<close>

text \<open>A listener ends with an error, before or after the context ends. The proxy returns the error in both cases, but its context is the
  background context, which never ends.\<close>

datatype served = ListenerEnded error | ContextEnded error

definition ErrServerClosed :: error where "ErrServerClosed = ErrorText (msg ''http: Server closed'')"

definition listen_result :: "error \<Rightarrow> unit res" where
  "listen_result e = (if errors_Is e ErrServerClosed then Inr () else Inl e)"

fun RunHTTPServer :: "served \<Rightarrow> unit res" where
  "RunHTTPServer (ContextEnded e) = Inr ()"
| "RunHTTPServer (ListenerEnded e) = listen_result e"

fun proxy_serve :: "served \<Rightarrow> unit res" where
  "proxy_serve (ContextEnded e) = listen_result e"
| "proxy_serve (ListenerEnded e) = listen_result e"

section \<open>The queue of the processes\<close>

text \<open>The check for an address in the configuration of a process still holds for the publisher, which normalizes once more; so the
  processes of the serverless path never run with an absent queue (which their own checks, on an interface that holds a nil pointer, would
  not see).\<close>

lemma enabled_again: "NATSConfig_Normalized K c = Inr n \<Longrightarrow> NATSConfig_Enabled n = NATSConfig_Enabled c"
  by (auto simp: NATSConfig_Normalized_def NATSConfig_Enabled_def Let_def result_simps split: if_splits)

lemma enabled_publisher:
  assumes "NewNATSPublisher K L fs N cfg w = (Inr p, w')" "NATSConfig_Enabled cfg"
  shows "\<exists>nc n w1. p = Some (nc, n) \<and> NATSConfig_Normalized K cfg = Inr n \<and> nc_CreateOrUpdateStream N nc (queue_stream n) w1 = (Inr (), w')"
  using assms(1)
proof (cases rule: publisher_cases)
  case (unset n)
  with enabled_again [of K cfg n] assms(2) show ?thesis by simp
qed auto

lemma activator_queue_enabled: "LoadActivatorConfig K fs decode path = Inr cfg \<Longrightarrow> NATSConfig_Enabled (ac_Serverless cfg)"
  by (auto simp: LoadActivatorConfig_def ActivatorConfig_Normalized_def Let_def result_simps split: if_splits)

lemma result_queue_enabled: "LoadResultConsumerConfig K fs decode path = Inr cfg \<Longrightarrow> NATSConfig_Enabled (rcc_Serverless cfg)"
  by (auto simp: LoadResultConsumerConfig_def ResultConsumerConfig_Normalized_def Let_def result_simps split: if_splits)

lemma started_activator:
  assumes "activator_start K L fs decode newClient N path w = (Inr (cfg, queue, S), w')"
  shows "Publisher_Enabled queue \<and> svc_kube S = None"
proof -
  from assms obtain A where A: "LoadActivatorConfig K fs decode path = Inr cfg" "newClient = Inr A"
      "NewNATSPublisher K L fs N (ac_Serverless cfg) w = (Inr queue, w')" "S = activator_runtime A"
    by (auto simp: activator_start_def bindC_def split: sum.splits prod.splits)
  from enabled_publisher [OF A(3) activator_queue_enabled [OF A(1)]] A(4) show ?thesis
    by (auto simp: Publisher_Enabled_def activator_runtime_def Service_New_def)
qed

lemma started_result_store:
  assumes "result_store_start K L fs decode N G path w = (Inr (cfg, queue, store), w')"
  shows "Publisher_Enabled queue"
proof -
  from assms obtain v where A: "LoadResultConsumerConfig K fs decode path = Inr cfg"
      "NewNATSPublisher K L fs N (rcc_Serverless cfg) w = (Inr queue, v)"
    by (auto simp: result_store_start_def bindC_def split: sum.splits prod.splits)
  from enabled_publisher [OF A(2) result_queue_enabled [OF A(1)]] show ?thesis by (auto simp: Publisher_Enabled_def)
qed

text \<open>A sidecar opens the stream with what its environment carries, which is the name and the prefix; the other settings are defaults.
  Opening updates a stream that exists, so the start of a worker resets the replicas, the age and the window the platform was
  configured with.\<close>

lemma sidecar_queue:
  assumes "SidecarConfig_Normalized K env c = Inr cfg"
  shows "NATSConfig_Normalized K (sc_Serverless c) = Inr (sc_Serverless cfg) \<and> NATSConfig_Enabled (sc_Serverless cfg)"
  using assms unfolding SidecarConfig_Normalized_def Let_def
  by (simp only: guard_Inr_iff andThen_Inr_iff mapErr_Inr_iff) (elim exE conjE, clarsimp)

lemma unset_settings:
  assumes "NATSConfig_Normalized K c = Inr n"
  shows "nats_StreamReplicas c \<le> 1 \<Longrightarrow> nats_StreamReplicas n = 1"
    "nats_StreamMaxAge c \<in> {[], DefaultStreamMaxAge} \<Longrightarrow> nats_StreamMaxAge n = DefaultStreamMaxAge"
    "nats_DuplicatesWindow c \<in> {[], DefaultDuplicatesWindow} \<Longrightarrow> nats_DuplicatesWindow n = DefaultDuplicatesWindow"
  using assms unfolding NATSConfig_Normalized_def Let_def
  by (simp only: guard_Inr_iff andThen_Inr_iff mapErr_Inr_iff, elim exE conjE, force simp: or_default_def)+

lemma sidecar_resets_stream:
  assumes "sidecar_start K L fs env N w = (Inr (p, nc, n), w')"
  shows "\<exists>w1. nc_CreateOrUpdateStream N nc (queue_stream n) w1 = (Inr (), w') \<and> stream_Replicas (queue_stream n) = 1
    \<and> stream_MaxAge (queue_stream n) = parsed_duration DefaultStreamMaxAge \<and> stream_Duplicates (queue_stream n) = parsed_duration DefaultDuplicatesWindow"
proof -
  from assms have c: "LoadConfigFromEnv K env = Inr (sp_Config p)"
      "NewNATSPublisher K L fs N (sc_Serverless (sp_Config p)) w = (Inr (Some (nc, n)), w')"
    by (auto simp: sidecar_start_def bindC_def split: sum.splits prod.splits option.splits)
  note q = sidecar_queue [OF c(1) [unfolded LoadConfigFromEnv_def]]
  then have d: "nats_StreamReplicas (sc_Serverless (sp_Config p)) = 1" "nats_StreamMaxAge (sc_Serverless (sp_Config p)) = DefaultStreamMaxAge"
      "nats_DuplicatesWindow (sc_Serverless (sp_Config p)) = DefaultDuplicatesWindow"
    using unset_settings by fastforce+
  from q enabled_publisher [OF c(2)] obtain w1 where n: "NATSConfig_Normalized K (sc_Serverless (sp_Config p)) = Inr n"
      "nc_CreateOrUpdateStream N nc (queue_stream n) w1 = (Inr (), w')" by auto
  from unset_settings [OF n(1)] d
  have "nats_StreamReplicas n = 1 \<and> nats_StreamMaxAge n = DefaultStreamMaxAge \<and> nats_DuplicatesWindow n = DefaultDuplicatesWindow" by simp
  with n(2) show ?thesis by (auto simp: queue_stream_def)
qed

text \<open>On the queue of the processes: whatever stream was there, after a worker started it has one replica.\<close>

lemma worker_start_lowers_replicas:
  assumes "sidecar_start K L fs env mem_nats w = (Inr p, w')"
  shows "map_option stream_Replicas (snd w') = Some 1"
proof -
  obtain s nc n where "p = (s, nc, n)" by (cases p)
  with sidecar_resets_stream assms show ?thesis by (fastforce simp: mem_nats_def split: prod.splits)
qed

definition sample_queue :: NATSConfig where
  "sample_queue = \<lparr>nats_URL = ''nats://nats:4222'', nats_SubjectPrefix = [], nats_StreamName = [], nats_StreamReplicas = 0, nats_StreamMaxAge = [],
     nats_ConnectTimeout = [], nats_DuplicatesWindow = [], nats_Auth = zero_auth, nats_TLS = zero_tls,
     nats_NetworkPolicyTarget = \<lparr>npt_Namespace = [], npt_PodLabels = []\<rparr>\<rparr>"

lemma sample_queue_opens:
  "case NATSConfig_Normalized ref_k8s sample_queue of
     Inl _ \<Rightarrow> False
   | Inr n \<Rightarrow> (case NewNATSPublisher ref_k8s mem_certs (\<lambda>_. Inr []) mem_nats n (1, None) of (Inr (Some _), _) \<Rightarrow> True | _ \<Rightarrow> False)"
  by code_simp

lemma sample_worker_starts: "isOk (fst (sidecar_start ref_k8s mem_certs (\<lambda>_. Inr []) (sample_env ''10s'') mem_nats (1, None)))"
proof -
  obtain cfg where c: "LoadConfigFromEnv ref_k8s (sample_env ''10s'') = Inr cfg" using sample_env_loads by (auto simp: isOk_iff)
  from sidecar_queue [OF c [unfolded LoadConfigFromEnv_def]] have "NATSConfig_Normalized ref_k8s sample_queue = Inr (sc_Serverless cfg)"
    by (simp add: sample_queue_def sample_env_def)
  with sample_queue_opens c show ?thesis
    by (auto simp: sidecar_start_def bindC_def isOk_iff split: sum.splits prod.splits option.splits)
qed

end
